(* ===== verification/Avb_Prelude.thy ===== *)
theory Avb_Prelude
  imports Main "HOL-Library.Word" "HOL-Library.Monad_Syntax"
begin

unbundle bit_operations_syntax

text \<open>
  Shared vocabulary of the development: the machine integer types, the byte order of the
  host and the conversions between words and byte lists, bounds-checked access to a byte
  buffer, the result type of C code that may hit undefined behaviour or may not return,
  and generic facts about lists that several components use.
\<close>

section \<open>Machine integers\<close>

type_synonym u8 = "8 word"
type_synonym u16 = "16 word"
type_synonym u32 = "32 word"
type_synonym u64 = "64 word"

named_theorems mem_simps \<open>reading back what was written to a byte buffer\<close>
named_theorems result_simps \<open>unfolding of the C result type and its sequencing\<close>

lemma ucast_32_64_32 [simp]: "(ucast (ucast (v :: u32) :: u64) :: u32) = v"
  by (rule bit_word_eqI) (simp add: bit_simps)

section \<open>Results of C code\<close>

text \<open>
  \<open>Returns x\<close>: the code returns with \<open>x\<close>; \<open>UB\<close>: it reads or writes memory that is not
  allocated (a freed node, a null pointer); \<open>NoReturn\<close>: it loops for ever or blocks on a
  lock that is never released.
\<close>

datatype 'a c_result = Returns 'a | UB | NoReturn

fun bindC :: "'a c_result \<Rightarrow> ('a \<Rightarrow> 'b c_result) \<Rightarrow> 'b c_result" where
  "bindC (Returns x) f = f x"
| "bindC UB f = UB"
| "bindC NoReturn f = NoReturn"

declare bindC.simps [result_simps]

lemma bindC_Returns_right [simp]: "bindC m Returns = m"
  by (cases m) simp_all

lemma bindC_assoc: "bindC (bindC m f) g = bindC m (\<lambda>x. bindC (f x) g)"
  by (cases m) simp_all

lemma bindC_eq_Returns_iff:
  "bindC m f = Returns y \<longleftrightarrow> (\<exists>x. m = Returns x \<and> f x = Returns y)"
  by (cases m) simp_all

text \<open>
  Partial and total correctness: \<open>on_return r P\<close> says that \<open>P\<close> holds of the result if there is
  one, \<open>returns r P\<close> that there is one and \<open>P\<close> holds of it.
\<close>

definition on_return :: "'a c_result \<Rightarrow> ('a \<Rightarrow> bool) \<Rightarrow> bool" where
  "on_return r P = (case r of Returns x \<Rightarrow> P x | UB \<Rightarrow> True | NoReturn \<Rightarrow> True)"

definition returns :: "'a c_result \<Rightarrow> ('a \<Rightarrow> bool) \<Rightarrow> bool" where
  "returns r P = (case r of Returns x \<Rightarrow> P x | UB \<Rightarrow> False | NoReturn \<Rightarrow> False)"

lemma on_return_simps [simp]:
  "on_return (Returns x) P = P x" "on_return UB P" "on_return NoReturn P"
  by (simp_all add: on_return_def)

lemma returns_simps [simp]:
  "returns (Returns x) P = P x" "\<not> returns UB P" "\<not> returns NoReturn P"
  by (simp_all add: returns_def)

lemma on_return_bind [simp]: "on_return (bindC m f) P = on_return m (\<lambda>x. on_return (f x) P)"
  by (cases m) simp_all

lemma returns_bind [simp]: "returns (bindC m f) P = returns m (\<lambda>x. returns (f x) P)"
  by (cases m) simp_all

lemma on_return_mono: "on_return r P \<Longrightarrow> (\<And>x. P x \<Longrightarrow> Q x) \<Longrightarrow> on_return r Q"
  by (cases r) simp_all

lemma returns_mono: "returns r P \<Longrightarrow> (\<And>x. P x \<Longrightarrow> Q x) \<Longrightarrow> returns r Q"
  by (cases r) simp_all

lemma on_return_all: "(\<And>x. P x) \<Longrightarrow> on_return r P"
  by (cases r) simp_all

lemma returns_on_return: "returns r P \<Longrightarrow> on_return r P"
  by (cases r) simp_all

lemma on_return_iff: "on_return r P \<longleftrightarrow> (\<forall>x. r = Returns x \<longrightarrow> P x)"
  by (cases r) simp_all

lemma returns_iff: "returns r P \<longleftrightarrow> (\<exists>x. r = Returns x \<and> P x)"
  by (cases r) simp_all

section \<open>Bytes\<close>

text \<open>
  The byte order of the machine the code is compiled for. \<open>le_bytes n w\<close> are the \<open>n\<close> low
  bytes of \<open>w\<close>, least significant first; \<open>be_bytes\<close> the same bytes in network order.
\<close>

datatype endian = LE | BE

fun le_bytes :: "nat \<Rightarrow> 'a::len word \<Rightarrow> u8 list" where
  "le_bytes 0 w = []"
| "le_bytes (Suc n) w = ucast w # le_bytes n (drop_bit 8 w)"

fun le_word :: "u8 list \<Rightarrow> 'a::len word" where
  "le_word [] = 0"
| "le_word (b # bs) = ucast b OR push_bit 8 (le_word bs)"

definition be_bytes :: "nat \<Rightarrow> 'a::len word \<Rightarrow> u8 list" where
  "be_bytes n w = rev (le_bytes n w)"

definition be_word :: "u8 list \<Rightarrow> 'a::len word" where
  "be_word bs = le_word (rev bs)"

lemma length_le_bytes [simp]: "length (le_bytes n w) = n"
  by (induction n arbitrary: w) simp_all

lemma length_be_bytes [simp]: "length (be_bytes n w) = n"
  by (simp add: be_bytes_def)

lemma le_word_le_bytes: "le_word (le_bytes n w) = take_bit (8 * n) w"
proof (induction n arbitrary: w)
  case 0
  show ?case by simp
next
  case (Suc n)
  show ?case
    unfolding le_bytes.simps le_word.simps Suc.IH
    by (rule bit_word_eqI) (auto simp: bit_simps not_le)
qed

lemma bit_le_word_bound: "bit (le_word bs :: 'a::len word) k \<Longrightarrow> k < 8 * length bs"
proof (induction bs arbitrary: k)
  case Nil
  then show ?case by simp
next
  case (Cons c cs)
  show ?case
    using Cons.prems Cons.IH [of "k - 8"] by (auto simp: bit_simps dest: bit_imp_le_length)
qed

lemma drop_bit_le_word_Cons:
  assumes "8 * length (b # bs) \<le> LENGTH('a)"
  shows "drop_bit 8 (le_word (b # bs) :: 'a::len word) = le_word bs"
proof (rule bit_word_eqI)
  fix k
  assume "k < LENGTH('a)"
  then show "bit (drop_bit 8 (le_word (b # bs) :: 'a word)) k = bit (le_word bs :: 'a word) k"
    using assms bit_imp_le_length [of b "8 + k"]
      bit_le_word_bound [where bs = bs and k = k and 'a = 'a]
    by (auto simp: bit_simps)
qed

lemma le_bytes_le_word:
  "8 * length bs \<le> LENGTH('a) \<Longrightarrow> le_bytes (length bs) (le_word bs :: 'a::len word) = bs"
proof (induction bs)
  case Nil
  show ?case by simp
next
  case (Cons b bs)
  have "ucast (le_word (b # bs) :: 'a word) = b"
    using Cons.prems by (intro bit_word_eqI) (auto simp: bit_simps)
  then show ?case
    using Cons drop_bit_le_word_Cons [OF Cons.prems] by simp
qed

lemma be_word_be_bytes: "be_word (be_bytes n w) = take_bit (8 * n) w"
  by (simp add: be_word_def be_bytes_def le_word_le_bytes)

lemma be_bytes_be_word:
  "8 * length bs \<le> LENGTH('a) \<Longrightarrow> be_bytes (length bs) (be_word bs :: 'a::len word) = bs"
  using le_bytes_le_word [of "rev bs", where 'a = 'a] by (simp add: be_word_def be_bytes_def)

section \<open>Byte order of the host\<close>

text \<open>
  A 16 or 32 bit object in memory is its bytes in the host's order; \<open>htons\<close> and \<open>htonl\<close>
  reverse the bytes on a little endian host and are the identity on a big endian one.
\<close>

definition host_bytes :: "endian \<Rightarrow> nat \<Rightarrow> 'a::len word \<Rightarrow> u8 list" where
  "host_bytes e n w = (case e of LE \<Rightarrow> le_bytes n w | BE \<Rightarrow> be_bytes n w)"

definition host_word :: "endian \<Rightarrow> u8 list \<Rightarrow> 'a::len word" where
  "host_word e bs = (case e of LE \<Rightarrow> le_word bs | BE \<Rightarrow> be_word bs)"

definition htons :: "endian \<Rightarrow> u16 \<Rightarrow> u16" where
  "htons e v = (case e of LE \<Rightarrow> le_word (be_bytes 2 v) | BE \<Rightarrow> v)"

definition htonl :: "endian \<Rightarrow> u32 \<Rightarrow> u32" where
  "htonl e v = (case e of LE \<Rightarrow> le_word (be_bytes 4 v) | BE \<Rightarrow> v)"

lemma length_host_bytes [simp]: "length (host_bytes e n w) = n"
  by (cases e) (simp_all add: host_bytes_def)

lemma host_bytes_htons: "host_bytes e 2 (htons e v) = be_bytes 2 v"
  using le_bytes_le_word [of "be_bytes 2 v", where 'a = 16]
  by (cases e) (simp_all add: host_bytes_def htons_def)

lemma host_bytes_htonl: "host_bytes e 4 (htonl e v) = be_bytes 4 v"
  using le_bytes_le_word [of "be_bytes 4 v", where 'a = 32]
  by (cases e) (simp_all add: host_bytes_def htonl_def)

lemma be_bytes_le_word_swap:
  "length bs = n \<Longrightarrow> 8 * n \<le> LENGTH('a) \<Longrightarrow> be_bytes n (le_word bs :: 'a::len word) = rev bs"
  using le_bytes_le_word [of bs, where 'a = 'a] by (auto simp: be_bytes_def)

lemma htons_host_word:
  "length bs = 2 \<Longrightarrow> htons e (host_word e bs) = be_word bs"
  by (cases e) (simp_all add: htons_def host_word_def be_bytes_le_word_swap be_word_def)

lemma htonl_host_word:
  "length bs = 4 \<Longrightarrow> htonl e (host_word e bs) = be_word bs"
  by (cases e) (simp_all add: htonl_def host_word_def be_bytes_le_word_swap be_word_def)

lemma be_word_be_bytes_16 [simp]: "be_word (be_bytes 2 (v :: u16)) = v"
  by (simp add: be_word_be_bytes take_bit_word_eq_self)

lemma be_word_be_bytes_32 [simp]: "be_word (be_bytes 4 (v :: u32)) = v"
  by (simp add: be_word_be_bytes take_bit_word_eq_self)

section \<open>Bounds-checked buffers\<close>

text \<open>
  A buffer is the list of its bytes. \<open>rdn off n m\<close> reads \<open>n\<close> bytes at \<open>off\<close> and
  \<open>wrn off bs m\<close> stores \<open>bs\<close> there; both are \<open>None\<close> when the access leaves the buffer.
\<close>

type_synonym mem = "u8 list"

definition rdn :: "nat \<Rightarrow> nat \<Rightarrow> mem \<Rightarrow> u8 list option" where
  "rdn off n m = (if off + n \<le> length m then Some (take n (drop off m)) else None)"

definition wrn :: "nat \<Rightarrow> u8 list \<Rightarrow> mem \<Rightarrow> mem option" where
  "wrn off bs m =
    (if off + length bs \<le> length m then Some (take off m @ bs @ drop (off + length bs) m) else None)"

lemma rdn_None_iff: "rdn off n m = None \<longleftrightarrow> length m < off + n"
  by (auto simp: rdn_def)

lemma wrn_None_iff: "wrn off bs m = None \<longleftrightarrow> length m < off + length bs"
  by (auto simp: wrn_def)

lemma length_rdn: "rdn off n m = Some bs \<Longrightarrow> length bs = n"
  by (auto simp: rdn_def split: if_splits)

lemma length_wrn: "wrn off bs m = Some m' \<Longrightarrow> length m' = length m"
  by (auto simp: wrn_def split: if_splits)

lemma rdn_wrn_same [mem_simps]: "wrn off bs m = Some m' \<Longrightarrow> length bs = n \<Longrightarrow> rdn off n m' = Some bs"
  by (auto simp: wrn_def rdn_def split: if_splits)

lemma nth_wrn:
  "wrn off bs m = Some m' \<Longrightarrow> i < length m \<Longrightarrow>
    m' ! i = (if off \<le> i \<and> i < off + length bs then bs ! (i - off) else m ! i)"
  by (auto simp: wrn_def nth_append split: if_splits)

lemma rdn_wrn_other [mem_simps]:
  assumes "wrn off bs m = Some m'" "off' + n \<le> off \<or> off + length bs \<le> off'"
  shows "rdn off' n m' = rdn off' n m"
proof -
  have len: "length m' = length m" using assms(1) by (rule length_wrn)
  have "take n (drop off' m') = take n (drop off' m)" if "off' + n \<le> length m"
    using that assms(2) len by (intro nth_equalityI) (auto simp: nth_wrn [OF assms(1)])
  then show ?thesis by (simp add: rdn_def len)
qed

lemma wrn_rdn_id [mem_simps]: "rdn off n m = Some bs \<Longrightarrow> wrn off bs m = Some m"
  by (auto simp: rdn_def wrn_def min_def split: if_splits)
    (metis append_take_drop_id add.commute drop_drop)

lemma wrn_wrn_same [mem_simps]:
  "wrn off bs m = Some m' \<Longrightarrow> length cs = length bs \<Longrightarrow> wrn off cs m' = wrn off cs m"
  by (auto simp: wrn_def split: if_splits)

lemma wrn_append: "length a = off \<Longrightarrow> length b = length bs \<Longrightarrow> wrn off bs (a @ b @ c) = Some (a @ bs @ c)"
  by (auto simp: wrn_def)

section \<open>Lists\<close>

text \<open>The first index whose element satisfies a predicate, as the search loops of the C code.\<close>

fun find_index :: "('a \<Rightarrow> bool) \<Rightarrow> 'a list \<Rightarrow> nat option" where
  "find_index P [] = None"
| "find_index P (x # xs) = (if P x then Some 0 else map_option Suc (find_index P xs))"

lemma find_index_None_iff: "find_index P xs = None \<longleftrightarrow> (\<forall>x\<in>set xs. \<not> P x)"
  by (induction xs) auto

lemma find_index_SomeD:
  "find_index P xs = Some i \<Longrightarrow> i < length xs \<and> P (xs ! i) \<and> (\<forall>j<i. \<not> P (xs ! j))"
proof (induction xs arbitrary: i)
  case Nil
  then show ?case by simp
next
  case (Cons x xs)
  then show ?case by (auto split: if_splits simp: nth_Cons split: nat.splits)
qed

lemma find_index_eq_Some_iff:
  "find_index P xs = Some i \<longleftrightarrow> i < length xs \<and> P (xs ! i) \<and> (\<forall>j<i. \<not> P (xs ! j))"
proof (induction xs arbitrary: i)
  case Nil
  then show ?case by simp
next
  case (Cons x xs)
  then show ?case by (cases i) (auto simp: less_Suc_eq_0_disj)
qed

section \<open>C integers and block copies\<close>

text \<open>
  A value of type \<open>int\<close> that an operation computes: overflow is undefined. \<open>blit\<close> copies \<open>n\<close>
  elements between two arrays; a negative length or a range outside an array is undefined.
\<close>

definition INT_MAX :: int where "INT_MAX = 2 ^ 31 - 1"

definition c_int :: "int \<Rightarrow> int c_result" where
  "c_int x = (if - INT_MAX - 1 \<le> x \<and> x \<le> INT_MAX then Returns x else UB)"

definition blit :: "'a list \<Rightarrow> int \<Rightarrow> 'a list \<Rightarrow> int \<Rightarrow> int \<Rightarrow> 'a list c_result" where
  "blit dst i src j n =
    (if 0 \<le> i \<and> 0 \<le> j \<and> 0 \<le> n \<and> i + n \<le> int (length dst) \<and> j + n \<le> int (length src)
     then Returns (take (nat i) dst @ take (nat n) (drop (nat j) src) @ drop (nat (i + n)) dst)
     else UB)"

lemma c_int_ok: "- INT_MAX - 1 \<le> x \<Longrightarrow> x \<le> INT_MAX \<Longrightarrow> c_int x = Returns x"
  by (simp add: c_int_def)

lemma blit_ok:
  "i + n \<le> length dst \<Longrightarrow> j + n \<le> length src \<Longrightarrow>
    blit dst (int i) src (int j) (int n) = Returns (take i dst @ take n (drop j src) @ drop (i + n) dst)"
  by (simp add: blit_def nat_int_add)

end
