(* ===== verification/Byte_Field.thy ===== *)
theory Byte_Field
  imports Avb_Prelude
begin

text \<open>
  The contract of one field of a structure that lies in memory: what a getter and a setter at
  fixed offsets promise (\<open>byte_field\<close>), and that fields which do not overlap do not disturb
  one another (\<open>disjoint_fields\<close>). The frame headers and the overlaid members of the
  notification union are instances.
\<close>

section \<open>The contract of one field of a structure\<close>

locale byte_field =
  fixes getf :: "mem \<Rightarrow> 'v option"
    and setf :: "'v \<Rightarrow> mem \<Rightarrow> mem option"
    and valid :: "'v \<Rightarrow> bool"
    and off :: nat
    and width :: nat
  assumes set_defined: "valid v \<Longrightarrow> setf v m \<noteq> None \<longleftrightarrow> off + width \<le> length m"
    and get_defined: "getf m \<noteq> None \<longleftrightarrow> off + width \<le> length m"
    and get_valid: "getf m = Some v \<Longrightarrow> valid v"
    and get_set: "valid v \<Longrightarrow> setf v m = Some m' \<Longrightarrow> getf m' = Some v"
    and set_get: "getf m = Some v \<Longrightarrow> setf v m = Some m"
    and set_set: "valid v \<Longrightarrow> valid w \<Longrightarrow> setf v m = Some m' \<Longrightarrow> setf w m' = setf w m"
    and set_length: "valid v \<Longrightarrow> setf v m = Some m' \<Longrightarrow> length m' = length m"
    and set_frame: "valid v \<Longrightarrow> setf v m = Some m' \<Longrightarrow> i < length m \<Longrightarrow>
      i < off \<or> off + width \<le> i \<Longrightarrow> m' ! i = m ! i"
    and get_local: "length m' = length m \<Longrightarrow>
      (\<forall>i. off \<le> i \<and> i < off + width \<longrightarrow> i < length m \<longrightarrow> m' ! i = m ! i) \<Longrightarrow> getf m' = getf m"
begin

lemma set_inj: "valid v \<Longrightarrow> valid w \<Longrightarrow> setf v m = Some m' \<Longrightarrow> setf w m = Some m' \<Longrightarrow> v = w"
  by (metis get_set option.inject)

lemma set_outside:
  assumes "valid v" "setf v m = Some m'" "off' + n \<le> off \<or> off + width \<le> off'"
  shows "rdn off' n m' = rdn off' n m"
proof -
  have len: "length m' = length m" using assms(1,2) by (rule set_length)
  have "take n (drop off' m') = take n (drop off' m)" if "off' + n \<le> length m"
    using that assms len by (intro nth_equalityI) (auto simp: set_frame)
  then show ?thesis by (simp add: rdn_def len)
qed

end

text \<open>Two fields that do not overlap.\<close>

locale disjoint_fields =
  a: byte_field getf setf valid off width + b: byte_field getg setg validg offg widthg
  for getf :: "mem \<Rightarrow> 'v option" and setf and valid and off and width
    and getg :: "mem \<Rightarrow> 'w option" and setg and validg and offg and widthg +
  assumes apart: "off + width \<le> offg \<or> offg + widthg \<le> off"
begin

lemma get_other: "valid v \<Longrightarrow> setf v m = Some m' \<Longrightarrow> getg m' = getg m"
  using apart by (intro b.get_local) (auto simp: a.set_length intro!: a.set_frame)

lemma other_get: "validg v \<Longrightarrow> setg v m = Some m' \<Longrightarrow> getf m' = getf m"
  using apart by (intro a.get_local) (auto simp: b.set_length intro!: b.set_frame)

lemma both_read_back:
  assumes "valid v" "validg w" "setf v m = Some m1" "setg w m1 = Some m2"
  shows "getf m2 = Some v \<and> getg m2 = Some w"
  using assms other_get a.get_set b.get_set by metis

end

section \<open>Encoded fields\<close>

text \<open>A field stored as the bytes \<open>enc v\<close> and read back with \<open>dec\<close> meets the contract.\<close>

lemma byte_field_of_encoding:
  assumes getf: "\<And>m. getf m = map_option dec (rdn off width m)"
    and setf: "\<And>v m. valid v \<Longrightarrow> setf v m = wrn off (enc v) m"
    and len: "\<And>v. valid v \<Longrightarrow> length (enc v) = width"
    and dec_enc: "\<And>v. valid v \<Longrightarrow> dec (enc v) = v"
    and enc_dec: "\<And>bs. length bs = width \<Longrightarrow> enc (dec bs) = bs \<and> valid (dec bs)"
  shows "byte_field getf setf valid off width"
proof
  show "setf v m \<noteq> None \<longleftrightarrow> off + width \<le> length m" if "valid v" for v m
    using that by (auto simp: setf len wrn_def)
  show "getf m \<noteq> None \<longleftrightarrow> off + width \<le> length m" for m
    by (simp add: getf rdn_def)
  show "valid v" if "getf m = Some v" for m v
    using that enc_dec length_rdn by (auto simp: getf)
  show "getf m' = Some v" if "valid v" "setf v m = Some m'" for v m m'
    using that by (simp add: setf getf len dec_enc rdn_wrn_same)
  show "setf v m = Some m" if "getf m = Some v" for m v
    using that enc_dec length_rdn by (auto simp: getf setf wrn_rdn_id)
  show "setf w m' = setf w m" if "valid v" "valid w" "setf v m = Some m'" for v w m m'
    using that by (simp add: setf wrn_wrn_same len)
  show "length m' = length m" if "valid v" "setf v m = Some m'" for v m m'
    using that by (auto simp: setf dest: length_wrn)
  show "m' ! i = m ! i"
    if "valid v" "setf v m = Some m'" "i < length m" "i < off \<or> off + width \<le> i" for v m m' i
    using that by (auto simp: setf nth_wrn len)
  show "getf m' = getf m"
    if "length m' = length m"
      "\<forall>i. off \<le> i \<and> i < off + width \<longrightarrow> i < length m \<longrightarrow> m' ! i = m ! i" for m m'
  proof -
    have "take width (drop off m') = take width (drop off m)" if "off + width \<le> length m"
      using \<open>length m' = length m\<close> that
        \<open>\<forall>i. off \<le> i \<and> i < off + width \<longrightarrow> i < length m \<longrightarrow> m' ! i = m ! i\<close>
      by (intro nth_equalityI) auto
    then show ?thesis using that(1) by (simp add: getf rdn_def)
  qed
qed

section \<open>Objects in host byte order\<close>

definition ld32 :: "endian \<Rightarrow> nat \<Rightarrow> mem \<Rightarrow> u32 option" where
  "ld32 e off m = map_option (host_word e) (rdn off 4 m)"

definition st32 :: "endian \<Rightarrow> nat \<Rightarrow> u32 \<Rightarrow> mem \<Rightarrow> mem option" where
  "st32 e off v m = wrn off (host_bytes e 4 v) m"

definition ld64 :: "endian \<Rightarrow> nat \<Rightarrow> mem \<Rightarrow> u64 option" where
  "ld64 e off m = map_option (host_word e) (rdn off 8 m)"

definition st64 :: "endian \<Rightarrow> nat \<Rightarrow> u64 \<Rightarrow> mem \<Rightarrow> mem option" where
  "st64 e off v m = wrn off (host_bytes e 8 v) m"

lemma host_word_host_bytes:
  "LENGTH('a) = 8 * n \<Longrightarrow> host_word e (host_bytes e n (v :: 'a::len word)) = v"
  by (cases e) (simp_all add: host_word_def host_bytes_def le_word_le_bytes be_word_be_bytes
      take_bit_word_eq_self)

lemma host_bytes_host_word:
  "length bs = n \<Longrightarrow> LENGTH('a) = 8 * n \<Longrightarrow> host_bytes e n (host_word e bs :: 'a::len word) = bs"
  using le_bytes_le_word [of bs, where 'a = 'a] be_bytes_be_word [of bs, where 'a = 'a]
  by (cases e) (auto simp: host_word_def host_bytes_def)

lemma byte_field_32: "byte_field (ld32 e off) (st32 e off) (\<lambda>_. True) off 4"
  by (rule byte_field_of_encoding [where enc = "host_bytes e 4" and dec = "host_word e"])
    (simp_all add: ld32_def st32_def host_word_host_bytes host_bytes_host_word)

lemma byte_field_64: "byte_field (ld64 e off) (st64 e off) (\<lambda>_. True) off 8"
  by (rule byte_field_of_encoding [where enc = "host_bytes e 8" and dec = "host_word e"])
    (simp_all add: ld64_def st64_def host_word_host_bytes host_bytes_host_word)

interpretation w32: byte_field "ld32 e off" "st32 e off" "\<lambda>_. True" off 4 for e off
  by (rule byte_field_32)

interpretation w64: byte_field "ld64 e off" "st64 e off" "\<lambda>_. True" off 8 for e off
  by (rule byte_field_64)

end
