(* ===== verification/Avtp.thy ===== *)
theory Avtp
  imports Byte_Field
begin

unbundle bit_operations_syntax

text \<open>
  The AVTP frame library (\<open>lib/avtp/avtp.h\<close>, \<open>lib/avtp/avtp.c\<close>) and the header builder of
  the simple talker (\<open>demo/simple/packet.c\<close>). A frame is a bounds-checked buffer; an accessor
  that leaves it is \<open>None\<close>. The host byte order is the argument \<open>e\<close>, so that the pointer casts
  and the \<open>htons\<close>/\<open>htonl\<close> calls of the macros are both in the model. Every accessor pair of the
  header interprets the locale \<open>byte_field\<close>.
\<close>

section \<open>Constants\<close>

definition ETH_P_1722 :: u16 where "ETH_P_1722 = 0x22F0"
definition AVTP_OFFSET :: nat where "AVTP_OFFSET = 18"
definition AVTP_PAYLOAD_OFFSET :: nat where "AVTP_PAYLOAD_OFFSET = 24 + AVTP_OFFSET"
definition AVTP_CVF_PAYLOAD_OFFSET :: nat where "AVTP_CVF_PAYLOAD_OFFSET = AVTP_PAYLOAD_OFFSET"
definition AVTP_STREAMID_SIZE :: nat where "AVTP_STREAMID_SIZE = 8"

definition AVTP_SUBTYPE_CVF :: u8 where "AVTP_SUBTYPE_CVF = 3"
definition AVTP_CVF_FORMAT_EXPERIMENTAL :: u8 where "AVTP_CVF_FORMAT_EXPERIMENTAL = 0xff"

section \<open>Accessors\<close>

text \<open>The getters and setters the three macro families define, at an offset of the frame.\<close>

definition get_uint8 :: "nat \<Rightarrow> mem \<Rightarrow> u8 option" where
  "get_uint8 off data = do { bs \<leftarrow> rdn off 1 data; Some (bs ! 0) }"

definition set_uint8 :: "nat \<Rightarrow> u8 \<Rightarrow> mem \<Rightarrow> mem option" where
  "set_uint8 off v data = wrn off [v] data"

definition get_uint16 :: "endian \<Rightarrow> nat \<Rightarrow> mem \<Rightarrow> u16 option" where
  "get_uint16 e off data = do { bs \<leftarrow> rdn off 2 data; Some (htons e (host_word e bs)) }"

definition set_uint16 :: "endian \<Rightarrow> nat \<Rightarrow> u16 \<Rightarrow> mem \<Rightarrow> mem option" where
  "set_uint16 e off v data = wrn off (host_bytes e 2 (htons e v)) data"

definition get_uint32 :: "endian \<Rightarrow> nat \<Rightarrow> mem \<Rightarrow> u32 option" where
  "get_uint32 e off data = do { bs \<leftarrow> rdn off 4 data; Some (htonl e (host_word e bs)) }"

definition set_uint32 :: "endian \<Rightarrow> nat \<Rightarrow> u32 \<Rightarrow> mem \<Rightarrow> mem option" where
  "set_uint32 e off v data = wrn off (host_bytes e 4 (htonl e v)) data"

text \<open>Arrays of bytes are copied one by one from or to the caller's array.\<close>

definition get_array :: "nat \<Rightarrow> nat \<Rightarrow> mem \<Rightarrow> u8 list option" where
  "get_array n off data = rdn off n data"

definition set_array :: "nat \<Rightarrow> nat \<Rightarrow> u8 list \<Rightarrow> mem \<Rightarrow> mem option" where
  "set_array n off value data = do { v \<leftarrow> rdn 0 n value; wrn off v data }"

text \<open>IEEE 802.1Q header.\<close>

definition get_ieee8021q_tpid :: "endian \<Rightarrow> mem \<Rightarrow> u16 option" where
  "get_ieee8021q_tpid e = get_uint16 e 12"
definition set_ieee8021q_tpid :: "endian \<Rightarrow> u16 \<Rightarrow> mem \<Rightarrow> mem option" where
  "set_ieee8021q_tpid e = set_uint16 e 12"
definition get_ieee8021q_tci :: "endian \<Rightarrow> mem \<Rightarrow> u16 option" where
  "get_ieee8021q_tci e = get_uint16 e 14"
definition set_ieee8021q_tci :: "endian \<Rightarrow> u16 \<Rightarrow> mem \<Rightarrow> mem option" where
  "set_ieee8021q_tci e = set_uint16 e 14"
definition get_ieee8021q_ethtype :: "endian \<Rightarrow> mem \<Rightarrow> u16 option" where
  "get_ieee8021q_ethtype e = get_uint16 e 16"
definition set_ieee8021q_ethtype :: "endian \<Rightarrow> u16 \<Rightarrow> mem \<Rightarrow> mem option" where
  "set_ieee8021q_ethtype e = set_uint16 e 16"
definition get_ieee8021q_dest :: "mem \<Rightarrow> u8 list option" where
  "get_ieee8021q_dest = get_array 6 0"
definition set_ieee8021q_dest :: "u8 list \<Rightarrow> mem \<Rightarrow> mem option" where
  "set_ieee8021q_dest = set_array 6 0"
definition get_ieee8021q_source :: "mem \<Rightarrow> u8 list option" where
  "get_ieee8021q_source = get_array 6 6"
definition set_ieee8021q_source :: "u8 list \<Rightarrow> mem \<Rightarrow> mem option" where
  "set_ieee8021q_source = set_array 6 6"

text \<open>IEEE 1722 header.\<close>

definition get_avtp_subtype :: "mem \<Rightarrow> u8 option" where
  "get_avtp_subtype = get_uint8 (0 + AVTP_OFFSET)"
definition set_avtp_subtype :: "u8 \<Rightarrow> mem \<Rightarrow> mem option" where
  "set_avtp_subtype = set_uint8 (0 + AVTP_OFFSET)"
definition get_avtp_sequence_num :: "mem \<Rightarrow> u8 option" where
  "get_avtp_sequence_num = get_uint8 (2 + AVTP_OFFSET)"
definition set_avtp_sequence_num :: "u8 \<Rightarrow> mem \<Rightarrow> mem option" where
  "set_avtp_sequence_num = set_uint8 (2 + AVTP_OFFSET)"
definition get_avtp_timestamp :: "endian \<Rightarrow> mem \<Rightarrow> u32 option" where
  "get_avtp_timestamp e = get_uint32 e (12 + AVTP_OFFSET)"
definition set_avtp_timestamp :: "endian \<Rightarrow> u32 \<Rightarrow> mem \<Rightarrow> mem option" where
  "set_avtp_timestamp e = set_uint32 e (12 + AVTP_OFFSET)"
definition get_avtp_stream_data_length :: "endian \<Rightarrow> mem \<Rightarrow> u16 option" where
  "get_avtp_stream_data_length e = get_uint16 e (20 + AVTP_OFFSET)"
definition set_avtp_stream_data_length :: "endian \<Rightarrow> u16 \<Rightarrow> mem \<Rightarrow> mem option" where
  "set_avtp_stream_data_length e = set_uint16 e (20 + AVTP_OFFSET)"
definition get_avtp_stream_id :: "mem \<Rightarrow> u8 list option" where
  "get_avtp_stream_id = get_array 8 (4 + AVTP_OFFSET)"
definition set_avtp_stream_id :: "u8 list \<Rightarrow> mem \<Rightarrow> mem option" where
  "set_avtp_stream_id = set_array 8 (4 + AVTP_OFFSET)"

lemmas accessor_defs =
  get_ieee8021q_tpid_def set_ieee8021q_tpid_def get_ieee8021q_tci_def set_ieee8021q_tci_def
  get_ieee8021q_ethtype_def set_ieee8021q_ethtype_def get_ieee8021q_dest_def
  set_ieee8021q_dest_def get_ieee8021q_source_def set_ieee8021q_source_def
  get_avtp_subtype_def set_avtp_subtype_def get_avtp_sequence_num_def set_avtp_sequence_num_def
  get_avtp_timestamp_def set_avtp_timestamp_def get_avtp_stream_data_length_def
  set_avtp_stream_data_length_def get_avtp_stream_id_def set_avtp_stream_id_def

section \<open>Every accessor pair meets the contract\<close>

lemma byte_field_uint8: "byte_field (get_uint8 off) (set_uint8 off) (\<lambda>_. True) off 1"
  by (rule byte_field_of_encoding [where enc = "\<lambda>v. [v]" and dec = "\<lambda>bs. bs ! 0"])
    (auto simp: get_uint8_def set_uint8_def length_Suc_conv split: bind_splits)

lemma be_bytes_be_word_16: "length bs = 2 \<Longrightarrow> be_bytes 2 (be_word bs :: u16) = bs"
  using be_bytes_be_word [of bs, where 'a = 16] by simp

lemma be_bytes_be_word_32: "length bs = 4 \<Longrightarrow> be_bytes 4 (be_word bs :: u32) = bs"
  using be_bytes_be_word [of bs, where 'a = 32] by simp

lemma get_uint16_be: "get_uint16 e off m = map_option be_word (rdn off 2 m)"
  by (auto simp: get_uint16_def htons_host_word length_rdn split: bind_splits)

lemma get_uint32_be: "get_uint32 e off m = map_option be_word (rdn off 4 m)"
  by (auto simp: get_uint32_def htonl_host_word length_rdn split: bind_splits)

lemma byte_field_uint16: "byte_field (get_uint16 e off) (set_uint16 e off) (\<lambda>_. True) off 2"
  by (rule byte_field_of_encoding [where enc = "be_bytes 2" and dec = be_word])
    (simp_all add: get_uint16_be set_uint16_def host_bytes_htons be_bytes_be_word_16)

lemma byte_field_uint32: "byte_field (get_uint32 e off) (set_uint32 e off) (\<lambda>_. True) off 4"
  by (rule byte_field_of_encoding [where enc = "be_bytes 4" and dec = be_word])
    (simp_all add: get_uint32_be set_uint32_def host_bytes_htonl be_bytes_be_word_32)

lemma byte_field_array:
  "byte_field (get_array n off) (set_array n off) (\<lambda>v. length v = n) off n"
  by (rule byte_field_of_encoding [where enc = "\<lambda>v. v" and dec = "\<lambda>bs. bs"])
    (auto simp: get_array_def set_array_def rdn_def option.map_id0 split: bind_splits)

lemmas byte_fields =
  byte_field_uint8 byte_field_uint16 byte_field_uint32 byte_field_array

interpretation dest: byte_field get_ieee8021q_dest set_ieee8021q_dest "\<lambda>v. length v = 6" 0 6
  unfolding accessor_defs by (rule byte_fields)
interpretation source: byte_field get_ieee8021q_source set_ieee8021q_source "\<lambda>v. length v = 6" 6 6
  unfolding accessor_defs by (rule byte_fields)
interpretation tpid: byte_field "get_ieee8021q_tpid e" "set_ieee8021q_tpid e" "\<lambda>_. True" 12 2 for e
  unfolding accessor_defs by (rule byte_fields)
interpretation tci: byte_field "get_ieee8021q_tci e" "set_ieee8021q_tci e" "\<lambda>_. True" 14 2 for e
  unfolding accessor_defs by (rule byte_fields)
interpretation ethtype: byte_field "get_ieee8021q_ethtype e" "set_ieee8021q_ethtype e" "\<lambda>_. True" 16 2 for e
  unfolding accessor_defs by (rule byte_fields)
interpretation subtype: byte_field get_avtp_subtype set_avtp_subtype "\<lambda>_. True" 18 1
  using byte_field_uint8 [of 18] by (simp add: accessor_defs AVTP_OFFSET_def)
interpretation seqnum: byte_field get_avtp_sequence_num set_avtp_sequence_num "\<lambda>_. True" 20 1
  using byte_field_uint8 [of 20] by (simp add: accessor_defs AVTP_OFFSET_def)
interpretation stream_id: byte_field get_avtp_stream_id set_avtp_stream_id "\<lambda>v. length v = 8" 22 8
  using byte_field_array [of 8 22] by (simp add: accessor_defs AVTP_OFFSET_def)
interpretation timestamp: byte_field "get_avtp_timestamp e" "set_avtp_timestamp e" "\<lambda>_. True" 30 4 for e
  using byte_field_uint32 [of e 30] by (simp add: accessor_defs AVTP_OFFSET_def)
interpretation data_length: byte_field "get_avtp_stream_data_length e" "set_avtp_stream_data_length e"
    "\<lambda>_. True" 38 2 for e
  using byte_field_uint16 [of e 38] by (simp add: accessor_defs AVTP_OFFSET_def)

text \<open>The fields the talker updates for every packet it sends do not disturb one another.\<close>

interpretation seq_ts: disjoint_fields get_avtp_sequence_num set_avtp_sequence_num "\<lambda>_. True" 20 1
    "get_avtp_timestamp e" "set_avtp_timestamp e" "\<lambda>_. True" 30 4 for e
  by unfold_locales simp
interpretation seq_id: disjoint_fields get_avtp_sequence_num set_avtp_sequence_num "\<lambda>_. True" 20 1
    get_avtp_stream_id set_avtp_stream_id "\<lambda>v. length v = 8" 22 8
  by unfold_locales simp
interpretation id_ts: disjoint_fields get_avtp_stream_id set_avtp_stream_id "\<lambda>v. length v = 8" 22 8
    "get_avtp_timestamp e" "set_avtp_timestamp e" "\<lambda>_. True" 30 4 for e
  by unfold_locales simp

section \<open>Header templates\<close>

text \<open>
  A byte of bit-fields: the compiler fills it from the least significant bit on a little
  endian target and from the most significant bit on a big endian one, in declaration order;
  \<open>avtp.c\<close> declares the fields in opposite orders under \<open>#if\<close>.
\<close>

fun bitfields_lsb :: "(nat \<times> u8) list \<Rightarrow> u8" where
  "bitfields_lsb [] = 0"
| "bitfields_lsb ((w, v) # fs) = take_bit w v OR push_bit w (bitfields_lsb fs)"

definition bitfields :: "endian \<Rightarrow> (nat \<times> u8) list \<Rightarrow> u8" where
  "bitfields e fs = (case e of LE \<Rightarrow> bitfields_lsb fs | BE \<Rightarrow> bitfields_lsb (rev fs))"

record avtp_stream_hdr =
  sh_subtype :: u8
  sh_sv :: u8
  sh_version :: u8
  sh_mr :: u8
  sh_f_s_d :: u8
  sh_tv :: u8
  sh_sequence_num :: u8
  sh_format_specific_data_1 :: u8
  sh_tu :: u8
  sh_stream_id :: u64
  sh_avtp_timestamp :: u32
  sh_format_specific_data_2 :: u32
  sh_stream_data_length :: u16
  sh_format_specific_data_3 :: u16

definition avtp_stream_hdr_bytes :: "endian \<Rightarrow> avtp_stream_hdr \<Rightarrow> u8 list" where
  "avtp_stream_hdr_bytes e h =
    [sh_subtype h,
     bitfields e (case e of
        BE \<Rightarrow> [(1, sh_sv h), (3, sh_version h), (1, sh_mr h), (2, sh_f_s_d h), (1, sh_tv h)]
      | LE \<Rightarrow> [(1, sh_tv h), (2, sh_f_s_d h), (1, sh_mr h), (3, sh_version h), (1, sh_sv h)]),
     sh_sequence_num h,
     bitfields e (case e of
        BE \<Rightarrow> [(7, sh_format_specific_data_1 h), (1, sh_tu h)]
      | LE \<Rightarrow> [(1, sh_tu h), (7, sh_format_specific_data_1 h)])]
    @ host_bytes e 8 (sh_stream_id h)
    @ host_bytes e 4 (sh_avtp_timestamp h)
    @ host_bytes e 4 (sh_format_specific_data_2 h)
    @ host_bytes e 2 (sh_stream_data_length h)
    @ host_bytes e 2 (sh_format_specific_data_3 h)"

record avtp_cvf_hdr =
  cvf_subtype :: u8
  cvf_sv :: u8
  cvf_version :: u8
  cvf_mr :: u8
  cvf_reserved0 :: u8
  cvf_tv :: u8
  cvf_sequence_num :: u8
  cvf_reserved1 :: u8
  cvf_tu :: u8
  cvf_stream_id :: u64
  cvf_avtp_timestamp :: u32
  cvf_format :: u8
  cvf_format_subtype :: u8
  cvf_reserved2 :: u16
  cvf_stream_data_length :: u16
  cvf_M :: u8
  cvf_evt :: u8
  cvf_reserved3 :: u8
  cvf_reserved4 :: u8

definition avtp_cvf_hdr_bytes :: "endian \<Rightarrow> avtp_cvf_hdr \<Rightarrow> u8 list" where
  "avtp_cvf_hdr_bytes e h =
    [cvf_subtype h,
     bitfields e (case e of
        BE \<Rightarrow> [(1, cvf_sv h), (3, cvf_version h), (1, cvf_mr h), (2, cvf_reserved0 h), (1, cvf_tv h)]
      | LE \<Rightarrow> [(1, cvf_tv h), (2, cvf_reserved0 h), (1, cvf_mr h), (3, cvf_version h), (1, cvf_sv h)]),
     cvf_sequence_num h,
     bitfields e (case e of
        BE \<Rightarrow> [(7, cvf_reserved1 h), (1, cvf_tu h)]
      | LE \<Rightarrow> [(1, cvf_tu h), (7, cvf_reserved1 h)])]
    @ host_bytes e 8 (cvf_stream_id h)
    @ host_bytes e 4 (cvf_avtp_timestamp h)
    @ [cvf_format h, cvf_format_subtype h]
    @ host_bytes e 2 (cvf_reserved2 h)
    @ host_bytes e 2 (cvf_stream_data_length h)
    @ [bitfields e (case e of
        BE \<Rightarrow> [(1, cvf_M h), (4, cvf_evt h), (3, cvf_reserved3 h)]
      | LE \<Rightarrow> [(3, cvf_reserved3 h), (4, cvf_evt h), (1, cvf_M h)]),
       cvf_reserved4 h]"

definition avtp_stream_hdr_tmpl :: avtp_stream_hdr where
  "avtp_stream_hdr_tmpl =
    \<lparr> sh_subtype = 0, sh_sv = 1, sh_version = 0, sh_mr = 0, sh_f_s_d = 0, sh_tv = 1,
      sh_sequence_num = 0, sh_format_specific_data_1 = 0, sh_tu = 0, sh_stream_id = 0,
      sh_avtp_timestamp = 0, sh_format_specific_data_2 = 0, sh_stream_data_length = 0,
      sh_format_specific_data_3 = 0 \<rparr>"

definition avtp_cvf_experimental_hdr_tmpl :: avtp_cvf_hdr where
  "avtp_cvf_experimental_hdr_tmpl =
    \<lparr> cvf_subtype = AVTP_SUBTYPE_CVF, cvf_sv = 1, cvf_version = 0, cvf_mr = 0,
      cvf_reserved0 = 0, cvf_tv = 1, cvf_sequence_num = 0, cvf_reserved1 = 0, cvf_tu = 0,
      cvf_stream_id = 0, cvf_avtp_timestamp = 0, cvf_format = AVTP_CVF_FORMAT_EXPERIMENTAL,
      cvf_format_subtype = 0, cvf_reserved2 = 0, cvf_stream_data_length = 0,
      cvf_M = 0, cvf_evt = 0, cvf_reserved3 = 0, cvf_reserved4 = 0 \<rparr>"

definition copy_avtp_stream_template :: "endian \<Rightarrow> mem \<Rightarrow> mem option" where
  "copy_avtp_stream_template e data = wrn 0 (avtp_stream_hdr_bytes e avtp_stream_hdr_tmpl) data"

definition copy_avtp_cvf_experimental_template :: "endian \<Rightarrow> mem \<Rightarrow> mem option" where
  "copy_avtp_cvf_experimental_template e data =
    wrn AVTP_OFFSET (avtp_cvf_hdr_bytes e avtp_cvf_experimental_hdr_tmpl) data"

section \<open>The header builder of the simple talker\<close>

definition ETH_P_8021Q :: u16 where "ETH_P_8021Q = 0x8100"
definition ETH_ALEN :: nat where "ETH_ALEN = 6"
definition ETHOVERHEAD :: nat where "ETHOVERHEAD = 14 + 4"
definition ETHFRAMEMTU_MAX :: nat where "ETHFRAMEMTU_MAX = 1500"
definition ETHFRAMELEN_MAX :: nat where "ETHFRAMELEN_MAX = ETHFRAMEMTU_MAX + ETHOVERHEAD"

record avtp_simple_param =
  dest_addr :: "u8 list"
  source_addr :: "u8 list"
  payload_size :: u32
  uniqueid :: u32
  SRpriority :: u32
  SRvid :: u32

definition avtp_simple_header_build ::
  "endian \<Rightarrow> mem \<Rightarrow> avtp_simple_param \<Rightarrow> (u32 \<times> mem) option" where
  "avtp_simple_header_build e dst param = do {
    dst \<leftarrow> wrn 0 (replicate ETHFRAMELEN_MAX 0) dst;
    dst \<leftarrow> set_ieee8021q_dest (dest_addr param) dst;
    dst \<leftarrow> set_ieee8021q_source (source_addr param) dst;
    let cfi = (0 :: u8);
    dst \<leftarrow> set_ieee8021q_tpid e ETH_P_8021Q dst;
    dst \<leftarrow> set_ieee8021q_tci e
      (ucast (push_bit 13 (SRpriority param) OR push_bit 12 (ucast cfi) OR SRvid param)) dst;
    dst \<leftarrow> set_ieee8021q_ethtype e ETH_P_1722 dst;
    let hlen = of_nat AVTP_CVF_PAYLOAD_OFFSET;
    let len = payload_size param;
    addr \<leftarrow> rdn 0 ETH_ALEN (source_addr param);
    let streamid = addr @ [ucast (drop_bit 8 (uniqueid param AND 0xff00)),
                           ucast (uniqueid param AND 0x00ff)];
    dst \<leftarrow> copy_avtp_cvf_experimental_template e dst;
    dst \<leftarrow> set_avtp_stream_id streamid dst;
    dst \<leftarrow> set_avtp_stream_data_length e (ucast len) dst;
    Some (hlen + len, dst)
  }"

section \<open>Templates and the built header\<close>

lemma cvf_template_bytes:
  "avtp_cvf_hdr_bytes e avtp_cvf_experimental_hdr_tmpl =
    [3, 0x81, 0, 0] @ replicate 8 0 @ replicate 4 0 @ [0xff, 0, 0, 0] @ [0, 0] @ [0, 0]"
  by (rule endian.exhaust [of e]; simp only:; code_simp)

lemma stream_template_bytes:
  "avtp_stream_hdr_bytes e avtp_stream_hdr_tmpl = [0, 0x81, 0, 0] @ replicate 20 0"
  by (rule endian.exhaust [of e]; simp only:; code_simp)

lemma avtp_cvf_hdr_bytes_portable_flags:
  "take 4 (avtp_cvf_hdr_bytes LE h) = take 4 (avtp_cvf_hdr_bytes BE h)"
  by (simp add: avtp_cvf_hdr_bytes_def bitfields_def)

definition simple_header_layout :: "avtp_simple_param \<Rightarrow> u8 list" where
  "simple_header_layout p =
    dest_addr p @ source_addr p @ [0x81, 0x00]
    @ be_bytes 2 (ucast (push_bit 13 (SRpriority p) OR SRvid p) :: u16) @ [0x22, 0xF0]
    @ [3, 0x81, 0, 0]
    @ (source_addr p @ [ucast (drop_bit 8 (uniqueid p AND 0xff00)), ucast (uniqueid p AND 0x00ff)])
    @ replicate 4 0 @ [0xff, 0, 0, 0]
    @ be_bytes 2 (ucast (payload_size p) :: u16) @ [0, 0]"

lemma length_simple_header_layout:
  "length (dest_addr p) = 6 \<Longrightarrow> length (source_addr p) = 6 \<Longrightarrow> length (simple_header_layout p) = 42"
  by (simp add: simple_header_layout_def)

lemma set_uint16_be: "set_uint16 e off v m = wrn off (be_bytes 2 v) m"
  by (simp add: set_uint16_def host_bytes_htons)

lemma set_array_exact: "length v = n \<Longrightarrow> set_array n off v m = wrn off v m"
  by (auto simp: set_array_def rdn_def)

lemma replicate_split: "n = a + b \<Longrightarrow> replicate n x = replicate a x @ replicate b x"
  by (simp add: replicate_add)

text \<open>
  C17: The header builder clears a full frame and writes exactly the 42 byte header layout for
  every parameter and on both byte orders, and returns 42 plus the payload size.
\<close>
theorem simple_header_build_layout:
  assumes "1518 \<le> length dst" "length (dest_addr p) = 6" "length (source_addr p) = 6"
  shows "avtp_simple_header_build e dst p =
    Some (42 + payload_size p, simple_header_layout p @ replicate 1476 0 @ drop 1518 dst)"
proof -
  let ?d = "dest_addr p" and ?s = "source_addr p" and ?z = "\<lambda>n. replicate n (0 :: u8)"
  let ?tci = "be_bytes 2 (ucast (push_bit 13 (SRpriority p) OR SRvid p) :: u16)"
  let ?id = "?s @ [ucast (drop_bit 8 (uniqueid p AND 0xff00)), ucast (uniqueid p AND 0x00ff)] :: u8 list"
  let ?len = "be_bytes 2 (ucast (payload_size p) :: u16)"
  let ?r = "drop 1518 dst"
  have w0: "wrn 0 (?z 1518) dst = Some (?z 6 @ ?z 6 @ ?z 2 @ ?z 2 @ ?z 2 @ ?z 24 @ ?z 1476 @ ?r)"
    using assms(1) by (simp add: wrn_def flip: replicate_add append_assoc)
  have w1: "wrn 0 ?d (?z 6 @ x) = Some (?d @ x)" for x
    using wrn_append [of "[]" 0 "?z 6" ?d x] assms by simp
  have w2: "wrn 6 ?s (?d @ ?z 6 @ x) = Some (?d @ ?s @ x)" for x
    using wrn_append [of ?d 6 "?z 6" ?s x] assms by simp
  have w3: "wrn 12 b (?d @ ?s @ ?z 2 @ x) = Some (?d @ ?s @ b @ x)" if "length b = 2" for b x
    using wrn_append [of "?d @ ?s" 12 "?z 2" b x] assms that by simp
  have w4: "wrn 14 b (?d @ ?s @ a @ ?z 2 @ x) = Some (?d @ ?s @ a @ b @ x)"
    if "length a = 2" "length b = 2" for a b x
    using wrn_append [of "?d @ ?s @ a" 14 "?z 2" b x] assms that by simp
  have w5: "wrn 16 b (?d @ ?s @ a @ c @ ?z 2 @ x) = Some (?d @ ?s @ a @ c @ b @ x)"
    if "length a = 2" "length c = 2" "length b = 2" for a b c x
    using wrn_append [of "?d @ ?s @ a @ c" 16 "?z 2" b x] assms that by simp
  have w6: "wrn 18 (h @ i @ u @ v @ y @ z) (?d @ ?s @ a @ c @ t @ ?z 24 @ x) =
      Some (?d @ ?s @ a @ c @ t @ h @ i @ u @ v @ y @ z @ x)"
    if "length a = 2" "length c = 2" "length t = 2" "length (h @ i @ u @ v @ y @ z) = 24"
    for a c t h i u v y z x
    using wrn_append [of "?d @ ?s @ a @ c @ t" 18 "?z 24" "h @ i @ u @ v @ y @ z" x] assms that by simp
  have w7: "wrn 22 ?id (?d @ ?s @ a @ c @ t @ h @ ?z 8 @ x) = Some (?d @ ?s @ a @ c @ t @ h @ ?id @ x)"
    if "length a = 2" "length c = 2" "length t = 2" "length h = 4" for a c t h x
    using wrn_append [of "?d @ ?s @ a @ c @ t @ h" 22 "?z 8" ?id x] assms that by simp
  have w8: "wrn 38 b (?d @ ?s @ a @ c @ t @ h @ ?id @ u @ v @ y @ x) =
      Some (?d @ ?s @ a @ c @ t @ h @ ?id @ u @ v @ b @ x)"
    if "length a = 2" "length c = 2" "length t = 2" "length h = 4" "length u = 4" "length v = 4"
      "length y = 2" "length b = 2" for a b c t h u v y x
    using wrn_append [of "?d @ ?s @ a @ c @ t @ h @ ?id @ u @ v" 38 y b x] assms that by simp
  have tp: "be_bytes 2 (0x8100 :: u16) = [0x81, 0]" "be_bytes 2 (0x22F0 :: u16) = [0x22, 0xF0]"
    by code_simp+
  have [simp]: "rdn 0 6 ?s = Some ?s" using assms by (simp add: rdn_def)
  show ?thesis
    unfolding avtp_simple_header_build_def accessor_defs set_uint16_be
      copy_avtp_cvf_experimental_template_def cvf_template_bytes
      ETHFRAMELEN_MAX_def ETHFRAMEMTU_MAX_def ETHOVERHEAD_def AVTP_OFFSET_def ETH_ALEN_def
      ETH_P_8021Q_def ETH_P_1722_def AVTP_CVF_PAYLOAD_OFFSET_def AVTP_PAYLOAD_OFFSET_def tp
      simple_header_layout_def
    using assms w0 w1 w2 w3 w4 w5 w6 w7 w8
    by (simp add: set_array_exact Let_def del: append.simps)
qed

lemma simple_header_build_layout_witness:
  "avtp_simple_header_build LE (replicate 1518 7)
    \<lparr> dest_addr = replicate 6 1, source_addr = replicate 6 2, payload_size = 100, uniqueid = 0x0102,
      SRpriority = 3, SRvid = 2 \<rparr> =
   Some (142, simple_header_layout
    \<lparr> dest_addr = replicate 6 1, source_addr = replicate 6 2, payload_size = 100, uniqueid = 0x0102,
      SRpriority = 3, SRvid = 2 \<rparr> @ replicate 1476 0)"
  using simple_header_build_layout
    [of "replicate 1518 7" "\<lparr> dest_addr = replicate 6 1, source_addr = replicate 6 2, payload_size = 100,
      uniqueid = 0x0102, SRpriority = 3, SRvid = 2 \<rparr>" LE]
  by simp

text \<open>
  The stream identifier the talker announces to SRP is the station address followed by the
  unique identifier; a receiver reads the same eight bytes, and the tag and length it needs,
  from the frame.
\<close>

lemma rdn_append: "length a = off \<Longrightarrow> length b = n \<Longrightarrow> rdn off n (a @ b @ c) = Some b"
  by (auto simp: rdn_def)

text \<open>
  The accessors read from a built header the addresses, tag, Ethernet type, subtype, data
  length and the stream identifier made of the station address and the unique identifier.
\<close>
theorem built_header_reads_back:
  assumes "length (dest_addr p) = 6" "length (source_addr p) = 6"
  shows "get_ieee8021q_dest (simple_header_layout p @ x) = Some (dest_addr p) \<and>
    get_ieee8021q_source (simple_header_layout p @ x) = Some (source_addr p) \<and>
    get_ieee8021q_tpid e (simple_header_layout p @ x) = Some ETH_P_8021Q \<and>
    get_ieee8021q_ethtype e (simple_header_layout p @ x) = Some ETH_P_1722 \<and>
    get_avtp_subtype (simple_header_layout p @ x) = Some AVTP_SUBTYPE_CVF \<and>
    get_avtp_stream_id (simple_header_layout p @ x) =
      Some (source_addr p @ be_bytes 2 (ucast (uniqueid p) :: u16)) \<and>
    get_avtp_stream_data_length e (simple_header_layout p @ x) = Some (ucast (payload_size p))"
proof -
  let ?m = "simple_header_layout p @ x" and ?d = "dest_addr p" and ?s = "source_addr p"
  let ?t = "be_bytes 2 (ucast (push_bit 13 (SRpriority p) OR SRvid p) :: u16)"
  let ?u = "[ucast (drop_bit 8 (uniqueid p AND 0xff00)), ucast (uniqueid p AND 0x00ff)] :: u8 list"
  let ?len = "be_bytes 2 (ucast (payload_size p) :: u16)"
  have uid: "be_bytes 2 (ucast (uniqueid p) :: u16) = ?u"
  proof -
    have m: "(0xff00 :: u32) = push_bit 8 (mask 8)" "(0x00ff :: u32) = mask 8" by code_simp+
    show ?thesis
      unfolding m by (auto simp: be_bytes_def numeral_2_eq_2 bit_simps intro!: bit_word_eqI)
  qed
  have r: "rdn 0 6 ?m = Some ?d" "rdn 6 6 ?m = Some ?s" "rdn 12 2 ?m = Some [0x81, 0]"
    "rdn 16 2 ?m = Some [0x22, 0xF0]" "rdn 18 1 ?m = Some [3]" "rdn 22 8 ?m = Some (?s @ ?u)"
    "rdn 38 2 ?m = Some ?len"
    using assms
      rdn_append [of "[]" 0 ?d 6]
      rdn_append [of ?d 6 ?s 6]
      rdn_append [of "?d @ ?s" 12 "[0x81, 0]" 2]
      rdn_append [of "?d @ ?s @ [0x81, 0] @ ?t" 16 "[0x22, 0xF0]" 2]
      rdn_append [of "?d @ ?s @ [0x81, 0] @ ?t @ [0x22, 0xF0]" 18 "[3]" 1]
      rdn_append [of "?d @ ?s @ [0x81, 0] @ ?t @ [0x22, 0xF0] @ [3, 0x81, 0, 0]" 22 "?s @ ?u" 8]
      rdn_append [of "?d @ ?s @ [0x81, 0] @ ?t @ [0x22, 0xF0] @ [3, 0x81, 0, 0] @ (?s @ ?u) @
        replicate 4 0 @ [0xff, 0, 0, 0]" 38 ?len 2]
    by (simp_all add: simple_header_layout_def)
  have w: "be_word [0x81, 0] = (0x8100 :: u16)" "be_word [0x22, 0xF0] = (0x22F0 :: u16)"
    by code_simp+
  show ?thesis
    by (simp add: accessor_defs AVTP_OFFSET_def get_array_def get_uint8_def get_uint16_be r uid w
        ETH_P_8021Q_def ETH_P_1722_def AVTP_SUBTYPE_CVF_def r(5) [unfolded One_nat_def])
qed

lemma built_header_reads_back_witness:
  "get_avtp_stream_id (simple_header_layout
    \<lparr> dest_addr = replicate 6 1, source_addr = replicate 6 2, payload_size = 100, uniqueid = 0x0102,
      SRpriority = 3, SRvid = 2 \<rparr> @ []) = Some (replicate 6 2 @ [1, 2])"
proof -
  have "be_bytes 2 (ucast (0x0102 :: u32) :: u16) = [1, 2]" by code_simp
  then show ?thesis
    using built_header_reads_back
      [of "\<lparr> dest_addr = replicate 6 1, source_addr = replicate 6 2, payload_size = 100,
        uniqueid = 0x0102, SRpriority = 3, SRvid = 2 \<rparr>" "[]" LE]
    by (simp only: length_replicate avtp_simple_param.simps)
qed

text \<open>
  The stream identifier, sequence number and timestamp a talker stores into one frame are
  all read back, on either byte order, and the frame keeps its length.
\<close>
theorem packet_fields_independent:
  assumes "set_avtp_stream_id i m = Some m1" "length i = 8"
    "set_avtp_sequence_num s m1 = Some m2" "set_avtp_timestamp e t m2 = Some m3"
  shows "get_avtp_stream_id m3 = Some i \<and> get_avtp_sequence_num m3 = Some s \<and>
    get_avtp_timestamp e m3 = Some t \<and> length m3 = length m"
  using assms seq_ts.both_read_back [where v = s and w = t and m = m1] seq_id.get_other [where v = s and m = m1]
    id_ts.other_get [where m = m2] stream_id.get_set [of i m m1]
    seqnum.set_length [where m = m1] timestamp.set_length [where m = m2] stream_id.set_length [of i m m1]
  by (simp; metis)

lemma packet_fields_independent_witness:
  "\<exists>m1 m2 m3. set_avtp_stream_id (replicate 8 5) (replicate 42 0) = Some m1 \<and>
    set_avtp_sequence_num 9 m1 = Some m2 \<and> set_avtp_timestamp BE 77 m2 = Some m3 \<and>
    get_avtp_timestamp BE m3 = Some 77"
proof -
  obtain m1 where 1: "set_avtp_stream_id (replicate 8 5) (replicate 42 0) = Some m1"
    using stream_id.set_defined [of "replicate 8 5" "replicate 42 0"] by auto
  obtain m2 where 2: "set_avtp_sequence_num 9 m1 = Some m2"
    using seqnum.set_defined [where v = 9 and m = m1] stream_id.set_length [OF _ 1] by auto
  obtain m3 where 3: "set_avtp_timestamp BE 77 m2 = Some m3"
    using timestamp.set_defined [where v = 77 and e = BE and m = m2] seqnum.set_length [OF _ 2] stream_id.set_length [OF _ 1]
    by auto
  show ?thesis using 1 2 3 packet_fields_independent [OF 1 _ 2 3] by auto
qed

text \<open>
  The plain stream template is copied to the start of the buffer, without the offset of the
  Ethernet header: it overwrites the two station addresses and leaves the AVTP subtype alone.
\<close>

lemma stream_template_hits_addresses:
  assumes "copy_avtp_stream_template e m = Some m'"
  shows "get_ieee8021q_dest m' = Some [0, 0x81, 0, 0, 0, 0]"
proof -
  have "m' = [0, 0x81, 0, 0] @ replicate 20 0 @ drop 24 m"
    using assms by (auto simp: copy_avtp_stream_template_def stream_template_bytes wrn_def split: if_splits)
  also have "replicate 20 0 = [0, 0] @ replicate 18 (0 :: u8)"
    using replicate_split [of 20 2 18 "0 :: u8"] by (simp add: numeral_2_eq_2)
  finally show ?thesis
    by (simp add: get_ieee8021q_dest_def get_array_def rdn_def)
qed

end
