(* ===== verification/Cstring.thy ===== *)
theory Cstring
  imports Avb_Prelude
begin

text \<open>
  The part of the C standard library the text protocols of the program use: strings in a
  bounded buffer (\<open>strstr\<close>, \<open>strchr\<close>, \<open>strncmp\<close>), the conversions of \<open>sscanf\<close> (literals,
  white space, \<open>%d\<close>, \<open>%x\<close> with an optional field width, \<open>%lx\<close>) and of \<open>sprintf\<close>
  (\<open>%d\<close>, \<open>%u\<close>, \<open>%x\<close> with zero padding). A string starts at an offset of a buffer and ends at
  the first zero byte; a read that finds none before the end of the buffer is \<open>None\<close>.
  Out of range numbers saturate at the range of \<open>long\<close> and are then truncated to the
  destination, as the GNU library does.
\<close>

section \<open>Strings in a buffer\<close>

definition ascii :: "string \<Rightarrow> u8 list" where
  "ascii s = map of_char s"

text \<open>For evaluation: one conversion of an integer for each character.\<close>

lemma ascii_code [code]: "ascii s = map (\<lambda>c. word_of_int (of_char c)) s"
  by (simp add: ascii_def) (metis of_int_of_nat_eq of_nat_of_char)

lemma of_char_u8_eq_iff: "(of_char x :: u8) = of_char y \<longleftrightarrow> x = y"
proof -
  have c: "char_of (unat (of_char c :: u8)) = c" for c :: char
  proof -
    have "unat (of_char c :: u8) = of_char c mod 256"
      by (subst of_nat_of_char [symmetric]) (simp add: unat_of_nat)
    then show ?thesis by simp
  qed
  then show ?thesis by metis
qed

lemma ascii_eq_iff: "ascii a = ascii b \<longleftrightarrow> a = b"
  using of_char_u8_eq_iff by (simp add: ascii_def inj_def inj_map_eq_map)

fun find_nul :: "u8 list \<Rightarrow> u8 list option" where
  "find_nul [] = None"
| "find_nul (c # cs) = (if c = 0 then Some [] else map_option ((#) c) (find_nul cs))"

text \<open>The string that starts at \<open>off\<close>.\<close>

definition cstr :: "nat \<Rightarrow> mem \<Rightarrow> u8 list option" where
  "cstr off m = find_nul (drop off m)"

text \<open>Offset of the first occurrence of a substring or a character, relative to the start.\<close>

fun sub_index :: "u8 list \<Rightarrow> u8 list \<Rightarrow> nat option" where
  "sub_index pat [] = (if pat = [] then Some 0 else None)"
| "sub_index pat (c # cs) =
    (if take (length pat) (c # cs) = pat then Some 0 else map_option Suc (sub_index pat cs))"

definition strstr :: "nat \<Rightarrow> u8 list \<Rightarrow> mem \<Rightarrow> nat option option" where
  "strstr off pat m = do { s \<leftarrow> cstr off m; Some (map_option ((+) off) (sub_index pat s)) }"

definition strchr :: "nat \<Rightarrow> u8 \<Rightarrow> mem \<Rightarrow> nat option option" where
  "strchr off c m = do { s \<leftarrow> cstr off m; Some (map_option ((+) off) (find_index ((=) c) s)) }"

text \<open>
  \<open>strncmp p lit n = 0\<close> for a literal of \<open>n\<close> characters: the comparison stops at the first
  difference, so it reads no byte after it.
\<close>

fun strncmp_eq :: "nat \<Rightarrow> u8 list \<Rightarrow> mem \<Rightarrow> bool option" where
  "strncmp_eq off [] m = Some True"
| "strncmp_eq off (c # cs) m =
    do { x \<leftarrow> rdn off 1 m; if x ! 0 = c then strncmp_eq (Suc off) cs m else Some False }"

section \<open>Scanning\<close>

definition is_space :: "u8 \<Rightarrow> bool" where
  "is_space c \<longleftrightarrow> c = 32 \<or> 9 \<le> c \<and> c \<le> 13"

definition hex_digit :: "u8 \<Rightarrow> int option" where
  "hex_digit c =
    (if 48 \<le> c \<and> c \<le> 57 then Some (uint (c - 48))
     else if 97 \<le> c \<and> c \<le> 102 then Some (uint (c - 87))
     else if 65 \<le> c \<and> c \<le> 70 then Some (uint (c - 55)) else None)"

definition digit_val :: "int \<Rightarrow> u8 \<Rightarrow> int option" where
  "digit_val base c =
    (case hex_digit c of Some d \<Rightarrow> if d < base then Some d else None | None \<Rightarrow> None)"

definition is_digit :: "int \<Rightarrow> u8 \<Rightarrow> bool" where
  "is_digit base c \<longleftrightarrow> digit_val base c \<noteq> None"

definition digits_value :: "int \<Rightarrow> u8 list \<Rightarrow> int" where
  "digits_value base = foldl (\<lambda>a c. base * a + the (digit_val base c)) 0"

datatype conv = ConvD | ConvX "nat option" | ConvLX
datatype directive = Lit u8 | White | Conv conv

definition conv_base :: "conv \<Rightarrow> int" where
  "conv_base k = (case k of ConvD \<Rightarrow> 10 | _ \<Rightarrow> 16)"

definition conv_input :: "conv \<Rightarrow> u8 list \<Rightarrow> u8 list" where
  "conv_input k s = (case k of ConvX (Some w) \<Rightarrow> take w s | _ \<Rightarrow> s)"

definition split_sign :: "u8 list \<Rightarrow> bool \<times> u8 list" where
  "split_sign s = (case s of c # cs \<Rightarrow>
     if c = 45 then (True, cs) else if c = 43 then (False, cs) else (False, s) | [] \<Rightarrow> (False, []))"

definition skip_0x :: "u8 list \<Rightarrow> u8 list" where
  "skip_0x s = (case s of z # x # cs \<Rightarrow> if z = 48 \<and> (x = 120 \<or> x = 88) then cs else s | _ \<Rightarrow> s)"

definition clamp_long :: "conv \<Rightarrow> bool \<Rightarrow> int \<Rightarrow> u64" where
  "clamp_long k neg v = (case k of
     ConvD \<Rightarrow> word_of_int (if neg then - min v (2 ^ 63) else min v (2 ^ 63 - 1))
   | _ \<Rightarrow> word_of_int (if 2 ^ 64 \<le> v then - 1 else if neg then - v else v))"

text \<open>The value of one conversion and the rest of the input, \<open>None\<close> for a matching failure.\<close>

definition convert :: "conv \<Rightarrow> u8 list \<Rightarrow> (u64 \<times> u8 list) option" where
  "convert k s0 =
    (let s = dropWhile is_space s0;
         inp = conv_input k s;
         (neg, s1) = split_sign inp;
         s2 = (if conv_base k = 16 then skip_0x s1 else s1);
         ds = takeWhile (is_digit (conv_base k)) s2;
         used = length inp - length s2 + length ds
     in if ds = [] then None
        else Some (clamp_long k neg (digits_value (conv_base k) ds), drop used s))"

text \<open>The converted values in order, up to the first directive that fails.\<close>

fun sscanf :: "directive list \<Rightarrow> u8 list \<Rightarrow> u64 list" where
  "sscanf [] s = []"
| "sscanf (Lit c # ds) s = (case s of x # xs \<Rightarrow> if x = c then sscanf ds xs else [] | [] \<Rightarrow> [])"
| "sscanf (White # ds) s = sscanf ds (dropWhile is_space s)"
| "sscanf (Conv k # ds) s =
    (case convert k s of Some (v, rest) \<Rightarrow> v # sscanf ds rest | None \<Rightarrow> [])"

definition lits :: "string \<Rightarrow> directive list" where
  "lits s = map Lit (ascii s)"

definition to_lower :: "u8 \<Rightarrow> u8" where
  "to_lower c = (if 65 \<le> c \<and> c \<le> 90 then c + 32 else c)"

definition strcasecmp_eq :: "u8 list \<Rightarrow> u8 list \<Rightarrow> bool" where
  "strcasecmp_eq a b \<longleftrightarrow> map to_lower a = map to_lower b"

section \<open>Printing\<close>

definition digit_char :: "int \<Rightarrow> u8" where
  "digit_char d = word_of_int (if d < 10 then 48 + d else 87 + d)"

definition upper_digit_char :: "int \<Rightarrow> u8" where
  "upper_digit_char d = word_of_int (if d < 10 then 48 + d else 55 + d)"

function digits :: "(int \<Rightarrow> u8) \<Rightarrow> int \<Rightarrow> int \<Rightarrow> u8 list" where
  "digits f base v =
    (if v < base \<or> base < 2 then [f v] else digits f base (v div base) @ [f (v mod base)])"
  by auto
termination
proof (relation "measure (\<lambda>(f, b, v). nat v)")
  fix f :: "int \<Rightarrow> u8" and base v :: int
  assume "\<not> (v < base \<or> base < 2)"
  then have "v div base < v" "0 < v" by (auto intro: int_div_less_self)
  then show "((f, base, v div base), f, base, v) \<in> measure (\<lambda>(f, b, v). nat v)" by simp
qed simp

declare digits.simps [simp del]

definition pad0 :: "nat \<Rightarrow> u8 list \<Rightarrow> u8 list" where
  "pad0 w s = replicate (w - length s) 48 @ s"

definition print_hex :: "nat \<Rightarrow> 'a::len word \<Rightarrow> u8 list" where
  "print_hex w v = pad0 w (digits digit_char 16 (uint v))"

definition print_HEX :: "nat \<Rightarrow> 'a::len word \<Rightarrow> u8 list" where
  "print_HEX w v = pad0 w (digits upper_digit_char 16 (uint v))"

definition print_u :: "'a::len word \<Rightarrow> u8 list" where
  "print_u v = digits digit_char 10 (uint v)"

definition print_d :: "'a::len word \<Rightarrow> u8 list" where
  "print_d v = (if sint v < 0 then 45 # digits digit_char 10 (- sint v)
     else digits digit_char 10 (sint v))"

section \<open>Printed numbers are scanned back\<close>

lemma hex_digit_digit_char_all: "list_all (\<lambda>d. hex_digit (digit_char d) = Some d) [0..15]"
  by code_simp

lemma hex_digit_digit_char: "0 \<le> d \<Longrightarrow> d < 16 \<Longrightarrow> hex_digit (digit_char d) = Some d"
  using hex_digit_digit_char_all by (auto simp: list_all_iff)

lemma digit_val_digit_char: "0 \<le> d \<Longrightarrow> d < base \<Longrightarrow> base \<le> 16 \<Longrightarrow> digit_val base (digit_char d) = Some d"
  by (simp add: digit_val_def hex_digit_digit_char)

lemma hex_digit_char_class:
  "hex_digit c \<noteq> None \<Longrightarrow> \<not> is_space c \<and> c \<noteq> 45 \<and> c \<noteq> 43 \<and> c \<noteq> 120 \<and> c \<noteq> 88 \<and> c \<noteq> 0"
  by (auto simp: hex_digit_def is_space_def word_le_nat_alt split: if_splits)

lemma is_digit_hex: "is_digit base c \<Longrightarrow> hex_digit c \<noteq> None"
  by (auto simp: is_digit_def digit_val_def split: option.splits)

lemma set_digits:
  assumes "2 \<le> base" "base \<le> 16" "0 \<le> v"
  shows "c \<in> set (digits digit_char base v) \<Longrightarrow> is_digit base c"
  using assms
proof (induction digit_char base v rule: digits.induct)
  case (1 base v)
  show ?case
  proof (cases "v < base")
    case True
    then show ?thesis
      using 1 by (subst (asm) digits.simps) (auto simp: is_digit_def digit_val_digit_char)
  next
    case False
    then have "c \<in> set (digits digit_char base (v div base)) \<or> c = digit_char (v mod base)"
      using 1 by (subst (asm) digits.simps) auto
    then show ?thesis
      using 1 False by (auto simp: is_digit_def digit_val_digit_char pos_imp_zdiv_nonneg_iff)
  qed
qed

lemma digits_not_Nil [simp]: "digits f base v \<noteq> []"
  by (subst digits.simps) auto

lemma digits_value_append1:
  "digits_value base (ds @ [c]) = base * digits_value base ds + the (digit_val base c)"
  by (simp add: digits_value_def)

lemma digits_value_digits:
  assumes "2 \<le> base" "base \<le> 16" "0 \<le> v"
  shows "digits_value base (digits digit_char base v) = v"
  using assms
proof (induction digit_char base v rule: digits.induct)
  case (1 base v)
  show ?case
  proof (cases "v < base")
    case True
    then show ?thesis
      using 1 by (subst digits.simps) (simp add: digits_value_def digit_val_digit_char)
  next
    case False
    have "digits_value base (digits digit_char base v) =
        base * digits_value base (digits digit_char base (v div base)) + v mod base"
      using 1 False by (subst digits.simps) (simp add: digits_value_append1 digit_val_digit_char)
    then show ?thesis
      using 1 False by (simp add: pos_imp_zdiv_nonneg_iff)
  qed
qed

lemma digits_value_zeros:
  assumes "0 < base"
  shows "digits_value base (replicate n 48 @ ds) = digits_value base ds"
proof -
  have "foldl (\<lambda>a c. base * a + the (digit_val base c)) 0 (replicate n 48) = 0"
    using assms by (induction n) (simp_all add: digit_val_def hex_digit_def)
  then show ?thesis by (simp add: digits_value_def)
qed

lemma set_pad_digits:
  assumes "2 \<le> base" "base \<le> 16" "0 \<le> v" "c \<in> set (pad0 w (digits digit_char base v))"
  shows "is_digit base c"
proof -
  have "is_digit base 48" using assms(1) by (simp add: is_digit_def digit_val_def hex_digit_def)
  then show ?thesis using assms(4) set_digits [OF assms(1-3), of c] by (auto simp: pad0_def)
qed

lemma pad_digits_value:
  "2 \<le> base \<Longrightarrow> base \<le> 16 \<Longrightarrow> 0 \<le> v \<Longrightarrow> digits_value base (pad0 w (digits digit_char base v)) = v"
  by (simp add: pad0_def digits_value_zeros digits_value_digits)

text \<open>What may follow a number without being read as part of it.\<close>

definition ends_number :: "u8 list \<Rightarrow> bool" where
  "ends_number rest \<longleftrightarrow> (case rest of [] \<Rightarrow> True | c # _ \<Rightarrow> hex_digit c = None \<and> c \<noteq> 120 \<and> c \<noteq> 88)"

lemma split_sign_digit: "hex_digit (hd s) \<noteq> None \<Longrightarrow> split_sign s = (False, s)"
  using hex_digit_char_class [of "hd s"] by (cases s) (auto simp: split_sign_def)

lemma skip_0x_digits:
  assumes "\<forall>c\<in>set ds. hex_digit c \<noteq> None" "ds \<noteq> []" "ends_number rest"
  shows "skip_0x (ds @ rest) = ds @ rest"
proof -
  obtain d ds' where ds: "ds = d # ds'" using assms(2) by (cases ds) auto
  show ?thesis
  proof (cases "ds' @ rest")
    case Nil
    then show ?thesis by (simp add: ds skip_0x_def)
  next
    case (Cons c cs)
    then have "c \<noteq> 120 \<and> c \<noteq> 88"
      using assms ds hex_digit_char_class [of c]
      by (cases ds') (auto simp: ends_number_def)
    then show ?thesis using Cons by (simp add: ds skip_0x_def)
  qed
qed

lemma takeWhile_digits:
  assumes "\<forall>c\<in>set ds. is_digit base c" "ends_number rest"
  shows "takeWhile (is_digit base) (ds @ rest) = ds"
  using assms
  by (cases rest) (auto simp: takeWhile_append ends_number_def is_digit_def digit_val_def takeWhile_eq_all_conv [THEN iffD2])

text \<open>One lemma carries every number the program prints: a non-empty digit string is converted whole.\<close>

lemma convert_digits:
  assumes ds: "ds \<noteq> []" "\<forall>c\<in>set ds. is_digit (conv_base k) c"
    and inp: "conv_input k (ds @ rest) = ds @ r" and r: "ends_number r"
  shows "convert k (ds @ rest) = Some (clamp_long k False (digits_value (conv_base k) ds), rest)"
proof -
  have hex: "\<forall>c\<in>set ds. hex_digit c \<noteq> None" using ds(2) is_digit_hex by blast
  obtain d ds' where d: "ds = d # ds'" using ds(1) by (cases ds) auto
  have "\<not> is_space d" using hex hex_digit_char_class [of d] d by auto
  then have sp: "dropWhile is_space (ds @ rest) = ds @ rest" by (simp add: d)
  have sg: "split_sign (ds @ r) = (False, ds @ r)"
    using hex d by (intro split_sign_digit) auto
  show ?thesis
    using ds(1) takeWhile_digits [OF ds(2) r]
    by (auto simp: convert_def sp inp sg skip_0x_digits [OF hex ds(1) r] Let_def)
qed

lemma pad0_not_Nil [simp]: "s \<noteq> [] \<Longrightarrow> pad0 w s \<noteq> []"
  by (simp add: pad0_def)

lemma convert_print_hex:
  assumes "ends_number rest"
  shows "convert ConvLX (print_hex w (v :: u64) @ rest) = Some (v, rest)"
proof -
  let ?ds = "pad0 w (digits digit_char 16 (uint v))"
  have "convert ConvLX (?ds @ rest) = Some (clamp_long ConvLX False (digits_value 16 ?ds), rest)"
    using convert_digits [of ?ds ConvLX rest rest] set_pad_digits [of 16 "uint v" _ w] assms
    by (simp add: conv_base_def conv_input_def)
  moreover have "uint v < 2 ^ 64" using uint_lt2p [of v] by simp
  ultimately show ?thesis
    by (simp add: print_hex_def pad_digits_value clamp_long_def)
qed

lemma digits_base_lt: "0 \<le> v \<Longrightarrow> v < base \<Longrightarrow> digits f base v = [f v]"
  by (subst digits.simps) simp

lemma convert_print_d:
  assumes "ends_number rest" "0 \<le> sint v"
  shows "convert ConvD (print_d (v :: u32) @ rest) = Some (ucast v, rest)"
proof -
  let ?ds = "digits digit_char 10 (sint v)"
  have "convert ConvD (?ds @ rest) = Some (clamp_long ConvD False (digits_value 10 ?ds), rest)"
    using convert_digits [of ?ds ConvD rest rest] set_digits [of 10 "sint v"] assms
    by (simp add: conv_base_def conv_input_def)
  moreover have "sint v < 2 ^ 31" using sint_lt [of v] by simp
  moreover have "sint v = uint v"
    using assms(2) sint_lt [of v] uint_sint [of v] by (simp add: take_bit_int_eq_self)
  then have "word_of_int (sint v) = (ucast v :: u64)" by simp
  ultimately show ?thesis
    using assms by (simp add: print_d_def digits_value_digits clamp_long_def)
qed

section \<open>Strings that are terminated inside the buffer\<close>

text \<open>
  \<open>nul_from k m\<close>: the buffer holds only zero bytes from \<open>k\<close> on, and at least one. Every
  string of such a buffer ends at \<open>k\<close> or at its own start.
\<close>

definition nul_from :: "nat \<Rightarrow> mem \<Rightarrow> bool" where
  "nul_from k m \<longleftrightarrow> k < length m \<and> (\<forall>j. k \<le> j \<and> j < length m \<longrightarrow> m ! j = 0)"

lemma find_nul_SomeI:
  "j < length s \<Longrightarrow> s ! j = 0 \<Longrightarrow> \<exists>t. find_nul s = Some t \<and> length t \<le> j"
proof (induction s arbitrary: j)
  case Nil
  then show ?case by simp
next
  case (Cons c s)
  show ?case
  proof (cases j)
    case 0
    then show ?thesis using Cons.prems by simp
  next
    case (Suc i)
    then show ?thesis using Cons.prems Cons.IH [of i] by auto
  qed
qed

lemma find_nul_exact: "0 \<notin> set s \<Longrightarrow> find_nul (s @ 0 # t) = Some s"
  by (induction s) auto

lemma cstr_bounded:
  assumes "nul_from k m" "off < length m"
  shows "\<exists>s. cstr off m = Some s \<and> off + length s \<le> max off k"
proof (cases "off \<le> k")
  case True
  then have "drop off m ! (k - off) = 0" "k - off < length (drop off m)"
    using assms by (auto simp: nul_from_def)
  then show ?thesis
    using find_nul_SomeI [of "k - off" "drop off m"] True by (auto simp: cstr_def)
next
  case False
  then have "drop off m ! 0 = 0" "0 < length (drop off m)"
    using assms by (auto simp: nul_from_def)
  then show ?thesis
    using find_nul_SomeI [of 0 "drop off m"] False by (auto simp: cstr_def)
qed

lemma sub_index_bound: "sub_index pat s = Some i \<Longrightarrow> i + length pat \<le> length s"
proof (induction s arbitrary: i)
  case Nil
  then show ?case by (auto split: if_splits)
next
  case (Cons c cs)
  show ?case
  proof (cases "take (length pat) (c # cs) = pat")
    case True
    then have "length pat \<le> length (c # cs)" by (metis length_take min.cobounded1)
    then show ?thesis using True Cons.prems by auto
  next
    case False
    then show ?thesis using Cons by auto
  qed
qed

lemma strstr_bounded:
  assumes "nul_from k m" "off < length m"
  shows "\<exists>r. strstr off pat m = Some r \<and> (\<forall>p. r = Some p \<longrightarrow> off \<le> p \<and> p + length pat \<le> max off k)"
proof -
  obtain s where s: "cstr off m = Some s" "off + length s \<le> max off k"
    using cstr_bounded [OF assms] by blast
  then show ?thesis
    using sub_index_bound [of pat s] by (fastforce simp: strstr_def)
qed

lemma strchr_bounded:
  assumes "nul_from k m" "off < length m"
  shows "\<exists>r. strchr off c m = Some r \<and> (\<forall>p. r = Some p \<longrightarrow> off \<le> p \<and> p + 1 \<le> max off k)"
proof -
  obtain s where s: "cstr off m = Some s" "off + length s \<le> max off k"
    using cstr_bounded [OF assms] by blast
  then show ?thesis
    using find_index_SomeD [of "(=) c" s] by (fastforce simp: strchr_def)
qed

lemma strncmp_eq_defined:
  "off + length lit \<le> length m \<Longrightarrow> strncmp_eq off lit m = Some (take (length lit) (drop off m) = lit)"
proof (induction lit arbitrary: off)
  case Nil
  then show ?case by simp
next
  case (Cons c cs)
  then have "off < length m" by simp
  then have "drop off m = m ! off # drop (Suc off) m" by (simp add: Cons_nth_drop_Suc)
  then show ?case using Cons by (auto simp: rdn_def)
qed

lemma nul_from_wrn:
  assumes "nul_from k m" "wrn off [0] m = Some m'"
  shows "nul_from k m'"
  using assms length_wrn [OF assms(2)] nth_wrn [OF assms(2)] by (auto simp: nul_from_def)

section \<open>Scanning a string with a known beginning\<close>

lemma ascii_append: "ascii (s @ t) = ascii s @ ascii t"
  by (simp add: ascii_def)

lemma length_ascii [simp]: "length (ascii s) = length s"
  by (simp add: ascii_def)

lemma sscanf_Lits: "sscanf (map Lit bs @ ds) (bs @ rest) = sscanf ds rest"
  by (induction bs) simp_all

lemma sscanf_lits: "sscanf (lits s @ ds) (ascii s @ rest) = sscanf ds rest"
  by (simp add: lits_def sscanf_Lits)

lemma sub_index_skip:
  "p \<notin> set pre \<Longrightarrow> sub_index (p # pat) (pre @ p # pat @ rest) = Some (length pre)"
  by (induction pre) auto

lemma find_index_skip: "\<forall>x\<in>set pre. \<not> P x \<Longrightarrow> P c \<Longrightarrow> find_index P (pre @ c # rest) = Some (length pre)"
  by (induction pre) auto

section \<open>Messages in a zeroed buffer\<close>

text \<open>The receive buffer after a datagram: the message followed by zero bytes.\<close>

definition msg_buffer :: "nat \<Rightarrow> u8 list \<Rightarrow> mem" where
  "msg_buffer cap msg = msg @ replicate (cap - length msg) 0"

lemma cstr_msg_buffer:
  assumes "0 \<notin> set msg" "length msg < cap" "off \<le> length msg"
  shows "cstr off (msg_buffer cap msg) = Some (drop off msg)"
proof -
  obtain k where k: "cap - length msg = Suc k" using assms(2) by (metis Suc_diff_Suc)
  have "0 \<notin> set (drop off msg)" using assms(1) by (meson in_set_dropD)
  then show ?thesis
    using assms(3) find_nul_exact [of "drop off msg"] by (simp add: cstr_def msg_buffer_def k)
qed

lemma wrn_nul_msg_buffer:
  "length msg < cap \<Longrightarrow> wrn (length msg) [0] (msg_buffer cap msg) = Some (msg_buffer cap msg)"
  using Suc_diff_Suc [of "length msg" cap] wrn_append [of msg "length msg" "[0]" "[0]"]
  by (metis (no_types, lifting) append_Cons append_Nil length_Cons list.size(3) msg_buffer_def replicate_Suc)

lemma take_drop_msg_buffer:
  "off + n \<le> length msg \<Longrightarrow> take n (drop off (msg_buffer cap msg)) = take n (drop off msg)"
  by (simp add: msg_buffer_def)

lemma rdn_msg_buffer:
  "off + n \<le> length msg \<Longrightarrow> length msg \<le> cap \<Longrightarrow>
    rdn off n (msg_buffer cap msg) = Some (take n (drop off msg))"
  by (simp add: rdn_def msg_buffer_def)

lemma length_msg_buffer: "length msg \<le> cap \<Longrightarrow> length (msg_buffer cap msg) = cap"
  by (simp add: msg_buffer_def)

lemma print_hex_chars: "c \<in> set (print_hex w v) \<Longrightarrow> hex_digit c \<noteq> None"
  using set_pad_digits [of 16 "uint v" c w] is_digit_hex by (auto simp: print_hex_def)

lemma print_d_chars: "0 \<le> sint v \<Longrightarrow> c \<in> set (print_d v) \<Longrightarrow> hex_digit c \<noteq> None"
  using set_digits [of 10 "sint v" c] is_digit_hex by (auto simp: print_d_def)

section \<open>How long a printed number is\<close>

lemma length_digits:
  assumes "2 \<le> base" "0 \<le> v" "v < base ^ k" "1 \<le> k"
  shows "length (digits f base v) \<le> k"
  using assms
proof (induction f base v arbitrary: k rule: digits.induct)
  case (1 f base v)
  show ?case
  proof (cases "v < base")
    case True
    then show ?thesis using 1 by (subst digits.simps) simp
  next
    case False
    then have "k \<noteq> 1" using 1 by auto
    then obtain j where j: "k = Suc j" "1 \<le> j" using 1(5) by (cases k) auto
    have "base * (v div base) \<le> v"
      using mult_div_mod_eq [of base v] pos_mod_sign [of base v] 1(2) by linarith
    then have "base * (v div base) < base * base ^ j" using 1(4) j by simp
    then have "v div base < base ^ j" using 1(2) by simp
    then have "length (digits f base (v div base)) \<le> j"
      using 1 False j by (simp add: pos_imp_zdiv_nonneg_iff)
    then show ?thesis using False 1(2) j by (subst digits.simps) simp
  qed
qed

lemma length_pad0: "length s \<le> k \<Longrightarrow> w \<le> k \<Longrightarrow> length (pad0 w s) \<le> k"
  by (simp add: pad0_def)

lemma length_print_hex64: "w \<le> 16 \<Longrightarrow> length (print_hex w (v :: u64)) \<le> 16"
  using length_digits [of 16 "uint v" 16 digit_char] uint_lt2p [of v]
  by (simp add: print_hex_def length_pad0)

lemma length_print_hex32: "w \<le> 8 \<Longrightarrow> length (print_hex w (v :: u32)) \<le> 8"
  using length_digits [of 16 "uint v" 8 digit_char] uint_lt2p [of v]
  by (simp add: print_hex_def length_pad0)

lemma length_print_HEX32: "w \<le> 8 \<Longrightarrow> length (print_HEX w (v :: u32)) \<le> 8"
  using length_digits [of 16 "uint v" 8 upper_digit_char] uint_lt2p [of v]
  by (simp add: print_HEX_def length_pad0)

lemma length_print_u32: "length (print_u (v :: u32)) \<le> 10"
  using length_digits [of 10 "uint v" 10 digit_char] uint_lt2p [of v]
  by (simp add: print_u_def)

lemma length_print_d32: "length (print_d (v :: u32)) \<le> 11"
  using length_digits [of 10 "sint v" 10 digit_char] length_digits [of 10 "- sint v" 10 digit_char]
    sint_lt [of v] sint_ge [of v]
  by (auto simp: print_d_def)

end
