(* ===== verification/Mrpdhelper.thy ===== *)
theory Mrpdhelper
  imports Cstring Byte_Field
begin

text \<open>
  The parser of the notifications the MRP daemon sends (\<open>lib/msrp/mrpdhelper.c\<close>). The message
  is a bounded buffer and a pointer into it an offset; every function returns \<open>None\<close> when it
  reads or writes outside the buffer, and otherwise the C result with the buffer and the
  notification it leaves. The union of the notification is its 56 bytes, so that a member can
  be written and another one read.
\<close>

section \<open>Data\<close>

datatype mrpdhelper_attribtype =
  attribtype_null | attribtype_mmrp | attribtype_mvrp | attribtype_msrp_domain
| attribtype_msrp_talker | attribtype_msrp_listener | attribtype_msrp_talker_fail
| attribtype_msrp_listener_fail

datatype mrpdhelper_notification =
  notification_null | notification_new | notification_join | notification_leave

datatype mrpdhelper_state = state_null | state_in | state_leave | state_empty

datatype mrpdhelper_applicant_state =
  app_null | app_VO | app_VP | app_VN | app_AN | app_AA | app_QA | app_LA | app_AO | app_QO
| app_AP | app_QP | app_LO

definition declaration_ignore :: u32 where "declaration_ignore = 0"
definition declaration_asking_failed :: u32 where "declaration_asking_failed = 1"
definition declaration_ready :: u32 where "declaration_ready = 2"
definition declaration_ready_failed :: u32 where "declaration_ready_failed = 3"

text \<open>Offsets of the members of the union, as the ABI of the target lays the structures out.\<close>

definition m_mac :: nat where "m_mac = 0"
definition v_vid :: nat where "v_vid = 0"
definition sd_id :: nat where "sd_id = 0"
definition sd_priority :: nat where "sd_priority = 4"
definition sd_vid :: nat where "sd_vid = 8"
definition sd_neighbor_priority :: nat where "sd_neighbor_priority = 12"
definition sl_substate :: nat where "sl_substate = 0"
definition sl_id :: nat where "sl_id = 8"
definition st_id :: nat where "st_id = 0"
definition st_dest_mac :: nat where "st_dest_mac = 8"
definition st_vid :: nat where "st_vid = 16"
definition st_max_frame_size :: nat where "st_max_frame_size = 20"
definition st_max_interval_frames :: nat where "st_max_interval_frames = 24"
definition st_priority_and_rank :: nat where "st_priority_and_rank = 28"
definition st_accum_latency :: nat where "st_accum_latency = 32"
definition st_bridge_id :: nat where "st_bridge_id = 40"
definition st_failure_code :: nat where "st_failure_code = 48"
definition sizeof_u :: nat where "sizeof_u = 56"

lemmas union_offsets =
  m_mac_def v_vid_def sd_id_def sd_priority_def sd_vid_def sd_neighbor_priority_def
  sl_substate_def sl_id_def st_id_def st_dest_mac_def st_vid_def st_max_frame_size_def
  st_max_interval_frames_def st_priority_and_rank_def st_accum_latency_def st_bridge_id_def
  st_failure_code_def sizeof_u_def

record mrpdhelper_notify =
  attrib :: mrpdhelper_attribtype
  notify :: mrpdhelper_notification
  reg_state :: mrpdhelper_state
  app_state :: mrpdhelper_applicant_state
  registrar :: u64
  n_u :: mem

definition notify_zero :: mrpdhelper_notify where
  "notify_zero = \<lparr> attrib = attribtype_null, notify = notification_null, reg_state = state_null,
    app_state = app_null, registrar = 0, n_u = replicate sizeof_u 0 \<rparr>"

definition mrp_app_state_mapping :: "(u8 list \<times> mrpdhelper_applicant_state) list" where
  "mrp_app_state_mapping =
    [(ascii ''nl'', app_null), (ascii ''VO'', app_VO), (ascii ''VP'', app_VP),
     (ascii ''VN'', app_VN), (ascii ''AN'', app_AN), (ascii ''AA'', app_AA),
     (ascii ''QA'', app_QA), (ascii ''LA'', app_LA), (ascii ''AO'', app_AO),
     (ascii ''QO'', app_QO), (ascii ''AP'', app_AP), (ascii ''QP'', app_QP),
     (ascii ''LO'', app_LO)]"

section \<open>The fields every notification has\<close>

text \<open>\<open>strstr(sz, "R=")\<close> and then the first blank after it.\<close>

definition after_registrar :: "nat \<Rightarrow> mem \<Rightarrow> nat option option" where
  "after_registrar sz m = do {
    r \<leftarrow> strstr sz (ascii ''R='') m;
    (case r of None \<Rightarrow> Some None | Some p \<Rightarrow> strchr p 32 m)
  }"

fun app_state_loop ::
  "nat \<Rightarrow> (u8 list \<times> mrpdhelper_applicant_state) list \<Rightarrow> mem \<Rightarrow> mrpdhelper_applicant_state \<Rightarrow>
    mrpdhelper_applicant_state option" where
  "app_state_loop sz [] m st = Some st"
| "app_state_loop sz ((s, v) # tbl) m st = do {
    b \<leftarrow> strncmp_eq sz s m;
    if b then Some v else app_state_loop sz tbl m st
  }"

definition parse_app_state :: "nat \<Rightarrow> mem \<Rightarrow> mrpdhelper_notify \<Rightarrow> (int \<times> mrpdhelper_notify) option" where
  "parse_app_state sz m n = do {
    r \<leftarrow> after_registrar sz m;
    (case r of None \<Rightarrow> Some (- 1, n)
     | Some p \<Rightarrow> do {
        st \<leftarrow> app_state_loop (p + 1) mrp_app_state_mapping m (app_state n);
        Some (if st = app_null then - 1 else 0, n\<lparr>app_state := st\<rparr>)
      })
  }"

definition parse_state :: "nat \<Rightarrow> mem \<Rightarrow> mrpdhelper_notify \<Rightarrow> (int \<times> mrpdhelper_notify) option" where
  "parse_state sz m n = do {
    r \<leftarrow> after_registrar sz m;
    (case r of None \<Rightarrow> Some (- 1, n)
     | Some p \<Rightarrow> do {
        let sz = p + 4;
        b \<leftarrow> strncmp_eq sz (ascii ''IN'') m;
        if b then Some (0, n\<lparr>reg_state := state_in\<rparr>) else do {
        b \<leftarrow> strncmp_eq sz (ascii ''LV'') m;
        if b then Some (0, n\<lparr>reg_state := state_leave\<rparr>) else do {
        b \<leftarrow> strncmp_eq sz (ascii ''MT'') m;
        if b then Some (0, n\<lparr>reg_state := state_empty\<rparr>) else Some (- 1, n) } }
      })
  }"

definition parse_notification :: "nat \<Rightarrow> mem \<Rightarrow> mrpdhelper_notify \<Rightarrow> (int \<times> mrpdhelper_notify) option" where
  "parse_notification sz m n = do {
    b \<leftarrow> strncmp_eq sz (ascii ''NE'') m;
    if b then Some (0, n\<lparr>notify := notification_new\<rparr>) else do {
    b \<leftarrow> strncmp_eq sz (ascii ''JO'') m;
    if b then Some (0, n\<lparr>notify := notification_join\<rparr>) else do {
    b \<leftarrow> strncmp_eq sz (ascii ''LE'') m;
    if b then Some (0, n\<lparr>notify := notification_leave\<rparr>) else Some (- 1, n) } }
  }"

text \<open>The third component is the position handed back through \<open>rpos\<close>.\<close>

definition parse_registrar ::
  "nat \<Rightarrow> mem \<Rightarrow> mrpdhelper_notify \<Rightarrow> (int \<times> mrpdhelper_notify \<times> nat option) option" where
  "parse_registrar sz m n = do {
    r \<leftarrow> strstr sz (ascii ''R='') m;
    (case r of None \<Rightarrow> Some (- 1, n, None)
     | Some p \<Rightarrow> do {
        s \<leftarrow> cstr p m;
        (case sscanf (lits ''R='' @ [Conv ConvLX]) s of
           v # _ \<Rightarrow> Some (0, n\<lparr>registrar := v\<rparr>, r)
         | [] \<Rightarrow> Some (- 1, n, r))
      })
  }"

section \<open>Messages\<close>

text \<open>Where \<open>sscanf\<close> stores its conversions: a 32 or 64 bit member at an offset of the union.\<close>

datatype target = T32 nat | T64 nat

fun store :: "endian \<Rightarrow> target \<Rightarrow> u64 \<Rightarrow> mem \<Rightarrow> mem option" where
  "store e (T32 off) v u = st32 e off (ucast v) u"
| "store e (T64 off) v u = st64 e off v u"

fun store_vals :: "endian \<Rightarrow> target list \<Rightarrow> u64 list \<Rightarrow> mem \<Rightarrow> mem option" where
  "store_vals e (t # ts) (v # vs) u = do { u \<leftarrow> store e t v u; store_vals e ts vs u }"
| "store_vals e _ _ u = Some u"

definition parse_mvrp ::
  "endian \<Rightarrow> mem \<Rightarrow> u64 \<Rightarrow> mrpdhelper_notify \<Rightarrow> (int \<times> mem \<times> mrpdhelper_notify) option" where
  "parse_mvrp e m len n =
    (if len < 28 then Some (- 1, m, n) else do {
      (rc, n) \<leftarrow> parse_notification 1 m n;
      if rc < 0 then Some (- 1, m, n) else do {
      let n = n\<lparr>attrib := attribtype_mvrp\<rparr>;
      s \<leftarrow> cstr 4 m;
      let vs = sscanf [Conv (ConvX (Some 4)), White] s;
      u \<leftarrow> store_vals e [T32 v_vid] vs (n_u n);
      let n = n\<lparr>n_u := u\<rparr>;
      if length vs \<noteq> 1 then Some (- 1, m, n) else do {
      (rc, n, _) \<leftarrow> parse_registrar 0 m n;
      if rc < 0 then Some (- 1, m, n) else do {
      (rc, n) \<leftarrow> parse_app_state 0 m n;
      if rc < 0 then Some (- 1, m, n) else do {
      (rc, n) \<leftarrow> parse_state 0 m n;
      Some (rc, m, n) } } } }
    })"

definition domain_format :: "directive list" where
  "domain_format = lits ''D:C='' @ [Conv ConvD] @ lits '',P='' @ [Conv ConvD] @ lits '',V='' @
    [Conv (ConvX (Some 4))] @ lits '',N='' @ [Conv ConvD]"

definition listener_format :: "directive list" where
  "listener_format = lits ''L:D='' @ [Conv ConvD] @ lits '',S='' @ [Conv ConvLX]"

definition talker_format :: "directive list" where
  "talker_format = lits ''T:S='' @ [Conv ConvLX] @ lits '',A='' @ [Conv ConvLX] @ lits '',V='' @
    [Conv (ConvX (Some 4))] @ lits '',Z='' @ [Conv ConvD] @ lits '',I='' @ [Conv ConvD] @
    lits '',P='' @ [Conv ConvD] @ lits '',L='' @ [Conv ConvD]"

definition talker_failed_format :: "directive list" where
  "talker_failed_format = talker_format @ lits '',B='' @ [Conv ConvLX] @ lits '',C='' @ [Conv ConvD]"

definition talker_targets :: "target list" where
  "talker_targets = [T64 st_id, T64 st_dest_mac, T32 st_vid, T32 st_max_frame_size,
    T32 st_max_interval_frames, T32 st_priority_and_rank, T32 st_accum_latency]"

text \<open>
  \<open>sz\<close> is the offset of the string and \<open>len\<close> a \<open>size_t\<close>: the address of \<open>sz[len]\<close> wraps at
  64 bits, as it does when \<open>parse_msrp\<close> subtracts 4 from a shorter length.
\<close>

definition parse_msrp_string ::
  "endian \<Rightarrow> nat \<Rightarrow> mem \<Rightarrow> u64 \<Rightarrow> mrpdhelper_notify \<Rightarrow> (int \<times> mem \<times> mrpdhelper_notify) option" where
  "parse_msrp_string e sz m len n = do {
    m \<leftarrow> wrn (unat (of_nat sz + len)) [0] m;
    c \<leftarrow> rdn sz 1 m;
    if c = ascii ''D'' then do {
      s \<leftarrow> cstr sz m;
      let vs = sscanf domain_format s;
      u \<leftarrow> store_vals e [T32 sd_id, T32 sd_priority, T32 sd_vid, T32 sd_neighbor_priority] vs (n_u n);
      let n = n\<lparr>n_u := u\<rparr>;
      Some (if length vs < 4 then (- 1, m, n) else (0, m, n\<lparr>attrib := attribtype_msrp_domain\<rparr>))
    } else if c = ascii ''L'' then do {
      s \<leftarrow> cstr sz m;
      let vs = sscanf listener_format s;
      u \<leftarrow> store_vals e [T32 sl_substate, T64 sl_id] vs (n_u n);
      let n = n\<lparr>n_u := u\<rparr>;
      Some (if length vs < 2 then (- 1, m, n) else (0, m, n\<lparr>attrib := attribtype_msrp_listener\<rparr>))
    } else if c = ascii ''T'' then do {
      s \<leftarrow> cstr sz m;
      b \<leftarrow> strstr sz (ascii '',B='') m;
      (case b of
        None \<Rightarrow> do {
          let vs = sscanf talker_format s;
          u \<leftarrow> store_vals e talker_targets vs (n_u n);
          u \<leftarrow> st64 e st_bridge_id 0 u;
          u \<leftarrow> st32 e st_failure_code 0 u;
          Some (if length vs < 7 then - 1 else 0, m, n\<lparr>n_u := u, attrib := attribtype_msrp_talker\<rparr>)
        }
      | Some _ \<Rightarrow> do {
          let vs = sscanf talker_failed_format s;
          u \<leftarrow> store_vals e (talker_targets @ [T64 st_bridge_id, T32 st_failure_code]) vs (n_u n);
          Some (if length vs < 9 then - 1 else 0, m,
            n\<lparr>n_u := u, attrib := attribtype_msrp_talker_fail\<rparr>)
        })
    } else Some (- 1, m, n)
  }"

definition parse_msrp ::
  "endian \<Rightarrow> mem \<Rightarrow> u64 \<Rightarrow> mrpdhelper_notify \<Rightarrow> (int \<times> mem \<times> mrpdhelper_notify) option" where
  "parse_msrp e m len n = do {
    (rc, n) \<leftarrow> parse_notification 1 m n;
    if rc < 0 then Some (- 1, m, n) else do {
    (rc, m, n) \<leftarrow> parse_msrp_string e 4 m (len - 4) n;
    if rc < 0 then Some (- 1, m, n) else do {
    (rc, n, _) \<leftarrow> parse_registrar 0 m n;
    if rc < 0 then Some (- 1, m, n) else do {
    (rc, n) \<leftarrow> parse_app_state 0 m n;
    if rc < 0 then Some (- 1, m, n) else do {
    (rc, n) \<leftarrow> parse_state 0 m n;
    Some (rc, m, n) } } } }
  }"

text \<open>
  The query parser searches for the registrar again from 15 and 18 bytes after its position.
  After a successful \<open>parse_registrar\<close> the position is not null.
\<close>

definition parse_msrp_query ::
  "endian \<Rightarrow> mem \<Rightarrow> u64 \<Rightarrow> mrpdhelper_notify \<Rightarrow> (int \<times> mem \<times> mrpdhelper_notify) option" where
  "parse_msrp_query e m len n = do {
    (rc, m, n) \<leftarrow> parse_msrp_string e 0 m len n;
    if rc < 0 then Some (- 1, m, n) else do {
    (rc, n, rpos) \<leftarrow> parse_registrar 0 m n;
    if rc < 0 then Some (- 1, m, n) else do {
    r \<leftarrow> rpos;
    (rc, n) \<leftarrow> parse_app_state (r + 15) m n;
    if rc < 0 then Some (- 1, m, n) else do {
    (rc, n) \<leftarrow> parse_state (r + 18) m n;
    Some (rc, m, n) } } }
  }"

definition parse_mmrp ::
  "endian \<Rightarrow> mem \<Rightarrow> u64 \<Rightarrow> mrpdhelper_notify \<Rightarrow> (int \<times> mem \<times> mrpdhelper_notify) option" where
  "parse_mmrp e m len n =
    (if len < 9 then Some (- 1, m, n) else do {
      (rc, n) \<leftarrow> parse_notification 1 m n;
      if rc < 0 then Some (- 1, m, n) else do {
      (rc, n) \<leftarrow> parse_state 5 m n;
      if rc < 0 then Some (- 1, m, n) else do {
      let n = n\<lparr>attrib := attribtype_mvrp\<rparr>;
      s \<leftarrow> cstr 8 m;
      let vs = sscanf (lits ''M='' @ [Conv ConvLX]) s;
      u \<leftarrow> store_vals e [T64 m_mac] vs (n_u n);
      let n = n\<lparr>n_u := u\<rparr>;
      if length vs \<noteq> 1 then Some (- 1, m, n) else do {
      (rc, n, _) \<leftarrow> parse_registrar 0 m n;
      Some (rc, m, n) } } }
    })"

definition mrpdhelper_parse_notification ::
  "endian \<Rightarrow> mem \<Rightarrow> u64 \<Rightarrow> (int \<times> mem \<times> mrpdhelper_notify) option" where
  "mrpdhelper_parse_notification e m len = do {
    let n = notify_zero;
    c \<leftarrow> rdn 0 1 m;
    if c = ascii ''V'' then parse_mvrp e m len n
    else if c = ascii ''S'' then parse_msrp e m len n
    else if c = ascii ''M'' then parse_mmrp e m len n
    else if c = ascii ''L'' \<or> c = ascii ''D'' \<or> c = ascii ''T'' then parse_msrp_query e m len n
    else Some (- 1, m, n)
  }"

section \<open>Comparing notifications\<close>

text \<open>The key of a notification is the member its attribute selects.\<close>

definition mrpdhelper_notify_equal :: "endian \<Rightarrow> mrpdhelper_notify \<Rightarrow> mrpdhelper_notify \<Rightarrow> bool" where
  "mrpdhelper_notify_equal e n1 n2 =
    (if attrib n1 \<noteq> attrib n2 then False else
     case attrib n1 of
       attribtype_mmrp \<Rightarrow> ld64 e m_mac (n_u n1) = ld64 e m_mac (n_u n2)
     | attribtype_mvrp \<Rightarrow> ld32 e v_vid (n_u n1) = ld32 e v_vid (n_u n2)
     | attribtype_msrp_domain \<Rightarrow> ld32 e sd_id (n_u n1) = ld32 e sd_id (n_u n2)
     | attribtype_msrp_talker \<Rightarrow> ld64 e st_id (n_u n1) = ld64 e st_id (n_u n2)
     | attribtype_msrp_talker_fail \<Rightarrow> ld64 e st_id (n_u n1) = ld64 e st_id (n_u n2)
     | attribtype_msrp_listener \<Rightarrow> ld64 e sl_id (n_u n1) = ld64 e sl_id (n_u n2)
     | attribtype_msrp_listener_fail \<Rightarrow> ld64 e sl_id (n_u n1) = ld64 e sl_id (n_u n2)
     | attribtype_null \<Rightarrow> False)"

definition mrpdhelper_notify_mergable :: "endian \<Rightarrow> mrpdhelper_notify \<Rightarrow> mrpdhelper_notify \<Rightarrow> bool" where
  "mrpdhelper_notify_mergable e n1 n2 =
    (case attrib n1 of
       attribtype_mmrp \<Rightarrow>
         attrib n1 = attrib n2 \<and> ld64 e m_mac (n_u n1) = ld64 e m_mac (n_u n2)
     | attribtype_mvrp \<Rightarrow>
         attrib n1 = attrib n2 \<and> ld32 e v_vid (n_u n1) = ld32 e v_vid (n_u n2)
     | attribtype_msrp_domain \<Rightarrow>
         attrib n1 = attrib n2 \<and> ld32 e sd_id (n_u n1) = ld32 e sd_id (n_u n2)
     | attribtype_msrp_talker \<Rightarrow>
         (if attrib n2 \<noteq> attribtype_msrp_talker \<and> attrib n2 \<noteq> attribtype_msrp_talker_fail then False
          else ld64 e st_id (n_u n1) = ld64 e st_id (n_u n2))
     | attribtype_msrp_talker_fail \<Rightarrow>
         (if attrib n2 \<noteq> attribtype_msrp_talker \<and> attrib n2 \<noteq> attribtype_msrp_talker_fail then False
          else ld64 e st_id (n_u n1) = ld64 e st_id (n_u n2))
     | attribtype_msrp_listener \<Rightarrow>
         (if attrib n2 \<noteq> attribtype_msrp_listener \<and> attrib n2 \<noteq> attribtype_msrp_listener_fail then False
          else ld64 e sl_id (n_u n1) = ld64 e sl_id (n_u n2))
     | attribtype_msrp_listener_fail \<Rightarrow>
         (if attrib n2 \<noteq> attribtype_msrp_listener \<and> attrib n2 \<noteq> attribtype_msrp_listener_fail then False
          else ld64 e sl_id (n_u n1) = ld64 e sl_id (n_u n2))
     | attribtype_null \<Rightarrow> False)"

section \<open>Printing a notification\<close>

definition app_state_index :: "mrpdhelper_applicant_state \<Rightarrow> nat" where
  "app_state_index st = (case st of app_null \<Rightarrow> 0 | app_VO \<Rightarrow> 1 | app_VP \<Rightarrow> 2 | app_VN \<Rightarrow> 3 | app_AN \<Rightarrow> 4
    | app_AA \<Rightarrow> 5 | app_QA \<Rightarrow> 6 | app_LA \<Rightarrow> 7 | app_AO \<Rightarrow> 8 | app_QO \<Rightarrow> 9 | app_AP \<Rightarrow> 10 | app_QP \<Rightarrow> 11
    | app_LO \<Rightarrow> 12)"

definition notify_name :: "mrpdhelper_notification \<Rightarrow> u8 list" where
  "notify_name x = ascii (case x of notification_new \<Rightarrow> ''NE'' | notification_join \<Rightarrow> ''JO''
    | notification_leave \<Rightarrow> ''LE'' | notification_null \<Rightarrow> ''??'')"

definition state_name :: "mrpdhelper_state \<Rightarrow> u8 list" where
  "state_name x = ascii (case x of state_in \<Rightarrow> ''IN'' | state_leave \<Rightarrow> ''LV'' | state_empty \<Rightarrow> ''MT''
    | state_null \<Rightarrow> ''??'')"

definition registrar_string :: "mrpdhelper_notify \<Rightarrow> u8 list" where
  "registrar_string n = ascii ''R='' @ print_hex 1 (registrar n) @ ascii '' '' @
    notify_name (notify n) @ ascii '','' @ state_name (reg_state n) @ ascii '','' @
    fst (mrp_app_state_mapping ! app_state_index (app_state n))"

definition talker_string :: "endian \<Rightarrow> mem \<Rightarrow> u8 list option" where
  "talker_string e u = do {
    i \<leftarrow> ld64 e st_id u; a \<leftarrow> ld64 e st_dest_mac u; v \<leftarrow> ld32 e st_vid u;
    z \<leftarrow> ld32 e st_max_frame_size u; f \<leftarrow> ld32 e st_max_interval_frames u;
    p \<leftarrow> ld32 e st_priority_and_rank u; l \<leftarrow> ld32 e st_accum_latency u;
    Some (ascii ''T:S='' @ print_hex 1 i @ ascii '',A='' @ print_hex 1 a @ ascii '',V='' @ print_hex 4 v @
      ascii '',Z='' @ print_d z @ ascii '',I='' @ print_d f @ ascii '',P='' @ print_d p @
      ascii '',L='' @ print_d l)
  }"

text \<open>The string \<open>snprintf\<close> formats; it stores as much of it as fits into \<open>len\<close> bytes.\<close>

definition to_string_full :: "endian \<Rightarrow> bool \<Rightarrow> mrpdhelper_notify \<Rightarrow> u8 list option" where
  "to_string_full e malloc_ok n =
    (if \<not> malloc_ok then Some (ascii ''malloc error'') else
     case attrib n of
       attribtype_mmrp \<Rightarrow> Some (ascii ''MMRP...'')
     | attribtype_mvrp \<Rightarrow> do {
         v \<leftarrow> ld32 e v_vid (n_u n);
         Some (ascii ''MVRP id='' @ print_d v @ ascii '', '' @ registrar_string n) }
     | attribtype_msrp_domain \<Rightarrow> do {
         c \<leftarrow> ld32 e sd_id (n_u n); p \<leftarrow> ld32 e sd_priority (n_u n);
         v \<leftarrow> ld32 e sd_vid (n_u n); k \<leftarrow> ld32 e sd_neighbor_priority (n_u n);
         Some (ascii ''D:C='' @ print_d c @ ascii '',P='' @ print_d p @ ascii '',V=0x'' @ print_hex 4 v @
           ascii '',N='' @ print_d k @ ascii '' '' @ registrar_string n) }
     | attribtype_msrp_talker \<Rightarrow> do {
         t \<leftarrow> talker_string e (n_u n); Some (t @ ascii '' '' @ registrar_string n) }
     | attribtype_msrp_talker_fail \<Rightarrow> do {
         t \<leftarrow> talker_string e (n_u n);
         b \<leftarrow> ld64 e st_bridge_id (n_u n); c \<leftarrow> ld32 e st_failure_code (n_u n);
         Some (t @ ascii '',B='' @ print_hex 1 b @ ascii '',C='' @ print_d c @ ascii '' '' @
           registrar_string n) }
     | attribtype_msrp_listener \<Rightarrow> do {
         d \<leftarrow> ld32 e sl_substate (n_u n); i \<leftarrow> ld64 e sl_id (n_u n);
         Some (ascii ''L:D='' @ print_d d @ ascii '',S='' @ print_hex 1 i @ ascii '' '' @
           registrar_string n) }
     | attribtype_msrp_listener_fail \<Rightarrow> Some (ascii ''MSRP listener failed'')
     | attribtype_null \<Rightarrow> Some (ascii ''MRP unknown''))"

definition mrpdhelper_to_string :: "endian \<Rightarrow> bool \<Rightarrow> mrpdhelper_notify \<Rightarrow> nat \<Rightarrow> (int \<times> u8 list) option" where
  "mrpdhelper_to_string e malloc_ok n len = do {
    s \<leftarrow> to_string_full e malloc_ok n;
    Some (int (length s), if len = 0 then [] else take (len - 1) s @ [0])
  }"

section \<open>The parser stays inside the message buffer\<close>

lemma length_ascii2 [simp]: "length (ascii ''R='') = 2" "length (ascii '',B='') = 3"
  by simp_all

lemma after_registrar_bounded:
  assumes "nul_from k m" "sz < length m"
  shows "\<exists>r. after_registrar sz m = Some r \<and> (\<forall>p. r = Some p \<longrightarrow> p + 1 \<le> max sz k)"
proof -
  obtain r where r: "strstr sz (ascii ''R='') m = Some r"
    "\<forall>p. r = Some p \<longrightarrow> sz \<le> p \<and> p + 2 \<le> max sz k"
    using strstr_bounded [OF assms, of "ascii ''R=''"] by auto
  show ?thesis
  proof (cases r)
    case None
    then show ?thesis using r by (simp add: after_registrar_def)
  next
    case (Some p)
    then have p: "sz \<le> p" "p + 2 \<le> max sz k" using r by auto
    then have "p < length m" using assms by (auto simp: nul_from_def max_def split: if_splits)
    then show ?thesis
      using strchr_bounded [OF assms(1), of p 32] p Some r
      by (auto simp: after_registrar_def max_def split: if_splits)
  qed
qed

lemma app_state_loop_defined:
  "\<forall>(s, v)\<in>set tbl. length s = 2 \<Longrightarrow> sz + 2 \<le> length m \<Longrightarrow> app_state_loop sz tbl m st \<noteq> None"
  by (induction tbl arbitrary: st) (auto simp: strncmp_eq_defined)

lemma parse_app_state_defined:
  assumes "nul_from k m" "sz + 2 \<le> length m" "k + 2 \<le> length m"
  shows "\<exists>rc n'. parse_app_state sz m n = Some (rc, n') \<and> n_u n' = n_u n"
proof -
  obtain r where r: "after_registrar sz m = Some r" "\<forall>p. r = Some p \<longrightarrow> p + 1 \<le> max sz k"
    using after_registrar_bounded [OF assms(1), of sz] assms by auto
  have tbl: "\<forall>(s, v)\<in>set mrp_app_state_mapping. length s = 2"
    by (simp add: mrp_app_state_mapping_def)
  show ?thesis
  proof (cases r)
    case None
    then show ?thesis using r by (simp add: parse_app_state_def)
  next
    case (Some p)
    then have "p + 1 + 2 \<le> length m" using r assms by (auto simp: max_def split: if_splits)
    then show ?thesis
      using app_state_loop_defined [OF tbl, of "p + 1" m "app_state n"] r Some
      by (auto simp: parse_app_state_def)
  qed
qed

lemma parse_state_defined:
  assumes "nul_from k m" "sz + 5 \<le> length m" "k + 5 \<le> length m"
  shows "\<exists>rc n'. parse_state sz m n = Some (rc, n') \<and> n_u n' = n_u n"
proof -
  obtain r where "after_registrar sz m = Some r" "\<forall>p. r = Some p \<longrightarrow> p + 1 \<le> max sz k"
    using after_registrar_bounded [OF assms(1), of sz] assms by auto
  then show ?thesis
    using assms by (cases r) (auto simp: parse_state_def strncmp_eq_defined Let_def max_def split: if_splits)
qed

lemma parse_notification_defined:
  "sz + 2 \<le> length m \<Longrightarrow> \<exists>rc n'. parse_notification sz m n = Some (rc, n') \<and> n_u n' = n_u n"
  by (simp add: parse_notification_def strncmp_eq_defined)

lemma parse_registrar_defined:
  assumes "nul_from k m" "sz < length m"
  shows "\<exists>rc n' r. parse_registrar sz m n = Some (rc, n', r) \<and> n_u n' = n_u n \<and>
    (0 \<le> rc \<longrightarrow> (\<exists>p. r = Some p \<and> p + 2 \<le> max sz k))"
proof -
  obtain r where r: "strstr sz (ascii ''R='') m = Some r"
    "\<forall>p. r = Some p \<longrightarrow> sz \<le> p \<and> p + 2 \<le> max sz k"
    using strstr_bounded [OF assms, of "ascii ''R=''"] by auto
  show ?thesis
  proof (cases r)
    case None
    then show ?thesis using r by (simp add: parse_registrar_def)
  next
    case (Some p)
    then have "p < length m" using r assms by (auto simp: nul_from_def)
    then obtain s where "cstr p m = Some s" using cstr_bounded [OF assms(1)] by blast
    then show ?thesis using r Some by (auto simp: parse_registrar_def split: list.splits)
  qed
qed

text \<open>The members the formats store into lie inside the union.\<close>

fun target_end :: "target \<Rightarrow> nat" where
  "target_end (T32 off) = off + 4"
| "target_end (T64 off) = off + 8"

lemma store_vals_defined:
  "\<forall>t\<in>set ts. target_end t \<le> length u \<Longrightarrow>
    \<exists>u'. store_vals e ts vs u = Some u' \<and> length u' = length u"
proof (induction ts arbitrary: vs u)
  case Nil
  then show ?case by simp
next
  case (Cons t ts)
  show ?case
  proof (cases vs)
    case Nil
    then show ?thesis by simp
  next
    case vs: (Cons v vs')
    obtain u1 where u1: "store e t v u = Some u1" "length u1 = length u"
      using Cons.prems by (cases t) (auto simp: st32_def st64_def wrn_def)
    then show ?thesis using Cons.prems Cons.IH [of u1 vs'] vs by simp
  qed
qed

lemma talker_targets_end: "t \<in> set talker_targets \<Longrightarrow> target_end t \<le> 56"
  by (auto simp: talker_targets_def union_offsets)

lemma parse_msrp_string_defined:
  assumes "nul_from k m" "sz < length m" "unat (of_nat sz + len) < length m" "length (n_u n) = 56"
  shows "\<exists>rc m' n'. parse_msrp_string e sz m len n = Some (rc, m', n') \<and> nul_from k m' \<and>
    length m' = length m \<and> length (n_u n') = 56"
proof -
  obtain m' where w: "wrn (unat (of_nat sz + len)) [0] m = Some m'"
    using assms(3) by (cases "wrn (unat (of_nat sz + len)) [0] m") (auto simp: wrn_None_iff)
  have k': "nul_from k m'" "length m' = length m"
    using nul_from_wrn [OF assms(1) w] length_wrn [OF w] by auto
  obtain s where s: "cstr sz m' = Some s"
    using cstr_bounded [OF k'(1)] k'(2) assms(2) by auto
  obtain c where c: "rdn sz (Suc 0) m' = Some c" using assms(2) k'(2) by (simp add: rdn_def)
  obtain b where b: "strstr sz (ascii '',B='') m' = Some b"
    using strstr_bounded [OF k'(1), of sz "ascii '',B=''"] k'(2) assms(2) by auto
  have d: "\<exists>u'. store_vals e [T32 sd_id, T32 sd_priority, T32 sd_vid, T32 sd_neighbor_priority] vs (n_u n)
      = Some u' \<and> length u' = 56" for vs
    using store_vals_defined [of "[T32 sd_id, T32 sd_priority, T32 sd_vid, T32 sd_neighbor_priority]" "n_u n" e vs]
      assms(4) by (simp add: union_offsets)
  have l: "\<exists>u'. store_vals e [T32 sl_substate, T64 sl_id] vs (n_u n) = Some u' \<and> length u' = 56" for vs
    using store_vals_defined [of "[T32 sl_substate, T64 sl_id]" "n_u n" e vs] assms(4)
    by (simp add: union_offsets)
  have t: "\<exists>u'. store_vals e talker_targets vs (n_u n) = Some u' \<and> length u' = 56" for vs
    using store_vals_defined [of talker_targets "n_u n" e vs] talker_targets_end assms(4) by auto
  have f: "\<exists>u'. store_vals e (talker_targets @ [T64 st_bridge_id, T32 st_failure_code]) vs (n_u n)
      = Some u' \<and> length u' = 56" for vs
    using store_vals_defined [of "talker_targets @ [T64 st_bridge_id, T32 st_failure_code]" "n_u n" e vs]
      talker_targets_end assms(4) by (auto simp: union_offsets)
  have z: "\<exists>u1 u2. st64 e st_bridge_id 0 u = Some u1 \<and> st32 e st_failure_code 0 u1 = Some u2 \<and> length u2 = 56"
    if "length u = 56" for u
    using that by (simp add: st64_def st32_def wrn_def union_offsets)
  consider "c = ascii ''D''" | "c \<noteq> ascii ''D''" "c = ascii ''L''"
    | "c \<noteq> ascii ''D''" "c \<noteq> ascii ''L''" "c = ascii ''T''" "b = None"
    | "c \<noteq> ascii ''D''" "c \<noteq> ascii ''L''" "c = ascii ''T''" "b \<noteq> None"
    | "c \<noteq> ascii ''D''" "c \<noteq> ascii ''L''" "c \<noteq> ascii ''T''" by blast
  then show ?thesis
  proof cases
    case 1
    then show ?thesis
      using d [of "sscanf domain_format s"] k' by (auto simp: parse_msrp_string_def w s c Let_def)
  next
    case 2
    then show ?thesis
      using l [of "sscanf listener_format s"] k' by (auto simp: parse_msrp_string_def w s c Let_def)
  next
    case 3
    obtain u' where u': "store_vals e talker_targets (sscanf talker_format s) (n_u n) = Some u'"
      "length u' = 56" using t by blast
    then show ?thesis
      using 3 z [of u'] k' by (auto simp: parse_msrp_string_def w s c b Let_def)
  next
    case 4
    then show ?thesis
      using f [of "sscanf talker_failed_format s"] k'
      by (auto simp: parse_msrp_string_def w s c b Let_def)
  next
    case 5
    then show ?thesis using k' assms(4) by (simp add: parse_msrp_string_def w s c)
  qed
qed

text \<open>
  The four message parsers end with the same three steps; the offsets differ.
\<close>

lemma nul_from_nonempty: "nul_from k m \<Longrightarrow> m \<noteq> []"
  by (auto simp: nul_from_def)

lemma parse_mvrp_defined:
  assumes "nul_from k m" "k + 5 \<le> length m" "6 \<le> length m" "length (n_u n) = 56"
  shows "parse_mvrp e m len n \<noteq> None"
proof -
  obtain s where s: "cstr 4 m = Some s" using cstr_bounded [OF assms(1), of 4] assms by auto
  have l: "\<exists>u'. store_vals e [T32 v_vid] vs u = Some u'" if "length u = 56" for vs u
    using store_vals_defined [of "[T32 v_vid]" u e vs] that by (auto simp: union_offsets)
  obtain rc1 n1 where 1: "parse_notification 1 m n = Some (rc1, n1)" "n_u n1 = n_u n"
    using parse_notification_defined [of 1 m n] assms by auto
  obtain u' where 2: "store_vals e [T32 v_vid] (sscanf [Conv (ConvX (Some 4)), White] s) (n_u n) = Some u'"
    using l assms by blast
  define n2 where "n2 = n1\<lparr>attrib := attribtype_mvrp, n_u := u'\<rparr>"
  obtain rc3 n3 r where 3: "parse_registrar 0 m n2 = Some (rc3, n3, r)"
    using parse_registrar_defined [OF assms(1), of 0 n2] nul_from_nonempty [OF assms(1)] by auto
  obtain rc4 n4 where 4: "parse_app_state 0 m n3 = Some (rc4, n4)"
    using parse_app_state_defined [OF assms(1), of 0 n3] nul_from_nonempty [OF assms(1)] assms by auto
  obtain rc5 n5 where 5: "parse_state 0 m n4 = Some (rc5, n5)"
    using parse_state_defined [OF assms(1), of 0 n4] nul_from_nonempty [OF assms(1)] assms by auto
  show ?thesis
    using 1 2 3 4 5 by (simp add: parse_mvrp_def s Let_def n2_def del: One_nat_def)
qed

lemma parse_mmrp_defined:
  assumes "nul_from k m" "k + 5 \<le> length m" "10 \<le> length m" "length (n_u n) = 56"
  shows "parse_mmrp e m len n \<noteq> None"
proof -
  obtain s where s: "cstr 8 m = Some s" using cstr_bounded [OF assms(1), of 8] assms by auto
  have l: "\<exists>u'. store_vals e [T64 m_mac] vs u = Some u'" if "length u = 56" for vs u
    using store_vals_defined [of "[T64 m_mac]" u e vs] that by (auto simp: union_offsets)
  obtain rc1 n1 where 1: "parse_notification 1 m n = Some (rc1, n1)" "n_u n1 = n_u n"
    using parse_notification_defined [of 1 m n] assms by auto
  obtain rc2 n2 where 2: "parse_state 5 m n1 = Some (rc2, n2)" "n_u n2 = n_u n1"
    using parse_state_defined [OF assms(1), of 5 n1] assms by auto
  obtain u' where 3: "store_vals e [T64 m_mac] (sscanf (lits ''M='' @ [Conv ConvLX]) s) (n_u n) = Some u'"
    using l assms by blast
  define n3 where "n3 = n2\<lparr>attrib := attribtype_mvrp, n_u := u'\<rparr>"
  obtain rc4 n4 r where 4: "parse_registrar 0 m n3 = Some (rc4, n4, r)"
    using parse_registrar_defined [OF assms(1), of 0 n3] nul_from_nonempty [OF assms(1)] by auto
  show ?thesis
    using 1 2 3 4 by (simp add: parse_mmrp_def s Let_def n3_def del: One_nat_def)
qed

lemma parse_msrp_defined:
  assumes "nul_from k m" "k + 5 \<le> length m" "6 \<le> length m" "unat len < length m" "length (n_u n) = 56"
  shows "parse_msrp e m len n \<noteq> None"
proof -
  obtain rc1 n1 where 1: "parse_notification 1 m n = Some (rc1, n1)" "n_u n1 = n_u n"
    using parse_notification_defined [of 1 m n] assms by auto
  obtain rc2 m2 n2 where 2: "parse_msrp_string e 4 m (len - 4) n1 = Some (rc2, m2, n2)"
    "nul_from k m2" "length m2 = length m"
    using parse_msrp_string_defined [OF assms(1), of 4 "len - 4" n1 e] assms 1 by auto
  obtain rc3 n3 r where 3: "parse_registrar 0 m2 n2 = Some (rc3, n3, r)"
    using parse_registrar_defined [OF 2(2), of 0 n2] nul_from_nonempty [OF assms(1)] assms 2 by auto
  obtain rc4 n4 where 4: "parse_app_state 0 m2 n3 = Some (rc4, n4)"
    using parse_app_state_defined [OF 2(2), of 0 n3] nul_from_nonempty [OF assms(1)] assms 2 by auto
  obtain rc5 n5 where 5: "parse_state 0 m2 n4 = Some (rc5, n5)"
    using parse_state_defined [OF 2(2), of 0 n4] nul_from_nonempty [OF assms(1)] assms 2 by auto
  show ?thesis
    using 1 2 3 4 5 by (simp add: parse_msrp_def del: One_nat_def)
qed

lemma parse_msrp_query_defined:
  assumes "nul_from k m" "k + 21 \<le> length m" "unat len < length m" "length (n_u n) = 56"
  shows "parse_msrp_query e m len n \<noteq> None"
proof -
  obtain rc2 m2 n2 where 2: "parse_msrp_string e 0 m len n = Some (rc2, m2, n2)"
    "nul_from k m2" "length m2 = length m"
    using parse_msrp_string_defined [OF assms(1), of 0 len n e] nul_from_nonempty [OF assms(1)] assms by auto
  obtain rc3 n3 r where 3: "parse_registrar 0 m2 n2 = Some (rc3, n3, r)"
    "0 \<le> rc3 \<longrightarrow> (\<exists>p. r = Some p \<and> p + 2 \<le> max 0 k)"
    using parse_registrar_defined [OF 2(2), of 0 n2] nul_from_nonempty [OF assms(1)] assms 2 by fastforce
  show ?thesis
  proof (cases "rc2 < 0 \<or> rc3 < 0")
    case True
    then show ?thesis using 2 3 by (auto simp: parse_msrp_query_def)
  next
    case False
    then obtain p where p: "r = Some p" "p + 2 \<le> k" using 3 by auto
    obtain rc4 n4 where 4: "parse_app_state (p + 15) m2 n3 = Some (rc4, n4)"
      using parse_app_state_defined [OF 2(2), of "p + 15" n3] assms 2 p by auto
    obtain rc5 n5 where 5: "parse_state (p + 18) m2 n4 = Some (rc5, n5)"
      using parse_state_defined [OF 2(2), of "p + 18" n4] assms 2 p by auto
    show ?thesis using 2 3 4 5 p False by (simp add: parse_msrp_query_def)
  qed
qed

lemma parse_bounded:
  assumes "length m = 2000" "unat len + 21 \<le> 2000" "\<forall>j. unat len \<le> j \<and> j < 2000 \<longrightarrow> m ! j = 0"
  shows "mrpdhelper_parse_notification e m len \<noteq> None"
proof -
  have k: "nul_from (unat len) m" using assms by (simp add: nul_from_def)
  obtain c where c: "rdn 0 (Suc 0) m = Some c" using assms by (simp add: rdn_def)
  have z: "length (n_u notify_zero) = 56" by (simp add: notify_zero_def sizeof_u_def)
  show ?thesis
    using parse_mvrp_defined [OF k, of notify_zero e len] parse_mmrp_defined [OF k, of notify_zero e len]
      parse_msrp_defined [OF k, of len notify_zero e] parse_msrp_query_defined [OF k, of len notify_zero e]
      assms z c
    by (simp add: mrpdhelper_parse_notification_def Let_def)
qed

text \<open>
  For every datagram of at most 1979 bytes in the 2000 byte zeroed buffer, the notification
  parser reads and writes only inside the buffer, whatever the bytes are.
\<close>
theorem parse_stays_in_buffer:
  assumes "length m = 2000" "unat len + 21 \<le> 2000" "\<forall>j. unat len \<le> j \<and> j < 2000 \<longrightarrow> m ! j = 0"
  shows "mrpdhelper_parse_notification e m len \<noteq> None"
  using parse_bounded [OF assms] .

section \<open>A well formed notification is parsed to its fields\<close>

lemma app_state_loop_map_of:
  "\<forall>(s, v)\<in>set tbl. length s = 2 \<Longrightarrow> sz + 2 \<le> length m \<Longrightarrow>
    app_state_loop sz tbl m st =
      Some (case map_of tbl (take 2 (drop sz m)) of Some v \<Rightarrow> v | None \<Rightarrow> st)"
  by (induction tbl) (auto simp: strncmp_eq_defined)

definition app_state_name :: "mrpdhelper_applicant_state \<Rightarrow> u8 list" where
  "app_state_name st = fst (mrp_app_state_mapping ! app_state_index st)"

lemma app_state_name_eq:
  "app_state_name st = ascii (case st of app_null \<Rightarrow> ''nl'' | app_VO \<Rightarrow> ''VO'' | app_VP \<Rightarrow> ''VP''
    | app_VN \<Rightarrow> ''VN'' | app_AN \<Rightarrow> ''AN'' | app_AA \<Rightarrow> ''AA'' | app_QA \<Rightarrow> ''QA'' | app_LA \<Rightarrow> ''LA''
    | app_AO \<Rightarrow> ''AO'' | app_QO \<Rightarrow> ''QO'' | app_AP \<Rightarrow> ''AP'' | app_QP \<Rightarrow> ''QP'' | app_LO \<Rightarrow> ''LO'')"
  by (cases st)
    (simp_all add: app_state_name_def app_state_index_def mrp_app_state_mapping_def)

lemma app_state_lookup: "map_of mrp_app_state_mapping (app_state_name st) = Some st"
  by (cases st) (simp_all only: app_state_name_eq mrpdhelper_applicant_state.case, code_simp+)

lemma length_notify_name [simp]: "length (notify_name x) = 2"
  by (cases x) (simp_all add: notify_name_def)

lemma length_state_name [simp]: "length (state_name x) = 2"
  by (cases x) (simp_all add: state_name_def)

lemma length_app_state_name [simp]: "length (app_state_name x) = 2"
  by (cases x) (simp_all add: app_state_name_eq)

lemma notify_name_cases:
  "notify_name x = ascii ''NE'' \<longleftrightarrow> x = notification_new"
  "notify_name x = ascii ''JO'' \<longleftrightarrow> x = notification_join"
  "notify_name x = ascii ''LE'' \<longleftrightarrow> x = notification_leave"
  by (rule mrpdhelper_notification.exhaust [of x]; simp only: notify_name_def mrpdhelper_notification.case
      mrpdhelper_notification.distinct; code_simp)+

lemma state_name_cases:
  "state_name x = ascii ''IN'' \<longleftrightarrow> x = state_in"
  "state_name x = ascii ''LV'' \<longleftrightarrow> x = state_leave"
  "state_name x = ascii ''MT'' \<longleftrightarrow> x = state_empty"
  by (rule mrpdhelper_state.exhaust [of x]; simp only: state_name_def mrpdhelper_state.case
      mrpdhelper_state.distinct; code_simp)+

text \<open>
  The layout of a listener notification as the daemon sends it: action and attribute, the
  listener declaration, the registrar, the applicant and the registrar state.
\<close>

definition listener_message ::
  "mrpdhelper_notification \<Rightarrow> u32 \<Rightarrow> u64 \<Rightarrow> u64 \<Rightarrow> mrpdhelper_applicant_state \<Rightarrow> mrpdhelper_state \<Rightarrow> u8 list" where
  "listener_message x sub sid reg app st =
    (ascii ''S'' @ notify_name x @ ascii '' L:D='' @ print_d sub @ ascii '',S='' @ print_hex 16 sid @ ascii '' '')
    @ ascii ''R='' @ print_hex 12 reg @ ascii '' '' @ app_state_name app @ ascii '','' @ state_name st"

lemma strncmp_eq_2:
  "length lit = 2 \<Longrightarrow> sz + 2 \<le> length m \<Longrightarrow> strncmp_eq sz lit m = Some (take 2 (drop sz m) = lit)"
  using strncmp_eq_defined [of sz lit m] by simp

lemma parse_notification_name:
  assumes "take 2 (drop sz m) = notify_name x" "sz + 2 \<le> length m" "x \<noteq> notification_null"
  shows "parse_notification sz m n = Some (0, n\<lparr>notify := x\<rparr>)"
  using assms by (cases x) (simp_all add: parse_notification_def strncmp_eq_2 notify_name_cases)

lemma parse_state_at:
  assumes "after_registrar sz m = Some (Some p)" "take 2 (drop (p + 4) m) = state_name st"
    "p + 6 \<le> length m" "st \<noteq> state_null"
  shows "parse_state sz m n = Some (0, n\<lparr>reg_state := st\<rparr>)"
  using assms
  by (cases st) (simp_all add: parse_state_def strncmp_eq_2 state_name_cases Let_def)

lemma parse_app_state_at:
  assumes "after_registrar sz m = Some (Some p)" "take 2 (drop (p + 1) m) = app_state_name st"
    "p + 3 \<le> length m" "st \<noteq> app_null"
  shows "parse_app_state sz m n = Some (0, n\<lparr>app_state := st\<rparr>)"
proof -
  have tbl: "\<forall>(s, v)\<in>set mrp_app_state_mapping. length s = 2"
    by (simp add: mrp_app_state_mapping_def)
  show ?thesis
    using assms app_state_loop_map_of [OF tbl, of "p + 1" m "app_state n"]
    by (simp add: parse_app_state_def app_state_lookup)
qed

lemma listener_literals:
  "0 \<notin> set (ascii ''S'')" "0 \<notin> set (ascii '' L:D='')" "0 \<notin> set (ascii '',S='')" "0 \<notin> set (ascii '' '')"
  "0 \<notin> set (ascii ''R='')" "0 \<notin> set (ascii '','')"
  "82 \<notin> set (ascii ''S'')" "82 \<notin> set (ascii '' L:D='')" "82 \<notin> set (ascii '',S='')" "82 \<notin> set (ascii '' '')"
  "ascii ''R='' = [82, 61]" "ascii '' '' = [32]"
  by code_simp+

lemma name_chars:
  "c \<in> set (notify_name x) \<Longrightarrow> c \<noteq> 0 \<and> c \<noteq> 82"
  "c \<in> set (state_name y) \<Longrightarrow> c \<noteq> 0"
  "c \<in> set (app_state_name z) \<Longrightarrow> c \<noteq> 0"
proof -
  have 1: "0 \<notin> set (notify_name x) \<and> 82 \<notin> set (notify_name x)"
    by (rule mrpdhelper_notification.exhaust [of x]; simp only: notify_name_def mrpdhelper_notification.case; code_simp)
  have 2: "0 \<notin> set (state_name y)"
    by (rule mrpdhelper_state.exhaust [of y]; simp only: state_name_def mrpdhelper_state.case; code_simp)
  have 3: "0 \<notin> set (app_state_name z)"
    by (rule mrpdhelper_applicant_state.exhaust [of z];
        simp only: app_state_name_eq mrpdhelper_applicant_state.case; code_simp)
  show "c \<in> set (notify_name x) \<Longrightarrow> c \<noteq> 0 \<and> c \<noteq> 82" "c \<in> set (state_name y) \<Longrightarrow> c \<noteq> 0"
    "c \<in> set (app_state_name z) \<Longrightarrow> c \<noteq> 0"
    using 1 2 3 by auto
qed

lemma number_chars:
  "c \<in> set (print_hex w v) \<Longrightarrow> c \<noteq> 0 \<and> c \<noteq> 82 \<and> c \<noteq> 32"
  "0 \<le> sint u \<Longrightarrow> c \<in> set (print_d u) \<Longrightarrow> c \<noteq> 0 \<and> c \<noteq> 82 \<and> c \<noteq> 32"
proof -
  have h: "hex_digit c \<noteq> None \<Longrightarrow> c \<noteq> 0 \<and> c \<noteq> 82 \<and> c \<noteq> 32" for c
    by (auto simp: hex_digit_def split: if_splits)
  show "c \<in> set (print_hex w v) \<Longrightarrow> c \<noteq> 0 \<and> c \<noteq> 82 \<and> c \<noteq> 32"
    "0 \<le> sint u \<Longrightarrow> c \<in> set (print_d u) \<Longrightarrow> c \<noteq> 0 \<and> c \<noteq> 82 \<and> c \<noteq> 32"
    using h [OF print_hex_chars] h [OF print_d_chars] by blast+
qed

lemma ends_number_lits:
  "ends_number (ascii '',S='' @ r)" "ends_number (ascii '' '' @ r)"
proof -
  have "ascii '',S='' = 44 # ascii ''S=''" "ascii '' '' = [32]" by code_simp+
  then show "ends_number (ascii '',S='' @ r)" "ends_number (ascii '' '' @ r)"
    by (simp_all add: ends_number_def hex_digit_def)
qed

lemma sscanf_listener:
  fixes sub :: u32 and sid :: u64
  assumes "0 \<le> sint sub"
  shows "sscanf listener_format (ascii ''L:D='' @ print_d sub @ ascii '',S='' @ print_hex 16 sid @ ascii '' '' @ r)
    = [ucast sub, sid]"
proof -
  have "sscanf [Conv ConvLX] (print_hex 16 sid @ ascii '' '' @ r) = [sid]"
    by (simp add: convert_print_hex ends_number_lits)
  then have "sscanf (lits '',S='' @ [Conv ConvLX]) (ascii '',S='' @ print_hex 16 sid @ ascii '' '' @ r) = [sid]"
    by (simp only: sscanf_lits)
  then have "sscanf ([Conv ConvD] @ lits '',S='' @ [Conv ConvLX])
      (print_d sub @ ascii '',S='' @ print_hex 16 sid @ ascii '' '' @ r) = [ucast sub, sid]"
    by (simp add: convert_print_d [OF ends_number_lits(1) assms])
  then show ?thesis by (simp only: listener_format_def sscanf_lits)
qed

lemma listener_message_no_nul:
  "0 \<le> sint sub \<Longrightarrow> 0 \<notin> set (listener_message x sub sid reg app st)"
  using listener_literals name_chars [where c = 0] number_chars [where c = 0]
  by (auto simp: listener_message_def)

lemma length_listener_message: "length (listener_message x sub sid reg app st) \<le> 70"
  using length_print_d32 [of sub] length_print_hex64 [of 16 sid] length_print_hex64 [of 12 reg]
  by (simp add: listener_message_def)

lemma after_registrar_listener:
  fixes x sub sid reg app st
  assumes "0 \<le> sint sub"
  defines "m \<equiv> msg_buffer 2000 (listener_message x sub sid reg app st)"
  shows "\<exists>p. strstr 0 (ascii ''R='') m = Some (Some p) \<and>
    cstr p m = Some (ascii ''R='' @ print_hex 12 reg @ ascii '' '' @ app_state_name app @ ascii '','' @ state_name st) \<and>
    after_registrar 0 m = Some (Some (p + 2 + length (print_hex 12 reg))) \<and>
    take 2 (drop (p + 2 + length (print_hex 12 reg) + 1) m) = app_state_name app \<and>
    take 2 (drop (p + 2 + length (print_hex 12 reg) + 4) m) = state_name st"
proof -
  let ?M = "listener_message x sub sid reg app st"
  let ?pre = "ascii ''S'' @ notify_name x @ ascii '' L:D='' @ print_d sub @ ascii '',S='' @ print_hex 16 sid @ ascii '' ''"
  let ?tail = "app_state_name app @ ascii '','' @ state_name st"
  let ?q = "length ?pre + 2 + length (print_hex 12 reg)"
  have M: "?M = ?pre @ ascii ''R='' @ print_hex 12 reg @ ascii '' '' @ ?tail"
    by (simp add: listener_message_def)
  have c: "cstr off m = Some (drop off ?M)" if "off \<le> length ?M" for off
    unfolding m_def using that length_listener_message [of x sub sid reg app st]
    by (intro cstr_msg_buffer listener_message_no_nul assms(1)) auto
  have noR: "82 \<notin> set ?pre"
    using listener_literals name_chars(1) [where c = 82] number_chars [where c = 82] assms(1) by auto
  have s: "strstr 0 (ascii ''R='') m = Some (Some (length ?pre))"
    using c [of 0] sub_index_skip [OF noR, of "[61]" "print_hex 12 reg @ ascii '' '' @ ?tail"]
    by (simp add: strstr_def M listener_literals)
  have cp: "cstr (length ?pre) m = Some (ascii ''R='' @ print_hex 12 reg @ ascii '' '' @ ?tail)"
    using c [of "length ?pre"] by (simp add: M)
  have "find_index ((=) 32) ((ascii ''R='' @ print_hex 12 reg) @ 32 # ?tail) =
      Some (length (ascii ''R='' @ print_hex 12 reg))"
    using number_chars(1) [where w = 12 and v = reg]
    by (intro find_index_skip) (auto simp: listener_literals)
  then have sc: "strchr (length ?pre) 32 m = Some (Some ?q)"
    using cp by (simp add: strchr_def listener_literals add.commute)
  have d: "drop (?q + 1) ?M = ?tail" "drop (?q + 4) ?M = state_name st"
    by (simp_all add: M)
  have "take 2 (drop (?q + 1) m) = take 2 (drop (?q + 1) ?M)"
    unfolding m_def by (rule take_drop_msg_buffer) (simp add: M)
  moreover have "take 2 (drop (?q + 4) m) = take 2 (drop (?q + 4) ?M)"
    unfolding m_def by (rule take_drop_msg_buffer) (simp add: M)
  ultimately show ?thesis
    using s sc cp d by (intro exI [of _ "length ?pre"]) (simp add: after_registrar_def)
qed

lemma listener_letters: "ascii ''L'' \<noteq> ascii ''D''" "ascii ''D'' \<noteq> ascii ''L''"
  by code_simp+

lemma parse_listener_string:
  assumes "wrn (unat (of_nat sz + len)) [0] m = Some m'" "rdn sz 1 m' = Some (ascii ''L'')"
    "cstr sz m' = Some (ascii ''L:D='' @ print_d sub @ ascii '',S='' @ print_hex 16 sid @ ascii '' '' @ r)"
    "0 \<le> sint sub" "length (n_u n) = 56"
  shows "\<exists>u. parse_msrp_string e sz m len n =
      Some (0, m', n\<lparr>n_u := u, attrib := attribtype_msrp_listener\<rparr>) \<and>
    ld32 e sl_substate u = Some sub \<and> ld64 e sl_id u = Some sid"
proof -
  obtain u1 where u1: "st32 e sl_substate sub (n_u n) = Some u1"
    using w32.set_defined [where v = sub and m = "n_u n" and off = sl_substate and e = e] assms(5)
    by (auto simp: union_offsets)
  have lu: "length u1 = 56" using w32.set_length [OF _ u1] assms(5) by simp
  obtain u2 where u2: "st64 e sl_id sid u1 = Some u2"
    using w64.set_defined [where v = sid and m = u1 and off = sl_id and e = e] lu
    by (auto simp: union_offsets)
  have g: "ld64 e sl_id u2 = Some sid" using w64.get_set [OF _ u2] by simp
  have "rdn sl_substate 4 u2 = rdn sl_substate 4 u1"
    using w64.set_outside [OF _ u2, of sl_substate 4] by (simp add: union_offsets)
  then have g': "ld32 e sl_substate u2 = Some sub"
    using w32.get_set [OF _ u1] by (simp add: ld32_def)
  have "parse_msrp_string e sz m len n =
      Some (0, m', n\<lparr>n_u := u2, attrib := attribtype_msrp_listener\<rparr>)"
    using u1 u2 assms(2) [unfolded One_nat_def]
    by (simp add: parse_msrp_string_def assms(1,3) sscanf_listener [OF assms(4)] Let_def listener_letters)
  then show ?thesis using g g' by blast
qed

lemma listener_parsed:
  assumes "x \<noteq> notification_null" "app \<noteq> app_null" "st \<noteq> state_null" "0 \<le> sint sub"
  shows "\<exists>u. mrpdhelper_parse_notification e (msg_buffer 2000 (listener_message x sub sid reg app st))
        (of_nat (length (listener_message x sub sid reg app st))) =
      Some (0, msg_buffer 2000 (listener_message x sub sid reg app st),
        \<lparr> attrib = attribtype_msrp_listener, notify = x, reg_state = st, app_state = app,
          registrar = reg, n_u = u \<rparr>) \<and>
    ld32 e sl_substate u = Some sub \<and> ld64 e sl_id u = Some sid"
proof -
  define msg where "msg = listener_message x sub sid reg app st"
  let ?m = "msg_buffer 2000 msg" and ?len = "of_nat (length msg) :: u64"
  let ?rest = "ascii ''R='' @ print_hex 12 reg @ ascii '' '' @ app_state_name app @ ascii '','' @ state_name st"
  have L: "length msg \<le> 70" unfolding msg_def by (rule length_listener_message)
  have lm: "length ?m = 2000" using L by (simp add: length_msg_buffer)
  have nz: "0 \<notin> set msg" unfolding msg_def by (rule listener_message_no_nul [OF assms(4)])
  have split: "msg = ascii ''S'' @ notify_name x @ ascii '' '' @ ascii ''L:D='' @ print_d sub @
      ascii '',S='' @ print_hex 16 sid @ ascii '' '' @ ?rest"
    by (simp add: msg_def listener_message_def ascii_def)
  have c0: "rdn 0 1 ?m = Some (ascii ''S'')"
    using rdn_msg_buffer [of 0 1 msg 2000] L by (simp add: split ascii_def)
  have n1: "take 2 (drop 1 ?m) = notify_name x"
    using take_drop_msg_buffer [of 1 2 msg 2000] by (simp add: split ascii_def)
  have c4: "rdn 4 1 ?m = Some (ascii ''L'')"
    using rdn_msg_buffer [of 4 1 msg 2000] L by (simp add: split ascii_def)
  have d4: "drop 4 msg = ascii ''L:D='' @ print_d sub @ ascii '',S='' @ print_hex 16 sid @ ascii '' '' @ ?rest"
    by (simp add: split)
  have s4: "cstr 4 ?m = Some (ascii ''L:D='' @ print_d sub @ ascii '',S='' @ print_hex 16 sid @ ascii '' '' @ ?rest)"
    using cstr_msg_buffer [OF nz, of 2000 4] L d4 by (simp add: split)
  have w: "wrn (unat (of_nat 4 + (?len - 4))) [0] ?m = Some ?m"
    using wrn_nul_msg_buffer [of msg 2000] L by (simp add: unat_of_nat take_bit_nat_eq_self)
  obtain u2 where ps: "parse_msrp_string e 4 ?m (?len - 4) (notify_zero\<lparr>notify := x\<rparr>) =
      Some (0, ?m, notify_zero\<lparr>notify := x, n_u := u2, attrib := attribtype_msrp_listener\<rparr>)"
    and g: "ld32 e sl_substate u2 = Some sub" and g': "ld64 e sl_id u2 = Some sid"
    using parse_listener_string [OF w c4 s4 assms(4), of "notify_zero\<lparr>notify := x\<rparr>" e]
    by (auto simp: notify_zero_def sizeof_u_def)
  obtain p where p: "strstr 0 (ascii ''R='') ?m = Some (Some p)" "cstr p ?m = Some ?rest"
    "after_registrar 0 ?m = Some (Some (p + 2 + length (print_hex 12 reg)))"
    "take 2 (drop (p + 2 + length (print_hex 12 reg) + 1) ?m) = app_state_name app"
    "take 2 (drop (p + 2 + length (print_hex 12 reg) + 4) ?m) = state_name st"
    using after_registrar_listener [OF assms(4), of x sid reg app st] unfolding msg_def by blast
  define q where "q = p + 2 + length (print_hex 12 reg)"
  note p = p [folded q_def]
  have q: "q + 6 \<le> 2000"
    using arg_cong [OF p(5), of length] lm by simp
  have sr: "sscanf (lits ''R='' @ [Conv ConvLX]) ?rest = [reg]"
    by (simp only: sscanf_lits) (simp add: convert_print_hex ends_number_lits)
  have pr: "parse_registrar 0 ?m n = Some (0, n\<lparr>registrar := reg\<rparr>, Some p)" for n
    by (simp add: parse_registrar_def p sr)
  have pa: "parse_app_state 0 ?m n = Some (0, n\<lparr>app_state := app\<rparr>)" for n
    using parse_app_state_at [OF p(3,4)] q lm assms(2) by simp
  have pt: "parse_state 0 ?m n = Some (0, n\<lparr>reg_state := st\<rparr>)" for n
    using parse_state_at [OF p(3,5)] q lm assms(3) by simp
  have pn: "parse_notification 1 ?m n = Some (0, n\<lparr>notify := x\<rparr>)" for n
    using parse_notification_name [OF n1] lm assms(1) by simp
  have not_V: "ascii ''S'' \<noteq> ascii ''V''" by code_simp
  have "mrpdhelper_parse_notification e ?m ?len = Some (0, ?m,
      notify_zero\<lparr>notify := x, n_u := u2, attrib := attribtype_msrp_listener, registrar := reg,
        app_state := app, reg_state := st\<rparr>)"
    by (simp add: mrpdhelper_parse_notification_def c0 not_V parse_msrp_def pn ps pr pa pt Let_def
        del: One_nat_def)
  then show ?thesis
    unfolding msg_def [symmetric] using g g' by (auto simp: notify_zero_def)
qed

text \<open>
  C16: Parsing a well formed listener notification returns success with the action, the
  registrar, the applicant and registrar states, the declaration and the stream identifier that
  were printed into it.
\<close>
theorem listener_notification_parsed:
  assumes "x \<noteq> notification_null" "app \<noteq> app_null" "st \<noteq> state_null" "0 \<le> sint sub"
  shows "\<exists>u. mrpdhelper_parse_notification e (msg_buffer 2000 (listener_message x sub sid reg app st))
        (of_nat (length (listener_message x sub sid reg app st))) =
      Some (0, msg_buffer 2000 (listener_message x sub sid reg app st),
        \<lparr> attrib = attribtype_msrp_listener, notify = x, reg_state = st, app_state = app,
          registrar = reg, n_u = u \<rparr>) \<and>
    ld32 e sl_substate u = Some sub \<and> ld64 e sl_id u = Some sid"
  using listener_parsed [OF assms] .

lemma listener_notification_parsed_witness:
  "\<exists>u. mrpdhelper_parse_notification LE
      (msg_buffer 2000 (listener_message notification_join 2 0xabcdef 0x112233445566 app_VO state_in))
      (of_nat (length (listener_message notification_join 2 0xabcdef 0x112233445566 app_VO state_in))) =
    Some (0, msg_buffer 2000 (listener_message notification_join 2 0xabcdef 0x112233445566 app_VO state_in),
      \<lparr> attrib = attribtype_msrp_listener, notify = notification_join, reg_state = state_in,
        app_state = app_VO, registrar = 0x112233445566, n_u = u \<rparr>) \<and>
    ld32 LE sl_substate u = Some 2 \<and> ld64 LE sl_id u = Some 0xabcdef"
  using listener_notification_parsed
    [of notification_join app_VO state_in 2 LE "0xabcdef" "0x112233445566"] by simp

lemma parse_stays_in_buffer_witness:
  "mrpdhelper_parse_notification BE (replicate 2000 0) 1979 \<noteq> None"
  using parse_stays_in_buffer [of "replicate 2000 0" 1979 BE] by simp

text \<open>
  A declaration that fills the 2000 byte receive buffer makes the parser write its
  terminator one byte past the buffer.
\<close>
theorem full_datagram_overruns_buffer:
  assumes "length m = 2000" "m ! 0 \<in> {76, 68, 84}"
  shows "mrpdhelper_parse_notification e m 2000 = None"
proof -
  have w: "wrn 2000 [0] m = None" using assms(1) by (simp add: wrn_None_iff)
  have q: "parse_msrp_query e m 2000 n = None" for n
    by (simp add: parse_msrp_query_def parse_msrp_string_def w)
  have c: "rdn 0 (Suc 0) m = Some [m ! 0]" using assms(1) by (cases m) (auto simp: rdn_def)
  have a: "ascii ''V'' = [86]" "ascii ''S'' = [83]" "ascii ''M'' = [77]" "ascii ''L'' = [76]"
    "ascii ''D'' = [68]" "ascii ''T'' = [84]" by code_simp+
  show ?thesis
    using assms(2) c by (auto simp: mrpdhelper_parse_notification_def a q Let_def)
qed

lemma full_datagram_overruns_buffer_witness:
  "mrpdhelper_parse_notification LE (76 # replicate 1999 32) 2000 = None"
  using full_datagram_overruns_buffer [of "76 # replicate 1999 32" LE] by simp

section \<open>Answers to a query\<close>

text \<open>The layout of an answer to a query: a listener declaration without an action in front.\<close>

definition listener_query ::
  "u32 \<Rightarrow> u64 \<Rightarrow> u64 \<Rightarrow> mrpdhelper_applicant_state \<Rightarrow> mrpdhelper_state \<Rightarrow> u8 list" where
  "listener_query sub sid reg app st =
    (ascii ''L:D='' @ print_d sub @ ascii '',S='' @ print_hex 16 sid @ ascii '' '')
    @ ascii ''R='' @ print_hex 12 reg @ ascii '' '' @ app_state_name app @ ascii '','' @ state_name st"

lemma sub_index_absent: "p \<notin> set s \<Longrightarrow> sub_index (p # pat) s = None"
  by (induction s) auto

lemma length_pad0_ge: "w \<le> length (pad0 w s)"
  by (simp add: pad0_def)

lemma query_literals:
  "0 \<notin> set (ascii ''L:D='')" "82 \<notin> set (ascii ''L:D='')" "82 \<notin> set (ascii '','')"
  by code_simp+

lemma state_chars_no_R: "82 \<notin> set (app_state_name z)" "82 \<notin> set (state_name y)"
proof -
  show "82 \<notin> set (app_state_name z)"
    by (rule mrpdhelper_applicant_state.exhaust [of z];
        simp only: app_state_name_eq mrpdhelper_applicant_state.case; code_simp)
  show "82 \<notin> set (state_name y)"
    by (rule mrpdhelper_state.exhaust [of y]; simp only: state_name_def mrpdhelper_state.case; code_simp)
qed

text \<open>
  A well formed answer to a query, a listener declaration without an action, is always
  rejected: the parser looks for a second registrar field.
\<close>
theorem query_answer_rejected:
  assumes "0 \<le> sint sub"
  shows "\<exists>m n. mrpdhelper_parse_notification e (msg_buffer 2000 (listener_query sub sid reg app st))
      (of_nat (length (listener_query sub sid reg app st))) = Some (- 1, m, n)"
proof -
  define msg where "msg = listener_query sub sid reg app st"
  let ?m = "msg_buffer 2000 msg" and ?len = "of_nat (length msg) :: u64"
  let ?pre = "ascii ''L:D='' @ print_d sub @ ascii '',S='' @ print_hex 16 sid @ ascii '' ''"
  let ?tail = "print_hex 12 reg @ ascii '' '' @ app_state_name app @ ascii '','' @ state_name st"
  have split: "msg = ?pre @ ascii ''R='' @ ?tail" by (simp add: msg_def listener_query_def)
  have L: "length msg \<le> 70"
    using length_print_d32 [of sub] length_print_hex64 [of 16 sid] length_print_hex64 [of 12 reg]
    by (simp add: split)
  have nz: "0 \<notin> set msg"
    using listener_literals query_literals name_chars [where c = 0] number_chars [where c = 0] assms
    by (auto simp: split)
  have noR: "82 \<notin> set ?pre" "82 \<notin> set ?tail"
    using listener_literals query_literals state_chars_no_R number_chars [where c = 82] assms by auto
  have c: "cstr off ?m = Some (drop off msg)" if "off \<le> length msg" for off
    using that L by (intro cstr_msg_buffer nz) auto
  have s0: "strstr 0 (ascii ''R='') ?m = Some (Some (length ?pre))"
    using c [of 0] sub_index_skip [OF noR(1), of "[61]" ?tail]
    by (simp add: strstr_def split listener_literals)
  have long: "12 \<le> length (print_hex 12 reg)" by (simp add: print_hex_def length_pad0_ge)
  have "82 \<notin> set (drop 13 ?tail)" using noR(2) by (meson in_set_dropD)
  moreover have "drop (length ?pre + 15) msg = drop 13 ?tail"
    by (simp add: split)
  ultimately have s15: "strstr (length ?pre + 15) (ascii ''R='') ?m = Some None"
    using c [of "length ?pre + 15"] long by (simp add: strstr_def split listener_literals sub_index_absent)
  have w: "wrn (unat (of_nat 0 + ?len)) [0] ?m = Some ?m"
    using wrn_nul_msg_buffer [of msg 2000] L by (simp add: unat_of_nat take_bit_nat_eq_self)
  have c0: "rdn 0 1 ?m = Some (ascii ''L'')"
    using rdn_msg_buffer [of 0 1 msg 2000] L by (simp add: split ascii_def)
  have "drop 0 msg = ascii ''L:D='' @ print_d sub @ ascii '',S='' @ print_hex 16 sid @ ascii '' '' @
      ascii ''R='' @ ?tail" by (simp add: split)
  then have s0': "cstr 0 ?m = Some (ascii ''L:D='' @ print_d sub @ ascii '',S='' @ print_hex 16 sid @
      ascii '' '' @ ascii ''R='' @ ?tail)"
    using c [of 0] by simp
  obtain u where ps: "parse_msrp_string e 0 ?m ?len notify_zero =
      Some (0, ?m, notify_zero\<lparr>n_u := u, attrib := attribtype_msrp_listener\<rparr>)"
    using parse_listener_string [OF w c0 s0' assms, of notify_zero e]
    by (auto simp: notify_zero_def sizeof_u_def)
  have pr: "\<exists>rc n'. parse_registrar 0 ?m n = Some (rc, n', Some (length ?pre))" for n
    using s0 c [of "length ?pre"] by (auto simp: parse_registrar_def split split: list.splits)
  have pa: "parse_app_state (length ?pre + 15) ?m n = Some (- 1, n)" for n
    using s15 by (simp add: parse_app_state_def after_registrar_def)
  have lit: "ascii ''L'' \<noteq> ascii ''V''" "ascii ''L'' \<noteq> ascii ''S''" "ascii ''L'' \<noteq> ascii ''M''"
    by code_simp+
  obtain rc n' where pr': "parse_registrar 0 ?m (notify_zero\<lparr>n_u := u, attrib := attribtype_msrp_listener\<rparr>)
      = Some (rc, n', Some (length ?pre))" using pr by blast
  have "\<exists>n. parse_msrp_query e ?m ?len notify_zero = Some (- 1, ?m, n)"
    using pa [of n'] by (auto simp: parse_msrp_query_def ps pr')
  then show ?thesis
    unfolding msg_def [symmetric] using c0 [unfolded One_nat_def]
    by (auto simp: mrpdhelper_parse_notification_def lit Let_def)
qed

lemma query_answer_rejected_witness:
  "\<exists>m n. mrpdhelper_parse_notification LE
      (msg_buffer 2000 (listener_query 2 0xabcdef 0x112233445566 app_VO state_in))
      (of_nat (length (listener_query 2 0xabcdef 0x112233445566 app_VO state_in))) = Some (- 1, m, n)"
  using query_answer_rejected [of 2 LE "0xabcdef" "0x112233445566" app_VO state_in] by simp

section \<open>Comparing notifications\<close>

lemma notify_equal_same_attrib: "mrpdhelper_notify_equal e a b \<Longrightarrow> attrib a = attrib b \<and> attrib a \<noteq> attribtype_null"
  by (auto simp: mrpdhelper_notify_equal_def split: if_splits mrpdhelper_attribtype.splits)

lemma notify_equal_mergable: "mrpdhelper_notify_equal e a b \<Longrightarrow> mrpdhelper_notify_mergable e a b"
  by (auto simp: mrpdhelper_notify_equal_def mrpdhelper_notify_mergable_def
      split: if_splits mrpdhelper_attribtype.splits)

text \<open>The two comparisons of notifications, equality and mergability.\<close>

lemma notification_comparisons:
  "(mrpdhelper_notify_equal e a a \<longleftrightarrow> attrib a \<noteq> attribtype_null) \<and>
   mrpdhelper_notify_equal e a b = mrpdhelper_notify_equal e b a \<and>
   mrpdhelper_notify_mergable e a b = mrpdhelper_notify_mergable e b a \<and>
   (mrpdhelper_notify_mergable e a b \<and> mrpdhelper_notify_mergable e b c \<longrightarrow>
     mrpdhelper_notify_mergable e a c) \<and>
   (mrpdhelper_notify_equal e a b \<longleftrightarrow> attrib a = attrib b \<and> mrpdhelper_notify_mergable e a b)"
  by (cases "attrib a"; cases "attrib b"; cases "attrib c")
    (auto simp: mrpdhelper_notify_equal_def mrpdhelper_notify_mergable_def)

end
