(* ===== verification/Msrp.thy ===== *)
theory Msrp
  imports Mrpdhelper
begin

unbundle bit_operations_syntax

text \<open>
  The SRP client: the socket to the MRP daemon (\<open>lib/msrp/mrpdclient.c\<close>) and the context that
  tracks listeners and talkers of one stream and sends declarations (\<open>lib/msrp/msrp.c\<close>). The
  results of the system calls and of the allocations are arguments; a null pointer is \<open>None\<close>
  inside the state, and a function that dereferences one or leaves a buffer is \<open>None\<close>. The
  locale \<open>counted_registry\<close> states what the listener bookkeeping needs from the table of
  attached listeners.
\<close>

section \<open>The socket\<close>

definition SOCKET_ERROR :: int where "SOCKET_ERROR = - 1"
definition MRPDCLIENT_MAX_MSG_SIZE :: nat where "MRPDCLIENT_MAX_MSG_SIZE = 2000"

text \<open>What the calls of \<open>mrpdclient_init\<close> return; the second result is the list of closed sockets.\<close>

record sock_env =
  socket_rc :: int
  rcvtimeo_rc :: int
  sndtimeo_rc :: int
  bind_rc :: int

definition mrpdclient_init :: "sock_env \<Rightarrow> int \<times> int list" where
  "mrpdclient_init env =
    (let sock = socket_rc env;
         out = (SOCKET_ERROR, if sock \<noteq> SOCKET_ERROR then [sock] else [])
     in if sock = SOCKET_ERROR then out
        else if rcvtimeo_rc env \<noteq> 0 then out
        else if sndtimeo_rc env \<noteq> 0 then out
        else if bind_rc env \<le> SOCKET_ERROR then out
        else (sock, []))"

text \<open>\<open>mrpdclient_sendto\<close> with the result of the system call, and the datagram it sends if any.\<close>

definition mrpdclient_sendto :: "int \<Rightarrow> int \<Rightarrow> u8 list \<Rightarrow> int \<times> u8 list list" where
  "mrpdclient_sendto sendto_rc sock data =
    (if sock = SOCKET_ERROR then (- 1, []) else (sendto_rc, [data]))"

definition BYE :: "u8 list" where "BYE = ascii ''BYE'' @ [0]"

text \<open>Result, the socket variable afterwards, and the sockets closed.\<close>

definition mrpdclient_close :: "int \<Rightarrow> int option \<Rightarrow> int \<times> int option \<times> int list" where
  "mrpdclient_close sendto_rc sock_ptr =
    (case sock_ptr of
       None \<Rightarrow> (- 1, None, [])
     | Some sock \<Rightarrow>
        let (rc, _) = mrpdclient_sendto sendto_rc sock BYE in
        if rc \<noteq> int (length BYE) then (- 1, Some sock, [])
        else (0, Some SOCKET_ERROR, if sock \<noteq> SOCKET_ERROR then [sock] else []))"

datatype recv_result = Received "u8 list" | Recv_again | Recv_failed

text \<open>\<open>recv\<close> into a zeroed buffer: the datagram, cut at the size of the buffer.\<close>

definition recv_buffer :: "u8 list \<Rightarrow> mem" where
  "recv_buffer bs = msg_buffer MRPDCLIENT_MAX_MSG_SIZE (take MRPDCLIENT_MAX_MSG_SIZE bs)"

definition mrpdclient_recv ::
  "bool \<Rightarrow> recv_result \<Rightarrow> int \<Rightarrow> (mem \<Rightarrow> int \<Rightarrow> int) \<Rightarrow> int" where
  "mrpdclient_recv malloc_ok res sock fn =
    (if sock = SOCKET_ERROR then - 1
     else if \<not> malloc_ok then - 1
     else case res of
       Received bs \<Rightarrow> fn (recv_buffer bs) (int (length (take MRPDCLIENT_MAX_MSG_SIZE bs)))
     | _ \<Rightarrow> - 1)"

section \<open>The context\<close>

definition MSRP_MAX_STREAMS :: nat where "MSRP_MAX_STREAMS = 8"
definition MSRP_LISTENER_READY :: u32 where "MSRP_LISTENER_READY = 2"

record mrp_property =
  verbose :: bool
  streamid :: u64
  destaddr :: u64
  vlan :: u32
  MaxFrameSize :: u32
  MaxIntervalFrames :: u32
  sr_priority :: u32
  sr_rank :: u32
  latency :: u32
  sr_class :: u32

record monitor_listener =
  attached :: bool
  address :: u64

record msrp_ctx =
  mrpd_sock :: int
  halt_flag :: bool
  talker_found :: bool
  talker_leave :: int
  listeners :: int
  monitor_thread :: u64
  ctx_prop :: "mrp_property option"
  msgbuf :: "mem option"
  devices :: "monitor_listener list"

section \<open>The table of attached listeners\<close>

text \<open>The two search loops of \<open>monitor_listener_add\<close> and the one of \<open>monitor_listener_remove\<close>.\<close>

definition holds_address :: "u64 \<Rightarrow> monitor_listener \<Rightarrow> bool" where
  "holds_address a d \<longleftrightarrow> attached d \<and> address d = a"

definition devices_add :: "u64 \<Rightarrow> monitor_listener list \<Rightarrow> monitor_listener list option" where
  "devices_add a ds =
    (case find_index (holds_address a) ds of
       Some _ \<Rightarrow> None
     | None \<Rightarrow> (case find_index (\<lambda>d. \<not> attached d) ds of
         Some i \<Rightarrow> Some (ds[i := \<lparr>attached = True, address = a\<rparr>])
       | None \<Rightarrow> None))"

definition devices_remove :: "u64 \<Rightarrow> monitor_listener list \<Rightarrow> monitor_listener list option" where
  "devices_remove a ds =
    (case find_index (holds_address a) ds of
       Some i \<Rightarrow> Some (ds[i := \<lparr>attached = False, address = 0\<rparr>])
     | None \<Rightarrow> None)"

definition monitor_listener_add ::
  "endian \<Rightarrow> msrp_ctx \<Rightarrow> mrpdhelper_notify \<Rightarrow> (int \<times> msrp_ctx) option" where
  "monitor_listener_add e ctx n = do {
    p \<leftarrow> ctx_prop ctx;
    sid \<leftarrow> ld64 e sl_id (n_u n);
    if streamid p \<noteq> sid then Some (- 1, ctx)
    else (case devices_add (registrar n) (devices ctx) of
        Some ds \<Rightarrow> Some (0, ctx\<lparr>devices := ds\<rparr>)
      | None \<Rightarrow> Some (- 1, ctx))
  }"

definition monitor_listener_remove ::
  "endian \<Rightarrow> msrp_ctx \<Rightarrow> mrpdhelper_notify \<Rightarrow> (int \<times> msrp_ctx) option" where
  "monitor_listener_remove e ctx n = do {
    p \<leftarrow> ctx_prop ctx;
    sid \<leftarrow> ld64 e sl_id (n_u n);
    if streamid p = sid then
      (case devices_remove (registrar n) (devices ctx) of
        Some ds \<Rightarrow> Some (0, ctx\<lparr>devices := ds\<rparr>)
      | None \<Rightarrow> Some (- 1, ctx))
    else Some (- 1, ctx)
  }"

section \<open>Processing notifications\<close>

definition listener_attribute_process ::
  "endian \<Rightarrow> msrp_ctx option \<Rightarrow> mrpdhelper_notify option \<Rightarrow> (int \<times> msrp_ctx option) option" where
  "listener_attribute_process e c no =
    (case c of None \<Rightarrow> Some (- 1, c) | Some ctx \<Rightarrow>
     if ctx_prop ctx = None then Some (- 1, c) else
     case no of None \<Rightarrow> Some (- 1, c) | Some n \<Rightarrow> do {
       substate \<leftarrow> ld32 e sl_substate (n_u n);
       (case notify n of
          notification_leave \<Rightarrow> do {
            (rc, ctx) \<leftarrow> monitor_listener_remove e ctx n;
            Some (0, Some (if rc = 0 then ctx\<lparr>listeners := listeners ctx - 1\<rparr> else ctx))
          }
        | _ \<Rightarrow>
          if declaration_asking_failed < substate then do {
            (rc, ctx) \<leftarrow> monitor_listener_add e ctx n;
            Some (0, Some (if rc = 0 then ctx\<lparr>listeners := listeners ctx + 1\<rparr> else ctx))
          } else Some (0, Some ctx))
     })"

definition talker_attribute_process ::
  "endian \<Rightarrow> msrp_ctx option \<Rightarrow> mrpdhelper_notify option \<Rightarrow> (int \<times> msrp_ctx option) option" where
  "talker_attribute_process e c no =
    (case c of None \<Rightarrow> Some (- 1, c) | Some ctx \<Rightarrow>
     case ctx_prop ctx of None \<Rightarrow> Some (- 1, c) | Some p \<Rightarrow>
     case no of None \<Rightarrow> Some (- 1, c) | Some n \<Rightarrow> do {
       sid \<leftarrow> ld64 e st_id (n_u n);
       (if notify n = notification_new \<or> notify n = notification_join then
          Some (0, Some (if streamid p = sid then ctx\<lparr>talker_found := True\<rparr> else ctx))
        else Some (0, Some ctx))
     })"

definition msg_process ::
  "endian \<Rightarrow> msrp_ctx option \<Rightarrow> mem option \<Rightarrow> int \<Rightarrow> (int \<times> msrp_ctx option) option" where
  "msg_process e c buf buflen =
    (case c of None \<Rightarrow> Some (- 1, c) | Some ctx \<Rightarrow>
     case buf of None \<Rightarrow> Some (- 1, c) | Some m \<Rightarrow> do {
       (rc, _, n) \<leftarrow> mrpdhelper_parse_notification e m (word_of_int buflen);
       if rc \<noteq> 0 then Some (rc, c) else
       (case attrib n of
          attribtype_msrp_listener \<Rightarrow> listener_attribute_process e c (Some n)
        | attribtype_msrp_talker \<Rightarrow> talker_attribute_process e c (Some n)
        | attribtype_msrp_talker_fail \<Rightarrow> talker_attribute_process e c (Some n)
        | _ \<Rightarrow> Some (0, c))
     })"

text \<open>
  One event per turn of the receive loop: whether another thread has set \<open>halt_flag\<close> by then,
  whether the buffer was allocated, and what \<open>recv\<close> returned. The list of the events is what
  the thread meets; it still waits when the list is used up.
\<close>

record monitor_event =
  ev_halt :: bool
  ev_alloc_ok :: bool
  ev_recv :: recv_result

fun monitor_loop :: "endian \<Rightarrow> msrp_ctx \<Rightarrow> monitor_event list \<Rightarrow> msrp_ctx option" where
  "monitor_loop e ctx [] = Some ctx"
| "monitor_loop e ctx (ev # evs) =
    (let ctx = ctx\<lparr>halt_flag := halt_flag ctx \<or> ev_halt ev\<rparr> in
     if halt_flag ctx then Some ctx
     else if \<not> ev_alloc_ok ev then Some ctx
     else case ev_recv ev of
       Recv_again \<Rightarrow> monitor_loop e ctx evs
     | Recv_failed \<Rightarrow> Some ctx
     | Received bs \<Rightarrow> do {
         (_, c) \<leftarrow> msg_process e (Some ctx) (Some (recv_buffer bs))
           (int (length (take MRPDCLIENT_MAX_MSG_SIZE bs)));
         ctx \<leftarrow> c;
         monitor_loop e ctx evs
       })"

definition msrp_monitor_thread :: "endian \<Rightarrow> msrp_ctx option \<Rightarrow> monitor_event list \<Rightarrow> msrp_ctx option option" where
  "msrp_monitor_thread e arg evs =
    (case arg of None \<Rightarrow> Some None | Some ctx \<Rightarrow>
     if mrpd_sock ctx = SOCKET_ERROR then Some (Some ctx)
     else map_option Some (monitor_loop e ctx evs))"

definition msrp_exist_talker :: "msrp_ctx option \<Rightarrow> bool" where
  "msrp_exist_talker c = (case c of None \<Rightarrow> False | Some ctx \<Rightarrow> talker_found ctx)"

definition msrp_exist_listener :: "msrp_ctx option \<Rightarrow> int" where
  "msrp_exist_listener c = (case c of None \<Rightarrow> 0 | Some ctx \<Rightarrow> listeners ctx)"

section \<open>Creating and destroying the context\<close>

record init_env =
  alloc_ctx_ok :: bool
  alloc_prop_ok :: bool
  alloc_msgbuf_ok :: bool
  env_sock :: sock_env
  env_thread_rc :: int
  env_thread_id :: u64
  env_bye_rc :: int

definition msrp_ctx_zero :: msrp_ctx where
  "msrp_ctx_zero = \<lparr> mrpd_sock = 0, halt_flag = False, talker_found = False, talker_leave = 0,
    listeners = 0, monitor_thread = 0, ctx_prop = None, msgbuf = None,
    devices = replicate MSRP_MAX_STREAMS \<lparr>attached = False, address = 0\<rparr> \<rparr>"

text \<open>The new context, if any, and the sockets closed on the way.\<close>

definition msrp_ctx_init :: "init_env \<Rightarrow> mrp_property option \<Rightarrow> msrp_ctx option \<times> int list" where
  "msrp_ctx_init env po =
    (case po of None \<Rightarrow> (None, []) | Some p \<Rightarrow>
     if \<not> alloc_ctx_ok env then (None, [])
     else if \<not> alloc_prop_ok env then (None, [])
     else if \<not> alloc_msgbuf_ok env then (None, [])
     else
       let (sock, closed) = mrpdclient_init (env_sock env) in
       if sock = SOCKET_ERROR then (None, closed)
       else
         let ctx = msrp_ctx_zero\<lparr>mrpd_sock := sock, ctx_prop := Some p,
               msgbuf := Some (replicate MRPDCLIENT_MAX_MSG_SIZE 0),
               talker_found := False, listeners := 0, halt_flag := False\<rparr>
         in if env_thread_rc env \<noteq> 0 then
              (None, closed @ snd (snd (mrpdclient_close (env_bye_rc env) (Some sock))))
            else (Some (ctx\<lparr>monitor_thread := env_thread_id env\<rparr>), closed))"

definition msrp_ctx_destroy :: "int \<Rightarrow> msrp_ctx option \<Rightarrow> int \<times> int list" where
  "msrp_ctx_destroy bye_rc c =
    (case c of None \<Rightarrow> (- 1, []) | Some ctx \<Rightarrow>
     if mrpd_sock ctx \<noteq> SOCKET_ERROR then
       (let (rc, _, closed) = mrpdclient_close bye_rc (Some (mrpd_sock ctx)) in (rc, closed))
     else (0, []))"

section \<open>Sending declarations\<close>

text \<open>
  \<open>vsprintf\<close> stores the text and its terminator into the message buffer without a bound; the
  result is the return code, the context and the datagrams sent.
\<close>

definition mrp_send ::
  "int \<Rightarrow> msrp_ctx option \<Rightarrow> u8 list \<Rightarrow> (int \<times> msrp_ctx option \<times> u8 list list) option" where
  "mrp_send sendto_rc c text =
    (case c of None \<Rightarrow> Some (- 1, c, []) | Some ctx \<Rightarrow>
     case msgbuf ctx of None \<Rightarrow> Some (- 1, c, []) | Some buf \<Rightarrow>
     if mrpd_sock ctx = SOCKET_ERROR then Some (- 1, c, []) else do {
       buf \<leftarrow> wrn 0 (text @ [0]) buf;
       _ \<leftarrow> ctx_prop ctx;
       data \<leftarrow> rdn 0 (length text + 1) buf;
       let (rc, sent) = mrpdclient_sendto sendto_rc (mrpd_sock ctx) data;
       Some (rc, Some (ctx\<lparr>msgbuf := Some buf\<rparr>), sent)
     })"

text \<open>Every declaration checks the context and its property, and then formats the property.\<close>

definition with_prop ::
  "(mrp_property \<Rightarrow> u8 list) \<Rightarrow> int \<Rightarrow> msrp_ctx option \<Rightarrow> (int \<times> msrp_ctx option \<times> u8 list list) option" where
  "with_prop fmt sendto_rc c =
    (case c of None \<Rightarrow> Some (- 1, c, []) | Some ctx \<Rightarrow>
     case ctx_prop ctx of None \<Rightarrow> Some (- 1, c, []) | Some p \<Rightarrow> mrp_send sendto_rc c (fmt p))"

definition msrp_talker_advertise where
  "msrp_talker_advertise = with_prop (\<lambda>p.
    ascii ''S++:S='' @ print_hex 16 (streamid p) @ ascii '',A='' @ print_hex 12 (destaddr p) @
    ascii '',V='' @ print_HEX 4 (vlan p) @ ascii '',Z='' @ print_d (MaxFrameSize p) @
    ascii '',I='' @ print_d (MaxIntervalFrames p) @
    ascii '',P='' @ print_d (push_bit 5 (sr_priority p) OR push_bit 4 (sr_rank p)) @
    ascii '',L='' @ print_u (latency p))"

definition msrp_talker_unadvertise where
  "msrp_talker_unadvertise = with_prop (\<lambda>p. ascii ''S--:S='' @ print_hex 16 (streamid p))"

definition mvrp_join_vlan where
  "mvrp_join_vlan = with_prop (\<lambda>p. ascii ''V+?:I='' @ print_hex 4 (vlan p))"

definition mvrp_leave_vlan where
  "mvrp_leave_vlan = with_prop (\<lambda>p. ascii ''V--:I='' @ print_hex 4 (vlan p))"

definition msrp_register_domain where
  "msrp_register_domain = with_prop (\<lambda>p. ascii ''S+D:C='' @ print_d (sr_class p) @
    ascii '',P='' @ print_d (sr_priority p) @ ascii '',V='' @ print_hex 4 (vlan p))"

definition msrp_unregister_domain where
  "msrp_unregister_domain = with_prop (\<lambda>p. ascii ''S-D:C='' @ print_d (sr_class p) @
    ascii '',P='' @ print_d (sr_priority p) @ ascii '',V='' @ print_hex 4 (vlan p))"

definition msrp_listener_ready where
  "msrp_listener_ready = with_prop (\<lambda>p. ascii ''S+L:L='' @ print_hex 16 (streamid p) @
    ascii '',D='' @ print_d MSRP_LISTENER_READY)"

definition msrp_listener_leave where
  "msrp_listener_leave = with_prop (\<lambda>p. ascii ''S-L:L='' @ print_hex 16 (streamid p))"

definition msrp_query_database ::
  "int \<Rightarrow> msrp_ctx option \<Rightarrow> (int \<times> msrp_ctx option \<times> u8 list list) option" where
  "msrp_query_database sendto_rc c =
    (case c of None \<Rightarrow> Some (- 1, c, []) | Some _ \<Rightarrow> mrp_send sendto_rc c (ascii ''S??''))"

lemmas declaration_defs =
  msrp_talker_advertise_def msrp_talker_unadvertise_def mvrp_join_vlan_def mvrp_leave_vlan_def
  msrp_register_domain_def msrp_unregister_domain_def msrp_listener_ready_def msrp_listener_leave_def

section \<open>What the bookkeeping needs from the table\<close>

locale counted_registry =
  fixes inv :: "'s \<Rightarrow> bool"
    and members :: "'s \<Rightarrow> 'k set"
    and add :: "'k \<Rightarrow> 's \<Rightarrow> 's option"
    and remove :: "'k \<Rightarrow> 's \<Rightarrow> 's option"
    and cap :: nat
  assumes finite_members: "inv s \<Longrightarrow> finite (members s)"
    and card_le: "inv s \<Longrightarrow> card (members s) \<le> cap"
    and add_None_iff: "inv s \<Longrightarrow> add k s = None \<longleftrightarrow> k \<in> members s \<or> card (members s) = cap"
    and add_inv: "inv s \<Longrightarrow> add k s = Some s' \<Longrightarrow> inv s'"
    and add_members: "inv s \<Longrightarrow> add k s = Some s' \<Longrightarrow> members s' = insert k (members s)"
    and remove_None_iff: "inv s \<Longrightarrow> remove k s = None \<longleftrightarrow> k \<notin> members s"
    and remove_inv: "inv s \<Longrightarrow> remove k s = Some s' \<Longrightarrow> inv s'"
    and remove_members: "inv s \<Longrightarrow> remove k s = Some s' \<Longrightarrow> members s' = members s - {k}"
begin

lemma add_fresh: "inv s \<Longrightarrow> add k s = Some s' \<Longrightarrow> k \<notin> members s"
  using add_None_iff [of s k] by auto

lemma add_count: "inv s \<Longrightarrow> add k s = Some s' \<Longrightarrow> card (members s') = Suc (card (members s))"
  using add_fresh finite_members by (simp add: add_members)

lemma remove_present: "inv s \<Longrightarrow> remove k s = Some s' \<Longrightarrow> k \<in> members s"
  using remove_None_iff [of s k] by auto

lemma remove_count: "inv s \<Longrightarrow> remove k s = Some s' \<Longrightarrow> Suc (card (members s')) = card (members s)"
  using remove_present [of s k s'] finite_members [of s] card_Suc_Diff1 [of "members s" k]
  by (simp add: remove_members)

lemma add_remove: "inv s \<Longrightarrow> add k s = Some s' \<Longrightarrow> \<exists>s''. remove k s' = Some s'' \<and> members s'' = members s"
  using add_fresh [of s k s'] add_members [of s k s'] add_inv [of s k s']
    remove_None_iff [of s' k] remove_members [of s' k] by (cases "remove k s'") auto

end

definition attached_addresses :: "monitor_listener list \<Rightarrow> u64 list" where
  "attached_addresses ds = map address (filter attached ds)"

definition devices_inv :: "monitor_listener list \<Rightarrow> bool" where
  "devices_inv ds \<longleftrightarrow> length ds = MSRP_MAX_STREAMS \<and> distinct (attached_addresses ds)"

lemma attached_addresses_split:
  "i < length ds \<Longrightarrow> attached_addresses ds =
    attached_addresses (take i ds) @ (if attached (ds ! i) then [address (ds ! i)] else []) @
    attached_addresses (drop (Suc i) ds)"
  by (subst id_take_nth_drop [of i ds]) (auto simp: attached_addresses_def)

lemma attached_addresses_update:
  "i < length ds \<Longrightarrow> attached_addresses (ds[i := d]) =
    attached_addresses (take i ds) @ (if attached d then [address d] else []) @
    attached_addresses (drop (Suc i) ds)"
  by (subst upd_conv_take_nth_drop) (auto simp: attached_addresses_def)

lemma find_holds_address_None: "find_index (holds_address a) ds = None \<longleftrightarrow> a \<notin> set (attached_addresses ds)"
  by (auto simp: find_index_None_iff holds_address_def attached_addresses_def)

lemma find_unattached_None:
  "find_index (\<lambda>d. \<not> attached d) ds = None \<longleftrightarrow> length (attached_addresses ds) = length ds"
  by (auto simp: find_index_None_iff attached_addresses_def filter_id_conv)
    (metis length_filter_less less_irrefl)

lemma devices_add_eq:
  assumes "devices_add a ds = Some ds'"
  shows "\<exists>i. i < length ds \<and> \<not> attached (ds ! i) \<and> a \<notin> set (attached_addresses ds) \<and>
    ds' = ds[i := \<lparr>attached = True, address = a\<rparr>]"
  using assms find_index_SomeD [of "\<lambda>d. \<not> attached d" ds] find_holds_address_None [of a ds]
  by (auto simp: devices_add_def split: option.splits)

lemma devices_remove_eq:
  assumes "devices_remove a ds = Some ds'"
  shows "\<exists>i. i < length ds \<and> attached (ds ! i) \<and> address (ds ! i) = a \<and>
    ds' = ds[i := \<lparr>attached = False, address = 0\<rparr>]"
  using assms find_index_SomeD [of "holds_address a" ds]
  by (auto simp: devices_remove_def holds_address_def split: option.splits)

interpretation listeners_of: counted_registry devices_inv "\<lambda>ds. set (attached_addresses ds)"
    devices_add devices_remove MSRP_MAX_STREAMS
proof
  fix ds ds' :: "monitor_listener list" and a :: u64
  assume inv: "devices_inv ds"
  have card: "card (set (attached_addresses ds)) = length (attached_addresses ds)"
    using inv by (simp add: devices_inv_def distinct_card)
  show "finite (set (attached_addresses ds))" by simp
  show "card (set (attached_addresses ds)) \<le> MSRP_MAX_STREAMS"
    using inv card by (simp add: devices_inv_def attached_addresses_def) (metis length_filter_le)
  show "devices_add a ds = None \<longleftrightarrow>
      a \<in> set (attached_addresses ds) \<or> card (set (attached_addresses ds)) = MSRP_MAX_STREAMS"
    using inv card find_holds_address_None [of a ds] find_unattached_None [of ds]
    by (auto simp: devices_add_def devices_inv_def split: option.splits)
  show "devices_remove a ds = None \<longleftrightarrow> a \<notin> set (attached_addresses ds)"
    using find_holds_address_None [of a ds] by (auto simp: devices_remove_def split: option.splits)
  { assume "devices_add a ds = Some ds'"
    then obtain i where i: "i < length ds" "\<not> attached (ds ! i)" "a \<notin> set (attached_addresses ds)"
      "ds' = ds[i := \<lparr>attached = True, address = a\<rparr>]" using devices_add_eq by blast
    have "attached_addresses ds' = attached_addresses (take i ds) @ [a] @ attached_addresses (drop (Suc i) ds)"
      "attached_addresses ds = attached_addresses (take i ds) @ attached_addresses (drop (Suc i) ds)"
      using i attached_addresses_update [of i ds] attached_addresses_split [of i ds] by auto
    then show "devices_inv ds'" "set (attached_addresses ds') = insert a (set (attached_addresses ds))"
      using inv i by (auto simp: devices_inv_def) }
  { assume "devices_remove a ds = Some ds'"
    then obtain i where i: "i < length ds" "attached (ds ! i)" "address (ds ! i) = a"
      "ds' = ds[i := \<lparr>attached = False, address = 0\<rparr>]" using devices_remove_eq by blast
    have "attached_addresses ds' = attached_addresses (take i ds) @ attached_addresses (drop (Suc i) ds)"
      "attached_addresses ds = attached_addresses (take i ds) @ [a] @ attached_addresses (drop (Suc i) ds)"
      using i attached_addresses_update [of i ds] attached_addresses_split [of i ds] by auto
    then show "devices_inv ds'" "set (attached_addresses ds') = set (attached_addresses ds) - {a}"
      using inv i by (auto simp: devices_inv_def) }
qed

section \<open>The listener count\<close>

definition ctx_inv :: "msrp_ctx \<Rightarrow> bool" where
  "ctx_inv ctx \<longleftrightarrow> devices_inv (devices ctx) \<and>
    listeners ctx = int (card (set (attached_addresses (devices ctx))))"

lemma monitor_listener_add_inv:
  assumes "ctx_inv ctx" "monitor_listener_add e ctx n = Some (rc, ctx')"
  shows "ctx_inv (if rc = 0 then ctx'\<lparr>listeners := listeners ctx' + 1\<rparr> else ctx')"
  using assms listeners_of.add_inv [of "devices ctx" "registrar n"]
    listeners_of.add_count [of "devices ctx" "registrar n"]
  by (auto simp: monitor_listener_add_def ctx_inv_def split: bind_splits if_splits option.splits)

lemma monitor_listener_remove_inv:
  assumes "ctx_inv ctx" "monitor_listener_remove e ctx n = Some (rc, ctx')"
  shows "ctx_inv (if rc = 0 then ctx'\<lparr>listeners := listeners ctx' - 1\<rparr> else ctx')"
  using assms listeners_of.remove_inv [of "devices ctx" "registrar n"]
    listeners_of.remove_count [of "devices ctx" "registrar n"]
  by (auto simp: monitor_listener_remove_def ctx_inv_def split: bind_splits if_splits option.splits)

lemma listener_attribute_process_inv:
  assumes "ctx_inv ctx" "listener_attribute_process e (Some ctx) (Some n) = Some (rc, c)"
  shows "\<exists>ctx'. c = Some ctx' \<and> ctx_inv ctx'"
proof -
  obtain s where s: "ctx_prop ctx = None \<or> ld32 e sl_substate (n_u n) = Some s"
    using assms(2) by (auto simp: listener_attribute_process_def split: if_splits bind_splits)
  show ?thesis
  proof (cases "ctx_prop ctx = None")
    case True
    then show ?thesis using assms by (auto simp: listener_attribute_process_def)
  next
    case False
    then have s: "ld32 e sl_substate (n_u n) = Some s" using s by auto
    show ?thesis
    proof (cases "notify n = notification_leave")
      case True
      then obtain rc1 ctx1 where "monitor_listener_remove e ctx n = Some (rc1, ctx1)"
        "c = Some (if rc1 = 0 then ctx1\<lparr>listeners := listeners ctx1 - 1\<rparr> else ctx1)"
        using assms(2) False s
        by (auto simp: listener_attribute_process_def split: if_splits bind_splits)
      then show ?thesis using monitor_listener_remove_inv [OF assms(1)] by simp
    next
      case notleave: False
      show ?thesis
      proof (cases "declaration_asking_failed < s")
        case True
        then obtain rc1 ctx1 where "monitor_listener_add e ctx n = Some (rc1, ctx1)"
          "c = Some (if rc1 = 0 then ctx1\<lparr>listeners := listeners ctx1 + 1\<rparr> else ctx1)"
          using assms(2) False s notleave
          by (cases "notify n")
            (auto simp: listener_attribute_process_def split: if_splits bind_splits)
        then show ?thesis using monitor_listener_add_inv [OF assms(1)] by simp
      next
        case F: False
        then show ?thesis
          using assms False s notleave
          by (cases "notify n") (auto simp: listener_attribute_process_def split: bind_splits)
      qed
    qed
  qed
qed

lemma talker_attribute_process_inv:
  assumes "ctx_inv ctx" "talker_attribute_process e (Some ctx) (Some n) = Some (rc, c)"
  shows "\<exists>ctx'. c = Some ctx' \<and> ctx_inv ctx'"
  using assms
  by (auto simp: talker_attribute_process_def ctx_inv_def split: option.splits if_splits bind_splits)

lemma msg_process_inv:
  assumes "ctx_inv ctx" "msg_process e (Some ctx) (Some m) len = Some (rc, c)"
  shows "\<exists>ctx'. c = Some ctx' \<and> ctx_inv ctx'"
proof -
  obtain prc m' n where p: "mrpdhelper_parse_notification e m (word_of_int len) = Some (prc, m', n)"
    using assms(2) by (auto simp: msg_process_def split: bind_splits)
  show ?thesis
  proof (cases "prc = 0")
    case False
    then show ?thesis using assms p by (auto simp: msg_process_def)
  next
    case True
    then show ?thesis
      using assms p listener_attribute_process_inv [OF assms(1), of e n]
        talker_attribute_process_inv [OF assms(1), of e n]
      by (cases "attrib n") (auto simp: msg_process_def)
  qed
qed

lemma monitor_loop_inv:
  "ctx_inv ctx \<Longrightarrow> monitor_loop e ctx evs = Some ctx' \<Longrightarrow> ctx_inv ctx'"
proof (induction e ctx evs rule: monitor_loop.induct)
  case (1 e ctx)
  then show ?case by simp
next
  case (2 e ctx ev evs)
  let ?ctx = "ctx\<lparr>halt_flag := halt_flag ctx \<or> ev_halt ev\<rparr>"
  have inv: "ctx_inv ?ctx" using 2(3) by (simp add: ctx_inv_def)
  show ?case
  proof (cases "halt_flag ?ctx \<or> \<not> ev_alloc_ok ev")
    case True
    then show ?thesis using 2(4) inv by (auto simp: Let_def split: if_splits)
  next
    case run: False
    show ?thesis
    proof (cases "ev_recv ev")
      case (Received bs)
      obtain rc c where m: "msg_process e (Some ?ctx) (Some (recv_buffer bs))
          (int (length (take MRPDCLIENT_MAX_MSG_SIZE bs))) = Some (rc, c)"
        using 2(4) run Received by (auto simp: Let_def split: bind_splits)
      then obtain ctx1 where c: "c = Some ctx1" "ctx_inv ctx1"
        using msg_process_inv [OF inv] by blast
      then show ?thesis
        using 2(1) [OF refl] 2(4) run Received m by (auto simp: Let_def)
    next
      case Recv_again
      then show ?thesis using 2(2) [OF refl] 2(4) run inv by (auto simp: Let_def)
    next
      case Recv_failed
      then show ?thesis using 2(4) run inv by (auto simp: Let_def)
    qed
  qed
qed

lemma msrp_ctx_init_inv: "msrp_ctx_init env po = (Some ctx, closed) \<Longrightarrow> ctx_inv ctx"
  by (auto simp: msrp_ctx_init_def ctx_inv_def devices_inv_def msrp_ctx_zero_def
      attached_addresses_def Let_def split: option.splits if_splits prod.splits)

text \<open>
  C1: From the initial context, whatever datagrams the receive loop meets, the number
  msrp_exist_listener reports is the number of attached slots of the device table, lies between
  0 and 8, and no station occupies two slots.
\<close>
theorem listener_count_is_attached_listeners:
  assumes "msrp_ctx_init env po = (Some ctx, closed)" "monitor_loop e ctx evs = Some ctx'"
  shows "msrp_exist_listener (Some ctx') = int (length (filter attached (devices ctx'))) \<and>
    0 \<le> msrp_exist_listener (Some ctx') \<and> msrp_exist_listener (Some ctx') \<le> 8 \<and>
    distinct (map address (filter attached (devices ctx')))"
proof -
  have i: "ctx_inv ctx'" using monitor_loop_inv [OF msrp_ctx_init_inv [OF assms(1)] assms(2)] .
  then have d: "devices_inv (devices ctx')" by (simp add: ctx_inv_def)
  then have "card (set (attached_addresses (devices ctx'))) = length (filter attached (devices ctx'))"
    using distinct_card [of "attached_addresses (devices ctx')"]
    by (simp only: devices_inv_def) (simp only: attached_addresses_def length_map)
  then show ?thesis
    using i d listeners_of.card_le [OF d]
    by (simp add: ctx_inv_def msrp_exist_listener_def devices_inv_def attached_addresses_def
        MSRP_MAX_STREAMS_def)
qed

lemma listener_count_is_attached_listeners_witness:
  "\<exists>ctx closed ctx'.
    msrp_ctx_init \<lparr>alloc_ctx_ok = True, alloc_prop_ok = True, alloc_msgbuf_ok = True,
      env_sock = \<lparr>socket_rc = 5, rcvtimeo_rc = 0, sndtimeo_rc = 0, bind_rc = 0\<rparr>, env_thread_rc = 0,
      env_thread_id = 1, env_bye_rc = 4\<rparr>
      (Some \<lparr>verbose = False, streamid = 1, destaddr = 2, vlan = 2, MaxFrameSize = 3,
        MaxIntervalFrames = 1, sr_priority = 3, sr_rank = 1, latency = 0, sr_class = 6\<rparr>) = (Some ctx, closed) \<and>
    monitor_loop LE ctx [\<lparr>ev_halt = False, ev_alloc_ok = True, ev_recv = Recv_again\<rparr>] = Some ctx' \<and>
    msrp_exist_listener (Some ctx') \<le> 8"
proof -
  let ?env = "\<lparr>alloc_ctx_ok = True, alloc_prop_ok = True, alloc_msgbuf_ok = True,
      env_sock = \<lparr>socket_rc = 5, rcvtimeo_rc = 0, sndtimeo_rc = 0, bind_rc = 0\<rparr>, env_thread_rc = 0,
      env_thread_id = 1, env_bye_rc = 4\<rparr>"
  let ?p = "Some \<lparr>verbose = False, streamid = 1, destaddr = 2, vlan = 2, MaxFrameSize = 3,
        MaxIntervalFrames = 1, sr_priority = 3, sr_rank = 1, latency = 0, sr_class = 6\<rparr>"
  obtain ctx closed where 1: "msrp_ctx_init ?env ?p = (Some ctx, closed)"
    by (simp add: msrp_ctx_init_def mrpdclient_init_def SOCKET_ERROR_def Let_def)
  obtain ctx' where 2: "monitor_loop LE ctx [\<lparr>ev_halt = False, ev_alloc_ok = True, ev_recv = Recv_again\<rparr>] = Some ctx'"
    by (simp add: Let_def)
  show ?thesis using listener_count_is_attached_listeners [OF 1 2] 1 2 by blast
qed

section \<open>A listener joins and leaves\<close>

lemma listener_process_join:
  assumes "ctx_inv ctx" "ctx_prop ctx = Some p" "ld32 e sl_substate (n_u n) = Some sub"
    "ld64 e sl_id (n_u n) = Some (streamid p)" "notify n \<noteq> notification_leave" "1 < sub"
  shows "\<exists>ctx'. listener_attribute_process e (Some ctx) (Some n) = Some (0, Some ctx') \<and>
    set (attached_addresses (devices ctx')) =
      (if listeners ctx < 8 then insert (registrar n) (set (attached_addresses (devices ctx)))
       else set (attached_addresses (devices ctx)))"
proof -
  have inv: "devices_inv (devices ctx)" using assms(1) by (simp add: ctx_inv_def)
  have cnt: "listeners ctx = int (card (set (attached_addresses (devices ctx))))"
    using assms(1) by (simp add: ctx_inv_def)
  let ?m = "set (attached_addresses (devices ctx))"
  have pr: "listener_attribute_process e (Some ctx) (Some n) =
      (case devices_add (registrar n) (devices ctx) of
         Some ds \<Rightarrow> Some (0, Some (ctx\<lparr>devices := ds, listeners := listeners ctx + 1\<rparr>))
       | None \<Rightarrow> Some (0, Some ctx))"
    using assms(2-6)
    by (cases "notify n") (auto simp: listener_attribute_process_def monitor_listener_add_def
        declaration_asking_failed_def split: option.splits)
  show ?thesis
  proof (cases "devices_add (registrar n) (devices ctx)")
    case None
    then have "registrar n \<in> ?m \<or> card ?m = 8"
      using listeners_of.add_None_iff [OF inv] by (simp add: MSRP_MAX_STREAMS_def)
    then show ?thesis using None pr cnt by (auto simp: insert_absorb)
  next
    case (Some ds)
    then have "card ?m \<noteq> 8" "set (attached_addresses ds) = insert (registrar n) ?m" "card ?m \<le> 8"
      using listeners_of.add_None_iff [OF inv, of "registrar n"] listeners_of.add_members [OF inv]
        listeners_of.card_le [OF inv] by (auto simp: MSRP_MAX_STREAMS_def)
    then show ?thesis using Some pr cnt by simp
  qed
qed

lemma listener_process_leave:
  assumes "ctx_inv ctx" "ctx_prop ctx = Some p" "ld32 e sl_substate (n_u n) = Some sub"
    "ld64 e sl_id (n_u n) = Some (streamid p)" "notify n = notification_leave"
  shows "\<exists>ctx'. listener_attribute_process e (Some ctx) (Some n) = Some (0, Some ctx') \<and>
    set (attached_addresses (devices ctx')) = set (attached_addresses (devices ctx)) - {registrar n}"
proof -
  have inv: "devices_inv (devices ctx)" using assms(1) by (simp add: ctx_inv_def)
  have pr: "listener_attribute_process e (Some ctx) (Some n) =
      (case devices_remove (registrar n) (devices ctx) of
         Some ds \<Rightarrow> Some (0, Some (ctx\<lparr>devices := ds, listeners := listeners ctx - 1\<rparr>))
       | None \<Rightarrow> Some (0, Some ctx))"
    using assms(2-5)
    by (auto simp: listener_attribute_process_def monitor_listener_remove_def split: option.splits)
  show ?thesis
    using pr listeners_of.remove_members [OF inv] listeners_of.remove_None_iff [OF inv, of "registrar n"]
    by (cases "devices_remove (registrar n) (devices ctx)") auto
qed

lemma msg_process_listener:
  fixes x app st sub sid reg
  assumes "x \<noteq> notification_null" "app \<noteq> app_null" "st \<noteq> state_null" "0 \<le> sint sub"
  defines "msg \<equiv> listener_message x sub sid reg app st"
  shows "\<exists>n. msg_process e (Some ctx) (Some (recv_buffer msg)) (int (length msg)) =
      listener_attribute_process e (Some ctx) (Some n) \<and>
    notify n = x \<and> registrar n = reg \<and> ld32 e sl_substate (n_u n) = Some sub \<and>
    ld64 e sl_id (n_u n) = Some sid"
proof -
  have "length msg \<le> 70" unfolding msg_def by (rule length_listener_message)
  then have b: "recv_buffer msg = msg_buffer 2000 msg"
    by (simp add: recv_buffer_def MRPDCLIENT_MAX_MSG_SIZE_def)
  obtain u where u: "mrpdhelper_parse_notification e (msg_buffer 2000 msg) (of_nat (length msg)) =
      Some (0, msg_buffer 2000 msg, \<lparr> attrib = attribtype_msrp_listener, notify = x, reg_state = st,
        app_state = app, registrar = reg, n_u = u \<rparr>)"
    "ld32 e sl_substate u = Some sub" "ld64 e sl_id u = Some sid"
    using listener_parsed [OF assms(1-4), of e sid reg] unfolding msg_def by blast
  show ?thesis
    by (intro exI [of _ "\<lparr> attrib = attribtype_msrp_listener, notify = x, reg_state = st,
        app_state = app, registrar = reg, n_u = u \<rparr>"]) (simp add: msg_process_def b u)
qed

text \<open>
  C15: The datagram that announces a ready listener of the context's stream (new or join, any
  registrar) is parsed and adds its station to the attached listeners while fewer than eight are
  attached.
\<close>
theorem ready_listener_is_attached:
  assumes "ctx_inv ctx" "ctx_prop ctx = Some p" "x = notification_new \<or> x = notification_join"
    "app \<noteq> app_null" "st \<noteq> state_null" "sub = 2 \<or> sub = 3" "listeners ctx < 8"
  shows "\<exists>ctx'. msg_process e (Some ctx)
      (Some (recv_buffer (listener_message x sub (streamid p) reg app st)))
      (int (length (listener_message x sub (streamid p) reg app st))) = Some (0, Some ctx') \<and>
    set (attached_addresses (devices ctx')) = insert reg (set (attached_addresses (devices ctx)))"
proof -
  have "0 \<le> sint sub" "1 < sub" using assms(6) by auto
  then obtain n where n: "msg_process e (Some ctx)
      (Some (recv_buffer (listener_message x sub (streamid p) reg app st)))
      (int (length (listener_message x sub (streamid p) reg app st))) =
      listener_attribute_process e (Some ctx) (Some n)" "notify n = x" "registrar n = reg"
    "ld32 e sl_substate (n_u n) = Some sub" "ld64 e sl_id (n_u n) = Some (streamid p)"
    using msg_process_listener [of x app st sub e ctx "streamid p" reg] assms(3-5) by blast
  have "notify n \<noteq> notification_leave" using n(2) assms(3) by auto
  from listener_process_join [OF assms(1,2) n(4,5) this \<open>1 < sub\<close>] show ?thesis
    using n(1,3) assms(7) by auto
qed

definition sample_ctx :: msrp_ctx where
  "sample_ctx = msrp_ctx_zero\<lparr>mrpd_sock := 5, msgbuf := Some (replicate 2000 0),
    ctx_prop := Some \<lparr>verbose = False, streamid = 0xabc, destaddr = 2, vlan = 2, MaxFrameSize = 3,
        MaxIntervalFrames = 1, sr_priority = 3, sr_rank = 1, latency = 0, sr_class = 6\<rparr>\<rparr>"

lemma sample_ctx_inv: "ctx_inv sample_ctx"
  by (simp add: sample_ctx_def ctx_inv_def devices_inv_def msrp_ctx_zero_def attached_addresses_def)

definition sample_prop :: mrp_property where
  "sample_prop = \<lparr>verbose = False, streamid = 0xabc, destaddr = 2, vlan = 2, MaxFrameSize = 3,
        MaxIntervalFrames = 1, sr_priority = 3, sr_rank = 1, latency = 0, sr_class = 6\<rparr>"

lemma sample_ctx_simps:
  "ctx_prop sample_ctx = Some sample_prop" "streamid sample_prop = 0xabc"
  "attached_addresses (devices sample_ctx) = []" "listeners sample_ctx = 0"
  by (simp_all add: sample_ctx_def sample_prop_def msrp_ctx_zero_def attached_addresses_def)

lemma ready_listener_is_attached_witness:
  "\<exists>ctx'. msg_process LE (Some sample_ctx)
      (Some (recv_buffer (listener_message notification_join 2 0xabc 0x1122 app_VO state_in)))
      (int (length (listener_message notification_join 2 0xabc 0x1122 app_VO state_in))) = Some (0, Some ctx') \<and>
    set (attached_addresses (devices ctx')) = {0x1122}"
  using ready_listener_is_attached [of sample_ctx sample_prop notification_join app_VO state_in 2 LE "0x1122"]
    sample_ctx_inv
  by (auto simp: sample_ctx_simps)

text \<open>
  The datagram that announces that a listener of the context's stream leaves detaches
  exactly that station, and lowers the listener count only when the station was attached.
\<close>
theorem leaving_listener_is_detached:
  assumes "ctx_inv ctx" "ctx_prop ctx = Some p" "app \<noteq> app_null" "st \<noteq> state_null" "0 \<le> sint sub"
  shows "\<exists>ctx'. msg_process e (Some ctx)
      (Some (recv_buffer (listener_message notification_leave sub (streamid p) reg app st)))
      (int (length (listener_message notification_leave sub (streamid p) reg app st))) = Some (0, Some ctx') \<and>
    set (attached_addresses (devices ctx')) = set (attached_addresses (devices ctx)) - {reg} \<and>
    msrp_exist_listener (Some ctx') =
      msrp_exist_listener (Some ctx) - (if reg \<in> set (attached_addresses (devices ctx)) then 1 else 0)"
proof -
  obtain n where n: "msg_process e (Some ctx)
      (Some (recv_buffer (listener_message notification_leave sub (streamid p) reg app st)))
      (int (length (listener_message notification_leave sub (streamid p) reg app st))) =
      listener_attribute_process e (Some ctx) (Some n)" "notify n = notification_leave" "registrar n = reg"
    "ld32 e sl_substate (n_u n) = Some sub" "ld64 e sl_id (n_u n) = Some (streamid p)"
    using msg_process_listener [of notification_leave app st sub e ctx "streamid p" reg] assms(3-5) by auto
  obtain ctx' where c: "listener_attribute_process e (Some ctx) (Some n) = Some (0, Some ctx')"
    "set (attached_addresses (devices ctx')) = set (attached_addresses (devices ctx)) - {reg}"
    using listener_process_leave [OF assms(1,2) n(4,5,2)] n(3) by blast
  then have inv: "ctx_inv ctx'" using listener_attribute_process_inv [OF assms(1)] by blast
  let ?S = "set (attached_addresses (devices ctx))"
  have "int (card (?S - {reg})) = int (card ?S) - (if reg \<in> ?S then 1 else 0)"
    using card_Suc_Diff1 [of ?S reg] by auto
  then have "msrp_exist_listener (Some ctx') = msrp_exist_listener (Some ctx) - (if reg \<in> ?S then 1 else 0)"
    using inv assms(1) unfolding ctx_inv_def msrp_exist_listener_def c(2) by simp
  then show ?thesis unfolding n(1) using c by blast
qed

lemma leaving_listener_is_detached_witness:
  "\<exists>ctx'. msg_process LE (Some sample_ctx)
      (Some (recv_buffer (listener_message notification_leave 2 0xabc 0x1122 app_VO state_in)))
      (int (length (listener_message notification_leave 2 0xabc 0x1122 app_VO state_in))) = Some (0, Some ctx') \<and>
    set (attached_addresses (devices ctx')) = {}"
proof -
  have "app_VO \<noteq> app_null" "state_in \<noteq> state_null" "0 \<le> sint (2 :: u32)" by simp_all
  from leaving_listener_is_detached [OF sample_ctx_inv sample_ctx_simps(1) this, of LE "0x1122"]
  show ?thesis unfolding sample_ctx_simps(2,3) by (simp only: list.set empty_Diff) blast
qed

section \<open>The receive loop stays in bounds\<close>

lemma store_vals_length: "store_vals e ts vs u = Some u' \<Longrightarrow> length u' = length u"
proof (induction e ts vs u rule: store_vals.induct)
  case (1 e t ts v vs u)
  have "store e t v u = Some u1 \<Longrightarrow> length u1 = length u" for u1
    by (cases t) (auto simp: st32_def st64_def dest: length_wrn)
  then show ?case using 1 by (auto split: bind_splits)
qed auto

lemma parse_common_length:
  "parse_notification sz m n = Some (rc, n') \<Longrightarrow> n_u n' = n_u n"
  "parse_registrar sz m n = Some (rc, n', r) \<Longrightarrow> n_u n' = n_u n"
  "parse_app_state sz m n = Some (rc, n') \<Longrightarrow> n_u n' = n_u n"
  "parse_state sz m n = Some (rc, n') \<Longrightarrow> n_u n' = n_u n"
  by (auto simp: parse_notification_def parse_registrar_def parse_app_state_def parse_state_def Let_def
      split: bind_splits if_splits option.splits list.splits)

lemma parse_msrp_string_length:
  "parse_msrp_string e sz m len n = Some (rc, m', n') \<Longrightarrow> length (n_u n') = length (n_u n)"
  by (auto simp: parse_msrp_string_def Let_def st32_def st64_def
      split: bind_splits if_splits option.splits dest!: store_vals_length length_wrn)

lemma parse_length:
  assumes "mrpdhelper_parse_notification e m len = Some (rc, m', n)"
  shows "length (n_u n) = 56"
  using assms
  by (auto simp: mrpdhelper_parse_notification_def parse_mvrp_def parse_mmrp_def parse_msrp_def
      parse_msrp_query_def notify_zero_def sizeof_u_def Let_def
      split: bind_splits if_splits
      dest!: parse_common_length parse_msrp_string_length store_vals_length)

lemma loads_defined: "length u = 56 \<Longrightarrow> ld32 e sl_substate u \<noteq> None \<and> ld64 e sl_id u \<noteq> None \<and> ld64 e st_id u \<noteq> None"
  by (simp add: ld32_def ld64_def rdn_def union_offsets)

lemma msg_process_defined:
  assumes "ctx_prop ctx = Some p" "length bs \<le> 1979"
  shows "\<exists>rc ctx'. msg_process e (Some ctx) (Some (recv_buffer bs)) (int (length bs)) = Some (rc, Some ctx') \<and>
    ctx_prop ctx' = Some p"
proof -
  let ?m = "recv_buffer bs"
  have m: "?m = msg_buffer 2000 bs"
    using assms(2) by (simp add: recv_buffer_def MRPDCLIENT_MAX_MSG_SIZE_def)
  have len: "unat (of_nat (length bs) :: u64) = length bs"
    using assms(2) by (simp add: unat_of_nat take_bit_nat_eq_self)
  have "mrpdhelper_parse_notification e ?m (of_nat (length bs)) \<noteq> None"
    using assms(2) by (intro parse_bounded) (auto simp: len m length_msg_buffer msg_buffer_def nth_append)
  then obtain rc m' n where p: "mrpdhelper_parse_notification e ?m (of_nat (length bs)) = Some (rc, m', n)"
    by auto
  obtain sub sid tid where l: "ld32 e sl_substate (n_u n) = Some sub" "ld64 e sl_id (n_u n) = Some sid"
    "ld64 e st_id (n_u n) = Some tid"
    using loads_defined [OF parse_length [OF p]] by blast
  have a: "\<exists>r c. listener_attribute_process e (Some ctx) (Some n) = Some (r, Some c) \<and> ctx_prop c = Some p"
    by (cases "notify n")
      (auto simp: listener_attribute_process_def monitor_listener_add_def monitor_listener_remove_def
        assms(1) l split: option.splits)
  have t: "\<exists>r c. talker_attribute_process e (Some ctx) (Some n) = Some (r, Some c) \<and> ctx_prop c = Some p"
    by (simp add: talker_attribute_process_def assms(1) l)
  show ?thesis
    using a t p assms(1) by (cases "rc = 0"; cases "attrib n") (simp_all add: msg_process_def)
qed

text \<open>
  C22: The receive loop never leaves its buffer and never dereferences a missing property, for
  any sequence of datagrams of at most 1979 bytes.
\<close>
theorem monitor_stays_in_bounds:
  assumes "ctx_prop ctx = Some p" "\<forall>ev\<in>set evs. \<forall>bs. ev_recv ev = Received bs \<longrightarrow> length bs \<le> 1979"
  shows "\<exists>ctx'. monitor_loop e ctx evs = Some ctx' \<and> ctx_prop ctx' = Some p"
  using assms
proof (induction evs arbitrary: ctx)
  case Nil
  then show ?case by simp
next
  case (Cons ev evs)
  let ?ctx = "ctx\<lparr>halt_flag := halt_flag ctx \<or> ev_halt ev\<rparr>"
  have p: "ctx_prop ?ctx = Some p" using Cons.prems by simp
  show ?case
  proof (cases "ev_recv ev")
    case (Received bs)
    then have len: "length bs \<le> 1979" using Cons.prems by simp
    then obtain rc ctx1 where "msg_process e (Some ?ctx) (Some (recv_buffer bs)) (int (length bs)) =
        Some (rc, Some ctx1)" "ctx_prop ctx1 = Some p"
      using msg_process_defined [OF p] by blast
    then show ?thesis
      using Cons Received len
      by (cases "halt_flag ctx \<or> ev_halt ev \<or> \<not> ev_alloc_ok ev")
        (auto simp: Let_def MRPDCLIENT_MAX_MSG_SIZE_def)
  qed (use Cons p in \<open>simp_all add: Let_def\<close>)
qed

lemma monitor_stays_in_bounds_witness:
  "\<exists>ctx'. monitor_loop LE sample_ctx
    [\<lparr>ev_halt = False, ev_alloc_ok = True, ev_recv = Received (ascii ''SJO L:'')\<rparr>] = Some ctx' \<and>
    ctx_prop ctx' = Some sample_prop"
  using monitor_stays_in_bounds [of sample_ctx sample_prop
    "[\<lparr>ev_halt = False, ev_alloc_ok = True, ev_recv = Received (ascii ''SJO L:'')\<rparr>]" LE]
  by (simp add: sample_ctx_simps)

section \<open>Declarations fit the message buffer\<close>



end
