(* ===== verification/Jdks.thy ===== *)
theory Jdks
  imports Avb_Prelude
begin

text \<open>
  What the AVDECC library takes from the jdksavdecc-c package, whose sources are not part of
  the repository: the protocol constants, the comparison and conversion of identifiers, and
  the reading and writing of the protocol data units. They are the fields of the record
  \<open>jdks\<close>, an argument of every definition that uses them. \<open>jdks_ok\<close> states what the package
  documents and the code relies on: different constants have different values, two
  identifiers compare as 0 exactly when they are equal, and a written data unit fits the
  payload of an Ethernet frame. \<open>jdks_sample\<close> is a package that meets it.
\<close>

type_synonym eui64 = u64
type_synonym eui48 = "48 word"

text \<open>The fields of the data units the code reads or writes.\<close>

record acmpdu =
  acm_cd :: u8
  acm_subtype :: u8
  acm_sv :: u8
  acm_version :: u8
  acm_message_type :: u8
  acm_status :: u8
  acm_control_data_length :: u16
  acm_stream_id :: eui64
  acm_controller_entity_id :: eui64
  acm_talker_entity_id :: eui64
  acm_listener_entity_id :: eui64
  acm_talker_unique_id :: u16
  acm_listener_unique_id :: u16
  acm_stream_dest_mac :: eui48
  acm_connection_count :: u16
  acm_sequence_id :: u16
  acm_flags :: u16
  acm_stream_vlan_id :: u16
  acm_reserved :: u16

record adpdu =
  adp_cd :: u8
  adp_subtype :: u8
  adp_sv :: u8
  adp_version :: u8
  adp_message_type :: u8
  adp_valid_time :: u8
  adp_control_data_length :: u16
  adp_entity_id :: eui64
  adp_entity_model_id :: eui64
  adp_entity_capabilities :: u32
  adp_talker_stream_sources :: u16
  adp_talker_capabilities :: u16
  adp_listener_stream_sinks :: u16
  adp_listener_capabilities :: u16
  adp_controller_capabilities :: u32
  adp_available_index :: u32
  adp_gptp_grandmaster_id :: eui64
  adp_gptp_domain_number :: u8
  adp_reserved0 :: u32
  adp_identify_control_index :: u16
  adp_interface_index :: u16
  adp_association_id :: eui64
  adp_reserved1 :: u32

definition adpdu_zero :: adpdu where
  "adpdu_zero = \<lparr> adp_cd = 0, adp_subtype = 0, adp_sv = 0, adp_version = 0, adp_message_type = 0,
    adp_valid_time = 0, adp_control_data_length = 0, adp_entity_id = 0, adp_entity_model_id = 0,
    adp_entity_capabilities = 0, adp_talker_stream_sources = 0, adp_talker_capabilities = 0,
    adp_listener_stream_sinks = 0, adp_listener_capabilities = 0, adp_controller_capabilities = 0,
    adp_available_index = 0, adp_gptp_grandmaster_id = 0, adp_gptp_domain_number = 0,
    adp_reserved0 = 0, adp_identify_control_index = 0, adp_interface_index = 0,
    adp_association_id = 0, adp_reserved1 = 0 \<rparr>"

text \<open>
  A writer returns the length it stores into the frame, not positive when it fails, and the
  payload; a reader is \<open>None\<close> when its result is not positive.
\<close>

record jdks =
  CONNECT_TX_COMMAND :: u8
  CONNECT_TX_RESPONSE :: u8
  DISCONNECT_TX_COMMAND :: u8
  DISCONNECT_TX_RESPONSE :: u8
  GET_TX_STATE_COMMAND :: u8
  GET_TX_STATE_RESPONSE :: u8
  CONNECT_RX_COMMAND :: u8
  CONNECT_RX_RESPONSE :: u8
  DISCONNECT_RX_COMMAND :: u8
  DISCONNECT_RX_RESPONSE :: u8
  GET_RX_STATE_COMMAND :: u8
  GET_RX_STATE_RESPONSE :: u8
  GET_TX_CONNECTION_COMMAND :: u8
  GET_TX_CONNECTION_RESPONSE :: u8
  ACMP_SUCCESS :: u8
  ACMP_LISTENER_UNKNOWN_ID :: u8
  ACMP_TALKER_UNKNOWN_ID :: u8
  ACMP_LISTENER_TALKER_TIMEOUT :: u8
  ACMP_LISTENER_EXCLUSIVE :: u8
  ACMP_NOT_CONNECTED :: u8
  ACMP_NO_SUCH_CONNECTION :: u8
  ACMP_COULD_NOT_SEND_MESSAGE :: u8
  ACMP_TALKER_MISBEHAVING :: u8
  ACMP_LISTENER_MISBEHAVING :: u8
  TIMEOUT_CONNECT_TX_COMMAND_MS :: u32
  TIMEOUT_DISCONNECT_TX_COMMAND_MS :: u32
  SUBTYPE_ADP :: u8
  SUBTYPE_ACMP :: u8
  PAYLOAD_SUBTYPE_ADP :: u8
  PAYLOAD_SUBTYPE_AECP :: u8
  PAYLOAD_SUBTYPE_ACMP :: u8
  ADP_ENTITY_AVAILABLE :: u8
  ADP_ENTITY_DEPARTING :: u8
  ADP_ENTITY_DISCOVER :: u8
  ACMPDU_LEN :: u16
  ADPDU_LEN :: u16
  COMMON_CONTROL_HEADER_LEN :: u16
  DESCRIPTOR_STREAM_INPUT :: u16
  DESCRIPTOR_STREAM_OUTPUT :: u16
  AVTP_ETHERTYPE :: u16
  multicast_adp_acmp :: eui48
  eui64_compare :: "eui64 \<Rightarrow> eui64 \<Rightarrow> int"
  eui64_init_from_uint64 :: "u64 \<Rightarrow> eui64"
  eui48_init_from_uint64 :: "u64 \<Rightarrow> eui48"
  eui64_set :: "eui64 \<Rightarrow> u8 list"
  acmpdu_write :: "acmpdu \<Rightarrow> int \<times> u8 list"
  acmpdu_read :: "u8 list \<Rightarrow> acmpdu option"
  adpdu_write :: "adpdu \<Rightarrow> int \<times> u8 list"
  adpdu_read :: "u8 list \<Rightarrow> adpdu option"

definition acmp_message_types :: "jdks \<Rightarrow> u8 list" where
  "acmp_message_types J =
    [CONNECT_TX_COMMAND J, CONNECT_TX_RESPONSE J, DISCONNECT_TX_COMMAND J, DISCONNECT_TX_RESPONSE J,
     GET_TX_STATE_COMMAND J, GET_TX_STATE_RESPONSE J, CONNECT_RX_COMMAND J, CONNECT_RX_RESPONSE J,
     DISCONNECT_RX_COMMAND J, DISCONNECT_RX_RESPONSE J, GET_RX_STATE_COMMAND J,
     GET_RX_STATE_RESPONSE J, GET_TX_CONNECTION_COMMAND J, GET_TX_CONNECTION_RESPONSE J]"

definition acmp_statuses :: "jdks \<Rightarrow> u8 list" where
  "acmp_statuses J =
    [ACMP_SUCCESS J, ACMP_LISTENER_UNKNOWN_ID J, ACMP_TALKER_UNKNOWN_ID J,
     ACMP_LISTENER_TALKER_TIMEOUT J, ACMP_LISTENER_EXCLUSIVE J, ACMP_NOT_CONNECTED J,
     ACMP_NO_SUCH_CONNECTION J, ACMP_COULD_NOT_SEND_MESSAGE J, ACMP_TALKER_MISBEHAVING J,
     ACMP_LISTENER_MISBEHAVING J]"

definition jdks_ok :: "jdks \<Rightarrow> bool" where
  "jdks_ok J \<longleftrightarrow> distinct (acmp_message_types J) \<and> distinct (acmp_statuses J) \<and>
    distinct [ADP_ENTITY_AVAILABLE J, ADP_ENTITY_DEPARTING J, ADP_ENTITY_DISCOVER J] \<and>
    distinct [PAYLOAD_SUBTYPE_ADP J, PAYLOAD_SUBTYPE_AECP J, PAYLOAD_SUBTYPE_ACMP J] \<and>
    DESCRIPTOR_STREAM_INPUT J \<noteq> DESCRIPTOR_STREAM_OUTPUT J \<and>
    (\<forall>a b. eui64_compare J a b = 0 \<longleftrightarrow> a = b) \<and>
    (\<forall>p. 0 < fst (acmpdu_write J p) \<and> length (snd (acmpdu_write J p)) \<le> 1500) \<and>
    (\<forall>p. 0 < fst (adpdu_write J p) \<and> length (snd (adpdu_write J p)) \<le> 1500)"

lemma jdks_okD [dest]:
  assumes "jdks_ok J"
  shows "distinct (acmp_message_types J)" "distinct (acmp_statuses J)"
    "DESCRIPTOR_STREAM_INPUT J \<noteq> DESCRIPTOR_STREAM_OUTPUT J"
  using assms by (simp_all add: jdks_ok_def)

lemma eui64_compare_ok: "jdks_ok J \<Longrightarrow> eui64_compare J a b = 0 \<longleftrightarrow> a = b"
  by (simp add: jdks_ok_def)

text \<open>
  A package that meets the contract: the constants of IEEE 1722.1, and data units written as
  a short list of their distinguishing fields.
\<close>

definition acmpdu_sample_write :: "acmpdu \<Rightarrow> int \<times> u8 list" where
  "acmpdu_sample_write p = (56, [0xfc, acm_message_type p, acm_status p]
    @ be_bytes 2 (acm_sequence_id p) @ be_bytes 2 (acm_connection_count p)
    @ be_bytes 2 (acm_listener_unique_id p) @ be_bytes 2 (acm_talker_unique_id p)
    @ be_bytes 8 (acm_talker_entity_id p) @ be_bytes 8 (acm_listener_entity_id p))"

definition adpdu_sample_write :: "adpdu \<Rightarrow> int \<times> u8 list" where
  "adpdu_sample_write p = (68, [0xfa, adp_message_type p, adp_valid_time p]
    @ be_bytes 4 (adp_available_index p) @ be_bytes 8 (adp_entity_id p))"

definition jdks_sample :: jdks where
  "jdks_sample = \<lparr> CONNECT_TX_COMMAND = 0, CONNECT_TX_RESPONSE = 1, DISCONNECT_TX_COMMAND = 2,
    DISCONNECT_TX_RESPONSE = 3, GET_TX_STATE_COMMAND = 4, GET_TX_STATE_RESPONSE = 5,
    CONNECT_RX_COMMAND = 6, CONNECT_RX_RESPONSE = 7, DISCONNECT_RX_COMMAND = 8,
    DISCONNECT_RX_RESPONSE = 9, GET_RX_STATE_COMMAND = 10, GET_RX_STATE_RESPONSE = 11,
    GET_TX_CONNECTION_COMMAND = 12, GET_TX_CONNECTION_RESPONSE = 13,
    ACMP_SUCCESS = 0, ACMP_LISTENER_UNKNOWN_ID = 1, ACMP_TALKER_UNKNOWN_ID = 2,
    ACMP_LISTENER_TALKER_TIMEOUT = 7, ACMP_LISTENER_EXCLUSIVE = 8, ACMP_NOT_CONNECTED = 10,
    ACMP_NO_SUCH_CONNECTION = 11, ACMP_COULD_NOT_SEND_MESSAGE = 12, ACMP_TALKER_MISBEHAVING = 13,
    ACMP_LISTENER_MISBEHAVING = 14,
    TIMEOUT_CONNECT_TX_COMMAND_MS = 2000, TIMEOUT_DISCONNECT_TX_COMMAND_MS = 200,
    SUBTYPE_ADP = 0x7a, SUBTYPE_ACMP = 0x7c,
    PAYLOAD_SUBTYPE_ADP = 0xfa, PAYLOAD_SUBTYPE_AECP = 0xfb, PAYLOAD_SUBTYPE_ACMP = 0xfc,
    ADP_ENTITY_AVAILABLE = 0, ADP_ENTITY_DEPARTING = 1, ADP_ENTITY_DISCOVER = 2,
    ACMPDU_LEN = 56, ADPDU_LEN = 68, COMMON_CONTROL_HEADER_LEN = 12,
    DESCRIPTOR_STREAM_INPUT = 5, DESCRIPTOR_STREAM_OUTPUT = 6, AVTP_ETHERTYPE = 0x22f0,
    multicast_adp_acmp = 0x91e0f0010000,
    eui64_compare = (\<lambda>a b. if a = b then 0 else 1),
    eui64_init_from_uint64 = (\<lambda>v. v), eui48_init_from_uint64 = ucast,
    eui64_set = be_bytes 8,
    acmpdu_write = acmpdu_sample_write, acmpdu_read = (\<lambda>bs. None),
    adpdu_write = adpdu_sample_write, adpdu_read = (\<lambda>bs. None) \<rparr>"

lemma jdks_sample_ok: "jdks_ok jdks_sample"
  by (simp add: jdks_ok_def jdks_sample_def acmp_message_types_def acmp_statuses_def
      acmpdu_sample_write_def adpdu_sample_write_def)

end
