(* ===== verification/Avdecc_Common.thy ===== *)
theory Avdecc_Common
  imports Jdks
begin

unbundle bit_operations_syntax

text \<open>
  The data of the AVDECC library (\<open>lib/avdecc/avdecc_internal.h\<close>) and its access to the
  network (\<open>lib/avdecc/common.c\<close>). The record \<open>environment\<close> is what the handlers see of the
  machine: the results of the system calls and of the allocations in the order they are
  made, the Ethernet frames handed to the socket, and the heap cells of the listener pairs.
\<close>

section \<open>Network and environment\<close>

definition TIME_IN_MS_TO_WAIT :: u64 where "TIME_IN_MS_TO_WAIT = 1000"
definition VALID_TIME :: u8 where "VALID_TIME = 31"
definition GPTP_GRANDMASTER_ID :: u64 where "GPTP_GRANDMASTER_ID = 0"
definition MAX_INFLIGHT_CMD_NUM :: nat where "MAX_INFLIGHT_CMD_NUM = 4"
definition ETHERNET_OVERHEAD :: nat where "ETHERNET_OVERHEAD = 14"
definition MAX_RECV_DATA_SIZE :: nat where "MAX_RECV_DATA_SIZE = 2048"
definition ETH_FRAME_LEN :: nat where "ETH_FRAME_LEN = 1514"
definition ROLE_TALKER :: u8 where "ROLE_TALKER = 1"
definition ROLE_LISTENER :: u8 where "ROLE_LISTENER = 2"

record network_info =
  ifname :: "u8 list"
  raw_sock :: int
  interface_id :: u32
  ethertype :: u16
  mac_addr :: "u8 list"

record acmp_listener_pair =
  lp_entity_id :: eui64
  lp_unique_id :: u16
  lp_next :: "nat option"

type_synonym pair_heap = "nat \<Rightarrow> acmp_listener_pair option"

record environment =
  sendto_rc :: "nat \<Rightarrow> int"
  sent :: "u8 list list"
  alloc_ok :: "nat \<Rightarrow> bool"
  allocs :: nat
  clock :: "nat \<Rightarrow> int \<times> int"
  clock_reads :: nat
  ifflags :: "nat \<Rightarrow> int \<times> u16"
  ifflags_reads :: nat
  heap :: pair_heap

text \<open>
  \<open>sendto\<close> is repeated while it is interrupted: \<open>sendto_rc n\<close> is the first result of the
  \<open>n\<close>-th frame that is not an interruption. The frame is copied into a buffer of
  \<open>ETH_FRAME_LEN\<close> bytes; a payload that does not fit is undefined behaviour.
\<close>

definition mac_bytes :: "eui48 \<Rightarrow> u8 list" where
  "mac_bytes m = be_bytes 6 m"

definition ethernet_frame :: "network_info \<Rightarrow> u8 list \<Rightarrow> u8 list \<Rightarrow> u8 list" where
  "ethernet_frame net dest payload =
    dest @ mac_addr net @ be_bytes 2 (ethertype net) @ payload"

definition send_data ::
  "jdks \<Rightarrow> network_info option \<Rightarrow> u8 list option \<Rightarrow> u8 list option \<Rightarrow> environment \<Rightarrow>
    (int \<times> environment) c_result" where
  "send_data J net_info dest_mac payload env =
    (case net_info of None \<Rightarrow> Returns (- 1, env) | Some net \<Rightarrow>
     case payload of None \<Rightarrow> Returns (- 1, env) | Some data \<Rightarrow>
     if ETH_FRAME_LEN < length data + ETHERNET_OVERHEAD then UB else
       let dest = (case dest_mac of Some m \<Rightarrow> m | None \<Rightarrow> mac_bytes (multicast_adp_acmp J));
           sent_len = sendto_rc env (length (sent env))
       in Returns (if 0 \<le> sent_len then sent_len - int ETHERNET_OVERHEAD else - 1,
            env\<lparr>sent := sent env @ [ethernet_frame net dest data]\<rparr>))"

text \<open>The ioctl result: negative for an error, otherwise the interface flags.\<close>

definition IFF_UP :: u16 where "IFF_UP = 1"

definition is_interface_linkup :: "u8 list option \<Rightarrow> int \<Rightarrow> u16 \<Rightarrow> int" where
  "is_interface_linkup interface_name ioctl_rc flags =
    (case interface_name of None \<Rightarrow> - 1 | Some _ \<Rightarrow>
     if ioctl_rc < 0 then - 1 else if flags AND IFF_UP = 0 then 0 else 1)"

text \<open>
  Opening the socket: the results of the calls in their order. The second result is the
  network information afterwards, the third the sockets closed.
\<close>

record socket_calls =
  socket_fd :: int
  ifindex_rc :: int
  ifindex :: u32
  hwaddr_rc :: int
  hwaddr :: "u8 list"
  flags_rc :: int
  bind_result :: int
  membership_rc :: int

definition create_socket ::
  "socket_calls \<Rightarrow> network_info option \<Rightarrow> u8 list option \<Rightarrow> int \<times> network_info option \<times> int list" where
  "create_socket c net_info interface_name =
    (case net_info of None \<Rightarrow> (- 1, None, []) | Some net \<Rightarrow>
     case interface_name of None \<Rightarrow> (- 1, Some net, []) | Some name \<Rightarrow>
     let sock = socket_fd c in
     if sock < 0 then (- 1, Some net, [])
     else if ifindex_rc c < 0 then (- 1, Some net, [sock])
     else let net = net\<lparr>interface_id := ifindex c\<rparr> in
     if hwaddr_rc c < 0 then (- 1, Some net, [sock])
     else let net = net\<lparr>ifname := take 16 name, mac_addr := take 6 (hwaddr c)\<rparr> in
     if flags_rc c < 0 then (- 1, Some net, [sock])
     else let net = net\<lparr>raw_sock := sock\<rparr> in
     if bind_result c < 0 then (- 1, Some net, [sock])
     else if membership_rc c < 0 then (- 1, Some net, [sock])
     else (0, Some net, []))"

section \<open>Streams and commands\<close>

record acmp_cmd_resp =
  message_type :: u8
  status :: u8
  stream_id :: eui64
  controller_entity_id :: eui64
  talker_entity_id :: eui64
  listener_entity_id :: eui64
  talker_unique_id :: u16
  listener_unique_id :: u16
  stream_dest_mac :: eui48
  connection_count :: u16
  sequence_id :: u16
  flags :: u16
  stream_vlan_id :: u16

record acmp_listener_stream_info =
  ls_talker_entity_id :: eui64
  ls_talker_unique_id :: u16
  ls_connected :: u32
  ls_stream_id :: eui64
  ls_stream_dest_mac :: eui48
  ls_controller_entity_id :: eui64
  ls_flags :: u16
  ls_stream_vlan_id :: u16
  ls_listener_unique_id :: u16

record acmp_talker_stream_info =
  ts_stream_id :: eui64
  ts_stream_dest_mac :: eui48
  ts_connection_count :: u16
  ts_connected_listeners :: "nat option"
  ts_stream_vlan_id :: u16
  ts_talker_unique_id :: u16

record acmp_inflight_command =
  if_timeout :: u64
  if_retried :: bool
  if_command :: acmp_cmd_resp
  if_original_sequence_id :: u16

definition cmd_zero :: acmp_cmd_resp where
  "cmd_zero = \<lparr> message_type = 0, status = 0, stream_id = 0, controller_entity_id = 0,
    talker_entity_id = 0, listener_entity_id = 0, talker_unique_id = 0, listener_unique_id = 0,
    stream_dest_mac = 0, connection_count = 0, sequence_id = 0, flags = 0, stream_vlan_id = 0 \<rparr>"

definition listener_stream_zero :: acmp_listener_stream_info where
  "listener_stream_zero = \<lparr> ls_talker_entity_id = 0, ls_talker_unique_id = 0, ls_connected = 0,
    ls_stream_id = 0, ls_stream_dest_mac = 0, ls_controller_entity_id = 0, ls_flags = 0,
    ls_stream_vlan_id = 0, ls_listener_unique_id = 0 \<rparr>"

definition talker_stream_zero :: acmp_talker_stream_info where
  "talker_stream_zero = \<lparr> ts_stream_id = 0, ts_stream_dest_mac = 0, ts_connection_count = 0,
    ts_connected_listeners = None, ts_stream_vlan_id = 0, ts_talker_unique_id = 0 \<rparr>"

definition inflight_zero :: acmp_inflight_command where
  "inflight_zero = \<lparr> if_timeout = 0, if_retried = False, if_command = cmd_zero,
    if_original_sequence_id = 0 \<rparr>"

section \<open>Entities\<close>

text \<open>
  Every descriptor of the package starts with its type and its index; they are the part of
  the union that is read whatever the descriptor is. \<open>descriptor_struct\<close> is the structure of
  the package, which the code only hands to the package's writer, and \<open>descriptor_arrays\<close> the
  arrays the repository adds to it, each with the element count the code reads for it.
\<close>

record audio_mapping =
  am_stream_index :: u16
  am_stream_channel :: u16
  am_cluster_offset :: u16
  am_cluster_channel :: u16

record video_mapping =
  vm_stream_index :: u16
  vm_program_stream :: u16
  vm_elementary_stream :: u16
  vm_cluster_offset :: u16

record video_cluster_arrays =
  format_specifics_count :: u16
  format_specifics :: "u32 list"
  vc_sampling_rates_count :: u16
  vc_sampling_rates :: "u32 list"
  aspect_ratios_count :: u16
  aspect_ratios :: "u16 list"
  sizes_count :: u16
  sizes :: "u32 list"
  color_spaces_count :: u16
  color_spaces :: "u16 list"

datatype descriptor_arrays =
    No_Arrays
  | Descriptor_Counts u16 "(u16 \<times> u16) list"
  | Sampling_Rates u16 "u32 list"
  | Stream_Formats u16 "u8 list"
  | Video_Cluster_Arrays video_cluster_arrays
  | Audio_Mappings u16 "audio_mapping list"
  | Video_Mappings u16 "video_mapping list"
  | Clock_Sources u16 "u16 list"

record descriptor_data =
  descriptor_type :: u16
  descriptor_index :: u16
  descriptor_struct :: "u8 list"
  descriptor_arrays :: descriptor_arrays

record configuration_list =
  configuration :: descriptor_data
  descriptors :: "descriptor_data list"
  listener_infos :: "acmp_listener_stream_info list"
  listener_infos_count :: u8
  talker_infos :: "acmp_talker_stream_info list"
  talker_infos_count :: u8
  tables_allocated :: bool

abbreviation conf_index :: "configuration_list \<Rightarrow> u16" where
  "conf_index \<equiv> \<lambda>c. descriptor_index (configuration c)"

record entity_descriptor =
  ed_descriptor_index :: u16
  ed_entity_id :: eui64
  ed_entity_model_id :: eui64
  ed_entity_capabilities :: u32
  ed_talker_stream_sources :: u16
  ed_talker_capabilities :: u16
  ed_listener_stream_sinks :: u16
  ed_listener_capabilities :: u16
  ed_controller_capabilities :: u32
  ed_current_configuration :: u16

record device_entity =
  entity_desc :: entity_descriptor
  configurations :: "configuration_list list"
  inflight_commands :: "acmp_inflight_command list"

record adp_state_data =
  last_time_in_microseconds :: u64
  reannounce_timer_timeout :: u64
  do_advertise :: bool
  do_terminate :: bool
  do_discover :: bool
  link_is_up :: bool
  last_link_is_up :: bool
  rcvd_available :: bool
  rcvd_departing :: bool
  rcvd_discover :: bool
  advertised_grandmaster_id :: eui64

record avdecc_ctx =
  data_lock :: bool
  role :: u8
  net_info :: network_info
  av_halt_flag :: bool
  wait_timeout :: u64
  entity_id :: eui64
  entity_model_id :: eui64
  ctx_adpdu :: adpdu
  adp_state :: adp_state_data
  dev_e :: device_entity
  acmp_started :: bool
  env :: environment

text \<open>
  A received frame: its addresses, its Ethernet type, its payload and the length field.
\<close>

record frame =
  fr_dest :: "u8 list"
  fr_src :: "u8 list"
  fr_ethertype :: u16
  fr_length :: nat
  fr_payload :: "u8 list"

definition frame_data :: "frame \<Rightarrow> u8 list" where
  "frame_data f = take (fr_length f) (fr_payload f)"

definition ctx_send :: "jdks \<Rightarrow> eui48 \<Rightarrow> u8 list \<Rightarrow> avdecc_ctx \<Rightarrow> (int \<times> avdecc_ctx) c_result" where
  "ctx_send J dest payload ctx =
    bindC (send_data J (Some (net_info ctx)) (Some (mac_bytes dest)) (Some payload) (env ctx))
      (\<lambda>(rc, ev). Returns (rc, ctx\<lparr>env := ev\<rparr>))"

text \<open>What no protocol handler changes: the lock, the flags, and the identity of the entity.\<close>

definition same_control :: "avdecc_ctx \<Rightarrow> avdecc_ctx \<Rightarrow> bool" where
  "same_control c0 ctx \<longleftrightarrow> data_lock ctx = data_lock c0 \<and> av_halt_flag ctx = av_halt_flag c0 \<and>
    acmp_started ctx = acmp_started c0 \<and> role ctx = role c0 \<and> entity_id ctx = entity_id c0 \<and>
    net_info ctx = net_info c0"

lemma same_control_refl [simp]: "same_control ctx ctx"
  by (simp add: same_control_def)

lemma same_control_trans [trans]: "same_control a b \<Longrightarrow> same_control b c \<Longrightarrow> same_control a c"
  by (simp add: same_control_def)

text \<open>The state of the link of the interface of the context.\<close>

definition read_linkup :: "avdecc_ctx \<Rightarrow> int \<times> avdecc_ctx" where
  "read_linkup ctx =
    (let (rc, fl) = ifflags (env ctx) (ifflags_reads (env ctx))
     in (is_interface_linkup (Some (ifname (net_info ctx))) rc fl,
         ctx\<lparr>env := (env ctx)\<lparr>ifflags_reads := ifflags_reads (env ctx) + 1\<rparr>\<rparr>))"

text \<open>\<open>clock_gettime\<close> and the conversion to microseconds.\<close>

definition read_clock :: "avdecc_ctx \<Rightarrow> u64 \<times> avdecc_ctx" where
  "read_clock ctx =
    (let (s, ns) = clock (env ctx) (clock_reads (env ctx))
     in (word_of_int (s * 1000000 + ns div 1000),
         ctx\<lparr>env := (env ctx)\<lparr>clock_reads := clock_reads (env ctx) + 1\<rparr>\<rparr>))"

section \<open>A sample entity\<close>

text \<open>
  An entity with one configuration, on a machine whose calls succeed; the configuration has one
  sink and one source, whose descriptors carry the types of \<open>jdks_sample\<close>.
\<close>

definition sample_environment :: environment where
  "sample_environment = \<lparr> sendto_rc = (\<lambda>_. 70), sent = [], alloc_ok = (\<lambda>_. True), allocs = 0,
    clock = (\<lambda>n. (100 + int n, 0)), clock_reads = 0, ifflags = (\<lambda>_. (0, 1)), ifflags_reads = 0,
    heap = (\<lambda>_. None) \<rparr>"

definition sample_network :: network_info where
  "sample_network = \<lparr> ifname = [], raw_sock = 5, interface_id = 1, ethertype = 0x22f0,
    mac_addr = [2, 0, 0, 0, 0, 1] \<rparr>"

definition sample_configuration :: configuration_list where
  "sample_configuration = \<lparr> configuration = \<lparr>descriptor_type = 1, descriptor_index = 0, descriptor_struct = [],
      descriptor_arrays = Descriptor_Counts 2 [(5, 1), (6, 1)]\<rparr>,
    descriptors = [\<lparr>descriptor_type = 5, descriptor_index = 3, descriptor_struct = [],
        descriptor_arrays = Stream_Formats 2 [0, 1, 2, 3, 4, 5, 6, 7, 8, 9, 10, 11, 12, 13, 14, 15]\<rparr>,
      \<lparr>descriptor_type = 6, descriptor_index = 2, descriptor_struct = [],
        descriptor_arrays = Stream_Formats 0 []\<rparr>],
    listener_infos = [listener_stream_zero\<lparr>ls_listener_unique_id := 3\<rparr>], listener_infos_count = 1,
    talker_infos = [talker_stream_zero\<lparr>ts_talker_unique_id := 2\<rparr>], talker_infos_count = 1,
    tables_allocated = True \<rparr>"

definition sample_entity :: "configuration_list list \<Rightarrow> acmp_inflight_command list \<Rightarrow> environment \<Rightarrow> avdecc_ctx" where
  "sample_entity cl infl ev = \<lparr> data_lock = False, role = 3, net_info = sample_network, av_halt_flag = False,
    wait_timeout = 1000, entity_id = 0xA1, entity_model_id = 0, ctx_adpdu = adpdu_zero,
    adp_state = \<lparr> last_time_in_microseconds = 0, reannounce_timer_timeout = 0, do_advertise = False, do_terminate = False,
      do_discover = False, link_is_up = True, last_link_is_up = True, rcvd_available = False,
      rcvd_departing = False, rcvd_discover = False, advertised_grandmaster_id = 0 \<rparr>,
    dev_e = \<lparr> entity_desc = \<lparr> ed_descriptor_index = 0, ed_entity_id = 0xA1, ed_entity_model_id = 1, ed_entity_capabilities = 0,
      ed_talker_stream_sources = 1, ed_talker_capabilities = 0, ed_listener_stream_sinks = 1,
      ed_listener_capabilities = 0, ed_controller_capabilities = 0, ed_current_configuration = 0 \<rparr>,
      configurations = cl, inflight_commands = infl \<rparr>,
    acmp_started = True, env = ev \<rparr>"

lemmas sample_defs = sample_environment_def sample_network_def sample_configuration_def sample_entity_def
  listener_stream_zero_def talker_stream_zero_def inflight_zero_def cmd_zero_def adpdu_zero_def

end
