(* ===== verification/Acmp.thy ===== *)
theory Acmp
  imports Avdecc_Common
begin

unbundle bit_operations_syntax

text \<open>
  The connection management protocol (\<open>lib/avdecc/acmp.c\<close>): the tables of listener and talker
  streams, the lists of listener pairs on the heap, the inflight commands, and the handlers
  of the listener and the talker state machine. A handler takes the context and returns the
  context; use of a freed or null cell is \<open>UB\<close> and a loop that does not end is \<open>NoReturn\<close>.
  The locale \<open>keyed_table\<close> states what the handlers need from a stream table; both tables
  interpret it.
\<close>

section \<open>Stream tables\<close>

text \<open>
  The place of an entry: its configuration and its index there. The search stops at the first
  configuration with the index, and at the first entry with the identifier.
\<close>

type_synonym place = "nat \<times> nat"

definition find_configuration :: "configuration_list list \<Rightarrow> u16 \<Rightarrow> nat option" where
  "find_configuration cl cur = find_index (\<lambda>c. conf_index c = cur) cl"

definition acmp_find_listener_stream_info :: "configuration_list list \<Rightarrow> u16 \<Rightarrow> u16 \<Rightarrow> place option" where
  "acmp_find_listener_stream_info cl cur uid =
    (case find_configuration cl cur of None \<Rightarrow> None
     | Some k \<Rightarrow> map_option (Pair k)
         (find_index (\<lambda>s. ls_listener_unique_id s = uid)
           (take (unat (listener_infos_count (cl ! k))) (listener_infos (cl ! k)))))"

definition acmp_find_talker_stream_info :: "configuration_list list \<Rightarrow> u16 \<Rightarrow> u16 \<Rightarrow> place option" where
  "acmp_find_talker_stream_info cl cur uid =
    (case find_configuration cl cur of None \<Rightarrow> None
     | Some k \<Rightarrow> map_option (Pair k)
         (find_index (\<lambda>s. ts_talker_unique_id s = uid)
           (take (unat (talker_infos_count (cl ! k))) (talker_infos (cl ! k)))))"

definition listener_at :: "configuration_list list \<Rightarrow> place \<Rightarrow> acmp_listener_stream_info" where
  "listener_at cl pl = listener_infos (cl ! fst pl) ! snd pl"

definition set_listener_at ::
  "place \<Rightarrow> acmp_listener_stream_info \<Rightarrow> configuration_list list \<Rightarrow> configuration_list list" where
  "set_listener_at pl s cl =
    cl[fst pl := (cl ! fst pl)\<lparr>listener_infos := (listener_infos (cl ! fst pl))[snd pl := s]\<rparr>]"

definition talker_at :: "configuration_list list \<Rightarrow> place \<Rightarrow> acmp_talker_stream_info" where
  "talker_at cl pl = talker_infos (cl ! fst pl) ! snd pl"

definition set_talker_at ::
  "place \<Rightarrow> acmp_talker_stream_info \<Rightarrow> configuration_list list \<Rightarrow> configuration_list list" where
  "set_talker_at pl s cl =
    cl[fst pl := (cl ! fst pl)\<lparr>talker_infos := (talker_infos (cl ! fst pl))[snd pl := s]\<rparr>]"

abbreviation cur_conf :: "avdecc_ctx \<Rightarrow> u16" where
  "cur_conf ctx \<equiv> ed_current_configuration (entity_desc (dev_e ctx))"

abbreviation confs :: "avdecc_ctx \<Rightarrow> configuration_list list" where
  "confs ctx \<equiv> configurations (dev_e ctx)"

definition set_confs :: "configuration_list list \<Rightarrow> avdecc_ctx \<Rightarrow> avdecc_ctx" where
  "set_confs cl ctx = ctx\<lparr>dev_e := (dev_e ctx)\<lparr>configurations := cl\<rparr>\<rparr>"

definition find_listener :: "avdecc_ctx \<Rightarrow> u16 \<Rightarrow> place option" where
  "find_listener ctx = acmp_find_listener_stream_info (confs ctx) (cur_conf ctx)"

definition find_talker :: "avdecc_ctx \<Rightarrow> u16 \<Rightarrow> place option" where
  "find_talker ctx = acmp_find_talker_stream_info (confs ctx) (cur_conf ctx)"

definition acmp_add_listener_stream_info ::
  "jdks \<Rightarrow> avdecc_ctx \<Rightarrow> acmp_cmd_resp \<Rightarrow> u8 \<times> avdecc_ctx" where
  "acmp_add_listener_stream_info J ctx p =
    (case find_listener ctx (listener_unique_id p) of
       None \<Rightarrow> (ACMP_LISTENER_MISBEHAVING J, ctx)
     | Some pl \<Rightarrow>
        let s = listener_at (confs ctx) pl in
        if ls_connected s \<noteq> 0 then (ACMP_LISTENER_EXCLUSIVE J, ctx) else
        (ACMP_SUCCESS J,
         set_confs (set_listener_at pl
           (s\<lparr>ls_talker_entity_id := talker_entity_id p, ls_stream_id := stream_id p,
              ls_stream_dest_mac := stream_dest_mac p,
              ls_controller_entity_id := controller_entity_id p,
              ls_talker_unique_id := talker_unique_id p, ls_connected := 1,
              ls_flags := flags p, ls_stream_vlan_id := stream_vlan_id p\<rparr>) (confs ctx)) ctx))"

text \<open>The removal searches the table itself: the entry must also be connected to the talker.\<close>

definition acmp_remove_listener_stream_info ::
  "jdks \<Rightarrow> avdecc_ctx \<Rightarrow> acmp_cmd_resp \<Rightarrow> int \<times> avdecc_ctx" where
  "acmp_remove_listener_stream_info J ctx p =
    (case find_configuration (confs ctx) (cur_conf ctx) of
       None \<Rightarrow> (- 1, ctx)
     | Some k \<Rightarrow>
        (case find_index
            (\<lambda>s. ls_listener_unique_id s = listener_unique_id p \<and> ls_connected s \<noteq> 0 \<and>
               eui64_compare J (ls_talker_entity_id s) (talker_entity_id p) = 0 \<and>
               ls_talker_unique_id s = talker_unique_id p)
            (take (unat (listener_infos_count (confs ctx ! k))) (listener_infos (confs ctx ! k))) of
           Some i \<Rightarrow> (0, set_confs (set_listener_at (k, i) listener_stream_zero (confs ctx)) ctx)
         | None \<Rightarrow> (- 1, ctx)))"

section \<open>Listener pairs\<close>

text \<open>
  The walks follow \<open>next\<close>; \<open>fuel\<close> is the number of cells ever allocated plus one, more than
  an acyclic list can hold, so a walk that uses it up goes round for ever.
\<close>

fun last_pair :: "nat \<Rightarrow> pair_heap \<Rightarrow> nat \<Rightarrow> nat c_result" where
  "last_pair 0 h p = NoReturn"
| "last_pair (Suc fuel) h p =
    (case h p of None \<Rightarrow> UB
     | Some c \<Rightarrow> (case lp_next c of None \<Rightarrow> Returns p | Some q \<Rightarrow> last_pair fuel h q))"

definition walk_fuel :: "environment \<Rightarrow> nat" where
  "walk_fuel ev = Suc (allocs ev)"

text \<open>\<open>calloc\<close>: a fresh zeroed cell, or the null pointer.\<close>

definition alloc_pair :: "environment \<Rightarrow> nat option \<times> environment" where
  "alloc_pair ev =
    (let n = allocs ev; ev = ev\<lparr>allocs := Suc n\<rparr> in
     if alloc_ok ev n
     then (Some n, ev\<lparr>heap := (heap ev)(n \<mapsto> \<lparr>lp_entity_id = 0, lp_unique_id = 0, lp_next = None\<rparr>)\<rparr>)
     else (None, ev))"

definition acmp_add_new_listener_pair ::
  "nat option \<Rightarrow> eui64 \<Rightarrow> u16 \<Rightarrow> environment \<Rightarrow> (nat option \<times> environment) c_result" where
  "acmp_add_new_listener_pair head eid uid ev =
    (case alloc_pair ev of
       (None, ev) \<Rightarrow> Returns (None, ev)
     | (Some new, ev) \<Rightarrow>
        let ev = ev\<lparr>heap := (heap ev)(new \<mapsto> \<lparr>lp_entity_id = eid, lp_unique_id = uid, lp_next = None\<rparr>)\<rparr> in
        (case head of
           None \<Rightarrow> Returns (Some new, ev)
         | Some p \<Rightarrow>
            bindC (last_pair (walk_fuel ev) (heap ev) p) (\<lambda>q.
            case heap ev q of None \<Rightarrow> UB
            | Some c \<Rightarrow> Returns (Some p, ev\<lparr>heap := (heap ev)(q \<mapsto> c\<lparr>lp_next := Some new\<rparr>)\<rparr>))))"

text \<open>
  The removal has the head by value: unlinking the head changes only the local variable, and
  the last cell is freed without changing the link of the cell before it.
\<close>

fun remove_pair_loop ::
  "nat \<Rightarrow> jdks \<Rightarrow> nat \<Rightarrow> nat option \<Rightarrow> nat \<Rightarrow> eui64 \<Rightarrow> u16 \<Rightarrow> pair_heap \<Rightarrow> (int \<times> pair_heap) c_result" where
  "remove_pair_loop 0 J head prev p eid uid h = NoReturn"
| "remove_pair_loop (Suc fuel) J head prev p eid uid h =
    (case h p of None \<Rightarrow> UB | Some c \<Rightarrow>
     if eui64_compare J (lp_entity_id c) eid = 0 \<and> lp_unique_id c = uid then
       (if p = head then Returns (0, h)
        else (case lp_next c of
            None \<Rightarrow> Returns (0, h(p := None))
          | Some q \<Rightarrow>
             (case prev of None \<Rightarrow> UB | Some b \<Rightarrow>
              case h b of None \<Rightarrow> UB
              | Some cb \<Rightarrow> Returns (0, (h(b \<mapsto> cb\<lparr>lp_next := Some q\<rparr>))(p := None)))))
     else (case lp_next c of
         None \<Rightarrow> Returns (- 1, h)
       | Some q \<Rightarrow> remove_pair_loop fuel J head (Some p) q eid uid h))"

definition acmp_remove_listener_pair ::
  "jdks \<Rightarrow> nat option \<Rightarrow> eui64 \<Rightarrow> u16 \<Rightarrow> environment \<Rightarrow> (int \<times> environment) c_result" where
  "acmp_remove_listener_pair J head eid uid ev =
    (case head of None \<Rightarrow> Returns (- 1, ev)
     | Some p \<Rightarrow>
        bindC (remove_pair_loop (walk_fuel ev) J p None p eid uid (heap ev))
          (\<lambda>(rc, h). Returns (rc, ev\<lparr>heap := h\<rparr>)))"

fun reset_pair_loop :: "nat \<Rightarrow> nat option \<Rightarrow> pair_heap \<Rightarrow> pair_heap c_result" where
  "reset_pair_loop fuel None h = Returns h"
| "reset_pair_loop 0 (Some p) h = NoReturn"
| "reset_pair_loop (Suc fuel) (Some p) h =
    (case h p of None \<Rightarrow> UB | Some c \<Rightarrow> reset_pair_loop fuel (lp_next c) (h(p := None)))"

definition acmp_reset_listener_pair :: "nat option \<Rightarrow> environment \<Rightarrow> (int \<times> environment) c_result" where
  "acmp_reset_listener_pair head ev =
    (case head of None \<Rightarrow> Returns (- 1, ev)
     | Some p \<Rightarrow> bindC (reset_pair_loop (walk_fuel ev) (Some p) (heap ev))
         (\<lambda>h. Returns (0, ev\<lparr>heap := h\<rparr>)))"

section \<open>Talker streams\<close>

definition acmp_add_talker_stream_info ::
  "avdecc_ctx \<Rightarrow> acmp_cmd_resp \<Rightarrow> (int \<times> avdecc_ctx) c_result" where
  "acmp_add_talker_stream_info ctx p =
    (case find_talker ctx (talker_unique_id p) of
       None \<Rightarrow> Returns (- 1, ctx)
     | Some pl \<Rightarrow>
        let s = talker_at (confs ctx) pl in
        bindC (acmp_add_new_listener_pair (ts_connected_listeners s) (listener_entity_id p)
            (listener_unique_id p) (env ctx)) (\<lambda>(head, ev).
        let s = s\<lparr>ts_connected_listeners := head\<rparr>;
            ctx = (set_confs (set_talker_at pl s (confs ctx)) ctx)\<lparr>env := ev\<rparr> in
        if head = None then Returns (- 1, ctx)
        else Returns (0, set_confs (set_talker_at pl
               (s\<lparr>ts_connection_count := ts_connection_count s + 1\<rparr>) (confs ctx)) ctx)))"

definition acmp_remove_talker_stream_info ::
  "jdks \<Rightarrow> avdecc_ctx \<Rightarrow> acmp_cmd_resp \<Rightarrow> (int \<times> avdecc_ctx) c_result" where
  "acmp_remove_talker_stream_info J ctx p =
    (case find_talker ctx (talker_unique_id p) of
       None \<Rightarrow> Returns (0, ctx)
     | Some pl \<Rightarrow>
        let s = talker_at (confs ctx) pl in
        bindC (acmp_remove_listener_pair J (ts_connected_listeners s) (listener_entity_id p)
            (listener_unique_id p) (env ctx)) (\<lambda>(rc, ev).
        let ctx = ctx\<lparr>env := ev\<rparr> in
        if rc < 0 then Returns (- 1, ctx)
        else Returns (0, set_confs (set_talker_at pl
               (s\<lparr>ts_connection_count := ts_connection_count s - 1\<rparr>) (confs ctx)) ctx)))"

section \<open>Validity\<close>

text \<open>The search over the descriptors is repeated once for every stream of the table.\<close>

definition acmp_valid_stream ::
  "jdks \<Rightarrow> configuration_list list \<Rightarrow> u16 \<Rightarrow> u16 \<Rightarrow> u16 \<Rightarrow> bool" where
  "acmp_valid_stream J cl cur dtype uid =
    (case find_configuration cl cur of None \<Rightarrow> False
     | Some k \<Rightarrow>
        let c = cl ! k;
            n = (if dtype = DESCRIPTOR_STREAM_INPUT J then listener_infos_count c else talker_infos_count c)
        in 0 < n \<and>
           list_ex (\<lambda>d. descriptor_type d = dtype \<and> descriptor_index d = uid) (descriptors c))"

definition acmp_valid_talker_unique :: "jdks \<Rightarrow> avdecc_ctx \<Rightarrow> u16 \<Rightarrow> bool" where
  "acmp_valid_talker_unique J ctx uid =
    acmp_valid_stream J (confs ctx) (cur_conf ctx) (DESCRIPTOR_STREAM_OUTPUT J) uid"

definition acmp_valid_listener_unique :: "jdks \<Rightarrow> avdecc_ctx \<Rightarrow> u16 \<Rightarrow> bool" where
  "acmp_valid_listener_unique J ctx uid =
    acmp_valid_stream J (confs ctx) (cur_conf ctx) (DESCRIPTOR_STREAM_INPUT J) uid"

definition acmp_listener_is_connected :: "jdks \<Rightarrow> avdecc_ctx \<Rightarrow> acmp_cmd_resp \<Rightarrow> bool" where
  "acmp_listener_is_connected J ctx p =
    (case find_listener ctx (listener_unique_id p) of
       None \<Rightarrow> False
     | Some pl \<Rightarrow>
        let s = listener_at (confs ctx) pl in
        ls_connected s \<noteq> 0 \<and>
        (eui64_compare J (ls_talker_entity_id s) (talker_entity_id p) \<noteq> 0 \<and>
         ls_talker_unique_id s \<noteq> talker_unique_id p))"

definition acmp_listener_is_connectedto :: "jdks \<Rightarrow> avdecc_ctx \<Rightarrow> acmp_cmd_resp \<Rightarrow> bool" where
  "acmp_listener_is_connectedto J ctx p =
    (case find_listener ctx (listener_unique_id p) of
       None \<Rightarrow> True
     | Some pl \<Rightarrow>
        let s = listener_at (confs ctx) pl in
        \<not> (ls_connected s = 0 \<or>
          (eui64_compare J (ls_talker_entity_id s) (talker_entity_id p) \<noteq> 0 \<or>
           ls_talker_unique_id s \<noteq> talker_unique_id p)))"

section \<open>Transmission\<close>

definition acmp_pdu :: "jdks \<Rightarrow> u8 \<Rightarrow> u8 \<Rightarrow> acmp_cmd_resp \<Rightarrow> acmpdu" where
  "acmp_pdu J mtype st c =
    \<lparr> acm_cd = 1, acm_subtype = SUBTYPE_ACMP J, acm_sv = 0, acm_version = 0,
      acm_message_type = mtype, acm_status = st,
      acm_control_data_length = ACMPDU_LEN J - COMMON_CONTROL_HEADER_LEN J,
      acm_stream_id = stream_id c, acm_controller_entity_id = controller_entity_id c,
      acm_talker_entity_id = talker_entity_id c, acm_listener_entity_id = listener_entity_id c,
      acm_talker_unique_id = talker_unique_id c, acm_listener_unique_id = listener_unique_id c,
      acm_stream_dest_mac = stream_dest_mac c, acm_connection_count = connection_count c,
      acm_sequence_id = sequence_id c, acm_flags = flags c,
      acm_stream_vlan_id = stream_vlan_id c, acm_reserved = 0 \<rparr>"

definition acmp_tx_response ::
  "jdks \<Rightarrow> u8 \<Rightarrow> acmp_cmd_resp \<Rightarrow> u8 \<Rightarrow> avdecc_ctx \<Rightarrow> (int \<times> avdecc_ctx) c_result" where
  "acmp_tx_response J mtype c st ctx =
    (let (len, payload) = acmpdu_write J (acmp_pdu J mtype st c) in
     if 0 < len then
       bindC (ctx_send J (multicast_adp_acmp J) payload ctx) (\<lambda>(_, ctx). Returns (0, ctx))
     else Returns (0, ctx))"

definition inflight_at :: "avdecc_ctx \<Rightarrow> nat \<Rightarrow> acmp_inflight_command" where
  "inflight_at ctx i = inflight_commands (dev_e ctx) ! i"

definition set_inflight_at :: "nat \<Rightarrow> acmp_inflight_command \<Rightarrow> avdecc_ctx \<Rightarrow> avdecc_ctx" where
  "set_inflight_at i c ctx =
    ctx\<lparr>dev_e := (dev_e ctx)\<lparr>inflight_commands := (inflight_commands (dev_e ctx))[i := c]\<rparr>\<rparr>"

definition free_inflight :: "avdecc_ctx \<Rightarrow> nat option" where
  "free_inflight ctx = find_index (\<lambda>f. if_timeout f = 0) (inflight_commands (dev_e ctx))"

text \<open>The copy of a command into a free entry, from the data unit built from it.\<close>

definition inflight_of :: "jdks \<Rightarrow> u8 \<Rightarrow> acmp_cmd_resp \<Rightarrow> acmp_inflight_command" where
  "inflight_of J mtype c =
    \<lparr> if_timeout = 0, if_retried = False,
      if_command = c\<lparr>message_type := mtype, status := ACMP_SUCCESS J\<rparr>,
      if_original_sequence_id = sequence_id c \<rparr>"

definition timeout_ms :: "jdks \<Rightarrow> u8 \<Rightarrow> u32" where
  "timeout_ms J mtype =
    (if mtype = CONNECT_TX_COMMAND J then TIMEOUT_CONNECT_TX_COMMAND_MS J
     else if mtype = DISCONNECT_TX_COMMAND J then TIMEOUT_DISCONNECT_TX_COMMAND_MS J
     else 0)"

text \<open>
  The entry is the given one, or a free one that the command is copied to; the timeout is set
  from the type of the command in the entry.
\<close>

definition acmp_tx_command ::
  "jdks \<Rightarrow> u8 \<Rightarrow> acmp_cmd_resp \<Rightarrow> nat option \<Rightarrow> avdecc_ctx \<Rightarrow> (int \<times> avdecc_ctx) c_result" where
  "acmp_tx_command J mtype c inflight ctx =
    (let (len, payload) = acmpdu_write J (acmp_pdu J mtype (ACMP_SUCCESS J) c);
         (now, ctx) = read_clock ctx;
         entry = (case inflight of
             Some i \<Rightarrow> Some (i, inflight_at ctx i)
           | None \<Rightarrow> map_option (\<lambda>i. (i, inflight_of J mtype c)) (free_inflight ctx))
     in case entry of
       None \<Rightarrow>
         bindC (acmp_tx_response J mtype c (ACMP_LISTENER_MISBEHAVING J) ctx)
           (\<lambda>(_, ctx). Returns (- 1, ctx))
     | Some (i, f) \<Rightarrow>
         let ms = timeout_ms J (message_type (if_command f));
             ctx = set_inflight_at i (f\<lparr>if_timeout := now + scast (ms * 1000)\<rparr>) ctx
         in if 0 < len then
              bindC (ctx_send J (multicast_adp_acmp J) payload ctx) (\<lambda>(rc, ctx).
              if 0 < rc then Returns (0, ctx)
              else bindC (acmp_tx_response J mtype c (ACMP_COULD_NOT_SEND_MESSAGE J) ctx)
                (\<lambda>(_, ctx). Returns (- 1, ctx)))
            else Returns (0, ctx))"

section \<open>Listener state machine\<close>

definition acmp_process_connect_rx_cmd ::
  "jdks \<Rightarrow> avdecc_ctx \<Rightarrow> acmp_cmd_resp \<Rightarrow> (int \<times> avdecc_ctx) c_result" where
  "acmp_process_connect_rx_cmd J ctx c =
    bindC
      (if acmp_valid_listener_unique J ctx (listener_unique_id c) then
         if \<not> acmp_listener_is_connected J ctx c
         then acmp_tx_command J (CONNECT_TX_COMMAND J) c None ctx
         else acmp_tx_response J (CONNECT_RX_RESPONSE J) c (ACMP_LISTENER_EXCLUSIVE J) ctx
       else acmp_tx_response J (CONNECT_RX_RESPONSE J) c (ACMP_LISTENER_UNKNOWN_ID J) ctx)
      (\<lambda>(_, ctx). Returns (0, ctx))"

definition acmp_process_connect_tx_response ::
  "jdks \<Rightarrow> avdecc_ctx \<Rightarrow> acmp_cmd_resp \<Rightarrow> (int \<times> avdecc_ctx) c_result" where
  "acmp_process_connect_tx_response J ctx c =
    (if acmp_valid_listener_unique J ctx (listener_unique_id c) then
       let (response, ctx) =
         (if status c = ACMP_SUCCESS J then
            (case find_index (\<lambda>f. if_timeout f \<noteq> 0 \<and>
                message_type (if_command f) = CONNECT_TX_COMMAND J \<and>
                sequence_id (if_command f) = sequence_id c) (inflight_commands (dev_e ctx)) of
               Some i \<Rightarrow>
                 let f = inflight_at ctx i;
                     (st, ctx) = acmp_add_listener_stream_info J ctx c
                 in (c\<lparr>status := st, sequence_id := if_original_sequence_id f,
                       connection_count := connection_count c\<rparr>,
                     set_inflight_at i inflight_zero ctx)
             | None \<Rightarrow> (c\<lparr>status := ACMP_LISTENER_MISBEHAVING J\<rparr>, ctx))
          else (c, ctx))
       in acmp_tx_response J (CONNECT_RX_RESPONSE J) response (status response) ctx
     else Returns (0, ctx))"

definition acmp_process_get_rx_state_cmd ::
  "jdks \<Rightarrow> avdecc_ctx \<Rightarrow> acmp_cmd_resp \<Rightarrow> (int \<times> avdecc_ctx) c_result" where
  "acmp_process_get_rx_state_cmd J ctx c =
    (let (response, err) =
       (if acmp_valid_listener_unique J ctx (listener_unique_id c) then
          (case find_listener ctx (listener_unique_id c) of
             None \<Rightarrow> (c, ACMP_LISTENER_MISBEHAVING J)
           | Some pl \<Rightarrow>
              let s = listener_at (confs ctx) pl in
              (c\<lparr>connection_count := ucast (ls_connected s), flags := ls_flags s,
                 stream_vlan_id := ls_stream_vlan_id s, stream_id := ls_stream_id s,
                 stream_dest_mac := ls_stream_dest_mac s,
                 talker_entity_id := ls_talker_entity_id s\<rparr>, ACMP_SUCCESS J))
        else (c, ACMP_LISTENER_UNKNOWN_ID J))
     in acmp_tx_response J (GET_RX_STATE_RESPONSE J) response err ctx)"

definition acmp_process_disconnect_rx_cmd ::
  "jdks \<Rightarrow> avdecc_ctx \<Rightarrow> acmp_cmd_resp \<Rightarrow> (int \<times> avdecc_ctx) c_result" where
  "acmp_process_disconnect_rx_cmd J ctx c =
    bindC
      (if acmp_valid_listener_unique J ctx (listener_unique_id c) then
         if acmp_listener_is_connectedto J ctx c
         then acmp_tx_command J (DISCONNECT_TX_COMMAND J) c None ctx
         else acmp_tx_response J (DISCONNECT_RX_RESPONSE J) c (ACMP_NOT_CONNECTED J) ctx
       else acmp_tx_response J (DISCONNECT_RX_RESPONSE J) c (ACMP_LISTENER_UNKNOWN_ID J) ctx)
      (\<lambda>(_, ctx). Returns (0, ctx))"

definition acmp_process_disconnect_tx_response ::
  "jdks \<Rightarrow> avdecc_ctx \<Rightarrow> acmp_cmd_resp \<Rightarrow> (int \<times> avdecc_ctx) c_result" where
  "acmp_process_disconnect_tx_response J ctx c =
    (if acmp_valid_listener_unique J ctx (listener_unique_id c) then
       (case find_index (\<lambda>f. if_timeout f \<noteq> 0 \<and> sequence_id (if_command f) = sequence_id c)
           (inflight_commands (dev_e ctx)) of
          None \<Rightarrow> Returns (0, ctx)
        | Some i \<Rightarrow>
           let response = c\<lparr>sequence_id := if_original_sequence_id (inflight_at ctx i)\<rparr>;
               (rc, ctx) = acmp_remove_listener_stream_info J ctx c
           in if rc < 0 then Returns (0, ctx)
              else acmp_tx_response J (DISCONNECT_RX_RESPONSE J) response (status response)
                     (set_inflight_at i inflight_zero ctx))
     else Returns (0, ctx))"

text \<open>The two timeout handlers differ in the types of the command and of the response.\<close>

definition process_tx_timeout ::
  "jdks \<Rightarrow> u8 \<Rightarrow> u8 \<Rightarrow> avdecc_ctx \<Rightarrow> nat \<Rightarrow> (int \<times> avdecc_ctx) c_result" where
  "process_tx_timeout J cmd_type resp_type ctx i =
    (let f = inflight_at ctx i in
     if if_retried f then
       let response = (if_command f)\<lparr>sequence_id := if_original_sequence_id f\<rparr> in
       bindC (acmp_tx_response J resp_type response (ACMP_LISTENER_TALKER_TIMEOUT J) ctx)
         (\<lambda>(_, ctx). Returns (0, set_inflight_at i inflight_zero ctx))
     else
       bindC (acmp_tx_command J cmd_type (if_command f) (Some i) ctx)
         (\<lambda>(_, ctx). Returns (0, set_inflight_at i ((inflight_at ctx i)\<lparr>if_retried := True\<rparr>) ctx)))"

definition acmp_process_connect_tx_timeout ::
  "jdks \<Rightarrow> avdecc_ctx \<Rightarrow> nat \<Rightarrow> (int \<times> avdecc_ctx) c_result" where
  "acmp_process_connect_tx_timeout J = process_tx_timeout J (CONNECT_TX_COMMAND J) (CONNECT_RX_RESPONSE J)"

definition acmp_process_disconnect_tx_timeout ::
  "jdks \<Rightarrow> avdecc_ctx \<Rightarrow> nat \<Rightarrow> (int \<times> avdecc_ctx) c_result" where
  "acmp_process_disconnect_tx_timeout J =
    process_tx_timeout J (DISCONNECT_TX_COMMAND J) (DISCONNECT_RX_RESPONSE J)"

definition acmp_process_listener_state_machine ::
  "jdks \<Rightarrow> avdecc_ctx \<Rightarrow> acmp_cmd_resp \<Rightarrow> (int \<times> avdecc_ctx) c_result" where
  "acmp_process_listener_state_machine J ctx c =
    (let t = message_type c in
     if t = CONNECT_RX_COMMAND J then acmp_process_connect_rx_cmd J ctx c
     else if t = CONNECT_TX_RESPONSE J then acmp_process_connect_tx_response J ctx c
     else if t = GET_RX_STATE_COMMAND J then acmp_process_get_rx_state_cmd J ctx c
     else if t = DISCONNECT_RX_COMMAND J then acmp_process_disconnect_rx_cmd J ctx c
     else if t = DISCONNECT_TX_RESPONSE J then acmp_process_disconnect_tx_response J ctx c
     else Returns (- 1, ctx))"

section \<open>Talker state machine\<close>

definition acmp_connect_talker ::
  "jdks \<Rightarrow> avdecc_ctx \<Rightarrow> acmp_cmd_resp \<Rightarrow> acmp_cmd_resp \<Rightarrow> (u8 \<times> acmp_cmd_resp \<times> avdecc_ctx) c_result" where
  "acmp_connect_talker J ctx response c =
    (case find_talker ctx (talker_unique_id c) of
       None \<Rightarrow> Returns (ACMP_TALKER_MISBEHAVING J, response, ctx)
     | Some pl \<Rightarrow>
        bindC (acmp_add_talker_stream_info ctx c) (\<lambda>(rc, ctx).
        let err = (if rc < 0 then ACMP_TALKER_MISBEHAVING J else ACMP_SUCCESS J);
            s = talker_at (confs ctx) pl
        in Returns (err, response\<lparr>stream_id := ts_stream_id s, stream_dest_mac := ts_stream_dest_mac s,
             stream_vlan_id := ts_stream_vlan_id s, connection_count := ts_connection_count s\<rparr>, ctx)))"

definition acmp_process_connect_tx_cmd ::
  "jdks \<Rightarrow> avdecc_ctx \<Rightarrow> acmp_cmd_resp \<Rightarrow> (int \<times> avdecc_ctx) c_result" where
  "acmp_process_connect_tx_cmd J ctx c =
    bindC
      (if acmp_valid_talker_unique J ctx (talker_unique_id c)
       then acmp_connect_talker J ctx c c
       else Returns (ACMP_TALKER_UNKNOWN_ID J, c, ctx))
      (\<lambda>(err, response, ctx). acmp_tx_response J (CONNECT_TX_RESPONSE J) response err ctx)"

definition acmp_process_disconnect_tx_cmd ::
  "jdks \<Rightarrow> avdecc_ctx \<Rightarrow> acmp_cmd_resp \<Rightarrow> (int \<times> avdecc_ctx) c_result" where
  "acmp_process_disconnect_tx_cmd J ctx c =
    bindC
      (if acmp_valid_talker_unique J ctx (talker_unique_id c)
       then bindC (acmp_remove_talker_stream_info J ctx c) (\<lambda>(_, ctx). Returns (ACMP_SUCCESS J, ctx))
       else Returns (ACMP_TALKER_UNKNOWN_ID J, ctx))
      (\<lambda>(err, ctx). acmp_tx_response J (DISCONNECT_TX_RESPONSE J) c err ctx)"

definition acmp_process_get_tx_state_cmd ::
  "jdks \<Rightarrow> avdecc_ctx \<Rightarrow> acmp_cmd_resp \<Rightarrow> (int \<times> avdecc_ctx) c_result" where
  "acmp_process_get_tx_state_cmd J ctx c =
    (let (response, err) =
       (if acmp_valid_talker_unique J ctx (talker_unique_id c) then
          (case find_talker ctx (talker_unique_id c) of
             None \<Rightarrow> (c, ACMP_TALKER_MISBEHAVING J)
           | Some pl \<Rightarrow>
              let s = talker_at (confs ctx) pl in
              (c\<lparr>connection_count := ts_connection_count s, stream_id := ts_stream_id s,
                 stream_dest_mac := ts_stream_dest_mac s,
                 stream_vlan_id := ts_stream_vlan_id s\<rparr>, ACMP_SUCCESS J))
        else (c, ACMP_TALKER_UNKNOWN_ID J))
     in acmp_tx_response J (GET_TX_STATE_RESPONSE J) response err ctx)"

text \<open>
  The loop of the walk to the requested pair. Its index is not changed in its body, and the
  end of the list only sets the error; the fuel is arbitrary, see \<open>walk_never_returns\<close>.
\<close>

fun walk_to_pair :: "nat \<Rightarrow> pair_heap \<Rightarrow> u16 \<Rightarrow> u16 \<Rightarrow> nat \<Rightarrow> bool \<Rightarrow> (nat \<times> bool) c_result" where
  "walk_to_pair 0 h i count p no_such = NoReturn"
| "walk_to_pair (Suc fuel) h i count p no_such =
    (if i < count then
       (case h p of None \<Rightarrow> UB
        | Some c \<Rightarrow> (case lp_next c of
            None \<Rightarrow> walk_to_pair fuel h i count p True
          | Some q \<Rightarrow> walk_to_pair fuel h i count q no_such))
     else Returns (p, no_such))"

definition acmp_process_get_tx_connection_cmd ::
  "jdks \<Rightarrow> avdecc_ctx \<Rightarrow> acmp_cmd_resp \<Rightarrow> (int \<times> avdecc_ctx) c_result" where
  "acmp_process_get_tx_connection_cmd J ctx c =
    bindC
      (if \<not> acmp_valid_talker_unique J ctx (talker_unique_id c)
       then Returns (c, ACMP_TALKER_UNKNOWN_ID J)
       else (case find_talker ctx (talker_unique_id c) of
           None \<Rightarrow> Returns (c, ACMP_TALKER_MISBEHAVING J)
         | Some pl \<Rightarrow>
            let s = talker_at (confs ctx) pl in
            (case ts_connected_listeners s of
               None \<Rightarrow> Returns (c, ACMP_NO_SUCH_CONNECTION J)
             | Some p \<Rightarrow>
                bindC (walk_to_pair (walk_fuel (env ctx)) (heap (env ctx)) 0 (connection_count c) p False)
                  (\<lambda>(p, no_such).
                if no_such then Returns (c, ACMP_NO_SUCH_CONNECTION J) else
                case heap (env ctx) p of None \<Rightarrow> UB
                | Some cell \<Rightarrow>
                    Returns (c\<lparr>listener_entity_id := lp_entity_id cell,
                      listener_unique_id := lp_unique_id cell,
                      connection_count := ts_connection_count s, stream_id := ts_stream_id s,
                      stream_dest_mac := ts_stream_dest_mac s,
                      stream_vlan_id := ts_stream_vlan_id s\<rparr>, ACMP_SUCCESS J)))))
      (\<lambda>(response, err). acmp_tx_response J (GET_TX_CONNECTION_RESPONSE J) response err ctx)"

definition acmp_process_talker_state_machine ::
  "jdks \<Rightarrow> avdecc_ctx \<Rightarrow> acmp_cmd_resp \<Rightarrow> (int \<times> avdecc_ctx) c_result" where
  "acmp_process_talker_state_machine J ctx c =
    (let t = message_type c in
     if t = CONNECT_TX_COMMAND J then acmp_process_connect_tx_cmd J ctx c
     else if t = DISCONNECT_TX_COMMAND J then acmp_process_disconnect_tx_cmd J ctx c
     else if t = GET_TX_STATE_COMMAND J then acmp_process_get_tx_state_cmd J ctx c
     else if t = GET_TX_CONNECTION_COMMAND J then acmp_process_get_tx_connection_cmd J ctx c
     else Returns (- 1, ctx))"

section \<open>Public functions\<close>

text \<open>
  The two counters live across the configurations: a configuration gets as many entries as it
  has streams plus those of the configuration before it. A failed allocation of a table that
  is not empty is a write through a null pointer.
\<close>

definition alloc_table :: "environment \<Rightarrow> nat \<Rightarrow> environment c_result" where
  "alloc_table ev n =
    (if n = 0 \<or> alloc_ok ev (allocs ev) then Returns (ev\<lparr>allocs := Suc (allocs ev)\<rparr>) else UB)"

fun fill_listener_ids ::
  "jdks \<Rightarrow> descriptor_data list \<Rightarrow> nat \<Rightarrow> acmp_listener_stream_info list \<Rightarrow> nat \<times> acmp_listener_stream_info list" where
  "fill_listener_ids J [] n infos = (n, infos)"
| "fill_listener_ids J (d # ds) n infos =
    (if descriptor_type d = DESCRIPTOR_STREAM_INPUT J
     then fill_listener_ids J ds (Suc n)
            (infos[n := (infos ! n)\<lparr>ls_listener_unique_id := descriptor_index d\<rparr>])
     else fill_listener_ids J ds n infos)"

fun fill_talker_ids ::
  "jdks \<Rightarrow> descriptor_data list \<Rightarrow> nat \<Rightarrow> acmp_talker_stream_info list \<Rightarrow> nat \<times> acmp_talker_stream_info list" where
  "fill_talker_ids J [] n infos = (n, infos)"
| "fill_talker_ids J (d # ds) n infos =
    (if descriptor_type d = DESCRIPTOR_STREAM_OUTPUT J
     then fill_talker_ids J ds (Suc n)
            (infos[n := (infos ! n)\<lparr>ts_talker_unique_id := descriptor_index d\<rparr>])
     else fill_talker_ids J ds n infos)"

definition count_type :: "u16 \<Rightarrow> descriptor_data list \<Rightarrow> nat" where
  "count_type t ds = length (filter (\<lambda>d. descriptor_type d = t) ds)"

fun init_configurations ::
  "jdks \<Rightarrow> nat \<Rightarrow> nat \<Rightarrow> configuration_list list \<Rightarrow> environment \<Rightarrow>
    (configuration_list list \<times> environment) c_result" where
  "init_configurations J input_count output_count [] ev = Returns ([], ev)"
| "init_configurations J input_count output_count (c # cs) ev =
    (let ni = input_count + count_type (DESCRIPTOR_STREAM_INPUT J) (descriptors c);
         no = output_count + count_type (DESCRIPTOR_STREAM_OUTPUT J) (descriptors c) in
     bindC (alloc_table ev ni) (\<lambda>ev.
     let (ki, linfos) = fill_listener_ids J (descriptors c) 0 (replicate ni listener_stream_zero) in
     bindC (alloc_table ev no) (\<lambda>ev.
     let (ko, tinfos) = fill_talker_ids J (descriptors c) 0 (replicate no talker_stream_zero);
         c = c\<lparr>listener_infos := linfos, listener_infos_count := of_nat ni,
               talker_infos := tinfos, talker_infos_count := of_nat no, tables_allocated := True\<rparr> in
     bindC (init_configurations J ki ko cs ev) (\<lambda>(cs, ev). Returns (c # cs, ev)))))"

definition acmp_ctx_init :: "jdks \<Rightarrow> avdecc_ctx option \<Rightarrow> (int \<times> avdecc_ctx option) c_result" where
  "acmp_ctx_init J co =
    (case co of None \<Rightarrow> Returns (- 1, None)
     | Some ctx \<Rightarrow>
        bindC (init_configurations J 0 0 (confs ctx) (env ctx))
          (\<lambda>(cl, ev). Returns (0, Some ((set_confs cl ctx)\<lparr>env := ev\<rparr>))))"

definition update_talker ::
  "(acmp_talker_stream_info \<Rightarrow> acmp_talker_stream_info) \<Rightarrow> configuration_list list \<Rightarrow> u16 \<Rightarrow> u16 \<Rightarrow>
    int \<times> configuration_list list" where
  "update_talker f cl cur uid =
    (if cl = [] then (- 1, cl) else
     case acmp_find_talker_stream_info cl cur uid of
       None \<Rightarrow> (- 1, cl)
     | Some pl \<Rightarrow> (0, set_talker_at pl (f (talker_at cl pl)) cl))"

definition acmp_set_streamid ::
  "jdks \<Rightarrow> configuration_list list \<Rightarrow> u16 \<Rightarrow> u16 \<Rightarrow> u64 \<Rightarrow> int \<times> configuration_list list" where
  "acmp_set_streamid J cl cur uid v =
    update_talker (\<lambda>s. s\<lparr>ts_stream_id := eui64_init_from_uint64 J v\<rparr>) cl cur uid"

definition acmp_set_stream_dest_mac ::
  "jdks \<Rightarrow> configuration_list list \<Rightarrow> u16 \<Rightarrow> u16 \<Rightarrow> u64 \<Rightarrow> int \<times> configuration_list list" where
  "acmp_set_stream_dest_mac J cl cur uid v =
    update_talker (\<lambda>s. s\<lparr>ts_stream_dest_mac := eui48_init_from_uint64 J v\<rparr>) cl cur uid"

definition acmp_set_stream_vlan_id ::
  "configuration_list list \<Rightarrow> u16 \<Rightarrow> u16 \<Rightarrow> u16 \<Rightarrow> int \<times> configuration_list list" where
  "acmp_set_stream_vlan_id cl cur uid v = update_talker (\<lambda>s. s\<lparr>ts_stream_vlan_id := v\<rparr>) cl cur uid"

definition acmp_get_connection_count :: "configuration_list list \<Rightarrow> u16 \<Rightarrow> u16 \<Rightarrow> int" where
  "acmp_get_connection_count cl cur uid =
    (if cl = [] then - 1 else
     case acmp_find_talker_stream_info cl cur uid of
       None \<Rightarrow> - 1 | Some pl \<Rightarrow> uint (ts_connection_count (talker_at cl pl)))"

definition acmp_get_connected_from_listener_stream_info ::
  "configuration_list list \<Rightarrow> u16 \<Rightarrow> u16 \<Rightarrow> int" where
  "acmp_get_connected_from_listener_stream_info cl cur uid =
    (if cl = [] then - 1 else
     case acmp_find_listener_stream_info cl cur uid of
       None \<Rightarrow> - 1 | Some pl \<Rightarrow> sint (ls_connected (listener_at cl pl)))"

definition acmp_get_stream_id_from_listener_stream_info ::
  "jdks \<Rightarrow> configuration_list list \<Rightarrow> u16 \<Rightarrow> u16 \<Rightarrow> u8 list option \<Rightarrow> int \<times> u8 list option" where
  "acmp_get_stream_id_from_listener_stream_info J cl cur uid out =
    (if cl = [] then (- 1, out) else if out = None then (- 1, out) else
     case acmp_find_listener_stream_info cl cur uid of
       None \<Rightarrow> (- 1, out)
     | Some pl \<Rightarrow> (0, Some (eui64_set J (ls_stream_id (listener_at cl pl)))))"

text \<open>Only the pairs of the first talker stream of each configuration are released.\<close>

fun terminate_loop :: "configuration_list list \<Rightarrow> environment \<Rightarrow> environment c_result" where
  "terminate_loop [] ev = Returns ev"
| "terminate_loop (c # cs) ev =
    (if \<not> tables_allocated c then terminate_loop cs ev else
     case talker_infos c of
       [] \<Rightarrow> UB
     | s # _ \<Rightarrow> bindC (acmp_reset_listener_pair (ts_connected_listeners s) ev)
         (\<lambda>(_, ev). terminate_loop cs ev))"

definition acmp_ctx_terminate :: "configuration_list list \<Rightarrow> environment \<Rightarrow> (int \<times> environment) c_result" where
  "acmp_ctx_terminate cl ev =
    (if cl = [] then Returns (- 1, ev) else bindC (terminate_loop cl ev) (\<lambda>ev. Returns (0, ev)))"

definition cmd_of_pdu :: "acmpdu \<Rightarrow> acmp_cmd_resp" where
  "cmd_of_pdu p =
    \<lparr> message_type = acm_message_type p, status = acm_status p, stream_id = acm_stream_id p,
      controller_entity_id = acm_controller_entity_id p, talker_entity_id = acm_talker_entity_id p,
      listener_entity_id = acm_listener_entity_id p, talker_unique_id = acm_talker_unique_id p,
      listener_unique_id = acm_listener_unique_id p, stream_dest_mac = acm_stream_dest_mac p,
      connection_count = acm_connection_count p, sequence_id = acm_sequence_id p,
      flags = acm_flags p, stream_vlan_id = acm_stream_vlan_id p \<rparr>"

text \<open>
  A talker command on an entity without the talker role falls through to the listener case,
  whose state machine does nothing with it.
\<close>

definition acmp_dispatch :: "jdks \<Rightarrow> avdecc_ctx \<Rightarrow> acmp_cmd_resp \<Rightarrow> avdecc_ctx c_result" where
  "acmp_dispatch J ctx c =
    (let t = message_type c;
         talker_type = t \<in> set [CONNECT_TX_COMMAND J, DISCONNECT_TX_COMMAND J,
           GET_TX_STATE_COMMAND J, GET_TX_CONNECTION_COMMAND J];
         listener_type = t \<in> set [CONNECT_RX_COMMAND J, CONNECT_TX_RESPONSE J,
           GET_RX_STATE_COMMAND J, DISCONNECT_RX_COMMAND J, DISCONNECT_TX_RESPONSE J]
     in if talker_type \<and> role ctx AND ROLE_TALKER \<noteq> 0 then
          (if eui64_compare J (talker_entity_id c) (entity_id ctx) = 0
           then bindC (acmp_process_talker_state_machine J ctx c) (\<lambda>(_, ctx). Returns ctx)
           else Returns ctx)
        else if talker_type \<or> listener_type then
          (if role ctx AND ROLE_LISTENER \<noteq> 0 then
             (if eui64_compare J (listener_entity_id c) (entity_id ctx) = 0
              then bindC (acmp_process_listener_state_machine J ctx c) (\<lambda>(_, ctx). Returns ctx)
              else Returns ctx)
           else Returns ctx)
        else Returns ctx)"

definition acmp_receive_process ::
  "jdks \<Rightarrow> avdecc_ctx option \<Rightarrow> frame option \<Rightarrow> (int \<times> avdecc_ctx option) c_result" where
  "acmp_receive_process J co fo =
    (case co of None \<Rightarrow> Returns (- 1, co) | Some ctx \<Rightarrow>
     case fo of None \<Rightarrow> Returns (- 1, co) | Some f \<Rightarrow>
     case acmpdu_read J (frame_data f) of
       None \<Rightarrow> Returns (0, co)
     | Some p \<Rightarrow> bindC (acmp_dispatch J ctx (cmd_of_pdu p)) (\<lambda>ctx. Returns (0, Some ctx)))"

fun state_loop :: "jdks \<Rightarrow> u64 \<Rightarrow> nat list \<Rightarrow> avdecc_ctx \<Rightarrow> avdecc_ctx c_result" where
  "state_loop J now [] ctx = Returns ctx"
| "state_loop J now (i # is) ctx =
    (let f = inflight_at ctx i in
     if if_timeout f = 0 then state_loop J now is ctx
     else if if_timeout f \<le> now then
       bindC (if message_type (if_command f) = CONNECT_TX_COMMAND J
              then acmp_process_connect_tx_timeout J ctx i
              else if message_type (if_command f) = DISCONNECT_TX_COMMAND J
              then acmp_process_disconnect_tx_timeout J ctx i
              else Returns (0, ctx))
         (\<lambda>(_, ctx). state_loop J now is ctx)
     else state_loop J now is ctx)"

definition acmp_state_process :: "jdks \<Rightarrow> avdecc_ctx option \<Rightarrow> (int \<times> avdecc_ctx option) c_result" where
  "acmp_state_process J co =
    (case co of None \<Rightarrow> Returns (- 1, co)
     | Some ctx \<Rightarrow>
        let (now, ctx) = read_clock ctx in
        bindC (state_loop J now [0..<MAX_INFLIGHT_CMD_NUM] ctx) (\<lambda>ctx. Returns (0, Some ctx)))"

end
