(* ===== verification/Acmp_Props.thy ===== *)
theory Acmp_Props
  imports Acmp
begin

unbundle bit_operations_syntax

text \<open>
  Properties of the connection management protocol: the contract of the stream tables, what
  the handlers send and change, the life of an inflight command, the lists of listener pairs,
  and the invariant of the inflight table over every sequence of received frames and ticks.
\<close>

section \<open>The contract of a stream table\<close>

locale keyed_table =
  fixes find :: "'s \<Rightarrow> 'k \<Rightarrow> 'p option"
    and at :: "'s \<Rightarrow> 'p \<Rightarrow> 'e"
    and put :: "'p \<Rightarrow> 'e \<Rightarrow> 's \<Rightarrow> 's"
    and key :: "'e \<Rightarrow> 'k"
  assumes find_key: "find s k = Some p \<Longrightarrow> key (at s p) = k"
    and at_put: "find s k = Some p \<Longrightarrow> at (put p e s) p = e"
    and at_put_other: "find s k = Some p \<Longrightarrow> p' \<noteq> p \<Longrightarrow> at (put p e s) p' = at s p'"
    and find_put: "find s k = Some p \<Longrightarrow> key e = k \<Longrightarrow> find (put p e s) k' = find s k'"
    and put_put: "find s k = Some p \<Longrightarrow> put p e' (put p e s) = put p e' s"
begin

lemma find_same: "find s k = Some p \<Longrightarrow> key e = k \<Longrightarrow> find (put p e s) k = Some p"
  by (simp add: find_put)

lemma places_differ: "find s k = Some p \<Longrightarrow> find s k' = Some p' \<Longrightarrow> k \<noteq> k' \<Longrightarrow> p \<noteq> p'"
  using find_key by metis

lemma other_entry_unchanged:
  "find s k = Some p \<Longrightarrow> key e = k \<Longrightarrow> k' \<noteq> k \<Longrightarrow>
    map_option (at (put p e s)) (find (put p e s) k') = map_option (at s) (find s k')"
  using find_put places_differ at_put_other by (cases "find s k'") auto

lemma entry_after_put:
  "find s k = Some p \<Longrightarrow> key e = k \<Longrightarrow> map_option (at (put p e s)) (find (put p e s) k) = Some e"
  by (simp add: find_put at_put)

end

lemma find_index_update:
  "i < length xs \<Longrightarrow> P y = P (xs ! i) \<Longrightarrow> find_index P (xs[i := y]) = find_index P xs"
  by (induction xs arbitrary: i) (auto split: nat.splits)

lemma find_index_take_update:
  "i < n \<Longrightarrow> i < length xs \<Longrightarrow> P y = P (xs ! i) \<Longrightarrow>
    find_index P (take n (xs[i := y])) = find_index P (take n xs)"
  using find_index_update [of i "take n xs" P y] by (simp add: take_update_swap)

lemma find_index_take_SomeD:
  "find_index P (take n xs) = Some i \<Longrightarrow> i < n \<and> i < length xs \<and> P (xs ! i)"
  using find_index_SomeD [of P "take n xs" i] by auto

lemma find_configuration_set:
  "conf_index c = conf_index (cl ! k) \<Longrightarrow> k < length cl \<Longrightarrow>
    find_configuration (cl[k := c]) cur = find_configuration cl cur"
  by (simp add: find_configuration_def find_index_update)

lemma find_configuration_SomeD:
  "find_configuration cl cur = Some k \<Longrightarrow> k < length cl \<and> conf_index (cl ! k) = cur"
  using find_index_SomeD [of "\<lambda>c. conf_index c = cur" cl k] by (simp add: find_configuration_def)

lemma find_listener_placeD:
  assumes "acmp_find_listener_stream_info cl cur uid = Some pl"
  shows "find_configuration cl cur = Some (fst pl) \<and> fst pl < length cl \<and>
    snd pl < unat (listener_infos_count (cl ! fst pl)) \<and> snd pl < length (listener_infos (cl ! fst pl)) \<and>
    ls_listener_unique_id (listener_at cl pl) = uid"
  using assms find_configuration_SomeD
  by (auto simp: acmp_find_listener_stream_info_def listener_at_def split: option.splits
      dest: find_index_take_SomeD)

lemma find_talker_placeD:
  assumes "acmp_find_talker_stream_info cl cur uid = Some pl"
  shows "find_configuration cl cur = Some (fst pl) \<and> fst pl < length cl \<and>
    snd pl < unat (talker_infos_count (cl ! fst pl)) \<and> snd pl < length (talker_infos (cl ! fst pl)) \<and>
    ts_talker_unique_id (talker_at cl pl) = uid"
  using assms find_configuration_SomeD
  by (auto simp: acmp_find_talker_stream_info_def talker_at_def split: option.splits
      dest: find_index_take_SomeD)

lemma configuration_list_infos_update [simp]:
  "(c\<lparr>listener_infos := l\<rparr>)\<lparr>listener_infos := l'\<rparr> = c\<lparr>listener_infos := l'\<rparr>"
  "(c\<lparr>talker_infos := t\<rparr>)\<lparr>talker_infos := t'\<rparr> = c\<lparr>talker_infos := t'\<rparr>"
  by simp_all

interpretation listener_table: keyed_table "\<lambda>cl. acmp_find_listener_stream_info cl cur"
    listener_at set_listener_at ls_listener_unique_id for cur
proof
  fix cl :: "configuration_list list" and uid uid' :: u16 and pl pl' :: place
    and s s' :: acmp_listener_stream_info
  assume f: "acmp_find_listener_stream_info cl cur uid = Some pl"
  note d = find_listener_placeD [OF f]
  show "ls_listener_unique_id (listener_at cl pl) = uid" using d by simp
  show "listener_at (set_listener_at pl s cl) pl = s"
    using d by (simp add: listener_at_def set_listener_at_def)
  show "set_listener_at pl s' (set_listener_at pl s cl) = set_listener_at pl s' cl"
    using d by (simp add: set_listener_at_def)
  show "listener_at (set_listener_at pl s cl) pl' = listener_at cl pl'" if "pl' \<noteq> pl"
    using d that by (cases pl; cases pl'; cases "fst pl' = fst pl")
      (auto simp: listener_at_def set_listener_at_def)
  assume "ls_listener_unique_id s = uid"
  then show "acmp_find_listener_stream_info (set_listener_at pl s cl) cur uid' =
      acmp_find_listener_stream_info cl cur uid'"
    using d by (auto simp: acmp_find_listener_stream_info_def set_listener_at_def
        find_configuration_set listener_at_def find_index_take_update split: option.splits)
qed

interpretation talker_table: keyed_table "\<lambda>cl. acmp_find_talker_stream_info cl cur"
    talker_at set_talker_at ts_talker_unique_id for cur
proof
  fix cl :: "configuration_list list" and uid uid' :: u16 and pl pl' :: place
    and s s' :: acmp_talker_stream_info
  assume f: "acmp_find_talker_stream_info cl cur uid = Some pl"
  note d = find_talker_placeD [OF f]
  show "ts_talker_unique_id (talker_at cl pl) = uid" using d by simp
  show "talker_at (set_talker_at pl s cl) pl = s"
    using d by (simp add: talker_at_def set_talker_at_def)
  show "set_talker_at pl s' (set_talker_at pl s cl) = set_talker_at pl s' cl"
    using d by (simp add: set_talker_at_def)
  show "talker_at (set_talker_at pl s cl) pl' = talker_at cl pl'" if "pl' \<noteq> pl"
    using d that by (cases pl; cases pl'; cases "fst pl' = fst pl")
      (auto simp: talker_at_def set_talker_at_def)
  assume "ts_talker_unique_id s = uid"
  then show "acmp_find_talker_stream_info (set_talker_at pl s cl) cur uid' =
      acmp_find_talker_stream_info cl cur uid'"
    using d by (auto simp: acmp_find_talker_stream_info_def set_talker_at_def
        find_configuration_set talker_at_def find_index_take_update split: option.splits)
qed

section \<open>What is sent\<close>

definition acmp_frame :: "jdks \<Rightarrow> avdecc_ctx \<Rightarrow> u8 \<Rightarrow> u8 \<Rightarrow> acmp_cmd_resp \<Rightarrow> u8 list" where
  "acmp_frame J ctx mtype st c =
    ethernet_frame (net_info ctx) (mac_bytes (multicast_adp_acmp J))
      (snd (acmpdu_write J (acmp_pdu J mtype st c)))"

definition frame_sent :: "u8 list \<Rightarrow> avdecc_ctx \<Rightarrow> avdecc_ctx" where
  "frame_sent f ctx = ctx\<lparr>env := (env ctx)\<lparr>sent := sent (env ctx) @ [f]\<rparr>\<rparr>"

lemma frame_sent_simps [simp]:
  "dev_e (frame_sent f ctx) = dev_e ctx" "net_info (frame_sent f ctx) = net_info ctx"
  "role (frame_sent f ctx) = role ctx" "entity_id (frame_sent f ctx) = entity_id ctx"
  "sent (env (frame_sent f ctx)) = sent (env ctx) @ [f]"
  "heap (env (frame_sent f ctx)) = heap (env ctx)" "allocs (env (frame_sent f ctx)) = allocs (env ctx)"
  "alloc_ok (env (frame_sent f ctx)) = alloc_ok (env ctx)"
  by (simp_all add: frame_sent_def)

lemma set_confs_simps [simp]:
  "confs (set_confs cl ctx) = cl" "cur_conf (set_confs cl ctx) = cur_conf ctx"
  "inflight_commands (dev_e (set_confs cl ctx)) = inflight_commands (dev_e ctx)"
  "net_info (set_confs cl ctx) = net_info ctx" "env (set_confs cl ctx) = env ctx"
  "role (set_confs cl ctx) = role ctx" "entity_id (set_confs cl ctx) = entity_id ctx"
  "set_confs cl' (set_confs cl ctx) = set_confs cl' ctx"
  by (simp_all add: set_confs_def)

lemma set_inflight_at_simps [simp]:
  "confs (set_inflight_at i f ctx) = confs ctx" "cur_conf (set_inflight_at i f ctx) = cur_conf ctx"
  "inflight_commands (dev_e (set_inflight_at i f ctx)) = (inflight_commands (dev_e ctx))[i := f]"
  "net_info (set_inflight_at i f ctx) = net_info ctx" "env (set_inflight_at i f ctx) = env ctx"
  "role (set_inflight_at i f ctx) = role ctx" "entity_id (set_inflight_at i f ctx) = entity_id ctx"
  by (simp_all add: set_inflight_at_def)

lemma read_clock_simps [simp]:
  "dev_e (snd (read_clock ctx)) = dev_e ctx" "net_info (snd (read_clock ctx)) = net_info ctx"
  "role (snd (read_clock ctx)) = role ctx" "entity_id (snd (read_clock ctx)) = entity_id ctx"
  "sent (env (snd (read_clock ctx))) = sent (env ctx)" "heap (env (snd (read_clock ctx))) = heap (env ctx)"
  "sendto_rc (env (snd (read_clock ctx))) = sendto_rc (env ctx)"
  "allocs (env (snd (read_clock ctx))) = allocs (env ctx)"
  "alloc_ok (env (snd (read_clock ctx))) = alloc_ok (env ctx)"
  by (simp_all add: read_clock_def split: prod.splits)

lemma ctx_send_ok:
  assumes "length payload \<le> 1500"
  shows "ctx_send J dest payload ctx =
    Returns (if 0 \<le> sendto_rc (env ctx) (length (sent (env ctx)))
             then sendto_rc (env ctx) (length (sent (env ctx))) - 14 else - 1,
      frame_sent (ethernet_frame (net_info ctx) (mac_bytes dest) payload) ctx)"
  using assms
  by (simp add: ctx_send_def send_data_def Let_def ETH_FRAME_LEN_def ETHERNET_OVERHEAD_def frame_sent_def)

lemma jdks_write_ok:
  assumes "jdks_ok J"
  shows "0 < fst (acmpdu_write J p)" "length (snd (acmpdu_write J p)) \<le> 1500"
    "0 < fst (adpdu_write J q)" "length (snd (adpdu_write J q)) \<le> 1500"
  using assms by (simp_all add: jdks_ok_def)

lemma tx_response_ok:
  assumes "jdks_ok J"
  shows "acmp_tx_response J mtype c st ctx = Returns (0, frame_sent (acmp_frame J ctx mtype st c) ctx)"
  using jdks_write_ok(1,2) [OF assms, where p = "acmp_pdu J mtype st c"]
  by (simp add: acmp_tx_response_def case_prod_beta ctx_send_ok acmp_frame_def)

text \<open>
  The entry a command uses, the entry armed with its timeout, and the frames sent: the command,
  and the answer that it could not be sent when the socket refuses it.
\<close>

definition arm :: "jdks \<Rightarrow> u64 \<Rightarrow> acmp_inflight_command \<Rightarrow> acmp_inflight_command" where
  "arm J now f = f\<lparr>if_timeout := now + scast (timeout_ms J (message_type (if_command f)) * 1000)\<rparr>"

definition command_sent :: "jdks \<Rightarrow> u8 \<Rightarrow> acmp_cmd_resp \<Rightarrow> avdecc_ctx \<Rightarrow> int \<times> avdecc_ctx" where
  "command_sent J mtype c ctx =
    (let rc = sendto_rc (env ctx) (length (sent (env ctx)));
         ctx' = frame_sent (acmp_frame J ctx mtype (ACMP_SUCCESS J) c) ctx
     in if 14 < rc then (0, ctx')
        else (- 1, frame_sent (acmp_frame J ctx mtype (ACMP_COULD_NOT_SEND_MESSAGE J) c) ctx'))"

lemma acmp_frame_cong: "net_info ctx = net_info ctx' \<Longrightarrow> acmp_frame J ctx m st c = acmp_frame J ctx' m st c"
  by (simp add: acmp_frame_def)

lemma tx_command_entry_ok:
  assumes "jdks_ok J"
    "(case inflight of Some i \<Rightarrow> Some (i, inflight_at ctx i)
      | None \<Rightarrow> map_option (\<lambda>i. (i, inflight_of J mtype c)) (free_inflight ctx)) = Some (i, f)"
  shows "acmp_tx_command J mtype c inflight ctx =
    Returns (command_sent J mtype c (set_inflight_at i (arm J (fst (read_clock ctx)) f) (snd (read_clock ctx))))"
proof -
  have fr: "free_inflight (snd (read_clock ctx)) = free_inflight ctx"
    "inflight_at (snd (read_clock ctx)) k = inflight_at ctx k" for k
    by (simp_all add: free_inflight_def inflight_at_def)
  have entry: "(case inflight of Some i \<Rightarrow> Some (i, inflight_at (snd (read_clock ctx)) i)
      | None \<Rightarrow> map_option (\<lambda>i. (i, inflight_of J mtype c)) (free_inflight (snd (read_clock ctx)))) = Some (i, f)"
    using assms(2) by (cases inflight) (simp_all add: fr)
  show ?thesis
    using jdks_write_ok(1,2) [OF assms(1), where p = "acmp_pdu J mtype (ACMP_SUCCESS J) c"]
    by (simp add: acmp_tx_command_def case_prod_beta entry ctx_send_ok tx_response_ok [OF assms(1)]
        command_sent_def arm_def Let_def acmp_frame_def set_inflight_at_def frame_sent_def)
qed

lemma tx_command_full_ok:
  assumes "jdks_ok J" "free_inflight ctx = None"
  shows "acmp_tx_command J mtype c None ctx =
    Returns (- 1, frame_sent (acmp_frame J ctx mtype (ACMP_LISTENER_MISBEHAVING J) c) (snd (read_clock ctx)))"
proof -
  have "free_inflight (snd (read_clock ctx)) = None" using assms(2) by (simp add: free_inflight_def)
  then show ?thesis
    by (simp add: acmp_tx_command_def case_prod_beta tx_response_ok [OF assms(1)] Let_def acmp_frame_def)
qed

section \<open>Connecting and disconnecting a sink\<close>

definition answers :: "jdks \<Rightarrow> acmp_cmd_resp \<Rightarrow> acmp_inflight_command \<Rightarrow> bool" where
  "answers J c f \<longleftrightarrow> if_timeout f \<noteq> 0 \<and> message_type (if_command f) = CONNECT_TX_COMMAND J \<and>
    sequence_id (if_command f) = sequence_id c"

definition connected_stream :: "acmp_cmd_resp \<Rightarrow> acmp_listener_stream_info \<Rightarrow> acmp_listener_stream_info" where
  "connected_stream c s =
    s\<lparr>ls_talker_entity_id := talker_entity_id c, ls_stream_id := stream_id c,
      ls_stream_dest_mac := stream_dest_mac c, ls_controller_entity_id := controller_entity_id c,
      ls_talker_unique_id := talker_unique_id c, ls_connected := 1, ls_flags := flags c,
      ls_stream_vlan_id := stream_vlan_id c\<rparr>"

lemma key_connected_stream [simp]:
  "ls_listener_unique_id (connected_stream c s) = ls_listener_unique_id s"
  by (simp add: connected_stream_def)

definition connected_ctx :: "acmp_cmd_resp \<Rightarrow> place \<Rightarrow> nat \<Rightarrow> avdecc_ctx \<Rightarrow> avdecc_ctx" where
  "connected_ctx c pl i ctx =
    set_inflight_at i inflight_zero
      (set_confs (set_listener_at pl (connected_stream c (listener_at (confs ctx) pl)) (confs ctx)) ctx)"

lemma connect_response_result:
  assumes "jdks_ok J" "acmp_valid_listener_unique J ctx (listener_unique_id c)" "status c = ACMP_SUCCESS J"
    "find_listener ctx (listener_unique_id c) = Some pl" "ls_connected (listener_at (confs ctx) pl) = 0"
    "find_index (answers J c) (inflight_commands (dev_e ctx)) = Some i"
  shows "acmp_process_connect_tx_response J ctx c =
    Returns (0, frame_sent (acmp_frame J ctx (CONNECT_RX_RESPONSE J) (ACMP_SUCCESS J)
        (c\<lparr>sequence_id := if_original_sequence_id (inflight_at ctx i)\<rparr>)) (connected_ctx c pl i ctx))"
  using assms(2-6)
  by (simp add: acmp_process_connect_tx_response_def acmp_add_listener_stream_info_def
      answers_def [abs_def] tx_response_ok [OF assms(1)] acmp_frame_def acmp_pdu_def
      connected_ctx_def connected_stream_def Let_def)

lemma connected_ctx_find:
  assumes "find_listener ctx uid = Some pl"
  shows "find_listener (connected_ctx c pl i ctx) uid' = find_listener ctx uid'"
    "listener_at (confs (connected_ctx c pl i ctx)) pl = connected_stream c (listener_at (confs ctx) pl)"
    "uid' \<noteq> uid \<Longrightarrow> map_option (listener_at (confs (connected_ctx c pl i ctx))) (find_listener ctx uid') =
      map_option (listener_at (confs ctx)) (find_listener ctx uid')"
proof -
  have f: "acmp_find_listener_stream_info (confs ctx) (cur_conf ctx) uid = Some pl"
    using assms by (simp add: find_listener_def)
  have k: "ls_listener_unique_id (connected_stream c (listener_at (confs ctx) pl)) = uid"
    using listener_table.find_key [OF f] by simp
  show "find_listener (connected_ctx c pl i ctx) uid' = find_listener ctx uid'"
    using listener_table.find_put [OF f k] by (simp add: find_listener_def connected_ctx_def)
  show "listener_at (confs (connected_ctx c pl i ctx)) pl = connected_stream c (listener_at (confs ctx) pl)"
    using listener_table.at_put [OF f] by (simp add: connected_ctx_def)
  show "map_option (listener_at (confs (connected_ctx c pl i ctx))) (find_listener ctx uid') =
      map_option (listener_at (confs ctx)) (find_listener ctx uid')" if "uid' \<noteq> uid"
    using listener_table.other_entry_unchanged [OF f k that] listener_table.find_put [OF f k]
    by (simp add: find_listener_def connected_ctx_def)
qed

text \<open>
  C3: A successful connect response for a free listener sink that answers an in-flight command
  connects exactly that sink with the stream of the response, clears exactly that in-flight
  entry, and sends one successful response to the controller.
\<close>
theorem connect_response_connects_sink:
  assumes "jdks_ok J" "acmp_valid_listener_unique J ctx (listener_unique_id c)" "status c = ACMP_SUCCESS J"
    "find_listener ctx (listener_unique_id c) = Some pl" "ls_connected (listener_at (confs ctx) pl) = 0"
    "find_index (answers J c) (inflight_commands (dev_e ctx)) = Some i"
  shows "\<exists>ctx'. acmp_process_connect_tx_response J ctx c = Returns (0, ctx') \<and>
    find_listener ctx' (listener_unique_id c) = Some pl \<and>
    acmp_listener_is_connectedto J ctx' c \<and>
    ls_stream_id (listener_at (confs ctx') pl) = stream_id c \<and>
    (\<forall>uid'. uid' \<noteq> listener_unique_id c \<longrightarrow>
      map_option (listener_at (confs ctx')) (find_listener ctx' uid') =
      map_option (listener_at (confs ctx)) (find_listener ctx uid')) \<and>
    inflight_commands (dev_e ctx') = (inflight_commands (dev_e ctx))[i := inflight_zero] \<and>
    sent (env ctx') = sent (env ctx) @ [acmp_frame J ctx (CONNECT_RX_RESPONSE J) (ACMP_SUCCESS J)
      (c\<lparr>sequence_id := if_original_sequence_id (inflight_at ctx i)\<rparr>)]"
proof -
  let ?f = "acmp_frame J ctx (CONNECT_RX_RESPONSE J) (ACMP_SUCCESS J)
        (c\<lparr>sequence_id := if_original_sequence_id (inflight_at ctx i)\<rparr>)"
  let ?c1 = "connected_ctx c pl i ctx"
  note f = connected_ctx_find [OF assms(4), where c = c and i = i]
  have fl: "find_listener (frame_sent ?f ?c1) u = find_listener ctx u" for u
    using f(1) by (simp add: find_listener_def)
  have "acmp_listener_is_connectedto J (frame_sent ?f ?c1) c"
    using f(2) assms(1,4) by (simp add: acmp_listener_is_connectedto_def fl connected_stream_def eui64_compare_ok)
  moreover have "inflight_commands (dev_e ?c1) = (inflight_commands (dev_e ctx))[i := inflight_zero]"
    "sent (env ?c1) = sent (env ctx)"
    by (simp_all add: connected_ctx_def)
  ultimately show ?thesis
    using connect_response_result [OF assms] f(2,3) assms(4) fl
    by (intro exI [of _ "frame_sent ?f ?c1"]) (simp add: connected_stream_def)
qed

text \<open>
  A state query that follows the connect response is answered with the stream, the flags,
  the VLAN and the talker of the connection and with a connection count of one.
\<close>
theorem rx_state_reports_connection:
  assumes "jdks_ok J" "acmp_valid_listener_unique J ctx (listener_unique_id c)" "status c = ACMP_SUCCESS J"
    "find_listener ctx (listener_unique_id c) = Some pl" "ls_connected (listener_at (confs ctx) pl) = 0"
    "find_index (answers J c) (inflight_commands (dev_e ctx)) = Some i"
    "listener_unique_id q = listener_unique_id c"
  shows "\<exists>ctx' f. bindC (acmp_process_connect_tx_response J ctx c)
      (\<lambda>(_, ctx). acmp_process_get_rx_state_cmd J ctx q) = Returns (0, ctx') \<and>
    sent (env ctx') = sent (env ctx) @ [f, acmp_frame J ctx (GET_RX_STATE_RESPONSE J) (ACMP_SUCCESS J)
      (q\<lparr>connection_count := 1, flags := flags c, stream_vlan_id := stream_vlan_id c,
         stream_id := stream_id c, stream_dest_mac := stream_dest_mac c,
         talker_entity_id := talker_entity_id c\<rparr>)]"
proof -
  let ?f = "acmp_frame J ctx (CONNECT_RX_RESPONSE J) (ACMP_SUCCESS J)
        (c\<lparr>sequence_id := if_original_sequence_id (inflight_at ctx i)\<rparr>)"
  let ?c2 = "frame_sent ?f (connected_ctx c pl i ctx)"
  note f = connected_ctx_find [OF assms(4), where c = c and i = i]
  have fl: "find_listener ?c2 u = find_listener ctx u" for u
    using f(1) by (simp add: find_listener_def)
  have cf: "conf_index (confs ?c2 ! k) = conf_index (confs ctx ! k) \<and>
      descriptors (confs ?c2 ! k) = descriptors (confs ctx ! k) \<and>
      listener_infos_count (confs ?c2 ! k) = listener_infos_count (confs ctx ! k)" for k
    by (cases "k = fst pl"; cases "k < length (confs ctx)")
      (simp_all add: connected_ctx_def set_listener_at_def list_update_beyond)
  have fc: "find_configuration (confs (connected_ctx c pl i ctx)) (cur_conf (connected_ctx c pl i ctx)) =
      find_configuration (confs ctx) (cur_conf ctx)"
    using find_listener_placeD [OF assms(4) [unfolded find_listener_def]]
    by (simp add: connected_ctx_def set_listener_at_def find_configuration_set)
  have v: "acmp_valid_listener_unique J ?c2 (listener_unique_id q)"
    using assms(2,7) cf
    by (simp add: acmp_valid_listener_unique_def acmp_valid_stream_def fc Let_def split: option.splits)
  show ?thesis
    using connect_response_result [OF assms(1-6)] v f(2) fl assms(1,4,7)
    by (simp add: acmp_process_get_rx_state_cmd_def tx_response_ok Let_def acmp_frame_def
        connected_stream_def connected_ctx_def)
qed

text \<open>
  A disconnect answered by the talker the sink is connected to clears the whole entry, its
  identifier included.
\<close>

definition answers_any :: "acmp_cmd_resp \<Rightarrow> acmp_inflight_command \<Rightarrow> bool" where
  "answers_any c f \<longleftrightarrow> if_timeout f \<noteq> 0 \<and> sequence_id (if_command f) = sequence_id c"

definition sink_of :: "jdks \<Rightarrow> acmp_cmd_resp \<Rightarrow> acmp_listener_stream_info \<Rightarrow> bool" where
  "sink_of J c s \<longleftrightarrow> ls_listener_unique_id s = listener_unique_id c \<and> ls_connected s \<noteq> 0 \<and>
    eui64_compare J (ls_talker_entity_id s) (talker_entity_id c) = 0 \<and>
    ls_talker_unique_id s = talker_unique_id c"

definition disconnected_ctx :: "place \<Rightarrow> nat \<Rightarrow> avdecc_ctx \<Rightarrow> avdecc_ctx" where
  "disconnected_ctx pl i ctx =
    set_inflight_at i inflight_zero (set_confs (set_listener_at pl listener_stream_zero (confs ctx)) ctx)"

lemma disconnect_response_result:
  assumes "jdks_ok J" "acmp_valid_listener_unique J ctx (listener_unique_id c)"
    "find_configuration (confs ctx) (cur_conf ctx) = Some k"
    "find_index (sink_of J c) (take (unat (listener_infos_count (confs ctx ! k))) (listener_infos (confs ctx ! k))) = Some n"
    "find_index (answers_any c) (inflight_commands (dev_e ctx)) = Some i"
  shows "acmp_process_disconnect_tx_response J ctx c =
    Returns (0, frame_sent (acmp_frame J ctx (DISCONNECT_RX_RESPONSE J) (status c)
        (c\<lparr>sequence_id := if_original_sequence_id (inflight_at ctx i)\<rparr>)) (disconnected_ctx (k, n) i ctx))"
  using assms(2-5)
  by (simp add: acmp_process_disconnect_tx_response_def acmp_remove_listener_stream_info_def
      answers_any_def [abs_def] sink_of_def [abs_def] tx_response_ok [OF assms(1)] acmp_frame_def
      acmp_pdu_def disconnected_ctx_def Let_def)

lemma find_index_none_after_clear:
  assumes "distinct (map key xs)" "key (xs ! i) = u" "i < length xs" "key z \<noteq> u"
  shows "find_index (\<lambda>x. key x = u) (take n (xs[i := z])) = None"
proof -
  have "key (xs[i := z] ! j) \<noteq> u" if "j < length xs" for j
  proof (cases "j = i")
    case True
    then show ?thesis using assms by simp
  next
    case False
    then show ?thesis
      using assms that nth_eq_iff_index_eq [OF assms(1), of i j] by auto
  qed
  then have "\<forall>x\<in>set (xs[i := z]). key x \<noteq> u" by (auto simp: all_set_conv_all_nth)
  then show ?thesis by (auto simp: find_index_None_iff dest: in_set_takeD)
qed

text \<open>
  Removing a connection clears the whole entry of the sink including its unique identifier,
  so the sink can no longer be found and never connects again.
\<close>
theorem disconnected_sink_is_lost:
  assumes "jdks_ok J" "acmp_valid_listener_unique J ctx (listener_unique_id c)"
    "find_configuration (confs ctx) (cur_conf ctx) = Some k"
    "find_index (sink_of J c) (take (unat (listener_infos_count (confs ctx ! k))) (listener_infos (confs ctx ! k))) = Some n"
    "find_index (answers_any c) (inflight_commands (dev_e ctx)) = Some i"
    "distinct (map ls_listener_unique_id (listener_infos (confs ctx ! k)))" "listener_unique_id c \<noteq> 0"
  shows "\<exists>ctx'. acmp_process_disconnect_tx_response J ctx c = Returns (0, ctx') \<and>
    find_listener ctx' (listener_unique_id c) = None \<and>
    inflight_commands (dev_e ctx') = (inflight_commands (dev_e ctx))[i := inflight_zero]"
proof -
  let ?xs = "listener_infos (confs ctx ! k)" and ?c1 = "disconnected_ctx (k, n) i ctx"
  have kl: "k < length (confs ctx)" using find_configuration_SomeD [OF assms(3)] by simp
  have n: "n < length ?xs" "ls_listener_unique_id (?xs ! n) = listener_unique_id c"
    using find_index_take_SomeD [OF assms(4)] by (auto simp: sink_of_def)
  have "find_configuration (confs ?c1) (cur_conf ?c1) = Some k"
    using assms(3) kl by (simp add: disconnected_ctx_def set_listener_at_def find_configuration_set)
  moreover have "confs ?c1 ! k = (confs ctx ! k)\<lparr>listener_infos := ?xs[n := listener_stream_zero]\<rparr>"
    using kl by (simp add: disconnected_ctx_def set_listener_at_def)
  moreover have "find_index (\<lambda>s. ls_listener_unique_id s = listener_unique_id c)
      (take (unat (listener_infos_count (confs ctx ! k))) (?xs[n := listener_stream_zero])) = None"
    using assms(6,7) n by (intro find_index_none_after_clear) (auto simp: listener_stream_zero_def)
  ultimately have "find_listener ?c1 (listener_unique_id c) = None"
    by (simp add: find_listener_def acmp_find_listener_stream_info_def)
  then show ?thesis
    using disconnect_response_result [OF assms(1-5)]
    by (intro exI [of _ "frame_sent (acmp_frame J ctx (DISCONNECT_RX_RESPONSE J) (status c)
        (c\<lparr>sequence_id := if_original_sequence_id (inflight_at ctx i)\<rparr>)) ?c1"])
      (simp add: find_listener_def disconnected_ctx_def)
qed


text \<open>A command to the sink of the sample entity, and a table with that command in flight.\<close>

definition sample_command :: acmp_cmd_resp where
  "sample_command = cmd_zero\<lparr>talker_entity_id := 0xB2, listener_entity_id := 0xA1,
     listener_unique_id := 3, sequence_id := 7\<rparr>"

definition sample_inflight :: "bool \<Rightarrow> acmp_inflight_command list" where
  "sample_inflight retried = [inflight_zero, inflight_zero\<lparr>if_timeout := 9, if_retried := retried,
     if_command := sample_command, if_original_sequence_id := 4\<rparr>, inflight_zero, inflight_zero]"

definition sample_listener :: avdecc_ctx where
  "sample_listener = sample_entity [sample_configuration] (sample_inflight False) sample_environment"

lemmas sample_listener_defs = sample_listener_def sample_inflight_def sample_command_def sample_defs
  jdks_sample_def acmp_valid_listener_unique_def acmp_valid_stream_def find_configuration_def
  find_listener_def acmp_find_listener_stream_info_def listener_at_def answers_def answers_any_def
  sink_of_def acmp_listener_is_connected_def inflight_at_def

theorem connect_response_connects_sink_witness:
  "\<exists>ctx'. acmp_process_connect_tx_response jdks_sample sample_listener sample_command = Returns (0, ctx') \<and>
    acmp_listener_is_connectedto jdks_sample ctx' sample_command \<and>
    inflight_commands (dev_e ctx') = replicate 4 inflight_zero"
proof -
  have "acmp_valid_listener_unique jdks_sample sample_listener (listener_unique_id sample_command)"
    "status sample_command = ACMP_SUCCESS jdks_sample"
    "find_listener sample_listener (listener_unique_id sample_command) = Some (0, 0)"
    "ls_connected (listener_at (confs sample_listener) (0, 0)) = 0"
    "find_index (answers jdks_sample sample_command) (inflight_commands (dev_e sample_listener)) = Some 1"
    by (simp_all add: sample_listener_defs)
  from connect_response_connects_sink [OF jdks_sample_ok this]
  show ?thesis by (auto simp: sample_listener_def sample_inflight_def sample_entity_def numeral_eq_Suc)
qed

theorem rx_state_reports_connection_witness:
  "\<exists>ctx' f. bindC (acmp_process_connect_tx_response jdks_sample sample_listener sample_command)
      (\<lambda>(_, ctx). acmp_process_get_rx_state_cmd jdks_sample ctx sample_command) = Returns (0, ctx') \<and>
    sent (env ctx') = [f, acmp_frame jdks_sample sample_listener 11 0 (sample_command\<lparr>connection_count := 1\<rparr>)]"
proof -
  have "acmp_valid_listener_unique jdks_sample sample_listener (listener_unique_id sample_command)"
    "status sample_command = ACMP_SUCCESS jdks_sample"
    "find_listener sample_listener (listener_unique_id sample_command) = Some (0, 0)"
    "ls_connected (listener_at (confs sample_listener) (0, 0)) = 0"
    "find_index (answers jdks_sample sample_command) (inflight_commands (dev_e sample_listener)) = Some 1"
    by (simp_all add: sample_listener_defs)
  from rx_state_reports_connection [OF jdks_sample_ok this refl]
  show ?thesis
    by (simp add: sample_listener_def sample_entity_def sample_environment_def jdks_sample_def)
qed

definition sample_connected :: avdecc_ctx where
  "sample_connected = sample_entity
    [sample_configuration\<lparr>listener_infos := [connected_stream sample_command
       (listener_stream_zero\<lparr>ls_listener_unique_id := 3\<rparr>)]\<rparr>] (sample_inflight True) sample_environment"

theorem disconnected_sink_is_lost_witness:
  "\<exists>ctx'. acmp_process_disconnect_tx_response jdks_sample sample_connected sample_command = Returns (0, ctx') \<and>
    find_listener ctx' 3 = None"
proof -
  have "acmp_valid_listener_unique jdks_sample sample_connected (listener_unique_id sample_command)"
    "find_configuration (confs sample_connected) (cur_conf sample_connected) = Some 0"
    "find_index (sink_of jdks_sample sample_command) (take (unat (listener_infos_count (confs sample_connected ! 0)))
      (listener_infos (confs sample_connected ! 0))) = Some 0"
    "find_index (answers_any sample_command) (inflight_commands (dev_e sample_connected)) = Some 1"
    "distinct (map ls_listener_unique_id (listener_infos (confs sample_connected ! 0)))"
    "listener_unique_id sample_command \<noteq> 0"
    by (simp_all add: sample_connected_def connected_stream_def sample_listener_defs)
  from disconnected_sink_is_lost [OF jdks_sample_ok this]
  show ?thesis by (auto simp: sample_command_def)
qed

section \<open>The life of an inflight command\<close>

text \<open>
  C19: The first timeout of an in-flight connect command sends the command again, arms the timer
  again and marks exactly that entry as retried.
\<close>
theorem timeout_resends_once:
  assumes "jdks_ok J" "i < length (inflight_commands (dev_e ctx))" "\<not> if_retried (inflight_at ctx i)"
    "message_type (if_command (inflight_at ctx i)) = CONNECT_TX_COMMAND J"
    "14 < sendto_rc (env ctx) (length (sent (env ctx)))"
  shows "\<exists>ctx'. acmp_process_connect_tx_timeout J ctx i = Returns (0, ctx') \<and>
    inflight_at ctx' i = (arm J (fst (read_clock ctx)) (inflight_at ctx i))\<lparr>if_retried := True\<rparr> \<and>
    (\<forall>j. j \<noteq> i \<longrightarrow> inflight_at ctx' j = inflight_at ctx j) \<and>
    sent (env ctx') = sent (env ctx) @ [acmp_frame J ctx (CONNECT_TX_COMMAND J) (ACMP_SUCCESS J)
      (if_command (inflight_at ctx i))]"
proof -
  let ?f = "inflight_at ctx i"
  have "acmp_tx_command J (CONNECT_TX_COMMAND J) (if_command ?f) (Some i) ctx =
      Returns (command_sent J (CONNECT_TX_COMMAND J) (if_command ?f)
        (set_inflight_at i (arm J (fst (read_clock ctx)) ?f) (snd (read_clock ctx))))"
    by (rule tx_command_entry_ok [OF assms(1)]) simp
  then show ?thesis
    using assms
    by (auto simp: acmp_process_connect_tx_timeout_def process_tx_timeout_def Let_def command_sent_def
        inflight_at_def acmp_frame_def)
qed

text \<open>
  C20: The timeout of a retried connect command frees the in-flight entry and sends the
  controller one response with the talker timeout status and its own sequence number.
\<close>
theorem second_timeout_answers_controller:
  assumes "jdks_ok J" "i < length (inflight_commands (dev_e ctx))" "if_retried (inflight_at ctx i)"
  shows "\<exists>ctx'. acmp_process_connect_tx_timeout J ctx i = Returns (0, ctx') \<and>
    inflight_commands (dev_e ctx') = (inflight_commands (dev_e ctx))[i := inflight_zero] \<and>
    sent (env ctx') = sent (env ctx) @
      [acmp_frame J ctx (CONNECT_RX_RESPONSE J) (ACMP_LISTENER_TALKER_TIMEOUT J)
        ((if_command (inflight_at ctx i))\<lparr>sequence_id := if_original_sequence_id (inflight_at ctx i)\<rparr>)]"
  using assms
  by (simp add: acmp_process_connect_tx_timeout_def process_tx_timeout_def Let_def tx_response_ok)

text \<open>
  When all in-flight entries are used, a connect request is answered by a frame whose
  message type is the command to the talker, not a response to the controller.
\<close>
theorem full_table_answers_with_command:
  assumes "jdks_ok J" "acmp_valid_listener_unique J ctx (listener_unique_id c)"
    "\<not> acmp_listener_is_connected J ctx c" "\<forall>f\<in>set (inflight_commands (dev_e ctx)). if_timeout f \<noteq> 0"
  shows "\<exists>ctx'. acmp_process_connect_rx_cmd J ctx c = Returns (0, ctx') \<and>
    inflight_commands (dev_e ctx') = inflight_commands (dev_e ctx) \<and>
    sent (env ctx') = sent (env ctx) @
      [acmp_frame J ctx (CONNECT_TX_COMMAND J) (ACMP_LISTENER_MISBEHAVING J) c]"
proof -
  have "free_inflight ctx = None" using assms(4) by (auto simp: free_inflight_def find_index_None_iff)
  from tx_command_full_ok [OF assms(1) this, of "CONNECT_TX_COMMAND J" c]
  show ?thesis using assms(2,3) by (simp add: acmp_process_connect_rx_cmd_def)
qed

theorem timeout_resends_once_witness:
  "\<exists>ctx'. acmp_process_connect_tx_timeout jdks_sample sample_listener 1 = Returns (0, ctx') \<and>
    if_retried (inflight_at ctx' 1) \<and> length (sent (env ctx')) = 1"
proof -
  have "1 < length (inflight_commands (dev_e sample_listener))" "\<not> if_retried (inflight_at sample_listener 1)"
    "message_type (if_command (inflight_at sample_listener 1)) = CONNECT_TX_COMMAND jdks_sample"
    "14 < sendto_rc (env sample_listener) (length (sent (env sample_listener)))"
    by (simp_all add: sample_listener_defs)
  from timeout_resends_once [OF jdks_sample_ok this]
  show ?thesis by (auto simp: sample_listener_def sample_entity_def sample_environment_def)
qed

theorem second_timeout_answers_controller_witness:
  "\<exists>ctx'. acmp_process_connect_tx_timeout jdks_sample sample_connected 1 = Returns (0, ctx') \<and>
    inflight_commands (dev_e ctx') = replicate 4 inflight_zero \<and> length (sent (env ctx')) = 1"
proof -
  have "1 < length (inflight_commands (dev_e sample_connected))" "if_retried (inflight_at sample_connected 1)"
    by (simp_all add: sample_connected_def sample_listener_defs)
  from second_timeout_answers_controller [OF jdks_sample_ok this]
  show ?thesis
    by (auto simp: sample_connected_def sample_inflight_def sample_entity_def sample_environment_def numeral_eq_Suc)
qed

theorem full_table_answers_with_command_witness:
  "\<exists>ctx'. acmp_process_connect_rx_cmd jdks_sample
      (sample_entity [sample_configuration] (replicate 4 (sample_inflight False ! 1)) sample_environment)
      sample_command = Returns (0, ctx') \<and> length (sent (env ctx')) = 1"
proof -
  let ?ctx = "sample_entity [sample_configuration] (replicate 4 (sample_inflight False ! 1)) sample_environment"
  have "acmp_valid_listener_unique jdks_sample ?ctx (listener_unique_id sample_command)"
    "\<not> acmp_listener_is_connected jdks_sample ?ctx sample_command"
    "\<forall>f\<in>set (inflight_commands (dev_e ?ctx)). if_timeout f \<noteq> 0"
    by (simp_all add: sample_listener_defs)
  from full_table_answers_with_command [OF jdks_sample_ok this]
  show ?thesis by (auto simp: sample_entity_def sample_environment_def)
qed

end
