(* ===== verification/Acmp_Talker.thy ===== *)
theory Acmp_Talker
  imports Acmp_Props
begin

unbundle bit_operations_syntax

text \<open>
  The lists of listener pairs of the talker streams. \<open>chain h p ps\<close> says that the cells \<open>ps\<close>
  are the list that starts at \<open>p\<close>; \<open>pairs_at h ps\<close> is what they hold. The lemmas give the
  effect of the allocation, of the walk to the last cell and of the removal on a chain; the
  properties say what the talker handlers make of them.
\<close>

section \<open>Chains of cells\<close>

fun chain :: "pair_heap \<Rightarrow> nat option \<Rightarrow> nat list \<Rightarrow> bool" where
  "chain h p [] \<longleftrightarrow> p = None"
| "chain h p (q # qs) \<longleftrightarrow>
    p = Some q \<and> (case h q of None \<Rightarrow> False | Some c \<Rightarrow> chain h (lp_next c) qs)"

definition pairs_at :: "pair_heap \<Rightarrow> nat list \<Rightarrow> (eui64 \<times> u16) list" where
  "pairs_at h ps = map (\<lambda>p. case h p of None \<Rightarrow> (0, 0) | Some c \<Rightarrow> (lp_entity_id c, lp_unique_id c)) ps"

fun_cases chain_ConsE: "chain h p (q # qs)"

lemma chain_unique: "chain h p ps \<Longrightarrow> chain h p qs \<Longrightarrow> ps = qs"
proof (induction ps arbitrary: p qs)
  case Nil
  then show ?case by (cases qs) auto
next
  case (Cons a ps)
  then show ?case by (cases qs) (auto split: option.splits)
qed

lemma chain_suffix: "chain h p (ps @ q # qs) \<Longrightarrow> chain h (Some q) (q # qs)"
proof (induction ps arbitrary: p)
  case (Cons a ps)
  then show ?case using Cons.IH by (cases "h a") auto
qed auto

lemma chain_distinct: "chain h p ps \<Longrightarrow> distinct ps"
proof (induction ps arbitrary: p)
  case (Cons a ps)
  have "a \<notin> set ps"
  proof
    assume "a \<in> set ps"
    then obtain us vs where us: "ps = us @ a # vs" by (meson split_list)
    have "chain h (Some a) (a # vs)" using Cons.prems chain_suffix [of h p "a # us" a vs] us by simp
    moreover have "chain h (Some a) (a # ps)" using Cons.prems by auto
    ultimately have "a # vs = a # ps" by (rule chain_unique)
    then show False using us by simp
  qed
  then show ?case using Cons by (auto split: option.splits)
qed simp

lemma chain_update_other: "q \<notin> set ps \<Longrightarrow> chain (h(q := c)) p ps = chain h p ps"
  by (induction ps arbitrary: p) (auto split: option.splits)

lemma pairs_at_update_other: "q \<notin> set ps \<Longrightarrow> pairs_at (h(q := c)) ps = pairs_at h ps"
  by (auto simp: pairs_at_def)

lemma pairs_at_append [simp]: "pairs_at h (ps @ qs) = pairs_at h ps @ pairs_at h qs"
  by (simp add: pairs_at_def)

lemma length_pairs_at [simp]: "length (pairs_at h ps) = length ps"
  by (simp add: pairs_at_def)

lemma chain_cell: "chain h p ps \<Longrightarrow> q \<in> set ps \<Longrightarrow> \<exists>c. h q = Some c"
  by (induction ps arbitrary: p) (auto split: option.splits)

text \<open>Giving the last cell of a chain a successor, and joining a chain to a cell.\<close>

lemma chain_extend:
  assumes "chain h p (ps @ [q])" "h q = Some c" "n \<notin> set (ps @ [q])" "h n = Some d" "lp_next d = None"
  shows "chain (h(q \<mapsto> c\<lparr>lp_next := Some n\<rparr>)) p (ps @ [q, n])"
  using assms
proof (induction ps arbitrary: p)
  case (Cons a ps)
  have "a \<noteq> q" using chain_distinct [OF Cons.prems(1)] by auto
  then show ?case using Cons by (auto split: option.splits)
qed auto

lemma chain_unlink:
  assumes "chain h p (ps @ [b, q] @ qs)" "h b = Some cb" "h q = Some cq"
  shows "chain ((h(b \<mapsto> cb\<lparr>lp_next := lp_next cq\<rparr>))(q := None)) p (ps @ [b] @ qs)"
  using assms
proof (induction ps arbitrary: p)
  case Nil
  then have d: "distinct (b # q # qs)" using chain_distinct by fastforce
  have "chain h (lp_next cq) qs" using Nil by (auto split: option.splits)
  then have "chain ((h(b \<mapsto> cb\<lparr>lp_next := lp_next cq\<rparr>))(q := None)) (lp_next cq) qs"
    using d by (simp add: chain_update_other)
  moreover from Nil have "p = Some b" by simp
  ultimately show ?case using d by (simp del: fun_upd_apply) (simp add: Nil(2))
next
  case (Cons a ps)
  have "a \<noteq> q" "a \<noteq> b" using chain_distinct [OF Cons.prems(1)] by auto
  then show ?case using Cons by (auto split: option.splits)
qed

lemma pairs_at_relink [simp]:
  "h b = Some cb \<Longrightarrow> pairs_at (h(b \<mapsto> cb\<lparr>lp_next := x\<rparr>)) ps = pairs_at h ps"
  by (auto simp: pairs_at_def)

lemmas chain_simps = chain_update_other pairs_at_update_other pairs_at_relink

section \<open>The operations on chains\<close>

definition heap_bounded :: "environment \<Rightarrow> bool" where
  "heap_bounded ev \<longleftrightarrow> (\<forall>p c. heap ev p = Some c \<longrightarrow> p < allocs ev)"

lemma chain_below:
  assumes "heap_bounded ev" "chain (heap ev) p ps" "q \<in> set ps"
  shows "q < allocs ev"
  using chain_cell [OF assms(2,3)] assms(1) by (auto simp: heap_bounded_def)

lemma chain_length_bound:
  assumes "heap_bounded ev" "chain (heap ev) p ps"
  shows "length ps \<le> allocs ev"
proof -
  have "set ps \<subseteq> {..<allocs ev}" using chain_below [OF assms] by auto
  then have "card (set ps) \<le> allocs ev" by (metis card_lessThan card_mono finite_lessThan)
  then show ?thesis using distinct_card [OF chain_distinct [OF assms(2)]] by simp
qed

lemma last_pair_chain:
  "chain h (Some p) ps \<Longrightarrow> length ps \<le> fuel \<Longrightarrow> last_pair fuel h p = Returns (last ps)"
proof (induction fuel arbitrary: p ps)
  case 0
  then show ?case by (cases ps) auto
next
  case (Suc fuel)
  then obtain c qs where ps: "ps = p # qs" "h p = Some c" "chain h (lp_next c) qs"
    by (cases ps) (auto split: option.splits)
  show ?case
  proof (cases "lp_next c")
    case None
    then show ?thesis using ps by (cases qs) auto
  next
    case (Some r)
    then have "qs \<noteq> []" using ps(3) by (cases qs) auto
    then show ?thesis using Suc Some ps by auto
  qed
qed

lemma add_pair_chain:
  assumes "heap_bounded ev" "chain (heap ev) head ps" "alloc_ok ev (allocs ev)"
  shows "\<exists>ev' p. acmp_add_new_listener_pair head eid uid ev = Returns (Some p, ev') \<and>
    chain (heap ev') (Some p) (ps @ [allocs ev]) \<and>
    pairs_at (heap ev') (ps @ [allocs ev]) = pairs_at (heap ev) ps @ [(eid, uid)] \<and>
    heap_bounded ev' \<and> ev'\<lparr>heap := heap ev, allocs := allocs ev\<rparr> = ev"
proof -
  let ?n = "allocs ev"
  let ?d = "\<lparr>lp_entity_id = eid, lp_unique_id = uid, lp_next = None\<rparr>"
  let ?h = "(heap ev)(?n \<mapsto> ?d)"
  have n: "?n \<notin> set ps" using chain_below [OF assms(1,2)] by auto
  have ch: "chain ?h head ps" "pairs_at ?h ps = pairs_at (heap ev) ps"
    using assms(2) n by (simp_all add: chain_simps)
  show ?thesis
  proof (cases ps rule: rev_cases)
    case Nil
    then show ?thesis using assms n
      by (auto simp: acmp_add_new_listener_pair_def alloc_pair_def Let_def heap_bounded_def pairs_at_def
          intro: less_SucI)
  next
    case (snoc qs q)
    then obtain p where p: "head = Some p" using assms(2) by (cases qs) auto
    obtain c where c: "?h q = Some c" using chain_cell [OF ch(1)] snoc by auto
    have l: "last_pair (Suc (Suc ?n)) ?h p = Returns q"
      using last_pair_chain [of ?h p ps "Suc (Suc ?n)"] chain_length_bound [OF assms(1,2)] ch(1) p snoc by simp
    have e: "chain (?h(q \<mapsto> c\<lparr>lp_next := Some ?n\<rparr>)) (Some p) (qs @ [q, ?n])"
      using chain_extend [of ?h "Some p" qs q c ?n ?d] ch(1) c n p snoc by simp
    have pr: "pairs_at (?h(q \<mapsto> c\<lparr>lp_next := Some ?n\<rparr>)) (ps @ [?n]) = pairs_at (heap ev) ps @ [(eid, uid)]"
      using ch(2) c by (simp del: fun_upd_apply) (simp add: pairs_at_def)
    have b: "q < ?n" using chain_below [OF assms(1,2)] snoc by simp
    have "acmp_add_new_listener_pair head eid uid ev =
        Returns (Some p, ev\<lparr>allocs := Suc ?n, heap := ?h(q \<mapsto> c\<lparr>lp_next := Some ?n\<rparr>)\<rparr>)"
      using assms(3) p l c
      by (simp add: acmp_add_new_listener_pair_def alloc_pair_def Let_def walk_fuel_def
          del: last_pair.simps fun_upd_apply)
    then show ?thesis using e pr snoc b assms(1)
      by (auto simp: heap_bounded_def simp del: fun_upd_apply) (auto split: if_splits)
  qed
qed

text \<open>The walk of the removal passes the cells that hold another pair.\<close>

lemma remove_loop_skip:
  assumes "jdks_ok J"
  shows "chain h (Some p) (us @ q # vs) \<Longrightarrow> (eid, uid) \<notin> set (pairs_at h us) \<Longrightarrow> length us \<le> fuel \<Longrightarrow>
    remove_pair_loop fuel J head prev p eid uid h =
    remove_pair_loop (fuel - length us) J head (if us = [] then prev else Some (last us)) q eid uid h"
proof (induction us arbitrary: p prev fuel)
  case (Cons a us)
  then obtain c f where c: "p = a" "h a = Some c" "chain h (lp_next c) (us @ q # vs)" "fuel = Suc f"
    by (cases fuel) (auto split: option.splits)
  have ne: "\<not> (eui64_compare J (lp_entity_id c) eid = 0 \<and> lp_unique_id c = uid)"
    using Cons.prems(2) c by (auto simp: pairs_at_def eui64_compare_ok [OF assms])
  obtain r where r: "lp_next c = Some r" using c(3) by (cases us) auto
  show ?case using Cons.IH [of r f "Some a"] Cons.prems c r ne by (auto simp: pairs_at_def)
qed simp

text \<open>A match with a cell before and after it, at the head, and at the end of the list.\<close>

lemma remove_pair_middle:
  assumes "jdks_ok J" "heap_bounded ev" "chain (heap ev) head (us @ [b, q] @ vs)" "vs \<noteq> []"
    "(eid, uid) \<notin> set (pairs_at (heap ev) (us @ [b]))" "pairs_at (heap ev) [q] = [(eid, uid)]"
  shows "\<exists>ev'. acmp_remove_listener_pair J head eid uid ev = Returns (0, ev') \<and>
    chain (heap ev') head (us @ b # vs) \<and>
    pairs_at (heap ev') (us @ b # vs) = pairs_at (heap ev) (us @ b # vs) \<and>
    heap_bounded ev' \<and> ev'\<lparr>heap := heap ev\<rparr> = ev"
proof -
  obtain p where p: "head = Some p" using assms(3) by (cases us) auto
  obtain cb cq where c: "heap ev b = Some cb" "heap ev q = Some cq"
    using chain_cell [OF assms(3)] by fastforce
  obtain r where r: "lp_next cq = Some r"
    using chain_suffix [of "heap ev" head "us @ [b]" q vs] assms(3,4) c by (cases vs) auto
  have d: "distinct (us @ [b, q] @ vs)" by (rule chain_distinct [OF assms(3)])
  have pq: "p \<noteq> q" using assms(3) p d by (cases us) auto
  let ?h = "((heap ev)(b \<mapsto> cb\<lparr>lp_next := lp_next cq\<rparr>))(q := None)"
  have len: "length (us @ [b]) < walk_fuel ev"
    using chain_length_bound [OF assms(2,3)] by (simp add: walk_fuel_def)
  then obtain f where f: "walk_fuel ev - length (us @ [b]) = Suc f"
    using zero_less_diff gr0_conv_Suc by metis
  have m: "eui64_compare J (lp_entity_id cq) eid = 0" "lp_unique_id cq = uid"
    using assms(6) c by (auto simp: pairs_at_def eui64_compare_ok [OF assms(1)])
  have "remove_pair_loop (walk_fuel ev) J p None p eid uid (heap ev) =
      remove_pair_loop (Suc f) J p (Some b) q eid uid (heap ev)"
    using remove_loop_skip [OF assms(1), of "heap ev" p "us @ [b]" q vs eid uid "walk_fuel ev" p None]
      assms(3,5) p len f by (simp del: remove_pair_loop.simps)
  also have "\<dots> = Returns (0, ?h)" using c m r pq by simp
  finally have res: "acmp_remove_listener_pair J head eid uid ev = Returns (0, ev\<lparr>heap := ?h\<rparr>)"
    using p by (simp add: acmp_remove_listener_pair_def)
  have "chain ?h head (us @ [b] @ vs)" using chain_unlink [of "heap ev" head us b q vs] assms(3) c by simp
  moreover have "pairs_at ?h (us @ b # vs) = pairs_at (heap ev) (us @ b # vs)"
    using d c by (simp add: chain_simps del: fun_upd_apply)
  moreover have "heap_bounded (ev\<lparr>heap := ?h\<rparr>)" using assms(2) c(1) by (auto simp: heap_bounded_def split: if_splits)
  ultimately show ?thesis using res by simp
qed

lemma remove_pair_head:
  assumes "jdks_ok J" "chain (heap ev) head (q # vs)" "pairs_at (heap ev) [q] = [(eid, uid)]"
  shows "acmp_remove_listener_pair J head eid uid ev = Returns (0, ev)"
  using assms(2,3)
  by (auto simp: acmp_remove_listener_pair_def walk_fuel_def pairs_at_def eui64_compare_ok [OF assms(1)]
      split: option.splits)

lemma remove_pair_tail:
  assumes "jdks_ok J" "heap_bounded ev" "chain (heap ev) head (us @ [q])" "us \<noteq> []"
    "(eid, uid) \<notin> set (pairs_at (heap ev) us)" "pairs_at (heap ev) [q] = [(eid, uid)]"
  shows "acmp_remove_listener_pair J head eid uid ev = Returns (0, ev\<lparr>heap := (heap ev)(q := None)\<rparr>)"
proof -
  obtain p where p: "head = Some p" using assms(3) by (cases us) auto
  obtain cq where c: "heap ev q = Some cq" using chain_cell [OF assms(3)] by fastforce
  have r: "lp_next cq = None" using chain_suffix [of "heap ev" head us q "[]"] assms(3) c by simp
  have pq: "p \<noteq> q" using chain_distinct [OF assms(3)] assms(3,4) p by (cases us) auto
  have len: "length us < walk_fuel ev"
    using chain_length_bound [OF assms(2,3)] by (simp add: walk_fuel_def)
  then obtain f where f: "walk_fuel ev - length us = Suc f"
    using zero_less_diff gr0_conv_Suc by metis
  have m: "eui64_compare J (lp_entity_id cq) eid = 0" "lp_unique_id cq = uid"
    using assms(6) c by (auto simp: pairs_at_def eui64_compare_ok [OF assms(1)])
  have "remove_pair_loop (walk_fuel ev) J p None p eid uid (heap ev) =
      remove_pair_loop (Suc f) J p (Some (last us)) q eid uid (heap ev)"
    using remove_loop_skip [OF assms(1), of "heap ev" p us q "[]" eid uid "walk_fuel ev" p None]
      assms(3,4,5) p len f by (simp del: remove_pair_loop.simps)
  also have "\<dots> = Returns (0, (heap ev)(q := None))" using c m r pq by simp
  finally show ?thesis using p by (simp add: acmp_remove_listener_pair_def)
qed

lemma last_pair_dangling:
  "chain h (Some p) (us @ [q]) \<Longrightarrow> us \<noteq> [] \<Longrightarrow> length us < fuel \<Longrightarrow> last_pair fuel (h(q := None)) p = UB"
proof (induction us arbitrary: p fuel)
  case (Cons a us)
  then obtain c f where c: "p = a" "h a = Some c" "chain h (lp_next c) (us @ [q])" "fuel = Suc f"
    by (cases fuel) (auto split: option.splits)
  have aq: "a \<noteq> q" using chain_distinct [OF Cons.prems(1)] by auto
  show ?case
  proof (cases us)
    case Nil
    then show ?thesis using c aq Cons.prems(3) by (cases f) auto
  next
    case (Cons b bs)
    then obtain r where "lp_next c = Some r" using c(3) by auto
    then show ?thesis using Cons.IH [of r f] Cons.prems c aq Cons by auto
  qed
qed simp

section \<open>The talker streams\<close>

text \<open>
  The abstraction of a talker stream: the cells \<open>ps\<close> of its list hold the pairs \<open>ls\<close>, and its
  connection count is their number.
\<close>

definition talker_state :: "avdecc_ctx \<Rightarrow> place \<Rightarrow> nat list \<Rightarrow> (eui64 \<times> u16) list \<Rightarrow> bool" where
  "talker_state ctx pl ps ls \<longleftrightarrow> heap_bounded (env ctx) \<and>
    chain (heap (env ctx)) (ts_connected_listeners (talker_at (confs ctx) pl)) ps \<and>
    pairs_at (heap (env ctx)) ps = ls \<and>
    ts_connection_count (talker_at (confs ctx) pl) = of_nat (length ls)"

lemma talker_state_frame_sent [simp]:
  "talker_state (frame_sent f ctx) pl ps ls = talker_state ctx pl ps ls"
  by (simp add: talker_state_def heap_bounded_def)

definition with_talker :: "place \<Rightarrow> acmp_talker_stream_info \<Rightarrow> environment \<Rightarrow> avdecc_ctx \<Rightarrow> avdecc_ctx" where
  "with_talker pl s ev ctx = (set_confs (set_talker_at pl s (confs ctx)) ctx)\<lparr>env := ev\<rparr>"

lemma find_configuration_set_talker:
  assumes "find_configuration cl cur = Some k"
  shows "find_configuration (set_talker_at (k, n) s cl) cur = Some k"
    "descriptors (set_talker_at (k, n) s cl ! k) = descriptors (cl ! k)"
    "talker_infos_count (set_talker_at (k, n) s cl ! k) = talker_infos_count (cl ! k)"
    "listener_infos_count (set_talker_at (k, n) s cl ! k) = listener_infos_count (cl ! k)"
  using assms find_configuration_SomeD [OF assms]
  by (simp_all add: set_talker_at_def find_configuration_set)

lemma with_talker_facts:
  assumes "find_talker ctx uid = Some pl" "ts_talker_unique_id s = ts_talker_unique_id (talker_at (confs ctx) pl)"
  shows "find_talker (with_talker pl s ev ctx) uid' = find_talker ctx uid'"
    "talker_at (confs (with_talker pl s ev ctx)) pl = s"
    "acmp_valid_talker_unique J (with_talker pl s ev ctx) u = acmp_valid_talker_unique J ctx u"
    "env (with_talker pl s ev ctx) = ev" "net_info (with_talker pl s ev ctx) = net_info ctx"
    "with_talker pl s' ev' (with_talker pl s ev ctx) = with_talker pl s' ev' ctx"
proof -
  have f: "acmp_find_talker_stream_info (confs ctx) (cur_conf ctx) uid = Some pl"
    using assms(1) by (simp add: find_talker_def)
  note d = find_talker_placeD [OF f]
  have k: "ts_talker_unique_id s = uid" using talker_table.find_key [OF f] assms(2) by simp
  show "find_talker (with_talker pl s ev ctx) uid' = find_talker ctx uid'"
    using talker_table.find_put [OF f k] by (simp add: find_talker_def with_talker_def)
  show "talker_at (confs (with_talker pl s ev ctx)) pl = s"
    using talker_table.at_put [OF f] by (simp add: with_talker_def)
  show "acmp_valid_talker_unique J (with_talker pl s ev ctx) u = acmp_valid_talker_unique J ctx u"
    using find_configuration_set_talker [of "confs ctx" "cur_conf ctx" "fst pl" "snd pl" s] d
    by (simp add: acmp_valid_talker_unique_def acmp_valid_stream_def with_talker_def Let_def)
  show "env (with_talker pl s ev ctx) = ev" "net_info (with_talker pl s ev ctx) = net_info ctx"
    by (simp_all add: with_talker_def)
  show "with_talker pl s' ev' (with_talker pl s ev ctx) = with_talker pl s' ev' ctx"
    using talker_table.put_put [OF f] by (simp add: with_talker_def set_confs_def)
qed

text \<open>The fields of a talker response that come from the stream.\<close>

definition stream_response :: "acmp_cmd_resp \<Rightarrow> acmp_talker_stream_info \<Rightarrow> acmp_cmd_resp" where
  "stream_response c s = c\<lparr>stream_id := ts_stream_id s, stream_dest_mac := ts_stream_dest_mac s,
     stream_vlan_id := ts_stream_vlan_id s, connection_count := ts_connection_count s\<rparr>"

lemma connect_tx_result:
  assumes "jdks_ok J" "acmp_valid_talker_unique J ctx (talker_unique_id c)"
    "find_talker ctx (talker_unique_id c) = Some pl"
    "acmp_add_new_listener_pair (ts_connected_listeners (talker_at (confs ctx) pl)) (listener_entity_id c)
      (listener_unique_id c) (env ctx) = Returns (Some p, ev)"
    "s' = (talker_at (confs ctx) pl)\<lparr>ts_connected_listeners := Some p,
      ts_connection_count := ts_connection_count (talker_at (confs ctx) pl) + 1\<rparr>"
  shows "acmp_process_connect_tx_cmd J ctx c =
    Returns (0, frame_sent (acmp_frame J ctx (CONNECT_TX_RESPONSE J) (ACMP_SUCCESS J) (stream_response c s'))
      (with_talker pl s' ev ctx))"
proof -
  let ?s = "talker_at (confs ctx) pl"
  have f: "acmp_find_talker_stream_info (confs ctx) (cur_conf ctx) (talker_unique_id c) = Some pl"
    using assms(3) by (simp add: find_talker_def)
  have "acmp_add_talker_stream_info ctx c = Returns (0, with_talker pl s' ev ctx)"
    using assms(3,4,5) talker_table.put_put [OF f]
    by (simp add: acmp_add_talker_stream_info_def Let_def with_talker_def set_confs_def)
  moreover have "talker_at (confs (with_talker pl s' ev ctx)) pl = s'"
    using with_talker_facts(2) [OF assms(3)] assms(5) by simp
  ultimately show ?thesis
    using assms(2,3)
    by (simp add: acmp_process_connect_tx_cmd_def acmp_connect_talker_def tx_response_ok [OF assms(1)]
        Let_def stream_response_def acmp_frame_def with_talker_def)
qed

text \<open>
  C4: The linked list of a talker refines an abstract list of listeners: a connect command
  appends the listener to it in a fresh cell, raises the connection count and answers with the
  new count, and leaves every other lookup unchanged.
\<close>
theorem connect_appends_listener:
  assumes "jdks_ok J" "acmp_valid_talker_unique J ctx (talker_unique_id c)"
    "find_talker ctx (talker_unique_id c) = Some pl" "talker_state ctx pl ps ls"
    "alloc_ok (env ctx) (allocs (env ctx))"
  shows "\<exists>ctx'. acmp_process_connect_tx_cmd J ctx c = Returns (0, ctx') \<and>
    talker_state ctx' pl (ps @ [allocs (env ctx)]) (ls @ [(listener_entity_id c, listener_unique_id c)]) \<and>
    find_talker ctx' = find_talker ctx \<and>
    acmp_valid_talker_unique J ctx' = acmp_valid_talker_unique J ctx \<and>
    sent (env ctx') = sent (env ctx) @ [acmp_frame J ctx (CONNECT_TX_RESPONSE J) (ACMP_SUCCESS J)
      ((stream_response c (talker_at (confs ctx) pl))\<lparr>connection_count := of_nat (Suc (length ls))\<rparr>)]"
proof -
  let ?s = "talker_at (confs ctx) pl"
  have t: "heap_bounded (env ctx)" "chain (heap (env ctx)) (ts_connected_listeners ?s) ps"
    "pairs_at (heap (env ctx)) ps = ls" "ts_connection_count ?s = of_nat (length ls)"
    using assms(4) by (simp_all add: talker_state_def)
  obtain ev p where a: "acmp_add_new_listener_pair (ts_connected_listeners ?s) (listener_entity_id c)
      (listener_unique_id c) (env ctx) = Returns (Some p, ev)"
    "chain (heap ev) (Some p) (ps @ [allocs (env ctx)])"
    "pairs_at (heap ev) (ps @ [allocs (env ctx)]) = ls @ [(listener_entity_id c, listener_unique_id c)]"
    "heap_bounded ev" "ev\<lparr>heap := heap (env ctx), allocs := allocs (env ctx)\<rparr> = env ctx"
    using add_pair_chain [OF t(1,2) assms(5)] t(3) by metis
  define s' where "s' = ?s\<lparr>ts_connected_listeners := Some p, ts_connection_count := ts_connection_count ?s + 1\<rparr>"
  note w = with_talker_facts [OF assms(3), where s = s' and ev = ev]
  have k: "ts_talker_unique_id s' = ts_talker_unique_id ?s" by (simp add: s'_def)
  have sent: "sent ev = sent (env ctx)" using arg_cong [OF a(5), of sent] by simp
  have "talker_state (with_talker pl s' ev ctx) pl (ps @ [allocs (env ctx)])
      (ls @ [(listener_entity_id c, listener_unique_id c)])"
    using a t(4) w(2) [OF k] w(4) [OF k] by (simp add: talker_state_def s'_def)
  moreover have "find_talker (frame_sent f (with_talker pl s' ev ctx)) = find_talker ctx"
    "acmp_valid_talker_unique J (frame_sent f (with_talker pl s' ev ctx)) = acmp_valid_talker_unique J ctx" for f
    using w(1,3) [OF k] by (simp_all add: fun_eq_iff find_talker_def acmp_valid_talker_unique_def)
  moreover have "stream_response c s' = (stream_response c ?s)\<lparr>connection_count := of_nat (Suc (length ls))\<rparr>"
    using t(4) by (simp add: stream_response_def s'_def)
  ultimately show ?thesis
    using connect_tx_result [OF assms(1-3) a(1) s'_def] w(4) [OF k] sent by simp
qed

lemma disconnect_tx_result:
  assumes "jdks_ok J" "acmp_valid_talker_unique J ctx (talker_unique_id c)"
    "find_talker ctx (talker_unique_id c) = Some pl"
    "acmp_remove_listener_pair J (ts_connected_listeners (talker_at (confs ctx) pl)) (listener_entity_id c)
      (listener_unique_id c) (env ctx) = Returns (0, ev)" "sent ev = sent (env ctx)"
    "s' = (talker_at (confs ctx) pl)\<lparr>ts_connection_count := ts_connection_count (talker_at (confs ctx) pl) - 1\<rparr>"
  shows "acmp_process_disconnect_tx_cmd J ctx c =
    Returns (0, frame_sent (acmp_frame J ctx (DISCONNECT_TX_RESPONSE J) (ACMP_SUCCESS J) c)
      (with_talker pl s' ev ctx))"
  using assms(2-6)
  by (simp add: acmp_process_disconnect_tx_cmd_def acmp_remove_talker_stream_info_def
      tx_response_ok [OF assms(1)] Let_def acmp_frame_def with_talker_def set_confs_def frame_sent_def)

lemma pairs_at_append_eqD:
  assumes "pairs_at h ps = A @ B"
  obtains us vs where "ps = us @ vs" "pairs_at h us = A" "pairs_at h vs = B"
proof
  show "ps = take (length A) ps @ drop (length A) ps" by simp
  show "pairs_at h (take (length A) ps) = A" "pairs_at h (drop (length A) ps) = B"
    using arg_cong [OF assms, of "take (length A)"] arg_cong [OF assms, of "drop (length A)"]
    by (simp_all add: pairs_at_def take_map drop_map)
qed

lemma pairs_at_ConsD:
  assumes "pairs_at h ps = x # B"
  obtains q vs where "ps = q # vs" "pairs_at h [q] = [x]" "pairs_at h vs = B"
  using assms by (cases ps) (auto simp: pairs_at_def)

text \<open>
  C18: Disconnecting a listener that is neither the first nor the last of the list removes
  exactly its first occurrence from the abstract list and lowers the connection count.
\<close>
theorem disconnect_removes_inner_listener:
  assumes "jdks_ok J" "acmp_valid_talker_unique J ctx (talker_unique_id c)"
    "find_talker ctx (talker_unique_id c) = Some pl"
    "talker_state ctx pl ps (A @ (listener_entity_id c, listener_unique_id c) # B)"
    "A \<noteq> []" "B \<noteq> []" "(listener_entity_id c, listener_unique_id c) \<notin> set A"
  shows "\<exists>ctx' ps'. acmp_process_disconnect_tx_cmd J ctx c = Returns (0, ctx') \<and>
    talker_state ctx' pl ps' (A @ B) \<and> find_talker ctx' = find_talker ctx \<and>
    sent (env ctx') = sent (env ctx) @ [acmp_frame J ctx (DISCONNECT_TX_RESPONSE J) (ACMP_SUCCESS J) c]"
proof -
  let ?s = "talker_at (confs ctx) pl" and ?h = "heap (env ctx)"
  have t: "heap_bounded (env ctx)" "chain ?h (ts_connected_listeners ?s) ps"
    "pairs_at ?h ps = A @ (listener_entity_id c, listener_unique_id c) # B"
    "ts_connection_count ?s = of_nat (length A + Suc (length B))"
    using assms(4) by (simp_all add: talker_state_def)
  obtain us ws where u: "ps = us @ ws" "pairs_at ?h us = A"
    "pairs_at ?h ws = (listener_entity_id c, listener_unique_id c) # B"
    using pairs_at_append_eqD [OF t(3)] by blast
  obtain q vs where q: "ws = q # vs" "pairs_at ?h [q] = [(listener_entity_id c, listener_unique_id c)]"
    "pairs_at ?h vs = B"
    using pairs_at_ConsD [OF u(3)] by blast
  obtain us' b where b: "us = us' @ [b]" using u(2) assms(5) by (cases us rule: rev_cases) (auto simp: pairs_at_def)
  have vs: "vs \<noteq> []" using q(3) assms(6) by (auto simp: pairs_at_def)
  obtain ev where e: "acmp_remove_listener_pair J (ts_connected_listeners ?s) (listener_entity_id c)
      (listener_unique_id c) (env ctx) = Returns (0, ev)"
    "chain (heap ev) (ts_connected_listeners ?s) (us' @ b # vs)"
    "pairs_at (heap ev) (us' @ b # vs) = pairs_at ?h (us' @ b # vs)"
    "heap_bounded ev" "ev\<lparr>heap := ?h\<rparr> = env ctx"
    using remove_pair_middle [OF assms(1) t(1), of "ts_connected_listeners ?s" us' b q vs
        "listener_entity_id c" "listener_unique_id c"] t(2) u q b vs assms(7) by auto
  define s' where "s' = ?s\<lparr>ts_connection_count := ts_connection_count ?s - 1\<rparr>"
  note w = with_talker_facts [OF assms(3), where s = s' and ev = ev]
  have k: "ts_talker_unique_id s' = ts_talker_unique_id ?s" by (simp add: s'_def)
  have sent: "sent ev = sent (env ctx)" using arg_cong [OF e(5), of sent] by simp
  have ab: "pairs_at ?h (us' @ b # vs) = A @ B"
    using u(2) q(3) b by (simp add: pairs_at_def)
  have "talker_state (with_talker pl s' ev ctx) pl (us' @ b # vs) (A @ B)"
    using e t(4) w(2) [OF k] w(4) [OF k] ab by (simp add: talker_state_def s'_def)
  moreover have "find_talker (frame_sent f (with_talker pl s' ev ctx)) = find_talker ctx" for f
    using w(1) [OF k] by (simp add: fun_eq_iff find_talker_def)
  ultimately show ?thesis
    using disconnect_tx_result [OF assms(1-3) e(1) sent s'_def] w(4) [OF k] sent by fastforce
qed

text \<open>
  Disconnecting the first listener of a talker leaves its pair in the list while the
  connection count is lowered: the count and the list disagree afterwards.
\<close>
theorem disconnect_of_head_keeps_pair:
  assumes "jdks_ok J" "acmp_valid_talker_unique J ctx (talker_unique_id c)"
    "find_talker ctx (talker_unique_id c) = Some pl"
    "talker_state ctx pl ps ((listener_entity_id c, listener_unique_id c) # B)"
  shows "\<exists>ctx'. acmp_process_disconnect_tx_cmd J ctx c = Returns (0, ctx') \<and>
    chain (heap (env ctx')) (ts_connected_listeners (talker_at (confs ctx') pl)) ps \<and>
    pairs_at (heap (env ctx')) ps = (listener_entity_id c, listener_unique_id c) # B \<and>
    ts_connection_count (talker_at (confs ctx') pl) = of_nat (length B) \<and>
    sent (env ctx') = sent (env ctx) @ [acmp_frame J ctx (DISCONNECT_TX_RESPONSE J) (ACMP_SUCCESS J) c]"
proof -
  let ?s = "talker_at (confs ctx) pl" and ?h = "heap (env ctx)"
  have t: "chain ?h (ts_connected_listeners ?s) ps"
    "pairs_at ?h ps = (listener_entity_id c, listener_unique_id c) # B"
    "ts_connection_count ?s = of_nat (Suc (length B))"
    using assms(4) by (simp_all add: talker_state_def)
  obtain q vs where q: "ps = q # vs" "pairs_at ?h [q] = [(listener_entity_id c, listener_unique_id c)]"
    using pairs_at_ConsD [OF t(2)] by blast
  have e: "acmp_remove_listener_pair J (ts_connected_listeners ?s) (listener_entity_id c)
      (listener_unique_id c) (env ctx) = Returns (0, env ctx)"
    using remove_pair_head [OF assms(1)] t(1) q by blast
  define s' where "s' = ?s\<lparr>ts_connection_count := ts_connection_count ?s - 1\<rparr>"
  note w = with_talker_facts [OF assms(3), where s = s' and ev = "env ctx"]
  have k: "ts_talker_unique_id s' = ts_talker_unique_id ?s" by (simp add: s'_def)
  show ?thesis
    using disconnect_tx_result [OF assms(1-3) e refl s'_def] w(2,4) [OF k] t by (simp add: s'_def)
qed

text \<open>
  Disconnecting the last listener frees its pair without unlinking it, so the next connect
  command to that talker follows a link to freed memory.
\<close>
theorem disconnect_of_tail_leaves_dangling_link:
  assumes "jdks_ok J" "acmp_valid_talker_unique J ctx (talker_unique_id c)"
    "find_talker ctx (talker_unique_id c) = Some pl"
    "talker_state ctx pl ps (A @ [(listener_entity_id c, listener_unique_id c)])"
    "A \<noteq> []" "(listener_entity_id c, listener_unique_id c) \<notin> set A"
    "alloc_ok (env ctx) (allocs (env ctx))" "talker_unique_id d = talker_unique_id c"
  shows "bindC (acmp_process_disconnect_tx_cmd J ctx c) (\<lambda>(_, ctx). acmp_process_connect_tx_cmd J ctx d) = UB"
proof -
  let ?s = "talker_at (confs ctx) pl" and ?h = "heap (env ctx)" and ?n = "allocs (env ctx)"
  have t: "heap_bounded (env ctx)" "chain ?h (ts_connected_listeners ?s) ps"
    "pairs_at ?h ps = A @ [(listener_entity_id c, listener_unique_id c)]"
    using assms(4) by (simp_all add: talker_state_def)
  obtain us ws where uw: "ps = us @ ws" "pairs_at ?h us = A"
    "pairs_at ?h ws = [(listener_entity_id c, listener_unique_id c)]"
    using pairs_at_append_eqD [OF t(3)] by blast
  obtain q where q: "ws = [q]" "pairs_at ?h [q] = [(listener_entity_id c, listener_unique_id c)]"
    using uw(3) by (cases ws) (auto simp: pairs_at_def)
  have u: "ps = us @ [q]" "pairs_at ?h us = A" "us \<noteq> []"
    "pairs_at ?h [q] = [(listener_entity_id c, listener_unique_id c)]"
    using uw q assms(5) by (auto simp: pairs_at_def)
  obtain p where p: "ts_connected_listeners ?s = Some p" using t(2) u(1) by (cases us) auto
  define ev where "ev = (env ctx)\<lparr>heap := ?h(q := None)\<rparr>"
  have e: "acmp_remove_listener_pair J (ts_connected_listeners ?s) (listener_entity_id c)
      (listener_unique_id c) (env ctx) = Returns (0, ev)" "sent ev = sent (env ctx)"
    using remove_pair_tail [OF assms(1) t(1)] t(2) u assms(6) by (simp_all add: ev_def)
  define s' where "s' = ?s\<lparr>ts_connection_count := ts_connection_count ?s - 1\<rparr>"
  note w = with_talker_facts [OF assms(3), where s = s' and ev = ev]
  have k: "ts_talker_unique_id s' = ts_talker_unique_id ?s" by (simp add: s'_def)
  let ?d = "\<lparr>lp_entity_id = listener_entity_id d, lp_unique_id = listener_unique_id d, lp_next = None\<rparr>"
  have n: "?n \<notin> set (us @ [q])" using chain_below [OF t(1,2)] u(1) by auto
  have "last_pair (Suc (Suc ?n)) ((?h(?n \<mapsto> ?d))(q := None)) p = UB"
    using last_pair_dangling [of "?h(?n \<mapsto> ?d)" p us q "Suc (Suc ?n)"] t(2) u n p
      chain_length_bound [OF t(1,2)] by (simp add: chain_update_other del: last_pair.simps)
  moreover have "(?h(?n \<mapsto> ?d))(q := None) = (?h(q := None))(?n \<mapsto> ?d)" using n by auto
  ultimately have a: "acmp_add_new_listener_pair (ts_connected_listeners s') (listener_entity_id d)
      (listener_unique_id d) (ev\<lparr>sent := x\<rparr>) = UB" for x
    using assms(7) p by (simp add: acmp_add_new_listener_pair_def alloc_pair_def Let_def walk_fuel_def ev_def
        s'_def del: last_pair.simps)
  let ?c2 = "frame_sent (acmp_frame J ctx (DISCONNECT_TX_RESPONSE J) (ACMP_SUCCESS J) c) (with_talker pl s' ev ctx)"
  have f: "find_talker ?c2 (talker_unique_id d) = Some pl" "acmp_valid_talker_unique J ?c2 (talker_unique_id d)"
    using w(1,3) [OF k] assms(2,3,8) by (simp_all add: find_talker_def acmp_valid_talker_unique_def)
  have "acmp_process_connect_tx_cmd J ?c2 d = UB"
    using f w(2,4) [OF k] a
    by (simp add: acmp_process_connect_tx_cmd_def acmp_connect_talker_def acmp_add_talker_stream_info_def)
      (simp add: frame_sent_def)
  then show ?thesis using disconnect_tx_result [OF assms(1-3) e s'_def] by simp
qed

section \<open>The query of a connection\<close>

lemma walk_never_returns:
  "chain h (Some p) ps \<Longrightarrow> i < count \<Longrightarrow> walk_to_pair fuel h i count p b = NoReturn"
proof (induction fuel arbitrary: p ps b)
  case (Suc fuel)
  then obtain c qs where c: "ps = p # qs" "h p = Some c" "chain h (lp_next c) qs"
    by (cases ps) (auto split: option.splits)
  show ?case
  proof (cases "lp_next c")
    case None
    then show ?thesis using Suc.IH [OF Suc.prems] Suc.prems(2) c by simp
  next
    case (Some r)
    then show ?thesis using Suc.IH [of r qs] Suc.prems(2) c by simp
  qed
qed simp

text \<open>
  Asking for a connection by a nonzero index never returns when the talker has a listener,
  for every bound on the number of iterations: the loop has no progress.
\<close>
theorem indexed_connection_query_never_returns:
  assumes "acmp_valid_talker_unique J ctx (talker_unique_id c)"
    "find_talker ctx (talker_unique_id c) = Some pl" "talker_state ctx pl ps ls" "ls \<noteq> []"
    "connection_count c \<noteq> 0"
  shows "acmp_process_get_tx_connection_cmd J ctx c = NoReturn \<and>
    (\<forall>fuel p. ts_connected_listeners (talker_at (confs ctx) pl) = Some p \<longrightarrow>
      walk_to_pair fuel (heap (env ctx)) 0 (connection_count c) p False = NoReturn)"
proof -
  let ?s = "talker_at (confs ctx) pl"
  have t: "chain (heap (env ctx)) (ts_connected_listeners ?s) ps" "ps \<noteq> []"
    using assms(3,4) by (auto simp: talker_state_def pairs_at_def)
  then obtain p where p: "ts_connected_listeners ?s = Some p" by (cases ps) auto
  have pos: "0 < connection_count c" using assms(5) by (simp add: word_gt_0)
  have w: "walk_to_pair fuel (heap (env ctx)) 0 (connection_count c) p False = NoReturn" for fuel
    by (rule walk_never_returns) (use t(1) p pos in auto)
  then show ?thesis using assms(1,2) p by (simp add: acmp_process_get_tx_connection_cmd_def)
qed

section \<open>A sample talker\<close>

text \<open>The source of the sample entity with three listeners, and commands of theirs.\<close>

definition sample_pairs :: environment where
  "sample_pairs = sample_environment\<lparr>allocs := 3, heap := (\<lambda>_. None)(
     0 \<mapsto> \<lparr>lp_entity_id = 0xC0, lp_unique_id = 0, lp_next = Some 1\<rparr>,
     1 \<mapsto> \<lparr>lp_entity_id = 0xC1, lp_unique_id = 0, lp_next = Some 2\<rparr>,
     2 \<mapsto> \<lparr>lp_entity_id = 0xC2, lp_unique_id = 0, lp_next = None\<rparr>)\<rparr>"

definition sample_talker :: avdecc_ctx where
  "sample_talker = sample_entity [sample_configuration\<lparr>talker_infos :=
     [talker_stream_zero\<lparr>ts_talker_unique_id := 2, ts_connected_listeners := Some 0,
        ts_connection_count := 3\<rparr>]\<rparr>] (sample_inflight False) sample_pairs"

definition listener_command :: "eui64 \<Rightarrow> acmp_cmd_resp" where
  "listener_command eid = cmd_zero\<lparr>talker_entity_id := 0xA1, talker_unique_id := 2,
     listener_entity_id := eid, connection_count := 1\<rparr>"

lemmas sample_talker_defs = sample_talker_def sample_pairs_def listener_command_def sample_inflight_def
  sample_defs acmp_valid_talker_unique_def acmp_valid_stream_def find_configuration_def
  find_talker_def acmp_find_talker_stream_info_def talker_at_def

lemma sample_talker_facts:
  "acmp_valid_talker_unique jdks_sample sample_talker (talker_unique_id (listener_command eid))"
  "find_talker sample_talker (talker_unique_id (listener_command eid)) = Some (0, 0)"
  "talker_state sample_talker (0, 0) [0, 1, 2] [(0xC0, 0), (0xC1, 0), (0xC2, 0)]"
  "alloc_ok (env sample_talker) (allocs (env sample_talker))"
  by (simp_all add: sample_talker_defs jdks_sample_def talker_state_def heap_bounded_def pairs_at_def)

theorem connect_appends_listener_witness:
  "\<exists>ctx'. acmp_process_connect_tx_cmd jdks_sample sample_talker (listener_command 0xC3) = Returns (0, ctx') \<and>
    talker_state ctx' (0, 0) [0, 1, 2, 3] [(0xC0, 0), (0xC1, 0), (0xC2, 0), (0xC3, 0)]"
proof -
  have n: "allocs (env sample_talker) = 3" "listener_entity_id (listener_command 0xC3) = 0xC3"
    "listener_unique_id (listener_command 0xC3) = 0"
    by (simp_all add: sample_talker_defs)
  from connect_appends_listener [OF jdks_sample_ok sample_talker_facts] n
  show ?thesis by fastforce
qed

theorem disconnect_removes_inner_listener_witness:
  "\<exists>ctx' ps'. acmp_process_disconnect_tx_cmd jdks_sample sample_talker (listener_command 0xC1) = Returns (0, ctx') \<and>
    talker_state ctx' (0, 0) ps' [(0xC0, 0), (0xC2, 0)]"
proof -
  have "talker_state sample_talker (0, 0) [0, 1, 2] ([(0xC0, 0)] @
      (listener_entity_id (listener_command 0xC1), listener_unique_id (listener_command 0xC1)) # [(0xC2, 0)])"
    using sample_talker_facts(3) by (simp add: listener_command_def cmd_zero_def)
  from disconnect_removes_inner_listener [OF jdks_sample_ok sample_talker_facts(1,2) this]
  show ?thesis by (force simp: listener_command_def cmd_zero_def)
qed

theorem disconnect_of_head_keeps_pair_witness:
  "\<exists>ctx'. acmp_process_disconnect_tx_cmd jdks_sample sample_talker (listener_command 0xC0) = Returns (0, ctx') \<and>
    pairs_at (heap (env ctx')) [0, 1, 2] = [(0xC0, 0), (0xC1, 0), (0xC2, 0)] \<and>
    ts_connection_count (talker_at (confs ctx') (0, 0)) = 2"
proof -
  have "talker_state sample_talker (0, 0) [0, 1, 2]
      ((listener_entity_id (listener_command 0xC0), listener_unique_id (listener_command 0xC0)) # [(0xC1, 0), (0xC2, 0)])"
    using sample_talker_facts(3) by (simp add: listener_command_def cmd_zero_def)
  from disconnect_of_head_keeps_pair [OF jdks_sample_ok sample_talker_facts(1,2) this]
  show ?thesis by (auto simp: listener_command_def cmd_zero_def)
qed

theorem disconnect_of_tail_leaves_dangling_link_witness:
  "bindC (acmp_process_disconnect_tx_cmd jdks_sample sample_talker (listener_command 0xC2))
    (\<lambda>(_, ctx). acmp_process_connect_tx_cmd jdks_sample ctx (listener_command 0xC3)) = UB"
proof -
  have "talker_state sample_talker (0, 0) [0, 1, 2] ([(0xC0, 0), (0xC1, 0)] @
      [(listener_entity_id (listener_command 0xC2), listener_unique_id (listener_command 0xC2))])"
    using sample_talker_facts(3) by (simp add: listener_command_def cmd_zero_def)
  from disconnect_of_tail_leaves_dangling_link [OF jdks_sample_ok sample_talker_facts(1,2) this _ _
      sample_talker_facts(4), of "listener_command 0xC3"]
  show ?thesis by (simp add: listener_command_def cmd_zero_def)
qed

theorem indexed_connection_query_never_returns_witness:
  "acmp_process_get_tx_connection_cmd jdks_sample sample_talker (listener_command 0) = NoReturn"
  using indexed_connection_query_never_returns [OF sample_talker_facts(1,2,3), of 0]
  by (simp add: listener_command_def cmd_zero_def)

end
