(* ===== verification/Acmp_Invariant.thy ===== *)
theory Acmp_Invariant
  imports Acmp_Talker
begin

unbundle bit_operations_syntax

text \<open>
  The connection management of an entity as a transition system: a step is a received frame
  or a tick of the state process. The invariant says that the inflight table keeps its four
  entries, that an armed entry holds a command a timeout handler knows, and that the stream
  tables keep their shape, so that a place that was found stays valid; and it bounds the
  frames that are sent.
\<close>

section \<open>The invariant of the handlers\<close>

definition table_shape :: "configuration_list \<Rightarrow> u16 \<times> descriptor_data list \<times> nat \<times> u8 \<times> nat \<times> u8" where
  "table_shape c = (conf_index c, descriptors c, length (listener_infos c), listener_infos_count c,
     length (talker_infos c), talker_infos_count c)"

definition inflight_ok :: "jdks \<Rightarrow> avdecc_ctx \<Rightarrow> bool" where
  "inflight_ok J ctx \<longleftrightarrow> length (inflight_commands (dev_e ctx)) = MAX_INFLIGHT_CMD_NUM \<and>
    (\<forall>f\<in>set (inflight_commands (dev_e ctx)). if_timeout f \<noteq> 0 \<longrightarrow>
      message_type (if_command f) \<in> {CONNECT_TX_COMMAND J, DISCONNECT_TX_COMMAND J})"

text \<open>
  \<open>acmp_good J c0 n ctx\<close>: \<open>ctx\<close> comes from \<open>c0\<close> by at most \<open>n\<close> more frames, with the same
  identity and shape.
\<close>

definition acmp_good :: "jdks \<Rightarrow> avdecc_ctx \<Rightarrow> nat \<Rightarrow> avdecc_ctx \<Rightarrow> bool" where
  "acmp_good J c0 n ctx \<longleftrightarrow> inflight_ok J ctx \<and> same_control c0 ctx \<and> cur_conf ctx = cur_conf c0 \<and> map table_shape (confs ctx) = map table_shape (confs c0) \<and>
    (\<exists>fs. sent (env ctx) = sent (env c0) @ fs \<and> length fs \<le> n)"

named_theorems acmp_steps \<open>the handlers and the operations they use keep the invariant\<close>

lemma acmp_good_mono: "acmp_good J c0 n ctx \<Longrightarrow> n \<le> m \<Longrightarrow> acmp_good J c0 m ctx"
  by (auto simp: acmp_good_def)

lemma acmp_good_sent: "acmp_good J c0 n ctx \<Longrightarrow> length (sent (env ctx)) \<le> length (sent (env c0)) + n"
  by (auto simp: acmp_good_def)

lemma good_env:
  "acmp_good J c0 n ctx \<Longrightarrow> sent ev = sent (env ctx) \<Longrightarrow> acmp_good J c0 n (ctx\<lparr>env := ev\<rparr>)"
  by (simp add: acmp_good_def inflight_ok_def same_control_def)

lemma good_read_clock: "acmp_good J c0 n ctx \<Longrightarrow> acmp_good J c0 n (snd (read_clock ctx))"
  by (simp add: acmp_good_def inflight_ok_def same_control_def) (simp add: read_clock_def case_prod_beta)

lemma map_update_same: "f y = f (xs ! i) \<Longrightarrow> map f (xs[i := y]) = map f xs"
  by (metis list_update_id map_update)

lemma good_listener:
  "acmp_good J c0 n ctx \<Longrightarrow> acmp_good J c0 n (set_confs (set_listener_at pl s (confs ctx)) ctx)"
  by (simp add: acmp_good_def inflight_ok_def set_listener_at_def same_control_def)
    (simp add: map_update_same table_shape_def set_confs_def)

lemma good_talker:
  "acmp_good J c0 n ctx \<Longrightarrow> acmp_good J c0 n (set_confs (set_talker_at pl s (confs ctx)) ctx)"
  by (simp add: acmp_good_def inflight_ok_def set_talker_at_def same_control_def)
    (simp add: map_update_same table_shape_def set_confs_def)

definition armed_ok :: "jdks \<Rightarrow> acmp_inflight_command \<Rightarrow> bool" where
  "armed_ok J f \<longleftrightarrow> (if_timeout f \<noteq> 0 \<longrightarrow>
     message_type (if_command f) \<in> {CONNECT_TX_COMMAND J, DISCONNECT_TX_COMMAND J})"

lemma good_inflight:
  "acmp_good J c0 n ctx \<Longrightarrow> armed_ok J f \<Longrightarrow> acmp_good J c0 n (set_inflight_at i f ctx)"
  by (auto simp: acmp_good_def inflight_ok_def armed_ok_def same_control_def set_inflight_at_def
      dest!: set_update_subset_insert [THEN subsetD])

lemma armed_ok_zero [simp]: "armed_ok J inflight_zero"
  by (simp add: armed_ok_def inflight_zero_def)

lemma good_send:
  "acmp_good J c0 n ctx \<Longrightarrow> on_return (ctx_send J d p ctx) (\<lambda>x. acmp_good J c0 (Suc n) (snd x))"
  by (auto simp: ctx_send_def send_data_def Let_def acmp_good_def inflight_ok_def same_control_def)

lemma good_response [acmp_steps]:
  "acmp_good J c0 n ctx \<Longrightarrow>
    on_return (acmp_tx_response J m c st ctx) (\<lambda>x. acmp_good J c0 (Suc n) (snd x))"
  using good_send [of J c0 n ctx "multicast_adp_acmp J" "snd (acmpdu_write J (acmp_pdu J m st c))"]
  by (auto simp: acmp_tx_response_def case_prod_beta intro: acmp_good_mono elim!: on_return_mono)

abbreviation tx_commands :: "jdks \<Rightarrow> u8 set" where
  "tx_commands J \<equiv> {CONNECT_TX_COMMAND J, DISCONNECT_TX_COMMAND J}"

lemma good_command [acmp_steps]:
  assumes "acmp_good J c0 n ctx" "m \<in> tx_commands J"
    "\<And>i. inflight = Some i \<Longrightarrow> message_type (if_command (inflight_at ctx i)) \<in> tx_commands J"
  shows "on_return (acmp_tx_command J m c inflight ctx) (\<lambda>x. acmp_good J c0 (Suc (Suc n)) (snd x))"
proof -
  let ?c1 = "snd (read_clock ctx)"
  have g1: "acmp_good J c0 n ?c1" by (rule good_read_clock [OF assms(1)])
  let ?e = "case inflight of Some i \<Rightarrow> Some (i, inflight_at ?c1 i)
    | None \<Rightarrow> map_option (\<lambda>i. (i, inflight_of J m c)) (free_inflight ?c1)"
  have r: "on_return (acmp_tx_response J m c st ctx') (\<lambda>x. acmp_good J c0 (Suc (Suc n)) (snd x))"
    if "acmp_good J c0 (Suc n) ctx'" for ctx' st
    by (rule good_response [OF that])
  show ?thesis
  proof (cases ?e)
    case None
    then show ?thesis
      using r [OF acmp_good_mono [OF g1]]
      by (simp add: acmp_tx_command_def case_prod_beta Let_def)
  next
    case (Some q)
    then obtain i f where q: "q = (i, f)" "?e = Some (i, f)" by (cases q) auto
    have "message_type (if_command f) \<in> tx_commands J"
      using assms(2,3) q(2) by (cases inflight) (auto simp: inflight_of_def inflight_at_def)
    then have g: "acmp_good J c0 n (set_inflight_at i (arm J t f) ?c1)" for t
      by (intro good_inflight [OF g1]) (auto simp: armed_ok_def arm_def)
    note send = good_send [OF g [of "fst (read_clock ctx)"], where d = "multicast_adp_acmp J"
        and p = "snd (acmpdu_write J (acmp_pdu J m (ACMP_SUCCESS J) c))"]
    have "on_return (ctx_send J (multicast_adp_acmp J) (snd (acmpdu_write J (acmp_pdu J m (ACMP_SUCCESS J) c)))
        (set_inflight_at i (arm J (fst (read_clock ctx)) f) ?c1))
        (\<lambda>x. (0 < fst x \<longrightarrow> acmp_good J c0 (Suc (Suc n)) (snd x)) \<and>
          (\<not> 0 < fst x \<longrightarrow> on_return (acmp_tx_response J m c (ACMP_COULD_NOT_SEND_MESSAGE J) (snd x))
            (\<lambda>x. acmp_good J c0 (Suc (Suc n)) (snd x))))"
      by (rule on_return_mono [OF send]) (auto intro: r acmp_good_mono)
    then show ?thesis
      using acmp_good_mono [OF g] q
      by (auto simp: acmp_tx_command_def case_prod_beta arm_def [symmetric] Let_def)
  qed
qed

lemma good_add_listener:
  "acmp_good J c0 n ctx \<Longrightarrow> acmp_good J c0 n (snd (acmp_add_listener_stream_info J ctx c))"
  by (auto simp: acmp_add_listener_stream_info_def Let_def good_listener split: option.splits)

lemma good_remove_listener:
  "acmp_good J c0 n ctx \<Longrightarrow> acmp_good J c0 n (snd (acmp_remove_listener_stream_info J ctx c))"
  by (auto simp: acmp_remove_listener_stream_info_def good_listener split: option.splits)

section \<open>The handlers\<close>

lemma good_connect_rx_cmd:
  assumes "acmp_good J c0 n ctx"
  shows "on_return (acmp_process_connect_rx_cmd J ctx c) (\<lambda>x. acmp_good J c0 (Suc (Suc n)) (snd x))"
  using good_command [OF assms, of "CONNECT_TX_COMMAND J" None c]
    good_response [OF acmp_good_mono [OF assms, of "Suc n"], where m = "CONNECT_RX_RESPONSE J" and c = c]
  by (simp add: acmp_process_connect_rx_cmd_def case_prod_beta)

lemma good_connect_tx_response:
  assumes "acmp_good J c0 n ctx"
  shows "on_return (acmp_process_connect_tx_response J ctx c) (\<lambda>x. acmp_good J c0 (Suc n) (snd x))"
  using good_response [OF assms] good_response [OF good_inflight [OF good_add_listener [OF assms] armed_ok_zero]]
    acmp_good_mono [OF assms]
  by (auto simp: acmp_process_connect_tx_response_def case_prod_beta Let_def split: option.splits)

lemma good_get_rx_state_cmd:
  assumes "acmp_good J c0 n ctx"
  shows "on_return (acmp_process_get_rx_state_cmd J ctx c) (\<lambda>x. acmp_good J c0 (Suc n) (snd x))"
  using good_response [OF assms]
  by (simp add: acmp_process_get_rx_state_cmd_def case_prod_beta)

lemma good_disconnect_rx_cmd:
  assumes "acmp_good J c0 n ctx"
  shows "on_return (acmp_process_disconnect_rx_cmd J ctx c) (\<lambda>x. acmp_good J c0 (Suc (Suc n)) (snd x))"
  using good_command [OF assms, of "DISCONNECT_TX_COMMAND J" None c]
    good_response [OF acmp_good_mono [OF assms, of "Suc n"], where m = "DISCONNECT_RX_RESPONSE J" and c = c]
  by (simp add: acmp_process_disconnect_rx_cmd_def case_prod_beta)

lemma good_disconnect_tx_response:
  assumes "acmp_good J c0 n ctx"
  shows "on_return (acmp_process_disconnect_tx_response J ctx c) (\<lambda>x. acmp_good J c0 (Suc n) (snd x))"
  using good_response [OF good_inflight [OF good_remove_listener [OF assms] armed_ok_zero]]
    acmp_good_mono [OF assms] acmp_good_mono [OF good_remove_listener [OF assms]]
  by (auto simp: acmp_process_disconnect_tx_response_def case_prod_beta Let_def split: option.splits)

lemma good_listener_state_machine:
  assumes "acmp_good J c0 n ctx"
  shows "on_return (acmp_process_listener_state_machine J ctx c) (\<lambda>x. acmp_good J c0 (Suc (Suc n)) (snd x))"
proof -
  have m: "acmp_good J c0 (Suc n) ctx" "acmp_good J c0 (Suc (Suc n)) ctx"
    using acmp_good_mono [OF assms] by simp_all
  show ?thesis
    using good_connect_rx_cmd [OF assms, of c] good_connect_tx_response [OF m(1), of c]
      good_get_rx_state_cmd [OF m(1), of c] good_disconnect_rx_cmd [OF assms, of c]
      good_disconnect_tx_response [OF m(1), of c] m(2)
    by (simp add: acmp_process_listener_state_machine_def Let_def)
qed

lemma add_pair_sent:
  "on_return (acmp_add_new_listener_pair head eid uid ev) (\<lambda>x. sent (snd x) = sent ev)"
  by (auto simp: acmp_add_new_listener_pair_def alloc_pair_def Let_def on_return_iff bindC_eq_Returns_iff
      split: option.splits if_splits prod.splits)

lemma remove_pair_sent:
  "on_return (acmp_remove_listener_pair J head eid uid ev) (\<lambda>x. sent (snd x) = sent ev)"
  by (auto simp: acmp_remove_listener_pair_def on_return_iff bindC_eq_Returns_iff split: option.splits prod.splits)

lemma good_add_talker:
  assumes "acmp_good J c0 n ctx"
  shows "on_return (acmp_add_talker_stream_info ctx c) (\<lambda>x. acmp_good J c0 n (snd x))"
proof (cases "find_talker ctx (talker_unique_id c)")
  case (Some pl)
  let ?s = "talker_at (confs ctx) pl"
  have "acmp_good J c0 n (set_confs (set_talker_at pl s' (confs c1)) c1)"
    if "c1 = (set_confs (set_talker_at pl s (confs ctx)) ctx)\<lparr>env := ev\<rparr>" "sent ev = sent (env ctx)" for s s' c1 ev
    using good_talker [OF good_env [OF good_talker [OF assms]]] that by simp
  moreover have "acmp_good J c0 n ((set_confs (set_talker_at pl s (confs ctx)) ctx)\<lparr>env := ev\<rparr>)"
    if "sent ev = sent (env ctx)" for s ev
    using good_env [OF good_talker [OF assms]] that by simp
  ultimately show ?thesis
    using Some by (auto simp: acmp_add_talker_stream_info_def Let_def case_prod_beta
        intro!: on_return_mono [OF add_pair_sent])
qed (simp add: acmp_add_talker_stream_info_def assms)

lemma good_remove_talker:
  assumes "acmp_good J c0 n ctx"
  shows "on_return (acmp_remove_talker_stream_info J ctx c) (\<lambda>x. acmp_good J c0 n (snd x))"
proof (cases "find_talker ctx (talker_unique_id c)")
  case (Some pl)
  have "acmp_good J c0 n (set_confs (set_talker_at pl s (confs c1)) c1)" "acmp_good J c0 n c1"
    if "c1 = ctx\<lparr>env := ev\<rparr>" "sent ev = sent (env ctx)" for s c1 ev
    using good_talker [OF good_env [OF assms]] good_env [OF assms] that by simp_all
  then show ?thesis
    using Some by (auto simp: acmp_remove_talker_stream_info_def Let_def case_prod_beta
        intro!: on_return_mono [OF remove_pair_sent])
qed (simp add: acmp_remove_talker_stream_info_def assms)

lemma good_talker_state_machine:
  assumes "acmp_good J c0 n ctx"
  shows "on_return (acmp_process_talker_state_machine J ctx c) (\<lambda>x. acmp_good J c0 (Suc (Suc n)) (snd x))"
proof -
  note r = good_response [OF assms] and m = acmp_good_mono [OF assms]
  have "on_return (acmp_process_connect_tx_cmd J ctx c) (\<lambda>x. acmp_good J c0 (Suc n) (snd x))"
    using r by (auto simp: acmp_process_connect_tx_cmd_def acmp_connect_talker_def Let_def case_prod_beta
        intro!: on_return_mono [OF good_add_talker [OF assms]] good_response split: option.splits)
  moreover have "on_return (acmp_process_disconnect_tx_cmd J ctx c) (\<lambda>x. acmp_good J c0 (Suc n) (snd x))"
    using r by (auto simp: acmp_process_disconnect_tx_cmd_def case_prod_beta
        intro!: on_return_mono [OF good_remove_talker [OF assms]] good_response)
  moreover have "on_return (acmp_process_get_tx_state_cmd J ctx c) (\<lambda>x. acmp_good J c0 (Suc n) (snd x))"
    using r by (simp add: acmp_process_get_tx_state_cmd_def case_prod_beta)
  moreover have "on_return (acmp_process_get_tx_connection_cmd J ctx c) (\<lambda>x. acmp_good J c0 (Suc n) (snd x))"
    unfolding acmp_process_get_tx_connection_cmd_def on_return_bind case_prod_beta by (rule on_return_all [OF r])
  ultimately show ?thesis
    using m by (auto simp: acmp_process_talker_state_machine_def Let_def intro: acmp_good_mono elim!: on_return_mono)
qed

lemma good_dispatch [acmp_steps]:
  assumes "acmp_good J c0 n ctx"
  shows "on_return (acmp_dispatch J ctx c) (acmp_good J c0 (Suc (Suc n)))"
  using good_listener_state_machine [OF assms, of c] good_talker_state_machine [OF assms, of c]
    acmp_good_mono [OF assms, of "Suc (Suc n)"]
  by (simp add: acmp_dispatch_def Let_def case_prod_beta)

lemma good_entry:
  assumes "acmp_good J c0 n ctx" "i < MAX_INFLIGHT_CMD_NUM"
  shows "armed_ok J ((inflight_at ctx i)\<lparr>if_retried := b\<rparr>)"
  using assms by (simp add: acmp_good_def inflight_ok_def armed_ok_def inflight_at_def)

lemma good_timeout [acmp_steps]:
  assumes "acmp_good J c0 n ctx" "i < MAX_INFLIGHT_CMD_NUM"
    "message_type (if_command (inflight_at ctx i)) = m" "m \<in> tx_commands J"
  shows "on_return (process_tx_timeout J m r ctx i) (\<lambda>x. acmp_good J c0 (Suc (Suc n)) (snd x))"
proof -
  have "on_return (acmp_tx_response J r c st ctx)
      (\<lambda>x. acmp_good J c0 (Suc (Suc n)) (set_inflight_at i inflight_zero (snd x)))" for c st
    by (rule on_return_mono [OF good_response [OF assms(1)]])
      (auto intro!: good_inflight elim: acmp_good_mono)
  moreover have "on_return (acmp_tx_command J m c (Some i) ctx)
      (\<lambda>x. acmp_good J c0 (Suc (Suc n))
        (set_inflight_at i ((inflight_at (snd x) i)\<lparr>if_retried := True\<rparr>) (snd x)))" for c
    by (rule on_return_mono [OF good_command [OF assms(1,4)]])
      (use assms(2-4) in \<open>auto intro!: good_inflight good_entry\<close>)
  ultimately show ?thesis by (simp add: process_tx_timeout_def Let_def case_prod_beta)
qed

lemma good_state_loop:
  "acmp_good J c0 n ctx \<Longrightarrow> \<forall>i\<in>set is. i < MAX_INFLIGHT_CMD_NUM \<Longrightarrow>
    on_return (state_loop J now is ctx) (acmp_good J c0 (n + 2 * length is))"
proof (induction "is" arbitrary: n ctx)
  case (Cons i "is")
  let ?f = "inflight_at ctx i"
  have IH: "on_return (state_loop J now is c') (acmp_good J c0 (n + 2 * length (i # is)))"
    if "acmp_good J c0 (Suc (Suc n)) c'" for c'
    using Cons.IH [OF that] Cons.prems(2) by simp
  have same: "on_return (state_loop J now is ctx) (acmp_good J c0 (n + 2 * length (i # is)))"
    by (rule IH [OF acmp_good_mono [OF Cons.prems(1)]]) simp
  have "on_return (process_tx_timeout J m r ctx i) (\<lambda>x. on_return (state_loop J now is (snd x))
      (acmp_good J c0 (n + 2 * length (i # is))))" if "message_type (if_command ?f) = m" "m \<in> tx_commands J" for m r
    by (rule on_return_mono [OF good_timeout [OF Cons.prems(1) _ that]]) (use Cons.prems(2) IH in auto)
  then show ?case
    using same
    by (auto simp: Let_def case_prod_beta acmp_process_connect_tx_timeout_def acmp_process_disconnect_tx_timeout_def)
qed simp

section \<open>The transition system\<close>

inductive acmp_step :: "jdks \<Rightarrow> avdecc_ctx \<Rightarrow> avdecc_ctx \<Rightarrow> bool" for J where
  received: "acmp_receive_process J (Some ctx) (Some f) = Returns (rc, Some ctx') \<Longrightarrow> acmp_step J ctx ctx'"
| ticked: "acmp_state_process J (Some ctx) = Returns (rc, Some ctx') \<Longrightarrow> acmp_step J ctx ctx'"

inductive_cases acmp_stepE [elim]: "acmp_step J ctx ctx'"

inductive_simps acmp_step_iff: "acmp_step J ctx ctx'"

lemma good_refl: "inflight_ok J ctx \<Longrightarrow> acmp_good J ctx 0 ctx"
  by (simp add: acmp_good_def)

lemma good_receive:
  assumes "acmp_good J c0 n ctx" "acmp_receive_process J (Some ctx) (Some f) = Returns (rc, Some ctx')"
  shows "acmp_good J c0 (n + 2) ctx'"
proof (cases "acmpdu_read J (frame_data f)")
  case (Some p)
  then have "acmp_dispatch J ctx (cmd_of_pdu p) = Returns ctx'"
    using assms(2) by (auto simp: acmp_receive_process_def bindC_eq_Returns_iff)
  then show ?thesis using good_dispatch [OF assms(1), of "cmd_of_pdu p"] by simp
qed (use assms acmp_good_mono in \<open>auto simp: acmp_receive_process_def\<close>)

lemma good_tick:
  assumes "acmp_good J c0 n ctx" "acmp_state_process J (Some ctx) = Returns (rc, Some ctx')"
  shows "acmp_good J c0 (n + 8) ctx'"
proof -
  have "state_loop J (fst (read_clock ctx)) [0..<MAX_INFLIGHT_CMD_NUM] (snd (read_clock ctx)) = Returns ctx'"
    using assms(2) by (auto simp: acmp_state_process_def bindC_eq_Returns_iff case_prod_beta)
  then show ?thesis
    using good_state_loop [OF good_read_clock [OF assms(1)], of "[0..<MAX_INFLIGHT_CMD_NUM]" "fst (read_clock ctx)"]
    by (simp add: MAX_INFLIGHT_CMD_NUM_def)
qed

lemma good_step: "acmp_good J c0 n ctx \<Longrightarrow> acmp_step J ctx ctx' \<Longrightarrow> acmp_good J c0 (n + 8) ctx'"
  using good_receive good_tick acmp_good_mono by (fastforce simp: acmp_step_iff)


text \<open>
  Processing one received frame sends at most two frames, and one tick of the timer
  processing at most eight.
\<close>
theorem frames_sent_are_bounded:
  assumes "inflight_ok J ctx"
  shows "(acmp_receive_process J (Some ctx) (Some f) = Returns (rc, Some ctx') \<longrightarrow>
      length (sent (env ctx')) \<le> length (sent (env ctx)) + 2) \<and>
    (acmp_state_process J (Some ctx) = Returns (rc, Some ctx') \<longrightarrow>
      length (sent (env ctx')) \<le> length (sent (env ctx)) + 8)"
  using acmp_good_sent [OF good_receive [OF good_refl [OF assms], of f rc ctx']]
    acmp_good_sent [OF good_tick [OF good_refl [OF assms], of rc ctx']] by simp

section \<open>Handlers that always answer\<close>

lemma tx_response_returns: "jdks_ok J \<Longrightarrow> (\<And>c'. P (0, c')) \<Longrightarrow> returns (acmp_tx_response J m c st ctx) P"
  by (simp add: tx_response_ok)

lemma tx_command_returns:
  assumes "jdks_ok J"
  shows "returns (acmp_tx_command J m c inflight ctx) (\<lambda>_. True)"
proof (cases "case inflight of Some i \<Rightarrow> Some (i, inflight_at ctx i)
      | None \<Rightarrow> map_option (\<lambda>i. (i, inflight_of J m c)) (free_inflight ctx)")
  case None
  then have "inflight = None" "free_inflight ctx = None" by (auto split: option.splits)
  then show ?thesis using tx_command_full_ok [OF assms] by simp
next
  case (Some q)
  then show ?thesis using tx_command_entry_ok [OF assms, where inflight = inflight and ctx = ctx and i = "fst q" and f = "snd q"]
    by simp
qed

lemma process_tx_timeout_returns:
  assumes "jdks_ok J"
  shows "returns (process_tx_timeout J m r ctx i) (\<lambda>_. True)"
  using tx_command_returns [OF assms] tx_response_ok [OF assms]
  by (simp add: process_tx_timeout_def Let_def case_prod_beta)

lemma state_loop_returns:
  assumes "jdks_ok J"
  shows "returns (state_loop J now is ctx) (\<lambda>_. True)"
proof (induction "is" arbitrary: ctx)
  case (Cons i "is")
  have "returns (process_tx_timeout J m r ctx i) (\<lambda>x. returns (state_loop J now is (snd x)) (\<lambda>_. True))" for m r
    by (rule returns_mono [OF process_tx_timeout_returns [OF assms]]) (rule Cons.IH)
  then show ?case
    using Cons.IH
    by (simp add: Let_def case_prod_beta acmp_process_connect_tx_timeout_def acmp_process_disconnect_tx_timeout_def)
qed simp

lemma tick_returns:
  assumes "jdks_ok J"
  shows "\<exists>ctx'. acmp_state_process J (Some ctx) = Returns (0, Some ctx')"
proof -
  obtain ctx' where "state_loop J (fst (read_clock ctx)) [0..<MAX_INFLIGHT_CMD_NUM] (snd (read_clock ctx)) = Returns ctx'"
    using state_loop_returns [OF assms] unfolding returns_iff by blast
  then show ?thesis by (simp add: acmp_state_process_def case_prod_beta)
qed


text \<open>
  Every message the listener side handles is processed to the end without undefined
  behaviour, for every context.
\<close>
theorem listener_commands_always_return:
  assumes "jdks_ok J" "message_type c \<in> {CONNECT_RX_COMMAND J, CONNECT_TX_RESPONSE J,
    GET_RX_STATE_COMMAND J, DISCONNECT_RX_COMMAND J, DISCONNECT_TX_RESPONSE J}"
  shows "\<exists>ctx'. acmp_process_listener_state_machine J ctx c = Returns (0, ctx')"
proof -
  have "returns (acmp_process_listener_state_machine J ctx c) (\<lambda>x. fst x = 0)"
    using assms(2) tx_command_returns [OF assms(1)] tx_response_ok [OF assms(1)]
    by (auto simp: acmp_process_listener_state_machine_def acmp_process_connect_rx_cmd_def
        acmp_process_connect_tx_response_def acmp_process_get_rx_state_cmd_def
        acmp_process_disconnect_rx_cmd_def acmp_process_disconnect_tx_response_def
        Let_def case_prod_beta split: option.splits)
  then show ?thesis unfolding returns_iff by fastforce
qed

text \<open>Commands between two other entities change nothing.\<close>

lemma commands_for_others_are_ignored:
  assumes "jdks_ok J" "talker_entity_id c \<noteq> entity_id ctx" "listener_entity_id c \<noteq> entity_id ctx"
  shows "acmp_dispatch J ctx c = Returns ctx"
  using assms by (simp add: acmp_dispatch_def Let_def eui64_compare_ok)

section \<open>Witnesses\<close>

lemma sample_listener_inflight: "inflight_ok jdks_sample sample_listener"
  by (simp add: inflight_ok_def MAX_INFLIGHT_CMD_NUM_def sample_listener_defs)



theorem frames_sent_are_bounded_witness:
  "\<exists>ctx'. acmp_state_process jdks_sample (Some sample_listener) = Returns (0, Some ctx') \<and>
    length (sent (env ctx')) \<le> 8"
proof -
  obtain ctx where "acmp_state_process jdks_sample (Some sample_listener) = Returns (0, Some ctx)"
    using tick_returns [OF jdks_sample_ok] by blast
  moreover have "sent (env sample_listener) = []" by (simp add: sample_listener_defs)
  ultimately show ?thesis using frames_sent_are_bounded [OF sample_listener_inflight] by fastforce
qed

theorem listener_commands_always_return_witness:
  "\<exists>ctx'. acmp_process_listener_state_machine jdks_sample sample_listener
    (sample_command\<lparr>message_type := 6\<rparr>) = Returns (0, ctx')"
  by (rule listener_commands_always_return [OF jdks_sample_ok]) (simp add: jdks_sample_def)

end
