(* ===== verification/Acmp_Init.thy ===== *)
theory Acmp_Init
  imports Acmp
begin

unbundle bit_operations_syntax

text \<open>
  The stream tables that \<open>acmp_ctx_init\<close> builds: which identifiers they hold, for any number
  of configurations.
\<close>

definition stream_ids :: "u16 \<Rightarrow> descriptor_data list \<Rightarrow> u16 list" where
  "stream_ids t ds = map descriptor_index (filter (\<lambda>d. descriptor_type d = t) ds)"

lemma length_stream_ids [simp]: "length (stream_ids t ds) = count_type t ds"
  by (simp add: stream_ids_def count_type_def)

lemma stream_ids_simps [simp]:
  "stream_ids t [] = []"
  "stream_ids t (d # ds) = (if descriptor_type d = t then descriptor_index d # stream_ids t ds else stream_ids t ds)"
  "count_type t [] = 0"
  "count_type t (d # ds) = (if descriptor_type d = t then Suc (count_type t ds) else count_type t ds)"
  by (simp_all add: stream_ids_def count_type_def)

lemma fill_listener_ids_result:
  "n + count_type (DESCRIPTOR_STREAM_INPUT J) ds \<le> length infos \<Longrightarrow>
    fst (fill_listener_ids J ds n infos) = n + count_type (DESCRIPTOR_STREAM_INPUT J) ds \<and>
    map ls_listener_unique_id (snd (fill_listener_ids J ds n infos)) =
      take n (map ls_listener_unique_id infos) @ stream_ids (DESCRIPTOR_STREAM_INPUT J) ds @
      drop (n + count_type (DESCRIPTOR_STREAM_INPUT J) ds) (map ls_listener_unique_id infos)"
proof (induction ds arbitrary: n infos)
  case (Cons d ds)
  show ?case
  proof (cases "descriptor_type d = DESCRIPTOR_STREAM_INPUT J")
    case True
    then show ?thesis
      using Cons.IH [of "Suc n" "infos[n := (infos ! n)\<lparr>ls_listener_unique_id := descriptor_index d\<rparr>]"] Cons.prems
      by (simp add: map_update take_Suc_conv_app_nth)
  next
    case False
    then show ?thesis using Cons.IH [of n infos] Cons.prems by simp
  qed
qed simp

lemma fill_talker_ids_result:
  "n + count_type (DESCRIPTOR_STREAM_OUTPUT J) ds \<le> length infos \<Longrightarrow>
    fst (fill_talker_ids J ds n infos) = n + count_type (DESCRIPTOR_STREAM_OUTPUT J) ds \<and>
    map ts_talker_unique_id (snd (fill_talker_ids J ds n infos)) =
      take n (map ts_talker_unique_id infos) @ stream_ids (DESCRIPTOR_STREAM_OUTPUT J) ds @
      drop (n + count_type (DESCRIPTOR_STREAM_OUTPUT J) ds) (map ts_talker_unique_id infos)"
proof (induction ds arbitrary: n infos)
  case (Cons d ds)
  show ?case
  proof (cases "descriptor_type d = DESCRIPTOR_STREAM_OUTPUT J")
    case True
    then show ?thesis
      using Cons.IH [of "Suc n" "infos[n := (infos ! n)\<lparr>ts_talker_unique_id := descriptor_index d\<rparr>]"] Cons.prems
      by (simp add: map_update take_Suc_conv_app_nth)
  next
    case False
    then show ?thesis using Cons.IH [of n infos] Cons.prems by simp
  qed
qed simp

definition listener_ids :: "configuration_list \<Rightarrow> u16 list" where
  "listener_ids c = map ls_listener_unique_id (listener_infos c)"

definition talker_ids :: "configuration_list \<Rightarrow> u16 list" where
  "talker_ids c = map ts_talker_unique_id (talker_infos c)"

text \<open>
  The table of a configuration: its own stream identifiers, then one entry 0 for every stream
  of the configuration before it.
\<close>

fun expected_ids :: "u16 \<Rightarrow> nat \<Rightarrow> configuration_list list \<Rightarrow> u16 list list" where
  "expected_ids t extra [] = []"
| "expected_ids t extra (c # cs) =
    (stream_ids t (descriptors c) @ replicate extra 0)
    # expected_ids t (count_type t (descriptors c)) cs"

lemma init_configurations_result:
  "(\<And>n. alloc_ok ev n) \<Longrightarrow>
    returns (init_configurations J ni no cl ev) (\<lambda>(cl', ev').
      map listener_ids cl' = expected_ids (DESCRIPTOR_STREAM_INPUT J) ni cl \<and>
      map talker_ids cl' = expected_ids (DESCRIPTOR_STREAM_OUTPUT J) no cl \<and>
      map conf_index cl' = map conf_index cl \<and> ev' = ev\<lparr>allocs := allocs ev + 2 * length cl\<rparr>)"
proof (induction cl arbitrary: ni no ev)
  case (Cons c cl)
  let ?i = "ni + count_type (DESCRIPTOR_STREAM_INPUT J) (descriptors c)"
  let ?o = "no + count_type (DESCRIPTOR_STREAM_OUTPUT J) (descriptors c)"
  note li = fill_listener_ids_result [of 0 J "descriptors c" "replicate ?i listener_stream_zero"]
  note lo = fill_talker_ids_result [of 0 J "descriptors c" "replicate ?o talker_stream_zero"]
  have al: "alloc_table e k = Returns (e\<lparr>allocs := Suc (allocs e)\<rparr>)" if "\<And>n. alloc_ok e n" for e k
    using that by (simp add: alloc_table_def)
  let ?e = "ev\<lparr>allocs := Suc (Suc (allocs ev))\<rparr>"
  note IH = Cons.IH [of ?e]
  show ?case
    using Cons.prems li lo
    by (simp add: al Let_def case_prod_beta)
      (rule returns_mono [OF IH], use Cons.prems in \<open>auto simp: listener_ids_def [abs_def] talker_ids_def [abs_def]
         listener_stream_zero_def talker_stream_zero_def\<close>)
qed simp

text \<open>
  Initialisation gives every configuration tables with the identifiers of its input and
  output streams in descriptor order, followed by as many zero identifiers as the configuration
  before it has streams, since the counts are carried over.
\<close>
theorem init_tables_hold_stream_ids:
  assumes "\<And>n. alloc_ok (env ctx) n"
  shows "\<exists>ctx'. acmp_ctx_init J (Some ctx) = Returns (0, Some ctx') \<and>
    map listener_ids (confs ctx') = expected_ids (DESCRIPTOR_STREAM_INPUT J) 0 (confs ctx) \<and>
    map talker_ids (confs ctx') = expected_ids (DESCRIPTOR_STREAM_OUTPUT J) 0 (confs ctx) \<and>
    map conf_index (confs ctx') = map conf_index (confs ctx)"
proof -
  obtain cl' ev' where r: "init_configurations J 0 0 (confs ctx) (env ctx) = Returns (cl', ev')"
    "map listener_ids cl' = expected_ids (DESCRIPTOR_STREAM_INPUT J) 0 (confs ctx)"
    "map talker_ids cl' = expected_ids (DESCRIPTOR_STREAM_OUTPUT J) 0 (confs ctx)"
    "map conf_index cl' = map conf_index (confs ctx)"
    using init_configurations_result [of "env ctx" J 0 0 "confs ctx"] assms
    by (auto simp: returns_iff)
  then show ?thesis by (simp add: acmp_ctx_init_def set_confs_def)
qed

text \<open>A second configuration with one sink of its own gets a second entry with the identifier 0.\<close>

theorem init_tables_hold_stream_ids_witness:
  "\<exists>ctx'. acmp_ctx_init jdks_sample (Some (sample_entity [sample_configuration, sample_configuration] [] sample_environment)) =
      Returns (0, Some ctx') \<and> map listener_ids (confs ctx') = [[3], [3, 0]]"
proof -
  let ?ctx = "sample_entity [sample_configuration, sample_configuration] [] sample_environment"
  have "alloc_ok (env ?ctx) n" for n by (simp add: sample_entity_def sample_environment_def)
  from init_tables_hold_stream_ids [of ?ctx jdks_sample, OF this]
  show ?thesis by (auto simp: sample_entity_def sample_configuration_def jdks_sample_def)
qed

end
