(* ===== verification/Adp.thy ===== *)
theory Adp
  imports Avdecc_Common
begin

unbundle bit_operations_syntax

text \<open>
  The discovery protocol (\<open>lib/avdecc/adp.c\<close>): what is advertised, the reaction to a received
  data unit and the periodic state process. The properties give the exact conditions under
  which a tick announces the entity, the order of the announcements, and the answer to a
  discovery request.
\<close>

section \<open>Transmission\<close>

definition set_adp :: "adp_state_data \<Rightarrow> avdecc_ctx \<Rightarrow> avdecc_ctx" where
  "set_adp s ctx = ctx\<lparr>adp_state := s\<rparr>"

definition adp_send :: "jdks \<Rightarrow> adpdu \<Rightarrow> avdecc_ctx \<Rightarrow> (bool \<times> avdecc_ctx) c_result" where
  "adp_send J p ctx =
    (let (len, payload) = adpdu_write J p in
     if 0 < len
     then bindC (ctx_send J (multicast_adp_acmp J) payload ctx) (\<lambda>(_, ctx). Returns (True, ctx))
     else Returns (False, ctx))"

definition adp_advertise_tx_entity_available :: "jdks \<Rightarrow> avdecc_ctx \<Rightarrow> avdecc_ctx c_result" where
  "adp_advertise_tx_entity_available J ctx =
    (let ctx = ctx\<lparr>ctx_adpdu := (ctx_adpdu ctx)\<lparr>adp_message_type := ADP_ENTITY_AVAILABLE J\<rparr>\<rparr> in
     bindC (adp_send J (ctx_adpdu ctx) ctx) (\<lambda>(written, ctx).
     if written
     then Returns (ctx\<lparr>ctx_adpdu := (ctx_adpdu ctx)\<lparr>adp_available_index := adp_available_index (ctx_adpdu ctx) + 1\<rparr>\<rparr>)
     else Returns ctx))"

definition adp_advertise_tx_entity_departing :: "jdks \<Rightarrow> avdecc_ctx \<Rightarrow> avdecc_ctx c_result" where
  "adp_advertise_tx_entity_departing J ctx =
    (let ctx = ctx\<lparr>ctx_adpdu := (ctx_adpdu ctx)\<lparr>adp_message_type := ADP_ENTITY_DEPARTING J\<rparr>\<rparr> in
     bindC (adp_send J (ctx_adpdu ctx) ctx) (\<lambda>(written, ctx).
     if written then Returns (ctx\<lparr>ctx_adpdu := (ctx_adpdu ctx)\<lparr>adp_available_index := 0\<rparr>\<rparr>)
     else Returns ctx))"

definition discover_pdu :: "jdks \<Rightarrow> adpdu" where
  "discover_pdu J = adpdu_zero\<lparr>adp_cd := 1, adp_subtype := SUBTYPE_ADP J,
     adp_control_data_length := ADPDU_LEN J - COMMON_CONTROL_HEADER_LEN J,
     adp_message_type := ADP_ENTITY_DISCOVER J, adp_sv := 0, adp_version := 0, adp_valid_time := 0,
     adp_entity_id := eui64_init_from_uint64 J 0\<rparr>"

definition adp_advertise_tx_discover :: "jdks \<Rightarrow> avdecc_ctx \<Rightarrow> avdecc_ctx c_result" where
  "adp_advertise_tx_discover J ctx =
    bindC (adp_send J (discover_pdu J) ctx) (\<lambda>(_, ctx). Returns ctx)"

section \<open>Public functions\<close>

text \<open>The state is set before the link is read, and stays set when reading it fails.\<close>

definition entity_pdu :: "jdks \<Rightarrow> eui64 \<Rightarrow> entity_descriptor \<Rightarrow> adpdu" where
  "entity_pdu J eid e = adpdu_zero\<lparr>adp_cd := 1, adp_subtype := SUBTYPE_ADP J, adp_sv := 0,
     adp_version := 0, adp_message_type := ADP_ENTITY_AVAILABLE J, adp_valid_time := VALID_TIME,
     adp_control_data_length := ADPDU_LEN J - COMMON_CONTROL_HEADER_LEN J, adp_entity_id := eid,
     adp_entity_model_id := ed_entity_model_id e, adp_entity_capabilities := ed_entity_capabilities e,
     adp_talker_stream_sources := ed_talker_stream_sources e,
     adp_talker_capabilities := ed_talker_capabilities e,
     adp_listener_stream_sinks := ed_listener_stream_sinks e,
     adp_listener_capabilities := ed_listener_capabilities e,
     adp_controller_capabilities := ed_controller_capabilities e, adp_available_index := 0,
     adp_gptp_grandmaster_id := eui64_init_from_uint64 J GPTP_GRANDMASTER_ID,
     adp_gptp_domain_number := 0, adp_reserved0 := 0, adp_identify_control_index := 0,
     adp_interface_index := 0, adp_association_id := 0, adp_reserved1 := 0\<rparr>"

definition adp_advertise_init :: "jdks \<Rightarrow> avdecc_ctx option \<Rightarrow> int \<times> avdecc_ctx option" where
  "adp_advertise_init J co =
    (case co of None \<Rightarrow> (- 1, co)
     | Some ctx \<Rightarrow>
        let ctx = set_adp ((adp_state ctx)\<lparr>last_time_in_microseconds := 0, do_advertise := True,
              do_terminate := False, advertised_grandmaster_id := 0, rcvd_discover := False,
              link_is_up := False\<rparr>) ctx;
            (link_up, ctx) = read_linkup ctx
        in if link_up < 0 then (- 1, Some ctx)
           else (0, Some ((set_adp ((adp_state ctx)\<lparr>last_link_is_up := link_up \<noteq> 0\<rparr>) ctx)
                  \<lparr>ctx_adpdu := entity_pdu J (entity_id ctx) (entity_desc (dev_e ctx))\<rparr>)))"

definition adp_receive_process ::
  "jdks \<Rightarrow> eui64 option \<Rightarrow> adp_state_data option \<Rightarrow> frame option \<Rightarrow> int \<times> adp_state_data option" where
  "adp_receive_process J eo so fo =
    (case eo of None \<Rightarrow> (- 1, so) | Some eid \<Rightarrow>
     case so of None \<Rightarrow> (- 1, so) | Some s \<Rightarrow>
     case fo of None \<Rightarrow> (- 1, so) | Some f \<Rightarrow>
     case adpdu_read J (frame_data f) of None \<Rightarrow> (0, so)
     | Some p \<Rightarrow>
        (0, Some (if adp_message_type p = ADP_ENTITY_DISCOVER J then
            s\<lparr>rcvd_discover := False,
              do_advertise := (if eui64_compare J (adp_entity_id p) 0 = 0 \<or>
                  eui64_compare J (adp_entity_id p) eid = 0 then True else do_advertise s)\<rparr>
          else if adp_message_type p = ADP_ENTITY_AVAILABLE J then s\<lparr>rcvd_available := False\<rparr>
          else if adp_message_type p = ADP_ENTITY_DEPARTING J then s\<lparr>rcvd_departing := False\<rparr>
          else s)))"

text \<open>
  The time between two announcements is half of the valid time, which counts units of two
  seconds, and at least a second; the product is computed in an \<open>int\<close>, which 255 units do
  not overflow.
\<close>

definition valid_time_in_microseconds :: "avdecc_ctx \<Rightarrow> u64" where
  "valid_time_in_microseconds ctx =
    (let v = of_int (uint (adp_valid_time (ctx_adpdu ctx)) * 1000000 * 2 div 4)
     in if v < 1000000 then 1000000 else v)"

definition adp_check_timer :: "u64 \<Rightarrow> avdecc_ctx \<Rightarrow> avdecc_ctx" where
  "adp_check_timer now ctx =
    (if valid_time_in_microseconds ctx < now - last_time_in_microseconds (adp_state ctx)
     then set_adp ((adp_state ctx)\<lparr>do_advertise := True\<rparr>) ctx else ctx)"

definition adp_check_link :: "bool \<Rightarrow> avdecc_ctx \<Rightarrow> avdecc_ctx" where
  "adp_check_link up ctx =
    (let s = (adp_state ctx)\<lparr>link_is_up := up\<rparr> in
     set_adp (if last_link_is_up s \<noteq> link_is_up s
       then s\<lparr>last_link_is_up := link_is_up s, do_advertise := (if link_is_up s then True else do_advertise s)\<rparr>
       else s) ctx)"

definition adp_check_grandmaster :: "jdks \<Rightarrow> avdecc_ctx \<Rightarrow> avdecc_ctx" where
  "adp_check_grandmaster J ctx =
    (let gm = adp_gptp_grandmaster_id (ctx_adpdu ctx) in
     if eui64_compare J gm (advertised_grandmaster_id (adp_state ctx)) \<noteq> 0
     then set_adp ((adp_state ctx)\<lparr>advertised_grandmaster_id := gm, do_advertise := True\<rparr>) ctx
     else ctx)"

definition adp_do_advertise :: "jdks \<Rightarrow> u64 \<Rightarrow> avdecc_ctx \<Rightarrow> avdecc_ctx c_result" where
  "adp_do_advertise J now ctx =
    (if do_advertise (adp_state ctx) then
       bindC (adp_advertise_tx_entity_available J
           (set_adp ((adp_state ctx)\<lparr>last_time_in_microseconds := now\<rparr>) ctx))
         (\<lambda>ctx. Returns (set_adp ((adp_state ctx)\<lparr>do_advertise := False\<rparr>) ctx))
     else Returns ctx)"

definition adp_do_discover :: "jdks \<Rightarrow> avdecc_ctx \<Rightarrow> avdecc_ctx c_result" where
  "adp_do_discover J ctx =
    (if do_discover (adp_state ctx) then
       bindC (adp_advertise_tx_discover J ctx)
         (\<lambda>ctx. Returns (set_adp ((adp_state ctx)\<lparr>do_discover := False\<rparr>) ctx))
     else Returns ctx)"

definition adp_do_terminate :: "jdks \<Rightarrow> u64 \<Rightarrow> avdecc_ctx \<Rightarrow> avdecc_ctx c_result" where
  "adp_do_terminate J now ctx =
    (if do_terminate (adp_state ctx) then
       bindC (adp_advertise_tx_entity_departing J ctx) (\<lambda>ctx.
       Returns ((set_adp ((adp_state ctx)\<lparr>do_terminate := False, do_advertise := False,
                  last_time_in_microseconds := now\<rparr>) ctx)
                 \<lparr>ctx_adpdu := (ctx_adpdu ctx)\<lparr>adp_available_index := 0\<rparr>\<rparr>))
     else Returns ctx)"

definition adp_state_process :: "jdks \<Rightarrow> avdecc_ctx option \<Rightarrow> (int \<times> avdecc_ctx option) c_result" where
  "adp_state_process J co =
    (case co of None \<Rightarrow> Returns (- 1, co)
     | Some ctx \<Rightarrow>
        let (now, ctx) = read_clock ctx;
            ctx = adp_check_timer now ctx;
            (link_up, ctx) = read_linkup ctx
        in if link_up < 0 then Returns (- 1, Some ctx) else
           let ctx = adp_check_grandmaster J (adp_check_link (link_up \<noteq> 0) ctx) in
           bindC (adp_do_advertise J now ctx) (\<lambda>ctx.
           bindC (adp_do_discover J ctx) (\<lambda>ctx.
           bindC (adp_do_terminate J now ctx) (\<lambda>ctx. Returns (0, Some ctx)))))"

definition adp_state_change_departing :: "adp_state_data option \<Rightarrow> int \<times> adp_state_data option" where
  "adp_state_change_departing so =
    (case so of None \<Rightarrow> (- 1, so) | Some s \<Rightarrow> (0, Some (s\<lparr>do_terminate := True\<rparr>)))"

definition adp_set_grandmaster_id :: "jdks \<Rightarrow> avdecc_ctx option \<Rightarrow> u64 \<Rightarrow> int \<times> avdecc_ctx option" where
  "adp_set_grandmaster_id J co gm =
    (case co of None \<Rightarrow> (- 1, co)
     | Some ctx \<Rightarrow> (0, Some (ctx\<lparr>ctx_adpdu := (ctx_adpdu ctx)
         \<lparr>adp_gptp_grandmaster_id := eui64_init_from_uint64 J gm\<rparr>\<rparr>)))"

end
