(* ===== verification/Adp_Props.thy ===== *)
theory Adp_Props
  imports Adp
begin

unbundle bit_operations_syntax

text \<open>
  Properties of the discovery protocol: what one tick of the state process sends and leaves
  behind, the silence between two announcements, and the answer to a discovery request.
\<close>

section \<open>One tick\<close>

definition adp_frame :: "jdks \<Rightarrow> avdecc_ctx \<Rightarrow> adpdu \<Rightarrow> u8 list" where
  "adp_frame J ctx p = ethernet_frame (net_info ctx) (mac_bytes (multicast_adp_acmp J)) (snd (adpdu_write J p))"

definition tick_time :: "avdecc_ctx \<Rightarrow> u64" where
  "tick_time ctx = fst (read_clock ctx)"

definition link_readable :: "avdecc_ctx \<Rightarrow> bool" where
  "link_readable ctx \<longleftrightarrow> 0 \<le> fst (ifflags (env ctx) (ifflags_reads (env ctx)))"

definition tick_link :: "avdecc_ctx \<Rightarrow> bool" where
  "tick_link ctx \<longleftrightarrow> snd (ifflags (env ctx) (ifflags_reads (env ctx))) AND IFF_UP \<noteq> 0"

text \<open>The four reasons to announce the entity.\<close>

definition announcement_due :: "jdks \<Rightarrow> avdecc_ctx \<Rightarrow> bool" where
  "announcement_due J ctx \<longleftrightarrow> do_advertise (adp_state ctx) \<or>
    valid_time_in_microseconds ctx < tick_time ctx - last_time_in_microseconds (adp_state ctx) \<or>
    (tick_link ctx \<and> \<not> last_link_is_up (adp_state ctx)) \<or>
    eui64_compare J (adp_gptp_grandmaster_id (ctx_adpdu ctx)) (advertised_grandmaster_id (adp_state ctx)) \<noteq> 0"

definition available_pdu :: "jdks \<Rightarrow> avdecc_ctx \<Rightarrow> adpdu" where
  "available_pdu J ctx = (ctx_adpdu ctx)\<lparr>adp_message_type := ADP_ENTITY_AVAILABLE J\<rparr>"

text \<open>The entity data unit after the announcement of a tick, and after the tick.\<close>

definition announced_pdu :: "jdks \<Rightarrow> avdecc_ctx \<Rightarrow> adpdu" where
  "announced_pdu J ctx = (if announcement_due J ctx
     then (available_pdu J ctx)\<lparr>adp_available_index := adp_available_index (ctx_adpdu ctx) + 1\<rparr>
     else ctx_adpdu ctx)"

definition departing_pdu :: "jdks \<Rightarrow> avdecc_ctx \<Rightarrow> adpdu" where
  "departing_pdu J ctx = (announced_pdu J ctx)\<lparr>adp_message_type := ADP_ENTITY_DEPARTING J\<rparr>"

definition tick_frames :: "jdks \<Rightarrow> avdecc_ctx \<Rightarrow> u8 list list" where
  "tick_frames J ctx =
    (if announcement_due J ctx then [adp_frame J ctx (available_pdu J ctx)] else []) @
    (if do_discover (adp_state ctx) then [adp_frame J ctx (discover_pdu J)] else []) @
    (if do_terminate (adp_state ctx) then [adp_frame J ctx (departing_pdu J ctx)] else [])"

definition tick_state :: "jdks \<Rightarrow> avdecc_ctx \<Rightarrow> adp_state_data" where
  "tick_state J ctx = (adp_state ctx)\<lparr>do_advertise := False, do_discover := False, do_terminate := False,
     link_is_up := tick_link ctx, last_link_is_up := tick_link ctx,
     last_time_in_microseconds := (if announcement_due J ctx \<or> do_terminate (adp_state ctx)
       then tick_time ctx else last_time_in_microseconds (adp_state ctx)),
     advertised_grandmaster_id := (if eui64_compare J (adp_gptp_grandmaster_id (ctx_adpdu ctx))
         (advertised_grandmaster_id (adp_state ctx)) \<noteq> 0
       then adp_gptp_grandmaster_id (ctx_adpdu ctx) else advertised_grandmaster_id (adp_state ctx))\<rparr>"

definition tick_pdu :: "jdks \<Rightarrow> avdecc_ctx \<Rightarrow> adpdu" where
  "tick_pdu J ctx = (if do_terminate (adp_state ctx) then (departing_pdu J ctx)\<lparr>adp_available_index := 0\<rparr>
     else announced_pdu J ctx)"

definition ticked_ctx :: "jdks \<Rightarrow> avdecc_ctx \<Rightarrow> avdecc_ctx" where
  "ticked_ctx J ctx = ctx\<lparr>adp_state := tick_state J ctx, ctx_adpdu := tick_pdu J ctx,
     env := (env ctx)\<lparr>sent := sent (env ctx) @ tick_frames J ctx, clock_reads := Suc (clock_reads (env ctx)),
       ifflags_reads := Suc (ifflags_reads (env ctx))\<rparr>\<rparr>"

definition with_frame :: "u8 list \<Rightarrow> avdecc_ctx \<Rightarrow> avdecc_ctx" where
  "with_frame f ctx = ctx\<lparr>env := (env ctx)\<lparr>sent := sent (env ctx) @ [f]\<rparr>\<rparr>"

lemma adp_send_ok:
  assumes "jdks_ok J"
  shows "adp_send J p ctx = Returns (True, with_frame (adp_frame J ctx p) ctx)"
proof -
  have "0 < fst (adpdu_write J p)" "length (snd (adpdu_write J p)) \<le> 1500" using assms by (simp_all add: jdks_ok_def)
  then show ?thesis
    by (simp add: adp_send_def case_prod_beta ctx_send_def send_data_def ETH_FRAME_LEN_def
        ETHERNET_OVERHEAD_def Let_def with_frame_def adp_frame_def)
qed

lemmas adp_parts = adp_do_advertise_def adp_do_discover_def adp_do_terminate_def
  adp_advertise_tx_entity_available_def adp_advertise_tx_discover_def adp_advertise_tx_entity_departing_def

lemmas adp_checks = adp_check_timer_def adp_check_link_def adp_check_grandmaster_def
  valid_time_in_microseconds_def set_adp_def

definition checked_ctx :: "jdks \<Rightarrow> avdecc_ctx \<Rightarrow> avdecc_ctx" where
  "checked_ctx J ctx = ctx\<lparr>adp_state := (adp_state ctx)\<lparr>do_advertise := announcement_due J ctx,
       link_is_up := tick_link ctx, last_link_is_up := tick_link ctx,
       advertised_grandmaster_id := advertised_grandmaster_id (tick_state J ctx)\<rparr>,
     env := (env ctx)\<lparr>clock_reads := Suc (clock_reads (env ctx)), ifflags_reads := Suc (ifflags_reads (env ctx))\<rparr>\<rparr>"

lemma read_linkup_result:
  assumes "link_readable ctx"
  shows "read_linkup ctx = (if tick_link ctx then 1 else 0,
    ctx\<lparr>env := (env ctx)\<lparr>ifflags_reads := Suc (ifflags_reads (env ctx))\<rparr>\<rparr>)"
  using assms by (auto simp: read_linkup_def is_interface_linkup_def link_readable_def tick_link_def case_prod_beta)

lemma checks_result:
  "adp_check_grandmaster J (adp_check_link (tick_link ctx)
     (ctx\<lparr>adp_state := (adp_state ctx)\<lparr>do_advertise := do_advertise (adp_state ctx) \<or>
          valid_time_in_microseconds ctx < tick_time ctx - last_time_in_microseconds (adp_state ctx)\<rparr>,
        env := (env ctx)\<lparr>clock_reads := Suc (clock_reads (env ctx)), ifflags_reads := Suc (ifflags_reads (env ctx))\<rparr>\<rparr>)) =
   checked_ctx J ctx"
  by (auto simp: adp_check_link_def adp_check_grandmaster_def set_adp_def checked_ctx_def tick_state_def
      announcement_due_def Let_def)

lemma timer_result:
  "read_clock ctx = (tick_time ctx, c1) \<Longrightarrow> adp_check_timer (tick_time ctx) c1 =
    ctx\<lparr>adp_state := (adp_state ctx)\<lparr>do_advertise := do_advertise (adp_state ctx) \<or>
          valid_time_in_microseconds ctx < tick_time ctx - last_time_in_microseconds (adp_state ctx)\<rparr>,
        env := (env ctx)\<lparr>clock_reads := Suc (clock_reads (env ctx))\<rparr>\<rparr>"
  by (auto simp: read_clock_def case_prod_beta adp_check_timer_def set_adp_def valid_time_in_microseconds_def)

lemma steps_result:
  assumes "jdks_ok J"
  shows "bindC (adp_do_advertise J (tick_time ctx) (checked_ctx J ctx)) (\<lambda>ctx'.
      bindC (adp_do_discover J ctx') (\<lambda>ctx'. adp_do_terminate J (tick_time ctx) ctx')) =
    Returns (ticked_ctx J ctx)"
  by (cases "announcement_due J ctx"; cases "do_discover (adp_state ctx)"; cases "do_terminate (adp_state ctx)")
    (simp_all add: adp_parts adp_send_ok [OF assms] checked_ctx_def set_adp_def with_frame_def
      ticked_ctx_def tick_state_def tick_frames_def tick_pdu_def announced_pdu_def available_pdu_def
      departing_pdu_def adp_frame_def Let_def)

lemma adp_tick_result:
  assumes "jdks_ok J" "link_readable ctx"
  shows "adp_state_process J (Some ctx) = Returns (0, Some (ticked_ctx J ctx))"
proof -
  let ?c = "ctx\<lparr>adp_state := (adp_state ctx)\<lparr>do_advertise := do_advertise (adp_state ctx) \<or>
          valid_time_in_microseconds ctx < tick_time ctx - last_time_in_microseconds (adp_state ctx)\<rparr>,
        env := (env ctx)\<lparr>clock_reads := Suc (clock_reads (env ctx))\<rparr>\<rparr>"
  have rc: "read_clock ctx = (tick_time ctx, snd (read_clock ctx))" by (simp add: tick_time_def)
  have l: "read_linkup ?c = (if tick_link ctx then 1 else 0,
      ?c\<lparr>env := (env ?c)\<lparr>ifflags_reads := Suc (ifflags_reads (env ctx))\<rparr>\<rparr>)"
    using read_linkup_result [of ?c] assms(2) by (simp add: link_readable_def tick_link_def)
  have "adp_state_process J (Some ctx) =
      bindC (bindC (adp_do_advertise J (tick_time ctx) (checked_ctx J ctx)) (\<lambda>ctx'.
        bindC (adp_do_discover J ctx') (\<lambda>ctx'. adp_do_terminate J (tick_time ctx) ctx')))
        (\<lambda>ctx. Returns (0, Some ctx))"
    using checks_result [of J ctx]
    by (cases "tick_link ctx") (simp_all add: adp_state_process_def case_prod_beta timer_result [OF rc] tick_time_def [symmetric] l Let_def
        bindC_assoc)
  then show ?thesis using steps_result [OF assms(1)] by simp
qed

text \<open>
  C7: One tick of the advertising processing sends an announcement exactly when the timer, the
  link, the grandmaster or a request makes it due, then the discovery and the departure that
  were requested, and clears all requests.
\<close>
theorem tick_announces_exactly_when_due:
  assumes "jdks_ok J" "link_readable ctx"
  shows "\<exists>ctx'. adp_state_process J (Some ctx) = Returns (0, Some ctx') \<and>
    sent (env ctx') = sent (env ctx) @
      (if announcement_due J ctx then [adp_frame J ctx (available_pdu J ctx)] else []) @
      (if do_discover (adp_state ctx) then [adp_frame J ctx (discover_pdu J)] else []) @
      (if do_terminate (adp_state ctx) then [adp_frame J ctx (departing_pdu J ctx)] else []) \<and>
    \<not> do_advertise (adp_state ctx') \<and> \<not> do_discover (adp_state ctx') \<and> \<not> do_terminate (adp_state ctx') \<and>
    last_link_is_up (adp_state ctx') = tick_link ctx \<and>
    advertised_grandmaster_id (adp_state ctx') = adp_gptp_grandmaster_id (ctx_adpdu ctx) \<and>
    adp_available_index (ctx_adpdu ctx') =
      (if do_terminate (adp_state ctx) then 0
       else if announcement_due J ctx then adp_available_index (ctx_adpdu ctx) + 1
       else adp_available_index (ctx_adpdu ctx))"
  using adp_tick_result [OF assms] eui64_compare_ok [OF assms(1)]
  by (simp add: ticked_ctx_def tick_state_def tick_frames_def tick_pdu_def departing_pdu_def
      announced_pdu_def available_pdu_def)

section \<open>Silence between announcements\<close>

lemma valid_time_ticked [simp]: "valid_time_in_microseconds (ticked_ctx J ctx) = valid_time_in_microseconds ctx"
  by (simp add: valid_time_in_microseconds_def ticked_ctx_def tick_pdu_def departing_pdu_def announced_pdu_def
      available_pdu_def)

lemma grandmaster_ticked:
  "jdks_ok J \<Longrightarrow> adp_gptp_grandmaster_id (ctx_adpdu (ticked_ctx J ctx)) =
    advertised_grandmaster_id (adp_state (ticked_ctx J ctx))"
  using eui64_compare_ok [of J]
  by (simp add: ticked_ctx_def tick_state_def tick_pdu_def departing_pdu_def announced_pdu_def available_pdu_def)

text \<open>
  After a tick that announced the entity, a second tick within half of the valid time sends
  nothing, unless the link came up.
\<close>
theorem no_announcement_before_half_valid_time:
  assumes "jdks_ok J" "link_readable ctx" "announcement_due J ctx"
    "link_readable (ticked_ctx J ctx)" "tick_link (ticked_ctx J ctx) \<longrightarrow> tick_link ctx"
    "tick_time (ticked_ctx J ctx) - tick_time ctx \<le> valid_time_in_microseconds ctx"
  shows "\<exists>ctx1 ctx2. adp_state_process J (Some ctx) = Returns (0, Some ctx1) \<and>
    adp_state_process J (Some ctx1) = Returns (0, Some ctx2) \<and>
    sent (env ctx2) = sent (env ctx1) \<and> ctx_adpdu ctx2 = ctx_adpdu ctx1"
proof -
  let ?c1 = "ticked_ctx J ctx"
  have "last_time_in_microseconds (adp_state ?c1) = tick_time ctx" "\<not> do_advertise (adp_state ?c1)"
    "\<not> do_discover (adp_state ?c1)" "\<not> do_terminate (adp_state ?c1)" "last_link_is_up (adp_state ?c1) = tick_link ctx"
    using assms(3) by (simp_all add: ticked_ctx_def tick_state_def)
  moreover from this have "\<not> announcement_due J ?c1"
    using assms(5,6) grandmaster_ticked [OF assms(1), of ctx] eui64_compare_ok [OF assms(1)]
    by (auto simp: announcement_due_def)
  ultimately have "tick_frames J ?c1 = []" "tick_pdu J ?c1 = ctx_adpdu ?c1"
    by (simp_all add: tick_frames_def tick_pdu_def announced_pdu_def)
  then have "sent (env (ticked_ctx J ?c1)) = sent (env ?c1)" "ctx_adpdu (ticked_ctx J ?c1) = ctx_adpdu ?c1"
    by (simp_all add: ticked_ctx_def [of J ?c1])
  then show ?thesis
    using adp_tick_result [OF assms(1,2)] adp_tick_result [OF assms(1,4)] by blast
qed

section \<open>The answer to a discovery\<close>

definition discover_frame :: "jdks \<Rightarrow> eui64 \<Rightarrow> frame \<Rightarrow> bool" where
  "discover_frame J eid f \<longleftrightarrow> (case adpdu_read J (frame_data f) of None \<Rightarrow> False
    | Some p \<Rightarrow> adp_message_type p = ADP_ENTITY_DISCOVER J \<and> (adp_entity_id p = 0 \<or> adp_entity_id p = eid))"

text \<open>
  A received discovery of the entity, or of all entities, is answered by an announcement in
  the next tick.
\<close>
theorem discovery_is_answered_by_next_tick:
  assumes "jdks_ok J" "link_readable ctx" "discover_frame J (entity_id ctx) f"
  shows "\<exists>s ctx'. adp_receive_process J (Some (entity_id ctx)) (Some (adp_state ctx)) (Some f) = (0, Some s) \<and>
    adp_state_process J (Some (ctx\<lparr>adp_state := s\<rparr>)) = Returns (0, Some ctx') \<and>
    (\<exists>rest. sent (env ctx') = sent (env ctx) @ adp_frame J ctx (available_pdu J ctx) # rest)"
proof -
  let ?s = "(adp_state ctx)\<lparr>rcvd_discover := False, do_advertise := True\<rparr>"
  have r: "adp_receive_process J (Some (entity_id ctx)) (Some (adp_state ctx)) (Some f) = (0, Some ?s)"
    using assms(3) eui64_compare_ok [OF assms(1)]
    by (auto simp: adp_receive_process_def discover_frame_def split: option.splits)
  have "link_readable (ctx\<lparr>adp_state := ?s\<rparr>)" using assms(2) by (simp add: link_readable_def)
  note t = adp_tick_result [OF assms(1) this]
  have "announcement_due J (ctx\<lparr>adp_state := ?s\<rparr>)" by (simp add: announcement_due_def)
  then have "\<exists>rest. sent (env (ticked_ctx J (ctx\<lparr>adp_state := ?s\<rparr>))) =
      sent (env ctx) @ adp_frame J ctx (available_pdu J ctx) # rest"
    by (simp add: ticked_ctx_def tick_frames_def adp_frame_def available_pdu_def)
  then show ?thesis using r t by blast
qed

section \<open>Witnesses\<close>

definition sample_announcer :: avdecc_ctx where
  "sample_announcer = (sample_entity [sample_configuration] [] sample_environment)
     \<lparr>ctx_adpdu := adpdu_zero\<lparr>adp_valid_time := VALID_TIME\<rparr>\<rparr>"

text \<open>A package whose reader finds a discovery of every entity in any data unit.\<close>

definition jdks_discover :: jdks where
  "jdks_discover = jdks_sample\<lparr>adpdu_read := (\<lambda>_. Some (adpdu_zero\<lparr>adp_message_type := 2\<rparr>))\<rparr>"

lemma jdks_discover_ok: "jdks_ok jdks_discover"
  using jdks_sample_ok by (simp add: jdks_ok_def jdks_discover_def acmp_message_types_def acmp_statuses_def)

lemmas announcer_defs = sample_announcer_def sample_entity_def sample_environment_def sample_network_def
  adpdu_zero_def VALID_TIME_def link_readable_def tick_link_def tick_time_def read_clock_def
  valid_time_in_microseconds_def IFF_UP_def

theorem tick_announces_exactly_when_due_witness:
  "\<exists>ctx'. adp_state_process jdks_sample (Some sample_announcer) = Returns (0, Some ctx') \<and>
    length (sent (env ctx')) = 1 \<and> adp_available_index (ctx_adpdu ctx') = 1"
proof -
  have l: "link_readable sample_announcer" by (simp add: announcer_defs)
  have d: "announcement_due jdks_sample sample_announcer" by (simp add: announcement_due_def announcer_defs)
  have s: "sent (env sample_announcer) = []" "\<not> do_terminate (adp_state sample_announcer)"
    "\<not> do_discover (adp_state sample_announcer)" "adp_available_index (ctx_adpdu sample_announcer) = 0"
    by (simp_all add: announcer_defs)
  show ?thesis using tick_announces_exactly_when_due [OF jdks_sample_ok l] d s by auto
qed

theorem no_announcement_before_half_valid_time_witness:
  "\<exists>ctx1 ctx2. adp_state_process jdks_sample (Some sample_announcer) = Returns (0, Some ctx1) \<and>
    adp_state_process jdks_sample (Some ctx1) = Returns (0, Some ctx2) \<and> sent (env ctx2) = sent (env ctx1)"
proof -
  let ?c = "ticked_ctx jdks_sample sample_announcer"
  have a: "link_readable sample_announcer" "announcement_due jdks_sample sample_announcer"
    by (simp_all add: announcement_due_def announcer_defs)
  have b: "link_readable ?c" "tick_link ?c \<longrightarrow> tick_link sample_announcer"
    "tick_time ?c - tick_time sample_announcer \<le> valid_time_in_microseconds sample_announcer"
    by (simp_all add: ticked_ctx_def announcer_defs)
  show ?thesis using no_announcement_before_half_valid_time [OF jdks_sample_ok a b] by blast
qed

theorem discovery_is_answered_by_next_tick_witness:
  "\<exists>s ctx'. adp_receive_process jdks_discover (Some 0xA1) (Some (adp_state sample_announcer))
      (Some \<lparr>fr_dest = [], fr_src = [], fr_ethertype = 0, fr_length = 0, fr_payload = []\<rparr>) = (0, Some s) \<and>
    adp_state_process jdks_discover (Some (sample_announcer\<lparr>adp_state := s\<rparr>)) = Returns (0, Some ctx') \<and>
    sent (env ctx') \<noteq> []"
proof -
  let ?f = "\<lparr>fr_dest = [], fr_src = [], fr_ethertype = 0, fr_length = 0, fr_payload = []\<rparr>"
  have e: "entity_id sample_announcer = 0xA1" by (simp add: announcer_defs)
  have l: "link_readable sample_announcer" by (simp add: announcer_defs)
  have "discover_frame jdks_discover (entity_id sample_announcer) ?f"
    by (simp add: discover_frame_def jdks_discover_def jdks_sample_def adpdu_zero_def)
  from discovery_is_answered_by_next_tick [OF jdks_discover_ok l this] e
  show ?thesis by fastforce
qed

end
