(* ===== verification/Jdks_Aem.thy ===== *)
theory Jdks_Aem
  imports Avdecc_Common
begin

text \<open>
  What \<open>lib/avdecc/aecp.c\<close> takes from the jdksavdecc-c package: the constants of the
  enumeration and control protocol, the readers and writers of its data units and of the
  descriptors, and the byte order conversions. They are the fields of \<open>jdks_aem\<close>, an argument
  of the definitions that use them. A writer of a data unit writes at the start of the
  payload, a writer of a descriptor or of an element at a position; both return the package's
  result and the payload. \<open>aem_ok\<close> is what the package documents: distinct constants, writers
  that keep the payload's size and succeed on an empty frame.
\<close>

record aecpdu_common =
  ae_cd :: u8
  ae_subtype :: u8
  ae_sv :: u8
  ae_version :: u8
  ae_message_type :: u8
  ae_status :: u8
  ae_control_data_length :: u16
  ae_target_entity_id :: eui64
  ae_controller_entity_id :: eui64
  ae_sequence_id :: u16

record aecpdu_aem =
  ae_common :: aecpdu_common
  ae_command_type :: u16

record read_descriptor_command =
  rd_configuration_index :: u16
  rd_descriptor_type :: u16
  rd_descriptor_index :: u16

record read_descriptor_response =
  rr_header :: aecpdu_aem
  rr_configuration_index :: u16
  rr_reserved :: u16

text \<open>The package's descriptor writers, one for each structure.\<close>

datatype descriptor_writer =
    W_configuration | W_audio_unit | W_video | W_stream | W_jack | W_avb_interface | W_clock_source
  | W_locale | W_strings | W_stream_port | W_audio_cluster | W_video_cluster | W_audio_map
  | W_video_map | W_clock_domain

type_synonym payload_write = "u8 list \<Rightarrow> int \<times> u8 list"

record jdks_aem =
  AEM_COMMAND :: u8
  AEM_RESPONSE :: u8
  ADDRESS_ACCESS_COMMAND :: u8
  AVC_COMMAND :: u8
  VENDOR_UNIQUE_COMMAND :: u8
  HDCP_APM_COMMAND :: u8
  EXTENDED_COMMAND :: u8
  SUBTYPE_AECP :: u8
  AEM_SUCCESS :: u8
  AEM_NOT_IMPLEMENTED :: u8
  AEM_NO_SUCH_DESCRIPTOR :: u8
  AEM_NOT_SUPPORTED :: u8
  CMD_ENTITY_AVAILABLE :: u16
  CMD_READ_DESCRIPTOR :: u16
  ENTITY_AVAILABLE_RESPONSE_LEN :: u16
  READ_DESCRIPTOR_RESPONSE_LEN :: u16
  OFFSET_DESCRIPTOR :: int
  D_ENTITY :: u16
  D_CONFIGURATION :: u16
  D_AUDIO_UNIT :: u16
  D_VIDEO_UNIT :: u16
  D_STREAM_INPUT :: u16
  D_STREAM_OUTPUT :: u16
  D_JACK_INPUT :: u16
  D_JACK_OUTPUT :: u16
  D_AVB_INTERFACE :: u16
  D_CLOCK_SOURCE :: u16
  D_LOCALE :: u16
  D_STRINGS :: u16
  D_STREAM_PORT_INPUT :: u16
  D_STREAM_PORT_OUTPUT :: u16
  D_AUDIO_CLUSTER :: u16
  D_VIDEO_CLUSTER :: u16
  D_AUDIO_MAP :: u16
  D_VIDEO_MAP :: u16
  D_CLOCK_DOMAIN :: u16
  frame_payload_size :: nat
  frame_length_of :: "int \<Rightarrow> nat"
  aecpdu_common_read :: "u8 list \<Rightarrow> int \<times> aecpdu_common"
  aecpdu_aem_read :: "u8 list \<Rightarrow> int \<times> aecpdu_aem"
  read_descriptor_read :: "u8 list \<Rightarrow> int \<times> read_descriptor_command"
  aecpdu_common_write :: "aecpdu_common \<Rightarrow> payload_write"
  aecpdu_aem_write :: "aecpdu_aem \<Rightarrow> payload_write"
  entity_available_response_write :: "aecpdu_aem \<Rightarrow> payload_write"
  read_descriptor_response_write :: "read_descriptor_response \<Rightarrow> payload_write"
  entity_write :: "entity_descriptor \<Rightarrow> int \<Rightarrow> payload_write"
  descriptor_write :: "descriptor_writer \<Rightarrow> u8 list \<Rightarrow> int \<Rightarrow> payload_write"
  write_descriptor_counts :: "u16 \<Rightarrow> u16 \<Rightarrow> int \<Rightarrow> payload_write"
  uint16_write :: "u16 \<Rightarrow> int \<Rightarrow> payload_write"
  uint32_write :: "u32 \<Rightarrow> int \<Rightarrow> payload_write"
  uint64_write :: "u64 \<Rightarrow> int \<Rightarrow> payload_write"
  audio_mapping_write :: "audio_mapping \<Rightarrow> int \<Rightarrow> payload_write"
  video_mapping_write :: "video_mapping \<Rightarrow> int \<Rightarrow> payload_write"
  endian_reverse_uint16 :: "u16 \<Rightarrow> u16"
  endian_reverse_uint32 :: "u32 \<Rightarrow> u32"
  endian_reverse_uint64 :: "u64 \<Rightarrow> u64"

definition aecp_commands :: "jdks_aem \<Rightarrow> u8 list" where
  "aecp_commands A = [AEM_COMMAND A, ADDRESS_ACCESS_COMMAND A, AVC_COMMAND A,
     VENDOR_UNIQUE_COMMAND A, HDCP_APM_COMMAND A, EXTENDED_COMMAND A]"

definition descriptor_types :: "jdks_aem \<Rightarrow> u16 list" where
  "descriptor_types A = [D_ENTITY A, D_CONFIGURATION A, D_AUDIO_UNIT A, D_VIDEO_UNIT A, D_STREAM_INPUT A,
     D_STREAM_OUTPUT A, D_JACK_INPUT A, D_JACK_OUTPUT A, D_AVB_INTERFACE A, D_CLOCK_SOURCE A, D_LOCALE A,
     D_STRINGS A, D_STREAM_PORT_INPUT A, D_STREAM_PORT_OUTPUT A, D_AUDIO_CLUSTER A, D_VIDEO_CLUSTER A,
     D_AUDIO_MAP A, D_VIDEO_MAP A, D_CLOCK_DOMAIN A]"

text \<open>A writer that succeeds on any payload of the size of a frame.\<close>

definition writes_ok :: "nat \<Rightarrow> payload_write \<Rightarrow> bool" where
  "writes_ok n w \<longleftrightarrow> (\<forall>p. length p = n \<longrightarrow> 0 < fst (w p) \<and> fst (w p) \<le> int n \<and> length (snd (w p)) = n)"

definition aem_ok :: "jdks_aem \<Rightarrow> bool" where
  "aem_ok A \<longleftrightarrow> distinct (AEM_RESPONSE A # aecp_commands A) \<and>
    distinct [AEM_SUCCESS A, AEM_NOT_IMPLEMENTED A, AEM_NO_SUCH_DESCRIPTOR A, AEM_NOT_SUPPORTED A] \<and>
    CMD_ENTITY_AVAILABLE A \<noteq> CMD_READ_DESCRIPTOR A \<and> distinct (descriptor_types A) \<and>
    frame_payload_size A \<le> 1500 \<and>
    (\<forall>n. 0 \<le> n \<and> n \<le> int (frame_payload_size A) \<longrightarrow> frame_length_of A n = nat n) \<and>
    (\<forall>u. writes_ok (frame_payload_size A) (aecpdu_common_write A u)) \<and>
    (\<forall>u. writes_ok (frame_payload_size A) (aecpdu_aem_write A u)) \<and>
    (\<forall>u. writes_ok (frame_payload_size A) (entity_available_response_write A u)) \<and>
    (\<forall>u. writes_ok (frame_payload_size A) (read_descriptor_response_write A u))"

lemma aem_okD:
  assumes "aem_ok A"
  shows "distinct (AEM_RESPONSE A # aecp_commands A)" "distinct (descriptor_types A)"
    "CMD_ENTITY_AVAILABLE A \<noteq> CMD_READ_DESCRIPTOR A" "frame_payload_size A \<le> 1500"
    "0 \<le> n \<Longrightarrow> n \<le> int (frame_payload_size A) \<Longrightarrow> frame_length_of A n = nat n"
    "writes_ok (frame_payload_size A) (aecpdu_common_write A u)"
    "writes_ok (frame_payload_size A) (aecpdu_aem_write A v)"
    "writes_ok (frame_payload_size A) (entity_available_response_write A v)"
    "writes_ok (frame_payload_size A) (read_descriptor_response_write A w)"
  using assms by (auto simp: aem_ok_def)

text \<open>
  A package that meets the contract. A big endian writer of fixed size puts its bytes at the
  position and fails when they do not fit.
\<close>

definition put :: "nat \<Rightarrow> u8 list \<Rightarrow> int \<Rightarrow> payload_write" where
  "put n bs pos p =
    (if 0 \<le> pos \<and> pos + int n \<le> int (length p) \<and> length bs = n
     then (pos + int n, take (nat pos) p @ bs @ drop (nat pos + n) p) else (- 1, p))"

lemma length_put [simp]: "length (snd (put n bs pos p)) = length p"
  by (auto simp: put_def)

lemma put_start_ok: "0 < n \<Longrightarrow> n \<le> k \<Longrightarrow> length bs = n \<Longrightarrow> writes_ok k (put n bs 0)"
  by (auto simp: writes_ok_def put_def)

definition aecp_header_bytes :: "aecpdu_common \<Rightarrow> u8 list" where
  "aecp_header_bytes h = [0xfb, ae_message_type h, ae_status h] @ be_bytes 2 (ae_control_data_length h)
     @ be_bytes 8 (ae_target_entity_id h) @ be_bytes 8 (ae_controller_entity_id h) @ be_bytes 2 (ae_sequence_id h)"

definition aem_header_bytes :: "aecpdu_aem \<Rightarrow> u8 list" where
  "aem_header_bytes h = aecp_header_bytes (ae_common h) @ be_bytes 2 (ae_command_type h)"

lemma length_header_bytes [simp]: "length (aecp_header_bytes h) = 23" "length (aem_header_bytes g) = 25"
  by (simp_all add: aecp_header_bytes_def aem_header_bytes_def)

text \<open>Every frame of the sample is a command for entity 0xA1, given by the arguments.\<close>

definition aem_sample :: "u8 \<Rightarrow> u16 \<Rightarrow> read_descriptor_command \<Rightarrow> jdks_aem" where
  "aem_sample mtype command rd = \<lparr> AEM_COMMAND = 0, AEM_RESPONSE = 1, ADDRESS_ACCESS_COMMAND = 2,
    AVC_COMMAND = 4, VENDOR_UNIQUE_COMMAND = 6, HDCP_APM_COMMAND = 8, EXTENDED_COMMAND = 14,
    SUBTYPE_AECP = 0x7b, AEM_SUCCESS = 0, AEM_NOT_IMPLEMENTED = 1, AEM_NO_SUCH_DESCRIPTOR = 2,
    AEM_NOT_SUPPORTED = 11, CMD_ENTITY_AVAILABLE = 2, CMD_READ_DESCRIPTOR = 4,
    ENTITY_AVAILABLE_RESPONSE_LEN = 24, READ_DESCRIPTOR_RESPONSE_LEN = 28, OFFSET_DESCRIPTOR = 28,
    D_ENTITY = 0, D_CONFIGURATION = 1, D_AUDIO_UNIT = 2, D_VIDEO_UNIT = 3, D_STREAM_INPUT = 5,
    D_STREAM_OUTPUT = 6, D_JACK_INPUT = 7, D_JACK_OUTPUT = 8, D_AVB_INTERFACE = 9, D_CLOCK_SOURCE = 10,
    D_LOCALE = 12, D_STRINGS = 13, D_STREAM_PORT_INPUT = 14, D_STREAM_PORT_OUTPUT = 15,
    D_AUDIO_CLUSTER = 20, D_VIDEO_CLUSTER = 21, D_AUDIO_MAP = 23, D_VIDEO_MAP = 24, D_CLOCK_DOMAIN = 36,
    frame_payload_size = 1500, frame_length_of = nat,
    aecpdu_common_read = (\<lambda>_. (22, \<lparr> ae_cd = 1, ae_subtype = 0x7b, ae_sv = 0, ae_version = 0,
      ae_message_type = mtype, ae_status = 0, ae_control_data_length = 20, ae_target_entity_id = 0xA1,
      ae_controller_entity_id = 0xC0, ae_sequence_id = 7 \<rparr>)),
    aecpdu_aem_read = (\<lambda>_. (24, \<lparr> ae_common = \<lparr> ae_cd = 1, ae_subtype = 0x7b, ae_sv = 0, ae_version = 0,
      ae_message_type = mtype, ae_status = 0, ae_control_data_length = 20, ae_target_entity_id = 0xA1,
      ae_controller_entity_id = 0xC0, ae_sequence_id = 7 \<rparr>, ae_command_type = command \<rparr>)),
    read_descriptor_read = (\<lambda>_. (30, rd)),
    aecpdu_common_write = (\<lambda>u. put 23 (aecp_header_bytes u) 0),
    aecpdu_aem_write = (\<lambda>u. put 25 (aem_header_bytes u) 0),
    entity_available_response_write = (\<lambda>u. put 25 (aem_header_bytes u) 0),
    read_descriptor_response_write = (\<lambda>r. put 28 (aem_header_bytes (rr_header r) @
      be_bytes 2 (rr_configuration_index r) @ [0]) 0),
    entity_write = (\<lambda>e. put 8 (be_bytes 8 (ed_entity_id e))),
    descriptor_write = (\<lambda>w bs. put (length bs) bs),
    write_descriptor_counts = (\<lambda>t n. put 4 (be_bytes 2 t @ be_bytes 2 n)),
    uint16_write = (\<lambda>v. put 2 (be_bytes 2 v)), uint32_write = (\<lambda>v. put 4 (be_bytes 4 v)),
    uint64_write = (\<lambda>v. put 8 (be_bytes 8 v)),
    audio_mapping_write = (\<lambda>m. put 2 (be_bytes 2 (am_stream_index m))),
    video_mapping_write = (\<lambda>m. put 2 (be_bytes 2 (vm_stream_index m))),
    endian_reverse_uint16 = (\<lambda>v. v), endian_reverse_uint32 = (\<lambda>v. v),
    endian_reverse_uint64 = (\<lambda>v. be_word (le_bytes 8 v)) \<rparr>"

lemma aem_sample_ok: "aem_ok (aem_sample mtype command rd)"
  by (simp add: aem_ok_def aem_sample_def aecp_commands_def descriptor_types_def put_start_ok)

end
