(* ===== verification/Aecp.thy ===== *)
theory Aecp
  imports Jdks_Aem
begin

unbundle bit_operations_syntax

text \<open>
  The enumeration and control protocol (\<open>lib/avdecc/aecp.c\<close>): the search for a descriptor, its
  transmission with the arrays that follow it, and the dispatch of the commands. The stack
  frame of an answer starts with arbitrary bytes, the argument \<open>junk\<close>.
\<close>

section \<open>Headers and transmission\<close>

definition aecp_send_frame ::
  "jdks \<Rightarrow> jdks_aem \<Rightarrow> u8 list \<Rightarrow> u8 list \<Rightarrow> int \<Rightarrow> avdecc_ctx \<Rightarrow> (int \<times> avdecc_ctx) c_result" where
  "aecp_send_frame J A dest payload sz ctx =
    (let len = frame_length_of A sz in
     if length payload < len then UB else
       bindC (send_data J (Some (net_info ctx)) (Some (take 6 dest)) (Some (take len payload)) (env ctx))
         (\<lambda>(rc, ev). Returns (rc, ctx\<lparr>env := ev\<rparr>)))"

definition aecpdu_fill ::
  "jdks_aem \<Rightarrow> u8 \<Rightarrow> u8 \<Rightarrow> u16 \<Rightarrow> eui64 \<Rightarrow> eui64 \<Rightarrow> u16 \<Rightarrow> aecpdu_common" where
  "aecpdu_fill A mtype st len target controller seq =
    \<lparr> ae_cd = 1, ae_subtype = SUBTYPE_AECP A, ae_sv = 0, ae_version = 0, ae_message_type = mtype,
      ae_status = st, ae_control_data_length = len, ae_target_entity_id = target,
      ae_controller_entity_id = controller, ae_sequence_id = seq \<rparr>"

definition aecpdu_aem_fill ::
  "jdks_aem \<Rightarrow> u8 \<Rightarrow> u8 \<Rightarrow> u16 \<Rightarrow> eui64 \<Rightarrow> eui64 \<Rightarrow> u16 \<Rightarrow> u16 \<Rightarrow> aecpdu_aem" where
  "aecpdu_aem_fill A mtype st len target controller seq command =
    \<lparr> ae_common = aecpdu_fill A mtype st len target controller seq, ae_command_type = command \<rparr>"

definition aecp_send_command_not_implemented ::
  "jdks \<Rightarrow> jdks_aem \<Rightarrow> u8 list \<Rightarrow> avdecc_ctx \<Rightarrow> frame \<Rightarrow> eui64 \<Rightarrow> u16 \<Rightarrow> u8 \<Rightarrow> (int \<times> avdecc_ctx) c_result" where
  "aecp_send_command_not_implemented J A junk ctx f controller seq mtype =
    (let (len, payload) = aecpdu_common_write A
           (aecpdu_fill A mtype (AEM_NOT_IMPLEMENTED A) 0 (entity_id ctx) controller seq) junk
     in aecp_send_frame J A (fr_src f) payload (int (frame_length_of A len)) ctx)"

definition aecp_send_aem_command_not_implemented ::
  "jdks \<Rightarrow> jdks_aem \<Rightarrow> u8 list \<Rightarrow> avdecc_ctx \<Rightarrow> frame \<Rightarrow> eui64 \<Rightarrow> u16 \<Rightarrow> u16 \<Rightarrow> (int \<times> avdecc_ctx) c_result" where
  "aecp_send_aem_command_not_implemented J A junk ctx f controller seq command =
    (let (len, payload) = aecpdu_aem_write A
           (aecpdu_aem_fill A (AEM_RESPONSE A) (AEM_NOT_IMPLEMENTED A) 0 (entity_id ctx) controller seq command) junk
     in aecp_send_frame J A (fr_src f) payload (int (frame_length_of A len)) ctx)"

section \<open>Descriptors\<close>

text \<open>What the search points to: the entity, or a descriptor of the list.\<close>

datatype descriptor_ref = Entity_Ref entity_descriptor | Descriptor_Ref descriptor_data

fun first_some :: "('a \<Rightarrow> 'b option) \<Rightarrow> 'a list \<Rightarrow> 'b option" where
  "first_some f [] = None"
| "first_some f (x # xs) = (case f x of Some y \<Rightarrow> Some y | None \<Rightarrow> first_some f xs)"

definition aecp_valid_descriptor ::
  "jdks_aem \<Rightarrow> device_entity \<Rightarrow> u16 \<Rightarrow> u16 \<Rightarrow> u16 \<Rightarrow> descriptor_ref option" where
  "aecp_valid_descriptor A e conf dtype index =
    (if dtype = D_ENTITY A then
       (if ed_descriptor_index (entity_desc e) = index then Some (Entity_Ref (entity_desc e)) else None)
     else if dtype = D_CONFIGURATION A then
       first_some (\<lambda>c. if descriptor_index (configuration c) = index
         then Some (Descriptor_Ref (configuration c)) else None) (configurations e)
     else
       first_some (\<lambda>c. if descriptor_index (configuration c) = conf
         then first_some (\<lambda>d. if descriptor_type d = dtype \<and> descriptor_index d = index
                then Some (Descriptor_Ref d) else None) (descriptors c)
         else None) (configurations e))"

text \<open>
  The arrays after the structure: \<open>n\<close> elements are read, which is undefined behaviour when the
  array has fewer. The formats of a stream are an array of bytes that is read eight bytes
  from each index.
\<close>

definition elements :: "u16 \<Rightarrow> 'v list \<Rightarrow> 'v list c_result" where
  "elements n xs = (if unat n \<le> length xs then Returns (take (unat n) xs) else UB)"

fun write_elements :: "('v \<Rightarrow> int \<Rightarrow> payload_write) \<Rightarrow> 'v list \<Rightarrow> int \<times> u8 list \<Rightarrow> int \<times> u8 list" where
  "write_elements w [] s = s"
| "write_elements w (v # vs) s = write_elements w vs (w v (fst s) (snd s))"

definition write_counted ::
  "('v \<Rightarrow> int \<Rightarrow> payload_write) \<Rightarrow> u16 \<Rightarrow> 'v list \<Rightarrow> int \<times> u8 list \<Rightarrow> (int \<times> u8 list) c_result" where
  "write_counted w n xs s = bindC (elements n xs) (\<lambda>vs. Returns (write_elements w vs s))"

fun stream_formats :: "endian \<Rightarrow> nat \<Rightarrow> nat \<Rightarrow> u8 list \<Rightarrow> u64 list c_result" where
  "stream_formats E 0 i bs = Returns []"
| "stream_formats E (Suc n) i bs =
    (case rdn i 8 bs of None \<Rightarrow> UB
     | Some w \<Rightarrow> bindC (stream_formats E n (Suc i) bs) (\<lambda>vs. Returns (host_word E w # vs)))"

definition htons_audio :: "endian \<Rightarrow> audio_mapping \<Rightarrow> audio_mapping" where
  "htons_audio E m = \<lparr> am_stream_index = htons E (am_stream_index m), am_stream_channel = htons E (am_stream_channel m),
     am_cluster_offset = htons E (am_cluster_offset m), am_cluster_channel = htons E (am_cluster_channel m) \<rparr>"

definition htons_video :: "endian \<Rightarrow> video_mapping \<Rightarrow> video_mapping" where
  "htons_video E m = \<lparr> vm_stream_index = htons E (vm_stream_index m), vm_program_stream = htons E (vm_program_stream m),
     vm_elementary_stream = htons E (vm_elementary_stream m), vm_cluster_offset = htons E (vm_cluster_offset m) \<rparr>"

text \<open>The first switch: which structure of the union is written, \<open>None\<close> for an unknown type.\<close>

definition struct_writer :: "jdks_aem \<Rightarrow> u16 \<Rightarrow> descriptor_writer option" where
  "struct_writer A t =
    (if t = D_CONFIGURATION A then Some W_configuration
     else if t = D_AUDIO_UNIT A then Some W_audio_unit
     else if t = D_VIDEO_UNIT A then Some W_video
     else if t = D_STREAM_INPUT A \<or> t = D_STREAM_OUTPUT A then Some W_stream
     else if t = D_JACK_INPUT A \<or> t = D_JACK_OUTPUT A then Some W_jack
     else if t = D_AVB_INTERFACE A then Some W_avb_interface
     else if t = D_CLOCK_SOURCE A then Some W_clock_source
     else if t = D_LOCALE A then Some W_locale
     else if t = D_STRINGS A then Some W_strings
     else if t = D_STREAM_PORT_INPUT A \<or> t = D_STREAM_PORT_OUTPUT A then Some W_stream_port
     else if t = D_AUDIO_CLUSTER A then Some W_audio_cluster
     else if t = D_VIDEO_CLUSTER A then Some W_video_cluster
     else if t = D_AUDIO_MAP A then Some W_audio_map
     else if t = D_VIDEO_MAP A then Some W_video_map
     else if t = D_CLOCK_DOMAIN A then Some W_clock_domain
     else None)"

definition write_video_cluster ::
  "jdks_aem \<Rightarrow> video_cluster_arrays \<Rightarrow> int \<times> u8 list \<Rightarrow> (int \<times> u8 list) c_result" where
  "write_video_cluster A v s =
    (let w32 = (\<lambda>x. uint32_write A (endian_reverse_uint32 A x));
         w16 = (\<lambda>x. uint16_write A (endian_reverse_uint16 A x)) in
     bindC (write_counted w32 (format_specifics_count v) (format_specifics v) s) (\<lambda>s.
     bindC (write_counted w32 (vc_sampling_rates_count v) (vc_sampling_rates v) s) (\<lambda>s.
     bindC (write_counted w16 (aspect_ratios_count v) (aspect_ratios v) s) (\<lambda>s.
     bindC (write_counted w32 (sizes_count v) (sizes v) s) (\<lambda>s.
     write_counted w16 (color_spaces_count v) (color_spaces v) s)))))"

text \<open>
  The second switch. The arrays are a member of the union, so reading the member of another
  type is undefined behaviour.
\<close>

definition write_arrays ::
  "endian \<Rightarrow> jdks_aem \<Rightarrow> u16 \<Rightarrow> descriptor_arrays \<Rightarrow> int \<times> u8 list \<Rightarrow> (int \<times> u8 list) c_result" where
  "write_arrays E A t a s =
    (if t = D_CONFIGURATION A then
       (case a of Descriptor_Counts n cs \<Rightarrow>
          write_counted (\<lambda>(ct, k). write_descriptor_counts A ct k) n cs s | _ \<Rightarrow> UB)
     else if t = D_AUDIO_UNIT A then
       (case a of Sampling_Rates n rs \<Rightarrow>
          write_counted (\<lambda>v. uint32_write A (endian_reverse_uint32 A v)) n rs s | _ \<Rightarrow> UB)
     else if t = D_STREAM_INPUT A \<or> t = D_STREAM_OUTPUT A then
       (case a of Stream_Formats n bs \<Rightarrow>
          bindC (stream_formats E (unat n) 0 bs)
            (\<lambda>vs. Returns (write_elements (\<lambda>v. uint64_write A (endian_reverse_uint64 A v)) vs s)) | _ \<Rightarrow> UB)
     else if t = D_VIDEO_CLUSTER A then
       (case a of Video_Cluster_Arrays v \<Rightarrow> write_video_cluster A v s | _ \<Rightarrow> UB)
     else if t = D_AUDIO_MAP A then
       (case a of Audio_Mappings n ms \<Rightarrow>
          write_counted (\<lambda>m. audio_mapping_write A (htons_audio E m)) n ms s | _ \<Rightarrow> UB)
     else if t = D_VIDEO_MAP A then
       (case a of Video_Mappings n ms \<Rightarrow>
          write_counted (\<lambda>m. video_mapping_write A (htons_video E m)) n ms s | _ \<Rightarrow> UB)
     else if t = D_CLOCK_DOMAIN A then
       (case a of Clock_Sources n cs \<Rightarrow>
          write_counted (\<lambda>v. uint16_write A (endian_reverse_uint16 A v)) n cs s | _ \<Rightarrow> UB)
     else Returns s)"

text \<open>The result is the number of bytes written, counted from the descriptor's offset.\<close>

definition aecp_descriptor_data_write ::
  "endian \<Rightarrow> jdks_aem \<Rightarrow> u16 \<Rightarrow> descriptor_ref \<Rightarrow> u8 list \<Rightarrow> (int \<times> u8 list) c_result" where
  "aecp_descriptor_data_write E A t r payload =
    (let pos = OFFSET_DESCRIPTOR A in
     bindC
       (case r of
          Entity_Ref e \<Rightarrow> if t = D_ENTITY A then Returns (entity_write A e pos payload) else UB
        | Descriptor_Ref d \<Rightarrow>
           if t = D_ENTITY A then UB else
           (case struct_writer A t of
              None \<Rightarrow> Returns (pos, payload)
            | Some w \<Rightarrow> write_arrays E A t (descriptor_arrays d)
                (descriptor_write A w (descriptor_struct d) pos payload)))
       (\<lambda>(p, payload). Returns (p - OFFSET_DESCRIPTOR A, payload)))"

section \<open>Commands\<close>

definition aecp_process_entity_available ::
  "jdks \<Rightarrow> jdks_aem \<Rightarrow> u8 list \<Rightarrow> avdecc_ctx \<Rightarrow> frame \<Rightarrow> eui64 \<Rightarrow> u16 \<Rightarrow> (int \<times> avdecc_ctx) c_result" where
  "aecp_process_entity_available J A junk ctx f controller seq =
    (let (len, payload) = entity_available_response_write A
           (aecpdu_aem_fill A (AEM_RESPONSE A) (AEM_SUCCESS A)
             (ENTITY_AVAILABLE_RESPONSE_LEN A - COMMON_CONTROL_HEADER_LEN J) (entity_id ctx) controller seq
             (CMD_ENTITY_AVAILABLE A)) junk
     in bindC (aecp_send_frame J A (fr_src f) payload (int (frame_length_of A len)) ctx)
          (\<lambda>(_, ctx). Returns (0, ctx)))"

definition aecp_process_read_descriptor ::
  "endian \<Rightarrow> jdks \<Rightarrow> jdks_aem \<Rightarrow> u8 list \<Rightarrow> avdecc_ctx \<Rightarrow> frame \<Rightarrow> eui64 \<Rightarrow> u16 \<Rightarrow> (int \<times> avdecc_ctx) c_result" where
  "aecp_process_read_descriptor E J A junk ctx f controller seq =
    (let (rc, p) = read_descriptor_read A (frame_data f) in
     if rc < 0 then Returns (0, ctx) else
     bindC
       (case aecp_valid_descriptor A (dev_e ctx) (rd_configuration_index p) (rd_descriptor_type p)
           (rd_descriptor_index p) of
          None \<Rightarrow> Returns (AEM_NO_SUCH_DESCRIPTOR A, 0, junk)
        | Some d \<Rightarrow>
           bindC (aecp_descriptor_data_write E A (rd_descriptor_type p) d junk)
             (\<lambda>(desc_size, payload).
             Returns (if desc_size \<noteq> 0 then AEM_SUCCESS A else AEM_NOT_SUPPORTED A, desc_size, payload)))
       (\<lambda>(st, desc_size, payload).
       let header = aecpdu_aem_fill A (AEM_RESPONSE A) st
             (of_int desc_size + READ_DESCRIPTOR_RESPONSE_LEN A - COMMON_CONTROL_HEADER_LEN J)
             (entity_id ctx) controller seq (CMD_READ_DESCRIPTOR A);
           conf = (if rd_descriptor_type p = D_ENTITY A \<or> rd_descriptor_type p = D_CONFIGURATION A
             then 0 else rd_configuration_index p);
           (len, payload) = read_descriptor_response_write A
             \<lparr> rr_header = header, rr_configuration_index = conf, rr_reserved = 0 \<rparr> payload
       in bindC (aecp_send_frame J A (fr_src f) payload (int (frame_length_of A (len + desc_size))) ctx)
            (\<lambda>(_, ctx). Returns (0, ctx))))"

definition aecp_process_aem_command ::
  "endian \<Rightarrow> jdks \<Rightarrow> jdks_aem \<Rightarrow> u8 list \<Rightarrow> avdecc_ctx \<Rightarrow> frame \<Rightarrow> (int \<times> avdecc_ctx) c_result" where
  "aecp_process_aem_command E J A junk ctx f =
    (let (rc, m) = aecpdu_aem_read A (frame_data f);
         controller = ae_controller_entity_id (ae_common m);
         seq = ae_sequence_id (ae_common m)
     in if 0 < rc then
          if eui64_compare J (ae_target_entity_id (ae_common m)) (entity_id ctx) \<noteq> 0 then Returns (0, ctx)
          else bindC
            (if ae_command_type m = CMD_ENTITY_AVAILABLE A
             then aecp_process_entity_available J A junk ctx f controller seq
             else if ae_command_type m = CMD_READ_DESCRIPTOR A
             then aecp_process_read_descriptor E J A junk ctx f controller seq
             else aecp_send_aem_command_not_implemented J A junk ctx f controller seq (ae_command_type m))
            (\<lambda>(_, ctx). Returns (0, ctx))
        else Returns (0, ctx))"

definition aecp_receive_process ::
  "endian \<Rightarrow> jdks \<Rightarrow> jdks_aem \<Rightarrow> u8 list \<Rightarrow> avdecc_ctx option \<Rightarrow> frame option \<Rightarrow>
    (int \<times> avdecc_ctx option) c_result" where
  "aecp_receive_process E J A junk co fo =
    (case co of None \<Rightarrow> Returns (- 1, co) | Some ctx \<Rightarrow>
     case fo of None \<Rightarrow> Returns (- 1, co) | Some f \<Rightarrow>
     let (rc, h) = aecpdu_common_read A (frame_data f) in
     if rc < 0 then Returns (0, co)
     else if eui64_compare J (ae_target_entity_id h) (entity_id ctx) \<noteq> 0 then Returns (0, co)
     else bindC
       (if ae_message_type h = AEM_COMMAND A then aecp_process_aem_command E J A junk ctx f
        else if ae_message_type h = AEM_RESPONSE A then Returns (0, ctx)
        else if ae_message_type h \<in> set [ADDRESS_ACCESS_COMMAND A, AVC_COMMAND A, VENDOR_UNIQUE_COMMAND A,
          HDCP_APM_COMMAND A, EXTENDED_COMMAND A]
        then aecp_send_command_not_implemented J A junk ctx f (ae_controller_entity_id h) (ae_sequence_id h)
               (ae_message_type h + 1)
        else Returns (0, ctx))
       (\<lambda>(_, ctx). Returns (0, Some ctx)))"

definition aecp_state_process :: "avdecc_ctx option \<Rightarrow> int" where
  "aecp_state_process co = 0"

end
