(* ===== verification/Aecp_Props.thy ===== *)
theory Aecp_Props
  imports Aecp
begin

unbundle bit_operations_syntax

text \<open>
  Properties of the enumeration and control protocol: how many answers a received frame gets,
  what the search for a descriptor finds, what the answer to a read holds, and what is read
  for the formats of a stream.
\<close>

section \<open>Sending an answer\<close>

definition answered :: "frame \<Rightarrow> u8 list \<Rightarrow> avdecc_ctx \<Rightarrow> avdecc_ctx" where
  "answered f payload ctx =
    ctx\<lparr>env := (env ctx)\<lparr>sent := sent (env ctx) @ [ethernet_frame (net_info ctx) (take 6 (fr_src f)) payload]\<rparr>\<rparr>"

lemma send_frame_ok:
  assumes "aem_ok A" "0 \<le> n" "n \<le> int (frame_payload_size A)" "length payload = frame_payload_size A"
  shows "\<exists>rc. aecp_send_frame J A (fr_src f) payload (int (frame_length_of A n)) ctx =
    Returns (rc, answered f (take (nat n) payload) ctx)"
proof -
  have l: "frame_length_of A n = nat n" "frame_length_of A (int (nat n)) = nat n" "frame_payload_size A \<le> 1500"
    using aem_okD(4,5) [OF assms(1)] assms(2,3) by simp_all
  then show ?thesis using assms(2-4)
    by (auto simp: aecp_send_frame_def send_data_def Let_def ETH_FRAME_LEN_def ETHERNET_OVERHEAD_def answered_def)
qed

lemma send_written_ok:
  assumes "aem_ok A" "writes_ok (frame_payload_size A) w" "length junk = frame_payload_size A"
  shows "\<exists>rc. aecp_send_frame J A (fr_src f) (snd (w junk)) (int (frame_length_of A (fst (w junk)))) ctx =
    Returns (rc, answered f (take (nat (fst (w junk))) (snd (w junk))) ctx)"
proof (rule send_frame_ok [OF assms(1)])
  show "0 \<le> fst (w junk)" "fst (w junk) \<le> int (frame_payload_size A)"
    "length (snd (w junk)) = frame_payload_size A"
    using assms(2,3) by (simp_all add: writes_ok_def less_imp_le)
qed

section \<open>The search for a descriptor\<close>

lemma first_some_SomeD: "first_some f xs = Some y \<Longrightarrow> \<exists>x\<in>set xs. f x = Some y"
  by (induction xs) (auto split: option.splits)

lemma first_some_None_iff: "first_some f xs = None \<longleftrightarrow> (\<forall>x\<in>set xs. f x = None)"
  by (induction xs) (auto split: option.splits)

definition matches :: "jdks_aem \<Rightarrow> device_entity \<Rightarrow> u16 \<Rightarrow> u16 \<Rightarrow> u16 \<Rightarrow> descriptor_ref \<Rightarrow> bool" where
  "matches A e conf t i r \<longleftrightarrow> (case r of
     Entity_Ref d \<Rightarrow> t = D_ENTITY A \<and> d = entity_desc e \<and> ed_descriptor_index d = i
   | Descriptor_Ref d \<Rightarrow> t \<noteq> D_ENTITY A \<and> descriptor_index d = i \<and>
       (if t = D_CONFIGURATION A then \<exists>c\<in>set (configurations e). d = configuration c
        else descriptor_type d = t \<and>
          (\<exists>c\<in>set (configurations e). descriptor_index (configuration c) = conf \<and> d \<in> set (descriptors c))))"

lemma found_descriptor_matches:
  assumes "aecp_valid_descriptor A e conf t i = Some r"
  shows "matches A e conf t i r"
  using assms
  by (auto simp: aecp_valid_descriptor_def matches_def dest!: first_some_SomeD split: if_splits) blast+

lemma unfound_descriptor_absent:
  assumes "aecp_valid_descriptor A e conf t i = None"
  shows "\<not> matches A e conf t i r"
  using assms
  by (cases r) (auto simp: aecp_valid_descriptor_def matches_def first_some_None_iff split: if_splits)

text \<open>
  The search for a descriptor finds one of the type and index asked for, in the
  configuration asked for, exactly when the entity has one.
\<close>
theorem descriptor_search_is_correct:
  "case aecp_valid_descriptor A e conf t i of
     Some r \<Rightarrow> matches A e conf t i r
   | None \<Rightarrow> \<forall>r. \<not> matches A e conf t i r"
  by (simp add: found_descriptor_matches unfound_descriptor_absent split: option.split)

section \<open>Answers\<close>

text \<open>A frame the entity takes as a command: its headers can be read and name it as the target.\<close>

definition for_entity :: "jdks_aem \<Rightarrow> avdecc_ctx \<Rightarrow> frame \<Rightarrow> bool" where
  "for_entity A ctx f \<longleftrightarrow> 0 \<le> fst (aecpdu_common_read A (frame_data f)) \<and>
    ae_target_entity_id (snd (aecpdu_common_read A (frame_data f))) = entity_id ctx"

definition frame_type :: "jdks_aem \<Rightarrow> frame \<Rightarrow> u8" where
  "frame_type A f = ae_message_type (snd (aecpdu_common_read A (frame_data f)))"

definition aem_for_entity :: "jdks_aem \<Rightarrow> avdecc_ctx \<Rightarrow> frame \<Rightarrow> bool" where
  "aem_for_entity A ctx f \<longleftrightarrow> 0 < fst (aecpdu_aem_read A (frame_data f)) \<and>
    ae_target_entity_id (ae_common (snd (aecpdu_aem_read A (frame_data f)))) = entity_id ctx"

definition frame_command :: "jdks_aem \<Rightarrow> frame \<Rightarrow> u16" where
  "frame_command A f = ae_command_type (snd (aecpdu_aem_read A (frame_data f)))"

lemma entity_available_answer:
  assumes "aem_ok A" "length junk = frame_payload_size A"
  shows "\<exists>payload. aecp_process_entity_available J A junk ctx f c s = Returns (0, answered f payload ctx)"
proof -
  let ?u = "aecpdu_aem_fill A (AEM_RESPONSE A) (AEM_SUCCESS A)
    (ENTITY_AVAILABLE_RESPONSE_LEN A - COMMON_CONTROL_HEADER_LEN J) (entity_id ctx) c s (CMD_ENTITY_AVAILABLE A)"
  show ?thesis
    using send_written_ok [OF assms(1) aem_okD(8) [OF assms(1), of ?u] assms(2), where f = f and J = J and ctx = ctx]
    by (auto simp: aecp_process_entity_available_def case_prod_beta)
qed

lemma not_implemented_answers:
  assumes "aem_ok A" "length junk = frame_payload_size A"
  shows "\<exists>rc payload. aecp_send_aem_command_not_implemented J A junk ctx f c s k = Returns (rc, answered f payload ctx)"
    "\<exists>rc payload. aecp_send_command_not_implemented J A junk ctx f c s m = Returns (rc, answered f payload ctx)"
proof -
  let ?u = "aecpdu_aem_fill A (AEM_RESPONSE A) (AEM_NOT_IMPLEMENTED A) 0 (entity_id ctx) c s k"
  let ?v = "aecpdu_fill A m (AEM_NOT_IMPLEMENTED A) 0 (entity_id ctx) c s"
  show "\<exists>rc payload. aecp_send_aem_command_not_implemented J A junk ctx f c s k = Returns (rc, answered f payload ctx)"
    using send_written_ok [OF assms(1) aem_okD(7) [OF assms(1), of ?u] assms(2), where f = f and J = J and ctx = ctx]
    by (auto simp: aecp_send_aem_command_not_implemented_def case_prod_beta)
  show "\<exists>rc payload. aecp_send_command_not_implemented J A junk ctx f c s m = Returns (rc, answered f payload ctx)"
    using send_written_ok [OF assms(1) aem_okD(6) [OF assms(1), of ?v] assms(2), where f = f and J = J and ctx = ctx]
    by (auto simp: aecp_send_command_not_implemented_def case_prod_beta)
qed

text \<open>
  Every command for the entity other than a read of a descriptor gets exactly one answer,
  sent to the address the command came from.
\<close>
theorem other_commands_are_answered_once:
  assumes "jdks_ok J" "aem_ok A" "length junk = frame_payload_size A" "for_entity A ctx f"
    "frame_type A f \<in> set (aecp_commands A)"
    "frame_type A f = AEM_COMMAND A \<Longrightarrow> aem_for_entity A ctx f \<and> frame_command A f \<noteq> CMD_READ_DESCRIPTOR A"
  shows "\<exists>payload. aecp_receive_process E J A junk (Some ctx) (Some f) = Returns (0, Some (answered f payload ctx))"
proof (cases "frame_type A f = AEM_COMMAND A")
  case True
  let ?h = "snd (aecpdu_aem_read A (frame_data f))"
  let ?c = "ae_controller_entity_id (ae_common ?h)" and ?s = "ae_sequence_id (ae_common ?h)"
  have t: "0 < fst (aecpdu_aem_read A (frame_data f))" "ae_target_entity_id (ae_common ?h) = entity_id ctx"
    "ae_command_type ?h \<noteq> CMD_READ_DESCRIPTOR A"
    using assms(6) True by (simp_all add: aem_for_entity_def frame_command_def)
  have "\<exists>payload. aecp_process_aem_command E J A junk ctx f = Returns (0, answered f payload ctx)"
    using entity_available_answer [OF assms(2,3), of J ctx f ?c ?s]
      not_implemented_answers(1) [OF assms(2,3), of J ctx f ?c ?s "ae_command_type ?h"] t
    by (auto simp: aecp_process_aem_command_def case_prod_beta Let_def eui64_compare_ok [OF assms(1)])
  then show ?thesis using assms(4) True
    by (auto simp: aecp_receive_process_def for_entity_def frame_type_def case_prod_beta
        eui64_compare_ok [OF assms(1)])
next
  case False
  let ?h = "snd (aecpdu_common_read A (frame_data f))"
  have "frame_type A f \<noteq> AEM_RESPONSE A" "frame_type A f \<in> set [ADDRESS_ACCESS_COMMAND A, AVC_COMMAND A,
      VENDOR_UNIQUE_COMMAND A, HDCP_APM_COMMAND A, EXTENDED_COMMAND A]"
    using aem_okD(1) [OF assms(2)] assms(5) False by (auto simp: aecp_commands_def)
  then show ?thesis
    using assms(4) False not_implemented_answers(2) [OF assms(2,3), of J ctx f "ae_controller_entity_id ?h"
        "ae_sequence_id ?h" "ae_message_type ?h + 1"]
    by (auto simp: aecp_receive_process_def for_entity_def frame_type_def case_prod_beta
        eui64_compare_ok [OF assms(1)])
qed

text \<open>Frames that are not commands for the entity are ignored.\<close>

lemma other_frames_are_ignored:
  assumes "jdks_ok J" "\<not> (for_entity A ctx f \<and> frame_type A f \<in> set (aecp_commands A))"
  shows "aecp_receive_process E J A junk (Some ctx) (Some f) = Returns (0, Some ctx)"
  using assms(2)
  by (auto simp: aecp_receive_process_def for_entity_def frame_type_def aecp_commands_def case_prod_beta
      eui64_compare_ok [OF assms(1)] not_le)

section \<open>Reading a descriptor\<close>

definition requested :: "jdks_aem \<Rightarrow> frame \<Rightarrow> read_descriptor_command" where
  "requested A f = snd (read_descriptor_read A (frame_data f))"

definition read_response ::
  "jdks \<Rightarrow> jdks_aem \<Rightarrow> avdecc_ctx \<Rightarrow> frame \<Rightarrow> eui64 \<Rightarrow> u16 \<Rightarrow> u8 \<Rightarrow> int \<Rightarrow> read_descriptor_response" where
  "read_response J A ctx f controller seq st n =
    \<lparr> rr_header = aecpdu_aem_fill A (AEM_RESPONSE A) st
        (of_int n + READ_DESCRIPTOR_RESPONSE_LEN A - COMMON_CONTROL_HEADER_LEN J) (entity_id ctx) controller seq
        (CMD_READ_DESCRIPTOR A),
      rr_configuration_index = (if rd_descriptor_type (requested A f) = D_ENTITY A \<or>
        rd_descriptor_type (requested A f) = D_CONFIGURATION A then 0 else rd_configuration_index (requested A f)),
      rr_reserved = 0 \<rparr>"

text \<open>What the search and the writing give: the status, the size and the payload.\<close>

definition read_content ::
  "endian \<Rightarrow> jdks_aem \<Rightarrow> u8 list \<Rightarrow> avdecc_ctx \<Rightarrow> frame \<Rightarrow> (u8 \<times> int \<times> u8 list) c_result" where
  "read_content E A junk ctx f =
    (case aecp_valid_descriptor A (dev_e ctx) (rd_configuration_index (requested A f))
        (rd_descriptor_type (requested A f)) (rd_descriptor_index (requested A f)) of
       None \<Rightarrow> Returns (AEM_NO_SUCH_DESCRIPTOR A, 0, junk)
     | Some d \<Rightarrow> bindC (aecp_descriptor_data_write E A (rd_descriptor_type (requested A f)) d junk)
         (\<lambda>(n, payload). Returns (if n \<noteq> 0 then AEM_SUCCESS A else AEM_NOT_SUPPORTED A, n, payload)))"

lemma read_descriptor_eq:
  assumes "0 \<le> fst (read_descriptor_read A (frame_data f))"
  shows "aecp_process_read_descriptor E J A junk ctx f controller seq =
    bindC (read_content E A junk ctx f) (\<lambda>(st, n, payload).
    let w = read_descriptor_response_write A (read_response J A ctx f controller seq st n) payload
    in bindC (aecp_send_frame J A (fr_src f) (snd w) (int (frame_length_of A (fst w + n))) ctx)
         (\<lambda>(_, ctx). Returns (0, ctx)))"
  unfolding aecp_process_read_descriptor_def read_content_def read_response_def requested_def case_prod_beta Let_def
  using assms by (simp cong: if_cong)

text \<open>
  The answer to a read of a descriptor is one frame, the response header over the
  descriptor that was written, cut to the length of both.
\<close>
theorem read_descriptor_answer:
  assumes "aem_ok A" "0 \<le> fst (read_descriptor_read A (frame_data f))"
    "read_content E A junk ctx f = Returns (st, n, payload)" "length payload = frame_payload_size A" "0 \<le> n"
    "w = read_descriptor_response_write A (read_response J A ctx f controller seq st n) payload"
    "fst w + n \<le> int (frame_payload_size A)"
  shows "aecp_process_read_descriptor E J A junk ctx f controller seq =
      Returns (0, answered f (take (nat (fst w + n)) (snd w)) ctx)"
proof -
  have "0 < fst w" "length (snd w) = frame_payload_size A"
    using aem_okD(9) [OF assms(1)] assms(4,6) by (simp_all add: writes_ok_def)
  then obtain rc where "aecp_send_frame J A (fr_src f) (snd w) (int (frame_length_of A (fst w + n))) ctx =
      Returns (rc, answered f (take (nat (fst w + n)) (snd w)) ctx)"
    using send_frame_ok [OF assms(1) _ assms(7), where payload = "snd w" and f = f and J = J and ctx = ctx] assms(5)
    by auto
  then show ?thesis
    using assms(3,6) by (simp add: read_descriptor_eq [OF assms(2)] Let_def)
qed

section \<open>The formats of a stream\<close>

text \<open>
  The formats of a stream are read eight bytes from each successive byte, so that
  consecutive formats overlap in seven bytes.
\<close>
theorem stream_formats_overlap:
  assumes "length bs = 8 * n" "0 < n"
  shows "stream_formats E n 0 bs = Returns (map (\<lambda>i. host_word E (take 8 (drop i bs))) [0..<n])"
proof -
  have "stream_formats E k i bs = Returns (map (\<lambda>i. host_word E (take 8 (drop i bs))) [i..<i + k])"
    if "k = 0 \<or> i + k + 7 \<le> length bs" for k i
    using that
  proof (induction k arbitrary: i)
    case (Suc k)
    have "[i..<i + Suc k] = i # [Suc i..<Suc i + k]" by (simp add: upt_conv_Cons del: upt_Suc)
    then show ?case using Suc.IH [of "Suc i"] Suc.prems by (simp add: rdn_def del: upt_Suc)
  qed simp
  from this [of n 0] show ?thesis using assms by simp
qed

section \<open>Witnesses\<close>

definition sample_read :: read_descriptor_command where
  "sample_read = \<lparr> rd_configuration_index = 0, rd_descriptor_type = 5, rd_descriptor_index = 3 \<rparr>"

definition sample_frame :: frame where
  "sample_frame = \<lparr> fr_dest = [2, 0, 0, 0, 0, 1], fr_src = [2, 0, 0, 0, 0, 9], fr_ethertype = 0x22f0,
    fr_length = 1, fr_payload = [0xfb] \<rparr>"

definition sample_server :: avdecc_ctx where
  "sample_server = sample_entity [sample_configuration] [] sample_environment"

lemmas server_defs = sample_server_def sample_frame_def sample_read_def sample_entity_def aem_sample_def
  for_entity_def aem_for_entity_def frame_type_def frame_command_def aecp_commands_def

theorem other_commands_are_answered_once_witness:
  "\<exists>payload. aecp_receive_process LE jdks_sample (aem_sample 2 0 sample_read) (replicate 1500 0)
    (Some sample_server) (Some sample_frame) = Returns (0, Some (answered sample_frame payload sample_server))"
proof -
  let ?A = "aem_sample 2 0 sample_read"
  have l: "length (replicate 1500 (0 :: u8)) = frame_payload_size ?A" by (simp add: aem_sample_def)
  have "for_entity ?A sample_server sample_frame" "frame_type ?A sample_frame \<in> set (aecp_commands ?A)"
    "frame_type ?A sample_frame \<noteq> AEM_COMMAND ?A"
    by (simp_all add: server_defs)
  then show ?thesis
    using other_commands_are_answered_once [OF jdks_sample_ok aem_sample_ok l, of sample_server sample_frame LE] by blast
qed

text \<open>The sink of the sample entity: its two formats follow the 28 bytes of the header.\<close>

lemma sample_read_content:
  "read_content LE (aem_sample 0 4 sample_read) (replicate 1500 0) sample_server sample_frame =
    Returns (0, 16, replicate 28 0 @ [0, 1, 2, 3, 4, 5, 6, 7, 1, 2, 3, 4, 5, 6, 7, 8] @ replicate 1456 0)"
proof -
  let ?A = "aem_sample 0 4 sample_read"
  let ?d = "\<lparr>descriptor_type = 5, descriptor_index = 3, descriptor_struct = [],
    descriptor_arrays = Stream_Formats 2 [0, 1, 2, 3, 4, 5, 6, 7, 8, 9, 10, 11, 12, 13, 14, 15]\<rparr>"
  have d: "aecp_valid_descriptor ?A (dev_e sample_server) 0 5 3 = Some (Descriptor_Ref ?d)"
    by (simp add: aecp_valid_descriptor_def server_defs sample_configuration_def)
  have fs: "stream_formats LE 2 0 [0, 1, 2, 3, 4, 5, 6, 7, 8, 9, 10, 11, 12, 13, 14, 15] =
      Returns [0x0706050403020100, 0x0807060504030201]"
    by code_simp
  have b: "be_bytes 8 (be_word (le_bytes 8 (0x0706050403020100 :: u64)) :: u64) = [0, 1, 2, 3, 4, 5, 6, 7]"
    "be_bytes 8 (be_word (le_bytes 8 (0x0807060504030201 :: u64)) :: u64) = [1, 2, 3, 4, 5, 6, 7, 8]"
    by code_simp+
  have w: "aecp_descriptor_data_write LE ?A 5 (Descriptor_Ref ?d) (replicate 1500 0) =
      Returns (16, replicate 28 0 @ [0, 1, 2, 3, 4, 5, 6, 7, 1, 2, 3, 4, 5, 6, 7, 8] @ replicate 1456 0)"
    using fs b by (simp add: aecp_descriptor_data_write_def struct_writer_def write_arrays_def aem_sample_def put_def)
  show ?thesis using d w by (simp add: read_content_def requested_def server_defs)
qed

theorem read_descriptor_answer_witness:
  "\<exists>payload. aecp_process_read_descriptor LE jdks_sample (aem_sample 0 4 sample_read) (replicate 1500 0)
      sample_server sample_frame 0xC0 7 = Returns (0, answered sample_frame payload sample_server) \<and>
    take 16 (drop 28 payload) = [0, 1, 2, 3, 4, 5, 6, 7, 1, 2, 3, 4, 5, 6, 7, 8]"
proof -
  let ?A = "aem_sample 0 4 sample_read"
  let ?p = "replicate 28 0 @ [0, 1, 2, 3, 4, 5, 6, 7, 1, 2, 3, 4, 5, 6, 7, 8] @ replicate 1456 (0 :: u8)"
  let ?w = "read_descriptor_response_write ?A (read_response jdks_sample ?A sample_server sample_frame 0xC0 7 0 16) ?p"
  have w: "fst ?w = 28" "drop 28 (snd ?w) = drop 28 ?p" by (simp_all add: aem_sample_def put_def)
  have "0 \<le> fst (read_descriptor_read ?A (frame_data sample_frame))" "length ?p = frame_payload_size ?A"
    "fst ?w + 16 \<le> int (frame_payload_size ?A)"
    using w by (simp_all add: aem_sample_def)
  from read_descriptor_answer [OF aem_sample_ok this(1) sample_read_content this(2) _ refl this(3)]
  have "aecp_process_read_descriptor LE jdks_sample ?A (replicate 1500 0) sample_server sample_frame 0xC0 7 =
      Returns (0, answered sample_frame (take (nat (fst ?w + 16)) (snd ?w)) sample_server)"
    by simp
  moreover have "take 16 (drop 28 (take (nat (fst ?w + 16)) (snd ?w))) = [0, 1, 2, 3, 4, 5, 6, 7, 1, 2, 3, 4, 5, 6, 7, 8]"
    using w by (simp add: drop_take)
  ultimately show ?thesis by blast
qed

theorem stream_formats_overlap_witness:
  "stream_formats LE 2 0 [0, 1, 2, 3, 4, 5, 6, 7, 8, 9, 10, 11, 12, 13, 14, 15] =
    Returns [0x0706050403020100, 0x0807060504030201]"
proof -
  let ?bs = "[0, 1, 2, 3, 4, 5, 6, 7, 8, 9, 10, 11, 12, 13, 14, 15] :: u8 list"
  have "stream_formats LE 2 0 ?bs = Returns (map (\<lambda>i. host_word LE (take 8 (drop i ?bs))) [0..<2])"
    by (rule stream_formats_overlap) simp_all
  also have "\<dots> = Returns [0x0706050403020100, 0x0807060504030201]" by code_simp
  finally show ?thesis .
qed

end
