(* ===== verification/Avdecc.thy ===== *)
theory Avdecc
  imports Adp Aecp Acmp
begin

unbundle bit_operations_syntax

text \<open>
  The core of the AVDECC library (\<open>lib/avdecc/avdecc.c\<close>): the processing of a received frame
  under the context's lock, the thread that receives the frames, and the functions of the
  interface. The lock is a flag; to take it while it is held blocks, which is \<open>NoReturn\<close>,
  because a holder that returned with it never releases it. A thread's round is given by what
  \<open>select\<close> and \<open>recv\<close> report and by whether the application has asked it to stop.
\<close>

section \<open>Processing a frame\<close>

definition lock :: "avdecc_ctx \<Rightarrow> avdecc_ctx c_result" where
  "lock ctx = (if data_lock ctx then NoReturn else Returns (ctx\<lparr>data_lock := True\<rparr>))"

definition unlock :: "avdecc_ctx \<Rightarrow> avdecc_ctx" where
  "unlock ctx = ctx\<lparr>data_lock := False\<rparr>"

text \<open>A handler that takes the address of the context.\<close>

definition on_ctx ::
  "(avdecc_ctx option \<Rightarrow> (int \<times> avdecc_ctx option) c_result) \<Rightarrow> avdecc_ctx \<Rightarrow> (int \<times> avdecc_ctx) c_result" where
  "on_ctx h ctx = bindC (h (Some ctx))
    (\<lambda>(rc, co). Returns (rc, case co of Some c \<Rightarrow> c | None \<Rightarrow> ctx))"

definition adp_receive :: "jdks \<Rightarrow> frame \<Rightarrow> avdecc_ctx \<Rightarrow> (int \<times> avdecc_ctx) c_result" where
  "adp_receive J f ctx =
    (case adp_receive_process J (Some (entity_id ctx)) (Some (adp_state ctx)) (Some f) of
       (rc, Some s) \<Rightarrow> Returns (rc, set_adp s ctx)
     | (rc, None) \<Rightarrow> Returns (rc, ctx))"

definition depart_when_halted :: "avdecc_ctx \<Rightarrow> avdecc_ctx" where
  "depart_when_halted ctx =
    (if av_halt_flag ctx then
       case adp_state_change_departing (Some (adp_state ctx)) of
         (_, Some s) \<Rightarrow> set_adp s ctx | (_, None) \<Rightarrow> ctx
     else ctx)"

definition receive_frame ::
  "endian \<Rightarrow> jdks \<Rightarrow> jdks_aem \<Rightarrow> u8 list \<Rightarrow> frame \<Rightarrow> avdecc_ctx \<Rightarrow> (int \<times> avdecc_ctx) c_result" where
  "receive_frame E J A junk f ctx =
    (if 0 < fr_length f then
       case fr_payload f of
         [] \<Rightarrow> UB
       | subtype # _ \<Rightarrow>
          if subtype = PAYLOAD_SUBTYPE_ADP J then adp_receive J f ctx
          else if subtype = PAYLOAD_SUBTYPE_AECP J
          then on_ctx (\<lambda>co. aecp_receive_process E J A junk co (Some f)) ctx
          else if subtype = PAYLOAD_SUBTYPE_ACMP J then
            (if acmp_started ctx then on_ctx (\<lambda>co. acmp_receive_process J co (Some f)) ctx
             else Returns (0, ctx))
          else Returns (0, ctx)
     else Returns (0, ctx))"

text \<open>The early returns, and the return of 1 on a halt, leave the lock taken.\<close>

definition protocol_process ::
  "endian \<Rightarrow> jdks \<Rightarrow> jdks_aem \<Rightarrow> u8 list \<Rightarrow> avdecc_ctx \<Rightarrow> frame \<Rightarrow> (int \<times> avdecc_ctx) c_result" where
  "protocol_process E J A junk ctx f =
    bindC (lock ctx) (\<lambda>ctx.
    bindC (receive_frame E J A junk f ctx) (\<lambda>(rc, ctx).
    if rc < 0 then Returns (- 1, ctx) else
    bindC (on_ctx (adp_state_process J) (depart_when_halted ctx)) (\<lambda>(rc, ctx).
    if rc < 0 then Returns (- 1, ctx) else
    if aecp_state_process (Some ctx) < 0 then Returns (- 1, ctx) else
    bindC (if acmp_started ctx then on_ctx (acmp_state_process J) ctx else Returns (0, ctx)) (\<lambda>(rc, ctx).
    if rc < 0 then Returns (- 1, ctx)
    else if av_halt_flag ctx then Returns (1, ctx)
    else Returns (0, unlock ctx)))))"

section \<open>The receiving thread\<close>

datatype select_event = Select_Error | Select_Timeout | Readable int "u8 list"

record monitor_event =
  me_halt :: bool
  me_select :: select_event

text \<open>
  The frame of a round. A datagram shorter than the Ethernet header, or one whose payload is
  not smaller than the frame's, leaves the length 0: the difference is computed without sign.
\<close>

definition received_bytes :: "u8 list \<Rightarrow> u8 list \<Rightarrow> u8 list" where
  "received_bytes bytes buf = take MAX_RECV_DATA_SIZE (bytes @ drop (length bytes) buf)"

definition zero_frame :: "jdks_aem \<Rightarrow> frame" where
  "zero_frame A = \<lparr> fr_dest = replicate 6 0, fr_src = replicate 6 0, fr_ethertype = 0, fr_length = 0,
     fr_payload = replicate (frame_payload_size A) 0 \<rparr>"

definition monitor_frame :: "jdks_aem \<Rightarrow> select_event \<Rightarrow> u8 list \<Rightarrow> frame \<Rightarrow> u8 list \<times> frame" where
  "monitor_frame A ev buf f =
    (case ev of
       Readable len bytes \<Rightarrow>
        if len < 0 then (buf, zero_frame A) else
        let buf = received_bytes bytes buf;
            f = (zero_frame A)\<lparr>fr_dest := take 6 buf, fr_src := take 6 (drop 6 buf),
                  fr_ethertype := push_bit 8 (ucast (buf ! 7)) OR ucast (buf ! 8)\<rparr>;
            n = nat len - ETHERNET_OVERHEAD
        in if ETHERNET_OVERHEAD \<le> nat len \<and> n < frame_payload_size A
           then (buf, f\<lparr>fr_payload := take n (drop ETHERNET_OVERHEAD buf) @ drop n (fr_payload f), fr_length := n\<rparr>)
           else (buf, f)
     | _ \<Rightarrow> (buf, f\<lparr>fr_length := 0\<rparr>))"

datatype monitor_end = Running | Halted | Failed

text \<open>The rounds of the thread; \<open>Running\<close> when the events are used up before it ends.\<close>

fun avdecc_monitor_loop ::
  "endian \<Rightarrow> jdks \<Rightarrow> jdks_aem \<Rightarrow> u8 list \<Rightarrow> monitor_event list \<Rightarrow> u8 list \<Rightarrow> frame \<Rightarrow> avdecc_ctx \<Rightarrow>
    (monitor_end \<times> avdecc_ctx) c_result" where
  "avdecc_monitor_loop E J A junk [] buf f ctx = Returns (Running, ctx)"
| "avdecc_monitor_loop E J A junk (ev # evs) buf f ctx =
    (let ctx = (if me_halt ev then ctx\<lparr>av_halt_flag := True\<rparr> else ctx) in
     if me_select ev = Select_Error then Returns (Failed, ctx) else
     let (buf, f) = monitor_frame A (me_select ev) buf f in
     bindC (protocol_process E J A junk ctx f) (\<lambda>(rc, ctx).
     if rc < 0 then Returns (Failed, ctx)
     else if 0 < rc then Returns (Halted, ctx)
     else avdecc_monitor_loop E J A junk evs buf f ctx))"

section \<open>Creation and release\<close>

datatype release_event = Terminated_Pairs | Released_Entity | Closed_Socket int | Freed_Context

text \<open>A context that is being created: the entity may not have been read yet.\<close>

definition avdecc_release_resource ::
  "bool \<Rightarrow> avdecc_ctx option \<Rightarrow> (int \<times> release_event list \<times> environment option) c_result" where
  "avdecc_release_resource has_entity co =
    (case co of None \<Rightarrow> Returns (- 1, [], None)
     | Some ctx \<Rightarrow>
        bindC (if has_entity \<and> confs ctx \<noteq> []
               then bindC (acmp_ctx_terminate (confs ctx) (env ctx)) (\<lambda>(_, ev). Returns ([Terminated_Pairs], ev))
               else Returns ([], env ctx))
          (\<lambda>(log, ev). Returns (0, log @ (if has_entity then [Released_Entity] else []) @
             [Closed_Socket (raw_sock (net_info ctx)), Freed_Context], Some ev)))"

text \<open>What the calls of \<open>avdecc_init\<close> report, in their order.\<close>

record init_calls =
  ic_alloc :: bool
  ic_socket :: socket_calls
  ic_entity :: "device_entity option"
  ic_setup :: "device_entity \<Rightarrow> u8 list \<Rightarrow> int \<times> device_entity"
  ic_thread_rc :: int

definition device_entity_zero :: device_entity where
  "device_entity_zero = \<lparr> entity_desc = \<lparr> ed_descriptor_index = 0, ed_entity_id = 0, ed_entity_model_id = 0,
     ed_entity_capabilities = 0, ed_talker_stream_sources = 0, ed_talker_capabilities = 0,
     ed_listener_stream_sinks = 0, ed_listener_capabilities = 0, ed_controller_capabilities = 0,
     ed_current_configuration = 0 \<rparr>, configurations = [], inflight_commands = [] \<rparr>"

definition ctx_zero :: "environment \<Rightarrow> avdecc_ctx" where
  "ctx_zero ev = \<lparr> data_lock = False, role = 0,
     net_info = \<lparr> ifname = replicate 16 0, raw_sock = 0, interface_id = 0, ethertype = 0, mac_addr = replicate 6 0 \<rparr>,
     av_halt_flag = False, wait_timeout = 0, entity_id = 0, entity_model_id = 0, ctx_adpdu = adpdu_zero,
     adp_state = \<lparr> last_time_in_microseconds = 0, reannounce_timer_timeout = 0, do_advertise = False,
       do_terminate = False, do_discover = False, link_is_up = False, last_link_is_up = False,
       rcvd_available = False, rcvd_departing = False, rcvd_discover = False, advertised_grandmaster_id = 0 \<rparr>,
     dev_e = device_entity_zero, acmp_started = False, env = ev \<rparr>"

text \<open>
  The result is the context, or nothing; with it what was released, and the sockets that
  \<open>create_socket\<close> closed itself.
\<close>

type_synonym init_result = "avdecc_ctx option \<times> release_event list \<times> int list"

definition give_up :: "bool \<Rightarrow> avdecc_ctx \<Rightarrow> init_result c_result" where
  "give_up has_entity ctx =
    bindC (avdecc_release_resource has_entity (Some ctx)) (\<lambda>(_, log, _). Returns (None, log, []))"

text \<open>The three parts of the creation: the socket, the entity, the protocols and the thread.\<close>

definition start_acmp :: "jdks \<Rightarrow> init_calls \<Rightarrow> avdecc_ctx \<Rightarrow> init_result c_result" where
  "start_acmp J ic ctx =
    bindC (acmp_ctx_init J (Some ctx)) (\<lambda>(rc, co).
    let ctx = (case co of Some c \<Rightarrow> c | None \<Rightarrow> ctx) in
    if rc < 0 then give_up True ctx
    else if ic_thread_rc ic \<noteq> 0 then give_up True ctx
    else Returns (Some ctx, [], []))"

definition setup_entity :: "jdks \<Rightarrow> init_calls \<Rightarrow> avdecc_ctx \<Rightarrow> init_result c_result" where
  "setup_entity J ic ctx =
    (case ic_entity ic of
       None \<Rightarrow> give_up False ctx
     | Some e \<Rightarrow>
        let (rc, e) = ic_setup ic e (mac_addr (net_info ctx));
            ctx = ctx\<lparr>dev_e := e\<rparr> in
        if rc < 0 then give_up True ctx else
        let ctx = ctx\<lparr>entity_id := ed_entity_id (entity_desc (dev_e ctx))\<rparr>;
            (rc, co) = adp_advertise_init J (Some ctx);
            ctx = (case co of Some c \<Rightarrow> c | None \<Rightarrow> ctx) in
        if rc < 0 then give_up True ctx else start_acmp J ic ctx)"

definition avdecc_init ::
  "jdks \<Rightarrow> init_calls \<Rightarrow> environment \<Rightarrow> u8 list option \<Rightarrow> u8 list option \<Rightarrow> u8 \<Rightarrow> init_result c_result" where
  "avdecc_init J ic ev yaml_filename interface_name r =
    (if yaml_filename = None then Returns (None, [], [])
     else if interface_name = None then Returns (None, [], [])
     else if \<not> ic_alloc ic then Returns (None, [], []) else
     let ctx = (ctx_zero ev)\<lparr>role := r, av_halt_flag := False, wait_timeout := TIME_IN_MS_TO_WAIT,
           net_info := (net_info (ctx_zero ev))\<lparr>ethertype := AVTP_ETHERTYPE J\<rparr>\<rparr>;
         (rc, neto, closed) = create_socket (ic_socket ic) (Some (net_info ctx)) interface_name in
     if rc < 0 then Returns (None, [Freed_Context], closed)
     else setup_entity J ic (case neto of Some net \<Rightarrow> ctx\<lparr>net_info := net\<rparr> | None \<Rightarrow> ctx))"

text \<open>\<open>joined\<close> is the context when the thread has ended.\<close>

definition avdecc_terminate ::
  "(avdecc_ctx \<Rightarrow> avdecc_ctx c_result) \<Rightarrow> avdecc_ctx option \<Rightarrow> (int \<times> release_event list) c_result" where
  "avdecc_terminate joined co =
    (case co of None \<Rightarrow> Returns (- 1, [])
     | Some ctx \<Rightarrow>
        bindC (joined (ctx\<lparr>av_halt_flag := True\<rparr>)) (\<lambda>ctx.
        bindC (avdecc_release_resource True (Some ctx)) (\<lambda>(_, log, _). Returns (0, log))))"

section \<open>The interface\<close>

definition avdecc_set_grandmaster_id :: "jdks \<Rightarrow> avdecc_ctx option \<Rightarrow> u64 \<Rightarrow> int \<times> avdecc_ctx option" where
  "avdecc_set_grandmaster_id J co gm =
    (case co of None \<Rightarrow> (- 1, None) | Some ctx \<Rightarrow> adp_set_grandmaster_id J (Some ctx) gm)"

definition avdecc_set_talker_stream_info ::
  "jdks \<Rightarrow> avdecc_ctx option \<Rightarrow> u16 \<Rightarrow> u16 \<Rightarrow> u64 \<Rightarrow> u64 \<Rightarrow> u16 \<Rightarrow> (int \<times> avdecc_ctx option) c_result" where
  "avdecc_set_talker_stream_info J co conf uid sid dest vlan =
    (case co of None \<Rightarrow> Returns (- 1, None)
     | Some ctx \<Rightarrow>
        bindC (lock ctx) (\<lambda>ctx.
        let (rc, cl) = acmp_set_streamid J (confs ctx) conf uid sid; ctx = set_confs cl ctx in
        if rc < 0 then Returns (- 1, Some ctx) else
        let (rc, cl) = acmp_set_stream_dest_mac J (confs ctx) conf uid dest; ctx = set_confs cl ctx in
        if rc < 0 then Returns (- 1, Some ctx) else
        let (rc, cl) = acmp_set_stream_vlan_id (confs ctx) conf uid vlan; ctx = set_confs cl ctx in
        if rc < 0 then Returns (- 1, Some ctx) else
        Returns (0, Some (unlock ctx))))"

definition avdecc_get_connection_count :: "avdecc_ctx option \<Rightarrow> u16 \<Rightarrow> u16 \<Rightarrow> int" where
  "avdecc_get_connection_count co conf uid =
    (case co of None \<Rightarrow> - 1 | Some ctx \<Rightarrow> acmp_get_connection_count (confs ctx) conf uid)"

definition avdecc_get_current_configuration :: "avdecc_ctx option \<Rightarrow> int" where
  "avdecc_get_current_configuration co =
    (case co of None \<Rightarrow> - 1 | Some ctx \<Rightarrow> uint (ed_current_configuration (entity_desc (dev_e ctx))))"

definition avdecc_get_connected_from_listener_stream_info :: "avdecc_ctx option \<Rightarrow> u16 \<Rightarrow> u16 \<Rightarrow> int" where
  "avdecc_get_connected_from_listener_stream_info co conf uid =
    (case co of None \<Rightarrow> - 1
     | Some ctx \<Rightarrow> acmp_get_connected_from_listener_stream_info (confs ctx) conf uid)"

definition avdecc_get_stream_id_from_listener_stream_info ::
  "jdks \<Rightarrow> avdecc_ctx option \<Rightarrow> u16 \<Rightarrow> u16 \<Rightarrow> u8 list option \<Rightarrow> int \<times> u8 list option" where
  "avdecc_get_stream_id_from_listener_stream_info J co conf uid out =
    (case co of None \<Rightarrow> (- 1, out)
     | Some ctx \<Rightarrow> acmp_get_stream_id_from_listener_stream_info J (confs ctx) conf uid out)"

definition set_acmp_started :: "bool \<Rightarrow> avdecc_ctx option \<Rightarrow> (int \<times> avdecc_ctx option) c_result" where
  "set_acmp_started b co =
    (case co of None \<Rightarrow> Returns (- 1, None)
     | Some ctx \<Rightarrow> bindC (lock ctx) (\<lambda>ctx. Returns (0, Some (unlock (ctx\<lparr>acmp_started := b\<rparr>)))))"

definition avdecc_acmp_process_start :: "avdecc_ctx option \<Rightarrow> (int \<times> avdecc_ctx option) c_result" where
  "avdecc_acmp_process_start = set_acmp_started True"

definition avdecc_acmp_process_stop :: "avdecc_ctx option \<Rightarrow> (int \<times> avdecc_ctx option) c_result" where
  "avdecc_acmp_process_stop = set_acmp_started False"

end
