(* ===== verification/Avdecc_Props.thy ===== *)
theory Avdecc_Props
  imports Avdecc Acmp_Invariant Adp_Props Aecp_Props
begin

unbundle bit_operations_syntax

text \<open>
  Properties of the core: the contract every protocol handler keeps, who holds the lock after
  a frame was processed, the setter that keeps it after a failure, the end of the thread
  after a halt, and the release of the resources when the creation fails.
\<close>

section \<open>The contract of a protocol handler\<close>

locale subprotocol =
  fixes step :: "avdecc_ctx \<Rightarrow> (int \<times> avdecc_ctx) c_result" and inv :: "avdecc_ctx \<Rightarrow> bool"
  assumes keeps: "inv ctx \<Longrightarrow> on_return (step ctx) (\<lambda>r. inv (snd r) \<and> same_control ctx (snd r))"
begin

lemma keeps_from:
  "inv ctx \<Longrightarrow> same_control c0 ctx \<Longrightarrow> on_return (step ctx) (\<lambda>r. inv (snd r) \<and> same_control c0 (snd r))"
  by (rule on_return_mono [OF keeps]) (auto intro: same_control_trans)

lemma keeps_result: "inv ctx \<Longrightarrow> step ctx = Returns (rc, ctx') \<Longrightarrow> inv ctx' \<and> same_control ctx ctx'"
  using keeps [of ctx] by simp

text \<open>The step, and what follows it when it did not fail.\<close>

lemma then_keeps:
  assumes "inv ctx" "same_control c0 ctx"
    "\<And>c. inv c \<Longrightarrow> same_control c0 c \<Longrightarrow> on_return (next c) P"
    "\<And>c. inv c \<Longrightarrow> same_control c0 c \<Longrightarrow> P (- 1, c)"
  shows "on_return (bindC (step ctx) (\<lambda>(rc, c). if rc < 0 then Returns (- 1, c) else next c)) P"
  by (simp add: case_prod_beta) (rule on_return_mono [OF keeps_from [OF assms(1,2)]], use assms(3,4) in auto)

end

lemma on_ctx_step:
  assumes "on_return (h (Some ctx)) (\<lambda>(rc, co). \<forall>c. co = Some c \<longrightarrow> P c)" "P ctx"
  shows "on_return (on_ctx h ctx) (\<lambda>r. P (snd r))"
  unfolding on_ctx_def on_return_bind
  by (rule on_return_mono [OF assms(1)]) (use assms(2) in \<open>auto split: option.splits\<close>)

text \<open>The discovery protocol: neither the device entity nor the control fields change.\<close>

definition adp_frame_of :: "avdecc_ctx \<Rightarrow> avdecc_ctx \<Rightarrow> bool" where
  "adp_frame_of c0 ctx \<longleftrightarrow> dev_e ctx = dev_e c0 \<and> same_control c0 ctx"

lemma adp_frame_trivial [simp]:
  "adp_frame_of c0 (set_adp s ctx) = adp_frame_of c0 ctx" "adp_frame_of c0 (ctx\<lparr>env := ev\<rparr>) = adp_frame_of c0 ctx"
  "adp_frame_of c0 (ctx\<lparr>ctx_adpdu := p\<rparr>) = adp_frame_of c0 ctx" "adp_frame_of c0 c0"
  by (simp_all add: adp_frame_of_def set_adp_def same_control_def)

lemma adp_send_frame: "adp_frame_of c0 ctx \<Longrightarrow> on_return (adp_send J p ctx) (\<lambda>r. adp_frame_of c0 (snd r))"
  by (auto simp: adp_send_def case_prod_beta ctx_send_def send_data_def Let_def)

lemma adp_parts_frame:
  assumes "adp_frame_of c0 ctx"
  shows "on_return (adp_do_advertise J now ctx) (adp_frame_of c0)"
    "on_return (adp_do_discover J ctx) (adp_frame_of c0)"
    "on_return (adp_do_terminate J now ctx) (adp_frame_of c0)"
  using assms
  by (auto simp: adp_parts case_prod_beta Let_def intro!: on_return_mono [OF adp_send_frame])

lemma adp_checks_frame [simp]:
  "adp_frame_of c0 (adp_check_timer now ctx) = adp_frame_of c0 ctx"
  "adp_frame_of c0 (adp_check_link up ctx) = adp_frame_of c0 ctx"
  "adp_frame_of c0 (adp_check_grandmaster J ctx) = adp_frame_of c0 ctx"
  "adp_frame_of c0 (snd (read_linkup ctx)) = adp_frame_of c0 ctx"
  "adp_frame_of c0 (snd (read_clock ctx)) = adp_frame_of c0 ctx"
  by (simp_all add: adp_check_timer_def adp_check_link_def adp_check_grandmaster_def read_linkup_def
      read_clock_def Let_def case_prod_beta)

lemma adp_state_process_frame:
  "on_return (adp_state_process J (Some ctx)) (\<lambda>(rc, co). \<forall>c. co = Some c \<longrightarrow> adp_frame_of ctx c)"
proof -
  have "on_return (bindC (adp_do_advertise J now c) (\<lambda>c. bindC (adp_do_discover J c) (\<lambda>c. adp_do_terminate J now c)))
      (adp_frame_of ctx)" if "adp_frame_of ctx c" for now c
    unfolding on_return_bind
    by (rule on_return_mono [OF adp_parts_frame(1) [OF that]], rule on_return_mono [OF adp_parts_frame(2)], assumption,
      rule adp_parts_frame(3))
  then show ?thesis
    by (simp add: adp_state_process_def case_prod_beta Let_def)
qed

lemma adp_tick_keeps:
  assumes "inflight_ok J ctx"
  shows "on_return (on_ctx (adp_state_process J) ctx) (\<lambda>r. inflight_ok J (snd r) \<and> same_control ctx (snd r))"
proof -
  have "on_return (on_ctx (adp_state_process J) ctx) (\<lambda>r. adp_frame_of ctx (snd r))"
    by (rule on_ctx_step, rule adp_state_process_frame) simp
  then show ?thesis
    by (rule on_return_mono) (use assms in \<open>auto simp: adp_frame_of_def inflight_ok_def\<close>)
qed

interpretation adp_tick: subprotocol "on_ctx (adp_state_process J)" "inflight_ok J" for J
  by unfold_locales (rule adp_tick_keeps)

interpretation adp_rx: subprotocol "adp_receive J f" "inflight_ok J" for J f
  by unfold_locales
    (auto simp: adp_receive_def set_adp_def same_control_def inflight_ok_def split: prod.splits option.splits)

interpretation acmp_tick: subprotocol "on_ctx (acmp_state_process J)" "inflight_ok J" for J
proof
  fix ctx
  assume ok: "inflight_ok J ctx"
  have "on_return (acmp_state_process J (Some ctx)) (\<lambda>(rc, co). \<forall>c. co = Some c \<longrightarrow> acmp_good J ctx 8 c)"
    using good_tick [OF good_refl [OF ok]] by (auto simp: on_return_iff)
  then have "on_return (on_ctx (acmp_state_process J) ctx) (\<lambda>r. acmp_good J ctx 8 (snd r))"
    by (rule on_ctx_step) (use good_refl [OF ok] acmp_good_mono in blast)
  then show "on_return (on_ctx (acmp_state_process J) ctx) (\<lambda>r. inflight_ok J (snd r) \<and> same_control ctx (snd r))"
    by (rule on_return_mono) (simp add: acmp_good_def)
qed

interpretation acmp_rx: subprotocol "on_ctx (\<lambda>co. acmp_receive_process J co (Some f))" "inflight_ok J" for J f
proof
  fix ctx
  assume ok: "inflight_ok J ctx"
  have "on_return (acmp_receive_process J (Some ctx) (Some f)) (\<lambda>(rc, co). \<forall>c. co = Some c \<longrightarrow> acmp_good J ctx 2 c)"
    using good_receive [OF good_refl [OF ok]] by (auto simp: on_return_iff numeral_2_eq_2)
  then have "on_return (on_ctx (\<lambda>co. acmp_receive_process J co (Some f)) ctx) (\<lambda>r. acmp_good J ctx 2 (snd r))"
    by (rule on_ctx_step) (use good_refl [OF ok] acmp_good_mono in blast)
  then show "on_return (on_ctx (\<lambda>co. acmp_receive_process J co (Some f)) ctx)
      (\<lambda>r. inflight_ok J (snd r) \<and> same_control ctx (snd r))"
    by (rule on_return_mono) (simp add: acmp_good_def)
qed

text \<open>The enumeration protocol only sends.\<close>

lemma aecp_send_env:
  "on_return (aecp_send_frame J A dest p n ctx) (\<lambda>r. \<exists>ev. snd r = ctx\<lparr>env := ev\<rparr>)"
  by (auto simp: aecp_send_frame_def send_data_def Let_def split: option.splits)

lemma aecp_receive_env:
  "on_return (aecp_receive_process E J A junk (Some ctx) (Some f))
    (\<lambda>(rc, co). \<forall>c. co = Some c \<longrightarrow> (\<exists>ev. c = ctx\<lparr>env := ev\<rparr>))"
proof -
  let ?P = "\<lambda>r. \<exists>ev. snd r = ctx\<lparr>env := ev\<rparr>"
  have self: "\<exists>ev. ctx = ctx\<lparr>env := ev\<rparr>" by (rule exI [of _ "env ctx"]) simp
  have rd: "on_return (aecp_process_read_descriptor E J A junk ctx f c s) ?P" for c s
    using self aecp_send_env
    by (auto simp: aecp_process_read_descriptor_def case_prod_beta Let_def intro!: on_return_all)
  have "on_return (aecp_process_aem_command E J A junk ctx f) ?P"
    using self rd aecp_send_env
    by (auto simp: aecp_process_aem_command_def aecp_process_entity_available_def
        aecp_send_aem_command_not_implemented_def case_prod_beta Let_def)
  then show ?thesis
    using self aecp_send_env [of J A _ _ _ ctx]
    by (auto simp: aecp_receive_process_def aecp_send_command_not_implemented_def case_prod_beta Let_def)
qed

interpretation aecp_rx: subprotocol "on_ctx (\<lambda>co. aecp_receive_process E J A junk co (Some f))" "inflight_ok J"
  for E J A junk f
proof
  fix ctx
  assume ok: "inflight_ok J ctx"
  have "on_return (on_ctx (\<lambda>co. aecp_receive_process E J A junk co (Some f)) ctx)
      (\<lambda>r. \<exists>ev. snd r = ctx\<lparr>env := ev\<rparr>)"
    by (rule on_ctx_step, rule aecp_receive_env) (rule exI [of _ "env ctx"], simp)
  then show "on_return (on_ctx (\<lambda>co. aecp_receive_process E J A junk co (Some f)) ctx)
      (\<lambda>r. inflight_ok J (snd r) \<and> same_control ctx (snd r))"
    by (rule on_return_mono) (use ok in \<open>auto simp: inflight_ok_def same_control_def\<close>)
qed

interpretation rx: subprotocol "receive_frame E J A junk f" "inflight_ok J" for E J A junk f
  by unfold_locales
    (use adp_rx.keeps aecp_rx.keeps acmp_rx.keeps in \<open>auto simp: receive_frame_def split: list.splits\<close>)

section \<open>The lock\<close>

lemma depart_keeps: "inflight_ok J ctx \<Longrightarrow> inflight_ok J (depart_when_halted ctx)"
  "same_control c0 ctx \<Longrightarrow> same_control c0 (depart_when_halted ctx)"
  by (simp_all add: depart_when_halted_def adp_state_change_departing_def set_adp_def inflight_ok_def same_control_def)

definition processed :: "jdks \<Rightarrow> avdecc_ctx \<Rightarrow> int \<times> avdecc_ctx \<Rightarrow> bool" where
  "processed J ctx r \<longleftrightarrow> inflight_ok J (snd r) \<and>
    fst r = (if fst r < 0 then - 1 else if av_halt_flag ctx then 1 else 0) \<and>
    same_control (if fst r = 0 then ctx else ctx\<lparr>data_lock := True\<rparr>) (snd r)"

lemma protocol_process_keeps:
  assumes "inflight_ok J ctx" "\<not> data_lock ctx"
  shows "on_return (protocol_process E J A junk ctx f) (processed J ctx)"
proof -
  let ?l = "ctx\<lparr>data_lock := True\<rparr>"
  have start: "inflight_ok J ?l" "same_control ?l ?l" using assms(1) by (simp_all add: inflight_ok_def)
  have fail: "processed J ctx (- 1, c)" if "inflight_ok J c" "same_control ?l c" for c
    using that by (simp add: processed_def)
  have finish: "on_return (if av_halt_flag c then Returns (1, c) else Returns (0, unlock c)) (processed J ctx)"
    if "inflight_ok J c" "same_control ?l c" for c
    using that assms(2) by (auto simp: unlock_def same_control_def inflight_ok_def processed_def)
  have acmp: "on_return (bindC (if acmp_started c then on_ctx (acmp_state_process J) c else Returns (0, c))
      (\<lambda>(rc, c). if rc < 0 then Returns (- 1, c)
        else if av_halt_flag c then Returns (1, c) else Returns (0, unlock c))) (processed J ctx)"
    if "inflight_ok J c" "same_control ?l c" for c
  proof (cases "acmp_started c")
    case True
    have "on_return (bindC (on_ctx (acmp_state_process J) c) (\<lambda>(rc, c). if rc < 0 then Returns (- 1, c)
        else if av_halt_flag c then Returns (1, c) else Returns (0, unlock c))) (processed J ctx)"
      by (rule acmp_tick.then_keeps [where ?c0.0 = ?l]) (use that finish fail in auto)
    then show ?thesis using True by simp
  qed (use finish [OF that] in simp)
  have adp: "on_return (bindC (on_ctx (adp_state_process J) (depart_when_halted c)) (\<lambda>(rc, c).
      if rc < 0 then Returns (- 1, c) else
      if aecp_state_process (Some c) < 0 then Returns (- 1, c) else
      bindC (if acmp_started c then on_ctx (acmp_state_process J) c else Returns (0, c))
      (\<lambda>(rc, c). if rc < 0 then Returns (- 1, c)
        else if av_halt_flag c then Returns (1, c) else Returns (0, unlock c)))) (processed J ctx)"
    if "inflight_ok J c" "same_control ?l c" for c
  proof (rule adp_tick.then_keeps [where ?c0.0 = ?l])
    show "inflight_ok J (depart_when_halted c)" "same_control ?l (depart_when_halted c)"
      using depart_keeps that by simp_all
  qed (use acmp fail in \<open>simp_all add: aecp_state_process_def\<close>)
  have "on_return (bindC (receive_frame E J A junk f ?l) (\<lambda>(rc, c).
      if rc < 0 then Returns (- 1, c) else
      bindC (on_ctx (adp_state_process J) (depart_when_halted c)) (\<lambda>(rc, c).
      if rc < 0 then Returns (- 1, c) else
      if aecp_state_process (Some c) < 0 then Returns (- 1, c) else
      bindC (if acmp_started c then on_ctx (acmp_state_process J) c else Returns (0, c))
      (\<lambda>(rc, c). if rc < 0 then Returns (- 1, c)
        else if av_halt_flag c then Returns (1, c) else Returns (0, unlock c))))) (processed J ctx)"
    by (rule rx.then_keeps [OF start]) (use adp fail in simp_all)
  then show ?thesis using assms(2) by (simp add: protocol_process_def lock_def)
qed

text \<open>
  C8: The protocol processing returns with the lock of the context free exactly when it
  succeeds: when the thread is told to halt, or a protocol fails, it returns holding the lock.
\<close>
theorem lock_is_free_exactly_after_success:
  assumes "inflight_ok J ctx" "\<not> data_lock ctx"
    "protocol_process E J A junk ctx f = Returns (rc, ctx')"
  shows "(data_lock ctx' \<longleftrightarrow> rc \<noteq> 0) \<and> (rc = 0 \<or> rc = 1 \<or> rc = - 1) \<and> (rc = 0 \<longrightarrow> \<not> av_halt_flag ctx) \<and>
    inflight_ok J ctx' \<and> entity_id ctx' = entity_id ctx \<and> role ctx' = role ctx \<and>
    acmp_started ctx' = acmp_started ctx"
  using protocol_process_keeps [OF assms(1,2), of E A junk f] assms(2,3)
  by (auto simp: processed_def same_control_def split: if_splits)

section \<open>Setting the parameters of a stream\<close>

text \<open>
  Setting the stream of an unknown talker returns an error with the lock held, and every
  operation that takes the lock waits for ever afterwards.
\<close>
theorem failed_setter_blocks_the_context:
  assumes "\<not> data_lock ctx" "acmp_find_talker_stream_info (confs ctx) conf uid = None"
  shows "\<exists>ctx'. avdecc_set_talker_stream_info J (Some ctx) conf uid sid dest vlan = Returns (- 1, Some ctx') \<and>
    (\<forall>E A junk f. protocol_process E J A junk ctx' f = NoReturn) \<and>
    avdecc_acmp_process_start (Some ctx') = NoReturn \<and> avdecc_acmp_process_stop (Some ctx') = NoReturn"
  using assms
  by (auto simp: avdecc_set_talker_stream_info_def lock_def acmp_set_streamid_def update_talker_def
      set_confs_def protocol_process_def avdecc_acmp_process_start_def avdecc_acmp_process_stop_def
      set_acmp_started_def)

definition with_stream_info ::
  "jdks \<Rightarrow> u64 \<Rightarrow> u64 \<Rightarrow> u16 \<Rightarrow> acmp_talker_stream_info \<Rightarrow> acmp_talker_stream_info" where
  "with_stream_info J sid dest vlan s = s\<lparr>ts_stream_id := eui64_init_from_uint64 J sid,
     ts_stream_dest_mac := eui48_init_from_uint64 J dest, ts_stream_vlan_id := vlan\<rparr>"

lemma update_talker_found:
  "acmp_find_talker_stream_info cl cur uid = Some pl \<Longrightarrow>
    update_talker f cl cur uid = (0, set_talker_at pl (f (talker_at cl pl)) cl)"
  by (auto simp: update_talker_def acmp_find_talker_stream_info_def find_configuration_def)

text \<open>
  Setting the stream of a known talker stores exactly the values given in that talker,
  leaves all others unchanged and frees the lock.
\<close>
theorem setter_stores_stream_info:
  assumes "\<not> data_lock ctx" "acmp_find_talker_stream_info (confs ctx) conf uid = Some pl"
  shows "\<exists>ctx'. avdecc_set_talker_stream_info J (Some ctx) conf uid sid dest vlan = Returns (0, Some ctx') \<and>
    \<not> data_lock ctx' \<and>
    acmp_find_talker_stream_info (confs ctx') conf uid = Some pl \<and>
    talker_at (confs ctx') pl = with_stream_info J sid dest vlan (talker_at (confs ctx) pl) \<and>
    (\<forall>uid'. uid' \<noteq> uid \<longrightarrow>
      map_option (talker_at (confs ctx')) (acmp_find_talker_stream_info (confs ctx') conf uid') =
      map_option (talker_at (confs ctx)) (acmp_find_talker_stream_info (confs ctx) conf uid'))"
proof -
  let ?cl = "confs ctx" and ?s = "talker_at (confs ctx) pl"
  let ?s1 = "?s\<lparr>ts_stream_id := eui64_init_from_uint64 J sid\<rparr>"
  let ?s2 = "?s1\<lparr>ts_stream_dest_mac := eui48_init_from_uint64 J dest\<rparr>"
  let ?s3 = "with_stream_info J sid dest vlan ?s"
  have key: "ts_talker_unique_id ?s = uid" by (rule talker_table.find_key [OF assms(2)])
  have f: "acmp_find_talker_stream_info (set_talker_at pl s ?cl) conf uid = Some pl"
    "talker_at (set_talker_at pl s ?cl) pl = s" if "ts_talker_unique_id s = uid" for s
    using talker_table.find_same [OF assms(2) that] talker_table.at_put [OF assms(2)] by simp_all
  have k: "ts_talker_unique_id ?s1 = uid" "ts_talker_unique_id ?s2 = uid" "ts_talker_unique_id ?s3 = uid"
    using key by (simp_all add: with_stream_info_def)
  have "avdecc_set_talker_stream_info J (Some ctx) conf uid sid dest vlan =
      Returns (0, Some (set_confs (set_talker_at pl ?s3 ?cl) ctx))"
    using assms(1) update_talker_found [OF assms(2)] update_talker_found [OF f(1) [OF k(1)]] f(2) [OF k(1)]
      update_talker_found [OF f(1) [OF k(2)]] f(2) [OF k(2)] talker_table.put_put [OF assms(2)]
    by (simp add: avdecc_set_talker_stream_info_def lock_def unlock_def acmp_set_streamid_def
        acmp_set_stream_dest_mac_def acmp_set_stream_vlan_id_def set_confs_def with_stream_info_def)
  then show ?thesis
    using f [OF k(3)] assms(1) talker_table.other_entry_unchanged [OF assms(2) k(3)]
    by (intro exI [of _ "set_confs (set_talker_at pl ?s3 ?cl) ctx"]) (auto simp: set_confs_def)
qed

section \<open>The end of the thread\<close>

lemma acmp_tick_appends:
  assumes "jdks_ok J" "inflight_ok J ctx"
  shows "\<exists>c fs. on_ctx (acmp_state_process J) ctx = Returns (0, c) \<and> sent (env c) = sent (env ctx) @ fs \<and>
    av_halt_flag c = av_halt_flag ctx"
proof -
  obtain c where c: "acmp_state_process J (Some ctx) = Returns (0, Some c)" using tick_returns [OF assms(1)] by blast
  have "acmp_good J ctx 8 c" using good_tick [OF good_refl [OF assms(2)] c] by simp
  then show ?thesis using c by (auto simp: on_ctx_def acmp_good_def same_control_def)
qed

text \<open>A round in which no frame is received.\<close>

lemma idle_round:
  assumes "jdks_ok J" "inflight_ok J ctx" "\<not> data_lock ctx" "link_readable ctx" "fr_length f = 0"
  shows "\<exists>c post. protocol_process E J A junk ctx f = Returns (if av_halt_flag ctx then 1 else 0, c) \<and>
    sent (env c) = sent (env ctx) @ tick_frames J (depart_when_halted (ctx\<lparr>data_lock := True\<rparr>)) @ post"
proof -
  let ?d = "depart_when_halted (ctx\<lparr>data_lock := True\<rparr>)"
  let ?t = "ticked_ctx J ?d"
  have d: "link_readable ?d" "inflight_ok J ?d" "sent (env ?d) = sent (env ctx)" "av_halt_flag ?d = av_halt_flag ctx"
    "acmp_started ?d = acmp_started ctx"
    using assms(2,4) by (simp_all add: depart_when_halted_def adp_state_change_departing_def set_adp_def
        link_readable_def inflight_ok_def)
  have tick: "on_ctx (adp_state_process J) ?d = Returns (0, ?t)"
    using adp_tick_result [OF assms(1) d(1)] by (simp add: on_ctx_def)
  have t: "inflight_ok J ?t" "sent (env ?t) = sent (env ctx) @ tick_frames J ?d" "av_halt_flag ?t = av_halt_flag ctx"
    using d by (simp_all add: ticked_ctx_def inflight_ok_def)
  obtain c post where c: "(if acmp_started ?t then on_ctx (acmp_state_process J) ?t else Returns (0, ?t)) = Returns (0, c)"
    "sent (env c) = sent (env ?t) @ post" "av_halt_flag c = av_halt_flag ctx"
  proof (cases "acmp_started ?t")
    case True
    then show ?thesis using acmp_tick_appends [OF assms(1) t(1)] that t(3) by auto
  next
    case False
    then show ?thesis using that [of ?t "[]"] t(3) by simp
  qed
  have "protocol_process E J A junk ctx f =
      Returns (if av_halt_flag ctx then (1, c) else (0, unlock c))"
    using tick c(1,3) assms(3,5)
    by (simp add: protocol_process_def lock_def receive_frame_def aecp_state_process_def)
  then show ?thesis using c(2) t(2) by (cases "av_halt_flag ctx") (auto simp: unlock_def)
qed


section \<open>Creation\<close>

definition closings :: "int \<Rightarrow> release_event list \<Rightarrow> int list \<Rightarrow> nat" where
  "closings fd log closed = count_list log (Closed_Socket fd) + count_list closed fd"

lemma count_list_append [simp]: "count_list (xs @ ys) x = count_list xs x + count_list ys x"
  by (induction xs) simp_all

lemma give_up_result:
  "give_up b ctx = Returns (r, log, closed) \<Longrightarrow>
    r = None \<and> closed = [] \<and> count_list log Freed_Context = 1 \<and>
    count_list log (Closed_Socket (raw_sock (net_info ctx))) = 1"
  by (auto simp: give_up_def avdecc_release_resource_def bindC_eq_Returns_iff case_prod_beta split: if_splits)

lemma create_socket_results:
  "create_socket c (Some net) (Some name) = (rc, neto, closed) \<Longrightarrow>
    (rc < 0 \<and> (0 \<le> socket_fd c \<longrightarrow> closed = [socket_fd c])) \<or>
    (rc = 0 \<and> closed = [] \<and> (\<exists>net'. neto = Some net' \<and> raw_sock net' = socket_fd c))"
  by (auto simp: create_socket_def Let_def split: if_splits)

lemma adp_init_keeps_network:
  "adp_advertise_init J (Some ctx) = (rc, co) \<Longrightarrow> \<exists>c. co = Some c \<and> net_info c = net_info ctx"
  by (auto simp: adp_advertise_init_def case_prod_beta Let_def set_adp_def read_linkup_def split: if_splits)

lemma acmp_init_keeps_network:
  "acmp_ctx_init J (Some ctx) = Returns (rc, co) \<Longrightarrow> \<exists>c. co = Some c \<and> net_info c = net_info ctx"
  by (auto simp: acmp_ctx_init_def bindC_eq_Returns_iff set_confs_def)

lemma start_acmp_failure:
  assumes "start_acmp J ic ctx = Returns (None, log, closed)"
  shows "\<exists>c. net_info c = net_info ctx \<and> give_up True c = Returns (None, log, closed)"
proof -
  obtain rc co where a: "acmp_ctx_init J (Some ctx) = Returns (rc, co)"
    using assms by (auto simp: start_acmp_def bindC_eq_Returns_iff)
  then obtain c where c: "co = Some c" "net_info c = net_info ctx" using acmp_init_keeps_network [OF a] by auto
  have "give_up True c = Returns (None, log, closed)"
    using assms a c(1) by (auto simp: start_acmp_def Let_def split: if_splits)
  then show ?thesis using c(2) by blast
qed

lemma setup_entity_failure:
  assumes "setup_entity J ic ctx = Returns (None, log, closed)"
  shows "\<exists>b c. net_info c = net_info ctx \<and> give_up b c = Returns (None, log, closed)"
proof (cases "ic_entity ic")
  case None
  then show ?thesis using assms by (auto simp: setup_entity_def)
next
  case (Some e)
  obtain rc2 e2 where st: "ic_setup ic e (mac_addr (net_info ctx)) = (rc2, e2)" by fastforce
  let ?c2 = "ctx\<lparr>dev_e := e2, entity_id := ed_entity_id (entity_desc e2)\<rparr>"
  obtain rc3 co3 where ad: "adp_advertise_init J (Some ?c2) = (rc3, co3)" by fastforce
  then obtain c3 where c3: "co3 = Some c3" "net_info c3 = net_info ctx" using adp_init_keeps_network [OF ad] by auto
  show ?thesis
  proof (cases "rc2 < 0")
    case True
    then have "give_up True (ctx\<lparr>dev_e := e2\<rparr>) = Returns (None, log, closed)"
      using assms Some st by (simp add: setup_entity_def)
    then show ?thesis by (intro exI [of _ True] exI [of _ "ctx\<lparr>dev_e := e2\<rparr>"]) simp
  next
    case False
    then have "(if rc3 < 0 then give_up True c3 else start_acmp J ic c3) = Returns (None, log, closed)"
      using assms Some st ad c3(1) by (simp add: setup_entity_def)
    then show ?thesis using start_acmp_failure [of J ic c3] c3(2) by (auto split: if_splits)
  qed
qed

text \<open>
  When the creation of a context fails after its allocation, the context is freed once and
  its socket closed once.
\<close>
theorem failed_creation_releases_everything:
  assumes "avdecc_init J ic ev (Some y) (Some name) r = Returns (None, log, closed)" "ic_alloc ic"
    "0 \<le> socket_fd (ic_socket ic)"
  shows "count_list log Freed_Context = 1 \<and> closings (socket_fd (ic_socket ic)) log closed = 1"
proof -
  let ?fd = "socket_fd (ic_socket ic)"
  define c0 where "c0 = (ctx_zero ev)\<lparr>role := r, av_halt_flag := False, wait_timeout := TIME_IN_MS_TO_WAIT,
    net_info := (net_info (ctx_zero ev))\<lparr>ethertype := AVTP_ETHERTYPE J\<rparr>\<rparr>"
  obtain rc neto cl where cs: "create_socket (ic_socket ic) (Some (net_info c0)) (Some name) = (rc, neto, cl)"
    by (metis prod_cases3)
  from create_socket_results [OF cs] show ?thesis
  proof (elim disjE conjE exE)
    assume "rc < 0" "0 \<le> ?fd \<longrightarrow> cl = [?fd]"
    then have "log = [Freed_Context]" "closed = [?fd]"
      using assms cs by (auto simp: avdecc_init_def c0_def [symmetric] Let_def)
    then show ?thesis by (simp add: closings_def)
  next
    fix net
    assume net: "rc = 0" "cl = []" "neto = Some net" "raw_sock net = ?fd"
    have "setup_entity J ic (c0\<lparr>net_info := net\<rparr>) = Returns (None, log, closed)"
      using assms(1,2) cs net by (simp add: avdecc_init_def c0_def [symmetric] Let_def)
    then obtain b c where "net_info c = net" "give_up b c = Returns (None, log, closed)"
      using setup_entity_failure by fastforce
    then show ?thesis using give_up_result [of b c] net(4) by (auto simp: closings_def)
  qed
qed

section \<open>Witnesses\<close>

definition sample_monitored :: avdecc_ctx where
  "sample_monitored = sample_listener\<lparr>ctx_adpdu := adpdu_zero\<lparr>adp_valid_time := VALID_TIME\<rparr>\<rparr>"

lemma sample_monitored_ok:
  "inflight_ok jdks_sample sample_monitored" "\<not> data_lock sample_monitored" "link_readable sample_monitored"
  "\<not> av_halt_flag sample_monitored" "sent (env sample_monitored) = []"
  by (simp_all add: sample_monitored_def inflight_ok_def MAX_INFLIGHT_CMD_NUM_def link_readable_def sample_listener_defs)

theorem lock_is_free_exactly_after_success_witness:
  "\<exists>ctx'. protocol_process LE jdks_sample (aem_sample 0 0 sample_read) [] sample_monitored
    (sample_frame\<lparr>fr_length := 0\<rparr>) = Returns (0, ctx') \<and> \<not> data_lock ctx'"
proof -
  obtain c where c: "protocol_process LE jdks_sample (aem_sample 0 0 sample_read) [] sample_monitored
      (sample_frame\<lparr>fr_length := 0\<rparr>) = Returns (0, c)"
    using idle_round [OF jdks_sample_ok sample_monitored_ok(1-3), of "sample_frame\<lparr>fr_length := 0\<rparr>" LE
        "aem_sample 0 0 sample_read" "[]"] sample_monitored_ok(4) by auto
  then show ?thesis
    using lock_is_free_exactly_after_success [OF sample_monitored_ok(1,2) c] by blast
qed

theorem failed_setter_blocks_the_context_witness:
  "\<exists>ctx'. avdecc_set_talker_stream_info jdks_sample (Some sample_monitored) 0 7 1 2 3 = Returns (- 1, Some ctx') \<and>
    avdecc_acmp_process_start (Some ctx') = NoReturn"
proof -
  have "acmp_find_talker_stream_info (confs sample_monitored) 0 7 = None"
    by (simp add: sample_monitored_def acmp_find_talker_stream_info_def find_configuration_def sample_listener_def
        sample_defs)
  from failed_setter_blocks_the_context [OF sample_monitored_ok(2) this, where J = jdks_sample and sid = 1 and dest = 2 and vlan = 3]
  show ?thesis by blast
qed

theorem setter_stores_stream_info_witness:
  "\<exists>ctx'. avdecc_set_talker_stream_info jdks_sample (Some sample_monitored) 0 2 0x55 0x66 3 = Returns (0, Some ctx') \<and>
    \<not> data_lock ctx' \<and> ts_stream_id (talker_at (confs ctx') (0, 0)) = 0x55"
proof -
  have "acmp_find_talker_stream_info (confs sample_monitored) 0 2 = Some (0, 0)"
    by (simp add: sample_monitored_def acmp_find_talker_stream_info_def find_configuration_def sample_listener_def
        sample_defs)
  from setter_stores_stream_info [OF sample_monitored_ok(2) this, where J = jdks_sample and sid = "0x55" and dest = "0x66" and vlan = 3]
  show ?thesis by (auto simp: with_stream_info_def jdks_sample_def)
qed


text \<open>The entity's description cannot be read: the socket 5 is closed and the context freed.\<close>

definition sample_calls :: init_calls where
  "sample_calls = \<lparr> ic_alloc = True,
     ic_socket = \<lparr> socket_fd = 5, ifindex_rc = 0, ifindex = 1, hwaddr_rc = 0, hwaddr = [2, 0, 0, 0, 0, 1],
       flags_rc = 0, bind_result = 0, membership_rc = 0 \<rparr>,
     ic_entity = None, ic_setup = (\<lambda>e _. (0, e)), ic_thread_rc = 0 \<rparr>"

theorem failed_creation_releases_everything_witness:
  "\<exists>log closed. avdecc_init jdks_sample sample_calls sample_environment (Some []) (Some []) 3 = Returns (None, log, closed) \<and>
    closings 5 log closed = 1"
proof -
  have r: "avdecc_init jdks_sample sample_calls sample_environment (Some []) (Some []) 3 =
      Returns (None, [Closed_Socket 5, Freed_Context], [])"
    by (simp add: avdecc_init_def sample_calls_def create_socket_def setup_entity_def give_up_def
        avdecc_release_resource_def Let_def)
  show ?thesis
    using failed_creation_releases_everything [OF r] r by (simp add: sample_calls_def)
qed

end
