(* ===== verification/Eavb.thy ===== *)
theory Eavb
  imports Avb_Prelude
begin

unbundle bit_operations_syntax

text \<open>
  Access to the stream queue of the Ethernet AVB driver (\<open>lib/eavb/eavb.c\<close>). The driver is not
  part of the repository: what a system call returns is an argument of the operation that makes
  the call. Of the driver's structures only the members the source uses are modelled.
\<close>

section \<open>Entries and pages\<close>

record eavb_entry =
  seq_no :: int
  vec_base :: nat
  vec_len :: int

text \<open>
  A page of the driver: its bus address, the pointer to its memory and the size that is mapped.
  A mapping that fails leaves a pointer that is not null.
\<close>

datatype page_pointer = Null | Map_Failed | Mapped mem

record eavb_dma_alloc =
  dma_paddr :: nat
  dma_vaddr :: page_pointer
  mmap_size :: nat

definition entry_zero :: eavb_entry where
  "entry_zero = \<lparr> seq_no = 0, vec_base = 0, vec_len = 0 \<rparr>"

definition page_zero :: eavb_dma_alloc where
  "page_zero = \<lparr> dma_paddr = 0, dma_vaddr = Null, mmap_size = 0 \<rparr>"

section \<open>Opening and parameters\<close>

definition eavb_open :: "int \<Rightarrow> int" where
  "eavb_open open_rc = (if open_rc < 0 then - 1 else open_rc)"

text \<open>
  The six requests differ in their code and in whether the driver writes to the argument: a
  request that fails leaves the caller's argument alone.
\<close>

datatype eavb_block = BLOCK_NOWAIT | BLOCK_WAITALL

definition eavb_request :: "int \<Rightarrow> int" where
  "eavb_request ioctl_rc = (if ioctl_rc < 0 then - 1 else 0)"

definition eavb_set_txparam :: "int \<Rightarrow> int" where "eavb_set_txparam = eavb_request"
definition eavb_set_rxparam :: "int \<Rightarrow> int" where "eavb_set_rxparam = eavb_request"
definition eavb_set_optblockmode :: "int \<Rightarrow> eavb_block \<Rightarrow> int \<times> eavb_block option" where
  "eavb_set_optblockmode ioctl_rc mode =
    (eavb_request ioctl_rc, if ioctl_rc < 0 then None else Some mode)"

definition eavb_get_txparam :: "int \<times> 'p \<Rightarrow> 'p \<Rightarrow> int \<times> 'p" where
  "eavb_get_txparam answer p = (eavb_request (fst answer), if fst answer < 0 then p else snd answer)"

definition eavb_get_rxparam :: "int \<times> 'p \<Rightarrow> 'p \<Rightarrow> int \<times> 'p" where
  "eavb_get_rxparam answer p = (eavb_request (fst answer), if fst answer < 0 then p else snd answer)"

definition eavb_get_optblockmode :: "int \<times> eavb_block \<Rightarrow> eavb_block \<Rightarrow> int \<times> eavb_block" where
  "eavb_get_optblockmode answer mode =
    (if fst answer < 0 then (- 1, mode) else (0, snd answer))"

section \<open>Entries in and out\<close>

text \<open>
  The number of bytes that \<open>write\<close> or \<open>read\<close> transferred, divided by the size of an entry, or
  its failure; \<open>Again\<close> is the error that says that nothing can be transferred now. \<open>lastseq\<close>
  is the static counter.
\<close>

datatype write_result = Wrote nat | Write_Again | Write_Failed
datatype read_result = Took "eavb_entry list" | Read_Again | Read_Failed

fun number_entries :: "int \<Rightarrow> eavb_entry list \<Rightarrow> eavb_entry list" where
  "number_entries s [] = []"
| "number_entries s (e # es) = e\<lparr>seq_no := s\<rparr> # number_entries (s + 1) es"

definition eavb_push ::
  "int \<Rightarrow> eavb_entry list \<Rightarrow> int \<Rightarrow> write_result \<Rightarrow> (int \<times> int \<times> eavb_entry list) c_result" where
  "eavb_push lastseq buf n w =
    (if n = 0 then Returns (0, lastseq, buf)
     else if n < 0 then Returns (- 1, lastseq, buf)
     else if int (length buf) < n then UB
     else bindC (c_int (lastseq + (n - 1))) (\<lambda>_.
       let buf = number_entries lastseq (take (nat n) buf) @ drop (nat n) buf in
       case w of
         Write_Again \<Rightarrow> Returns (0, lastseq, buf)
       | Write_Failed \<Rightarrow> Returns (- 1, lastseq, buf)
       | Wrote k \<Rightarrow> bindC (c_int (lastseq + int k)) (\<lambda>s. Returns (int k, s, buf))))"

definition eavb_take ::
  "eavb_entry list \<Rightarrow> int \<Rightarrow> read_result \<Rightarrow> (int \<times> eavb_entry list) c_result" where
  "eavb_take buf n r =
    (if n = 0 then Returns (0, buf)
     else if n < 0 then Returns (- 1, buf)
     else case r of
       Read_Again \<Rightarrow> Returns (0, buf)
     | Read_Failed \<Rightarrow> Returns (- 1, buf)
     | Took es \<Rightarrow>
         if length buf < length es then UB
         else Returns (int (length es), es @ drop (length es) buf))"

section \<open>Waiting\<close>

text \<open>The bits of \<open>poll\<close> are those of the C library on Linux.\<close>

definition EAVB_NOTIFY_READ :: u32 where "EAVB_NOTIFY_READ = 1"
definition EAVB_NOTIFY_WRITE :: u32 where "EAVB_NOTIFY_WRITE = 2"
definition POLLIN :: u16 where "POLLIN = 1"
definition POLLOUT :: u16 where "POLLOUT = 4"

definition poll_events :: "u32 \<Rightarrow> u16" where
  "poll_events flags =
    (if flags AND EAVB_NOTIFY_READ \<noteq> 0 then POLLIN else 0) OR
    (if flags AND EAVB_NOTIFY_WRITE \<noteq> 0 then POLLOUT else 0)"

text \<open>\<open>None\<close> is the return of \<open>- 1\<close>; \<open>poll\<close> gets the requested events and returns the pending ones.\<close>

definition eavb_wait :: "(u16 \<Rightarrow> int \<times> u16) \<Rightarrow> u32 \<Rightarrow> u32 option" where
  "eavb_wait poll flags =
    (let (ret, revents) = poll (poll_events flags) in
     if ret < 0 then None
     else if ret = 0 then Some 0
     else Some ((if revents AND POLLIN \<noteq> 0 then EAVB_NOTIFY_READ else 0) OR
                (if revents AND POLLOUT \<noteq> 0 then EAVB_NOTIFY_WRITE else 0)))"

section \<open>Pages\<close>

text \<open>The results of the allocation request and of the mapping.\<close>

record page_calls =
  mappage_rc :: int
  mappage :: eavb_dma_alloc
  mmap_memory :: "mem option"

definition eavb_dma_malloc_page ::
  "page_calls \<Rightarrow> eavb_dma_alloc option \<Rightarrow> int \<times> eavb_dma_alloc option" where
  "eavb_dma_malloc_page c po =
    (case po of None \<Rightarrow> (- 1, None) | Some p \<Rightarrow>
     if mappage_rc c < 0 then (- 1, Some p)
     else case mmap_memory c of
       None \<Rightarrow> (- 1, Some ((mappage c)\<lparr>dma_vaddr := Map_Failed\<rparr>))
     | Some m \<Rightarrow> (0, Some ((mappage c)\<lparr>dma_vaddr := Mapped m\<rparr>)))"

text \<open>The second result says whether the page was unmapped and given back to the driver.\<close>

definition eavb_dma_free_page :: "eavb_dma_alloc option \<Rightarrow> eavb_dma_alloc option \<times> bool" where
  "eavb_dma_free_page po =
    (case po of None \<Rightarrow> (None, False) | Some p \<Rightarrow>
     if dma_paddr p = 0 \<or> dma_vaddr p = Null then (Some p, False)
     else (Some page_zero, True))"

end
