(* ===== verification/Eavb_Device.thy ===== *)
theory Eavb_Device
  imports Eavb Avtp
begin

unbundle bit_operations_syntax

text \<open>
  The device of the stream applications (\<open>demo/common/eavb_device.c\<close>): a ring of entries that
  belong either to the application or to the driver. The pages of the entries are the list
  \<open>framebuf\<close>; \<open>None\<close> stands for a null pointer.
\<close>

section \<open>The device\<close>

record eavb_device =
  dev_fd :: int
  framebuf :: "eavb_dma_alloc list option"
  entrybuf :: "eavb_entry list option"
  entryworkbuf :: "eavb_entry list option"
  dev_dest_addr :: "u8 list"
  dev_StreamID :: "u8 list"
  dev_entrynum :: int
  dev_wp :: int
  dev_rp :: int
  dev_remain :: int
  dev_filled :: int
  dev_p :: int

definition device_zero :: eavb_device where
  "device_zero = \<lparr> dev_fd = 0, framebuf = None, entrybuf = None, entryworkbuf = None,
    dev_dest_addr = replicate 6 0, dev_StreamID = replicate AVTP_STREAMID_SIZE 0,
    dev_entrynum = 0, dev_wp = 0, dev_rp = 0, dev_remain = 0, dev_filled = 0, dev_p = 0 \<rparr>"

text \<open>The stream identifier is copied from the parameters only when they could be read.\<close>

definition eavb_device_get_separation_filter ::
  "eavb_device option \<Rightarrow> int \<times> u8 list \<Rightarrow> u8 list \<Rightarrow> int \<times> u8 list" where
  "eavb_device_get_separation_filter dev answer streamid =
    (case dev of None \<Rightarrow> (- 1, streamid)
     | Some _ \<Rightarrow>
        let (ret, rxparam_streamid) = eavb_get_rxparam answer streamid
        in if ret < 0 then (ret, streamid) else (ret, take AVTP_STREAMID_SIZE rxparam_streamid))"

section \<open>Taking and pushing entries\<close>

text \<open>
  The copies between the buffers are those of \<open>memcpy\<close>. The sums stay below twice the size of
  the ring. A null pointer has no elements that could be read or written.
\<close>

definition elems :: "'a list option \<Rightarrow> 'a list" where
  "elems b = (case b of None \<Rightarrow> [] | Some xs \<Rightarrow> xs)"

definition set_entrybuf :: "eavb_entry list \<Rightarrow> eavb_device \<Rightarrow> eavb_device" where
  "set_entrybuf es dev = dev\<lparr>entrybuf := map_option (\<lambda>_. es) (entrybuf dev)\<rparr>"

definition set_entryworkbuf :: "eavb_entry list \<Rightarrow> eavb_device \<Rightarrow> eavb_device" where
  "set_entryworkbuf es dev = dev\<lparr>entryworkbuf := map_option (\<lambda>_. es) (entryworkbuf dev)\<rparr>"

definition take_copy :: "eavb_device \<Rightarrow> int \<Rightarrow> eavb_entry list \<Rightarrow> eavb_entry list c_result" where
  "take_copy dev ret buf =
    (let eb = elems (entrybuf dev) in
     if dev_rp dev + ret > dev_entrynum dev then
       let tmp = dev_entrynum dev - dev_rp dev in
       bindC (blit eb (dev_rp dev) buf 0 tmp) (\<lambda>eb. blit eb 0 buf tmp (ret - tmp))
     else blit eb (dev_rp dev) buf 0 ret)"

definition eavb_device_take_entry ::
  "eavb_device option \<Rightarrow> int \<Rightarrow> read_result \<Rightarrow> (int \<times> eavb_device option) c_result" where
  "eavb_device_take_entry dop count r =
    (case dop of None \<Rightarrow> Returns (- 1, None) | Some dev \<Rightarrow>
     bindC (eavb_take (elems (entryworkbuf dev)) count r) (\<lambda>(ret, buf).
     let dev = set_entryworkbuf buf dev in
     if ret \<le> 0 then Returns (ret, Some dev) else
     bindC (take_copy dev ret buf) (\<lambda>eb.
     Returns (ret, Some ((set_entrybuf eb dev)\<lparr>
       dev_remain := dev_remain dev + ret, dev_filled := dev_filled dev - ret,
       dev_rp := (dev_rp dev + ret) mod dev_entrynum dev\<rparr>)))))"

text \<open>
  The entries are numbered in the work buffer when they wrap around the end of the ring, in the
  ring itself otherwise. The last result is what the driver got.
\<close>

definition push_copy :: "eavb_device \<Rightarrow> int \<Rightarrow> eavb_entry list c_result" where
  "push_copy dev count =
    (let tmp = dev_entrynum dev - dev_wp dev; eb = elems (entrybuf dev) in
     bindC (blit (elems (entryworkbuf dev)) 0 eb (dev_wp dev) tmp) (\<lambda>buf. blit buf tmp eb 0 (count - tmp)))"

definition push_entries ::
  "int \<Rightarrow> eavb_device \<Rightarrow> int \<Rightarrow> write_result \<Rightarrow> (int \<times> int \<times> eavb_device \<times> eavb_entry list) c_result" where
  "push_entries lastseq dev count w =
    (let eb = elems (entrybuf dev) in
     if dev_wp dev + count > dev_entrynum dev then
       bindC (push_copy dev count) (\<lambda>buf.
       bindC (eavb_push lastseq buf count w) (\<lambda>(ret, lastseq, buf).
       Returns (ret, lastseq, set_entryworkbuf buf dev, buf)))
     else if dev_wp dev < 0 \<or> int (length eb) < dev_wp dev then UB
     else
       bindC (eavb_push lastseq (drop (nat (dev_wp dev)) eb) count w) (\<lambda>(ret, lastseq, buf).
       Returns (ret, lastseq, set_entrybuf (take (nat (dev_wp dev)) eb @ buf) dev, buf)))"

definition eavb_device_push_entry ::
  "int \<Rightarrow> eavb_device option \<Rightarrow> int \<Rightarrow> write_result \<Rightarrow>
    (int \<times> int \<times> eavb_device option \<times> eavb_entry list) c_result" where
  "eavb_device_push_entry lastseq dop count w =
    (case dop of None \<Rightarrow> Returns (- 1, lastseq, None, []) | Some dev \<Rightarrow>
     bindC (push_entries lastseq dev count w) (\<lambda>(ret, lastseq, dev, buf).
     if ret \<le> 0 then Returns (ret, lastseq, Some dev, [])
     else Returns (ret, lastseq,
       Some (dev\<lparr>dev_remain := dev_remain dev - ret, dev_filled := dev_filled dev + ret,
         dev_wp := (dev_wp dev + ret) mod dev_entrynum dev\<rparr>), take (nat ret) buf)))"

section \<open>Creation and release\<close>

text \<open>
  The calls creation makes: the allocation of the device, the opening of the driver and the
  three buffers. What a failure or the release frees is logged.
\<close>

record device_calls =
  dc_alloc :: bool
  dc_open :: int
  dc_entrybuf :: bool
  dc_entryworkbuf :: bool
  dc_framebuf :: bool

datatype device_event = Freed_Framebuf | Freed_Entryworkbuf | Freed_Entrybuf | Closed_Device int | Freed_Device

definition device_release :: "eavb_device \<Rightarrow> int \<Rightarrow> device_event list" where
  "device_release dev fd =
    (if framebuf dev \<noteq> None then [Freed_Framebuf] else []) @
    (if entryworkbuf dev \<noteq> None then [Freed_Entryworkbuf] else []) @
    (if entrybuf dev \<noteq> None then [Freed_Entrybuf] else []) @
    (if 0 < fd then [Closed_Device fd] else []) @ [Freed_Device]"

definition eavb_device_new ::
  "device_calls \<Rightarrow> u8 list option \<Rightarrow> int \<Rightarrow> eavb_device option \<times> device_event list" where
  "eavb_device_new c name entrynum =
    (case name of None \<Rightarrow> (None, []) | Some _ \<Rightarrow>
     if \<not> dc_alloc c then (None, []) else
     let dev = device_zero\<lparr>dev_entrynum := entrynum, dev_remain := entrynum\<rparr>;
         fd = eavb_open (dc_open c) in
     if fd < 0 then (None, device_release dev fd) else
     let dev = dev\<lparr>dev_fd := fd\<rparr> in
     if \<not> dc_entrybuf c then (None, device_release dev fd) else
     let dev = dev\<lparr>entrybuf := Some (replicate (nat entrynum) entry_zero)\<rparr> in
     if \<not> dc_entryworkbuf c then (None, device_release dev fd) else
     let dev = dev\<lparr>entryworkbuf := Some (replicate (nat entrynum) entry_zero)\<rparr> in
     if \<not> dc_framebuf c then (None, device_release dev fd) else
     (Some (dev\<lparr>framebuf := Some (replicate (nat entrynum) page_zero)\<rparr>), []))"

definition eavb_device_free :: "eavb_device option \<Rightarrow> device_event list" where
  "eavb_device_free dop =
    (case dop of None \<Rightarrow> [] | Some dev \<Rightarrow> device_release dev (dev_fd dev))"

end
