(* ===== verification/Stream_Utils.thy ===== *)
theory Stream_Utils
  imports Cstring "HOL-Library.Signed_Division"
begin

unbundle bit_operations_syntax

text \<open>
  The utilities of the stream applications: clocks (\<open>demo/common/clock.c\<close>), byte and packet
  counts (\<open>stats.c\<close>) and network interfaces (\<open>netif_util.c\<close>). The results of the system calls
  are arguments; a name is the bytes of a C string without its terminator.
\<close>

section \<open>Numbers of the command line\<close>

definition atol :: "u8 list \<Rightarrow> u64" where
  "atol s = (case convert ConvD s of Some (v, _) \<Rightarrow> v | None \<Rightarrow> 0)"

definition atoi :: "u8 list \<Rightarrow> u32" where
  "atoi s = ucast (atol s)"

section \<open>Clocks\<close>

definition CLOCKFD :: u32 where "CLOCKFD = 3"
definition CLOCK_INVALID :: u32 where "CLOCK_INVALID = - 1"
definition NSEC_SCALE :: u64 where "NSEC_SCALE = 1000000000"

definition get_clockid :: "u32 \<Rightarrow> u32" where
  "get_clockid fd = push_bit 3 (NOT fd) OR CLOCKFD"

definition get_clockfd :: "u32 \<Rightarrow> u32" where
  "get_clockfd clk_id = NOT (signed_drop_bit 3 (clk_id AND NOT CLOCKFD))"

text \<open>The identifiers of the clocks are those of the C library on Linux.\<close>

definition clkid_table :: "(u8 list \<times> u32) list" where
  "clkid_table = [(ascii ''CLOCK_REALTIME'', 0), (ascii ''CLOCK_MONOTONIC'', 1),
    (ascii ''CLOCK_MONOTONIC_RAW'', 4)]"

text \<open>Comparing a name with an entry up to the entry's length and then for the end of the name.\<close>

definition names_entry :: "u8 list \<Rightarrow> u8 list \<Rightarrow> bool" where
  "names_entry name entry \<longleftrightarrow> take (length entry) name = entry \<and> length name = length entry"

definition clock_parse :: "int \<Rightarrow> int \<Rightarrow> u8 list \<Rightarrow> u32" where
  "clock_parse open_rc getcaps_rc name =
    (if take 6 name = ascii ''CLOCK_'' then
       (case find_index (\<lambda>e. names_entry name (fst e)) clkid_table of
          Some i \<Rightarrow> snd (clkid_table ! i)
        | None \<Rightarrow> CLOCK_INVALID)
     else if open_rc < 0 then CLOCK_INVALID
     else let clkid = get_clockid (word_of_int open_rc) in
       if clkid = CLOCK_INVALID then CLOCK_INVALID
       else if getcaps_rc \<noteq> 0 then CLOCK_INVALID
       else clkid)"

definition clock_getcount :: "int \<times> int \<Rightarrow> u64" where
  "clock_getcount ts = word_of_int (fst ts) * NSEC_SCALE + word_of_int (snd ts)"

section \<open>Statistics\<close>

record app_stats =
  st_start :: bool
  st_stime :: "int \<times> int"
  st_bytes :: u64
  st_packets :: u64

definition stats_process :: "int \<times> int \<Rightarrow> app_stats \<Rightarrow> int \<Rightarrow> app_stats" where
  "stats_process now stats len =
    (let stats = (if st_start stats then stats else stats\<lparr>st_stime := now, st_start := True\<rparr>)
     in stats\<lparr>st_bytes := st_bytes stats + word_of_int len, st_packets := st_packets stats + 1\<rparr>)"

section \<open>Network interfaces\<close>

text \<open>
  \<open>if_nametoindex\<close> of the name and the list of interfaces, \<open>None\<close> when it cannot be read. The
  names of the system have at most 15 characters, so the comparison with \<open>lo\<close> is complete.
\<close>

definition netif_detect :: "nat \<Rightarrow> u8 list list option \<Rightarrow> u8 list \<Rightarrow> int \<times> u8 list" where
  "netif_detect index interfaces ifname =
    (if index \<noteq> 0 then (0, ifname)
     else case interfaces of
       None \<Rightarrow> (- 1, ifname)
     | Some names \<Rightarrow>
        (case find_index (\<lambda>n. take 15 n \<noteq> ascii ''lo'') names of
           Some i \<Rightarrow> (0, names ! i)
         | None \<Rightarrow> (- 1, ifname)))"

text \<open>The result, the caller's variable and the sockets that were closed.\<close>

definition netif_query :: "int \<Rightarrow> int \<Rightarrow> 'v \<Rightarrow> 'v \<Rightarrow> int \<times> 'v \<times> int list" where
  "netif_query sock ioctl_rc answer v =
    (if sock < 0 then (- 1, v, [])
     else if ioctl_rc \<noteq> 0 then (- 1, v, [sock])
     else (0, answer, [sock]))"

definition netif_gethwaddr :: "int \<Rightarrow> int \<Rightarrow> u8 list \<Rightarrow> u8 list \<Rightarrow> int \<times> u8 list \<times> int list" where
  "netif_gethwaddr sock ioctl_rc sa_data hwaddr = netif_query sock ioctl_rc (take 6 sa_data) hwaddr"

definition netif_getlinkspeed :: "int \<Rightarrow> int \<Rightarrow> u16 \<Rightarrow> int \<Rightarrow> int \<times> int \<times> int list" where
  "netif_getlinkspeed sock ioctl_rc ecmd_speed speed = netif_query sock ioctl_rc (uint ecmd_speed) speed"

section \<open>Facts\<close>

lemma CLOCKFD_mask: "CLOCKFD = mask 2"
  by (simp add: CLOCKFD_def mask_eq_exp_minus_1)

text \<open>The clock of a descriptor gives the descriptor back.\<close>

lemma get_clockfd_clockid:
  assumes "fd < 2 ^ 28"
  shows "get_clockfd (get_clockid fd) = fd"
proof (rule bit_word_eqI)
  fix k
  assume k: "k < LENGTH(32)"
  have "unat fd < 2 ^ 28" using assms by (simp add: word_less_nat_alt)
  then have "take_bit 28 fd = fd"
    by (simp add: word_unat_eq_iff unsigned_take_bit_eq take_bit_nat_eq_self)
  then have "\<not> bit fd m" if "28 \<le> m" for m
    using that by (metis bit_take_bit_iff leD)
  then show "bit (get_clockfd (get_clockid fd)) k = bit fd k"
    using k by (auto simp: get_clockfd_def get_clockid_def CLOCKFD_mask bit_simps)
qed

lemma get_clockid_valid: "get_clockid fd \<noteq> CLOCK_INVALID"
proof
  assume "get_clockid fd = CLOCK_INVALID"
  then have "bit (get_clockid fd) 2" by (simp add: CLOCK_INVALID_def)
  then show False by (simp add: get_clockid_def CLOCKFD_mask bit_simps)
qed

lemma clock_parse_valid:
  assumes "0 \<le> open_rc" "open_rc < 2 ^ 28" "getcaps_rc = 0" "take 6 name \<noteq> ascii ''CLOCK_''"
  shows "get_clockfd (clock_parse open_rc getcaps_rc name) = word_of_int open_rc"
proof -
  have "(word_of_int open_rc :: u32) < 2 ^ 28"
    using assms(1,2) by (simp add: word_less_def unsigned_of_int take_bit_int_eq_self)
  then show ?thesis
    using assms get_clockid_valid by (simp add: clock_parse_def get_clockfd_clockid Let_def)
qed

lemma netif_detect_result:
  assumes "netif_detect index interfaces ifname = (0, name)" "index = 0"
  shows "\<exists>names. interfaces = Some names \<and> name \<in> set names \<and> take 15 name \<noteq> ascii ''lo''"
  using assms by (auto simp: netif_detect_def split: option.splits dest: find_index_SomeD)

end
