(* ===== verification/Stream_App.thy ===== *)
theory Stream_App
  imports Eavb_Device Stream_Utils Msrp
begin

unbundle bit_operations_syntax

text \<open>
  What the simple talker and the simple listener share: the options of the command line, the
  pages of a device, and the wait for the driver (\<open>demo/simple\<close>, \<open>demo/common/common.h\<close>).
\<close>

section \<open>Options\<close>

text \<open>
  \<open>getopt_long\<close> of the C library yields the option characters in order with their arguments.
  The end of parsing is a configuration, an error or a call of \<open>exit\<close>.
\<close>

type_synonym cl_option = "u8 \<times> u8 list"

datatype 'c parse_result = Parsed 'c | Rejected | Exited

fun bind_parse :: "'c parse_result \<Rightarrow> ('c \<Rightarrow> 'd parse_result) \<Rightarrow> 'd parse_result" where
  "bind_parse (Parsed c) f = f c"
| "bind_parse Rejected f = Rejected"
| "bind_parse Exited f = Exited"

fun fold_options :: "(cl_option \<Rightarrow> 's \<Rightarrow> 's parse_result) \<Rightarrow> cl_option list \<Rightarrow> 's \<Rightarrow> 's parse_result" where
  "fold_options h [] s = Parsed s"
| "fold_options h (opt # opts) s = bind_parse (h opt s) (fold_options h opts)"

definition WAIT_MODE_POLL :: int where "WAIT_MODE_POLL = 0"
definition WAIT_MODE_BLOCK_NOWAIT :: int where "WAIT_MODE_BLOCK_NOWAIT = 1"
definition WAIT_MODE_BLOCK_WAITALL :: int where "WAIT_MODE_BLOCK_WAITALL = 2"
definition MSRP_ON :: int where "MSRP_ON = 1"
definition MSRP_OFF :: int where "MSRP_OFF = 0"
definition CONFIG_INIT_ENTRYNUM :: int where "CONFIG_INIT_ENTRYNUM = 256"
definition CONFIG_INIT_PAYLOAD_SIZE :: u16 where "CONFIG_INIT_PAYLOAD_SIZE = 100"

definition MSRP_SR_CLASS_A :: u8 where "MSRP_SR_CLASS_A = 6"
definition MSRP_SR_CLASS_B :: u8 where "MSRP_SR_CLASS_B = 5"
definition MSRP_SR_CLASS_C :: u8 where "MSRP_SR_CLASS_C = 4"
definition MSRP_SR_CLASS_A_PRIO :: u8 where "MSRP_SR_CLASS_A_PRIO = 3"
definition MSRP_SR_CLASS_B_PRIO :: u8 where "MSRP_SR_CLASS_B_PRIO = 2"
definition MSRP_SR_CLASS_C_PRIO :: u8 where "MSRP_SR_CLASS_C_PRIO = 2"
definition MSRP_SR_CLASS_VID :: u8 where "MSRP_SR_CLASS_VID = 2"
definition MSRP_RANK :: u8 where "MSRP_RANK = 1"

definition ch :: "char \<Rightarrow> u8" where
  "ch c = of_char c"

text \<open>A name of the table of standard streams stands for its descriptor, another one is opened.\<close>

definition parse_fname :: "(u8 list \<times> int) list \<Rightarrow> int \<Rightarrow> u8 list option \<Rightarrow> int" where
  "parse_fname fd_table open_rc name =
    (case name of None \<Rightarrow> - 1 | Some n \<Rightarrow>
     case find_index (\<lambda>e. names_entry n (fst e)) fd_table of
       Some i \<Rightarrow> snd (fd_table ! i)
     | None \<Rightarrow> open_rc)"

section \<open>Pages of a device\<close>

text \<open>
  The loop that allocates a page for every entry, with the results of the calls in order, and
  stores the page's address and the length in the entry. \<open>fill\<close> is what is written to the
  page; the flag says whether every page could be allocated.
\<close>

fun alloc_pages ::
  "(mem \<Rightarrow> mem option) \<Rightarrow> int \<Rightarrow> (nat \<Rightarrow> page_calls) \<Rightarrow> nat \<Rightarrow> (eavb_entry \<times> eavb_dma_alloc) list \<Rightarrow>
    (bool \<times> (eavb_entry \<times> eavb_dma_alloc) list) c_result" where
  "alloc_pages fill len calls i [] = Returns (True, [])"
| "alloc_pages fill len calls i ((e, p) # slots) =
    (case eavb_dma_malloc_page (calls i) (Some p) of
       (rc, None) \<Rightarrow> Returns (False, (e, p) # slots)
     | (rc, Some p) \<Rightarrow>
         if rc < 0 then Returns (False, (e, p) # slots)
         else (case dma_vaddr p of
             Mapped m \<Rightarrow>
               (case fill m of None \<Rightarrow> UB | Some m \<Rightarrow>
                bindC (alloc_pages fill len calls (Suc i) slots) (\<lambda>(ok, rest). Returns (ok,
                  (e\<lparr>vec_base := dma_paddr p, vec_len := len\<rparr>, p\<lparr>dma_vaddr := Mapped m\<rparr>) # rest)))
           | _ \<Rightarrow> UB))"

definition device_pages ::
  "(mem \<Rightarrow> mem option) \<Rightarrow> int \<Rightarrow> (nat \<Rightarrow> page_calls) \<Rightarrow> eavb_device \<Rightarrow> (bool \<times> eavb_device) c_result" where
  "device_pages fill len calls dev =
    bindC (alloc_pages fill len calls 0 (zip (elems (entrybuf dev)) (elems (framebuf dev))))
      (\<lambda>(ok, slots). Returns (ok, dev\<lparr>entrybuf := Some (map fst slots), framebuf := Some (map snd slots)\<rparr>))"

text \<open>The entry and the mapped memory of a slot; another access is undefined.\<close>

definition slot_entry :: "eavb_device \<Rightarrow> int \<Rightarrow> eavb_entry c_result" where
  "slot_entry dev p =
    (let es = elems (entrybuf dev) in if 0 \<le> p \<and> p < int (length es) then Returns (es ! nat p) else UB)"

definition slot_packet :: "eavb_device \<Rightarrow> int \<Rightarrow> mem c_result" where
  "slot_packet dev p =
    (let ps = elems (framebuf dev) in
     if 0 \<le> p \<and> p < int (length ps) then
       (case dma_vaddr (ps ! nat p) of Mapped m \<Rightarrow> Returns m | _ \<Rightarrow> UB)
     else UB)"

definition set_slot_len :: "int \<Rightarrow> int \<Rightarrow> eavb_device \<Rightarrow> eavb_device" where
  "set_slot_len p len dev =
    set_entrybuf ((elems (entrybuf dev))[nat p := (elems (entrybuf dev) ! nat p)\<lparr>vec_len := len\<rparr>]) dev"

definition set_slot_packet :: "int \<Rightarrow> mem \<Rightarrow> eavb_device \<Rightarrow> eavb_device" where
  "set_slot_packet p m dev =
    dev\<lparr>framebuf := map_option (\<lambda>ps. ps[nat p := (ps ! nat p)\<lparr>dma_vaddr := Mapped m\<rparr>]) (framebuf dev)\<rparr>"

definition next_slot :: "int \<Rightarrow> eavb_device \<Rightarrow> eavb_device" where
  "next_slot n dev = dev\<lparr>dev_p := (dev_p dev + 1) mod n\<rparr>"

section \<open>Waiting\<close>

definition process_wait :: "int \<Rightarrow> (u16 \<Rightarrow> int \<times> u16) \<Rightarrow> bool \<Rightarrow> u32" where
  "process_wait waitmode poll waitflush =
    (let events = (if \<not> waitflush then EAVB_NOTIFY_READ OR EAVB_NOTIFY_WRITE else EAVB_NOTIFY_READ)
     in if waitmode \<noteq> 0 then events
        else (case eavb_wait poll events of Some revents \<Rightarrow> revents | None \<Rightarrow> 0))"

definition has_event :: "u32 \<Rightarrow> u32 \<Rightarrow> bool" where
  "has_event revents flag \<longleftrightarrow> revents AND flag \<noteq> 0"

text \<open>The number of entries that is taken at once: at most an eighth of the ring.\<close>

definition take_count :: "int \<Rightarrow> eavb_device \<Rightarrow> int" where
  "take_count thresh dev = (if thresh < dev_filled dev then thresh else dev_filled dev)"

section \<open>Stream reservation\<close>

text \<open>
  What an application does to the outside: the events of the device, descriptors it closes,
  declarations it sends and texts it prints to the standard output. The results of the calls of one reservation context are a record.
\<close>

datatype app_event = Device_Event device_event | Closed_Fd int | Declared "u8 list" | Printed "u8 list"

record srp_results =
  sr_init :: init_env
  sr_join :: int
  sr_domain :: int
  sr_query :: int
  sr_declare :: int
  sr_withdraw :: int
  sr_undomain :: int
  sr_unjoin :: int
  sr_bye :: int

definition declare_srp ::
  "(int \<Rightarrow> msrp_ctx option \<Rightarrow> (int \<times> msrp_ctx option \<times> u8 list list) option) \<Rightarrow> int \<Rightarrow>
    msrp_ctx option \<Rightarrow> (int \<times> msrp_ctx option \<times> app_event list) c_result" where
  "declare_srp f rc c =
    (case f rc c of None \<Rightarrow> UB | Some (ret, c, sent) \<Rightarrow> Returns (ret, c, map Declared sent))"

definition join_srp ::
  "srp_results \<Rightarrow> mrp_property \<Rightarrow> (msrp_ctx option \<times> bool \<times> app_event list) c_result" where
  "join_srp R prop =
    (case msrp_ctx_init (sr_init R) (Some prop) of
       (None, closed) \<Rightarrow> Returns (None, False, map Closed_Fd closed)
     | (Some ctx, closed) \<Rightarrow>
        bindC (declare_srp mvrp_join_vlan (sr_join R) (Some ctx)) (\<lambda>(ret, c, t1).
        if ret < 0 then Returns (c, False, t1) else
        bindC (declare_srp msrp_register_domain (sr_domain R) c) (\<lambda>(ret, c, t2).
        if ret < 0 then Returns (c, False, t1 @ t2) else
        bindC (declare_srp msrp_query_database (sr_query R) c) (\<lambda>(ret, c, t3).
        Returns (c, 0 \<le> ret, t1 @ t2 @ t3)))))"

definition leave_srp ::
  "srp_results \<Rightarrow> (int \<Rightarrow> msrp_ctx option \<Rightarrow> (int \<times> msrp_ctx option \<times> u8 list list) option) \<Rightarrow>
    msrp_ctx option \<Rightarrow> (int \<times> app_event list) c_result" where
  "leave_srp R withdraw c =
    bindC (declare_srp withdraw (sr_withdraw R) c) (\<lambda>(_, c, t1).
    bindC (declare_srp msrp_unregister_domain (sr_undomain R) c) (\<lambda>(_, c, t2).
    bindC (declare_srp mvrp_leave_vlan (sr_unjoin R) c) (\<lambda>(_, c, t3).
    let (ret, closed) = msrp_ctx_destroy (sr_bye R) c in
    Returns (ret, t1 @ t2 @ t3 @ map Closed_Fd closed))))"

definition join_bytes :: "u8 list \<Rightarrow> u64" where
  "join_bytes = foldl (\<lambda>s b. push_bit 8 s + ucast b) 0"

text \<open>The descriptor of the device is closed, and once more when the device is freed.\<close>

definition close_device :: "eavb_device \<Rightarrow> app_event list" where
  "close_device dev = (if dev_fd dev \<noteq> 0 then [Closed_Fd (dev_fd dev)] else [])"

end
