(* ===== verification/Simple_Listener.thy ===== *)
theory Simple_Listener
  imports Stream_App
begin

unbundle bit_operations_syntax

text \<open>
  The simple listener (\<open>demo/simple/simple_listener.c\<close>): its configuration, the check of the
  sequence numbers, the loop that lends free entries to the driver, takes received frames back
  and writes their payload to a file, and the stream reservation around it.
\<close>

section \<open>Configuration\<close>

record listener_config =
  lc_devname :: "u8 list option"
  lc_entrynum :: int
  lc_SRclassID :: u8
  lc_SRpriority :: u8
  lc_SRrank :: u8
  lc_SRvid :: u8
  lc_StreamID :: "u8 list"
  lc_framenums :: u64
  lc_fd :: int
  lc_msrp :: int
  lc_waitmode :: int
  lc_stats :: app_stats

definition listener_config_init :: listener_config where
  "listener_config_init = \<lparr> lc_devname = None, lc_entrynum = CONFIG_INIT_ENTRYNUM,
    lc_SRclassID = MSRP_SR_CLASS_A, lc_SRpriority = MSRP_SR_CLASS_A_PRIO, lc_SRrank = MSRP_RANK,
    lc_SRvid = MSRP_SR_CLASS_VID, lc_StreamID = replicate AVTP_STREAMID_SIZE 0, lc_framenums = 0,
    lc_fd = 0, lc_msrp = MSRP_ON, lc_waitmode = WAIT_MODE_POLL,
    lc_stats = \<lparr> st_start = False, st_stime = (0, 0), st_bytes = 0, st_packets = 0 \<rparr> \<rparr>"

definition listener_fd_table :: "(u8 list \<times> int) list" where
  "listener_fd_table = [(ascii ''stderr'', 2), (ascii ''stdout'', 1), (ascii ''-'', 1)]"

type_synonym listener_options = "listener_config \<times> u8 list option \<times> u8 list option"

definition listener_option :: "cl_option \<Rightarrow> listener_options \<Rightarrow> listener_options parse_result" where
  "listener_option opt s =
    (let (c, optarg) = opt; (cfg, dname, fname) = s in
     if c = ch CHR ''d'' then Parsed (cfg, Some optarg, fname)
     else if c = ch CHR ''f'' then Parsed (cfg, dname, Some optarg)
     else if c = ch CHR ''n'' then Parsed (cfg\<lparr>lc_framenums := atol optarg\<rparr>, dname, fname)
     else if c = ch CHR ''m'' then Parsed (cfg\<lparr>lc_msrp := sint (atoi optarg)\<rparr>, dname, fname)
     else if c = ch CHR ''w'' then Parsed (cfg\<lparr>lc_waitmode := sint (atoi optarg)\<rparr>, dname, fname)
     else Exited)"

definition listener_config_parse :: "int \<Rightarrow> cl_option list \<Rightarrow> listener_config parse_result" where
  "listener_config_parse open_rc opts =
    bind_parse (fold_options listener_option opts (listener_config_init, None, None))
      (\<lambda>(cfg, dname, fname).
       if lc_msrp cfg < MSRP_OFF \<or> MSRP_ON < lc_msrp cfg then Rejected
       else if lc_waitmode cfg < WAIT_MODE_POLL \<or> WAIT_MODE_BLOCK_WAITALL < lc_waitmode cfg then Rejected
       else
         let fd = parse_fname listener_fd_table open_rc fname;
             devname = (case dname of Some d \<Rightarrow> d | None \<Rightarrow> ascii ''/dev/avb_rx0'')
         in if fname \<noteq> None \<and> fd < 0 then Rejected
            else Parsed (cfg\<lparr>lc_fd := (if fname \<noteq> None then fd else lc_fd cfg), lc_devname := Some devname\<rparr>))"

section \<open>Sequence numbers\<close>

text \<open>The static variables of the check: the number expected next and the count of errors, \<open>- 1\<close> at first.\<close>

record sequence_check =
  sq_seqno :: int
  sq_error :: int

definition AVTP_SEQUENCE_NUM_MAX :: int where "AVTP_SEQUENCE_NUM_MAX = 255"

definition sequence_check_init :: sequence_check where
  "sequence_check_init = \<lparr> sq_seqno = - 1, sq_error = - 1 \<rparr>"

definition verify_1722packet :: "mem \<Rightarrow> sequence_check \<Rightarrow> (int \<times> sequence_check) c_result" where
  "verify_1722packet packet q =
    (case get_avtp_sequence_num packet of None \<Rightarrow> UB | Some n \<Rightarrow>
     let tmp = uint n;
         (ret, err) =
           (if sq_seqno q \<noteq> tmp \<and> sq_seqno q \<noteq> - 1
            then (- 1, if sq_error q = - 1 then 1 else sq_error q + 1)
            else (0, - 1))
     in Returns (ret, \<lparr> sq_seqno = (tmp + 1 + (AVTP_SEQUENCE_NUM_MAX + 1)) mod (AVTP_SEQUENCE_NUM_MAX + 1),
          sq_error = err \<rparr>))"

section \<open>Writing received frames\<close>

text \<open>
  What the loop works on: the configuration, the device, the check, the counter of the library,
  the entries given to the driver, and the vectors given to \<open>writev\<close>, each element the slot,
  the offset and the length of a payload.
\<close>

record listener_state =
  li_cfg :: listener_config
  li_dev :: eavb_device
  li_check :: sequence_check
  li_lastseq :: int
  li_given :: "eavb_entry list"
  li_writes :: "(int \<times> nat \<times> u16) list list"

definition filedump_entry ::
  "endian \<Rightarrow> int \<times> int \<Rightarrow> listener_state \<Rightarrow> ((int \<times> nat \<times> u16) \<times> listener_state) c_result" where
  "filedump_entry E now L =
    (let dev = li_dev L; p = dev_p dev in
     bindC (slot_packet dev p) (\<lambda>packet.
     bindC (slot_entry dev p) (\<lambda>e.
     bindC (verify_1722packet packet (li_check L)) (\<lambda>(_, q).
     case get_avtp_stream_data_length E packet of None \<Rightarrow> UB | Some psize \<Rightarrow>
     Returns ((p, AVTP_PAYLOAD_OFFSET, psize),
       L\<lparr>li_check := q,
         li_cfg := (li_cfg L)\<lparr>lc_stats := stats_process now (lc_stats (li_cfg L)) (vec_len e)\<rparr>,
         li_dev := next_slot (lc_entrynum (li_cfg L))
           (set_slot_len p (int ETHFRAMELEN_MAX) dev)\<rparr>)))))"

fun filedump_entries ::
  "endian \<Rightarrow> int \<times> int \<Rightarrow> nat \<Rightarrow> listener_state \<Rightarrow> ((int \<times> nat \<times> u16) list \<times> listener_state) c_result" where
  "filedump_entries E now 0 L = Returns ([], L)"
| "filedump_entries E now (Suc n) L =
    bindC (filedump_entry E now L) (\<lambda>(v, L).
    bindC (filedump_entries E now n L) (\<lambda>(vs, L). Returns (v # vs, L)))"

text \<open>The result of \<open>writev\<close> is not used: the comparison with \<open>- 1\<close> never reports an error.\<close>

definition filedump_process ::
  "endian \<Rightarrow> bool \<Rightarrow> int \<times> int \<Rightarrow> int \<Rightarrow> listener_state \<Rightarrow> listener_state c_result" where
  "filedump_process E alloc now count L =
    (if \<not> alloc then Returns L
     else bindC (filedump_entries E now (nat count) L) (\<lambda>(vs, L).
       Returns (if lc_fd (li_cfg L) \<noteq> 0 then L\<lparr>li_writes := li_writes L @ [vs]\<rparr> else L)))"

section \<open>The loop\<close>

text \<open>
  What one round meets: the events that are pending, the answers of the driver to a number of
  entries that is offered or asked for, the frames the hardware stores into pages of entries
  before they are taken, and a signal.
\<close>

record listener_round =
  lr_poll :: "u16 \<Rightarrow> int \<times> u16"
  lr_write :: "int \<Rightarrow> write_result"
  lr_frames :: "(int \<times> mem) list"
  lr_read :: "int \<Rightarrow> read_result"
  lr_flush_poll :: "u16 \<Rightarrow> int \<times> u16"
  lr_flush_read :: "int \<Rightarrow> read_result"
  lr_alloc :: bool
  lr_now :: "int \<times> int"
  lr_sigint :: bool

record listener_loop =
  ll_repeat :: int
  ll_inf :: bool
  ll_waitflush :: bool

datatype loop_end = Ended | Broken | Interrupted | Unfinished

definition push_for ::
  "int \<Rightarrow> (int \<Rightarrow> write_result) \<Rightarrow> listener_state \<Rightarrow> (int \<times> listener_state) c_result" where
  "push_for count w L =
    bindC (eavb_device_push_entry (li_lastseq L) (Some (li_dev L)) count (w count)) (\<lambda>(tmp, s, dev, given).
    Returns (tmp, L\<lparr>li_lastseq := s, li_given := li_given L @ given,
      li_dev := (case dev of Some d \<Rightarrow> d | None \<Rightarrow> li_dev L)\<rparr>))"

definition take_for :: "int \<Rightarrow> (int \<Rightarrow> read_result) \<Rightarrow> listener_state \<Rightarrow> (int \<times> listener_state) c_result" where
  "take_for count r L =
    bindC (eavb_device_take_entry (Some (li_dev L)) count (r count)) (\<lambda>(tmp, dev).
    Returns (tmp, L\<lparr>li_dev := (case dev of Some d \<Rightarrow> d | None \<Rightarrow> li_dev L)\<rparr>))"

definition listener_write_round ::
  "listener_round \<Rightarrow> listener_loop \<Rightarrow> listener_state \<Rightarrow> (bool \<times> listener_loop \<times> listener_state) c_result" where
  "listener_write_round ev l L =
    bindC (push_for (if \<not> ll_inf l \<and> ll_repeat l < dev_remain (li_dev L) then ll_repeat l
        else dev_remain (li_dev L)) (lr_write ev) L) (\<lambda>(tmp, L).
    if tmp < 0 then Returns (False, l, L)
    else if ll_inf l then Returns (True, l, L)
    else let left = ll_repeat l - tmp in
      Returns (True, l\<lparr>ll_repeat := left, ll_waitflush := (ll_waitflush l \<or> left \<le> 0)\<rparr>, L))"

definition receive_frames :: "(int \<times> mem) list \<Rightarrow> listener_state \<Rightarrow> listener_state" where
  "receive_frames fs L = L\<lparr>li_dev := fold (\<lambda>(p, m). set_slot_packet p m) fs (li_dev L)\<rparr>"

text \<open>
  In the mode that waits for all entries a failed take switches the driver to the mode that does
  not block and tries once more. A failed wait returns \<open>- 1\<close>, in which every bit is set.
\<close>

definition listener_take ::
  "int \<Rightarrow> listener_round \<Rightarrow> listener_state \<Rightarrow> (int \<times> listener_state) c_result" where
  "listener_take thresh ev L =
    bindC (take_for (take_count thresh (li_dev L)) (lr_read ev) L) (\<lambda>(tmp, L).
    if lc_waitmode (li_cfg L) = WAIT_MODE_BLOCK_WAITALL \<and> tmp < 0 then
      (let revents = (case eavb_wait (lr_flush_poll ev) EAVB_NOTIFY_READ of Some r \<Rightarrow> r | None \<Rightarrow> - 1)
       in if has_event revents EAVB_NOTIFY_READ
          then take_for (take_count thresh (li_dev L)) (lr_flush_read ev) L
          else Returns (tmp, L))
    else Returns (tmp, L))"

definition listener_read_round ::
  "endian \<Rightarrow> int \<Rightarrow> listener_round \<Rightarrow> listener_state \<Rightarrow> (bool \<times> listener_state) c_result" where
  "listener_read_round E thresh ev L =
    bindC (listener_take thresh ev (receive_frames (lr_frames ev) L)) (\<lambda>(tmp, L).
    if tmp < 0 then Returns (False, L)
    else bindC (filedump_process E (lr_alloc ev) (lr_now ev) tmp L) (\<lambda>L. Returns (True, L)))"

text \<open>One round, and the rounds until the condition of the loop fails or the rounds are used up.\<close>

definition filedump_round ::
  "endian \<Rightarrow> int \<Rightarrow> listener_round \<Rightarrow> listener_loop \<Rightarrow> listener_state \<Rightarrow>
    (loop_end \<times> listener_loop \<times> listener_state) c_result" where
  "filedump_round E thresh ev l L =
    (let revents = process_wait (lc_waitmode (li_cfg L)) (lr_poll ev) (ll_waitflush l) in
     bindC (if has_event revents EAVB_NOTIFY_WRITE then listener_write_round ev l L else Returns (True, l, L))
       (\<lambda>(ok, l, L).
     if \<not> ok then Returns (Broken, l, L) else
     bindC (if has_event revents EAVB_NOTIFY_READ then listener_read_round E thresh ev L else Returns (True, L))
       (\<lambda>(ok, L).
     if \<not> ok then Returns (Broken, l, L)
     else if lr_sigint ev then Returns (Interrupted, l, L)
     else Returns (Unfinished, l, L))))"

definition filedump_continues :: "listener_loop \<Rightarrow> listener_state \<Rightarrow> bool" where
  "filedump_continues l L \<longleftrightarrow> ll_inf l \<or> \<not> (ll_waitflush l \<and> dev_filled (li_dev L) = 0)"

fun filedump_rounds ::
  "endian \<Rightarrow> int \<Rightarrow> listener_round list \<Rightarrow> listener_loop \<Rightarrow> listener_state \<Rightarrow>
    (loop_end \<times> listener_loop \<times> listener_state) c_result" where
  "filedump_rounds E thresh [] l L =
    Returns (if filedump_continues l L then Unfinished else Ended, l, L)"
| "filedump_rounds E thresh (ev # evs) l L =
    (if filedump_continues l L then
       bindC (filedump_round E thresh ev l L) (\<lambda>(r, l, L).
       if r = Unfinished then filedump_rounds E thresh evs l L else Returns (r, l, L))
     else Returns (Ended, l, L))"

definition filedump_loop ::
  "endian \<Rightarrow> listener_round list \<Rightarrow> listener_state \<Rightarrow> (loop_end \<times> listener_loop \<times> listener_state) c_result" where
  "filedump_loop E evs L =
    (let repeat = sint (ucast (lc_framenums (li_cfg L)) :: u32); inf = (repeat = 0) in
     filedump_rounds E (lc_entrynum (li_cfg L) div 8) evs
       \<lparr> ll_repeat = (if inf then 1 else repeat), ll_inf = inf, ll_waitflush = False \<rparr> L)"

section \<open>The device and the reservation\<close>

definition eavb_device_new_for_listener ::
  "device_calls \<Rightarrow> int \<Rightarrow> (nat \<Rightarrow> page_calls) \<Rightarrow> u8 list option \<Rightarrow> int \<Rightarrow>
    (eavb_device option \<times> device_event list) c_result" where
  "eavb_device_new_for_listener c rxparam_rc pages name entrynum =
    (case eavb_device_new c name entrynum of
       (None, log) \<Rightarrow> Returns (None, log)
     | (Some dev, log) \<Rightarrow>
        if eavb_request rxparam_rc < 0 then Returns (None, log @ eavb_device_free (Some dev))
        else bindC (device_pages Some (int ETHFRAMELEN_MAX) pages dev) (\<lambda>(ok, dev).
          Returns (if ok then (Some dev, log) else (None, log @ eavb_device_free (Some dev)))))"

text \<open>A declaration that cannot be sent loses the context, which is not destroyed.\<close>

definition listener_property :: "listener_config \<Rightarrow> u8 \<Rightarrow> u8 \<Rightarrow> mrp_property" where
  "listener_property cfg cls prio =
    \<lparr> verbose = True, streamid = join_bytes (take AVTP_STREAMID_SIZE (lc_StreamID cfg)), destaddr = 0,
      vlan = ucast (lc_SRvid cfg), MaxFrameSize = 0, MaxIntervalFrames = 0, sr_priority = ucast prio,
      sr_rank = ucast (lc_SRrank cfg), latency = 0, sr_class = ucast cls \<rparr>"

definition listener_msrp_init ::
  "srp_results \<Rightarrow> listener_config \<Rightarrow> u8 \<Rightarrow> u8 \<Rightarrow> (msrp_ctx option \<times> app_event list) c_result" where
  "listener_msrp_init R cfg cls prio =
    bindC (join_srp R (listener_property cfg cls prio)) (\<lambda>(c, ok, t).
    Returns (if ok then c else None, t))"

definition listener_msrp_exit :: "srp_results \<Rightarrow> msrp_ctx option \<Rightarrow> app_event list c_result" where
  "listener_msrp_exit R c =
    (case c of None \<Rightarrow> Returns []
     | Some ctx \<Rightarrow> bindC (leave_srp R msrp_listener_leave c) (\<lambda>(_, t). Returns t))"

section \<open>The program\<close>

text \<open>
  One look at the two contexts: whether a signal has come before it, in which context the talker
  is known, and whether a signal has come after it. The wait yields the context that found the
  talker, \<open>None\<close> for a signal; it goes on while no look decides it.
\<close>

record talker_poll =
  tp_sigint :: bool
  tp_found :: "bool list"
  tp_sigint_after :: bool

fun await_talker :: "talker_poll list \<Rightarrow> nat option c_result" where
  "await_talker [] = NoReturn"
| "await_talker (p # ps) =
    (if tp_sigint p then Returns None
     else case find_index id (tp_found p) of
       Some i \<Rightarrow> Returns (if tp_sigint_after p then None else Some i)
     | None \<Rightarrow> await_talker ps)"

record listener_calls =
  mc_open :: int
  mc_device :: device_calls
  mc_rxparam :: int
  mc_pages :: "nat \<Rightarrow> page_calls"
  mc_block :: int
  mc_filter :: "int \<times> u8 list"
  mc_srp :: "nat \<Rightarrow> srp_results"
  mc_polls :: "talker_poll list"
  mc_rounds :: "listener_round list"

text \<open>Reserving the stream: the result, the contexts and the events; a failure ends the program.\<close>

definition listener_reserve ::
  "listener_calls \<Rightarrow> listener_config \<Rightarrow> (bool \<times> msrp_ctx option list \<times> app_event list) c_result" where
  "listener_reserve C cfg =
    bindC (listener_msrp_init (mc_srp C 0) cfg MSRP_SR_CLASS_A MSRP_SR_CLASS_A_PRIO) (\<lambda>(c0, t0).
    if c0 = None then Returns (False, [None, None], t0) else
    bindC (listener_msrp_init (mc_srp C 1) cfg MSRP_SR_CLASS_B MSRP_SR_CLASS_B_PRIO) (\<lambda>(c1, t1).
    if c1 = None then Returns (False, [c0, None], t0 @ t1) else
    bindC (await_talker (mc_polls C)) (\<lambda>found.
    case found of None \<Rightarrow> Returns (False, [c0, c1], t0 @ t1)
    | Some i \<Rightarrow>
       bindC (declare_srp msrp_listener_ready (sr_declare (mc_srp C i)) ([c0, c1] ! i)) (\<lambda>(ret, c, t2).
       Returns (0 \<le> ret, [c0, c1][i := c], t0 @ t1 @ t2)))))"

definition listener_cleanup ::
  "listener_calls \<Rightarrow> listener_config \<Rightarrow> eavb_device option \<Rightarrow> msrp_ctx option list \<Rightarrow> app_event list c_result" where
  "listener_cleanup C cfg devo ctxs =
    (let t0 = (if 2 < lc_fd cfg then [Closed_Fd (lc_fd cfg)] else []) in
     case devo of None \<Rightarrow> Returns t0
     | Some dev \<Rightarrow>
        bindC (if lc_msrp cfg \<noteq> 0 then
            bindC (listener_msrp_exit (mc_srp C 0) (ctxs ! 0)) (\<lambda>t1.
            bindC (listener_msrp_exit (mc_srp C 1) (ctxs ! 1)) (\<lambda>t2. Returns (t1 @ t2)))
          else Returns []) (\<lambda>t.
        Returns (t0 @ close_device dev @ t @ map Device_Event (eavb_device_free (Some dev)))))"

definition listener_state_init :: "listener_config \<Rightarrow> eavb_device \<Rightarrow> listener_state" where
  "listener_state_init cfg dev = \<lparr> li_cfg = cfg, li_dev = dev, li_check = sequence_check_init,
    li_lastseq = 0, li_given = [], li_writes = [] \<rparr>"

text \<open>The program after parsing: the events before the dump, the dump, and the events after it.\<close>

definition listener_run ::
  "endian \<Rightarrow> listener_calls \<Rightarrow> listener_config \<Rightarrow>
    (app_event list \<times> (loop_end \<times> listener_loop \<times> listener_state) option \<times> app_event list) c_result" where
  "listener_run E C cfg =
    bindC (eavb_device_new_for_listener (mc_device C) (mc_rxparam C) (mc_pages C) (lc_devname cfg)
        (lc_entrynum cfg)) (\<lambda>(devo, log).
    let t0 = map Device_Event log;
        stop = (\<lambda>t ctxs. bindC (listener_cleanup C cfg devo ctxs) (\<lambda>t'. Returns (t, None, t'))) in
    case devo of None \<Rightarrow> stop t0 [None, None]
    | Some dev \<Rightarrow>
       if lc_waitmode cfg = WAIT_MODE_BLOCK_WAITALL \<and>
           fst (eavb_set_optblockmode (mc_block C) BLOCK_WAITALL) \<noteq> 0
       then stop t0 [None, None]
       else
         bindC (if lc_msrp cfg \<noteq> 0 then
             let (ret, sid) = eavb_device_get_separation_filter (Some dev) (mc_filter C) (lc_StreamID cfg) in
             if ret \<noteq> 0 then Returns (False, [None, None], [])
             else listener_reserve C (cfg\<lparr>lc_StreamID := sid\<rparr>)
           else Returns (True, [None, None], [])) (\<lambda>(ok, ctxs, t1).
         if \<not> ok then stop (t0 @ t1) ctxs
         else
           bindC (filedump_loop E (mc_rounds C) (listener_state_init cfg dev)) (\<lambda>(r, l, L).
           bindC (listener_cleanup C cfg (Some (li_dev L)) ctxs) (\<lambda>t2.
           Returns (t0 @ t1, Some (r, l, L), t2)))))"

end
