(* ===== verification/Eavb_Ring.thy ===== *)
theory Eavb_Ring
  imports Eavb_Device
begin

unbundle bit_operations_syntax

text \<open>
  The entries of a device as a ring that the application and the driver share: the contract of
  its two operations as a locale, the proof that the device keeps it, and what follows for a
  driver that gives entries back in the order it got them.
\<close>

section \<open>The contract\<close>

text \<open>
  \<open>owned\<close> are the slots of the application from its write position on, \<open>lent\<close> the number of
  entries with the driver. A push gives away the front of \<open>owned\<close>, a take appends to it.
\<close>

locale entry_ring =
  fixes inv :: "'d \<Rightarrow> bool"
    and owned :: "'d \<Rightarrow> 'k list"
    and lent :: "'d \<Rightarrow> nat"
    and pos :: "'d \<Rightarrow> nat"
    and push :: "'d \<Rightarrow> 'k list \<Rightarrow> 'd \<Rightarrow> bool"
    and taken :: "'d \<Rightarrow> 'k list \<Rightarrow> 'd \<Rightarrow> bool"
    and n :: nat
  assumes size: "inv d \<Longrightarrow> length (owned d) + lent d = n"
    and push_law: "inv d \<Longrightarrow> push d ks d' \<Longrightarrow>
      inv d' \<and> owned d = ks @ owned d' \<and> pos d' = (pos d + length ks) mod n"
    and take_law: "inv d \<Longrightarrow> taken d ks d' \<Longrightarrow> length ks \<le> lent d \<Longrightarrow>
      inv d' \<and> owned d' = owned d @ ks \<and> pos d' = pos d"
begin

text \<open>Owner and driver together hold the slots, rotated to the write position.\<close>

definition together :: "'k list \<Rightarrow> 'd \<Rightarrow> 'k list \<Rightarrow> bool" where
  "together slots d q \<longleftrightarrow> inv d \<and> length slots = n \<and> length q = lent d \<and> owned d @ q = rotate (pos d) slots"

lemma push_together:
  assumes "together slots d q" "push d ks d'"
  shows "together slots d' (q @ ks)"
proof -
  have d: "inv d" "length slots = n" "length q = lent d" "owned d @ q = rotate (pos d) slots"
    using assms(1) by (simp_all add: together_def)
  have d': "inv d'" "owned d = ks @ owned d'" "pos d' = (pos d + length ks) mod n"
    using push_law [OF d(1) assms(2)] by simp_all
  have "rotate (pos d') slots = rotate (length ks) (rotate (pos d) slots)"
    using d(2) d'(3) rotate_conv_mod [of "length ks + pos d" slots]
    by (simp add: rotate_rotate add.commute)
  then have "owned d' @ q @ ks = rotate (pos d') slots"
    using d(4) d'(2) by (simp add: rotate_append flip: d(4))
  moreover have "length (q @ ks) = lent d'" using size [OF d(1)] size [OF d'(1)] d(3) d'(2) by simp
  ultimately show ?thesis using d'(1) d(2) by (simp add: together_def)
qed

lemma take_together:
  assumes "together slots d (ks @ q)" "taken d ks d'"
  shows "together slots d' q"
proof -
  have d: "inv d" "length slots = n" "length (ks @ q) = lent d" "owned d @ ks @ q = rotate (pos d) slots"
    using assms(1) by (simp_all add: together_def)
  have d': "inv d'" "owned d' = owned d @ ks" "pos d' = pos d"
    using take_law [OF d(1) assms(2)] d(3) by simp_all
  then show ?thesis using d size [OF d(1)] size [OF d'(1)] by (simp add: together_def)
qed

lemma slot_of_owned:
  assumes "together slots d q" "j < length (owned d)"
  shows "owned d ! j = slots ! ((pos d + j) mod n)"
proof -
  have d: "length slots = n" "owned d @ q = rotate (pos d) slots" "inv d"
    using assms(1) by (simp_all add: together_def)
  moreover have "j < n" using assms(2) size [OF d(3)] by simp
  ultimately show ?thesis using assms(2) by (metis nth_append nth_rotate add.commute)
qed

end

section \<open>Rotations\<close>

lemma rotate_small: "k \<le> length xs \<Longrightarrow> rotate k xs = drop k xs @ take k xs"
  by (metis append_take_drop_id length_take min.absorb2 rotate_append)

lemma take_drop_rotate:
  assumes "k \<le> r" "r \<le> length xs"
  shows "take (r - k) (rotate k xs) = drop k (take r xs)"
  using assms by (simp add: rotate_small drop_take)

lemma take_rotate_no_wrap: "i + m \<le> length xs \<Longrightarrow> take m (drop i xs) = take m (rotate i xs)"
  by (simp add: rotate_small)

text \<open>Writing a block at \<open>i\<close> replaces the front of the list rotated to \<open>i\<close>.\<close>

lemma rotate_blit:
  assumes "i + length ys \<le> length xs"
  shows "rotate i (take i xs @ ys @ drop (i + length ys) xs) = ys @ drop (length ys) (rotate i xs)"
  using assms by (simp add: rotate_small add.commute)

lemma rotate_blit_wrap:
  assumes "i \<le> length xs" "length xs - i \<le> length ys" "length ys \<le> length xs"
  shows "rotate i (drop (length xs - i) ys @ drop (length ys - (length xs - i)) (take i xs) @
      take (length xs - i) ys) = ys @ drop (length ys) (rotate i xs)"
proof -
  let ?t = "length xs - i"
  have "rotate i ((drop ?t ys @ drop (length ys - ?t) (take i xs)) @ take ?t ys) =
      take ?t ys @ drop ?t ys @ drop (length ys - ?t) (take i xs)"
    using assms by (subst rotate_append [symmetric]) (simp add: algebra_simps)
  then show ?thesis using assms by (simp add: rotate_small flip: append_assoc)
qed

text \<open>Seen from the write position, a block written where the owned slots end follows them.\<close>

lemma rotate_append_block:
  assumes "rotate ((i + r) mod length xs) xs' = ys @ drop (length ys) (rotate ((i + r) mod length xs) xs)"
    "length xs' = length xs" "r + length ys \<le> length xs"
  shows "take (r + length ys) (rotate i xs') = take r (rotate i xs) @ ys"
proof -
  let ?Y = "rotate i xs" and ?Y' = "rotate i xs'"
  have "rotate r ?Y' = ys @ drop (length ys) (rotate r ?Y)"
    using assms(1,2) rotate_conv_mod [of "i + r" xs] rotate_conv_mod [of "i + r" xs']
    by (simp add: rotate_rotate add.commute)
  then have "drop r ?Y' @ take r ?Y' = (ys @ drop (length ys) (drop r ?Y)) @ take r ?Y"
    using assms(2,3) by (simp add: rotate_small)
  moreover have "length (take r ?Y') = length (take r ?Y)" using assms(2) by simp
  ultimately have "drop r ?Y' = ys @ drop (length ys) (drop r ?Y)" "take r ?Y' = take r ?Y"
    using append_eq_append_conv by blast+
  then show ?thesis by (simp add: take_add)
qed

section \<open>The device keeps the contract\<close>

definition ring_inv :: "nat \<Rightarrow> eavb_device \<Rightarrow> bool" where
  "ring_inv n dev \<longleftrightarrow> 0 < n \<and> dev_entrynum dev = int n \<and>
    entrybuf dev \<noteq> None \<and> entryworkbuf dev \<noteq> None \<and>
    length (elems (entrybuf dev)) = n \<and> length (elems (entryworkbuf dev)) = n \<and>
    0 \<le> dev_wp dev \<and> dev_wp dev < int n \<and> 0 \<le> dev_remain dev \<and> 0 \<le> dev_filled dev \<and>
    dev_remain dev + dev_filled dev = int n \<and> dev_rp dev = (dev_wp dev + dev_remain dev) mod int n"

definition owned_entries :: "eavb_device \<Rightarrow> eavb_entry list" where
  "owned_entries dev = take (nat (dev_remain dev)) (rotate (nat (dev_wp dev)) (elems (entrybuf dev)))"

lemma ring_invD:
  assumes "ring_inv n dev"
  obtains eb buf w r where "entrybuf dev = Some eb" "entryworkbuf dev = Some buf" "length eb = n" "length buf = n"
    "dev_entrynum dev = int n" "dev_wp dev = int w" "w < n" "dev_remain dev = int r" "r \<le> n"
    "dev_filled dev = int n - int r" "dev_rp dev = int ((w + r) mod n)"
proof -
  obtain eb buf where "entrybuf dev = Some eb" "entryworkbuf dev = Some buf"
    using assms by (auto simp: ring_inv_def)
  moreover obtain w r where "dev_wp dev = int w" "dev_remain dev = int r"
    using assms by (metis ring_inv_def nat_0_le)
  ultimately show thesis
    using assms by (intro that [of eb buf w r]) (auto simp: ring_inv_def elems_def zmod_int)
qed

lemma number_entries_keys [simp]: "map vec_base (number_entries s es) = map vec_base es"
  by (induction es arbitrary: s) simp_all

lemma length_number_entries [simp]: "length (number_entries s es) = length es"
  by (induction es arbitrary: s) simp_all

lemma number_entries_seq: "map seq_no (number_entries s es) = map (\<lambda>i. s + int i) [0..<length es]"
proof (induction es arbitrary: s)
  case (Cons e es)
  have "[0..<length (e # es)] = 0 # map Suc [0..<length es]" by (simp add: upt_conv_Cons map_Suc_upt del: upt_Suc)
  then show ?case using Cons.IH [of "s + 1"] by (simp add: o_def algebra_simps del: upt_Suc)
qed simp

lemma take_number_entries: "take k (number_entries s es) = number_entries s (take k es)"
proof (induction es arbitrary: k s)
  case (Cons e es)
  then show ?case by (cases k) simp_all
qed simp

lemma keys_of_numbered [simp]:
  "map vec_base (number_entries s (take m buf)) @ map vec_base (drop m buf) = map vec_base buf"
  by (simp flip: map_append)

lemma eavb_push_cases:
  assumes "eavb_push s buf m w = Returns (ret, s', buf')"
  shows "map vec_base buf' = map vec_base buf \<and>
    (ret \<le> 0 \<and> s' = s \<or> 0 < m \<and> (\<exists>k. 0 < k \<and> w = Wrote k \<and> ret = int k \<and> s' = s + ret \<and>
      m \<le> int (length buf) \<and> (k \<le> nat m \<longrightarrow> take k buf' = number_entries s (take k buf))))"
  using assms
  by (auto simp: eavb_push_def Let_def c_int_def take_number_entries min_def
      simp del: number_entries_keys split: if_splits write_result.splits)

text \<open>Where the entries of a push lie: the front of the ring rotated to the write position.\<close>

lemma blit_prefix: "m \<le> length dst \<Longrightarrow> j + m \<le> length src \<Longrightarrow>
  blit dst 0 src (int j) (int m) = Returns (take m (drop j src) @ drop m dst)"
  by (simp add: blit_def nat_int_add)

lemma blit_suffix: "length xs = i \<Longrightarrow> m \<le> length zs \<Longrightarrow> m \<le> length src \<Longrightarrow>
  blit (xs @ zs) (int i) src 0 (int m) = Returns (xs @ take m src @ drop m zs)"
  using blit_ok [of i m "xs @ zs" 0 src] by simp

lemma push_copy_front:
  assumes "ring_inv n dev" "dev_wp dev + int c > int n" "c \<le> n"
  obtains buf where "push_copy dev (int c) = Returns buf" "length buf = n"
    "take c buf = take c (rotate (nat (dev_wp dev)) (elems (entrybuf dev)))"
proof -
  obtain eb wb w r where d: "entrybuf dev = Some eb" "entryworkbuf dev = Some wb" "length eb = n" "length wb = n"
    "dev_entrynum dev = int n" "dev_wp dev = int w" "w < n"
    using assms(1) by (rule ring_invD)
  define t where "t = n - w"
  define buf where "buf = drop w eb @ take (c - t) eb @ drop c wb"
  have t: "int n - int w = int t" "int c - int t = int (c - t)" "w + t = n" "t \<le> c"
    using d assms by (auto simp: t_def)
  have "blit wb 0 eb (int w) (int t) = Returns (drop w eb @ drop t wb)"
    using blit_prefix [of t wb w eb] d t by simp
  moreover have "blit (drop w eb @ drop t wb) (int t) eb 0 (int (c - t)) = Returns buf"
  proof -
    have "length (drop w eb) = t" "c - t \<le> length (drop t wb)" "c - t \<le> length eb"
      "drop (c - t) (drop t wb) = drop c wb"
      unfolding drop_drop length_drop d(3,4) using t(3,4) assms(3) by simp_all
    then show ?thesis using blit_suffix [of "drop w eb" t "c - t" "drop t wb" eb] by (simp only: buf_def)
  qed
  ultimately have "push_copy dev (int c) = Returns buf"
    by (simp only: push_copy_def Let_def elems_def d t(1,2) option.case bindC.simps)
  moreover have "take c buf = take c (rotate w eb)" "length buf = n"
    using d t assms(3) by (auto simp: buf_def rotate_small)
  ultimately show thesis using that d by (simp add: elems_def)
qed

definition keys :: "eavb_device \<Rightarrow> nat list" where
  "keys dev = map vec_base (elems (entrybuf dev))"

lemma push_entries_keys:
  assumes "ring_inv n dev" "0 \<le> count" "count \<le> dev_remain dev"
    "push_entries s dev count w = Returns (ret, s', dev', buf)"
  shows "\<exists>eb wb. dev' = dev\<lparr>entrybuf := Some eb, entryworkbuf := Some wb\<rparr> \<and> length wb = n \<and>
    map vec_base eb = keys dev \<and>
    (ret \<le> 0 \<and> s' = s \<or> (\<exists>k. 0 < k \<and> w = Wrote k \<and> ret = int k \<and> s' = s + ret \<and>
      (k \<le> nat count \<longrightarrow> take k buf = number_entries s (take k (rotate (nat (dev_wp dev)) (elems (entrybuf dev)))))))"
proof -
  obtain eb wb i r where d: "entrybuf dev = Some eb" "entryworkbuf dev = Some wb" "length eb = n" "length wb = n"
    "dev_entrynum dev = int n" "dev_wp dev = int i" "i < n" "dev_remain dev = int r" "r \<le> n"
    using assms(1) by (rule ring_invD)
  obtain c where c: "count = int c" "c \<le> r" using assms(2,3) d by (metis nat_0_le of_nat_le_iff)
  show ?thesis
  proof (cases "dev_wp dev + count > dev_entrynum dev")
    case True
    obtain b0 where b0: "push_copy dev count = Returns b0" "length b0 = n" "take c b0 = take c (rotate i eb)"
      using push_copy_front [OF assms(1), of c] True c d by (auto simp: elems_def)
    then have p: "eavb_push s b0 count w = Returns (ret, s', buf)" "dev' = set_entryworkbuf buf dev"
      using assms(4) True by (auto simp: push_entries_def Let_def bindC_eq_Returns_iff)
    note q = eavb_push_cases [OF p(1)]
    have "length buf = n" using q b0(2) map_eq_imp_length_eq by metis
    moreover have "take k b0 = take k (rotate i eb)" if "k \<le> c" for k
      using b0(3) that by (metis min.absorb1 take_take)
    ultimately show ?thesis
      using q p(2) d c
      by (intro exI [of _ eb] exI [of _ buf]) (auto simp: set_entryworkbuf_def keys_def elems_def)
  next
    case False
    then have p: "eavb_push s (drop i eb) count w = Returns (ret, s', buf)"
        "dev' = set_entrybuf (take i eb @ buf) dev"
      using assms(4) d by (auto simp: push_entries_def Let_def bindC_eq_Returns_iff elems_def)
    note q = eavb_push_cases [OF p(1)]
    have "map vec_base (take i eb @ buf) = map vec_base eb"
      using q by (metis append_take_drop_id map_append)
    moreover have "take k (drop i eb) = take k (rotate i eb)" if "k \<le> c" for k
      using take_rotate_no_wrap [of i k eb] that False c d by simp
    ultimately show ?thesis
      using q p(2) d c
      by (intro exI [of _ "take i eb @ buf"] exI [of _ wb]) (auto simp: set_entrybuf_def keys_def elems_def)
  qed
qed

text \<open>A driver accepts no more entries than it is offered.\<close>

definition write_fits :: "int \<Rightarrow> write_result \<Rightarrow> bool" where
  "write_fits count w = (case w of Wrote k \<Rightarrow> int k \<le> count | Write_Again \<Rightarrow> True | Write_Failed \<Rightarrow> True)"

lemma owned_keys: "map vec_base (owned_entries dev) = take (nat (dev_remain dev)) (rotate (nat (dev_wp dev)) (keys dev))"
  by (simp add: owned_entries_def keys_def rotate_map take_map)

lemma push_entry_owned:
  assumes "ring_inv n dev" "0 \<le> count" "count \<le> dev_remain dev" "write_fits count w"
    "eavb_device_push_entry s (Some dev) count w = Returns (ret, s', Some dev', given)"
  shows "ring_inv n dev' \<and> given = number_entries s (take (length given) (owned_entries dev)) \<and>
    length given = nat ret \<and> s' = s + int (length given) \<and>
    map vec_base (owned_entries dev) = map vec_base given @ map vec_base (owned_entries dev') \<and>
    nat (dev_wp dev') = (nat (dev_wp dev) + length given) mod n \<and> keys dev' = keys dev"
proof -
  obtain eb wb i r where d: "entrybuf dev = Some eb" "entryworkbuf dev = Some wb" "length eb = n" "length wb = n"
    "dev_entrynum dev = int n" "dev_wp dev = int i" "i < n" "dev_remain dev = int r" "r \<le> n"
    "dev_filled dev = int n - int r" "dev_rp dev = int ((i + r) mod n)"
    using assms(1) by (rule ring_invD)
  obtain d1 buf where p: "push_entries s dev count w = Returns (ret, s', d1, buf)"
    and dev': "if ret \<le> 0 then dev' = d1 \<and> given = []
      else dev' = d1\<lparr>dev_remain := dev_remain d1 - ret, dev_filled := dev_filled d1 + ret,
         dev_wp := (dev_wp d1 + ret) mod dev_entrynum d1\<rparr> \<and> given = take (nat ret) buf"
    using assms(5) by (auto simp: eavb_device_push_entry_def bindC_eq_Returns_iff split: if_splits)
  obtain eb' wb' where d1: "d1 = dev\<lparr>entrybuf := Some eb', entryworkbuf := Some wb'\<rparr>" "length wb' = n"
      "map vec_base eb' = keys dev"
    and q: "ret \<le> 0 \<and> s' = s \<or> (\<exists>k. 0 < k \<and> w = Wrote k \<and> ret = int k \<and> s' = s + ret \<and>
      (k \<le> nat count \<longrightarrow> take k buf = number_entries s (take k (rotate (nat (dev_wp dev)) (elems (entrybuf dev))))))"
    using push_entries_keys [OF assms(1-3) p] by blast
  have l: "length eb' = n" using d1(3) d by (metis keys_def elems_def length_map option.case(2))
  have k': "keys dev' = keys dev" using dev' d1 by (auto simp: keys_def elems_def split: if_splits)
  show ?thesis
  proof (cases "ret \<le> 0")
    case True
    then have "dev' = d1" "given = []" "s' = s" using dev' q by auto
    then show ?thesis
      using assms(1) d1 l True k' by (auto simp: ring_inv_def elems_def owned_keys)
  next
    case False
    then obtain k where k: "0 < k" "w = Wrote k" "ret = int k" "s' = s + ret" "k \<le> nat count \<longrightarrow>
        take k buf = number_entries s (take k (rotate i eb))"
      using q d by (auto simp: elems_def)
    have kr: "k \<le> r" "k \<le> nat count" using assms(2-4) k(2) d by (auto simp: write_fits_def)
    have g: "given = number_entries s (take k (rotate i eb))" using k kr dev' False by simp
    have lg: "length given = k" using g kr d by simp
    have o: "owned_entries dev = take r (rotate i eb)" using d by (simp add: owned_entries_def elems_def)
    have wp: "dev_wp dev' = int ((i + k) mod n)" "dev_remain dev' = int (r - k)" "dev_filled dev' = int n - int (r - k)"
      "dev_rp dev' = dev_rp dev" "dev_entrynum dev' = int n" "elems (entrybuf dev') = eb'" "elems (entryworkbuf dev') = wb'"
      "entrybuf dev' \<noteq> None" "entryworkbuf dev' \<noteq> None"
      using dev' False d1 d k kr by (auto simp: zmod_int elems_def)
    have "((i + k) mod n + (r - k)) mod n = (i + r) mod n"
      using mod_add_left_eq [of "i + k" n "r - k"] kr(1) by simp
    then have "int ((i + r) mod n) = (int ((i + k) mod n) + int (r - k)) mod int n"
      by (metis of_nat_add zmod_int)
    then have "ring_inv n dev'" using wp l d1(2) d kr by (auto simp: ring_inv_def)
    moreover have "take (r - k) (rotate ((i + k) mod n) (keys dev)) = drop k (take r (rotate i (keys dev)))"
    proof -
      have n: "length (keys dev) = n" using d by (simp add: keys_def elems_def)
      have "rotate ((i + k) mod n) (keys dev) = rotate k (rotate i (keys dev))"
        using rotate_conv_mod [of "i + k" "keys dev"] n by (simp add: rotate_rotate add.commute)
      then show ?thesis using take_drop_rotate [of k r "rotate i (keys dev)"] kr d n by simp
    qed
    moreover have "map vec_base given = take k (take r (rotate i (keys dev)))"
      using g kr d by (simp add: keys_def elems_def rotate_map take_map)
    moreover have "map vec_base (owned_entries dev) = take r (rotate i (keys dev))"
      "map vec_base (owned_entries dev') = take (r - k) (rotate ((i + k) mod n) (keys dev))"
      unfolding owned_keys wp k' d(6,8) by simp_all
    ultimately have "map vec_base (owned_entries dev) = map vec_base given @ map vec_base (owned_entries dev')"
      by (metis append_take_drop_id)
    moreover have "take (length given) (owned_entries dev) = take k (rotate i eb)"
      using kr lg by (simp add: o)
    ultimately show ?thesis using \<open>ring_inv n dev'\<close> g lg k wp d k' by simp
  qed
qed

text \<open>What a read delivers, and that a driver delivers no more entries than it is asked for.\<close>

definition delivered :: "int \<Rightarrow> read_result \<Rightarrow> eavb_entry list" where
  "delivered count r = (if 0 < count then (case r of Took es \<Rightarrow> es | Read_Again \<Rightarrow> [] | Read_Failed \<Rightarrow> []) else [])"

lemma take_copy_front:
  assumes "ring_inv n dev" "0 < m" "m \<le> n" "length es = m" "m \<le> length buf" "take m buf = es"
  obtains eb' where "take_copy dev (int m) buf = Returns eb'" "length eb' = n"
    "rotate (nat (dev_rp dev)) eb' = es @ drop m (rotate (nat (dev_rp dev)) (elems (entrybuf dev)))"
proof -
  obtain eb i r where d: "entrybuf dev = Some eb" "length eb = n" "dev_entrynum dev = int n" "i < n"
    "dev_rp dev = int ((i + r) mod n)"
    using assms(1) by (rule ring_invD)
  define j where "j = (i + r) mod n"
  have j: "dev_rp dev = int j" "j < n" using d(4,5) by (simp_all add: j_def)
  show thesis
  proof (cases "j + m \<le> n")
    case True
    have "take_copy dev (int m) buf = Returns (take j eb @ es @ drop (j + m) eb)"
      using True d j assms(5,6) blit_ok [of j m eb 0 buf] by (simp add: take_copy_def Let_def elems_def)
    then show thesis
      using that True d j assms(4) rotate_blit [of j es eb] by (simp add: elems_def)
  next
    case False
    define t where "t = n - j"
    have t: "int n - int j = int t" "int m - int t = int (m - t)" "j + t = n" "t \<le> m"
      using False j by (auto simp: t_def)
    have es: "take t buf = take t es" "take (m - t) (drop t buf) = drop t es"
      using t(4) by (simp_all add: drop_take flip: assms(6))
    have "blit eb (int j) buf 0 (int t) = Returns (take j eb @ take t es)"
      using blit_ok [of j t eb 0 buf] d(2) t(3,4) assms(5) es(1) by simp
    moreover have "blit (take j eb @ take t es) 0 buf (int t) (int (m - t)) =
        Returns (drop t es @ drop (m - t) (take j eb) @ take t es)"
    proof -
      have l: "length (take j eb) = j" "m - t \<le> j" "length (take t es) = t"
        using d(2) j(2) t(3,4) assms(3,4) by simp_all
      have "drop (m - t) (take j eb @ take t es) = drop (m - t) (take j eb) @ take t es"
        unfolding drop_append l(1) using l(2) by simp
      then show ?thesis
        using blit_prefix [of "m - t" "take j eb @ take t es" t buf] es(2) l t(4) assms(5) by simp
    qed
    ultimately have "take_copy dev (int m) buf = Returns (drop t es @ drop (m - t) (take j eb) @ take t es)"
      unfolding take_copy_def Let_def elems_def d(1,3) j(1) option.case t(1,2) using False by simp
    then show thesis
      using that rotate_blit_wrap [of j eb es] d j t assms(3,4) by (simp add: elems_def t_def)
  qed
qed

lemma eavb_take_cases:
  assumes "eavb_take buf count r = Returns (ret, buf')"
  shows "(delivered count r = [] \<and> ret \<le> 0 \<and> length buf' = length buf) \<or>
    (delivered count r \<noteq> [] \<and> ret = int (length (delivered count r)) \<and> length (delivered count r) \<le> length buf \<and>
     buf' = delivered count r @ drop (length (delivered count r)) buf)"
  using assms by (auto simp: eavb_take_def delivered_def split: if_splits read_result.splits)

lemma set_entryworkbuf_simps [simp]:
  "entrybuf (set_entryworkbuf b dev) = entrybuf dev" "dev_rp (set_entryworkbuf b dev) = dev_rp dev"
  "dev_entrynum (set_entryworkbuf b dev) = dev_entrynum dev" "dev_remain (set_entryworkbuf b dev) = dev_remain dev"
  "dev_filled (set_entryworkbuf b dev) = dev_filled dev" "dev_wp (set_entryworkbuf b dev) = dev_wp dev"
  by (simp_all add: set_entryworkbuf_def)

lemma take_copy_workbuf [simp]: "take_copy (set_entryworkbuf b dev) m buf = take_copy dev m buf"
  by (simp add: take_copy_def Let_def cong: if_cong)

lemma take_entry_cases:
  assumes "eavb_device_take_entry (Some dev) count r = Returns (ret, Some dev')"
  obtains buf where "eavb_take (elems (entryworkbuf dev)) count r = Returns (ret, buf)"
    "if ret \<le> 0 then dev' = set_entryworkbuf buf dev
      else \<exists>eb'. take_copy dev ret buf = Returns eb' \<and>
        dev' = (set_entrybuf eb' (set_entryworkbuf buf dev))\<lparr>dev_remain := dev_remain dev + ret,
          dev_filled := dev_filled dev - ret, dev_rp := (dev_rp dev + ret) mod dev_entrynum dev\<rparr>"
  using assms by (auto simp: eavb_device_take_entry_def bindC_eq_Returns_iff Let_def split: if_splits)

lemma take_entry_owned:
  assumes "ring_inv n dev" "length (delivered count r) \<le> nat (dev_filled dev)"
    "eavb_device_take_entry (Some dev) count r = Returns (ret, Some dev')"
  shows "ring_inv n dev' \<and> owned_entries dev' = owned_entries dev @ delivered count r \<and>
    dev_wp dev' = dev_wp dev \<and> nat ret = length (delivered count r)"
proof -
  let ?es = "delivered count r" and ?m = "length (delivered count r)"
  obtain eb wb i k where d: "entrybuf dev = Some eb" "entryworkbuf dev = Some wb" "length eb = n" "length wb = n"
    "dev_entrynum dev = int n" "dev_wp dev = int i" "i < n" "dev_remain dev = int k" "k \<le> n"
    "dev_filled dev = int n - int k" "dev_rp dev = int ((i + k) mod n)"
    using assms(1) by (rule ring_invD)
  obtain buf where t: "eavb_take wb count r = Returns (ret, buf)"
    and dev': "if ret \<le> 0 then dev' = set_entryworkbuf buf dev
      else \<exists>eb'. take_copy dev ret buf = Returns eb' \<and>
        dev' = (set_entrybuf eb' (set_entryworkbuf buf dev))\<lparr>dev_remain := dev_remain dev + ret,
          dev_filled := dev_filled dev - ret, dev_rp := (dev_rp dev + ret) mod dev_entrynum dev\<rparr>"
    using take_entry_cases [OF assms(3)] d(2) by (auto simp: elems_def)
  show ?thesis
  proof (cases "?es = []")
    case True
    then have "ret \<le> 0" "length buf = n" using eavb_take_cases [OF t] d by auto
    then show ?thesis
      using True dev' assms(1) d by (auto simp: ring_inv_def elems_def owned_entries_def set_entryworkbuf_def)
  next
    case False
    then have ret: "ret = int ?m" "0 < ?m" and buf: "buf = ?es @ drop ?m wb" "?m \<le> n"
      using eavb_take_cases [OF t] d by auto
    have km: "k + ?m \<le> n" using assms(2) d by simp
    obtain eb' where eb': "take_copy dev (int ?m) buf = Returns eb'" "length eb' = n"
      "rotate (nat (dev_rp dev)) eb' = ?es @ drop ?m (rotate (nat (dev_rp dev)) (elems (entrybuf dev)))"
      using take_copy_front [OF assms(1) ret(2) buf(2) refl, of buf] buf d by auto
    have dd: "dev' = (set_entrybuf eb' (set_entryworkbuf buf dev))\<lparr>dev_remain := int (k + ?m),
        dev_filled := int n - int (k + ?m), dev_rp := int ((i + (k + ?m)) mod n)\<rparr>"
      using dev' ret eb'(1) d by (simp add: zmod_int mod_add_left_eq add.assoc)
    have "take (k + ?m) (rotate i eb') = take k (rotate i eb) @ ?es"
      using rotate_append_block [of i k eb eb' ?es] eb'(2,3) d km by (simp add: elems_def)
    then have "owned_entries dev' = owned_entries dev @ ?es"
      using dd d by (simp add: owned_entries_def elems_def set_entrybuf_def set_entryworkbuf_def flip: of_nat_add)
    moreover have "length buf = n" using buf d by simp
    then have "ring_inv n dev'"
      using dd d eb'(2) km by (auto simp: ring_inv_def elems_def set_entrybuf_def set_entryworkbuf_def zmod_int)
    ultimately show ?thesis using dd d ret by (simp add: set_entrybuf_def set_entryworkbuf_def)
  qed
qed

text \<open>The counters after the operations.\<close>

lemma push_entry_counts:
  assumes "ring_inv n dev" "0 \<le> count" "count \<le> dev_remain dev" "write_fits count w"
    "eavb_device_push_entry s (Some dev) count w = Returns (ret, s', Some dev', given)"
  shows "dev_filled dev' = dev_filled dev + int (length given) \<and> dev_rp dev' = dev_rp dev \<and>
    dev_p dev' = dev_p dev \<and> framebuf dev' = framebuf dev \<and> (0 \<le> ret \<longrightarrow> ret = int (length given)) \<and>
    int (length given) \<le> count"
proof -
  have len: "length given = nat ret" using push_entry_owned [OF assms] by blast
  obtain d1 buf where p: "push_entries s dev count w = Returns (ret, s', d1, buf)"
    and dev': "if ret \<le> 0 then dev' = d1 \<and> given = []
      else dev' = d1\<lparr>dev_remain := dev_remain d1 - ret, dev_filled := dev_filled d1 + ret,
         dev_wp := (dev_wp d1 + ret) mod dev_entrynum d1\<rparr> \<and> given = take (nat ret) buf"
    using assms(5) by (auto simp: eavb_device_push_entry_def bindC_eq_Returns_iff split: if_splits)
  obtain eb' wb' where d1: "d1 = dev\<lparr>entrybuf := Some eb', entryworkbuf := Some wb'\<rparr>"
    and q: "ret \<le> 0 \<or> (\<exists>k. w = Wrote k \<and> ret = int k)"
    using push_entries_keys [OF assms(1-3) p] by blast
  have "nat ret \<le> nat count" using q assms(4) by (auto simp: write_fits_def nat_mono)
  then show ?thesis using len dev' d1 assms(2) by (auto split: if_splits)
qed

lemma take_entry_counts:
  assumes "ring_inv n dev" "length (delivered count r) \<le> nat (dev_filled dev)"
    "eavb_device_take_entry (Some dev) count r = Returns (ret, Some dev')"
  shows "dev_filled dev' = dev_filled dev - int (nat ret) \<and> dev_rp dev' = (dev_rp dev + int (nat ret)) mod int n \<and>
    dev_p dev' = dev_p dev \<and> framebuf dev' = framebuf dev"
proof -
  have n: "dev_entrynum dev = int n" "dev_rp dev mod int n = dev_rp dev" using assms(1) by (auto simp: ring_inv_def)
  show ?thesis
    using n by (rule_tac take_entry_cases [OF assms(3)])
      (auto simp: set_entrybuf_def set_entryworkbuf_def split: if_splits)
qed

section \<open>The device as an instance\<close>

definition push_rel :: "eavb_device \<Rightarrow> nat list \<Rightarrow> eavb_device \<Rightarrow> bool" where
  "push_rel dev ks dev' \<longleftrightarrow> (\<exists>s count w ret s' given. 0 \<le> count \<and> count \<le> dev_remain dev \<and> write_fits count w \<and>
    eavb_device_push_entry s (Some dev) count w = Returns (ret, s', Some dev', given) \<and> ks = map vec_base given)"

definition take_rel :: "eavb_device \<Rightarrow> nat list \<Rightarrow> eavb_device \<Rightarrow> bool" where
  "take_rel dev ks dev' \<longleftrightarrow> (\<exists>count r ret. eavb_device_take_entry (Some dev) count r = Returns (ret, Some dev') \<and>
    ks = map vec_base (delivered count r))"

lemma length_owned: "ring_inv n dev \<Longrightarrow> length (owned_entries dev) + nat (dev_filled dev) = n"
  by (auto simp: owned_entries_def ring_inv_def)

lemma push_rel_law:
  assumes "ring_inv n d" "push_rel d ks d'"
  shows "ring_inv n d' \<and> map vec_base (owned_entries d) = ks @ map vec_base (owned_entries d') \<and>
    nat (dev_wp d') = (nat (dev_wp d) + length ks) mod n"
proof -
  obtain s count w ret s' given where p: "0 \<le> count" "count \<le> dev_remain d" "write_fits count w"
    "eavb_device_push_entry s (Some d) count w = Returns (ret, s', Some d', given)" "ks = map vec_base given"
    using assms(2) by (auto simp: push_rel_def)
  show ?thesis using push_entry_owned [OF assms(1) p(1-4)] p(5) by simp
qed

lemma take_rel_law:
  assumes "ring_inv n d" "take_rel d ks d'" "length ks \<le> nat (dev_filled d)"
  shows "ring_inv n d' \<and> map vec_base (owned_entries d') = map vec_base (owned_entries d) @ ks \<and>
    nat (dev_wp d') = nat (dev_wp d)"
proof -
  obtain count r ret where t: "eavb_device_take_entry (Some d) count r = Returns (ret, Some d')"
    "ks = map vec_base (delivered count r)"
    using assms(2) by (auto simp: take_rel_def)
  have "length (delivered count r) \<le> nat (dev_filled d)" using assms(3) t(2) by simp
  from take_entry_owned [OF assms(1) this t(1)] show ?thesis using t(2) by simp
qed

interpretation ring: entry_ring "ring_inv n" "\<lambda>dev. map vec_base (owned_entries dev)" "\<lambda>dev. nat (dev_filled dev)"
  "\<lambda>dev. nat (dev_wp dev)" push_rel take_rel n for n
proof
  show "length (map vec_base (owned_entries d)) + nat (dev_filled d) = n" if "ring_inv n d" for d
    using length_owned [OF that] by simp
  show "ring_inv n d' \<and> map vec_base (owned_entries d) = ks @ map vec_base (owned_entries d') \<and>
      nat (dev_wp d') = (nat (dev_wp d) + length ks) mod n"
    if "ring_inv n d" "push_rel d ks d'" for d ks d'
    using that by (rule push_rel_law)
  show "ring_inv n d' \<and> map vec_base (owned_entries d') = map vec_base (owned_entries d) @ ks \<and>
      nat (dev_wp d') = nat (dev_wp d)"
    if "ring_inv n d" "take_rel d ks d'" "length ks \<le> nat (dev_filled d)" for d ks d'
    using that by (rule take_rel_law)
qed

section \<open>Application and driver\<close>

text \<open>
  The device, the driver's queue and everything the driver has accepted. The driver may change
  an entry, but it gives the entries back in the order in which it accepted them; between the
  operations the application may change its entries, but not the pages they belong to.
\<close>

record stream_system =
  ss_dev :: eavb_device
  ss_lastseq :: int
  ss_queue :: "eavb_entry list"
  ss_log :: "eavb_entry list"

inductive stream_step :: "stream_system \<Rightarrow> stream_system \<Rightarrow> bool" where
  pushed: "0 \<le> count \<Longrightarrow> count \<le> dev_remain (ss_dev S) \<Longrightarrow> write_fits count w \<Longrightarrow>
    eavb_device_push_entry (ss_lastseq S) (Some (ss_dev S)) count w = Returns (ret, s', Some dev', given) \<Longrightarrow>
    stream_step S (S\<lparr>ss_dev := dev', ss_lastseq := s', ss_queue := ss_queue S @ given, ss_log := ss_log S @ given\<rparr>)"
| taken: "eavb_device_take_entry (Some (ss_dev S)) count r = Returns (ret, Some dev') \<Longrightarrow>
    map vec_base (ss_queue S) = map vec_base (delivered count r @ q) \<Longrightarrow>
    stream_step S (S\<lparr>ss_dev := dev', ss_queue := q\<rparr>)"
| prepared: "map vec_base eb = keys (ss_dev S) \<Longrightarrow>
    stream_step S (S\<lparr>ss_dev := (ss_dev S)\<lparr>entrybuf := Some eb, dev_p := p\<rparr>\<rparr>)"

inductive_cases stream_stepE: "stream_step S S'"

definition system_ok :: "nat \<Rightarrow> nat list \<Rightarrow> stream_system \<Rightarrow> bool" where
  "system_ok n slots S \<longleftrightarrow> ring.together n slots (ss_dev S) (map vec_base (ss_queue S)) \<and>
    ss_lastseq S = int (length (ss_log S)) \<and> map seq_no (ss_log S) = map int [0..<length (ss_log S)]"

lemma map_int_append: "map int [0..<a] @ map (\<lambda>i. int a + int i) [0..<b] = map int [0..<a + b]"
  by (rule nth_equalityI) (auto simp: nth_append)

lemma system_okI:
  "ring.together n slots d (map vec_base q) \<Longrightarrow> s = int (length l) \<Longrightarrow> map seq_no l = map int [0..<length l] \<Longrightarrow>
    system_ok n slots (S\<lparr>ss_dev := d, ss_lastseq := s, ss_queue := q, ss_log := l\<rparr>)"
  by (simp add: system_ok_def)

lemma system_ok_step: "stream_step S S' \<Longrightarrow> system_ok n slots S \<Longrightarrow> system_ok n slots S'"
proof (induction rule: stream_step.induct)
  case (pushed count S w ret s' dev' given)
  have inv: "ring_inv n (ss_dev S)" using pushed.prems by (simp add: system_ok_def ring.together_def)
  have g: "given = number_entries (ss_lastseq S) (take (length given) (owned_entries (ss_dev S)))"
      "s' = ss_lastseq S + int (length given)"
    using push_entry_owned [OF inv pushed.hyps] by blast+
  have "ring.together n slots dev' (map vec_base (ss_queue S) @ map vec_base given)"
  proof (rule ring.push_together)
    show "ring.together n slots (ss_dev S) (map vec_base (ss_queue S))"
      using pushed.prems by (simp add: system_ok_def)
    show "push_rel (ss_dev S) (map vec_base given) dev'" using pushed.hyps unfolding push_rel_def by blast
  qed
  moreover have "map seq_no given = map (\<lambda>i. int (length (ss_log S)) + int i) [0..<length given]"
    using number_entries_seq g(1) pushed.prems by (metis length_number_entries system_ok_def)
  then have "map seq_no (ss_log S @ given) = map int [0..<length (ss_log S @ given)]"
    using pushed.prems by (simp only: system_ok_def map_append length_append map_int_append)
  moreover have "s' = int (length (ss_log S @ given))"
    using pushed.prems g(2) by (simp add: system_ok_def)
  ultimately show ?case by (intro system_okI) (simp_all only: map_append)
next
  case (taken S count r ret dev' q)
  have "ring.together n slots dev' (map vec_base q)"
  proof (rule ring.take_together)
    show "ring.together n slots (ss_dev S) (map vec_base (delivered count r) @ map vec_base q)"
      using taken.hyps(2) taken.prems by (simp only: system_ok_def map_append simp_thms)
    show "take_rel (ss_dev S) (map vec_base (delivered count r)) dev'"
      using taken.hyps(1) unfolding take_rel_def by blast
  qed
  then show ?case using taken.prems by (simp add: system_ok_def)
next
  case (prepared eb S p)
  have l: "length eb = length (elems (entrybuf (ss_dev S)))"
    using prepared.hyps by (metis keys_def length_map)
  have "map vec_base (owned_entries ((ss_dev S)\<lparr>entrybuf := Some eb, dev_p := p\<rparr>)) = map vec_base (owned_entries (ss_dev S))"
    using prepared.hyps by (simp add: owned_keys) (simp add: keys_def elems_def)
  then show ?case
    using prepared l by (auto simp: system_ok_def ring.together_def ring_inv_def elems_def)
qed

text \<open>
  C6: The ring of a device with the queue of the driver refines one queue of pages: through
  every sequence of pushes and takes with a driver that returns entries in order, each slot
  keeps its page, and the entries the application owns and those lent to the driver together are
  always the pages of the ring in order.
\<close>
theorem ring_and_queue_keep_page_order:
  assumes "stream_step\<^sup>*\<^sup>* S S'" "ring_inv n (ss_dev S)" "dev_wp (ss_dev S) = 0" "dev_filled (ss_dev S) = 0"
    "ss_queue S = []" "ss_log S = []" "ss_lastseq S = 0"
  shows "ring_inv n (ss_dev S') \<and> length (ss_queue S') = nat (dev_filled (ss_dev S')) \<and>
    map vec_base (owned_entries (ss_dev S') @ ss_queue S') = rotate (nat (dev_wp (ss_dev S'))) (keys (ss_dev S)) \<and>
    map seq_no (ss_log S') = map int [0..<length (ss_log S')]"
proof -
  have "map vec_base (owned_entries (ss_dev S)) = keys (ss_dev S)" "length (keys (ss_dev S)) = n"
    using assms(2-4) by (auto simp: owned_keys keys_def ring_inv_def)
  then have "system_ok n (keys (ss_dev S)) S"
    using assms by (simp add: system_ok_def ring.together_def)
  with assms(1) have "system_ok n (keys (ss_dev S)) S'"
    by (induction rule: rtranclp_induct) (auto intro: system_ok_step)
  then show ?thesis by (simp add: system_ok_def ring.together_def)
qed

section \<open>The operations stay in the buffers\<close>

lemma eavb_push_returns:
  assumes "0 \<le> m" "m \<le> int (length buf)" "write_fits m w" "0 \<le> s" "s + m \<le> INT_MAX"
  shows "\<exists>x. eavb_push s buf m w = Returns x"
proof -
  have "c_int (s + (m - 1)) = Returns (s + (m - 1))" if "0 < m"
    using that assms by (intro c_int_ok) (simp_all add: INT_MAX_def)
  moreover have "c_int (s + int k) = Returns (s + int k)" if "w = Wrote k" for k
    using that assms by (intro c_int_ok) (simp_all add: INT_MAX_def write_fits_def)
  ultimately show ?thesis using assms(1,2) by (cases w) (simp_all add: eavb_push_def Let_def)
qed

lemma push_entry_returns:
  assumes "ring_inv n dev" "0 \<le> count" "count \<le> dev_remain dev" "write_fits count w" "0 \<le> s" "s + count \<le> INT_MAX"
  shows "\<exists>ret s' dev' given. eavb_device_push_entry s (Some dev) count w = Returns (ret, s', Some dev', given)"
proof -
  obtain eb wb i r where d: "entrybuf dev = Some eb" "entryworkbuf dev = Some wb" "length eb = n" "length wb = n"
    "dev_entrynum dev = int n" "dev_wp dev = int i" "i < n" "dev_remain dev = int r" "r \<le> n"
    using assms(1) by (rule ring_invD)
  have "\<exists>x. push_entries s dev count w = Returns x"
  proof (cases "dev_wp dev + count > dev_entrynum dev")
    case True
    obtain c where c: "count = int c" "c \<le> n" using assms(2,3) d by (metis nat_0_le of_nat_le_iff order_trans)
    obtain b0 where b0: "push_copy dev count = Returns b0" "length b0 = n"
      using push_copy_front [OF assms(1), of c] True c d by auto
    then obtain x where "eavb_push s b0 count w = Returns x"
      using eavb_push_returns [of count b0 w s] assms c by auto
    then show ?thesis using True b0 by (cases x) (simp add: push_entries_def Let_def)
  next
    case False
    then obtain x where "eavb_push s (drop i eb) count w = Returns x"
      using eavb_push_returns [of count "drop i eb" w s] assms d by auto
    then show ?thesis using False d by (cases x) (simp add: push_entries_def Let_def elems_def)
  qed
  then obtain ret s' d1 buf where "push_entries s dev count w = Returns (ret, s', d1, buf)"
    by (metis prod_cases4)
  then show ?thesis by (simp add: eavb_device_push_entry_def)
qed

lemma eavb_take_returns: "length (delivered count r) \<le> length buf \<Longrightarrow> \<exists>ret b. eavb_take buf count r = Returns (ret, b)"
  by (cases r; cases "count = 0"; cases "count < 0") (auto simp: eavb_take_def delivered_def)

lemma take_entry_returns:
  assumes "ring_inv n dev" "length (delivered count r) \<le> nat (dev_filled dev)"
  shows "\<exists>ret dev'. eavb_device_take_entry (Some dev) count r = Returns (ret, Some dev')"
proof -
  let ?es = "delivered count r"
  obtain wb where d: "entryworkbuf dev = Some wb" "length wb = n" using assms(1) by (rule ring_invD)
  have len: "length ?es \<le> n" using assms(2) length_owned [OF assms(1)] by simp
  then obtain ret buf where t: "eavb_take wb count r = Returns (ret, buf)"
    using eavb_take_returns [of count r wb] d by auto
  show ?thesis
  proof (cases "ret \<le> 0")
    case True
    then show ?thesis using t d by (simp add: eavb_device_take_entry_def elems_def Let_def)
  next
    case False
    then have e: "ret = int (length ?es)" "buf = ?es @ drop (length ?es) wb" using eavb_take_cases [OF t] by auto
    obtain eb' where "take_copy dev ret buf = Returns eb'"
      using take_copy_front [OF assms(1), of "length ?es" ?es buf] e False len by auto
    then show ?thesis using t d False by (simp add: eavb_device_take_entry_def elems_def Let_def)
  qed
qed


section \<open>Creation\<close>

lemma new_device_ring:
  assumes "eavb_device_new c name (int n) = (Some dev, log)" "0 < n"
  shows "ring_inv n dev \<and> dev_wp dev = 0 \<and> dev_filled dev = 0 \<and> log = [] \<and> dev_p dev = 0 \<and>
    elems (entrybuf dev) = replicate n entry_zero \<and> framebuf dev = Some (replicate n page_zero)"
  using assms
  by (auto simp: eavb_device_new_def Let_def ring_inv_def device_zero_def elems_def split: option.splits if_splits)

text \<open>Every buffer that was allocated is freed, and a descriptor above 0 is closed, on every failure.\<close>

lemma failed_device_released:
  assumes "eavb_device_new c (Some name) n = (None, log)" "dc_alloc c"
  shows "count_list log Freed_Device = 1 \<and> count_list log Freed_Framebuf = 0 \<and>
    (count_list log Freed_Entrybuf = 1 \<longleftrightarrow> 0 \<le> dc_open c \<and> dc_entrybuf c) \<and>
    (count_list log (Closed_Device (dc_open c)) = 1 \<longleftrightarrow> 0 < dc_open c)"
  using assms
  by (auto simp: eavb_device_new_def Let_def device_release_def device_zero_def eavb_open_def split: if_splits)

section \<open>Witnesses\<close>

definition sample_ring :: eavb_device where
  "sample_ring = device_zero\<lparr>dev_entrynum := 3, dev_remain := 3,
    entrybuf := Some [entry_zero\<lparr>vec_base := 10\<rparr>, entry_zero\<lparr>vec_base := 20\<rparr>, entry_zero\<lparr>vec_base := 30\<rparr>],
    entryworkbuf := Some (replicate 3 entry_zero)\<rparr>"

definition sample_stream :: stream_system where
  "sample_stream = \<lparr> ss_dev = sample_ring, ss_lastseq = 0, ss_queue = [], ss_log = [] \<rparr>"

lemmas sample_ring_simps = sample_ring_def sample_stream_def device_zero_def entry_zero_def

lemma sample_ring_inv: "ring_inv 3 sample_ring"
  by (simp add: ring_inv_def elems_def sample_ring_simps)

lemma sample_push:
  "\<exists>ret s' dev' given. eavb_device_push_entry 0 (Some sample_ring) 3 (Wrote 2) = Returns (ret, s', Some dev', given) \<and>
    dev_wp dev' = 2 \<and> dev_filled dev' = 2"
  by (simp add: eavb_device_push_entry_def push_entries_def eavb_push_def elems_def set_entrybuf_def c_int_def INT_MAX_def
      sample_ring_simps Let_def)

theorem ring_and_queue_keep_page_order_witness:
  "\<exists>S. stream_step\<^sup>*\<^sup>* sample_stream S \<and> length (ss_queue S) = 2 \<and>
    map vec_base (owned_entries (ss_dev S) @ ss_queue S) = [30, 10, 20]"
proof -
  obtain ret s' dev' given where p: "eavb_device_push_entry 0 (Some sample_ring) 3 (Wrote 2) = Returns (ret, s', Some dev', given)"
    "dev_wp dev' = 2" "dev_filled dev' = 2"
    using sample_push by blast
  let ?S = "sample_stream\<lparr>ss_dev := dev', ss_lastseq := s', ss_queue := given, ss_log := given\<rparr>"
  have "stream_step sample_stream ?S"
    using stream_step.pushed [of 3 sample_stream "Wrote 2" ret s' dev' given] p(1)
    by (simp add: sample_ring_simps write_fits_def)
  then have r: "stream_step\<^sup>*\<^sup>* sample_stream ?S" by simp
  have "keys sample_ring = [10, 20, 30]" by (simp add: keys_def elems_def sample_ring_simps)
  then show ?thesis
    using ring_and_queue_keep_page_order [OF r, of 3] sample_ring_inv r p(2,3)
    by (intro exI [of _ ?S]) (simp add: sample_stream_def, simp add: sample_ring_simps numeral_2_eq_2)
qed


end
