(* ===== verification/Listener_Props.thy ===== *)
theory Listener_Props
  imports Simple_Listener Eavb_Ring
begin

unbundle bit_operations_syntax

text \<open>
  Properties of the simple listener: the frames it writes are the frames it took, in the order of
  the ring, a finite dump writes exactly the number of frames asked for, and what the check of
  the sequence numbers reports.
\<close>

section \<open>The bookkeeping of a dump\<close>

text \<open>
  \<open>D\<close> frames have been written and \<open>m\<close> more have been taken: the position of the application
  and the read position of the ring differ by \<open>m\<close>, and everything given to the driver has been
  written, has been taken, or is still lent.
\<close>

definition dump_core :: "nat \<Rightarrow> listener_state \<Rightarrow> nat \<Rightarrow> nat \<Rightarrow> bool" where
  "dump_core n L D m \<longleftrightarrow> ring_inv n (li_dev L) \<and> lc_entrynum (li_cfg L) = int n \<and>
    dev_p (li_dev L) = int (D mod n) \<and> dev_rp (li_dev L) = int ((D + m) mod n) \<and>
    int D + int m + dev_filled (li_dev L) = int (length (li_given L)) \<and>
    st_packets (lc_stats (li_cfg L)) = of_nat D"

definition written_slots :: "nat \<Rightarrow> listener_state \<Rightarrow> nat \<Rightarrow> bool" where
  "written_slots n L D \<longleftrightarrow>
    (lc_fd (li_cfg L) \<noteq> 0 \<longrightarrow> map fst (concat (li_writes L)) = map (\<lambda>i. int (i mod n)) [0..<D])"

definition loop_count :: "int \<Rightarrow> listener_loop \<Rightarrow> listener_state \<Rightarrow> bool" where
  "loop_count wanted l L \<longleftrightarrow> (\<not> ll_inf l \<longrightarrow> 0 \<le> ll_repeat l \<and>
    ll_repeat l + int (length (li_given L)) = wanted \<and> (ll_waitflush l \<longrightarrow> ll_repeat l = 0))"

text \<open>A driver accepts and delivers at most the number of entries it is offered or asked for.\<close>

definition read_fits :: "int \<Rightarrow> read_result \<Rightarrow> bool" where
  "read_fits c r \<longleftrightarrow> length (delivered c r) \<le> nat c"

definition fair_round :: "listener_round \<Rightarrow> bool" where
  "fair_round ev \<longleftrightarrow> lr_alloc ev \<and> (\<forall>c. 0 \<le> c \<longrightarrow> write_fits c (lr_write ev c)) \<and>
    (\<forall>c. read_fits c (lr_read ev c)) \<and> (\<forall>c. read_fits c (lr_flush_read ev c))"

lemma push_for_core:
  assumes "dump_core n L D 0" "push_for c w L = Returns (tmp, L')" "0 \<le> c" "c \<le> dev_remain (li_dev L)" "write_fits c (w c)"
  shows "dump_core n L' D 0 \<and> li_cfg L' = li_cfg L \<and> li_writes L' = li_writes L \<and>
    (0 \<le> tmp \<longrightarrow> int (length (li_given L')) = int (length (li_given L)) + tmp) \<and>
    (tmp < 0 \<longrightarrow> li_given L' = li_given L) \<and> tmp \<le> c"
proof -
  have inv: "ring_inv n (li_dev L)" using assms(1) by (simp add: dump_core_def)
  obtain s dev given where p: "eavb_device_push_entry (li_lastseq L) (Some (li_dev L)) c (w c) = Returns (tmp, s, dev, given)"
    "L' = L\<lparr>li_lastseq := s, li_given := li_given L @ given, li_dev := (case dev of Some d \<Rightarrow> d | None \<Rightarrow> li_dev L)\<rparr>"
    using assms(2) by (auto simp: push_for_def bindC_eq_Returns_iff)
  then obtain d where d: "dev = Some d"
    by (auto simp: eavb_device_push_entry_def bindC_eq_Returns_iff split: if_splits)
  note o = push_entry_owned [OF inv assms(3,4,5) p(1) [unfolded d]]
  note k = push_entry_counts [OF inv assms(3,4,5) p(1) [unfolded d]]
  have "length given = nat tmp" "ring_inv n d" using o by blast+
  then show ?thesis using assms(1,3) p(2) k by (auto simp: dump_core_def d split: if_splits)
qed

lemma take_for_core:
  assumes "dump_core n L D 0" "take_for c r L = Returns (tmp, L')" "c \<le> dev_filled (li_dev L)" "read_fits c (r c)"
  shows "dump_core n L' D (nat tmp) \<and> li_cfg L' = li_cfg L \<and> li_writes L' = li_writes L \<and> li_given L' = li_given L"
proof -
  have inv: "ring_inv n (li_dev L)" using assms(1) by (simp add: dump_core_def)
  obtain dev where p: "eavb_device_take_entry (Some (li_dev L)) c (r c) = Returns (tmp, dev)"
    "L' = L\<lparr>li_dev := (case dev of Some d \<Rightarrow> d | None \<Rightarrow> li_dev L)\<rparr>"
    using assms(2) by (auto simp: take_for_def bindC_eq_Returns_iff)
  then obtain d where d: "dev = Some d"
    by (auto simp: eavb_device_take_entry_def bindC_eq_Returns_iff Let_def split: if_splits)
  have fit: "length (delivered c (r c)) \<le> nat (dev_filled (li_dev L))"
    using assms(3,4) by (auto simp: read_fits_def)
  note o = take_entry_owned [OF inv fit p(1) [unfolded d]]
  note k = take_entry_counts [OF inv fit p(1) [unfolded d]]
  have "int ((D + nat tmp) mod n) = (int (D mod n) + int (nat tmp)) mod int n"
    by (simp add: zmod_int mod_add_left_eq)
  then show ?thesis using assms(1) p(2) o k by (simp add: dump_core_def d)
qed

lemma receive_frames_core: "dump_core n (receive_frames fs L) D m = dump_core n L D m"
proof -
  have "\<exists>fb. fold (\<lambda>(p, m). set_slot_packet p m) fs dev = dev\<lparr>framebuf := fb\<rparr>" for dev
  proof (induction fs arbitrary: dev)
    case Nil
    have "dev = dev\<lparr>framebuf := framebuf dev\<rparr>" by simp
    then show ?case by (metis fold_simps(1))
  next
    case (Cons f fs)
    obtain p m where f: "f = (p, m)" by fastforce
    obtain fb where "fold (\<lambda>(p, m). set_slot_packet p m) fs (set_slot_packet p m dev) =
        (set_slot_packet p m dev)\<lparr>framebuf := fb\<rparr>"
      using Cons.IH by blast
    moreover have "(set_slot_packet p m dev)\<lparr>framebuf := fb\<rparr> = dev\<lparr>framebuf := fb\<rparr>"
      by (simp add: set_slot_packet_def)
    ultimately show ?case using f by (metis (no_types, lifting) case_prod_conv comp_apply fold_simps(2))
  qed
  then obtain fb where "fold (\<lambda>(p, m). set_slot_packet p m) fs (li_dev L) = (li_dev L)\<lparr>framebuf := fb\<rparr>" by blast
  then show ?thesis by (simp add: receive_frames_def dump_core_def ring_inv_def)
qed

lemma filedump_entry_core:
  assumes "dump_core n L D (Suc m)" "filedump_entry E now L = Returns (v, L')"
  shows "dump_core n L' (Suc D) m \<and> fst v = int (D mod n) \<and> li_writes L' = li_writes L \<and> li_given L' = li_given L \<and>
    lc_fd (li_cfg L') = lc_fd (li_cfg L) \<and> lc_waitmode (li_cfg L') = lc_waitmode (li_cfg L)"
proof -
  have "int (Suc D mod n) = (int (D mod n) + 1) mod int n"
    by (simp add: zmod_int mod_simps add.commute)
  then show ?thesis
    using assms
    by (auto simp: filedump_entry_def bindC_eq_Returns_iff Let_def dump_core_def ring_inv_def next_slot_def
        set_slot_len_def set_entrybuf_def elems_def stats_process_def split: option.splits)
qed

lemma filedump_entries_core:
  "dump_core n L D m \<Longrightarrow> filedump_entries E now m L = Returns (vs, L') \<Longrightarrow>
    dump_core n L' (D + m) 0 \<and> map fst vs = map (\<lambda>i. int (i mod n)) [D..<D + m] \<and>
    li_writes L' = li_writes L \<and> li_given L' = li_given L \<and> lc_fd (li_cfg L') = lc_fd (li_cfg L) \<and>
    lc_waitmode (li_cfg L') = lc_waitmode (li_cfg L)"
proof (induction m arbitrary: L D vs)
  case (Suc m)
  obtain v L1 vs1 where s: "filedump_entry E now L = Returns (v, L1)" "filedump_entries E now m L1 = Returns (vs1, L')"
    "vs = v # vs1"
    using Suc.prems(2) by (auto simp: bindC_eq_Returns_iff)
  note e = filedump_entry_core [OF Suc.prems(1) s(1)]
  show ?case using e s(3) Suc.IH [OF _ s(2), of "Suc D"] by (simp add: upt_rec)
qed simp

lemma filedump_process_core:
  assumes "dump_core n L D (nat tmp)" "written_slots n L D" "filedump_process E True now tmp L = Returns L'"
  shows "dump_core n L' (D + nat tmp) 0 \<and> written_slots n L' (D + nat tmp) \<and> li_given L' = li_given L \<and>
    lc_fd (li_cfg L') = lc_fd (li_cfg L) \<and> lc_waitmode (li_cfg L') = lc_waitmode (li_cfg L)"
proof -
  obtain vs L1 where s: "filedump_entries E now (nat tmp) L = Returns (vs, L1)"
    "L' = (if lc_fd (li_cfg L1) \<noteq> 0 then L1\<lparr>li_writes := li_writes L1 @ [vs]\<rparr> else L1)"
    using assms(3) by (auto simp: filedump_process_def bindC_eq_Returns_iff)
  note e = filedump_entries_core [OF assms(1) s(1)]
  have w: "written_slots n L' (D + nat tmp)"
  proof (cases "lc_fd (li_cfg L1) = 0")
    case False
    have "map fst (concat (li_writes L1)) @ map fst vs = map (\<lambda>i. int (i mod n)) ([0..<D] @ [D..<D + nat tmp])"
      using e assms(2) False by (simp add: written_slots_def)
    then show ?thesis
      using False s(2) upt_add_eq_append [of 0 D "nat tmp"] by (simp only: written_slots_def) simp
  qed (simp add: written_slots_def s(2))
  have "dump_core n L' (D + nat tmp) 0" using e s(2) by (simp add: dump_core_def)
  then show ?thesis using e s(2) w by simp
qed

section \<open>One round and the loop\<close>

definition dump_ok :: "nat \<Rightarrow> int \<Rightarrow> int \<Rightarrow> listener_loop \<Rightarrow> listener_state \<Rightarrow> bool" where
  "dump_ok n fd wanted l L \<longleftrightarrow> lc_fd (li_cfg L) = fd \<and> loop_count wanted l L \<and> (\<exists>D. dump_core n L D 0 \<and> written_slots n L D)"

lemma write_round_core:
  assumes "dump_core n L D 0" "loop_count wanted l L" "fair_round ev" "listener_write_round ev l L = Returns (ok, l', L')"
  shows "dump_core n L' D 0 \<and> loop_count wanted l' L' \<and> ll_inf l' = ll_inf l \<and> li_cfg L' = li_cfg L \<and> li_writes L' = li_writes L"
proof -
  let ?c = "if \<not> ll_inf l \<and> ll_repeat l < dev_remain (li_dev L) then ll_repeat l else dev_remain (li_dev L)"
  have "0 \<le> dev_remain (li_dev L)" using assms(1) by (simp add: dump_core_def ring_inv_def)
  then have c: "0 \<le> ?c" "?c \<le> dev_remain (li_dev L)" "\<not> ll_inf l \<Longrightarrow> ?c \<le> ll_repeat l"
    using assms(2) by (auto simp: loop_count_def)
  obtain tmp L1 where p: "push_for ?c (lr_write ev) L = Returns (tmp, L1)"
    and r: "if tmp < 0 then l' = l \<and> L' = L1
      else if ll_inf l then l' = l \<and> L' = L1
      else l' = l\<lparr>ll_repeat := ll_repeat l - tmp, ll_waitflush := (ll_waitflush l \<or> ll_repeat l - tmp \<le> 0)\<rparr> \<and> L' = L1"
    using assms(4) by (auto simp: listener_write_round_def bindC_eq_Returns_iff Let_def split: if_splits)
  have "write_fits ?c (lr_write ev ?c)" using assms(3) c(1) by (simp add: fair_round_def)
  note k = push_for_core [OF assms(1) p c(1,2) this]
  have "\<not> ll_inf l \<Longrightarrow> tmp \<le> ll_repeat l" using k c(3) by linarith
  then show ?thesis using k r assms(2) by (auto simp: loop_count_def split: if_splits)
qed

lemma listener_take_core:
  assumes "dump_core n L D 0" "fair_round ev" "listener_take thresh ev L = Returns (tmp, L')"
  shows "dump_core n L' D (nat tmp) \<and> li_cfg L' = li_cfg L \<and> li_writes L' = li_writes L \<and> li_given L' = li_given L"
proof -
  have le: "take_count thresh d \<le> dev_filled d" for d by (simp add: take_count_def)
  have fits: "read_fits c (lr_read ev c)" "read_fits c (lr_flush_read ev c)" for c
    using assms(2) by (simp_all add: fair_round_def)
  obtain t1 L1 where t: "take_for (take_count thresh (li_dev L)) (lr_read ev) L = Returns (t1, L1)"
    and r: "tmp = t1 \<and> L' = L1 \<or>
      t1 < 0 \<and> take_for (take_count thresh (li_dev L1)) (lr_flush_read ev) L1 = Returns (tmp, L')"
    using assms(3) by (auto simp: listener_take_def bindC_eq_Returns_iff Let_def split: if_splits)
  note k = take_for_core [OF assms(1) t le fits(1)]
  show ?thesis
    using r
  proof
    assume a: "t1 < 0 \<and> take_for (take_count thresh (li_dev L1)) (lr_flush_read ev) L1 = Returns (tmp, L')"
    then have "dump_core n L1 D 0" using k by simp
    from take_for_core [OF this, of "take_count thresh (li_dev L1)" "lr_flush_read ev" tmp L'] a k le fits(2)
    show ?thesis by simp
  qed (use k in simp)
qed

lemma read_round_core:
  assumes "dump_core n L D 0" "written_slots n L D" "fair_round ev" "listener_read_round E thresh ev L = Returns (ok, L')"
  shows "(\<exists>D'. dump_core n L' D' 0 \<and> written_slots n L' D') \<and> li_given L' = li_given L \<and>
    lc_fd (li_cfg L') = lc_fd (li_cfg L)"
proof -
  let ?L = "receive_frames (lr_frames ev) L"
  have same: "li_cfg ?L = li_cfg L" "li_writes ?L = li_writes L" "li_given ?L = li_given L"
    by (simp_all add: receive_frames_def)
  have al: "lr_alloc ev" using assms(3) by (simp add: fair_round_def)
  obtain tmp L1 where t: "listener_take thresh ev ?L = Returns (tmp, L1)"
    and r: "if tmp < 0 then L' = L1 else filedump_process E True (lr_now ev) tmp L1 = Returns L'"
    using assms(4) al by (auto simp: listener_read_round_def bindC_eq_Returns_iff split: if_splits)
  note k = listener_take_core [OF _ assms(3) t, of n D, unfolded receive_frames_core, OF assms(1)]
  have w: "written_slots n L1 D" using assms(2) k same by (simp add: written_slots_def)
  show ?thesis
  proof (cases "tmp < 0")
    case True
    then show ?thesis using k w r same by (intro conjI exI [of _ D]) simp_all
  next
    case False
    then have "filedump_process E True (lr_now ev) tmp L1 = Returns L'" using r by simp
    from filedump_process_core [OF _ w this] k same show ?thesis by auto
  qed
qed

lemma filedump_round_ok:
  assumes "dump_ok n fd wanted l L" "fair_round ev" "filedump_round E thresh ev l L = Returns (r, l', L')"
  shows "dump_ok n fd wanted l' L' \<and> ll_inf l' = ll_inf l"
proof -
  obtain D where d: "dump_core n L D 0" "written_slots n L D" "loop_count wanted l L" "lc_fd (li_cfg L) = fd"
    using assms(1) by (auto simp: dump_ok_def)
  let ?e = "process_wait (lc_waitmode (li_cfg L)) (lr_poll ev) (ll_waitflush l)"
  obtain ok1 L1 where w: "(if has_event ?e EAVB_NOTIFY_WRITE then listener_write_round ev l L
      else Returns (True, l, L)) = Returns (ok1, l', L1)"
    and r: "L' = L1 \<or> (\<exists>ok2. listener_read_round E thresh ev L1 = Returns (ok2, L'))"
    using assms(3) by (auto simp: filedump_round_def bindC_eq_Returns_iff Let_def split: if_splits)
  have k: "dump_core n L1 D 0 \<and> loop_count wanted l' L1 \<and> ll_inf l' = ll_inf l \<and> written_slots n L1 D \<and>
      lc_fd (li_cfg L1) = fd"
  proof (cases "has_event ?e EAVB_NOTIFY_WRITE")
    case True
    then have "listener_write_round ev l L = Returns (ok1, l', L1)" using w by simp
    from write_round_core [OF d(1,3) assms(2) this] show ?thesis using d(2,4) by (simp add: written_slots_def)
  qed (use w d in simp)
  show ?thesis
    using r
  proof
    assume "\<exists>ok2. listener_read_round E thresh ev L1 = Returns (ok2, L')"
    then obtain ok2 where "listener_read_round E thresh ev L1 = Returns (ok2, L')" ..
    from read_round_core [OF _ _ assms(2) this, of n D] k show ?thesis
      by (auto simp: dump_ok_def loop_count_def)
  qed (use k in \<open>auto simp: dump_ok_def\<close>)
qed

lemma filedump_rounds_ok:
  "dump_ok n fd wanted l L \<Longrightarrow> (\<And>ev. ev \<in> set evs \<Longrightarrow> fair_round ev) \<Longrightarrow>
    filedump_rounds E thresh evs l L = Returns (r, l', L') \<Longrightarrow>
    dump_ok n fd wanted l' L' \<and> ll_inf l' = ll_inf l \<and> (r = Ended \<longrightarrow> \<not> filedump_continues l' L')"
proof (induction evs arbitrary: l L)
  case Nil
  then show ?case by (auto split: if_splits)
next
  case (Cons ev evs)
  show ?case
  proof (cases "filedump_continues l L")
    case False
    then show ?thesis using Cons.prems by auto
  next
    case True
    then obtain r1 l1 L1 where s: "filedump_round E thresh ev l L = Returns (r1, l1, L1)"
      and rest: "(if r1 = Unfinished then filedump_rounds E thresh evs l1 L1 else Returns (r1, l1, L1)) = Returns (r, l', L')"
      using Cons.prems(3) by (auto simp: bindC_eq_Returns_iff)
    have "fair_round ev" using Cons.prems(2) by simp
    note k = filedump_round_ok [OF Cons.prems(1) this s]
    have "r1 \<noteq> Ended"
      using s by (auto simp: filedump_round_def bindC_eq_Returns_iff Let_def split: if_splits)
    then show ?thesis
      using rest k Cons.IH [of l1 L1] Cons.prems(2) by (auto split: if_splits)
  qed
qed

text \<open>
  C9: A dump of a given number of frames that drains lends exactly that many entries to the
  driver, counts exactly that many packets, and writes the payload of one slot per frame, the
  slots of the ring in order.
\<close>
theorem finite_dump_writes_wanted_frames:
  assumes "filedump_loop E evs (listener_state_init cfg dev) = Returns (Ended, l, L)"
    "\<forall>ev\<in>set evs. fair_round ev" "ring_inv n dev" "lc_entrynum cfg = int n" "dev_wp dev = 0" "dev_filled dev = 0"
    "dev_p dev = 0" "st_packets (lc_stats cfg) = 0" "0 < lc_framenums cfg" "lc_framenums cfg < 2 ^ 31" "lc_fd cfg \<noteq> 0"
  shows "length (li_given L) = unat (lc_framenums cfg) \<and> st_packets (lc_stats (li_cfg L)) = lc_framenums cfg \<and>
    map fst (concat (li_writes L)) = map (\<lambda>i. int (i mod n)) [0..<unat (lc_framenums cfg)]"
proof -
  let ?N = "unat (lc_framenums cfg)"
  have N: "?N < 2 ^ 31" "0 < ?N"
    using assms(9,10) by (simp_all add: word_less_nat_alt unat_gt_0)
  have nz: "uint (lc_framenums cfg) \<noteq> 0" using assms(9) by (simp add: word_less_def)
  have r: "sint (ucast (lc_framenums cfg) :: u32) = int ?N"
  proof -
    have "uint (lc_framenums cfg) < 2 ^ 31" using assms(10) by (simp add: word_less_def)
    then show ?thesis
      using signed_take_bit_int_eq_self [of 31 "uint (lc_framenums cfg)"] uint_ge_0 [of "lc_framenums cfg"]
      by (simp add: sint_uint unsigned_ucast_eq take_bit_int_eq_self)
  qed
  let ?l = "\<lparr> ll_repeat = int ?N, ll_inf = False, ll_waitflush = False \<rparr>"
  let ?L = "listener_state_init cfg dev"
  have "dev_rp dev = 0" using assms(3,5,6) by (auto simp: ring_inv_def)
  then have "dump_core n ?L 0 0 \<and> written_slots n ?L 0 \<and> loop_count (int ?N) ?l ?L"
    using assms(3-8) by (simp add: dump_core_def listener_state_init_def written_slots_def loop_count_def)
  then have "dump_ok n (lc_fd cfg) (int ?N) ?l ?L" by (auto simp: dump_ok_def listener_state_init_def)
  moreover have "filedump_rounds E (lc_entrynum cfg div 8) evs ?l ?L = Returns (Ended, l, L)"
    using assms(1) r nz by (simp add: filedump_loop_def Let_def listener_state_init_def)
  ultimately have "dump_ok n (lc_fd cfg) (int ?N) l L \<and> \<not> ll_inf l \<and> \<not> filedump_continues l L"
    using filedump_rounds_ok [of n "lc_fd cfg" "int ?N" ?l ?L evs E _ Ended l L] assms(2) by auto
  then obtain D where "dump_core n L D 0" "written_slots n L D" "dev_filled (li_dev L) = 0" "lc_fd (li_cfg L) = lc_fd cfg"
    "int (length (li_given L)) = int ?N"
    by (auto simp: dump_ok_def loop_count_def filedump_continues_def)
  moreover from this have "length (li_given L) = ?N" by (simp only: of_nat_eq_iff)
  moreover from calculation have "int D = int (length (li_given L))" by (simp add: dump_core_def)
  then have "D = length (li_given L)" by (simp only: of_nat_eq_iff)
  ultimately show ?thesis using assms(11) by (simp add: dump_core_def written_slots_def)
qed

section \<open>The check of the sequence numbers\<close>

text \<open>The results of the check for a list of packets.\<close>

fun verify_packets :: "mem list \<Rightarrow> sequence_check \<Rightarrow> int list c_result" where
  "verify_packets [] q = Returns []"
| "verify_packets (m # ms) q =
    bindC (verify_1722packet m q) (\<lambda>(r, q). bindC (verify_packets ms q) (\<lambda>rs. Returns (r # rs)))"

definition consecutive :: "u8 list \<Rightarrow> int list" where
  "consecutive ns = 0 # map (\<lambda>(a, b). if b = a + 1 then 0 else - 1) (zip ns (tl ns))"

lemma verify_next:
  assumes "get_avtp_sequence_num m = Some n"
  shows "\<exists>e. verify_1722packet m q = Returns (if sq_seqno q = uint n \<or> sq_seqno q = - 1 then 0 else - 1,
    \<lparr>sq_seqno = uint (n + 1), sq_error = e\<rparr>)"
proof -
  have "(uint n + 1 + 256) mod 256 = (uint n + 1) mod 256" by (rule mod_add_self2)
  also have "\<dots> = uint (n + 1)" by (simp add: uint_word_ariths)
  finally show ?thesis using assms by (simp add: verify_1722packet_def AVTP_SEQUENCE_NUM_MAX_def Let_def)
qed

lemma verify_after:
  "list_all2 (\<lambda>m n. get_avtp_sequence_num m = Some n) ms ns \<Longrightarrow> sq_seqno q = uint (a + 1) \<Longrightarrow>
    verify_packets ms q = Returns (map (\<lambda>(a, b). if b = a + 1 then 0 else - 1) (zip (a # ns) ns))"
proof (induction ms ns arbitrary: q a rule: list_all2_induct)
  case (Cons m ms n ns)
  obtain e where e: "verify_1722packet m q = Returns (if sq_seqno q = uint n \<or> sq_seqno q = - 1 then 0 else - 1,
      \<lparr>sq_seqno = uint (n + 1), sq_error = e\<rparr>)"
    using verify_next [OF Cons.hyps(1)] by blast
  have "uint (a + 1) \<noteq> - 1" using uint_ge_0 [of "a + 1"] by linarith
  moreover have "uint (a + 1) = uint n \<longleftrightarrow> n = a + 1" by (metis word_uint_eqI)
  ultimately show ?case using e Cons.prems Cons.IH [of "\<lparr>sq_seqno = uint (n + 1), sq_error = e\<rparr>" n] by auto
qed simp

text \<open>
  The check of the sequence numbers reports a packet exactly when its number is not the
  successor of the number before it.
\<close>
theorem sequence_check_reports_gaps:
  assumes "list_all2 (\<lambda>m n. get_avtp_sequence_num m = Some n) ms ns" "ns \<noteq> []"
  shows "verify_packets ms sequence_check_init = Returns (consecutive ns)"
proof -
  obtain m ms' n ns' where l: "ms = m # ms'" "ns = n # ns'" "get_avtp_sequence_num m = Some n"
    "list_all2 (\<lambda>m n. get_avtp_sequence_num m = Some n) ms' ns'"
    using assms by (cases ms; cases ns) auto
  obtain e where "verify_1722packet m sequence_check_init = Returns (0, \<lparr>sq_seqno = uint (n + 1), sq_error = e\<rparr>)"
    using verify_next [OF l(3), of sequence_check_init] by (auto simp: sequence_check_init_def)
  then show ?thesis
    using verify_after [OF l(4), of "\<lparr>sq_seqno = uint (n + 1), sq_error = e\<rparr>" n] l by (simp add: consecutive_def)
qed

section \<open>Witnesses\<close>

definition sample_packet :: mem where
  "sample_packet = replicate 64 0"

lemma sample_packet_fields:
  "get_avtp_sequence_num sample_packet = Some 0" "get_avtp_stream_data_length LE sample_packet = Some 0"
  by (simp_all add: get_avtp_sequence_num_def get_uint8_def get_avtp_stream_data_length_def get_uint16_def rdn_def
      AVTP_OFFSET_def sample_packet_def htons_def host_word_def be_bytes_def numeral_2_eq_2)

definition sample_dump_device :: eavb_device where
  "sample_dump_device = device_zero\<lparr>dev_entrynum := 8, dev_remain := 8,
    entrybuf := Some (replicate 8 entry_zero), entryworkbuf := Some (replicate 8 entry_zero),
    framebuf := Some (replicate 8 \<lparr>dma_paddr = 4096, dma_vaddr = Mapped sample_packet, mmap_size = 64\<rparr>)\<rparr>"

definition sample_dump_config :: listener_config where
  "sample_dump_config = listener_config_init\<lparr>lc_entrynum := 8, lc_framenums := 1, lc_fd := 3\<rparr>"

definition sample_round :: listener_round where
  "sample_round = \<lparr> lr_poll = (\<lambda>_. (1, 5)), lr_write = (\<lambda>c. Wrote (nat c)), lr_frames = [],
    lr_read = (\<lambda>c. Took (replicate (nat c) entry_zero)), lr_flush_poll = (\<lambda>_. (0, 0)),
    lr_flush_read = (\<lambda>_. Read_Again), lr_alloc = True, lr_now = (0, 0), lr_sigint = False \<rparr>"

lemmas dump_defs = sample_dump_device_def sample_dump_config_def sample_round_def listener_config_init_def device_zero_def
  entry_zero_def

lemma sample_round_fair: "fair_round sample_round"
  by (auto simp: fair_round_def sample_round_def write_fits_def read_fits_def delivered_def)

lemma sample_wait:
  "process_wait 0 (\<lambda>_. (1, 5)) False = EAVB_NOTIFY_READ OR EAVB_NOTIFY_WRITE"
  "has_event (EAVB_NOTIFY_READ OR EAVB_NOTIFY_WRITE) EAVB_NOTIFY_WRITE"
  "has_event (EAVB_NOTIFY_READ OR EAVB_NOTIFY_WRITE) EAVB_NOTIFY_READ"
  by (simp_all add: process_wait_def eavb_wait_def has_event_def EAVB_NOTIFY_READ_def EAVB_NOTIFY_WRITE_def POLLIN_def POLLOUT_def)

lemma sample_dump:
  "returns (filedump_loop LE [sample_round] (listener_state_init sample_dump_config sample_dump_device)) (\<lambda>x. fst x = Ended)"
  by (simp add: filedump_loop_def filedump_round_def listener_write_round_def push_for_def eavb_device_push_entry_def
      push_entries_def eavb_push_def listener_read_round_def listener_take_def take_for_def eavb_device_take_entry_def
      eavb_take_def take_copy_def blit_def filedump_process_def filedump_entry_def slot_packet_def slot_entry_def
      verify_1722packet_def sample_packet_fields filedump_continues_def receive_frames_def take_count_def
      listener_state_init_def set_entrybuf_def set_entryworkbuf_def set_slot_len_def next_slot_def
      sample_wait elems_def c_int_def INT_MAX_def Let_def dump_defs WAIT_MODE_POLL_def)

lemma sample_dump_ring: "ring_inv 8 sample_dump_device"
  by (simp add: ring_inv_def elems_def dump_defs)

theorem finite_dump_writes_wanted_frames_witness:
  "\<exists>l L. filedump_loop LE [sample_round] (listener_state_init sample_dump_config sample_dump_device) = Returns (Ended, l, L) \<and>
    map fst (concat (li_writes L)) = [0]"
proof -
  obtain l L where r: "filedump_loop LE [sample_round] (listener_state_init sample_dump_config sample_dump_device) = Returns (Ended, l, L)"
    using sample_dump by (auto simp: returns_iff)
  show ?thesis
    using r finite_dump_writes_wanted_frames [OF r _ sample_dump_ring] sample_round_fair
    by (simp add: dump_defs)
qed

theorem sequence_check_reports_gaps_witness:
  "verify_packets [(replicate 64 0)[20 := 255], replicate 64 0, (replicate 64 0)[20 := 2]] sequence_check_init = Returns [0, 0, - 1]"
  by (subst sequence_check_reports_gaps [of _ "[255, 0, 2]"])
    (simp_all add: consecutive_def get_avtp_sequence_num_def get_uint8_def rdn_def AVTP_OFFSET_def)

end
