(* ===== verification/Simple_Talker.thy ===== *)
theory Simple_Talker
  imports Stream_App Complex_Main
begin

unbundle bit_operations_syntax

text \<open>
  The simple talker (\<open>demo/simple/simple_talker.c\<close>): its configuration, the bandwidth it asks
  for, the device with the header of the stream in every page, and the loop that fills free
  frames from a file and lends them to the driver.
\<close>

section \<open>Configuration\<close>

record talker_config =
  tc_fd :: int
  tc_ifname :: "u8 list"
  tc_entrynum :: int
  tc_SRclassID :: u8
  tc_SRpriority :: u8
  tc_SRrank :: u8
  tc_SRvid :: u8
  tc_SRclassIntervalFrames :: int
  tc_clkid :: u32
  tc_uid :: u32
  tc_dest_addr :: "u8 list"
  tc_source_addr :: "u8 list"
  tc_MaxFrameSize :: u16
  tc_payload_size :: u16
  tc_MaxIntervalFrames :: u16
  tc_framenums :: u64
  tc_speed :: int
  tc_msrp :: int
  tc_waitmode :: int
  tc_use_dest_addr :: bool

definition DEST_ADDR :: "u8 list" where
  "DEST_ADDR = [0x91, 0xe0, 0xf0, 0x00, 0x0e, 0x80]"

definition talker_config_init :: talker_config where
  "talker_config_init = \<lparr> tc_fd = 0, tc_ifname = [], tc_entrynum = CONFIG_INIT_ENTRYNUM,
    tc_SRclassID = MSRP_SR_CLASS_A, tc_SRpriority = MSRP_SR_CLASS_A_PRIO, tc_SRrank = MSRP_RANK,
    tc_SRvid = MSRP_SR_CLASS_VID, tc_SRclassIntervalFrames = 8000, tc_clkid = 0, tc_uid = 1,
    tc_dest_addr = DEST_ADDR, tc_source_addr = replicate ETH_ALEN 0, tc_MaxFrameSize = 0,
    tc_payload_size = CONFIG_INIT_PAYLOAD_SIZE, tc_MaxIntervalFrames = 1, tc_framenums = 0,
    tc_speed = 0, tc_msrp = MSRP_ON, tc_waitmode = WAIT_MODE_POLL, tc_use_dest_addr = False \<rparr>"

definition set_class :: "u8 \<Rightarrow> talker_config \<Rightarrow> talker_config" where
  "set_class c cfg =
    (if c = ch CHR ''B'' \<or> c = ch CHR ''b'' then
       cfg\<lparr>tc_SRclassID := MSRP_SR_CLASS_B, tc_SRpriority := MSRP_SR_CLASS_B_PRIO, tc_SRclassIntervalFrames := 4000\<rparr>
     else if c = ch CHR ''C'' \<or> c = ch CHR ''c'' then
       cfg\<lparr>tc_SRclassID := MSRP_SR_CLASS_C, tc_SRpriority := MSRP_SR_CLASS_C_PRIO, tc_SRclassIntervalFrames := 1000\<rparr>
     else
       cfg\<lparr>tc_SRclassID := MSRP_SR_CLASS_A, tc_SRpriority := MSRP_SR_CLASS_A_PRIO, tc_SRclassIntervalFrames := 8000\<rparr>)"

definition parse_mac :: "u8 list \<Rightarrow> u64 list" where
  "parse_mac s = sscanf
    (Conv (ConvX None) # concat (replicate 5 [Lit (ch CHR '':''), Conv (ConvX None)])) s"

text \<open>The names given by options: the interface, the file and the clock.\<close>

record talker_names =
  tn_iname :: "u8 list option"
  tn_fname :: "u8 list option"
  tn_cname :: "u8 list option"

type_synonym talker_options = "talker_config \<times> talker_names"

definition talker_option :: "cl_option \<Rightarrow> talker_options \<Rightarrow> talker_options parse_result" where
  "talker_option opt s =
    (let (c, optarg) = opt; (cfg, ns) = s in
     if c = ch CHR ''c'' then Parsed (set_class (case optarg of x # _ \<Rightarrow> x | [] \<Rightarrow> 0) cfg, ns)
     else if c = ch CHR ''i'' then Parsed (cfg, ns\<lparr>tn_iname := Some optarg\<rparr>)
     else if c = ch CHR ''p'' then Parsed (cfg, ns\<lparr>tn_cname := Some optarg\<rparr>)
     else if c = ch CHR ''u'' then Parsed (cfg\<lparr>tc_uid := atoi optarg\<rparr>, ns)
     else if c = ch CHR ''s'' then Parsed (cfg\<lparr>tc_payload_size := ucast (atoi optarg)\<rparr>, ns)
     else if c = ch CHR ''f'' then Parsed (cfg, ns\<lparr>tn_fname := Some optarg\<rparr>)
     else if c = ch CHR ''F'' then Parsed (cfg\<lparr>tc_MaxIntervalFrames := ucast (atoi optarg)\<rparr>, ns)
     else if c = ch CHR ''n'' then Parsed (cfg\<lparr>tc_framenums := atol optarg\<rparr>, ns)
     else if c = ch CHR ''m'' then Parsed (cfg\<lparr>tc_msrp := sint (atoi optarg)\<rparr>, ns)
     else if c = ch CHR ''w'' then Parsed (cfg\<lparr>tc_waitmode := sint (atoi optarg)\<rparr>, ns)
     else if c = ch CHR ''a'' then
       (let vs = map ucast (parse_mac optarg) in
        if length vs \<noteq> ETH_ALEN then Rejected
        else Parsed (cfg\<lparr>tc_dest_addr := vs, tc_use_dest_addr := True\<rparr>, ns))
     else Exited)"

definition ETHFRAMEMTU_MIN :: nat where "ETHFRAMEMTU_MIN = 46"
definition ETHFRAMELEN_MIN :: nat where "ETHFRAMELEN_MIN = ETHFRAMEMTU_MIN + ETHOVERHEAD"
definition AVTP_UNIQUE_ID_MAX :: int where "AVTP_UNIQUE_ID_MAX = 65535"

text \<open>The results of the system calls: opening the file, the interface, its address and speed, the clock.\<close>

record talker_parse_calls =
  tp_open :: int
  tp_ifindex :: nat
  tp_interfaces :: "u8 list list option"
  tp_hw :: "int \<times> int \<times> u8 list"
  tp_speed :: "int \<times> int \<times> u16"
  tp_clock :: "int \<times> int"

definition talker_fd_table :: "(u8 list \<times> int) list" where
  "talker_fd_table = [(ascii ''stdin'', 0), (ascii ''-'', 0)]"

text \<open>The checks of the values, which store the frame size that belongs to the payload.\<close>

definition check_talker_values :: "talker_config \<Rightarrow> talker_config parse_result" where
  "check_talker_values cfg =
    (if tc_MaxIntervalFrames cfg < 1 then Rejected
     else if tc_msrp cfg < MSRP_OFF \<or> MSRP_ON < tc_msrp cfg then Rejected
     else if sint (tc_uid cfg) < 0 \<or> AVTP_UNIQUE_ID_MAX < sint (tc_uid cfg) then Rejected
     else if tc_waitmode cfg < WAIT_MODE_POLL \<or> WAIT_MODE_BLOCK_WAITALL < tc_waitmode cfg then Rejected
     else let size = of_nat (AVTP_CVF_PAYLOAD_OFFSET - ETHOVERHEAD) + tc_payload_size cfg in
       if unat size < ETHFRAMEMTU_MIN \<or> ETHFRAMEMTU_MAX < unat size then Rejected
       else Parsed (cfg\<lparr>tc_MaxFrameSize := size\<rparr>))"

definition talker_interface :: "talker_parse_calls \<Rightarrow> u8 list \<Rightarrow> talker_config \<Rightarrow> talker_config parse_result" where
  "talker_interface C iname cfg =
    (let (rc, iname) = netif_detect (tp_ifindex C) (tp_interfaces C) iname in
     if rc < 0 then Rejected else
     let (s, r, sa) = tp_hw C; (rc, hw, _) = netif_gethwaddr s r sa (tc_source_addr cfg) in
     if rc < 0 then Rejected else
     let (s, r, v) = tp_speed C; (rc, speed, _) = netif_getlinkspeed s r v (tc_speed cfg) in
     if rc < 0 then Rejected
     else Parsed (cfg\<lparr>tc_source_addr := hw, tc_speed := speed, tc_ifname := iname\<rparr>))"

definition talker_clock :: "talker_parse_calls \<Rightarrow> u8 list \<Rightarrow> talker_config \<Rightarrow> talker_config parse_result" where
  "talker_clock C cname cfg =
    (let clkid = clock_parse (fst (tp_clock C)) (snd (tp_clock C)) cname in
     if clkid = CLOCK_INVALID then Rejected else Parsed (cfg\<lparr>tc_clkid := clkid\<rparr>))"

definition talker_config_parse :: "talker_parse_calls \<Rightarrow> cl_option list \<Rightarrow> talker_config parse_result" where
  "talker_config_parse C opts =
    bind_parse (fold_options talker_option opts
        (talker_config_init, \<lparr>tn_iname = None, tn_fname = None, tn_cname = None\<rparr>)) (\<lambda>(cfg, ns).
    if tn_fname ns = None then Rejected else
    bind_parse (check_talker_values cfg) (\<lambda>cfg.
    let fd = parse_fname talker_fd_table (tp_open C) (tn_fname ns) in
    if fd < 0 then Rejected else
    bind_parse (talker_interface C (case tn_iname ns of Some n \<Rightarrow> n | None \<Rightarrow> ascii ''eth0'')
        (cfg\<lparr>tc_fd := fd\<rparr>))
      (talker_clock C (case tn_cname ns of Some n \<Rightarrow> n | None \<Rightarrow> ascii ''/dev/ptp0''))))"

section \<open>Bandwidth\<close>

text \<open>
  The computation in double precision: \<open>fl\<close> rounds the result of an operation. The integers are
  small enough to be exact. A value that does not fit the integer it is converted to is
  undefined, and so is the division by the rate of a link without speed.
\<close>

record eavb_cbsparam =
  cbs_bandwidthFraction :: int
  cbs_idleSlope :: u32
  cbs_sendSlope :: u32

definition ETHOVERHEAD_REAL :: nat where "ETHOVERHEAD_REAL = 8 + ETHOVERHEAD + 4"

definition frame_bits :: "talker_config \<Rightarrow> int c_result" where
  "frame_bits cfg =
    bindC (c_int ((int ETHOVERHEAD_REAL + uint (tc_MaxFrameSize cfg)) * 8)) (\<lambda>x.
    bindC (c_int (x * tc_SRclassIntervalFrames cfg)) (\<lambda>x.
    c_int (x * uint (tc_MaxIntervalFrames cfg))))"

definition talker_calccbsinfo ::
  "(rat \<Rightarrow> rat) \<Rightarrow> talker_config \<Rightarrow> eavb_cbsparam \<Rightarrow> (int \<times> eavb_cbsparam) c_result" where
  "talker_calccbsinfo fl cfg cbs =
    bindC (c_int (tc_speed cfg * 1000000)) (\<lambda>rate.
    bindC (frame_bits cfg) (\<lambda>bits.
    if rate = 0 then UB else
    let fraction = fl (of_int bits / of_int rate);
        v = fl (4294967295 * fraction) in
    if v < 0 \<or> 2 ^ 64 \<le> v then UB
    else if 4294967295 < \<lfloor>v\<rfloor> then
      Returns (- 1, \<lparr> cbs_bandwidthFraction = 0, cbs_idleSlope = 0, cbs_sendSlope = 0 \<rparr>)
    else Returns (0, \<lparr> cbs_bandwidthFraction = \<lfloor>v\<rfloor>,
      cbs_idleSlope = word_of_int \<lfloor>fl (65535 * fraction)\<rfloor>,
      cbs_sendSlope = word_of_int \<lceil>fl (65535 * fl (1 - fraction))\<rceil> \<rparr>)))"

section \<open>The device\<close>

text \<open>\<open>junk\<close> is the template on the stack before it is built.\<close>

definition talker_param :: "talker_config \<Rightarrow> u32 \<Rightarrow> u8 list \<Rightarrow> avtp_simple_param" where
  "talker_param cfg uid dest =
    \<lparr> dest_addr = dest, source_addr = tc_source_addr cfg, payload_size = ucast (tc_payload_size cfg),
      uniqueid = uid, SRpriority = ucast (tc_SRpriority cfg), SRvid = ucast (tc_SRvid cfg) \<rparr>"

definition talker_stream_id :: "talker_config \<Rightarrow> u32 \<Rightarrow> u8 list" where
  "talker_stream_id cfg uid =
    take ETH_ALEN (tc_source_addr cfg) @
    [ucast (drop_bit 8 (uid AND 0xff00)), ucast (uid AND 0x00ff)]"

definition talker_dest_addr :: "talker_config \<Rightarrow> u32 \<Rightarrow> u8 list" where
  "talker_dest_addr cfg uid =
    (let dest = take ETH_ALEN (tc_dest_addr cfg)
     in if tc_use_dest_addr cfg then dest else dest[5 := talker_stream_id cfg uid ! 7])"

record talker_device_calls =
  td_device :: device_calls
  td_block :: int
  td_pages :: "nat \<Rightarrow> page_calls"
  td_txparam :: int

definition talker_device_name :: "talker_config \<Rightarrow> u8 list" where
  "talker_device_name cfg =
    (if tc_SRclassID cfg = MSRP_SR_CLASS_A then ascii ''/dev/avb_tx1'' else ascii ''/dev/avb_tx0'')"

definition eavb_device_new_for_talker ::
  "endian \<Rightarrow> (rat \<Rightarrow> rat) \<Rightarrow> talker_device_calls \<Rightarrow> mem \<Rightarrow> talker_config \<Rightarrow> u32 \<Rightarrow>
    (eavb_device option \<times> talker_config \<times> device_event list) c_result" where
  "eavb_device_new_for_talker E fl C junk cfg uid =
    (case eavb_device_new (td_device C) (Some (talker_device_name cfg)) (tc_entrynum cfg) of
       (None, lg) \<Rightarrow> Returns (None, cfg, lg)
     | (Some dev, lg) \<Rightarrow>
        if tc_waitmode cfg = WAIT_MODE_BLOCK_WAITALL \<and> fst (eavb_set_optblockmode (td_block C) BLOCK_WAITALL) < 0
        then Returns (None, cfg, lg @ eavb_device_free (Some dev))
        else
          let dest = talker_dest_addr cfg uid;
              dev = dev\<lparr>dev_StreamID := talker_stream_id cfg uid, dev_dest_addr := dest\<rparr>
          in case avtp_simple_header_build E junk (talker_param cfg uid dest) of None \<Rightarrow> UB
           | Some (len, template) \<Rightarrow>
              let cfg = cfg\<lparr>tc_MaxFrameSize :=
                    (if unat len < ETHFRAMELEN_MIN then of_nat ETHFRAMEMTU_MIN else ucast (len - of_nat ETHOVERHEAD))\<rparr>
              in bindC (device_pages (wrn 0 (take (unat len) template)) (uint len) (td_pages C) dev) (\<lambda>(ok, dev).
              if \<not> ok then Returns (None, cfg, lg @ eavb_device_free (Some dev)) else
              bindC (talker_calccbsinfo fl cfg \<lparr> cbs_bandwidthFraction = 0, cbs_idleSlope = 0, cbs_sendSlope = 0 \<rparr>)
                (\<lambda>(ret, _).
              if ret < 0 \<or> eavb_set_txparam (td_txparam C) < 0
              then Returns (None, cfg, lg @ eavb_device_free (Some dev))
              else Returns (Some dev, cfg, lg))))"

section \<open>Filling frames\<close>

text \<open>
  The static number of the next packet, the end of the input, and what the driver was given.
\<close>

record talker_state =
  ta_cfg :: talker_config
  ta_dev :: eavb_device
  ta_seqnum :: int
  ta_read_end :: bool
  ta_lastseq :: int
  ta_given :: "eavb_entry list"

text \<open>One packet: its number, its time stamp and the full payload size, and the length of its entry.\<close>

definition prepare_entry :: "endian \<Rightarrow> u32 \<Rightarrow> talker_state \<Rightarrow> talker_state c_result" where
  "prepare_entry E time_stamp T =
    (let dev = ta_dev T; p = dev_p dev; psize = tc_payload_size (ta_cfg T) in
     bindC (slot_packet dev p) (\<lambda>packet.
     bindC (slot_entry dev p) (\<lambda>_.
     bindC (c_int (ta_seqnum T + 1)) (\<lambda>seqnum.
     case do { m \<leftarrow> set_avtp_sequence_num (word_of_int (ta_seqnum T)) packet;
               m \<leftarrow> set_avtp_timestamp E time_stamp m;
               set_avtp_stream_data_length E psize m } of None \<Rightarrow> UB
     | Some packet \<Rightarrow>
        Returns (T\<lparr>ta_seqnum := seqnum,
          ta_dev := next_slot (tc_entrynum (ta_cfg T))
            (set_slot_len p (int AVTP_CVF_PAYLOAD_OFFSET + uint psize) (set_slot_packet p packet dev))\<rparr>)))))"

fun prepare_entries ::
  "endian \<Rightarrow> u32 \<Rightarrow> u32 \<Rightarrow> nat \<Rightarrow> talker_state \<Rightarrow> (int list \<times> talker_state) c_result" where
  "prepare_entries E time_stamp delta 0 T = Returns ([], T)"
| "prepare_entries E time_stamp delta (Suc n) T =
    bindC (prepare_entry E time_stamp T) (\<lambda>T'.
    bindC (prepare_entries E (time_stamp + delta) delta n T') (\<lambda>(ps, T'').
    Returns (dev_p (ta_dev T) # ps, T'')))"

text \<open>
  \<open>readv\<close> stores the bytes it reads into the payloads of the packets in order, each of the given
  size; it fails, or reads at most as many bytes as there is room.
\<close>

datatype readv_result = Read_Bytes "u8 list" | Readv_Failed

fun store_payloads :: "nat \<Rightarrow> int list \<Rightarrow> u8 list \<Rightarrow> eavb_device \<Rightarrow> eavb_device c_result" where
  "store_payloads k [] bs dev = (if bs = [] then Returns dev else UB)"
| "store_payloads k (p # ps) bs dev =
    (if bs = [] then Returns dev else
     bindC (slot_packet dev p) (\<lambda>packet.
     case wrn AVTP_CVF_PAYLOAD_OFFSET (take k bs) packet of None \<Rightarrow> UB
     | Some packet \<Rightarrow> store_payloads k ps (drop k bs) (set_slot_packet p packet dev)))"

text \<open>A short read moves the position back, to one after the last packet that got any bytes.\<close>

definition shorten_last :: "endian \<Rightarrow> nat \<Rightarrow> talker_state \<Rightarrow> talker_state c_result" where
  "shorten_last E rest T =
    (let dev = ta_dev T; p = dev_p dev in
     bindC (slot_packet dev p) (\<lambda>packet.
     bindC (slot_entry dev p) (\<lambda>_.
     case set_avtp_stream_data_length E (of_nat rest) packet of None \<Rightarrow> UB
     | Some packet \<Rightarrow>
        Returns (T\<lparr>ta_dev := next_slot (tc_entrynum (ta_cfg T))
          (set_slot_len p (int AVTP_CVF_PAYLOAD_OFFSET + int rest) (set_slot_packet p packet dev))\<rparr>))))"

definition after_read :: "endian \<Rightarrow> nat \<Rightarrow> int \<Rightarrow> talker_state \<Rightarrow> (int \<times> talker_state) c_result" where
  "after_read E read_size count T =
    (let psize = unat (tc_payload_size (ta_cfg T)); n = tc_entrynum (ta_cfg T) in
     if read_size = 0 then Returns (0, T\<lparr>ta_read_end := True\<rparr>)
     else if int read_size < int psize * count then
       let i = read_size div psize; rest = read_size mod psize;
           T = T\<lparr>ta_dev := (ta_dev T)\<lparr>dev_p := (dev_p (ta_dev T) + int i + n - count) mod n\<rparr>\<rparr>
       in if rest \<noteq> 0 then bindC (shorten_last E rest T) (\<lambda>T. Returns (int i + 1, T))
          else Returns (int i, T)
     else Returns (count, T))"

record talker_calls =
  tl_now :: "int \<times> int"
  tl_alloc :: bool
  tl_readv :: "nat \<Rightarrow> readv_result"

definition TSOFFSET :: u32 where "TSOFFSET = 2000"

definition frames_per_second :: "talker_config \<Rightarrow> u32" where
  "frames_per_second cfg = word_of_int (tc_SRclassIntervalFrames cfg) * ucast (tc_MaxIntervalFrames cfg)"

definition talker_process :: "endian \<Rightarrow> talker_calls \<Rightarrow> int \<Rightarrow> talker_state \<Rightarrow> (int \<times> talker_state) c_result" where
  "talker_process E C count T =
    (let cfg = ta_cfg T;
         time_stamp = ucast (clock_getcount (tl_now C)) + TSOFFSET * 1000 in
     if frames_per_second cfg = 0 then UB
     else if \<not> tl_alloc C then Returns (count, T\<lparr>ta_read_end := True\<rparr>)
     else
       bindC (prepare_entries E time_stamp (1000000000 div frames_per_second cfg) (nat count) T) (\<lambda>(ps, T).
       case tl_readv C (unat (tc_payload_size cfg) * length ps) of
         Readv_Failed \<Rightarrow> Returns (count, T\<lparr>ta_read_end := True\<rparr>)
       | Read_Bytes bs \<Rightarrow>
          bindC (store_payloads (unat (tc_payload_size cfg)) ps bs (ta_dev T)) (\<lambda>dev.
          after_read E (length bs) count (T\<lparr>ta_dev := dev\<rparr>))))"

section \<open>The loop\<close>

record talker_round =
  tr_poll :: "u16 \<Rightarrow> int \<times> u16"
  tr_calls :: talker_calls
  tr_write :: "int \<Rightarrow> write_result"
  tr_read :: "int \<Rightarrow> read_result"
  tr_listeners :: int
  tr_sigint :: bool

record talker_loop =
  tk_repeat :: int
  tk_inf :: bool
  tk_waitflush :: bool

datatype talker_end = Drained | Stopped | Continuing

definition talker_write_round ::
  "endian \<Rightarrow> talker_round \<Rightarrow> talker_loop \<Rightarrow> talker_state \<Rightarrow> (bool \<times> talker_loop \<times> talker_state) c_result" where
  "talker_write_round E ev l T =
    bindC (talker_process E (tr_calls ev) (dev_remain (ta_dev T)) T) (\<lambda>(prepared, T).
    let count = (if \<not> tk_inf l \<and> tk_repeat l < prepared then tk_repeat l else prepared) in
    bindC (eavb_device_push_entry (ta_lastseq T) (Some (ta_dev T)) count (tr_write ev count)) (\<lambda>(tmp, s, dev, given).
    let T = T\<lparr>ta_lastseq := s, ta_given := ta_given T @ given,
          ta_dev := (case dev of Some d \<Rightarrow> d | None \<Rightarrow> ta_dev T)\<rparr> in
    if tmp < 0 then Returns (False, l, T)
    else if tk_inf l then Returns (True, l, T)
    else let left = tk_repeat l - tmp in
      if left \<le> 0 then Returns (True, l\<lparr>tk_repeat := left, tk_inf := True\<rparr>, T\<lparr>ta_read_end := True\<rparr>)
      else Returns (True, l\<lparr>tk_repeat := left\<rparr>, T)))"

definition talker_read_round :: "int \<Rightarrow> talker_round \<Rightarrow> talker_state \<Rightarrow> (bool \<times> talker_state) c_result" where
  "talker_read_round thresh ev T =
    (let count = take_count thresh (ta_dev T) in
     bindC (eavb_device_take_entry (Some (ta_dev T)) count (tr_read ev count)) (\<lambda>(tmp, dev).
     Returns (0 \<le> tmp, T\<lparr>ta_dev := (case dev of Some d \<Rightarrow> d | None \<Rightarrow> ta_dev T)\<rparr>)))"

definition update_loop :: "talker_round \<Rightarrow> talker_state \<Rightarrow> talker_loop \<Rightarrow> talker_loop" where
  "update_loop ev T l =
    (let l = (if tr_sigint ev \<or> tc_msrp (ta_cfg T) \<noteq> 0 \<and> tr_listeners ev = 0
         then l\<lparr>tk_inf := False, tk_waitflush := True\<rparr> else l)
     in if ta_read_end T
        then l\<lparr>tk_waitflush := True, tk_inf := (if dev_filled (ta_dev T) = 0 then False else tk_inf l)\<rparr>
        else l)"

definition talker_loop_round ::
  "endian \<Rightarrow> int \<Rightarrow> talker_round \<Rightarrow> talker_loop \<Rightarrow> talker_state \<Rightarrow>
    (talker_end \<times> talker_loop \<times> talker_state) c_result" where
  "talker_loop_round E thresh ev l T =
    (let revents = process_wait (tc_waitmode (ta_cfg T)) (tr_poll ev) (tk_waitflush l) in
     bindC (if has_event revents EAVB_NOTIFY_WRITE then talker_write_round E ev l T else Returns (True, l, T))
       (\<lambda>(ok, l, T).
     if \<not> ok then Returns (Stopped, l, T) else
     bindC (if has_event revents EAVB_NOTIFY_READ then talker_read_round thresh ev T else Returns (True, T))
       (\<lambda>(ok, T).
     if \<not> ok then Returns (Stopped, l, T)
     else Returns (Continuing, update_loop ev T l, T))))"

fun process_rounds ::
  "endian \<Rightarrow> int \<Rightarrow> talker_round list \<Rightarrow> talker_loop \<Rightarrow> talker_state \<Rightarrow>
    (talker_end \<times> talker_loop \<times> talker_state) c_result" where
  "process_rounds E thresh [] l T =
    Returns (if tk_inf l \<or> \<not> tk_waitflush l then Continuing else Drained, l, T)"
| "process_rounds E thresh (ev # evs) l T =
    (if tk_inf l \<or> \<not> tk_waitflush l then
       bindC (talker_loop_round E thresh ev l T) (\<lambda>(r, l, T).
       if r = Continuing then process_rounds E thresh evs l T else Returns (r, l, T))
     else Returns (Drained, l, T))"

definition process_loop ::
  "endian \<Rightarrow> talker_round list \<Rightarrow> talker_state \<Rightarrow> (talker_end \<times> talker_loop \<times> talker_state) c_result" where
  "process_loop E evs T =
    (let repeat = sint (ucast (tc_framenums (ta_cfg T)) :: u32); inf = (repeat = 0) in
     process_rounds E (tc_entrynum (ta_cfg T) div 8) evs
       \<lparr> tk_repeat = (if inf then 1 else repeat), tk_inf = inf, tk_waitflush = False \<rparr> T)"

section \<open>The program\<close>

definition talker_property :: "talker_config \<Rightarrow> eavb_device \<Rightarrow> mrp_property" where
  "talker_property cfg dev =
    \<lparr> verbose = True, streamid = join_bytes (take 8 (dev_StreamID dev)),
      destaddr = join_bytes (take 6 (dev_dest_addr dev)), vlan = ucast (tc_SRvid cfg),
      MaxFrameSize = ucast (tc_MaxFrameSize cfg), MaxIntervalFrames = ucast (tc_MaxIntervalFrames cfg),
      sr_priority = ucast (tc_SRpriority cfg), sr_rank = ucast (tc_SRrank cfg), latency = 3900,
      sr_class = ucast (tc_SRclassID cfg) \<rparr>"

text \<open>One look before the stream starts: a signal, and the number of listeners.\<close>

fun await_listener :: "(bool \<times> int \<times> bool) list \<Rightarrow> bool c_result" where
  "await_listener [] = NoReturn"
| "await_listener ((sig, n, sig_after) # ps) =
    (if sig then Returns False else if 0 < n then Returns (\<not> sig_after) else await_listener ps)"

text \<open>A declaration that fails keeps the context, so that the cleanup withdraws it.\<close>

definition talker_reserve ::
  "srp_results \<Rightarrow> (bool \<times> int \<times> bool) list \<Rightarrow> talker_config \<Rightarrow> eavb_device \<Rightarrow>
    (bool \<times> msrp_ctx option \<times> app_event list) c_result" where
  "talker_reserve R polls cfg dev =
    bindC (join_srp R (talker_property cfg dev)) (\<lambda>(c, ok, t).
    if \<not> ok then Returns (False, c, t) else
    bindC (declare_srp msrp_talker_advertise (sr_declare R) c) (\<lambda>(ret, c, t1).
    if ret < 0 then Returns (False, c, t @ t1) else
    bindC (await_listener polls) (\<lambda>found. Returns (found, c, t @ t1))))"

definition talker_cleanup ::
  "srp_results \<Rightarrow> talker_config \<Rightarrow> eavb_device option \<Rightarrow> msrp_ctx option \<Rightarrow> app_event list c_result" where
  "talker_cleanup R cfg devo c =
    (let t0 = (if 2 < tc_fd cfg then [Closed_Fd (tc_fd cfg)] else []) in
     case devo of None \<Rightarrow> Returns t0
     | Some dev \<Rightarrow>
        bindC (if tc_msrp cfg \<noteq> 0 \<and> c \<noteq> None
            then bindC (leave_srp R msrp_talker_unadvertise c) (\<lambda>(_, t). Returns t) else Returns []) (\<lambda>t.
        Returns (t0 @ close_device dev @ t @ map Device_Event (eavb_device_free (Some dev)))))"

record talker_program_calls =
  tm_device :: talker_device_calls
  tm_junk :: mem
  tm_srp :: srp_results
  tm_polls :: "(bool \<times> int \<times> bool) list"
  tm_rounds :: "talker_round list"

definition talker_run ::
  "endian \<Rightarrow> (rat \<Rightarrow> rat) \<Rightarrow> talker_program_calls \<Rightarrow> talker_config \<Rightarrow>
    (app_event list \<times> (talker_end \<times> talker_loop \<times> talker_state) option \<times> app_event list) c_result" where
  "talker_run E fl C cfg =
    bindC (eavb_device_new_for_talker E fl (tm_device C) (tm_junk C) cfg (tc_uid cfg)) (\<lambda>(devo, cfg, lg).
    let t0 = map Device_Event lg in
    case devo of None \<Rightarrow>
      bindC (talker_cleanup (tm_srp C) cfg None None) (\<lambda>t. Returns (t0, None, t))
    | Some dev \<Rightarrow>
       bindC (if tc_msrp cfg \<noteq> 0 then talker_reserve (tm_srp C) (tm_polls C) cfg dev
           else Returns (True, None, [])) (\<lambda>(ok, c, t1).
       if \<not> ok then bindC (talker_cleanup (tm_srp C) cfg (Some dev) c) (\<lambda>t. Returns (t0 @ t1, None, t)) else
       bindC (process_loop E (tm_rounds C) \<lparr> ta_cfg = cfg, ta_dev = dev, ta_seqnum = 0, ta_read_end = False,
           ta_lastseq = 0, ta_given = [] \<rparr>) (\<lambda>(r, l, T).
       bindC (talker_cleanup (tm_srp C) cfg (Some (ta_dev T)) c) (\<lambda>t.
       Returns (t0 @ t1, Some (r, l, T), t)))))"

end
