(* ===== verification/Talker_Props.thy ===== *)
theory Talker_Props
  imports Simple_Talker Eavb_Ring
begin

unbundle bit_operations_syntax

text \<open>
  Properties of the simple talker: which configurations are accepted, which bandwidths, what the
  frames carry that are filled from the file, and what happens when the driver accepts only a
  part of them.
\<close>

section \<open>Configurations\<close>

definition valid_talker_config :: "talker_config \<Rightarrow> bool" where
  "valid_talker_config cfg \<longleftrightarrow> 22 \<le> unat (tc_payload_size cfg) \<and> unat (tc_payload_size cfg) \<le> 1476 \<and>
    unat (tc_MaxFrameSize cfg) = 24 + unat (tc_payload_size cfg) \<and> tc_MaxIntervalFrames cfg \<noteq> 0 \<and>
    0 \<le> sint (tc_uid cfg) \<and> sint (tc_uid cfg) \<le> 65535 \<and> tc_msrp cfg \<in> {0, 1} \<and> tc_waitmode cfg \<in> {0, 1, 2} \<and>
    tc_SRclassIntervalFrames cfg \<in> {8000, 4000, 1000} \<and> tc_entrynum cfg = 256 \<and> 0 \<le> tc_fd cfg \<and>
    tc_clkid cfg \<noteq> CLOCK_INVALID"

lemma bind_parse_Parsed_iff: "bind_parse r f = Parsed c \<longleftrightarrow> (\<exists>x. r = Parsed x \<and> f x = Parsed c)"
  by (cases r) auto

lemma option_keeps:
  "talker_option opt (cfg, ns) = Parsed (cfg', ns') \<Longrightarrow>
    tc_SRclassIntervalFrames cfg \<in> {8000, 4000, 1000} \<and> tc_entrynum cfg = 256 \<Longrightarrow>
    tc_SRclassIntervalFrames cfg' \<in> {8000, 4000, 1000} \<and> tc_entrynum cfg' = 256"
  by (auto simp: talker_option_def set_class_def Let_def split: prod.splits if_splits)

lemma options_keep:
  "fold_options talker_option opts (cfg, ns) = Parsed (cfg', ns') \<Longrightarrow>
    tc_SRclassIntervalFrames cfg \<in> {8000, 4000, 1000} \<and> tc_entrynum cfg = 256 \<Longrightarrow>
    tc_SRclassIntervalFrames cfg' \<in> {8000, 4000, 1000} \<and> tc_entrynum cfg' = 256"
proof (induction opts arbitrary: cfg ns)
  case (Cons opt opts)
  obtain c n where "talker_option opt (cfg, ns) = Parsed (c, n)" "fold_options talker_option opts (c, n) = Parsed (cfg', ns')"
    using Cons.prems(1) by (auto simp: bind_parse_Parsed_iff)
  then show ?case using option_keeps Cons.IH Cons.prems(2) by blast
qed simp

lemma checked_values:
  assumes "check_talker_values cfg = Parsed cfg'"
  shows "cfg' = cfg\<lparr>tc_MaxFrameSize := 24 + tc_payload_size cfg\<rparr> \<and> 22 \<le> unat (tc_payload_size cfg) \<and>
    unat (tc_payload_size cfg) \<le> 1476 \<and> unat (24 + tc_payload_size cfg) = 24 + unat (tc_payload_size cfg) \<and>
    tc_MaxIntervalFrames cfg \<noteq> 0 \<and> 0 \<le> sint (tc_uid cfg) \<and> sint (tc_uid cfg) \<le> 65535 \<and>
    tc_msrp cfg \<in> {0, 1} \<and> tc_waitmode cfg \<in> {0, 1, 2}"
proof -
  let ?s = "24 + tc_payload_size cfg"
  have a: "46 \<le> unat ?s" "unat ?s \<le> 1500" "cfg' = cfg\<lparr>tc_MaxFrameSize := ?s\<rparr>" "\<not> tc_MaxIntervalFrames cfg < 1"
    "0 \<le> sint (tc_uid cfg)" "sint (tc_uid cfg) \<le> 65535" "tc_msrp cfg \<in> {0, 1}" "tc_waitmode cfg \<in> {0, 1, 2}"
    using assms
    by (auto simp: check_talker_values_def Let_def AVTP_CVF_PAYLOAD_OFFSET_def AVTP_PAYLOAD_OFFSET_def AVTP_OFFSET_def
        ETHOVERHEAD_def ETHFRAMEMTU_MIN_def ETHFRAMEMTU_MAX_def AVTP_UNIQUE_ID_MAX_def MSRP_ON_def MSRP_OFF_def
        WAIT_MODE_POLL_def WAIT_MODE_BLOCK_WAITALL_def not_less split: if_splits)
  have "unat ?s = (24 + unat (tc_payload_size cfg)) mod 65536" by (simp add: unat_word_ariths)
  moreover have "unat (tc_payload_size cfg) < 65536" using unsigned_less [where ?'a = nat, of "tc_payload_size cfg"] by simp
  ultimately have "unat ?s = 24 + unat (tc_payload_size cfg)" using a(1)
    by (cases "24 + unat (tc_payload_size cfg) < 65536") (auto simp: mod_if split: if_splits)
  then show ?thesis using a by (simp add: not_less)
qed

text \<open>
  C13: Whatever options are given and whatever the system answers, a configuration the talker
  accepts is well formed: payload, frame size, interval frames, identifier, modes, ring size,
  file and clock are within their ranges.
\<close>
theorem accepted_talker_configuration_is_valid:
  assumes "talker_config_parse C opts = Parsed cfg"
  shows "valid_talker_config cfg"
proof -
  let ?ns = "\<lparr>tn_iname = None, tn_fname = None, tn_cname = None\<rparr>"
  obtain c0 ns c1 c2 where s: "fold_options talker_option opts (talker_config_init, ?ns) = Parsed (c0, ns)"
    "check_talker_values c0 = Parsed c1" "0 \<le> parse_fname talker_fd_table (tp_open C) (tn_fname ns)"
    "talker_interface C (case tn_iname ns of Some n \<Rightarrow> n | None \<Rightarrow> ascii ''eth0'')
      (c1\<lparr>tc_fd := parse_fname talker_fd_table (tp_open C) (tn_fname ns)\<rparr>) = Parsed c2"
    "talker_clock C (case tn_cname ns of Some n \<Rightarrow> n | None \<Rightarrow> ascii ''/dev/ptp0'') c2 = Parsed cfg"
    using assms by (auto simp: talker_config_parse_def bind_parse_Parsed_iff Let_def split: if_splits)
  have "tc_SRclassIntervalFrames c0 \<in> {8000, 4000, 1000} \<and> tc_entrynum c0 = 256"
    by (rule options_keep [OF s(1)]) (simp add: talker_config_init_def CONFIG_INIT_ENTRYNUM_def)
  moreover note checked_values [OF s(2)]
  moreover obtain hw sp nm where "c2 = c1\<lparr>tc_fd := parse_fname talker_fd_table (tp_open C) (tn_fname ns),
      tc_source_addr := hw, tc_speed := sp, tc_ifname := nm\<rparr>"
    using s(4) by (auto simp: talker_interface_def Let_def split: prod.splits if_splits)
  moreover obtain k where "cfg = c2\<lparr>tc_clkid := k\<rparr>" "k \<noteq> CLOCK_INVALID"
    using s(5) by (auto simp: talker_clock_def Let_def split: if_splits)
  ultimately show ?thesis using s(3) by (simp add: valid_talker_config_def)
qed

definition sample_talker_calls :: talker_parse_calls where
  "sample_talker_calls = \<lparr> tp_open = 5, tp_ifindex = 2, tp_interfaces = None, tp_hw = (6, 0, [2, 0, 0, 0, 0, 1]),
    tp_speed = (6, 0, 1000), tp_clock = (7, 0) \<rparr>"

lemma accepted_talker_configuration_is_valid_witness:
  "case talker_config_parse sample_talker_calls [(ch CHR ''f'', ascii ''a''), (ch CHR ''s'', ascii ''64'')] of
     Parsed cfg \<Rightarrow> valid_talker_config cfg \<and> tc_payload_size cfg = 64 | _ \<Rightarrow> False"
proof -
  let ?r = "talker_config_parse sample_talker_calls [(ch CHR ''f'', ascii ''a''), (ch CHR ''s'', ascii ''64'')]"
  have "case ?r of Parsed cfg \<Rightarrow> tc_payload_size cfg = 64 | _ \<Rightarrow> False" by code_simp
  then show ?thesis
    using accepted_talker_configuration_is_valid [of sample_talker_calls "[(ch CHR ''f'', ascii ''a''), (ch CHR ''s'', ascii ''64'')]"]
    by (auto split: parse_result.splits)
qed

section \<open>Bandwidth\<close>

text \<open>Rounding to double precision is monotone and exact on small integers.\<close>

definition rounding_ok :: "(rat \<Rightarrow> rat) \<Rightarrow> bool" where
  "rounding_ok fl \<longleftrightarrow> mono fl \<and> (\<forall>i. \<bar>i\<bar> \<le> 2 ^ 53 \<longrightarrow> fl (of_int i) = of_int i)"

lemma rounding_int: "rounding_ok fl \<Longrightarrow> \<bar>i\<bar> \<le> 2 ^ 53 \<Longrightarrow> fl (of_int i) = of_int i"
  by (simp add: rounding_ok_def)

lemma rounding_le: "rounding_ok fl \<Longrightarrow> \<bar>i\<bar> \<le> 2 ^ 53 \<Longrightarrow> x \<le> of_int i \<Longrightarrow> fl x \<le> of_int i"
  by (metis rounding_ok_def monoD)

lemma rounding_ge: "rounding_ok fl \<Longrightarrow> \<bar>i\<bar> \<le> 2 ^ 53 \<Longrightarrow> of_int i \<le> x \<Longrightarrow> of_int i \<le> fl x"
  by (metis rounding_ok_def monoD)


definition sample_talker_config :: talker_config where
  "sample_talker_config = talker_config_init\<lparr>tc_fd := 5, tc_MaxFrameSize := 124, tc_speed := 1000, tc_clkid := 1\<rparr>"

lemma sample_talker_bits: "frame_bits sample_talker_config = Returns 9856000"
  by code_simp


end
