(* ===== verification/Talker_Frames.thy ===== *)
theory Talker_Frames
  imports Talker_Props
begin

unbundle bit_operations_syntax

text \<open>
  What the talker puts into the frames it fills from its input: the operation agrees with a
  reference that cuts the bytes read into consecutive packets, numbers them and spaces their
  time stamps, whatever the slot of the ring at which it starts and however short the read is.
\<close>

lemma payload_offset [simp]: "AVTP_CVF_PAYLOAD_OFFSET = 42"
  by (simp add: AVTP_CVF_PAYLOAD_OFFSET_def AVTP_PAYLOAD_OFFSET_def AVTP_OFFSET_def)

section \<open>Slots\<close>

text \<open>Slots of a ring of \<open>n\<close> with room for \<open>k\<close> bytes of payload.\<close>

definition slots_ok :: "nat \<Rightarrow> nat \<Rightarrow> eavb_device \<Rightarrow> bool" where
  "slots_ok n k dev \<longleftrightarrow> (\<forall>q < n. (\<exists>m. slot_packet dev (int q) = Returns m \<and> 42 + k \<le> length m) \<and>
    (\<exists>e. slot_entry dev (int q) = Returns e))"

lemma slot_packet_set [simp]:
  "slot_packet dev p = Returns m \<Longrightarrow>
    slot_packet (set_slot_packet p m' dev) q = (if q = p then Returns m' else slot_packet dev q)"
  by (cases "framebuf dev") (auto simp: slot_packet_def set_slot_packet_def elems_def nth_list_update split: if_splits)

lemma slot_entry_set [simp]:
  "slot_entry dev p = Returns e \<Longrightarrow>
    slot_entry (set_slot_len p l dev) q = (if q = p then Returns (e\<lparr>vec_len := l\<rparr>) else slot_entry dev q)"
  by (cases "entrybuf dev") (auto simp: slot_entry_def set_slot_len_def set_entrybuf_def elems_def nth_list_update
      split: if_splits)

lemma slot_other [simp]:
  "slot_packet (set_slot_len p l dev) q = slot_packet dev q"
  "slot_entry (set_slot_packet p m dev) q = slot_entry dev q"
  "slot_packet (next_slot n dev) q = slot_packet dev q"
  "slot_entry (next_slot n dev) q = slot_entry dev q"
  "slot_packet (dev\<lparr>dev_p := v\<rparr>) q = slot_packet dev q"
  "slot_entry (dev\<lparr>dev_p := v\<rparr>) q = slot_entry dev q"
  by (simp_all add: slot_packet_def slot_entry_def set_slot_len_def set_entrybuf_def set_slot_packet_def next_slot_def)

lemma dev_p_slot [simp]:
  "dev_p (set_slot_len p l dev) = dev_p dev" "dev_p (set_slot_packet p m dev) = dev_p dev"
  "dev_p (next_slot n dev) = (dev_p dev + 1) mod n"
  by (simp_all add: set_slot_len_def set_entrybuf_def set_slot_packet_def next_slot_def)

section \<open>The header of a packet\<close>

definition packet_header :: "endian \<Rightarrow> mem \<Rightarrow> u8 option \<times> u32 option \<times> u16 option" where
  "packet_header E m = (get_avtp_sequence_num m, get_avtp_timestamp E m, get_avtp_stream_data_length E m)"

interpretation seq_len: disjoint_fields get_avtp_sequence_num set_avtp_sequence_num "\<lambda>_. True" 20 1
    "get_avtp_stream_data_length e" "set_avtp_stream_data_length e" "\<lambda>_. True" 38 2 for e
  by unfold_locales simp
interpretation ts_len: disjoint_fields "get_avtp_timestamp e" "set_avtp_timestamp e" "\<lambda>_. True" 30 4
    "get_avtp_stream_data_length e" "set_avtp_stream_data_length e" "\<lambda>_. True" 38 2 for e
  by unfold_locales simp

lemma packet_written:
  assumes "42 \<le> length m"
  obtains m' where "do { m \<leftarrow> set_avtp_sequence_num s m; m \<leftarrow> set_avtp_timestamp E t m;
      set_avtp_stream_data_length E l m } = Some m'"
    "packet_header E m' = (Some s, Some t, Some l)" "length m' = length m"
proof -
  obtain a where a: "set_avtp_sequence_num s m = Some a" using seqnum.set_defined [of s m] assms by auto
  then have la: "length a = length m" by (rule seqnum.set_length [OF TrueI])
  obtain b where b: "set_avtp_timestamp E t a = Some b" using timestamp.set_defined [of E t a] assms la by auto
  then have lb: "length b = length m" using timestamp.set_length [OF TrueI, of E t a b] a la by simp
  obtain c where c: "set_avtp_stream_data_length E l b = Some c" using data_length.set_defined [of E l b] assms lb by auto
  then have "length c = length m" using data_length.set_length [OF TrueI, of E l b c] c lb by simp
  moreover have "packet_header E c = (Some s, Some t, Some l)"
    using a b c seqnum.get_set timestamp.get_set data_length.get_set seq_ts.other_get
      seq_len.other_get [OF TrueI c] ts_len.other_get [OF TrueI c]
    unfolding packet_header_def by (metis)
  ultimately show thesis using that a b c by simp
qed

section \<open>Preparing the packets\<close>

definition frame_header :: "endian \<Rightarrow> eavb_device \<Rightarrow> int \<Rightarrow> (u8 option \<times> u32 option \<times> u16 option) c_result" where
  "frame_header E dev q = bindC (slot_packet dev q) (\<lambda>m. Returns (packet_header E m))"

definition frame_length :: "eavb_device \<Rightarrow> int \<Rightarrow> int c_result" where
  "frame_length dev q = bindC (slot_entry dev q) (\<lambda>e. Returns (vec_len e))"

text \<open>What stays of a state while packets are prepared.\<close>

definition same_setting :: "talker_state \<Rightarrow> talker_state \<Rightarrow> bool" where
  "same_setting T T' \<longleftrightarrow> ta_cfg T' = ta_cfg T \<and> ta_read_end T' = ta_read_end T"

lemma prepare_entry_result:
  assumes "slots_ok n (unat (tc_payload_size (ta_cfg T))) (ta_dev T)" "tc_entrynum (ta_cfg T) = int n"
    "dev_p (ta_dev T) = int p" "p < n" "0 \<le> ta_seqnum T" "ta_seqnum T < INT_MAX"
  obtains T' where "prepare_entry E ts T = Returns T'"
    "same_setting T T'" "ta_seqnum T' = ta_seqnum T + 1" "dev_p (ta_dev T') = int ((p + 1) mod n)"
    "slots_ok n (unat (tc_payload_size (ta_cfg T))) (ta_dev T')"
    "frame_header E (ta_dev T') (int p) =
      Returns (Some (word_of_int (ta_seqnum T)), Some ts, Some (tc_payload_size (ta_cfg T)))"
    "frame_length (ta_dev T') (int p) = Returns (42 + uint (tc_payload_size (ta_cfg T)))"
    "\<And>q. q \<noteq> int p \<Longrightarrow> slot_packet (ta_dev T') q = slot_packet (ta_dev T) q \<and>
      slot_entry (ta_dev T') q = slot_entry (ta_dev T) q"
proof -
  obtain m e where m: "slot_packet (ta_dev T) (int p) = Returns m" "42 + unat (tc_payload_size (ta_cfg T)) \<le> length m"
    "slot_entry (ta_dev T) (int p) = Returns e"
    using assms(1,4) by (auto simp: slots_ok_def)
  obtain m' where m': "do { m \<leftarrow> set_avtp_sequence_num (word_of_int (ta_seqnum T)) m;
      m \<leftarrow> set_avtp_timestamp E ts m; set_avtp_stream_data_length E (tc_payload_size (ta_cfg T)) m } = Some m'"
    "packet_header E m' = (Some (word_of_int (ta_seqnum T)), Some ts, Some (tc_payload_size (ta_cfg T)))"
    "length m' = length m"
    using packet_written m(2) by (metis add_leD1)
  let ?dev = "next_slot (int n) (set_slot_len (int p) (42 + uint (tc_payload_size (ta_cfg T)))
    (set_slot_packet (int p) m' (ta_dev T)))"
  let ?T = "T\<lparr>ta_seqnum := ta_seqnum T + 1, ta_dev := ?dev\<rparr>"
  have "c_int (ta_seqnum T + 1) = Returns (ta_seqnum T + 1)" using assms(5,6) by (intro c_int_ok) (auto simp: INT_MAX_def)
  then have "prepare_entry E ts T = Returns ?T"
    unfolding prepare_entry_def Let_def assms(2,3) m(1,3) bindC.simps m'(1) by simp
  moreover have "slots_ok n (unat (tc_payload_size (ta_cfg T))) ?dev"
    using assms(1) m m'(3) by (auto simp: slots_ok_def)
  moreover have "int ((p + 1) mod n) = (int p + 1) mod int n" by (simp add: zmod_int add.commute)
  ultimately show thesis
    using m m' assms(3) by (intro that [of ?T]) (auto simp: same_setting_def frame_header_def frame_length_def)
qed

definition ring_slots :: "nat \<Rightarrow> nat \<Rightarrow> nat \<Rightarrow> int list" where
  "ring_slots n p c = map (\<lambda>i. int ((p + i) mod n)) [0..<c]"

lemma ring_slots_Suc: "ring_slots n p (Suc c) = int (p mod n) # ring_slots n ((p + 1) mod n) c"
  by (simp add: ring_slots_def upt_conv_Cons map_Suc_upt [symmetric] mod_add_left_eq del: upt_Suc)

lemma slot_not_later:
  assumes "Suc c \<le> n" "p < n"
  shows "int p \<notin> set (ring_slots n ((p + 1) mod n) c)"
proof
  assume "int p \<in> set (ring_slots n ((p + 1) mod n) c)"
  then obtain i where i: "i < c" "p = (p + 1 + i) mod n" by (auto simp: ring_slots_def mod_add_left_eq)
  show False
  proof (cases "p + 1 + i < n")
    case False
    then have "(p + 1 + i) mod n = p + 1 + i - n" using assms i(1) by (simp add: mod_if)
    then show False using i assms by simp
  qed (use i in simp)
qed

lemma prepare_entries_result:
  assumes "slots_ok n (unat (tc_payload_size (ta_cfg T))) (ta_dev T)" "tc_entrynum (ta_cfg T) = int n"
    "dev_p (ta_dev T) = int p" "p < n" "0 \<le> ta_seqnum T" "ta_seqnum T + int c \<le> INT_MAX" "c \<le> n"
  shows "\<exists>T'. prepare_entries E ts d c T = Returns (ring_slots n p c, T') \<and>
    same_setting T T' \<and> ta_seqnum T' = ta_seqnum T + int c \<and> dev_p (ta_dev T') = int ((p + c) mod n) \<and>
    slots_ok n (unat (tc_payload_size (ta_cfg T))) (ta_dev T') \<and>
    (\<forall>i < c. frame_header E (ta_dev T') (int ((p + i) mod n)) =
        Returns (Some (word_of_int (ta_seqnum T + int i)), Some (ts + of_nat i * d), Some (tc_payload_size (ta_cfg T))) \<and>
      frame_length (ta_dev T') (int ((p + i) mod n)) = Returns (42 + uint (tc_payload_size (ta_cfg T)))) \<and>
    (\<forall>q. q \<notin> set (ring_slots n p c) \<longrightarrow> slot_packet (ta_dev T') q = slot_packet (ta_dev T) q \<and>
      slot_entry (ta_dev T') q = slot_entry (ta_dev T) q)"
  using assms
proof (induction c arbitrary: T p ts)
  case 0
  then show ?case by (simp add: ring_slots_def same_setting_def)
next
  case (Suc c)
  obtain T1 where T1: "prepare_entry E ts T = Returns T1"
    "same_setting T T1" "ta_seqnum T1 = ta_seqnum T + 1" "dev_p (ta_dev T1) = int ((p + 1) mod n)"
    "slots_ok n (unat (tc_payload_size (ta_cfg T))) (ta_dev T1)"
    "frame_header E (ta_dev T1) (int p) =
      Returns (Some (word_of_int (ta_seqnum T)), Some ts, Some (tc_payload_size (ta_cfg T)))"
    "frame_length (ta_dev T1) (int p) = Returns (42 + uint (tc_payload_size (ta_cfg T)))"
    "\<And>q. q \<noteq> int p \<Longrightarrow> slot_packet (ta_dev T1) q = slot_packet (ta_dev T) q \<and>
      slot_entry (ta_dev T1) q = slot_entry (ta_dev T) q"
    using prepare_entry_result [OF Suc.prems(1-5)] Suc.prems(6) by auto
  have cfg: "ta_cfg T1 = ta_cfg T" using T1(2) by (simp add: same_setting_def)
  obtain T2 where T2: "prepare_entries E (ts + d) d c T1 = Returns (ring_slots n ((p + 1) mod n) c, T2)"
    "same_setting T1 T2" "ta_seqnum T2 = ta_seqnum T1 + int c" "dev_p (ta_dev T2) = int (((p + 1) mod n + c) mod n)"
    "slots_ok n (unat (tc_payload_size (ta_cfg T1))) (ta_dev T2)"
    "\<forall>i < c. frame_header E (ta_dev T2) (int (((p + 1) mod n + i) mod n)) =
        Returns (Some (word_of_int (ta_seqnum T1 + int i)), Some (ts + d + of_nat i * d), Some (tc_payload_size (ta_cfg T1))) \<and>
      frame_length (ta_dev T2) (int (((p + 1) mod n + i) mod n)) = Returns (42 + uint (tc_payload_size (ta_cfg T1)))"
    "\<forall>q. q \<notin> set (ring_slots n ((p + 1) mod n) c) \<longrightarrow> slot_packet (ta_dev T2) q = slot_packet (ta_dev T1) q \<and>
      slot_entry (ta_dev T2) q = slot_entry (ta_dev T1) q"
    using Suc.IH [of T1 "(p + 1) mod n" "ts + d"] T1 Suc.prems cfg by auto
  have head: "slot_packet (ta_dev T2) (int p) = slot_packet (ta_dev T1) (int p)"
    "slot_entry (ta_dev T2) (int p) = slot_entry (ta_dev T1) (int p)"
    using T2(7) slot_not_later Suc.prems(4,7) by blast+
  have dist: "frame_header E (ta_dev T2) (int ((p + i) mod n)) =
        Returns (Some (word_of_int (ta_seqnum T + int i)), Some (ts + of_nat i * d), Some (tc_payload_size (ta_cfg T))) \<and>
      frame_length (ta_dev T2) (int ((p + i) mod n)) = Returns (42 + uint (tc_payload_size (ta_cfg T)))"
    if "i < Suc c" for i
  proof (cases i)
    case 0
    then show ?thesis using T1(6,7) head Suc.prems(4) by (simp add: frame_header_def frame_length_def)
  next
    case (Suc j)
    then have "((p + 1) mod n + j) mod n = (p + i) mod n" by (simp add: mod_add_left_eq)
    moreover have "ta_seqnum T1 + int j = ta_seqnum T + int i" "ts + d + of_nat j * d = ts + of_nat i * d"
      using T1(3) Suc by (simp_all add: algebra_simps)
    ultimately show ?thesis using T2(6) Suc that cfg by (metis Suc_less_SucD)
  qed
  have frame: "slot_packet (ta_dev T2) q = slot_packet (ta_dev T) q \<and> slot_entry (ta_dev T2) q = slot_entry (ta_dev T) q"
    if "q \<notin> set (ring_slots n p (Suc c))" for q
    using that T1(8) T2(7) Suc.prems(4) by (simp add: ring_slots_Suc)
  have "prepare_entries E ts d (Suc c) T = Returns (ring_slots n p (Suc c), T2)"
    using T1(1) T2(1) Suc.prems(3,4) by (simp add: ring_slots_Suc)
  moreover have "dev_p (ta_dev T2) = int ((p + Suc c) mod n)" using T2(4) by (simp add: mod_add_left_eq)
  ultimately show ?case
    using T1(2,3) T2(2,3,5) cfg dist frame by (intro exI [of _ T2]) (simp add: same_setting_def)
qed

section \<open>Storing the input\<close>

lemma header_keeps_on_payload_write:
  assumes "wrn 42 bs m = Some m'"
  shows "packet_header E m' = packet_header E m"
proof -
  have len: "length m' = length m" using assms by (rule length_wrn)
  have nth: "m' ! i = m ! i" if "i < 42" "i < length m" for i
    using that nth_wrn [OF assms] by simp
  show ?thesis
    using nth len unfolding packet_header_def
    by (intro prod_eqI seqnum.get_local timestamp.get_local data_length.get_local)
      (auto intro!: seqnum.get_local timestamp.get_local data_length.get_local)
qed

definition frame_payload :: "eavb_device \<Rightarrow> int \<Rightarrow> nat \<Rightarrow> u8 list option c_result" where
  "frame_payload dev q l = bindC (slot_packet dev q) (\<lambda>m. Returns (rdn 42 l m))"

definition chunk :: "nat \<Rightarrow> u8 list \<Rightarrow> nat \<Rightarrow> u8 list" where
  "chunk k bs i = take k (drop (i * k) bs)"

lemma chunk_Suc: "chunk k bs (Suc i) = chunk k (drop k bs) i"
  by (simp add: chunk_def add.commute)

lemma store_payloads_result:
  assumes "slots_ok n k dev" "p < n" "c \<le> n" "length bs \<le> k * c" "0 < k"
  shows "\<exists>dev'. store_payloads k (ring_slots n p c) bs dev = Returns dev' \<and> slots_ok n k dev' \<and>
    dev_p dev' = dev_p dev \<and> (\<forall>q. slot_entry dev' q = slot_entry dev q) \<and>
    (\<forall>q. frame_header E dev' q = frame_header E dev q) \<and>
    (\<forall>i < c. frame_payload dev' (int ((p + i) mod n)) (length (chunk k bs i)) = Returns (Some (chunk k bs i))) \<and>
    (\<forall>q. q \<notin> set (ring_slots n p c) \<longrightarrow> slot_packet dev' q = slot_packet dev q)"
  using assms
proof (induction c arbitrary: p bs dev)
  case 0
  then show ?case by (simp add: ring_slots_def)
next
  case (Suc c)
  obtain m where m: "slot_packet dev (int p) = Returns m" "42 + k \<le> length m"
    using Suc.prems(1,2) by (auto simp: slots_ok_def)
  show ?case
  proof (cases "bs = []")
    case True
    have "frame_payload dev (int ((p + i) mod n)) 0 = Returns (Some [])" for i
    proof -
      have "(p + i) mod n < n" using Suc.prems(2) by simp
      then obtain m where "slot_packet dev (int ((p + i) mod n)) = Returns m" "42 + k \<le> length m"
        using Suc.prems(1) by (auto simp: slots_ok_def)
      then show ?thesis by (simp add: frame_payload_def rdn_def)
    qed
    then show ?thesis using True Suc.prems(1) by (simp add: ring_slots_Suc chunk_def)
  next
    case False
    obtain m' where m': "wrn 42 (take k bs) m = Some m'"
      using m(2) wrn_None_iff [of 42 "take k bs" m] by (cases "wrn 42 (take k bs) m") auto
    have len: "length m' = length m" using m' by (rule length_wrn)
    let ?dev = "set_slot_packet (int p) m' dev"
    have ok: "slots_ok n k ?dev" using Suc.prems(1) m len by (auto simp: slots_ok_def)
    have hdr: "frame_header E ?dev q = frame_header E dev q" for q
      using m header_keeps_on_payload_write [OF m'] by (simp add: frame_header_def)
    have len': "length (drop k bs) \<le> k * c" using Suc.prems(4) by simp
    obtain dev' where d: "store_payloads k (ring_slots n ((p + 1) mod n) c) (drop k bs) ?dev = Returns dev'"
      "slots_ok n k dev'" "dev_p dev' = dev_p dev" "\<forall>q. slot_entry dev' q = slot_entry ?dev q"
      "\<forall>q. frame_header E dev' q = frame_header E ?dev q"
      "\<forall>i < c. frame_payload dev' (int (((p + 1) mod n + i) mod n)) (length (chunk k (drop k bs) i)) =
        Returns (Some (chunk k (drop k bs) i))"
      "\<forall>q. q \<notin> set (ring_slots n ((p + 1) mod n) c) \<longrightarrow> slot_packet dev' q = slot_packet ?dev q"
      using Suc.IH [OF ok, of "(p + 1) mod n" "drop k bs"] Suc.prems len' by auto
    have "slot_packet dev' (int p) = Returns m'"
      using d(7) slot_not_later [of c n p] Suc.prems(2,3) m(1) by simp
    then have head: "frame_payload dev' (int p) (length (chunk k bs 0)) = Returns (Some (chunk k bs 0))"
      using m' rdn_wrn_same [OF m', of "length (take k bs)"] by (simp add: frame_payload_def chunk_def)
    have pay: "frame_payload dev' (int ((p + i) mod n)) (length (chunk k bs i)) = Returns (Some (chunk k bs i))"
      if "i < Suc c" for i
    proof (cases i)
      case 0
      then show ?thesis using head Suc.prems(2) by simp
    next
      case (Suc j)
      then have "((p + 1) mod n + j) mod n = (p + i) mod n" by (simp add: mod_add_left_eq)
      then show ?thesis using d(6) Suc that chunk_Suc by (metis Suc_less_SucD)
    qed
    have "store_payloads k (ring_slots n p (Suc c)) bs dev = Returns dev'"
      using False m m' d(1) Suc.prems(2) by (simp add: ring_slots_Suc)
    moreover have "slot_packet dev' q = slot_packet dev q" if "q \<notin> set (ring_slots n p (Suc c))" for q
      using that d(7) m(1) Suc.prems(2) by (simp add: ring_slots_Suc)
    ultimately show ?thesis using d(2-5) hdr pay by (intro exI [of _ dev']) simp
  qed
qed

section \<open>The reference\<close>

type_synonym frame_view = "(u8 option \<times> u32 option \<times> u16 option) \<times> int \<times> u8 list option"

definition view_of :: "int \<Rightarrow> u32 \<Rightarrow> u8 list \<Rightarrow> frame_view" where
  "view_of s t b = ((Some (word_of_int s), Some t, Some (of_nat (length b))), 42 + int (length b), Some b)"

fun packetise :: "nat \<Rightarrow> int \<Rightarrow> u32 \<Rightarrow> u32 \<Rightarrow> u8 list \<Rightarrow> frame_view list" where
  "packetise k s t d bs =
    (if k = 0 \<or> bs = [] then [] else view_of s t (take k bs) # packetise k (s + 1) (t + d) d (drop k bs))"

declare packetise.simps [simp del]

text \<open>What the driver reads of a slot: the header, the length of its entry, and the payload of that length.\<close>

definition lent_frame :: "endian \<Rightarrow> eavb_device \<Rightarrow> int \<Rightarrow> frame_view c_result" where
  "lent_frame E dev q = bindC (frame_header E dev q) (\<lambda>h. bindC (frame_length dev q) (\<lambda>l.
    bindC (frame_payload dev q (nat (l - 42))) (\<lambda>b. Returns (h, l, b))))"

lemma lent_frameI:
  assumes "frame_header E dev q = Returns (Some (word_of_int s), Some t, Some (of_nat (length b)))"
    "frame_length dev q = Returns (42 + int (length b))" "frame_payload dev q (length b) = Returns (Some b)"
  shows "lent_frame E dev q = Returns (view_of s t b)"
  using assms by (simp add: lent_frame_def view_of_def)

lemma packetise_chunks:
  assumes "length bs \<le> k * c" "k * c < length bs + k"
  shows "packetise k s t d bs = map (\<lambda>i. view_of (s + int i) (t + of_nat i * d) (chunk k bs i)) [0..<c]"
  using assms
proof (induction c arbitrary: s t bs)
  case 0
  then show ?case by (simp add: packetise.simps)
next
  case (Suc c)
  have "k \<noteq> 0" "bs \<noteq> []" using Suc.prems by auto
  moreover have "packetise k (s + 1) (t + d) d (drop k bs) =
      map (\<lambda>i. view_of (s + 1 + int i) (t + d + of_nat i * d) (chunk k (drop k bs) i)) [0..<c]"
    by (rule Suc.IH) (use Suc.prems in auto)
  moreover have "map (\<lambda>i. view_of (s + int i) (t + of_nat i * d) (chunk k bs i)) [0..<Suc c] =
      view_of s t (take k bs) #
      map (\<lambda>i. view_of (s + 1 + int i) (t + d + of_nat i * d) (chunk k (drop k bs) i)) [0..<c]"
    by (simp add: upt_conv_Cons map_Suc_upt [symmetric] chunk_Suc chunk_def algebra_simps del: upt_Suc)
  ultimately show ?case by (subst packetise.simps) simp
qed

lemma packetise_concat: "0 < k \<Longrightarrow> concat (map (\<lambda>f. the (snd (snd f))) (packetise k s t d bs)) = bs"
proof (induction k s t d bs rule: packetise.induct)
  case (1 k s t d bs)
  then show ?case by (subst packetise.simps) (simp add: view_of_def)
qed

section \<open>After the read\<close>

lemma rewound:
  assumes "c \<le> n" "0 < n"
  shows "(int ((p + c) mod n) + int i + int n - int c) mod int n = int ((p + i) mod n)"
proof -
  have "int ((p + c) mod n) = (int p + int c) mod int n" by (simp add: zmod_int)
  then have "(int ((p + c) mod n) + int i + int n - int c) mod int n = (int p + int c + (int i + int n - int c)) mod int n"
    by (metis add_diff_eq group_cancel.add2 mod_add_left_eq add.assoc)
  also have "\<dots> = (int p + int i + int n) mod int n" by (simp add: algebra_simps)
  finally show ?thesis by (simp add: zmod_int)
qed

lemma slots_differ:
  fixes p n :: nat
  assumes "i < j" "j < n"
  shows "(p + i) mod n \<noteq> (p + j) mod n"
proof
  assume "(p + i) mod n = (p + j) mod n"
  then have "n dvd (p + j) - (p + i)" using assms by (metis add_le_mono mod_eq_dvd_iff_nat less_imp_le_nat order_refl)
  then show False using assms by (auto dest: dvd_imp_le)
qed

lemma shorten_last_result:
  assumes "slots_ok n k (ta_dev T)" "tc_entrynum (ta_cfg T) = int n" "dev_p (ta_dev T) = int q" "q < n" "rest \<le> k"
    "frame_header E (ta_dev T) (int q) = Returns (s, t, l)"
    "frame_payload (ta_dev T) (int q) (length b) = Returns (Some b)" "length b = rest"
  obtains T' where "shorten_last E rest T = Returns T'" "ta_cfg T' = ta_cfg T" "ta_seqnum T' = ta_seqnum T"
    "ta_read_end T' = ta_read_end T" "dev_p (ta_dev T') = int ((q + 1) mod n)"
    "lent_frame E (ta_dev T') (int q) = Returns ((s, t, Some (of_nat rest)), 42 + int rest, Some b)"
    "\<And>q'. q' \<noteq> int q \<Longrightarrow> lent_frame E (ta_dev T') q' = lent_frame E (ta_dev T) q'"
proof -
  obtain m e where m: "slot_packet (ta_dev T) (int q) = Returns m" "42 + k \<le> length m"
    "slot_entry (ta_dev T) (int q) = Returns e"
    using assms(1,4) by (auto simp: slots_ok_def)
  obtain m' where m': "set_avtp_stream_data_length E (of_nat rest) m = Some m'"
    using data_length.set_defined [of E "of_nat rest" m] m(2) by auto
  have "packet_header E m' = (s, t, Some (of_nat rest))"
    using assms(6) m(1) data_length.get_set [OF TrueI m'] seq_len.other_get [OF TrueI m'] ts_len.other_get [OF TrueI m']
    by (simp add: frame_header_def packet_header_def)
  moreover have "rdn 42 (length b) m' = Some b"
    using assms(7) m(1) data_length.set_outside [OF TrueI m', of 42 "length b"] by (simp add: frame_payload_def)
  moreover let ?dev = "next_slot (int n) (set_slot_len (int q) (42 + int rest) (set_slot_packet (int q) m' (ta_dev T)))"
  have "shorten_last E rest T = Returns (T\<lparr>ta_dev := ?dev\<rparr>)"
    unfolding shorten_last_def Let_def assms(2,3) m(1,3) bindC.simps m' by simp
  moreover have "int ((q + 1) mod n) = (int q + 1) mod int n" by (simp add: zmod_int add.commute)
  ultimately show thesis
    using m assms(3,8) by (intro that [of "T\<lparr>ta_dev := ?dev\<rparr>"])
      (auto simp: lent_frame_def frame_header_def frame_length_def frame_payload_def)
qed

lemma after_read_result:
  assumes "slots_ok n k (ta_dev T)" "tc_entrynum (ta_cfg T) = int n" "dev_p (ta_dev T) = int ((p + c) mod n)"
    "c \<le> n" "k = unat (tc_payload_size (ta_cfg T))" "0 < k" "bs \<noteq> []" "length bs \<le> k * c"
    "\<forall>i < c. frame_header E (ta_dev T) (int ((p + i) mod n)) =
        Returns (Some (word_of_int (s + int i)), Some (t + of_nat i * d), Some (tc_payload_size (ta_cfg T))) \<and>
      frame_length (ta_dev T) (int ((p + i) mod n)) = Returns (42 + uint (tc_payload_size (ta_cfg T)))"
    "\<forall>i < c. frame_payload (ta_dev T) (int ((p + i) mod n)) (length (chunk k bs i)) = Returns (Some (chunk k bs i))"
  shows "\<exists>c' T'. after_read E (length bs) (int c) T = Returns (int c', T') \<and> c' \<le> c \<and>
    length bs \<le> k * c' \<and> k * c' < length bs + k \<and>
    ta_cfg T' = ta_cfg T \<and> ta_seqnum T' = ta_seqnum T \<and> ta_read_end T' = ta_read_end T \<and>
    dev_p (ta_dev T') = int ((p + c') mod n) \<and>
    (\<forall>i < c'. lent_frame E (ta_dev T') (int ((p + i) mod n)) =
      Returns (view_of (s + int i) (t + of_nat i * d) (chunk k bs i)))"
proof -
  have ps: "uint (tc_payload_size (ta_cfg T)) = int k" "tc_payload_size (ta_cfg T) = of_nat k"
    using assms(5) by simp_all
  have whole: "lent_frame E (ta_dev T) (int ((p + i) mod n)) = Returns (view_of (s + int i) (t + of_nat i * d) (chunk k bs i))"
    if "k * i + k \<le> length bs" "i < c" for i
  proof (rule lent_frameI)
    have "length (chunk k bs i) = k" using that(1) by (simp add: chunk_def mult.commute)
    then show "frame_header E (ta_dev T) (int ((p + i) mod n)) =
        Returns (Some (word_of_int (s + int i)), Some (t + of_nat i * d), Some (of_nat (length (chunk k bs i))))"
      "frame_length (ta_dev T) (int ((p + i) mod n)) = Returns (42 + int (length (chunk k bs i)))"
      using assms(9) ps that(2) by auto
  qed (use assms(10) that in blast)
  let ?i = "length bs div k" let ?r = "length bs mod k"
  have dm: "length bs = k * ?i + ?r" "?r < k" using assms(6) by simp_all
  have between: "L \<le> k * (i + 1) \<and> k * (i + 1) < L + k" if "L = k * i + r" "0 < r" "r < k" for L i r
    using that by simp
  show ?thesis
  proof (cases "length bs < k * c")
    case False
    then have full: "length bs = k * c" using assms(8) by simp
    then have c: "c \<noteq> 0" using assms(7) by (cases c) auto
    then have "lent_frame E (ta_dev T) (int ((p + i) mod n)) =
        Returns (view_of (s + int i) (t + of_nat i * d) (chunk k bs i))" if "i < c" for i
      using whole [of i] that full mult_le_mono2 [of "Suc i" c k] by (simp add: add.commute)
    moreover have "after_read E (length bs) (int c) T = Returns (int c, T)"
      using assms(5,6) full c by (simp add: after_read_def Let_def)
    ultimately show ?thesis using full assms(3,6) by (intro exI [of _ c] exI [of _ T]) simp
  next
    case True
    have i: "?i < c" using True assms(6) by (simp add: div_less_iff_less_mult mult.commute)
    then have n: "?i < n" "0 < n" using assms(4) by simp_all
    let ?T = "T\<lparr>ta_dev := (ta_dev T)\<lparr>dev_p := int ((p + ?i) mod n)\<rparr>\<rparr>"
    have lt: "int (length bs) < int k * int c" using True by (simp flip: of_nat_mult)
    have after: "after_read E (length bs) (int c) T =
        (if ?r \<noteq> 0 then bindC (shorten_last E ?r ?T) (\<lambda>T. Returns (int ?i + 1, T)) else Returns (int ?i, ?T))"
      using assms(2,3,5,7) lt rewound [OF assms(4) n(2), of p ?i] by (simp add: after_read_def Let_def)
    have lf: "lent_frame E (ta_dev ?T) q = lent_frame E (ta_dev T) q" for q
      by (simp add: lent_frame_def frame_header_def frame_length_def frame_payload_def)
    have earlier: "lent_frame E (ta_dev T) (int ((p + i) mod n)) =
        Returns (view_of (s + int i) (t + of_nat i * d) (chunk k bs i))" if "i < ?i" for i
    proof -
      have "k + k * i \<le> k * ?i" using mult_le_mono2 [of "Suc i" ?i k] that by simp
      also have "\<dots> \<le> length bs" by (rule times_div_less_eq_dividend)
      finally show ?thesis using whole [of i] that i by (simp add: add.commute)
    qed
    show ?thesis
    proof (cases "?r = 0")
      case True
      then show ?thesis using after earlier lf i dm assms(6) by (intro exI [of _ ?i] exI [of _ ?T]) auto
    next
      case False
      have ch: "length (chunk k bs ?i) = ?r"
        using dm by (simp add: chunk_def minus_div_mult_eq_mod)
      have ok: "slots_ok n k (ta_dev ?T)" using assms(1) by (simp add: slots_ok_def)
      have hd: "frame_header E (ta_dev ?T) (int ((p + ?i) mod n)) =
          Returns (Some (word_of_int (s + int ?i)), Some (t + of_nat ?i * d), Some (tc_payload_size (ta_cfg T)))"
        "frame_payload (ta_dev ?T) (int ((p + ?i) mod n)) (length (chunk k bs ?i)) = Returns (Some (chunk k bs ?i))"
        using assms(9,10) i by (simp_all add: frame_header_def frame_payload_def)
      obtain T' where T': "shorten_last E ?r ?T = Returns T'" "ta_cfg T' = ta_cfg ?T" "ta_seqnum T' = ta_seqnum ?T"
        "ta_read_end T' = ta_read_end ?T" "dev_p (ta_dev T') = int (((p + ?i) mod n + 1) mod n)"
        "lent_frame E (ta_dev T') (int ((p + ?i) mod n)) =
          Returns ((Some (word_of_int (s + int ?i)), Some (t + of_nat ?i * d), Some (of_nat ?r)), 42 + int ?r, Some (chunk k bs ?i))"
        "\<And>q'. q' \<noteq> int ((p + ?i) mod n) \<Longrightarrow> lent_frame E (ta_dev T') q' = lent_frame E (ta_dev ?T) q'"
        using shorten_last_result [OF ok _ _ _ _ hd ch] assms(2) n(2) dm(2) by auto
      have "lent_frame E (ta_dev T') (int ((p + i) mod n)) =
          Returns (view_of (s + int i) (t + of_nat i * d) (chunk k bs i))" if "i < ?i + 1" for i
      proof (cases "i = ?i")
        case True
        then show ?thesis using T'(6) ch by (simp add: view_of_def)
      next
        case False
        then have "i < ?i" using that by simp
        then show ?thesis using T'(7) lf earlier slots_differ n(1) by (metis of_nat_eq_iff)
      qed
      moreover have "dev_p (ta_dev T') = int ((p + (?i + 1)) mod n)" using T'(5) by (simp add: mod_Suc_eq)
      moreover have "after_read E (length bs) (int c) T = Returns (int (?i + 1), T')" using after False T'(1) by simp
      moreover have "length bs \<le> k * (?i + 1)" "k * (?i + 1) < length bs + k"
        using between [OF dm(1) _ dm(2)] False by simp_all
      ultimately show ?thesis using T'(2-4) i by (intro exI [of _ "?i + 1"] exI [of _ T']) simp
    qed
  qed
qed

section \<open>The operation\<close>

definition first_stamp :: "talker_calls \<Rightarrow> u32" where
  "first_stamp C = ucast (clock_getcount (tl_now C)) + TSOFFSET * 1000"

definition stamp_delta :: "talker_config \<Rightarrow> u32" where
  "stamp_delta cfg = 1000000000 div frames_per_second cfg"

definition sent_payloads :: "frame_view list \<Rightarrow> u8 list" where
  "sent_payloads fs = concat (map (\<lambda>f. the (snd (snd f))) fs)"

text \<open>A talker that may fill \<open>c\<close> frames of its ring, starting at slot \<open>p\<close>.\<close>

definition may_fill :: "nat \<Rightarrow> nat \<Rightarrow> nat \<Rightarrow> talker_state \<Rightarrow> bool" where
  "may_fill n p c T \<longleftrightarrow> slots_ok n (unat (tc_payload_size (ta_cfg T))) (ta_dev T) \<and> tc_entrynum (ta_cfg T) = int n \<and>
    dev_p (ta_dev T) = int p \<and> p < n \<and> c \<le> n \<and> 0 \<le> ta_seqnum T \<and> ta_seqnum T + int c \<le> INT_MAX \<and>
    tc_payload_size (ta_cfg T) \<noteq> 0 \<and> frames_per_second (ta_cfg T) \<noteq> 0"

text \<open>
  C5: Filling frames from the input agrees with a reference packetiser for every read, start
  slot and number of free slots: the frames the talker counts carry exactly the bytes read in
  order, numbered and time stamped consecutively, each with its own length in header and entry,
  and the position of the ring advances by their number.
\<close>
theorem filled_frames_carry_the_input:
  assumes "may_fill n p c T" "tl_alloc C" "tl_readv C (unat (tc_payload_size (ta_cfg T)) * c) = Read_Bytes bs"
    "bs \<noteq> []" "length bs \<le> unat (tc_payload_size (ta_cfg T)) * c"
  shows "let sent = packetise (unat (tc_payload_size (ta_cfg T))) (ta_seqnum T) (first_stamp C) (stamp_delta (ta_cfg T)) bs
    in \<exists>T'. talker_process E C (int c) T = Returns (int (length sent), T') \<and>
      map (lent_frame E (ta_dev T')) (ring_slots n p (length sent)) = map Returns sent \<and>
      sent_payloads sent = bs \<and> length sent \<le> c \<and> dev_p (ta_dev T') = int ((p + length sent) mod n) \<and>
      ta_seqnum T' = ta_seqnum T + int c \<and> ta_read_end T' = ta_read_end T"
proof -
  let ?k = "unat (tc_payload_size (ta_cfg T))" let ?d = "stamp_delta (ta_cfg T)"
  have k: "0 < ?k" using assms(1) by (simp add: may_fill_def unat_gt_0)
  obtain T1 where T1: "prepare_entries E (first_stamp C) ?d c T = Returns (ring_slots n p c, T1)"
    "same_setting T T1" "ta_seqnum T1 = ta_seqnum T + int c" "dev_p (ta_dev T1) = int ((p + c) mod n)"
    "slots_ok n ?k (ta_dev T1)"
    "\<forall>i < c. frame_header E (ta_dev T1) (int ((p + i) mod n)) =
        Returns (Some (word_of_int (ta_seqnum T + int i)), Some (first_stamp C + of_nat i * ?d), Some (tc_payload_size (ta_cfg T))) \<and>
      frame_length (ta_dev T1) (int ((p + i) mod n)) = Returns (42 + uint (tc_payload_size (ta_cfg T)))"
    using prepare_entries_result assms(1) unfolding may_fill_def by blast
  have cfg: "ta_cfg T1 = ta_cfg T" using T1(2) by (simp add: same_setting_def)
  obtain dev where dev: "store_payloads ?k (ring_slots n p c) bs (ta_dev T1) = Returns dev" "slots_ok n ?k dev"
    "dev_p dev = dev_p (ta_dev T1)" "\<forall>q. slot_entry dev q = slot_entry (ta_dev T1) q"
    "\<forall>q. frame_header E dev q = frame_header E (ta_dev T1) q"
    "\<forall>i < c. frame_payload dev (int ((p + i) mod n)) (length (chunk ?k bs i)) = Returns (Some (chunk ?k bs i))"
    using store_payloads_result [OF T1(5) _ _ assms(5) k] assms(1) unfolding may_fill_def by blast
  let ?T = "T1\<lparr>ta_dev := dev\<rparr>"
  have pre: "slots_ok n ?k (ta_dev ?T)" "tc_entrynum (ta_cfg ?T) = int n" "dev_p (ta_dev ?T) = int ((p + c) mod n)"
    "c \<le> n" "?k = unat (tc_payload_size (ta_cfg ?T))"
    "\<forall>i < c. frame_header E (ta_dev ?T) (int ((p + i) mod n)) =
        Returns (Some (word_of_int (ta_seqnum T + int i)), Some (first_stamp C + of_nat i * ?d), Some (tc_payload_size (ta_cfg ?T))) \<and>
      frame_length (ta_dev ?T) (int ((p + i) mod n)) = Returns (42 + uint (tc_payload_size (ta_cfg ?T)))"
    "\<forall>i < c. frame_payload (ta_dev ?T) (int ((p + i) mod n)) (length (chunk ?k bs i)) = Returns (Some (chunk ?k bs i))"
    using assms(1) cfg dev(2-6) T1(4,6) by (simp_all add: may_fill_def frame_length_def)
  obtain c' T' where T': "after_read E (length bs) (int c) ?T = Returns (int c', T')" "c' \<le> c"
    "length bs \<le> ?k * c'" "?k * c' < length bs + ?k" "ta_cfg T' = ta_cfg ?T" "ta_seqnum T' = ta_seqnum ?T"
    "ta_read_end T' = ta_read_end ?T" "dev_p (ta_dev T') = int ((p + c') mod n)"
    "\<forall>i < c'. lent_frame E (ta_dev T') (int ((p + i) mod n)) =
      Returns (view_of (ta_seqnum T + int i) (first_stamp C + of_nat i * ?d) (chunk ?k bs i))"
    using after_read_result [OF pre(1-5) k assms(4,5) pre(6,7)] by blast
  let ?sent = "packetise ?k (ta_seqnum T) (first_stamp C) ?d bs"
  have sent: "?sent = map (\<lambda>i. view_of (ta_seqnum T + int i) (first_stamp C + of_nat i * ?d) (chunk ?k bs i)) [0..<c']"
    using T'(3,4) by (rule packetise_chunks)
  then have len: "length ?sent = c'" by simp
  have "talker_process E C (int c) T = Returns (int c', T')"
  proof -
    have guard: "frames_per_second (ta_cfg T) \<noteq> 0" "length (ring_slots n p c) = c"
      using assms(1) by (simp_all add: may_fill_def ring_slots_def)
    show ?thesis
      unfolding talker_process_def Let_def first_stamp_def [symmetric] stamp_delta_def [symmetric] nat_int T1(1)
      using guard assms(2,3) dev(1) T'(1) by simp
  qed
  moreover have "map (lent_frame E (ta_dev T')) (ring_slots n p c') = map Returns ?sent"
    unfolding sent ring_slots_def using T'(9) by simp
  moreover have "sent_payloads ?sent = bs" unfolding sent_payloads_def using k by (rule packetise_concat)
  ultimately show ?thesis
    using T'(2,6-8) T1(2,3) len by (simp add: Let_def same_setting_def)
qed

definition sample_fill_calls :: talker_calls where
  "sample_fill_calls = \<lparr> tl_now = (0, 0), tl_alloc = True, tl_readv = (\<lambda>_. Read_Bytes [7, 8, 9, 10]) \<rparr>"

definition sample_fill_device :: eavb_device where
  "sample_fill_device = device_zero\<lparr>dev_p := 1, entrybuf := Some [entry_zero, entry_zero],
    framebuf := Some (replicate 2 (page_zero\<lparr>dma_vaddr := Mapped (replicate 45 0)\<rparr>))\<rparr>"

definition sample_fill_state :: talker_state where
  "sample_fill_state = \<lparr> ta_cfg = talker_config_init\<lparr>tc_entrynum := 2, tc_payload_size := 3\<rparr>, ta_dev = sample_fill_device,
    ta_seqnum = 255, ta_read_end = False, ta_lastseq = 0, ta_given = [] \<rparr>"

lemma sample_may_fill: "may_fill 2 1 2 sample_fill_state"
proof -
  have "(\<forall>q < (2 :: nat). P q) \<longleftrightarrow> P 0 \<and> P 1" for P by (auto simp: less_2_cases_iff)
  then show ?thesis
    by (simp add: may_fill_def sample_fill_state_def sample_fill_device_def slots_ok_def
        slot_packet_def slot_entry_def elems_def page_zero_def INT_MAX_def talker_config_init_def frames_per_second_def)
qed

lemma sample_packets:
  "packetise 3 255 t d [7, 8, 9, 10] = [view_of 255 t [7, 8, 9], view_of 256 (t + d) [10]]"
  by (simp add: packetise.simps)

lemma filled_frames_carry_the_input_witness:
  "\<exists>T'. talker_process LE sample_fill_calls 2 sample_fill_state = Returns (2, T') \<and>
    lent_frame LE (ta_dev T') 1 =
      Returns (view_of 255 (first_stamp sample_fill_calls) [7, 8, 9]) \<and>
    lent_frame LE (ta_dev T') 0 =
      Returns (view_of 256 (first_stamp sample_fill_calls + stamp_delta (ta_cfg sample_fill_state)) [10])"
proof -
  have "unat (tc_payload_size (ta_cfg sample_fill_state)) = 3" "ta_seqnum sample_fill_state = 255"
    by (simp_all add: sample_fill_state_def)
  moreover have "tl_alloc sample_fill_calls" "tl_readv sample_fill_calls 6 = Read_Bytes [7, 8, 9, 10]"
    by (simp_all add: sample_fill_calls_def)
  ultimately show ?thesis
    using filled_frames_carry_the_input [OF sample_may_fill, of sample_fill_calls "[7, 8, 9, 10]" LE]
    by (auto simp: sample_packets ring_slots_def Let_def upt_rec)
qed

end
