(* ===== verification/Mrpdummy.thy ===== *)
theory Mrpdummy
  imports Stream_App
begin

unbundle bit_operations_syntax

text \<open>
  The reservation program (\<open>mrpdummy/mrpdummy.c\<close>) that the launcher runs for every declaration:
  its options, the two modes that hold a reservation until a signal, and the modes that send one
  declaration. The datagrams that arrive are processed by the receive loop of the reservation
  context between two looks at its state.
\<close>

section \<open>Options\<close>

text \<open>
  \<open>getopt\<close> of the C library: an option character stands alone, with its argument in the rest of
  the word or in the next word, or together with others; \<open>spec\<close> says whether a character is an
  option and takes an argument. Other words are operands.
\<close>

fun option_word ::
  "(u8 \<Rightarrow> bool option) \<Rightarrow> u8 list \<Rightarrow> u8 list list \<Rightarrow> cl_option list \<times> u8 list list" where
  "option_word spec [] ws = ([], ws)"
| "option_word spec (c # cs) ws =
    (case spec c of
       None \<Rightarrow> let (os, ws) = option_word spec cs ws in ((ch CHR ''?'', []) # os, ws)
     | Some False \<Rightarrow> let (os, ws) = option_word spec cs ws in ((c, []) # os, ws)
     | Some True \<Rightarrow>
        if cs \<noteq> [] then ([(c, cs)], ws)
        else (case ws of [] \<Rightarrow> ([(ch CHR ''?'', [])], []) | w # ws \<Rightarrow> ([(c, w)], ws)))"

lemma option_word_length: "length (snd (option_word spec cs ws)) \<le> length ws"
  by (induction spec cs ws rule: option_word.induct) (auto split: option.splits bool.splits list.splits prod.splits)

definition is_option_word :: "u8 list \<Rightarrow> bool" where
  "is_option_word w \<longleftrightarrow> (case w of c # _ # _ \<Rightarrow> c = ch CHR ''-'' | _ \<Rightarrow> False)"

function getopt :: "(u8 \<Rightarrow> bool option) \<Rightarrow> u8 list list \<Rightarrow> cl_option list \<times> u8 list list" where
  "getopt spec [] = ([], [])"
| "getopt spec (w # ws) =
    (if w = ascii ''--'' then ([], ws)
     else if is_option_word w then
       let (os, ws) = option_word spec (tl w) ws; (os', rest) = getopt spec ws in (os @ os', rest)
     else let (os, rest) = getopt spec ws in (os, w # rest))"
  by pat_completeness auto
termination
proof (relation "measure (\<lambda>(_, ws). length ws)")
  fix spec w ws x xa y
  assume "x = option_word spec (tl w) ws" "(xa, y) = x"
  then have "length y \<le> length ws" using option_word_length by (metis snd_conv)
  then show "((spec, y), spec, w # ws) \<in> measure (\<lambda>(_, ws). length ws)" by simp
qed auto

definition option_spec :: "string \<Rightarrow> string \<Rightarrow> u8 \<Rightarrow> bool option" where
  "option_spec flags args c =
    (if c \<in> set (ascii flags) then Some False else if c \<in> set (ascii args) then Some True else None)"

definition MODE_TALKER :: int where "MODE_TALKER = 0"
definition MODE_LISTENER :: int where "MODE_LISTENER = 1"
definition MODE_JOIN_VLAN :: int where "MODE_JOIN_VLAN = 2"
definition MODE_LEAVE_VLAN :: int where "MODE_LEAVE_VLAN = 3"
definition MODE_REGISTER_DOMAIN :: int where "MODE_REGISTER_DOMAIN = 4"
definition MODE_UNREGISTER_DOMAIN :: int where "MODE_UNREGISTER_DOMAIN = 5"

lemmas mode_defs = MODE_TALKER_def MODE_LISTENER_def MODE_JOIN_VLAN_def MODE_LEAVE_VLAN_def
  MODE_REGISTER_DOMAIN_def MODE_UNREGISTER_DOMAIN_def

definition dummy_prop_init :: mrp_property where
  "dummy_prop_init = \<lparr> verbose = False, streamid = 0, destaddr = 0x91e0f0000e80, vlan = ucast MSRP_SR_CLASS_VID,
    MaxFrameSize = 84, MaxIntervalFrames = 1, sr_priority = ucast MSRP_SR_CLASS_A_PRIO,
    sr_rank = ucast MSRP_RANK, latency = 3900, sr_class = ucast MSRP_SR_CLASS_A \<rparr>"

text \<open>
  \<open>strtoull\<close> and \<open>strtol\<close>: the value, the text after the number and whether the number was out
  of range, which is what sets \<open>errno\<close>. Without a number nothing of the text is used.
\<close>

definition strto :: "conv \<Rightarrow> u8 list \<Rightarrow> u64 \<times> u8 list \<times> bool" where
  "strto k s =
    (case convert k s of None \<Rightarrow> (0, s, False)
     | Some (v, rest) \<Rightarrow>
        let (neg, s1) = split_sign (dropWhile is_space s);
            n = digits_value (conv_base k)
              (takeWhile (is_digit (conv_base k)) (if conv_base k = 16 then skip_0x s1 else s1))
        in (v, rest, if k = ConvD then (if neg then 2 ^ 63 < n else 2 ^ 63 - 1 < n) else 2 ^ 64 \<le> n))"

definition bad_number :: "u8 list \<Rightarrow> u8 list \<times> bool \<Rightarrow> bool" where
  "bad_number optarg r \<longleftrightarrow> fst r \<noteq> [] \<or> snd r \<or> take 1 optarg = [ch CHR ''-'']"

record dummy_options =
  do_prop :: mrp_property
  do_mode :: int
  do_latency :: int

definition set_dummy_class :: "u32 \<Rightarrow> mrp_property \<Rightarrow> mrp_property" where
  "set_dummy_class tmp p =
    (let p = (if sr_class p = ucast MSRP_SR_CLASS_A \<and> sr_priority p = ucast MSRP_SR_CLASS_A_PRIO \<and> tmp = ucast MSRP_SR_CLASS_B
           then p\<lparr>sr_priority := ucast MSRP_SR_CLASS_B_PRIO\<rparr>
         else if sr_class p = ucast MSRP_SR_CLASS_B \<and> sr_priority p = ucast MSRP_SR_CLASS_B_PRIO \<and> tmp = ucast MSRP_SR_CLASS_A
           then p\<lparr>sr_priority := ucast MSRP_SR_CLASS_A_PRIO\<rparr> else p)
     in p\<lparr>sr_class := tmp\<rparr>)"

definition set_dummy_priority :: "u32 \<Rightarrow> mrp_property \<Rightarrow> mrp_property" where
  "set_dummy_priority tmp p =
    (let p = (if sr_class p = ucast MSRP_SR_CLASS_A \<and> sr_priority p = ucast MSRP_SR_CLASS_A_PRIO \<and> tmp = ucast MSRP_SR_CLASS_B_PRIO
           then p\<lparr>sr_class := ucast MSRP_SR_CLASS_B\<rparr>
         else if sr_class p = ucast MSRP_SR_CLASS_B \<and> sr_priority p = ucast MSRP_SR_CLASS_B_PRIO \<and> tmp = ucast MSRP_SR_CLASS_A_PRIO
           then p\<lparr>sr_class := ucast MSRP_SR_CLASS_A\<rparr> else p)
     in p\<lparr>sr_priority := tmp\<rparr>)"

definition set_prop :: "(mrp_property \<Rightarrow> mrp_property) \<Rightarrow> dummy_options \<Rightarrow> dummy_options" where
  "set_prop f s = s\<lparr>do_prop := f (do_prop s)\<rparr>"

definition dummy_option :: "cl_option \<Rightarrow> dummy_options \<Rightarrow> dummy_options parse_result" where
  "dummy_option opt s =
    (let (c, optarg) = opt in
     if c = ch CHR ''m'' then Parsed (s\<lparr>do_mode := sint (atoi optarg)\<rparr>)
     else if c = ch CHR ''S'' then
       (let (v, r) = strto ConvLX optarg in
        if bad_number optarg r then Rejected else Parsed (set_prop (\<lambda>p. p\<lparr>streamid := v\<rparr>) s))
     else if c = ch CHR ''A'' then
       (let (v, r) = strto ConvLX optarg in
        if bad_number optarg r then Rejected else Parsed (set_prop (\<lambda>p. p\<lparr>destaddr := v\<rparr>) s))
     else if c = ch CHR ''V'' then Parsed (set_prop (\<lambda>p. p\<lparr>vlan := atoi optarg\<rparr>) s)
     else if c = ch CHR ''Z'' then Parsed (set_prop (\<lambda>p. p\<lparr>MaxFrameSize := atoi optarg\<rparr>) s)
     else if c = ch CHR ''I'' then Parsed (set_prop (\<lambda>p. p\<lparr>MaxIntervalFrames := atoi optarg\<rparr>) s)
     else if c = ch CHR ''c'' then Parsed (set_prop (set_dummy_class (atoi optarg)) s)
     else if c = ch CHR ''p'' then Parsed (set_prop (set_dummy_priority (atoi optarg)) s)
     else if c = ch CHR ''r'' then Parsed (set_prop (\<lambda>p. p\<lparr>sr_rank := atoi optarg\<rparr>) s)
     else if c = ch CHR ''L'' then
       (let (v, r) = strto ConvD optarg in
        if bad_number optarg r then Rejected
        else Parsed (set_prop (\<lambda>p. p\<lparr>latency := ucast v\<rparr>) (s\<lparr>do_latency := sint v\<rparr>)))
     else if c = ch CHR ''v'' then Parsed (set_prop (\<lambda>p. p\<lparr>verbose := True\<rparr>) s)
     else Exited)"

definition check_dummy_options :: "dummy_options \<Rightarrow> (int \<times> mrp_property) parse_result" where
  "check_dummy_options s =
    (let p = do_prop s in
     if do_mode s < MODE_TALKER \<or> MODE_UNREGISTER_DOMAIN < do_mode s then Rejected
     else if 0xffffffffffff < destaddr p then Rejected
     else if sint (vlan p) < 1 \<or> 4094 < sint (vlan p) then Rejected
     else if sint (MaxFrameSize p) < 46 \<or> 1500 < sint (MaxFrameSize p) then Rejected
     else if sint (MaxIntervalFrames p) < 1 then Rejected
     else if sint (sr_class p) < 0 \<or> 7 < sint (sr_class p) then Rejected
     else if sint (sr_priority p) < 0 \<or> 7 < sint (sr_priority p) then Rejected
     else if do_latency s < 0 \<or> 0xffffffff < do_latency s then Rejected
     else if sr_rank p \<noteq> 1 \<and> sr_rank p \<noteq> 0 then Rejected
     else Parsed (do_mode s, p))"

definition command_parse :: "cl_option list \<Rightarrow> (int \<times> mrp_property) parse_result" where
  "command_parse opts =
    bind_parse (fold_options dummy_option opts
        \<lparr> do_prop = dummy_prop_init, do_mode = MODE_TALKER, do_latency = 0 \<rparr>) check_dummy_options"

definition dummy_spec :: "u8 \<Rightarrow> bool option" where
  "dummy_spec = option_spec ''hv'' ''mSAVZIprcL''"

section \<open>Holding a reservation\<close>

text \<open>
  One look: whether the signal has come, the result of sending a query, the datagrams the receive
  loop has processed by then, and whether the signal has come when the look succeeds. A program
  whose looks are used up still waits.
\<close>

record look =
  lk_signal :: bool
  lk_query :: int
  lk_received :: "u8 list list"
  lk_signal_after :: bool

definition receive_all :: "endian \<Rightarrow> u8 list list \<Rightarrow> msrp_ctx option \<Rightarrow> msrp_ctx option c_result" where
  "receive_all E ds c =
    (case c of None \<Rightarrow> Returns None
     | Some ctx \<Rightarrow>
        case monitor_loop E ctx (map (\<lambda>d. \<lparr> ev_halt = False, ev_alloc_ok = True, ev_recv = Received d \<rparr>) ds) of
          None \<Rightarrow> UB | Some ctx \<Rightarrow> Returns (Some ctx))"

fun look_for_talker ::
  "endian \<Rightarrow> look list \<Rightarrow> msrp_ctx option \<Rightarrow> (bool \<times> msrp_ctx option \<times> app_event list) c_result" where
  "look_for_talker E [] c = NoReturn"
| "look_for_talker E (k # ks) c =
    (if lk_signal k then Returns (False, c, []) else
     bindC (declare_srp msrp_query_database (lk_query k) c) (\<lambda>(_, c, t).
     bindC (receive_all E (lk_received k) c) (\<lambda>c.
     if msrp_exist_talker c then Returns (\<not> lk_signal_after k, c, t) else
     bindC (look_for_talker E ks c) (\<lambda>(ok, c, t'). Returns (ok, c, t @ t')))))"

fun look_for_listener :: "endian \<Rightarrow> look list \<Rightarrow> msrp_ctx option \<Rightarrow> (bool \<times> msrp_ctx option) c_result" where
  "look_for_listener E [] c = NoReturn"
| "look_for_listener E (k # ks) c =
    (if lk_signal k then Returns (False, c) else
     bindC (receive_all E (lk_received k) c) (\<lambda>c.
     if 0 < msrp_exist_listener c then Returns (\<not> lk_signal_after k, c) else look_for_listener E ks c))"

fun look_for_leave :: "endian \<Rightarrow> look list \<Rightarrow> msrp_ctx option \<Rightarrow> msrp_ctx option c_result" where
  "look_for_leave E [] c = NoReturn"
| "look_for_leave E (k # ks) c =
    (if lk_signal k then Returns c else
     bindC (receive_all E (lk_received k) c) (\<lambda>c.
     if msrp_exist_listener c \<le> 0 then Returns c else look_for_leave E ks c))"

fun look_for_signal :: "endian \<Rightarrow> look list \<Rightarrow> msrp_ctx option \<Rightarrow> msrp_ctx option c_result" where
  "look_for_signal E [] c = NoReturn"
| "look_for_signal E (k # ks) c =
    (if lk_signal k then Returns c else
     bindC (receive_all E (lk_received k) c) (look_for_signal E ks))"

definition completion :: "u8 list" where
  "completion = ascii ''reservation completion'' @ [10]"

record dummy_calls =
  dc_first_rc :: int
  dc_looks :: "look list"
  dc_hold :: "look list"
  dc_last_rc :: int

definition process_listener ::
  "endian \<Rightarrow> dummy_calls \<Rightarrow> msrp_ctx option \<Rightarrow> (int \<times> msrp_ctx option \<times> app_event list) c_result" where
  "process_listener E C c =
    (if c = None then Returns (- 1, c, []) else
     let t0 = [Printed (ascii ''waiting talker.'' @ [10])] in
     bindC (look_for_talker E (dc_looks C) c) (\<lambda>(ok, c, t1).
     if \<not> ok then Returns (- 1, c, t0 @ t1) else
     bindC (declare_srp msrp_listener_ready (dc_first_rc C) c) (\<lambda>(rc, c, t2).
     if rc < 0 then Returns (- 1, c, t0 @ t1 @ t2) else
     bindC (look_for_signal E (dc_hold C) c) (\<lambda>c.
     bindC (declare_srp msrp_listener_leave (dc_last_rc C) c) (\<lambda>(rc, c, t3).
     Returns (if rc < 0 then - 1 else 0, c, t0 @ t1 @ t2 @ Printed completion # t3))))))"

definition process_talker ::
  "endian \<Rightarrow> dummy_calls \<Rightarrow> msrp_ctx option \<Rightarrow> (int \<times> msrp_ctx option \<times> app_event list) c_result" where
  "process_talker E C c =
    (if c = None then Returns (- 1, c, []) else
     bindC (declare_srp msrp_talker_advertise (dc_first_rc C) c) (\<lambda>(rc, c, t1).
     if rc < 0 then Returns (- 1, c, t1) else
     let t1 = t1 @ [Printed (ascii ''waiting listener.'' @ [10])] in
     bindC (look_for_listener E (dc_looks C) c) (\<lambda>(ok, c).
     if \<not> ok then
       bindC (declare_srp msrp_talker_unadvertise (dc_last_rc C) c) (\<lambda>(_, c, t2). Returns (- 1, c, t1 @ t2))
     else
       bindC (look_for_leave E (dc_hold C) c) (\<lambda>c.
       bindC (declare_srp msrp_talker_unadvertise (dc_last_rc C) c) (\<lambda>(rc, c, t2).
       Returns (if rc < 0 then - 1 else 0, c, t1 @ Printed completion # t2))))))"

text \<open>
  The program: the options, the signal handler, the context, the operation of the mode, and the
  end of the context, whose result is what the program returns.
\<close>

definition run_mode ::
  "endian \<Rightarrow> dummy_calls \<Rightarrow> int \<Rightarrow> msrp_ctx option \<Rightarrow> (int \<times> msrp_ctx option \<times> app_event list) c_result" where
  "run_mode E C mode c =
    (if mode = MODE_TALKER then process_talker E C c
     else if mode = MODE_LISTENER then process_listener E C c
     else if mode = MODE_JOIN_VLAN then declare_srp mvrp_join_vlan (dc_first_rc C) c
     else if mode = MODE_LEAVE_VLAN then declare_srp mvrp_leave_vlan (dc_first_rc C) c
     else if mode = MODE_REGISTER_DOMAIN then declare_srp msrp_register_domain (dc_first_rc C) c
     else if mode = MODE_UNREGISTER_DOMAIN then declare_srp msrp_unregister_domain (dc_first_rc C) c
     else Returns (0, c, []))"

definition mrpdummy_main ::
  "endian \<Rightarrow> init_env \<Rightarrow> int \<Rightarrow> dummy_calls \<Rightarrow> u8 list list \<Rightarrow> (int \<times> app_event list) c_result" where
  "mrpdummy_main E ie sigaction_rc C argv =
    (case command_parse (fst (getopt dummy_spec argv)) of
       Exited \<Rightarrow> Returns (0, [])
     | Rejected \<Rightarrow> Returns (- 1, [])
     | Parsed (mode, prop) \<Rightarrow>
        if sigaction_rc = - 1 then Returns (- 1, []) else
        let (c, closed) = msrp_ctx_init ie (Some prop); t0 = map Closed_Fd closed in
        if c = None then Returns (- 1, t0) else
        bindC (run_mode E C mode c) (\<lambda>(_, c, t1).
        let (rc, closed) = msrp_ctx_destroy (env_bye_rc ie) c in
        Returns (rc, t0 @ t1 @ map Closed_Fd closed)))"

end
