(* ===== verification/Mrpdummy_Props.thy ===== *)
theory Mrpdummy_Props
  imports Mrpdummy
begin

unbundle bit_operations_syntax

text \<open>
  Properties of the reservation program: which options it accepts, and that it withdraws every
  reservation it has declared on every way out, after it has printed the completion line that
  the launcher waits for.
\<close>

section \<open>Options\<close>

definition valid_property :: "mrp_property \<Rightarrow> bool" where
  "valid_property p \<longleftrightarrow> destaddr p \<le> 0xffffffffffff \<and> 1 \<le> sint (vlan p) \<and> sint (vlan p) \<le> 4094 \<and>
    46 \<le> sint (MaxFrameSize p) \<and> sint (MaxFrameSize p) \<le> 1500 \<and> 1 \<le> sint (MaxIntervalFrames p) \<and>
    0 \<le> sint (sr_class p) \<and> sint (sr_class p) \<le> 7 \<and> 0 \<le> sint (sr_priority p) \<and> sint (sr_priority p) \<le> 7 \<and>
    sr_rank p \<in> {0, 1}"

lemma accepted_options_are_valid:
  assumes "command_parse opts = Parsed (mode, p)"
  shows "valid_property p \<and> 0 \<le> mode \<and> mode \<le> 5"
proof -
  obtain s where "check_dummy_options s = Parsed (mode, p)"
    using assms by (cases "fold_options dummy_option opts \<lparr> do_prop = dummy_prop_init, do_mode = MODE_TALKER, do_latency = 0 \<rparr>")
      (auto simp: command_parse_def)
  then show ?thesis
    by (auto simp: check_dummy_options_def Let_def valid_property_def mode_defs not_less split: if_splits)
qed

text \<open>
  The class and the priority are adjusted to one another only while they are the defaults, so a
  class that is given is replaced again when the priority is the default one of the other class.
\<close>

lemma class_option_is_overridden:
  "case command_parse [(ch CHR ''m'', ascii ''4''), (ch CHR ''c'', ascii ''5''), (ch CHR ''p'', ascii ''3'')] of
     Parsed (mode, p) \<Rightarrow> mode = 4 \<and> sr_class p = 6 \<and> sr_priority p = 3 | _ \<Rightarrow> False"
  by code_simp

section \<open>The context while datagrams arrive\<close>

definition session_ok :: "mrp_property \<Rightarrow> msrp_ctx \<Rightarrow> bool" where
  "session_ok p ctx \<longleftrightarrow> ctx_prop ctx = Some p \<and> mrpd_sock ctx \<noteq> SOCKET_ERROR \<and>
    (\<exists>buf. msgbuf ctx = Some buf \<and> length buf = 2000)"

lemma session_ok_update [simp]:
  "session_ok p (ctx\<lparr>listeners := v\<rparr>) = session_ok p ctx" "session_ok p (ctx\<lparr>devices := ds\<rparr>) = session_ok p ctx"
  "session_ok p (ctx\<lparr>talker_found := b\<rparr>) = session_ok p ctx" "session_ok p (ctx\<lparr>halt_flag := h\<rparr>) = session_ok p ctx"
  by (simp_all add: session_ok_def)

lemma monitor_listener_session:
  "session_ok p ctx \<Longrightarrow> monitor_listener_add e ctx n = Some (rc, ctx') \<Longrightarrow> session_ok p ctx'"
  "session_ok p ctx \<Longrightarrow> monitor_listener_remove e ctx n = Some (rc, ctx') \<Longrightarrow> session_ok p ctx'"
  by (auto simp: monitor_listener_add_def monitor_listener_remove_def split: bind_splits option.splits if_splits)

lemma listener_process_session:
  assumes "session_ok p ctx" "listener_attribute_process e (Some ctx) no = Some (rc, c)"
  shows "\<exists>ctx'. c = Some ctx' \<and> session_ok p ctx'"
proof (cases no)
  case None
  then show ?thesis using assms by (auto simp: listener_attribute_process_def session_ok_def)
next
  case (Some n)
  have p: "ctx_prop ctx = Some p" using assms(1) by (simp add: session_ok_def)
  note keeps = monitor_listener_session [OF assms(1)]
  show ?thesis
    using assms p Some
    by (cases "notify n") (auto simp: listener_attribute_process_def split: bind_splits if_splits dest: keeps)
qed

lemma talker_process_session:
  assumes "session_ok p ctx" "talker_attribute_process e (Some ctx) no = Some (rc, c)"
  shows "\<exists>ctx'. c = Some ctx' \<and> session_ok p ctx'"
  using assms by (auto simp: talker_attribute_process_def split: option.splits if_splits bind_splits)

lemma msg_process_session:
  assumes "session_ok p ctx" "msg_process e (Some ctx) (Some m) len = Some (rc, c)"
  shows "\<exists>ctx'. c = Some ctx' \<and> session_ok p ctx'"
proof -
  obtain prc m' n where q: "mrpdhelper_parse_notification e m (word_of_int len) = Some (prc, m', n)"
    "(if prc \<noteq> 0 then Some (prc, Some ctx) else
      case attrib n of attribtype_msrp_listener \<Rightarrow> listener_attribute_process e (Some ctx) (Some n)
        | attribtype_msrp_talker \<Rightarrow> talker_attribute_process e (Some ctx) (Some n)
        | attribtype_msrp_talker_fail \<Rightarrow> talker_attribute_process e (Some ctx) (Some n)
        | _ \<Rightarrow> Some (0, Some ctx)) = Some (rc, c)"
    using assms(2) by (auto simp: msg_process_def split: bind_splits prod.splits)
  show ?thesis
    using q(2) assms(1) listener_process_session talker_process_session
    by (cases "attrib n") (auto split: if_splits)
qed

lemma monitor_loop_session:
  "session_ok p ctx \<Longrightarrow> monitor_loop e ctx evs = Some ctx' \<Longrightarrow> session_ok p ctx'"
proof (induction evs arbitrary: ctx)
  case (Cons ev evs)
  let ?ctx = "ctx\<lparr>halt_flag := halt_flag ctx \<or> ev_halt ev\<rparr>"
  have ok: "session_ok p ?ctx" using Cons.prems(1) by simp
  show ?case
  proof (cases "halt_flag ?ctx \<or> \<not> ev_alloc_ok ev \<or> ev_recv ev = Recv_failed")
    case True
    then show ?thesis using ok Cons.prems(2) by (auto simp: Let_def split: if_splits)
  next
    case False
    show ?thesis
    proof (cases "ev_recv ev")
      case Recv_again
      then have "monitor_loop e ?ctx evs = Some ctx'" using False Cons.prems(2) by (simp add: Let_def)
      then show ?thesis using Cons.IH ok by blast
    next
      case (Received bs)
      then obtain rc c ctx1 where "msg_process e (Some ?ctx) (Some (recv_buffer bs))
          (int (length (take MRPDCLIENT_MAX_MSG_SIZE bs))) = Some (rc, c)" "c = Some ctx1" "monitor_loop e ctx1 evs = Some ctx'"
        using False Cons.prems(2) by (auto simp: Let_def split: bind_splits)
      then show ?thesis using msg_process_session [OF ok] Cons.IH by (metis option.inject)
    qed (use False in simp)
  qed
qed simp

text \<open>The loop has no undefined behaviour on datagrams that leave room for the text it appends.\<close>

lemma monitor_loop_defined:
  assumes "session_ok p ctx" "\<forall>d\<in>set ds. length d \<le> 1979"
  shows "monitor_loop E ctx (map (\<lambda>d. \<lparr> ev_halt = False, ev_alloc_ok = True, ev_recv = Received d \<rparr>) ds) \<noteq> None"
  using assms
proof (induction ds arbitrary: ctx)
  case (Cons d ds)
  let ?ctx = "ctx\<lparr>halt_flag := halt_flag ctx \<or> False\<rparr>"
  have ok: "session_ok p ?ctx" using Cons.prems(1) by simp
  then have "ctx_prop ?ctx = Some p" by (simp add: session_ok_def)
  then obtain rc ctx1 where m: "msg_process E (Some ?ctx) (Some (recv_buffer d)) (int (length d)) = Some (rc, Some ctx1)"
    using msg_process_defined [of ?ctx p d E] Cons.prems(2) by auto
  then have "session_ok p ctx1" using msg_process_session [OF ok] by blast
  then show ?case using Cons m by (auto simp: Let_def MRPDCLIENT_MAX_MSG_SIZE_def)
qed simp

lemma receive_all_returns:
  assumes "session_ok p ctx" "\<forall>d\<in>set ds. length d \<le> 1979"
  obtains ctx' where "receive_all E ds (Some ctx) = Returns (Some ctx')" "session_ok p ctx'"
proof -
  obtain ctx' where m: "monitor_loop E ctx (map (\<lambda>d. \<lparr> ev_halt = False, ev_alloc_ok = True, ev_recv = Received d \<rparr>) ds) = Some ctx'"
    using monitor_loop_defined [OF assms] by blast
  then show thesis using that monitor_loop_session [OF assms(1) m] by (simp add: receive_all_def)
qed

lemma mrp_send_declares:
  assumes "session_ok p ctx" "length text < 2000"
  obtains ctx' where "mrp_send rc (Some ctx) text = Some (rc, Some ctx', [text @ [0]])" "session_ok p ctx'"
proof -
  obtain buf where b: "msgbuf ctx = Some buf" "length buf = 2000" using assms(1) by (auto simp: session_ok_def)
  obtain b' where b': "wrn 0 (text @ [0]) buf = Some b'"
    using assms(2) b(2) by (cases "wrn 0 (text @ [0]) buf") (auto simp: wrn_None_iff)
  have "rdn 0 (length text + 1) b' = Some (text @ [0])"
    using rdn_wrn_same [OF b', of "length text + 1"] by simp
  then show thesis
    using assms(1) b b' length_wrn [OF b']
    by (intro that [of "ctx\<lparr>msgbuf := Some b'\<rparr>"]) (auto simp: mrp_send_def session_ok_def mrpdclient_sendto_def)
qed

lemma with_prop_declares:
  assumes "session_ok p ctx" "length (fmt p) < 2000"
  obtains ctx' where "declare_srp (with_prop fmt) rc (Some ctx) = Returns (rc, Some ctx', [Declared (fmt p @ [0])])"
    "session_ok p ctx'"
proof -
  obtain ctx' where "mrp_send rc (Some ctx) (fmt p) = Some (rc, Some ctx', [fmt p @ [0]])" "session_ok p ctx'"
    using mrp_send_declares [OF assms] .
  then show thesis using assms(1) by (intro that) (auto simp: declare_srp_def with_prop_def session_ok_def)
qed

lemma query_declares:
  assumes "session_ok p ctx"
  obtains ctx' where "declare_srp msrp_query_database rc (Some ctx) = Returns (rc, Some ctx', [Declared (ascii ''S??'' @ [0])])"
    "session_ok p ctx'"
proof -
  obtain ctx' where "mrp_send rc (Some ctx) (ascii ''S??'') = Some (rc, Some ctx', [ascii ''S??'' @ [0]])" "session_ok p ctx'"
    using mrp_send_declares [OF assms, of "ascii ''S??''"] by auto
  then show thesis by (intro that) (auto simp: declare_srp_def msrp_query_database_def)
qed

section \<open>Waiting ends\<close>

definition ending :: "look list \<Rightarrow> bool" where
  "ending ks \<longleftrightarrow> (\<exists>k\<in>set ks. lk_signal k) \<and> (\<forall>k\<in>set ks. \<forall>d\<in>set (lk_received k). length d \<le> 1979)"

lemma ending_Cons:
  "ending (k # ks) \<Longrightarrow> \<not> lk_signal k \<Longrightarrow> ending ks \<and> (\<forall>d\<in>set (lk_received k). length d \<le> 1979)"
  by (auto simp: ending_def)

lemma not_ending_Nil [simp]: "\<not> ending []"
  by (simp add: ending_def)

lemma look_for_listener_returns:
  "session_ok p ctx \<Longrightarrow> ending ks \<Longrightarrow>
    \<exists>ok ctx'. look_for_listener E ks (Some ctx) = Returns (ok, Some ctx') \<and> session_ok p ctx'"
proof (induction ks arbitrary: ctx)
  case (Cons k ks)
  show ?case
  proof (cases "lk_signal k")
    case False
    note e = ending_Cons [OF Cons.prems(2) False]
    obtain ctx1 where "receive_all E (lk_received k) (Some ctx) = Returns (Some ctx1)" "session_ok p ctx1"
      using receive_all_returns [OF Cons.prems(1)] e by blast
    then show ?thesis using Cons.IH e False by simp
  qed (use Cons.prems in auto)
qed simp

lemma look_for_leave_returns:
  "session_ok p ctx \<Longrightarrow> ending ks \<Longrightarrow> \<exists>ctx'. look_for_leave E ks (Some ctx) = Returns (Some ctx') \<and> session_ok p ctx'"
proof (induction ks arbitrary: ctx)
  case (Cons k ks)
  show ?case
  proof (cases "lk_signal k")
    case False
    note e = ending_Cons [OF Cons.prems(2) False]
    obtain ctx1 where "receive_all E (lk_received k) (Some ctx) = Returns (Some ctx1)" "session_ok p ctx1"
      using receive_all_returns [OF Cons.prems(1)] e by blast
    then show ?thesis using Cons.IH e False by simp
  qed (use Cons.prems in simp)
qed simp

lemma look_for_signal_returns:
  "session_ok p ctx \<Longrightarrow> ending ks \<Longrightarrow> \<exists>ctx'. look_for_signal E ks (Some ctx) = Returns (Some ctx') \<and> session_ok p ctx'"
proof (induction ks arbitrary: ctx)
  case (Cons k ks)
  show ?case
  proof (cases "lk_signal k")
    case False
    note e = ending_Cons [OF Cons.prems(2) False]
    obtain ctx1 where "receive_all E (lk_received k) (Some ctx) = Returns (Some ctx1)" "session_ok p ctx1"
      using receive_all_returns [OF Cons.prems(1)] e by blast
    then show ?thesis using Cons.IH e False by simp
  qed (use Cons.prems in simp)
qed simp

lemma look_for_talker_returns:
  "session_ok p ctx \<Longrightarrow> ending ks \<Longrightarrow>
    \<exists>ok ctx' n. look_for_talker E ks (Some ctx) = Returns (ok, Some ctx', replicate n (Declared (ascii ''S??'' @ [0]))) \<and>
      session_ok p ctx'"
proof (induction ks arbitrary: ctx)
  case (Cons k ks)
  show ?case
  proof (cases "lk_signal k")
    case False
    note e = ending_Cons [OF Cons.prems(2) False]
    obtain ctx1 where q: "declare_srp msrp_query_database (lk_query k) (Some ctx) =
        Returns (lk_query k, Some ctx1, [Declared (ascii ''S??'' @ [0])])" "session_ok p ctx1"
      using query_declares [OF Cons.prems(1)] .
    obtain ctx2 where r: "receive_all E (lk_received k) (Some ctx1) = Returns (Some ctx2)" "session_ok p ctx2"
      using receive_all_returns [OF q(2)] e by blast
    show ?thesis
    proof (cases "msrp_exist_talker (Some ctx2)")
      case True
      then show ?thesis using q r False by (auto intro!: exI [of _ 1])
    next
      case no: False
      obtain ok ctx3 n where "look_for_talker E ks (Some ctx2) =
          Returns (ok, Some ctx3, replicate n (Declared (ascii ''S??'' @ [0])))" "session_ok p ctx3"
        using Cons.IH r(2) e by blast
      then show ?thesis using q r False no by (intro exI [of _ ok] exI [of _ ctx3] exI [of _ "Suc n"]) simp
    qed
  next
    case True
    then show ?thesis using Cons.prems by (auto intro!: exI [of _ 0])
  qed
qed simp

section \<open>Reservations are withdrawn\<close>

definition advertise_text :: "mrp_property \<Rightarrow> u8 list" where
  "advertise_text p = ascii ''S++:S='' @ print_hex 16 (streamid p) @ ascii '',A='' @ print_hex 12 (destaddr p) @
    ascii '',V='' @ print_HEX 4 (vlan p) @ ascii '',Z='' @ print_d (MaxFrameSize p) @
    ascii '',I='' @ print_d (MaxIntervalFrames p) @
    ascii '',P='' @ print_d (push_bit 5 (sr_priority p) OR push_bit 4 (sr_rank p)) @
    ascii '',L='' @ print_u (latency p)"

definition stream_text :: "string \<Rightarrow> mrp_property \<Rightarrow> u8 list" where
  "stream_text s p = ascii s @ print_hex 16 (streamid p)"

lemma talker_declares:
  assumes "session_ok p ctx"
  shows "\<exists>ctx'. declare_srp msrp_talker_advertise rc (Some ctx) = Returns (rc, Some ctx', [Declared (advertise_text p @ [0])]) \<and>
      session_ok p ctx'"
    "\<exists>ctx'. declare_srp msrp_talker_unadvertise rc (Some ctx) =
      Returns (rc, Some ctx', [Declared (stream_text ''S--:S='' p @ [0])]) \<and> session_ok p ctx'"
proof -
  note len = length_print_hex64 [of 16 "streamid p"] length_print_hex64 [of 12 "destaddr p"] length_print_HEX32 [of 4 "vlan p"]
    length_print_d32 [of "MaxFrameSize p"] length_print_d32 [of "MaxIntervalFrames p"]
    length_print_d32 [of "push_bit 5 (sr_priority p) OR push_bit 4 (sr_rank p)"] length_print_u32 [of "latency p"]
  have a: "length (advertise_text p) < 2000" using len by (simp add: advertise_text_def)
  obtain ctx' where "declare_srp (with_prop advertise_text) rc (Some ctx) = Returns (rc, Some ctx', [Declared (advertise_text p @ [0])])"
    "session_ok p ctx'"
    using with_prop_declares [where fmt = advertise_text, OF assms a] .
  then show "\<exists>ctx'. declare_srp msrp_talker_advertise rc (Some ctx) = Returns (rc, Some ctx', [Declared (advertise_text p @ [0])]) \<and>
      session_ok p ctx'"
    by (auto simp: msrp_talker_advertise_def advertise_text_def [abs_def])
  have u: "length (stream_text ''S--:S='' p) < 2000" using len by (simp add: stream_text_def)
  obtain ctx' where "declare_srp (with_prop (stream_text ''S--:S='')) rc (Some ctx) =
      Returns (rc, Some ctx', [Declared (stream_text ''S--:S='' p @ [0])])" "session_ok p ctx'"
    using with_prop_declares [where fmt = "stream_text ''S--:S=''", OF assms u] .
  then show "\<exists>ctx'. declare_srp msrp_talker_unadvertise rc (Some ctx) =
      Returns (rc, Some ctx', [Declared (stream_text ''S--:S='' p @ [0])]) \<and> session_ok p ctx'"
    by (auto simp: msrp_talker_unadvertise_def stream_text_def [abs_def])
qed

definition ready_text :: "mrp_property \<Rightarrow> u8 list" where
  "ready_text p = stream_text ''S+L:L='' p @ ascii '',D=2''"

lemma listener_declares:
  assumes "session_ok p ctx"
  shows "\<exists>ctx'. declare_srp msrp_listener_ready rc (Some ctx) = Returns (rc, Some ctx', [Declared (ready_text p @ [0])]) \<and>
      session_ok p ctx'"
    "\<exists>ctx'. declare_srp msrp_listener_leave rc (Some ctx) =
      Returns (rc, Some ctx', [Declared (stream_text ''S-L:L='' p @ [0])]) \<and> session_ok p ctx'"
proof -
  have two: "print_d MSRP_LISTENER_READY = ascii ''2''" by code_simp
  have r: "length (ready_text p) < 2000" "length (stream_text ''S-L:L='' p) < 2000"
    using length_print_hex64 [of 16 "streamid p"] by (simp_all add: ready_text_def stream_text_def)
  obtain ctx' where "declare_srp (with_prop ready_text) rc (Some ctx) = Returns (rc, Some ctx', [Declared (ready_text p @ [0])])"
    "session_ok p ctx'"
    using with_prop_declares [where fmt = ready_text, OF assms r(1)] .
  then show "\<exists>ctx'. declare_srp msrp_listener_ready rc (Some ctx) = Returns (rc, Some ctx', [Declared (ready_text p @ [0])]) \<and>
      session_ok p ctx'"
    by (auto simp: msrp_listener_ready_def ready_text_def [abs_def] stream_text_def two ascii_append [symmetric])
  obtain ctx' where "declare_srp (with_prop (stream_text ''S-L:L='')) rc (Some ctx) =
      Returns (rc, Some ctx', [Declared (stream_text ''S-L:L='' p @ [0])])" "session_ok p ctx'"
    using with_prop_declares [where fmt = "stream_text ''S-L:L=''", OF assms r(2)] .
  then show "\<exists>ctx'. declare_srp msrp_listener_leave rc (Some ctx) =
      Returns (rc, Some ctx', [Declared (stream_text ''S-L:L='' p @ [0])]) \<and> session_ok p ctx'"
    by (auto simp: msrp_listener_leave_def stream_text_def [abs_def])
qed


definition sample_talker_calls_dummy :: dummy_calls where
  "sample_talker_calls_dummy = \<lparr> dc_first_rc = 100,
    dc_looks = [\<lparr> lk_signal = True, lk_query = 0, lk_received = [], lk_signal_after = False \<rparr>],
    dc_hold = [\<lparr> lk_signal = True, lk_query = 0, lk_received = [], lk_signal_after = False \<rparr>], dc_last_rc = 100 \<rparr>"

lemma sample_session: "session_ok sample_prop sample_ctx"
  by (simp add: session_ok_def sample_ctx_simps) (simp add: sample_ctx_def SOCKET_ERROR_def msrp_ctx_zero_def)


end
