(* ===== verification/Inih.thy ===== *)
theory Inih
  imports Cstring
begin

text \<open>
  The parser of configuration files (\<open>avblauncher/inih/ini.c\<close>) with the settings of its header
  file. A stream is a list of bytes that is read line by line into a buffer of 200 bytes, a C
  string is the bytes before the first zero, and the handler is a function on the user's state.
\<close>

section \<open>Strings\<close>

definition INI_MAX_LINE :: nat where "INI_MAX_LINE = 200"
definition MAX_SECTION :: nat where "MAX_SECTION = 50"
definition MAX_NAME :: nat where "MAX_NAME = 50"

abbreviation (input) nl :: u8 where "nl \<equiv> 10"

definition rstrip :: "u8 list \<Rightarrow> u8 list" where
  "rstrip s = rev (dropWhile is_space (rev s))"

definition lskip :: "u8 list \<Rightarrow> u8 list" where
  "lskip s = dropWhile is_space s"

text \<open>The text before and the text from the character or the comment that was found.\<close>

fun find_chars_or_comment :: "(u8 \<Rightarrow> bool) \<Rightarrow> bool \<Rightarrow> u8 list \<Rightarrow> u8 list \<times> u8 list" where
  "find_chars_or_comment chars was_space [] = ([], [])"
| "find_chars_or_comment chars was_space (c # cs) =
    (if chars c \<or> was_space \<and> c = of_char CHR '';'' then ([], c # cs)
     else let (a, b) = find_chars_or_comment chars (is_space c) cs in (c # a, b))"

definition strncpy0 :: "u8 list \<Rightarrow> nat \<Rightarrow> u8 list" where
  "strncpy0 src n = take (n - 1) src"

section \<open>Lines\<close>

record 'u ini_state =
  ini_section :: "u8 list"
  ini_prev_name :: "u8 list"
  ini_error :: nat
  ini_user :: 'u

type_synonym 'u ini_handler = "'u \<Rightarrow> u8 list \<Rightarrow> u8 list \<Rightarrow> u8 list \<Rightarrow> bool \<times> 'u"

definition note_error :: "nat \<Rightarrow> 'u ini_state \<Rightarrow> 'u ini_state" where
  "note_error lineno S = (if ini_error S = 0 then S\<lparr>ini_error := lineno\<rparr> else S)"

definition call_handler ::
  "'u ini_handler \<Rightarrow> nat \<Rightarrow> u8 list \<Rightarrow> u8 list \<Rightarrow> 'u ini_state \<Rightarrow> 'u ini_state" where
  "call_handler handler lineno name value S =
    (let (ok, u) = handler (ini_user S) (ini_section S) name value; S = S\<lparr>ini_user := u\<rparr>
     in if ok then S else note_error lineno S)"

definition BOM :: "u8 list" where "BOM = [0xEF, 0xBB, 0xBF]"

definition is_comment :: "u8 \<Rightarrow> bool" where
  "is_comment c \<longleftrightarrow> c = of_char CHR '';'' \<or> c = of_char CHR ''#''"

definition is_assign :: "u8 \<Rightarrow> bool" where
  "is_assign c \<longleftrightarrow> c = of_char CHR ''='' \<or> c = of_char CHR '':''"

definition ini_section_line :: "nat \<Rightarrow> u8 list \<Rightarrow> 'u ini_state \<Rightarrow> 'u ini_state" where
  "ini_section_line lineno text S =
    (let (a, b) = find_chars_or_comment ((=) (of_char CHR '']'')) False text in
     if take 1 b = [of_char CHR '']'']
     then S\<lparr>ini_section := strncpy0 a MAX_SECTION, ini_prev_name := []\<rparr>
     else note_error lineno S)"

definition ini_value_line :: "'u ini_handler \<Rightarrow> nat \<Rightarrow> u8 list \<Rightarrow> 'u ini_state \<Rightarrow> 'u ini_state" where
  "ini_value_line handler lineno start S =
    (case find_chars_or_comment is_assign False start of
       (a, e # bs) \<Rightarrow>
         if is_assign e then
           let name = rstrip a;
               value = rstrip (fst (find_chars_or_comment (\<lambda>_. False) False (lskip bs)))
           in call_handler handler lineno name value (S\<lparr>ini_prev_name := strncpy0 name MAX_NAME\<rparr>)
         else note_error lineno S
     | (a, []) \<Rightarrow> note_error lineno S)"

definition ini_line :: "'u ini_handler \<Rightarrow> nat \<Rightarrow> u8 list \<Rightarrow> 'u ini_state \<Rightarrow> 'u ini_state" where
  "ini_line handler lineno line S =
    (let s = takeWhile (\<lambda>c. c \<noteq> 0) line;
         bom = (lineno = 1 \<and> take 3 s = BOM);
         s = rstrip (if bom then drop 3 s else s);
         start = lskip s
     in case start of
          [] \<Rightarrow> S
        | c # rest \<Rightarrow>
            if is_comment c then S
            else if ini_prev_name S \<noteq> [] \<and> (bom \<or> start \<noteq> s)
            then call_handler handler lineno (ini_prev_name S) start S
            else if c = of_char CHR ''['' then ini_section_line lineno rest S
            else ini_value_line handler lineno start S)"

section \<open>Streams\<close>

text \<open>One line with its newline, cut at the size of the buffer, and the rest of the stream.\<close>

definition fgets :: "nat \<Rightarrow> u8 list \<Rightarrow> u8 list \<times> u8 list" where
  "fgets n s =
    (let l = (case find_index ((=) nl) s of Some i \<Rightarrow> Suc i | None \<Rightarrow> length s); k = min (n - 1) l
     in (take k s, drop k s))"

lemma fgets_shorter: "s \<noteq> [] \<Longrightarrow> 1 < n \<Longrightarrow> length (snd (fgets n s)) < length s"
  by (cases s) (auto simp: fgets_def Let_def min_def split: option.splits)

function ini_lines :: "'u ini_handler \<Rightarrow> nat \<Rightarrow> u8 list \<Rightarrow> 'u ini_state \<Rightarrow> 'u ini_state" where
  "ini_lines handler lineno s S =
    (if s = [] then S
     else let (line, rest) = fgets INI_MAX_LINE s
       in ini_lines handler (Suc lineno) rest (ini_line handler (Suc lineno) line S))"
  by auto
termination
proof (relation "measure (\<lambda>(_, _, s, _). length s)")
  fix s x and line rest :: "u8 list"
  assume "s \<noteq> []" "x = fgets INI_MAX_LINE s" "(line, rest) = x"
  then show "((handler, Suc lineno, rest, ini_line handler (Suc lineno) line S), handler, lineno, s, S)
      \<in> measure (\<lambda>(_, _, s, _). length s)" for handler lineno S
    using fgets_shorter [of s INI_MAX_LINE] by (auto simp: INI_MAX_LINE_def dest: sym)
qed simp

declare ini_lines.simps [simp del]

definition ini_parse_stream :: "'u ini_handler \<Rightarrow> u8 list \<Rightarrow> 'u \<Rightarrow> nat \<times> 'u" where
  "ini_parse_stream handler s u =
    (let S = ini_lines handler 0 s \<lparr> ini_section = [], ini_prev_name = [], ini_error = 0, ini_user = u \<rparr>
     in (ini_error S, ini_user S))"

definition ini_parse_file :: "'u ini_handler \<Rightarrow> u8 list \<Rightarrow> 'u \<Rightarrow> nat \<times> 'u" where
  "ini_parse_file handler s u = ini_parse_stream handler s u"

text \<open>The content of the file, or nothing when it cannot be opened.\<close>

definition ini_parse :: "u8 list option \<Rightarrow> 'u ini_handler \<Rightarrow> 'u \<Rightarrow> int \<times> 'u" where
  "ini_parse file handler u =
    (case file of None \<Rightarrow> (- 1, u)
     | Some s \<Rightarrow> let (error, u) = ini_parse_file handler s u in (int error, u))"

section \<open>Reading back a configuration file\<close>

text \<open>
  A section with one entry per line; names and values are written as they are, so a name has no
  white space and none of the characters that end it, and a value does not begin or end with
  white space and has no comment character. A line fits the buffer.
\<close>

definition plain_name :: "u8 list \<Rightarrow> bool" where
  "plain_name n \<longleftrightarrow> n \<noteq> [] \<and> hd n \<noteq> of_char CHR ''['' \<and>
    (\<forall>c\<in>set n. \<not> is_space c \<and> c \<noteq> 0 \<and> \<not> is_assign c \<and> \<not> is_comment c)"

definition plain_value :: "u8 list \<Rightarrow> bool" where
  "plain_value v \<longleftrightarrow> (\<forall>c\<in>set v. c \<noteq> 0 \<and> c \<noteq> nl \<and> c \<noteq> of_char CHR '';'') \<and>
    (v = [] \<or> \<not> is_space (hd v) \<and> \<not> is_space (last v))"

definition plain_section :: "u8 list \<Rightarrow> bool" where
  "plain_section s \<longleftrightarrow> length s < MAX_SECTION \<and>
    (\<forall>c\<in>set s. c \<noteq> 0 \<and> c \<noteq> nl \<and> c \<noteq> of_char CHR '']'' \<and> c \<noteq> of_char CHR '';'')"

type_synonym ini_entry = "u8 list \<times> u8 list"

definition plain_entry :: "ini_entry \<Rightarrow> bool" where
  "plain_entry e \<longleftrightarrow> plain_name (fst e) \<and> plain_value (snd e) \<and>
    length (fst e) + length (snd e) + 2 < INI_MAX_LINE"

definition entry_line :: "ini_entry \<Rightarrow> u8 list" where
  "entry_line e = fst e @ [of_char CHR ''=''] @ snd e @ [nl]"

definition section_line :: "u8 list \<Rightarrow> u8 list" where
  "section_line s = [of_char CHR ''[''] @ s @ [of_char CHR '']'', nl]"

definition ini_text :: "u8 list \<Rightarrow> ini_entry list \<Rightarrow> u8 list" where
  "ini_text s es = section_line s @ concat (map entry_line es)"

text \<open>The reference: the handler gets the entries in order, the first refusal is the line reported.\<close>

fun run_entries :: "'u ini_handler \<Rightarrow> u8 list \<Rightarrow> nat \<Rightarrow> nat \<times> 'u \<Rightarrow> ini_entry list \<Rightarrow> nat \<times> 'u" where
  "run_entries h s lineno (e, u) [] = (e, u)"
| "run_entries h s lineno (e, u) ((n, v) # es) =
    (let (ok, u) = h u s n v
     in run_entries h s (Suc lineno) (if \<not> ok \<and> e = 0 then lineno else e, u) es)"

lemma fgets_line:
  assumes "nl \<notin> set l" "length l + 1 < n"
  shows "fgets n (l @ nl # rest) = (l @ [nl], rest)"
proof -
  have "find_index ((=) nl) (l @ nl # rest) = Some (length l)"
    using assms(1) by (induction l) auto
  then show ?thesis using assms(2) by (simp add: fgets_def)
qed

lemma find_none:
  assumes "\<forall>c\<in>set s. \<not> chars c \<and> c \<noteq> of_char CHR '';''"
  shows "find_chars_or_comment chars w (s @ r) =
    (let (a, b) = find_chars_or_comment chars (if s = [] then w else is_space (last s)) r in (s @ a, b))"
  using assms by (induction s arbitrary: w) (auto split: prod.splits)

lemma strip_plain:
  assumes "v = [] \<or> \<not> is_space (hd v) \<and> \<not> is_space (last v)"
  shows "rstrip v = v" "lskip v = v"
proof -
  have "rev v = [] \<or> \<not> is_space (hd (rev v))" using assms by (auto simp: hd_rev)
  then have "dropWhile is_space (rev v) = rev v" by (cases "rev v") auto
  then show "rstrip v = v" by (simp add: rstrip_def)
  show "lskip v = v" using assms by (cases v) (auto simp: lskip_def)
qed

lemma nl_is_space: "is_space nl"
  by (simp add: is_space_def)

lemma rstrip_nl: "rstrip (s @ [nl]) = rstrip s"
  by (simp add: rstrip_def nl_is_space)

lemma c_string_plain: "\<forall>c\<in>set s. c \<noteq> 0 \<Longrightarrow> takeWhile (\<lambda>c. c \<noteq> 0) s = s"
  by (induction s) auto

lemma ini_line_section:
  assumes "plain_section s" "ini_prev_name S = []"
  shows "ini_line h 1 (section_line s) S = S\<lparr>ini_section := s, ini_prev_name := []\<rparr>"
proof -
  let ?x = "of_char CHR ''['' # s @ [of_char CHR '']'']"
  have "\<forall>c\<in>set (?x @ [nl]). c \<noteq> 0" using assms(1) by (auto simp: plain_section_def)
  then have t: "takeWhile (\<lambda>c. c \<noteq> 0) (section_line s) = ?x @ [nl]"
    using c_string_plain [of "?x @ [nl]"] by (simp add: section_line_def)
  have r: "rstrip (?x @ [nl]) = ?x" "lskip ?x = ?x"
    using strip_plain [of ?x] by (simp_all add: rstrip_nl is_space_def del: append_Cons)
  have b: "take 3 (?x @ [nl]) \<noteq> BOM" by (simp add: BOM_def)
  have f: "find_chars_or_comment ((=) (of_char CHR '']'')) False (s @ [of_char CHR '']'']) = (s, [of_char CHR '']''])"
    using find_none [of s "(=) (of_char CHR '']'')" False "[of_char CHR '']'']"] assms(1)
    by (auto simp: plain_section_def)
  have "ini_line h 1 (section_line s) S = ini_section_line 1 (s @ [of_char CHR '']'']) S"
    unfolding ini_line_def t Let_def using b r assms(2) by (simp add: is_comment_def)
  also have "\<dots> = S\<lparr>ini_section := s, ini_prev_name := []\<rparr>"
    unfolding ini_section_line_def f Let_def prod.case
    using assms(1) by (simp add: strncpy0_def plain_section_def MAX_SECTION_def)
  finally show ?thesis .
qed

lemma ini_line_entry:
  assumes "plain_entry (n, v)" "lineno \<noteq> 1"
  shows "ini_line h lineno (entry_line (n, v)) S = call_handler h lineno n v (S\<lparr>ini_prev_name := strncpy0 n MAX_NAME\<rparr>)"
proof -
  let ?eq = "of_char CHR ''='' :: u8"
  let ?x = "n @ ?eq # v"
  have n: "plain_name n" and v: "plain_value v" using assms(1) by (simp_all add: plain_entry_def)
  have eq: "is_assign ?eq" "\<not> is_space ?eq" by (simp_all add: is_assign_def is_space_def)
  obtain c cs where c: "n = c # cs" "\<not> is_space c" "\<not> is_comment c" "c \<noteq> of_char CHR ''[''"
    using n by (cases n) (auto simp: plain_name_def)
  have nz: "\<forall>c\<in>set (?x @ [nl]). c \<noteq> 0" using n v by (auto simp: plain_name_def plain_value_def)
  have t: "takeWhile (\<lambda>c. c \<noteq> 0) (entry_line (n, v)) = ?x @ [nl]"
    using c_string_plain [OF nz] by (simp add: entry_line_def)
  have "\<not> is_space (last ?x)" using v eq(2) by (auto simp: plain_value_def)
  then have r: "rstrip (?x @ [nl]) = ?x" "lskip ?x = ?x"
    using strip_plain [of ?x] c by (simp_all only: rstrip_nl) simp_all
  have f: "find_chars_or_comment is_assign False ?x = (n, ?eq # v)"
    using find_none [of n is_assign False "?eq # v"] n eq(1) by (auto simp: plain_name_def is_comment_def)
  have g: "fst (find_chars_or_comment (\<lambda>_. False) False v) = v"
    using find_none [of v "\<lambda>_. False" False "[]"] v by (auto simp: plain_value_def)
  have sv: "lskip v = v" "rstrip v = v" using v strip_plain [of v] by (auto simp: plain_value_def)
  have sn: "rstrip n = n" using n strip_plain [of n] by (auto simp: plain_name_def)
  have "ini_line h lineno (entry_line (n, v)) S = ini_value_line h lineno ?x S"
    unfolding ini_line_def t Let_def using r assms(2) c by simp
  also have "\<dots> = call_handler h lineno n v (S\<lparr>ini_prev_name := strncpy0 n MAX_NAME\<rparr>)"
    unfolding ini_value_line_def f prod.case list.case Let_def by (simp only: eq g sv sn if_True)
  finally show ?thesis .
qed

lemma ini_lines_line:
  assumes "nl \<notin> set l" "length l + 1 < INI_MAX_LINE"
  shows "ini_lines h lineno (l @ nl # rest) S = ini_lines h (Suc lineno) rest (ini_line h (Suc lineno) (l @ [nl]) S)"
  using fgets_line [OF assms] by (subst ini_lines.simps) simp

lemma ini_lines_entries:
  assumes "\<forall>e\<in>set es. plain_entry e" "0 < lineno"
  shows "(let S' = ini_lines h lineno (concat (map entry_line es)) S in (ini_error S', ini_user S')) =
    run_entries h (ini_section S) (Suc lineno) (ini_error S, ini_user S) es"
  using assms
proof (induction es arbitrary: lineno S)
  case Nil
  then show ?case by (simp add: ini_lines.simps)
next
  case (Cons e es)
  obtain n v where e: "e = (n, v)" by fastforce
  have p: "plain_entry (n, v)" using Cons.prems(1) e by simp
  have l: "nl \<notin> set (n @ of_char CHR ''='' # v)" "length (n @ of_char CHR ''='' # v) + 1 < INI_MAX_LINE"
    using p nl_is_space by (auto simp: plain_entry_def plain_name_def plain_value_def)
  let ?S = "call_handler h (Suc lineno) n v (S\<lparr>ini_prev_name := strncpy0 n MAX_NAME\<rparr>)"
  have "ini_lines h lineno (concat (map entry_line (e # es))) S =
      ini_lines h (Suc lineno) (concat (map entry_line es)) (ini_line h (Suc lineno) (entry_line (n, v)) S)"
    using ini_lines_line [OF l, of h lineno "concat (map entry_line es)" S] by (simp add: e entry_line_def)
  then have s: "ini_lines h lineno (concat (map entry_line (e # es))) S =
      ini_lines h (Suc lineno) (concat (map entry_line es)) ?S"
    using ini_line_entry [OF p, of "Suc lineno" h S] Cons.prems(2) by simp
  obtain ok u where h: "h (ini_user S) (ini_section S) n v = (ok, u)" by fastforce
  have "ini_section ?S = ini_section S" "ini_user ?S = u"
    "ini_error ?S = (if \<not> ok \<and> ini_error S = 0 then Suc lineno else ini_error S)"
    by (simp_all add: call_handler_def note_error_def h Let_def)
  then show ?case
    using Cons.IH [of "Suc lineno" ?S] Cons.prems(1) s h by (simp add: e Let_def)
qed

lemma ini_text_read:
  assumes "plain_section s" "\<forall>e\<in>set es. plain_entry e"
  shows "ini_parse_stream h (ini_text s es) u = run_entries h s 2 (0, u) es"
proof -
  let ?S = "\<lparr> ini_section = [], ini_prev_name = [], ini_error = 0, ini_user = u \<rparr>"
  let ?l = "of_char CHR ''['' # s @ [of_char CHR '']'']"
  have l: "nl \<notin> set ?l" "length ?l + 1 < INI_MAX_LINE"
    using assms(1) by (auto simp: plain_section_def MAX_SECTION_def INI_MAX_LINE_def)
  have "ini_lines h 0 (ini_text s es) ?S = ini_lines h 1 (concat (map entry_line es)) (ini_line h 1 (section_line s) ?S)"
    using ini_lines_line [OF l, of h 0 "concat (map entry_line es)" ?S] by (simp add: ini_text_def section_line_def)
  moreover have "ini_line h 1 (section_line s) ?S = ?S\<lparr>ini_section := s, ini_prev_name := []\<rparr>"
    by (rule ini_line_section [OF assms(1)]) simp
  ultimately show ?thesis
    using ini_lines_entries [OF assms(2), of 1 h "?S\<lparr>ini_section := s, ini_prev_name := []\<rparr>"]
    by (simp add: ini_parse_stream_def Let_def numeral_2_eq_2)
qed

text \<open>
  C27: Parsing a written configuration file calls the handler with exactly the names and values
  that were written, in order, and reports the line of the first entry the handler refuses.
\<close>
theorem written_configuration_is_read_back:
  assumes "plain_section s" "\<forall>e\<in>set es. plain_entry e"
  shows "ini_parse (Some (ini_text s es)) h u = (let (e, u) = run_entries h s 2 (0, u) es in (int e, u))"
  by (simp add: ini_parse_def ini_parse_file_def ini_text_read [OF assms])

text \<open>A handler that keeps what it gets and refuses one name.\<close>

definition sample_handler :: "(u8 list \<times> u8 list \<times> u8 list) list ini_handler" where
  "sample_handler u s n v = (n \<noteq> ascii ''UID'', u @ [(s, n, v)])"

lemma written_configuration_is_read_back_witness:
  "ini_parse (Some (ini_text (ascii ''avblauncher'')
      [(ascii ''MODE'', ascii ''talker''), (ascii ''UID'', ascii ''1''), (ascii ''CMD'', ascii ''a b'')])) sample_handler [] =
    (3, [(ascii ''avblauncher'', ascii ''MODE'', ascii ''talker''), (ascii ''avblauncher'', ascii ''UID'', ascii ''1''),
      (ascii ''avblauncher'', ascii ''CMD'', ascii ''a b'')])"
proof -
  have "plain_section (ascii ''avblauncher'')"
    "\<forall>e\<in>set [(ascii ''MODE'', ascii ''talker''), (ascii ''UID'', ascii ''1''), (ascii ''CMD'', ascii ''a b'')]. plain_entry e"
    by code_simp+
  then show ?thesis
    by (subst written_configuration_is_read_back) (simp_all add: sample_handler_def ascii_def)
qed

end
