(* ===== verification/Launcher_Config.thy ===== *)
theory Launcher_Config
  imports Inih Mrpdummy
begin

unbundle bit_operations_syntax

text \<open>
  The contexts of the launcher (\<open>avblauncher/avblauncher.c\<close>): the settings of a configuration
  file, the handler that stores them, and the checks that decide whether a context is run. A
  string is the bytes before its terminator; the strings that are copied come from a line of the
  file and are shorter than the buffers. The thread, the descriptor of the AVDECC entity and the
  mapped clock data are kept where they are used.
\<close>

section \<open>Data\<close>

datatype MODE_TYPE = LISTENER_MODE | TALKER_MODE

datatype INDEX_CONTEXT_MEMBER =
  IDX_OPERATING_MODE | IDX_USE_GPTP | IDX_USE_SRP | IDX_USE_AVDECC | IDX_SR_CLASS | IDX_SR_PRIORITY |
  IDX_VID | IDX_UID | IDX_STREAM_ID | IDX_DEST_ADDR | IDX_MAXFRAMESIZE | IDX_FRAMEINTERVALS |
  IDX_LATENCY | IDX_APPLICATION

record app_context =
  operating_mode :: MODE_TYPE
  use_gptp :: bool
  use_srp :: bool
  use_maap :: bool
  use_avdecc :: bool
  ac_srclass :: u64
  ac_srpriority :: u64
  ac_vid :: u64
  ac_uid :: u64
  ac_streamid :: "u8 list"
  ac_src_addr :: "u8 list"
  ac_dest_addr :: "u8 list"
  ac_maxframesize :: u64
  ac_frameintervals :: u64
  ac_latency :: u64
  mrpdummy_pid :: int
  app_pid :: int
  app_cmd :: "u8 list"
  err_flag :: bool
  gptp_shm_addr :: bool
  ac_required :: "INDEX_CONTEXT_MEMBER \<Rightarrow> bool"
  ini_name :: "u8 list"
  avdecc_entity :: "u8 list"
  eth_interface :: "u8 list"

text \<open>The contexts are allocated with zeros; a mode of zero is the listener mode.\<close>

definition context_zero :: app_context where
  "context_zero = \<lparr> operating_mode = LISTENER_MODE, use_gptp = False, use_srp = False, use_maap = False,
    use_avdecc = False, ac_srclass = 0, ac_srpriority = 0, ac_vid = 0, ac_uid = 0, ac_streamid = replicate 8 0,
    ac_src_addr = replicate 6 0, ac_dest_addr = replicate 6 0, ac_maxframesize = 0, ac_frameintervals = 0,
    ac_latency = 0, mrpdummy_pid = 0, app_pid = 0, app_cmd = [], err_flag = False, gptp_shm_addr = False,
    ac_required = (\<lambda>_. False), ini_name = [], avdecc_entity = [], eth_interface = [] \<rparr>"

section \<open>Settings\<close>

text \<open>A setting is stored or refused; a number is stored even when it is refused.\<close>

definition assigned_uint64_data :: "u8 list \<Rightarrow> bool \<times> u64" where
  "assigned_uint64_data value =
    (let (v, rest, out_of_range) = strto ConvD value in (\<not> out_of_range \<and> rest \<noteq> value, v))"

definition assigned_bool_data :: "u8 list \<Rightarrow> u8 list \<Rightarrow> u8 list \<Rightarrow> bool option" where
  "assigned_bool_data param1 param2 value =
    (if strcasecmp_eq param1 value then Some True
     else if strcasecmp_eq param2 value then Some False else None)"

type_synonym ini_setter = "app_context \<Rightarrow> u8 list \<Rightarrow> bool \<times> app_context"

definition set_number :: "(u64 \<Rightarrow> app_context \<Rightarrow> app_context) \<Rightarrow> ini_setter" where
  "set_number f ctx value = (let (ok, v) = assigned_uint64_data value in (ok, f v ctx))"

definition set_flag :: "(bool \<Rightarrow> app_context \<Rightarrow> app_context) \<Rightarrow> ini_setter" where
  "set_flag f ctx value =
    (case assigned_bool_data (ascii ''enable'') (ascii ''disable'') value of
       Some b \<Rightarrow> (True, f b ctx) | None \<Rightarrow> (False, ctx))"

definition ini2ctx_mode :: ini_setter where
  "ini2ctx_mode ctx value =
    (if strcasecmp_eq (ascii ''talker'') value then (True, ctx\<lparr>operating_mode := TALKER_MODE\<rparr>)
     else if strcasecmp_eq (ascii ''listener'') value then (True, ctx\<lparr>operating_mode := LISTENER_MODE\<rparr>)
     else (False, ctx))"

definition ini2ctx_gptp :: ini_setter where
  "ini2ctx_gptp = set_flag (\<lambda>b. use_gptp_update (\<lambda>_. b))"
definition ini2ctx_srp :: ini_setter where
  "ini2ctx_srp = set_flag (\<lambda>b. use_srp_update (\<lambda>_. b))"

definition ini2ctx_avdecc :: ini_setter where
  "ini2ctx_avdecc ctx value =
    (if strcasecmp_eq (ascii ''disable'') value then (True, ctx\<lparr>use_avdecc := False\<rparr>)
     else (True, ctx\<lparr>use_avdecc := True, avdecc_entity := value\<rparr>))"

text \<open>
  \<open>sscanf\<close> stores the bytes it converts, up to the first that fails, and reports the end of the
  input only when there is nothing to convert.
\<close>

definition scan_bytes :: "nat \<Rightarrow> u8 list \<Rightarrow> u8 list" where
  "scan_bytes n s =
    map ucast (sscanf (Conv (ConvX None) # concat (replicate (n - 1) [Lit (ch CHR '':''), Conv (ConvX None)])) s)"

definition store_bytes :: "nat \<Rightarrow> u8 list \<Rightarrow> u8 list \<Rightarrow> u8 list option" where
  "store_bytes n old value =
    (if dropWhile is_space value = [] then None
     else let vs = scan_bytes n value in Some (vs @ drop (length vs) old))"

text \<open>Bytes between colons, the format that is also printed.\<close>

fun print_bytes :: "u8 list \<Rightarrow> u8 list" where
  "print_bytes [] = []"
| "print_bytes [b] = print_hex 2 b"
| "print_bytes (b # c # bs) = print_hex 2 b @ ch CHR '':'' # print_bytes (c # bs)"

definition ini2ctx_destaddr :: ini_setter where
  "ini2ctx_destaddr ctx value =
    (if strcasecmp_eq (ascii ''maap'') value then (True, ctx\<lparr>use_maap := True\<rparr>)
     else let ctx = ctx\<lparr>use_maap := False\<rparr> in
       case store_bytes 6 (ac_dest_addr ctx) value of
         Some a \<Rightarrow> (True, ctx\<lparr>ac_dest_addr := a\<rparr>) | None \<Rightarrow> (False, ctx))"

definition ini2ctx_streamid :: ini_setter where
  "ini2ctx_streamid ctx value =
    (case store_bytes 8 (ac_streamid ctx) value of
       Some a \<Rightarrow> (True, ctx\<lparr>ac_streamid := a\<rparr>) | None \<Rightarrow> (False, ctx))"

definition ini2ctx_application :: ini_setter where
  "ini2ctx_application ctx value = (True, ctx\<lparr>app_cmd := value\<rparr>)"

definition ini2ctx_srclass :: ini_setter where
  "ini2ctx_srclass = set_number (\<lambda>v. ac_srclass_update (\<lambda>_. v))"
definition ini2ctx_srpriority :: ini_setter where
  "ini2ctx_srpriority = set_number (\<lambda>v. ac_srpriority_update (\<lambda>_. v))"
definition ini2ctx_vid :: ini_setter where
  "ini2ctx_vid = set_number (\<lambda>v. ac_vid_update (\<lambda>_. v))"
definition ini2ctx_uid :: ini_setter where
  "ini2ctx_uid = set_number (\<lambda>v. ac_uid_update (\<lambda>_. v))"
definition ini2ctx_maxframesize :: ini_setter where
  "ini2ctx_maxframesize = set_number (\<lambda>v. ac_maxframesize_update (\<lambda>_. v))"
definition ini2ctx_frameintervals :: ini_setter where
  "ini2ctx_frameintervals = set_number (\<lambda>v. ac_frameintervals_update (\<lambda>_. v))"
definition ini2ctx_latency :: ini_setter where
  "ini2ctx_latency = set_number (\<lambda>v. ac_latency_update (\<lambda>_. v))"

definition parser_table :: "(INDEX_CONTEXT_MEMBER \<times> u8 list \<times> ini_setter) list" where
  "parser_table =
    [(IDX_OPERATING_MODE, ascii ''MODE'', ini2ctx_mode), (IDX_USE_GPTP, ascii ''GPTP'', ini2ctx_gptp),
     (IDX_USE_SRP, ascii ''SRP'', ini2ctx_srp), (IDX_USE_AVDECC, ascii ''AVDECC'', ini2ctx_avdecc),
     (IDX_SR_CLASS, ascii ''SR_CLASS'', ini2ctx_srclass), (IDX_SR_PRIORITY, ascii ''SR_PRIORITY'', ini2ctx_srpriority),
     (IDX_VID, ascii ''VLAN_ID'', ini2ctx_vid), (IDX_UID, ascii ''UNIQUE_ID'', ini2ctx_uid),
     (IDX_STREAM_ID, ascii ''STREAM_ID'', ini2ctx_streamid), (IDX_DEST_ADDR, ascii ''DEST_ADDR'', ini2ctx_destaddr),
     (IDX_MAXFRAMESIZE, ascii ''MAX_FRAMESIZE'', ini2ctx_maxframesize),
     (IDX_FRAMEINTERVALS, ascii ''FRAME_INTERVALS'', ini2ctx_frameintervals),
     (IDX_LATENCY, ascii ''LATENCY'', ini2ctx_latency), (IDX_APPLICATION, ascii ''APPLICATION'', ini2ctx_application)]"

definition ini_parse_handler :: "app_context ini_handler" where
  "ini_parse_handler ctx section name value =
    (if \<not> strcasecmp_eq (ascii ''avblauncher'') section then (False, ctx)
     else case find_index (\<lambda>(_, n, _). name = n) parser_table of
       None \<Rightarrow> (False, ctx)
     | Some i \<Rightarrow>
        let (index, _, func) = parser_table ! i; (ok, ctx) = func ctx value
        in if ok then (True, ctx\<lparr>ac_required := (ac_required ctx)(index := True)\<rparr>) else (False, ctx))"

section \<open>Checks\<close>

definition in_range :: "u64 \<Rightarrow> u64 \<Rightarrow> u64 \<Rightarrow> bool" where
  "in_range low high v \<longleftrightarrow> \<not> (v < low \<or> high < v)"

definition given :: "INDEX_CONTEXT_MEMBER \<Rightarrow> app_context \<Rightarrow> bool" where
  "given i ctx \<longleftrightarrow> ac_required ctx i"

definition context_error_check :: "app_context \<Rightarrow> int" where
  "context_error_check ctx =
    (let err_flag = \<not> given IDX_OPERATING_MODE ctx;
         err_flag = (err_flag \<or> \<not> given IDX_USE_GPTP ctx);
         err_flag = (err_flag \<or> \<not> given IDX_USE_SRP ctx);
         err_flag = (err_flag \<or> \<not> given IDX_USE_AVDECC ctx);
         err_flag = (err_flag \<or> \<not> given IDX_SR_CLASS ctx \<or> \<not> in_range 0 7 (ac_srclass ctx));
         err_flag = (err_flag \<or> \<not> given IDX_SR_PRIORITY ctx \<or> \<not> in_range 0 7 (ac_srpriority ctx));
         err_flag = (err_flag \<or> \<not> given IDX_VID ctx \<or> \<not> in_range 1 4094 (ac_vid ctx));
         err_flag = (err_flag \<or> \<not> given IDX_APPLICATION ctx);
         err_flag = (if operating_mode ctx = LISTENER_MODE then err_flag \<or> \<not> given IDX_STREAM_ID ctx
           else err_flag \<or>
             (\<not> given IDX_UID ctx \<or> \<not> in_range 1 65535 (ac_uid ctx)) \<or> \<not> given IDX_DEST_ADDR ctx \<or>
             (\<not> given IDX_MAXFRAMESIZE ctx \<or> \<not> in_range 46 1500 (ac_maxframesize ctx)) \<or>
             (\<not> given IDX_FRAMEINTERVALS ctx \<or> \<not> in_range 1 65535 (ac_frameintervals ctx)) \<or>
             (\<not> given IDX_LATENCY ctx \<or> \<not> in_range 0 4294967295 (ac_latency ctx)))
     in if err_flag then - 1 else 0)"

definition check_and_update_ctx_data ::
  "bool \<Rightarrow> u8 list \<Rightarrow> bool \<Rightarrow> int \<Rightarrow> app_context \<Rightarrow> int \<times> app_context" where
  "check_and_update_ctx_data srp_daemon_started src_addr daemon_cl_shm_addr maap_socket ctx =
    (let ctx = (if use_gptp ctx \<and> \<not> daemon_cl_shm_addr then ctx\<lparr>err_flag := True\<rparr> else ctx);
         ctx = (if use_srp ctx \<and> \<not> srp_daemon_started then ctx\<lparr>err_flag := True\<rparr> else ctx);
         ctx = (if use_maap ctx \<and> operating_mode ctx = TALKER_MODE \<and> maap_socket = 0
           then ctx\<lparr>err_flag := True\<rparr> else ctx);
         ctx = (if context_error_check ctx < 0 then ctx\<lparr>err_flag := True\<rparr> else ctx);
         ctx = ctx\<lparr>ac_src_addr := take 6 src_addr, gptp_shm_addr := daemon_cl_shm_addr\<rparr>
     in (if err_flag ctx then - 1 else 0, ctx))"

section \<open>Creating the contexts\<close>

definition generate_ctx_data :: "u8 list option \<Rightarrow> app_context \<Rightarrow> int \<times> app_context" where
  "generate_ctx_data file ctx =
    (let (rc, ctx) = ini_parse file ini_parse_handler ctx in (if rc < 0 then - 1 else 0, ctx))"

text \<open>The files are given by their names and contents; the contexts that were created are returned.\<close>

fun create_contexts :: "(u8 list \<times> u8 list option) list \<Rightarrow> app_context list" where
  "create_contexts [] = []"
| "create_contexts ((name, file) # files) =
    (let (rc, ctx) = generate_ctx_data file context_zero in
     if rc < 0 then create_contexts files else ctx\<lparr>ini_name := name\<rparr> # create_contexts files)"

end
