(* ===== verification/Launcher_Config_Props.thy ===== *)
theory Launcher_Config_Props
  imports Launcher_Config
begin

unbundle bit_operations_syntax

text \<open>
  Properties of the contexts of the launcher: an accepted context has every setting its mode
  needs within its range and every daemon it needs, and a configuration file with the settings
  of a context configures that context.
\<close>

section \<open>Accepted contexts\<close>

definition valid_context :: "app_context \<Rightarrow> bool" where
  "valid_context c \<longleftrightarrow> ac_srclass c \<le> 7 \<and> ac_srpriority c \<le> 7 \<and> 1 \<le> ac_vid c \<and> ac_vid c \<le> 4094 \<and>
    (\<forall>i\<in>{IDX_OPERATING_MODE, IDX_USE_GPTP, IDX_USE_SRP, IDX_USE_AVDECC, IDX_SR_CLASS, IDX_SR_PRIORITY, IDX_VID,
      IDX_APPLICATION}. given i c) \<and>
    (case operating_mode c of LISTENER_MODE \<Rightarrow> given IDX_STREAM_ID c
     | TALKER_MODE \<Rightarrow> given IDX_DEST_ADDR c \<and> given IDX_UID c \<and> 1 \<le> ac_uid c \<and> ac_uid c \<le> 65535 \<and>
        given IDX_MAXFRAMESIZE c \<and> 46 \<le> ac_maxframesize c \<and> ac_maxframesize c \<le> 1500 \<and>
        given IDX_FRAMEINTERVALS c \<and> 1 \<le> ac_frameintervals c \<and> ac_frameintervals c \<le> 65535 \<and>
        given IDX_LATENCY c \<and> ac_latency c \<le> 4294967295)"

lemma in_range_iff: "in_range l h v \<longleftrightarrow> l \<le> v \<and> v \<le> h"
  by (auto simp: in_range_def not_less)

lemma context_error_check_valid: "context_error_check c = 0 \<longleftrightarrow> valid_context c"
  by (cases "operating_mode c") (auto simp: context_error_check_def valid_context_def in_range_iff Let_def)

definition services_running :: "bool \<Rightarrow> bool \<Rightarrow> int \<Rightarrow> app_context \<Rightarrow> bool" where
  "services_running srp gptp maap c \<longleftrightarrow> (use_gptp c \<longrightarrow> gptp) \<and> (use_srp c \<longrightarrow> srp) \<and>
    (use_maap c \<and> operating_mode c = TALKER_MODE \<longrightarrow> maap \<noteq> 0)"


section \<open>Settings that are written are read back\<close>

lemma strto_print_u:
  assumes "uint (v :: u64) < 2 ^ 63"
  shows "strto ConvD (print_u v) = (v, [], False)"
proof -
  let ?ds = "digits digit_char 10 (uint v)"
  have ds: "\<forall>c\<in>set ?ds. is_digit 10 c" using set_digits [of 10 "uint v"] by simp
  have "convert ConvD (?ds @ []) = Some (clamp_long ConvD False (digits_value 10 ?ds), [])"
    using convert_digits [of ?ds ConvD "[]" "[]"] ds by (simp add: conv_base_def conv_input_def ends_number_def)
  moreover have n: "digits_value 10 ?ds = uint v" by (simp add: digits_value_digits)
  ultimately have c: "convert ConvD ?ds = Some (v, [])" using assms by (simp add: clamp_long_def)
  obtain d ds' where d: "?ds = d # ds'" by (meson digits_not_Nil neq_Nil_conv)
  have hd: "hex_digit (hd ?ds) \<noteq> None" using ds d is_digit_hex by auto
  have sp: "dropWhile is_space ?ds = ?ds" using hd hex_digit_char_class d by auto
  have sg: "split_sign ?ds = (False, ?ds)" using split_sign_digit hd by blast
  have tw: "takeWhile (is_digit 10) ?ds = ?ds" using takeWhile_digits [OF ds, of "[]"] by (simp add: ends_number_def)
  show ?thesis using assms by (simp add: strto_def print_u_def conv_base_def c sp sg tw n)
qed

lemma number_setting:
  assumes "uint (v :: u64) < 2 ^ 63"
  shows "set_number f ctx (print_u v) = (True, f v ctx)"
  using strto_print_u [OF assms] by (simp add: set_number_def assigned_uint64_data_def print_u_def digits_not_Nil [symmetric])

lemma convert_print_byte:
  assumes "ends_number rest"
  shows "convert (ConvX None) (print_hex 2 (b :: u8) @ rest) = Some (ucast b, rest)"
proof -
  let ?ds = "pad0 2 (digits digit_char 16 (uint b))"
  have "convert (ConvX None) (?ds @ rest) = Some (clamp_long (ConvX None) False (digits_value 16 ?ds), rest)"
    using convert_digits [of ?ds "ConvX None" rest rest] set_pad_digits [of 16 "uint b" _ 2] assms
    by (simp add: conv_base_def conv_input_def)
  moreover have "uint b < 256" using uint_lt2p [of b] by simp
  ultimately show ?thesis by (simp add: print_hex_def pad_digits_value clamp_long_def)
qed

lemma ends_number_colon: "ends_number (ch CHR '':'' # s)"
  by (simp add: ends_number_def ch_def hex_digit_def)

lemma scan_print_bytes:
  "bs \<noteq> [] \<Longrightarrow> scan_bytes (length bs) (print_bytes bs) = bs"
proof -
  have "sscanf (Conv (ConvX None) # concat (replicate (length bs - 1) [Lit (ch CHR '':''), Conv (ConvX None)])) (print_bytes bs) =
      map ucast bs" if "bs \<noteq> []" for bs :: "u8 list"
    using that
  proof (induction bs rule: print_bytes.induct)
    case (2 b)
    then show ?case using convert_print_byte [of "[]" b] by (simp add: ends_number_def)
  next
    case (3 b c bs)
    then show ?case using convert_print_byte [OF ends_number_colon] by simp
  qed simp
  moreover have "(ucast :: u64 \<Rightarrow> u8) \<circ> (ucast :: u8 \<Rightarrow> u64) = id"
    by (rule ext, rule bit_word_eqI) (simp add: bit_simps)
  ultimately show "bs \<noteq> [] \<Longrightarrow> scan_bytes (length bs) (print_bytes bs) = bs"
    unfolding scan_bytes_def by (simp del: sscanf.simps)
qed

text \<open>The settings of a context, in the order of the table.\<close>

definition print_switch :: "bool \<Rightarrow> u8 list" where
  "print_switch b = (if b then ascii ''enable'' else ascii ''disable'')"

definition settings :: "app_context \<Rightarrow> ini_entry list" where
  "settings c =
    [(ascii ''MODE'', case operating_mode c of TALKER_MODE \<Rightarrow> ascii ''talker'' | LISTENER_MODE \<Rightarrow> ascii ''listener''),
     (ascii ''GPTP'', print_switch (use_gptp c)), (ascii ''SRP'', print_switch (use_srp c)),
     (ascii ''AVDECC'', if use_avdecc c then avdecc_entity c else ascii ''disable''),
     (ascii ''SR_CLASS'', print_u (ac_srclass c)), (ascii ''SR_PRIORITY'', print_u (ac_srpriority c)),
     (ascii ''VLAN_ID'', print_u (ac_vid c)), (ascii ''UNIQUE_ID'', print_u (ac_uid c)),
     (ascii ''STREAM_ID'', print_bytes (ac_streamid c)),
     (ascii ''DEST_ADDR'', if use_maap c then ascii ''maap'' else print_bytes (ac_dest_addr c)),
     (ascii ''MAX_FRAMESIZE'', print_u (ac_maxframesize c)), (ascii ''FRAME_INTERVALS'', print_u (ac_frameintervals c)),
     (ascii ''LATENCY'', print_u (ac_latency c)), (ascii ''APPLICATION'', app_cmd c)]"

definition configured :: "app_context \<Rightarrow> app_context" where
  "configured c = context_zero\<lparr>operating_mode := operating_mode c, use_gptp := use_gptp c, use_srp := use_srp c,
    use_maap := use_maap c, use_avdecc := use_avdecc c, ac_srclass := ac_srclass c, ac_srpriority := ac_srpriority c,
    ac_vid := ac_vid c, ac_uid := ac_uid c, ac_streamid := ac_streamid c,
    ac_dest_addr := (if use_maap c then replicate 6 0 else ac_dest_addr c), ac_maxframesize := ac_maxframesize c,
    ac_frameintervals := ac_frameintervals c, ac_latency := ac_latency c, app_cmd := app_cmd c,
    avdecc_entity := (if use_avdecc c then avdecc_entity c else []), ac_required := (\<lambda>_. True)\<rparr>"

definition writable :: "app_context \<Rightarrow> bool" where
  "writable c \<longleftrightarrow> length (ac_streamid c) = 8 \<and> length (ac_dest_addr c) = 6 \<and>
    (\<forall>v\<in>{ac_srclass c, ac_srpriority c, ac_vid c, ac_uid c, ac_maxframesize c, ac_frameintervals c, ac_latency c}.
      uint v < 2 ^ 63) \<and>
    plain_value (app_cmd c) \<and> length (app_cmd c) < 187 \<and> plain_value (avdecc_entity c) \<and>
    length (avdecc_entity c) < 192 \<and> map to_lower (avdecc_entity c) \<noteq> ascii ''disable''"

text \<open>The handler finds the setter of every name of the table.\<close>

lemma find_index_map: "find_index P (map f xs) = find_index (P \<circ> f) xs"
  by (induction xs) auto

definition setting_names :: "u8 list list" where
  "setting_names = map (fst \<circ> snd) parser_table"

lemma setting_names_eq:
  "setting_names = map ascii [''MODE'', ''GPTP'', ''SRP'', ''AVDECC'', ''SR_CLASS'', ''SR_PRIORITY'', ''VLAN_ID'', ''UNIQUE_ID'',
    ''STREAM_ID'', ''DEST_ADDR'', ''MAX_FRAMESIZE'', ''FRAME_INTERVALS'', ''LATENCY'', ''APPLICATION'']"
  by (simp add: setting_names_def parser_table_def)

lemma setting_found: "i < 14 \<Longrightarrow> find_index ((=) (setting_names ! i)) setting_names = Some i"
proof -
  have "list_all (\<lambda>i. find_index ((=) (setting_names ! i)) setting_names = Some i) [0..<14]"
    unfolding setting_names_eq by code_simp
  then show "i < 14 \<Longrightarrow> find_index ((=) (setting_names ! i)) setting_names = Some i" by (simp add: list_all_iff)
qed

lemma handler_sets:
  assumes "i < 14" "parser_table ! i = (idx, n, f)" "f ctx v = (True, ctx')"
  shows "ini_parse_handler ctx (ascii ''avblauncher'') n v = (True, ctx'\<lparr>ac_required := (ac_required ctx')(idx := True)\<rparr>)"
proof -
  have "length parser_table = 14" by (simp add: parser_table_def)
  then have n: "setting_names ! i = n" using assms(1,2) by (simp add: setting_names_def)
  have "find_index (\<lambda>(_, m, _). n = m) parser_table = Some i"
    using setting_found [OF assms(1)] unfolding n unfolding setting_names_def find_index_map by (simp add: o_def case_prod_unfold)
  then show ?thesis using assms by (simp add: ini_parse_handler_def strcasecmp_eq_def)
qed

lemma switch_setting: "set_flag f ctx (print_switch b) = (True, f b ctx)"
proof -
  have "assigned_bool_data (ascii ''enable'') (ascii ''disable'') (print_switch True) = Some True"
    "assigned_bool_data (ascii ''enable'') (ascii ''disable'') (print_switch False) = Some False"
    by code_simp+
  then show ?thesis by (cases b) (simp_all add: set_flag_def)
qed

lemma mode_setting:
  "ini2ctx_mode ctx (case m of TALKER_MODE \<Rightarrow> ascii ''talker'' | LISTENER_MODE \<Rightarrow> ascii ''listener'') =
    (True, ctx\<lparr>operating_mode := m\<rparr>)"
proof -
  have "strcasecmp_eq (ascii ''talker'') (ascii ''talker'')" "\<not> strcasecmp_eq (ascii ''talker'') (ascii ''listener'')"
    "strcasecmp_eq (ascii ''listener'') (ascii ''listener'')"
    by code_simp+
  then show ?thesis by (cases m) (simp_all add: ini2ctx_mode_def)
qed

lemma avdecc_setting:
  assumes "map to_lower e \<noteq> ascii ''disable''"
  shows "ini2ctx_avdecc ctx (if b then e else ascii ''disable'') =
    (True, if b then ctx\<lparr>use_avdecc := True, avdecc_entity := e\<rparr> else ctx\<lparr>use_avdecc := False\<rparr>)"
proof -
  have "map to_lower (ascii ''disable'') = ascii ''disable''" by code_simp
  then show ?thesis using assms by (auto simp: ini2ctx_avdecc_def strcasecmp_eq_def)
qed

text \<open>What is printed is a plain value.\<close>

definition printed_char :: "u8 \<Rightarrow> bool" where
  "printed_char c \<longleftrightarrow> hex_digit c \<noteq> None \<or> c = ch CHR '':''"

lemma plain_printed:
  assumes "\<forall>c\<in>set s. printed_char c"
  shows "plain_value s"
proof -
  have "\<not> is_space c \<and> c \<noteq> 0 \<and> c \<noteq> 10 \<and> c \<noteq> of_char CHR '';''" if "printed_char c" for c
    using that hex_digit_char_class [of c]
    by (auto simp: printed_char_def ch_def is_space_def hex_digit_def)
  then show ?thesis using assms by (cases "s = []") (auto simp: plain_value_def)
qed

lemma printed_hex: "c \<in> set (print_hex w v) \<Longrightarrow> printed_char c"
  using print_hex_chars by (auto simp: printed_char_def)

lemma printed_u: "c \<in> set (print_u v) \<Longrightarrow> printed_char c"
  using set_digits [of 10 "uint v" c] is_digit_hex by (auto simp: print_u_def printed_char_def)

lemma printed_bytes: "c \<in> set (print_bytes bs) \<Longrightarrow> printed_char c"
proof (induction bs rule: print_bytes.induct)
  case (3 b d bs)
  then show ?case by (auto simp: printed_char_def dest: printed_hex)
qed (auto dest: printed_hex)

lemma length_print_u64: "length (print_u (v :: u64)) \<le> 20"
  using length_digits [of 10 "uint v" 20 digit_char] uint_lt2p [of v] by (simp add: print_u_def)

lemma length_print_byte: "length (print_hex 2 (b :: u8)) \<le> 2"
  using length_digits [of 16 "uint b" 2 digit_char] uint_lt2p [of b] by (simp add: print_hex_def length_pad0)

lemma length_print_bytes: "length (print_bytes bs) \<le> 3 * length bs"
proof (induction bs rule: print_bytes.induct)
  case (2 b)
  then show ?case using length_print_byte [of b] by simp
next
  case (3 b c bs)
  then show ?case using length_print_byte [of b] by simp
qed simp

lemma settings_plain:
  assumes "writable c"
  shows "\<forall>e\<in>set (settings c). plain_entry e"
proof -
  have names: "\<forall>n\<in>set setting_names. plain_name n \<and> length n \<le> 15"
    unfolding setting_names_eq by code_simp
  have u: "plain_value (print_u (v :: u64))" "length (print_u (v :: u64)) \<le> 180" for v
    using plain_printed printed_u length_print_u64 [of v] by auto
  have b: "plain_value (print_bytes bs)" for bs using plain_printed printed_bytes by auto
  have l: "length (print_bytes (ac_streamid c)) \<le> 180" "length (print_bytes (ac_dest_addr c)) \<le> 180"
    using length_print_bytes [of "ac_streamid c"] length_print_bytes [of "ac_dest_addr c"] assms by (simp_all add: writable_def)
  have w: "plain_value (ascii ''talker'')" "plain_value (ascii ''listener'')" "plain_value (ascii ''maap'')"
    "plain_value (ascii ''enable'')" "plain_value (ascii ''disable'')" by code_simp+
  have small: "plain_entry (n, v)" if "n \<in> set setting_names" "plain_value v" "length v \<le> 180" for n v
    using names that by (auto simp: plain_entry_def INI_MAX_LINE_def)
  have "plain_name (ascii ''AVDECC'')" "plain_name (ascii ''APPLICATION'')" by code_simp+
  then have "plain_entry (ascii ''AVDECC'', if use_avdecc c then avdecc_entity c else ascii ''disable'')"
    "plain_entry (ascii ''APPLICATION'', app_cmd c)"
    using assms w by (simp_all add: plain_entry_def writable_def INI_MAX_LINE_def)
  then show ?thesis
    unfolding settings_def by (simp add: small setting_names_eq u b l w print_switch_def split: MODE_TYPE.split)
qed

lemma scan_length [simp]: "length bs = n \<Longrightarrow> 0 < n \<Longrightarrow> scan_bytes n (print_bytes bs) = bs"
  using scan_print_bytes [of bs] by auto

lemma print_bytes_not_Nil: "bs \<noteq> [] \<Longrightarrow> print_bytes bs \<noteq> []"
  by (induction bs rule: print_bytes.induct) (simp_all add: print_hex_def)

lemma store_printed:
  assumes "length bs = n" "0 < n" "length old = n"
  shows "store_bytes n old (print_bytes bs) = Some bs"
proof -
  have "print_bytes bs \<noteq> []" using assms by (intro print_bytes_not_Nil) auto
  then have "\<not> is_space (hd (print_bytes bs))"
    using plain_printed [of "print_bytes bs"] printed_bytes by (auto simp: plain_value_def)
  then have "dropWhile is_space (print_bytes bs) \<noteq> []"
    using \<open>print_bytes bs \<noteq> []\<close> by (cases "print_bytes bs") auto
  then show ?thesis using assms by (simp add: store_bytes_def Let_def)
qed

lemma streamid_setting:
  "length bs = 8 \<Longrightarrow> length (ac_streamid ctx) = 8 \<Longrightarrow>
    ini2ctx_streamid ctx (print_bytes bs) = (True, ctx\<lparr>ac_streamid := bs\<rparr>)"
  by (simp add: ini2ctx_streamid_def store_printed)

lemma printed_not_maap: "\<not> strcasecmp_eq (ascii ''maap'') (print_bytes bs)"
proof
  assume "strcasecmp_eq (ascii ''maap'') (print_bytes bs)"
  moreover have "map to_lower (ascii ''maap'') = ascii ''maap''" by code_simp
  ultimately have "set (map to_lower (print_bytes bs)) = set (ascii ''maap'')" by (simp add: strcasecmp_eq_def)
  then have "109 \<in> to_lower ` set (print_bytes bs)" by (simp add: ascii_def)
  then obtain c where c: "c \<in> set (print_bytes bs)" "to_lower c = 109" by (metis imageE)
  then have "c = 109 \<or> c + 32 = 109" by (simp add: to_lower_def split: if_splits)
  then have "c = 109 \<or> c = 77" by (auto simp: eq_diff_eq [symmetric])
  then show False using printed_bytes [OF c(1)] by (auto simp: printed_char_def hex_digit_def ch_def)
qed

lemma destaddr_setting:
  assumes "length bs = 6" "length (ac_dest_addr ctx) = 6"
  shows "ini2ctx_destaddr ctx (if b then ascii ''maap'' else print_bytes bs) =
    (True, if b then ctx\<lparr>use_maap := True\<rparr> else ctx\<lparr>use_maap := False, ac_dest_addr := bs\<rparr>)"
proof -
  have "strcasecmp_eq (ascii ''maap'') (ascii ''maap'')" by code_simp
  then show ?thesis using assms printed_not_maap by (simp add: ini2ctx_destaddr_def store_printed Let_def)
qed

lemma handle_mode:
  "ini_parse_handler ctx (ascii ''avblauncher'') (ascii ''MODE'') (case m of TALKER_MODE \<Rightarrow> ascii ''talker'' | LISTENER_MODE \<Rightarrow> ascii ''listener'') =
    (True, (ctx\<lparr>operating_mode := m\<rparr>)\<lparr>ac_required := (ac_required ctx)(IDX_OPERATING_MODE := True)\<rparr>)"
  using handler_sets [of 0 IDX_OPERATING_MODE _ ini2ctx_mode ctx]
  by (simp add: parser_table_def mode_setting)

lemma handle_gptp:
  "ini_parse_handler ctx (ascii ''avblauncher'') (ascii ''GPTP'') (print_switch b) =
    (True, (ctx\<lparr>use_gptp := b\<rparr>)\<lparr>ac_required := (ac_required ctx)(IDX_USE_GPTP := True)\<rparr>)"
  using handler_sets [of 1 IDX_USE_GPTP _ ini2ctx_gptp ctx]
  by (simp add: parser_table_def ini2ctx_gptp_def switch_setting)

lemma handle_srp:
  "ini_parse_handler ctx (ascii ''avblauncher'') (ascii ''SRP'') (print_switch b) =
    (True, (ctx\<lparr>use_srp := b\<rparr>)\<lparr>ac_required := (ac_required ctx)(IDX_USE_SRP := True)\<rparr>)"
  using handler_sets [of 2 IDX_USE_SRP _ ini2ctx_srp ctx]
  by (simp add: parser_table_def ini2ctx_srp_def switch_setting)

lemma handle_avdecc:
  "map to_lower e \<noteq> ascii ''disable'' \<Longrightarrow> ini_parse_handler ctx (ascii ''avblauncher'') (ascii ''AVDECC'') (if b then e else ascii ''disable'') =
    (True, (if b then ctx\<lparr>use_avdecc := True, avdecc_entity := e\<rparr> else ctx\<lparr>use_avdecc := False\<rparr>)\<lparr>ac_required := (ac_required ctx)(IDX_USE_AVDECC := True)\<rparr>)"
  using handler_sets [of 3 IDX_USE_AVDECC _ ini2ctx_avdecc ctx]
  by (simp add: parser_table_def avdecc_setting)

lemma handle_srclass:
  "uint (v :: u64) < 2 ^ 63 \<Longrightarrow> ini_parse_handler ctx (ascii ''avblauncher'') (ascii ''SR_CLASS'') (print_u v) =
    (True, (ctx\<lparr>ac_srclass := v\<rparr>)\<lparr>ac_required := (ac_required ctx)(IDX_SR_CLASS := True)\<rparr>)"
  using handler_sets [of 4 IDX_SR_CLASS _ ini2ctx_srclass ctx]
  by (simp add: parser_table_def ini2ctx_srclass_def number_setting)

lemma handle_srpriority:
  "uint (v :: u64) < 2 ^ 63 \<Longrightarrow> ini_parse_handler ctx (ascii ''avblauncher'') (ascii ''SR_PRIORITY'') (print_u v) =
    (True, (ctx\<lparr>ac_srpriority := v\<rparr>)\<lparr>ac_required := (ac_required ctx)(IDX_SR_PRIORITY := True)\<rparr>)"
  using handler_sets [of 5 IDX_SR_PRIORITY _ ini2ctx_srpriority ctx]
  by (simp add: parser_table_def ini2ctx_srpriority_def number_setting)

lemma handle_vid:
  "uint (v :: u64) < 2 ^ 63 \<Longrightarrow> ini_parse_handler ctx (ascii ''avblauncher'') (ascii ''VLAN_ID'') (print_u v) =
    (True, (ctx\<lparr>ac_vid := v\<rparr>)\<lparr>ac_required := (ac_required ctx)(IDX_VID := True)\<rparr>)"
  using handler_sets [of 6 IDX_VID _ ini2ctx_vid ctx]
  by (simp add: parser_table_def ini2ctx_vid_def number_setting)

lemma handle_uid:
  "uint (v :: u64) < 2 ^ 63 \<Longrightarrow> ini_parse_handler ctx (ascii ''avblauncher'') (ascii ''UNIQUE_ID'') (print_u v) =
    (True, (ctx\<lparr>ac_uid := v\<rparr>)\<lparr>ac_required := (ac_required ctx)(IDX_UID := True)\<rparr>)"
  using handler_sets [of 7 IDX_UID _ ini2ctx_uid ctx]
  by (simp add: parser_table_def ini2ctx_uid_def number_setting)

lemma handle_streamid:
  "length bs = 8 \<Longrightarrow> length (ac_streamid ctx) = 8 \<Longrightarrow> ini_parse_handler ctx (ascii ''avblauncher'') (ascii ''STREAM_ID'') (print_bytes bs) =
    (True, (ctx\<lparr>ac_streamid := bs\<rparr>)\<lparr>ac_required := (ac_required ctx)(IDX_STREAM_ID := True)\<rparr>)"
  using handler_sets [of 8 IDX_STREAM_ID _ ini2ctx_streamid ctx]
  by (simp add: parser_table_def streamid_setting)

lemma handle_destaddr:
  "length bs = 6 \<Longrightarrow> length (ac_dest_addr ctx) = 6 \<Longrightarrow> ini_parse_handler ctx (ascii ''avblauncher'') (ascii ''DEST_ADDR'') (if b then ascii ''maap'' else print_bytes bs) =
    (True, (if b then ctx\<lparr>use_maap := True\<rparr> else ctx\<lparr>use_maap := False, ac_dest_addr := bs\<rparr>)\<lparr>ac_required := (ac_required ctx)(IDX_DEST_ADDR := True)\<rparr>)"
  using handler_sets [of 9 IDX_DEST_ADDR _ ini2ctx_destaddr ctx]
  by (simp add: parser_table_def destaddr_setting)

lemma handle_maxframesize:
  "uint (v :: u64) < 2 ^ 63 \<Longrightarrow> ini_parse_handler ctx (ascii ''avblauncher'') (ascii ''MAX_FRAMESIZE'') (print_u v) =
    (True, (ctx\<lparr>ac_maxframesize := v\<rparr>)\<lparr>ac_required := (ac_required ctx)(IDX_MAXFRAMESIZE := True)\<rparr>)"
  using handler_sets [of 10 IDX_MAXFRAMESIZE _ ini2ctx_maxframesize ctx]
  by (simp add: parser_table_def ini2ctx_maxframesize_def number_setting)

lemma handle_frameintervals:
  "uint (v :: u64) < 2 ^ 63 \<Longrightarrow> ini_parse_handler ctx (ascii ''avblauncher'') (ascii ''FRAME_INTERVALS'') (print_u v) =
    (True, (ctx\<lparr>ac_frameintervals := v\<rparr>)\<lparr>ac_required := (ac_required ctx)(IDX_FRAMEINTERVALS := True)\<rparr>)"
  using handler_sets [of 11 IDX_FRAMEINTERVALS _ ini2ctx_frameintervals ctx]
  by (simp add: parser_table_def ini2ctx_frameintervals_def number_setting)

lemma handle_latency:
  "uint (v :: u64) < 2 ^ 63 \<Longrightarrow> ini_parse_handler ctx (ascii ''avblauncher'') (ascii ''LATENCY'') (print_u v) =
    (True, (ctx\<lparr>ac_latency := v\<rparr>)\<lparr>ac_required := (ac_required ctx)(IDX_LATENCY := True)\<rparr>)"
  using handler_sets [of 12 IDX_LATENCY _ ini2ctx_latency ctx]
  by (simp add: parser_table_def ini2ctx_latency_def number_setting)

lemma handle_application:
  "ini_parse_handler ctx (ascii ''avblauncher'') (ascii ''APPLICATION'') (w) =
    (True, (ctx\<lparr>app_cmd := w\<rparr>)\<lparr>ac_required := (ac_required ctx)(IDX_APPLICATION := True)\<rparr>)"
  using handler_sets [of 13 IDX_APPLICATION _ ini2ctx_application ctx]
  by (simp add: parser_table_def ini2ctx_application_def)

lemmas handle_settings = handle_mode handle_gptp handle_srp handle_avdecc handle_srclass handle_srpriority handle_vid handle_uid handle_streamid handle_destaddr handle_maxframesize handle_frameintervals handle_latency handle_application

lemma run_entries_step:
  "h u s n v = (True, u') \<Longrightarrow> run_entries h s l (e, u) ((n, v) # es) = run_entries h s (Suc l) (e, u') es"
  by simp

lemma all_given:
  "(\<lambda>_. False)(IDX_OPERATING_MODE := True, IDX_USE_GPTP := True, IDX_USE_SRP := True, IDX_USE_AVDECC := True,
    IDX_SR_CLASS := True, IDX_SR_PRIORITY := True, IDX_VID := True, IDX_UID := True, IDX_STREAM_ID := True,
    IDX_DEST_ADDR := True, IDX_MAXFRAMESIZE := True, IDX_FRAMEINTERVALS := True, IDX_LATENCY := True,
    IDX_APPLICATION := True) = (\<lambda>_. True)"
  by (rule ext, rename_tac i, case_tac i) simp_all

lemmas handle_choices =
  handle_avdecc [where b = True, unfolded if_True] handle_avdecc [where b = False and e = "[]", unfolded if_False]
  handle_destaddr [where b = True and bs = "replicate 6 0", unfolded if_True] handle_destaddr [where b = False, unfolded if_False]

lemma settings_run:
  assumes "writable c"
  shows "run_entries ini_parse_handler (ascii ''avblauncher'') 2 (0, context_zero) (settings c) = (0, configured c)"
proof -
  have num: "uint (ac_srclass c) < 2 ^ 63" "uint (ac_srpriority c) < 2 ^ 63" "uint (ac_vid c) < 2 ^ 63"
    "uint (ac_uid c) < 2 ^ 63" "uint (ac_maxframesize c) < 2 ^ 63" "uint (ac_frameintervals c) < 2 ^ 63"
    "uint (ac_latency c) < 2 ^ 63" "length (ac_streamid c) = 8" "length (ac_dest_addr c) = 6"
    "map to_lower (avdecc_entity c) \<noteq> ascii ''disable''" "map to_lower [] \<noteq> ascii ''disable''"
    using assms by (simp_all add: writable_def ascii_def)
  show ?thesis
    unfolding settings_def configured_def
    by (cases "use_avdecc c"; cases "use_maap c")
      (simp_all only: simp_thms run_entries_step handle_settings handle_choices num if_True if_False length_replicate context_zero_def
        app_context.simps run_entries.simps(1) all_given)
qed

text \<open>
  C29: A configuration file with the fourteen settings of a context, written by the reference
  printer, configures a zeroed context with exactly these settings and marks all of them as
  given.
\<close>
theorem written_settings_configure_the_context:
  assumes "writable c"
  shows "generate_ctx_data (Some (ini_text (ascii ''avblauncher'') (settings c))) context_zero = (0, configured c)"
proof -
  have sec: "plain_section (ascii ''avblauncher'')" by code_simp
  show ?thesis
    using ini_text_read [OF sec settings_plain [OF assms], of ini_parse_handler context_zero] settings_run [OF assms]
    by (simp add: generate_ctx_data_def ini_parse_def ini_parse_file_def)
qed

definition sample_context :: app_context where
  "sample_context = context_zero\<lparr>operating_mode := TALKER_MODE, use_srp := True, use_maap := True, ac_srclass := 6,
    ac_srpriority := 3, ac_vid := 2, ac_uid := 1, ac_maxframesize := 84, ac_frameintervals := 1,
    app_cmd := ascii ''simple_talker -u 1''\<rparr>"

lemma sample_writable: "writable sample_context"
proof -
  have "plain_value (ascii ''simple_talker -u 1'')" "plain_value []" "map to_lower [] \<noteq> ascii ''disable''"
    by code_simp+
  then show ?thesis by (simp add: writable_def sample_context_def context_zero_def)
qed

lemma written_settings_configure_the_context_witness:
  "generate_ctx_data (Some (ini_text (ascii ''avblauncher'') (settings sample_context))) context_zero =
    (0, configured sample_context) \<and> ac_srpriority (configured sample_context) = 3"
  using written_settings_configure_the_context [OF sample_writable] by (simp add: configured_def sample_context_def)

end
