(* ===== verification/Launcher_Command.thy ===== *)
theory Launcher_Command
  imports Launcher_Config
begin

unbundle bit_operations_syntax

text \<open>
  The command line of the application (\<open>avblauncher/avblauncher.c\<close>): the words between dollar
  signs are replaced by settings of the context and a backslash takes the meaning of the next
  character away. The buffers are memories of 200 bytes, so every index that leaves one is
  undefined behaviour.
\<close>

section \<open>Words\<close>

definition MAXSTR :: nat where "MAXSTR = INI_MAX_LINE"

definition word_text :: "app_context \<Rightarrow> u8 list \<Rightarrow> u8 list" where
  "word_text ctx word =
    (if word = ascii ''$MODE$'' then
       (if operating_mode ctx = TALKER_MODE then ascii ''talker'' else ascii ''listener'')
     else if word = ascii ''$GPTP$'' then (if use_gptp ctx then ascii ''enable'' else ascii ''disable'')
     else if word = ascii ''$SRP$'' then (if use_srp ctx then ascii ''enable'' else ascii ''disable'')
     else if word = ascii ''$AVDECC$'' then (if use_avdecc ctx then avdecc_entity ctx else ascii ''disable'')
     else if word = ascii ''$DEST_ADDR$'' then print_bytes (ac_dest_addr ctx)
     else if word = ascii ''$STREAM_ID$'' then print_bytes (ac_streamid ctx)
     else if word = ascii ''$SR_CLASS$'' then print_u (ac_srclass ctx)
     else if word = ascii ''$SR_PRIORITY$'' then print_u (ac_srpriority ctx)
     else if word = ascii ''$VLAN_ID$'' then print_u (ac_vid ctx)
     else if word = ascii ''$UNIQUE_ID$'' then print_u (ac_uid ctx)
     else if word = ascii ''$MAX_FRAMESIZE$'' then print_u (ac_maxframesize ctx)
     else if word = ascii ''$FRAME_INTERVALS$'' then print_u (ac_frameintervals ctx)
     else if word = ascii ''$LATENCY$'' then print_u (ac_latency ctx)
     else word)"

text \<open>\<open>snprintf\<close> stores the text cut at the size of the buffer and returns its full length.\<close>

definition convert_word :: "app_context \<Rightarrow> u8 list \<Rightarrow> nat \<times> u8 list" where
  "convert_word ctx word = (let t = word_text ctx word in (length t, take (MAXSTR - 1) t))"

section \<open>States\<close>

datatype states =
  INITIAL | ESCAPE | OTHER | END | FIRST_DOLLAR | DOLLAR_ESCAPE | DOLLAR_DOLLAR | DOLLAR_OTHER | DOLLAR_END

primrec state_number :: "states \<Rightarrow> nat" where
  "state_number INITIAL = 0"
| "state_number ESCAPE = 1"
| "state_number OTHER = 2"
| "state_number END = 3"
| "state_number FIRST_DOLLAR = 4"
| "state_number DOLLAR_ESCAPE = 5"
| "state_number DOLLAR_DOLLAR = 6"
| "state_number DOLLAR_OTHER = 7"
| "state_number DOLLAR_END = 8"

lemma state_number_inject [simp]: "state_number a = state_number b \<longleftrightarrow> a = b"
  by (cases a; cases b) simp_all

instantiation states :: linorder
begin

definition less_eq_states :: "states \<Rightarrow> states \<Rightarrow> bool" where
  "less_eq_states a b \<longleftrightarrow> state_number a \<le> state_number b"

definition less_states :: "states \<Rightarrow> states \<Rightarrow> bool" where
  "less_states a b \<longleftrightarrow> state_number a < state_number b"

instance
  by standard (auto simp: less_eq_states_def less_states_def)

end

definition change_next_state :: "u8 \<Rightarrow> states \<Rightarrow> states" where
  "change_next_state cmd now_state =
    (if cmd = 92 then (if now_state < FIRST_DOLLAR then ESCAPE else DOLLAR_ESCAPE)
     else if cmd = of_char CHR ''$'' then (if now_state < FIRST_DOLLAR then FIRST_DOLLAR else DOLLAR_DOLLAR)
     else if cmd = 0 then (if now_state < FIRST_DOLLAR then END else DOLLAR_END)
     else (if now_state < FIRST_DOLLAR then OTHER else DOLLAR_OTHER))"

section \<open>The conversion\<close>

record conv_state =
  search_p :: nat
  tmp_p :: nat
  word_p :: nat
  cv_tmp :: mem
  cv_word :: mem
  current_state :: states

definition defined_or_UB :: "'a option \<Rightarrow> 'a c_result" where
  "defined_or_UB r = (case r of None \<Rightarrow> UB | Some x \<Rightarrow> Returns x)"

text \<open>A byte of the command, whose buffer ends with the terminator and zeros.\<close>

definition cmd_at :: "u8 list \<Rightarrow> nat \<Rightarrow> u8 c_result" where
  "cmd_at cmd i = (if MAXSTR \<le> i then UB else Returns (if i < length cmd then cmd ! i else 0))"

definition put :: "nat \<Rightarrow> u8 \<Rightarrow> mem \<Rightarrow> mem c_result" where
  "put i c m = defined_or_UB (wrn i [c] m)"

definition strlen :: "mem \<Rightarrow> nat c_result" where
  "strlen m = defined_or_UB (map_option length (find_nul m))"

definition strncpy_at :: "nat \<Rightarrow> u8 list \<Rightarrow> nat \<Rightarrow> mem \<Rightarrow> mem c_result" where
  "strncpy_at i s n m = defined_or_UB (wrn i (take n (s @ replicate n 0)) m)"

text \<open>One round of the switch; an error is \<open>None\<close>.\<close>

definition copy_to_tmp :: "nat \<Rightarrow> u8 list \<Rightarrow> conv_state \<Rightarrow> conv_state option c_result" where
  "copy_to_tmp ahead cmd s =
    bindC (strlen (cv_tmp s)) (\<lambda>n.
    if MAXSTR \<le> n then Returns None else
    bindC (cmd_at cmd (search_p s + ahead)) (\<lambda>c.
    bindC (put (tmp_p s) c (cv_tmp s)) (\<lambda>m.
    Returns (Some (s\<lparr>cv_tmp := m, search_p := search_p s + ahead + 1, tmp_p := tmp_p s + 1\<rparr>)))))"

definition copy_to_word :: "nat \<Rightarrow> u8 list \<Rightarrow> conv_state \<Rightarrow> conv_state option c_result" where
  "copy_to_word ahead cmd s =
    bindC (strlen (cv_word s)) (\<lambda>n.
    if MAXSTR \<le> n then Returns None else
    bindC (cmd_at cmd (search_p s + ahead)) (\<lambda>c.
    bindC (put (word_p s) c (cv_word s)) (\<lambda>m.
    Returns (Some (s\<lparr>cv_word := m, search_p := search_p s + ahead + 1, word_p := word_p s + 1\<rparr>)))))"

definition end_of_word :: "app_context \<Rightarrow> u8 list \<Rightarrow> conv_state \<Rightarrow> conv_state option c_result" where
  "end_of_word ctx cmd s =
    bindC (strlen (cv_word s)) (\<lambda>n.
    if MAXSTR \<le> n then Returns None else
    bindC (cmd_at cmd (search_p s)) (\<lambda>c.
    bindC (put (word_p s) c (cv_word s)) (\<lambda>w.
    bindC (put (word_p s + 1) 0 w) (\<lambda>w.
    bindC (defined_or_UB (find_nul w)) (\<lambda>word.
    let (num, conv) = convert_word ctx word in
    bindC (strlen (cv_tmp s)) (\<lambda>n.
    if n + num < MAXSTR then
      bindC (strncpy_at (tmp_p s) conv (num + 1) (cv_tmp s)) (\<lambda>m.
      Returns (Some (s\<lparr>cv_word := w, cv_tmp := m, tmp_p := tmp_p s + num, search_p := search_p s + 1,
        current_state := INITIAL\<rparr>)))
    else Returns None))))))"

definition end_in_word :: "conv_state \<Rightarrow> conv_state option c_result" where
  "end_in_word s =
    bindC (strlen (cv_word s)) (\<lambda>num.
    bindC (strlen (cv_tmp s)) (\<lambda>n.
    if num < MAXSTR \<and> n + num < MAXSTR then
      bindC (put (word_p s) 0 (cv_word s)) (\<lambda>w.
      bindC (defined_or_UB (find_nul w)) (\<lambda>word.
      bindC (strncpy_at (tmp_p s) word (num + 1) (cv_tmp s)) (\<lambda>m.
      Returns (Some (s\<lparr>cv_word := w, cv_tmp := m\<rparr>)))))
    else Returns None))"

definition convert_step :: "app_context \<Rightarrow> u8 list \<Rightarrow> conv_state \<Rightarrow> conv_state option c_result" where
  "convert_step ctx cmd s =
    (case current_state s of
       INITIAL \<Rightarrow> Returns (Some s)
     | ESCAPE \<Rightarrow> copy_to_tmp 1 cmd s
     | OTHER \<Rightarrow> copy_to_tmp 0 cmd s
     | END \<Rightarrow>
        bindC (strlen (cv_tmp s)) (\<lambda>n.
        if MAXSTR \<le> n then Returns None else
        bindC (put (tmp_p s + 1) 0 (cv_tmp s)) (\<lambda>m. Returns (Some (s\<lparr>cv_tmp := m\<rparr>))))
     | FIRST_DOLLAR \<Rightarrow> copy_to_word 0 cmd (s\<lparr>word_p := 0\<rparr>)
     | DOLLAR_ESCAPE \<Rightarrow> copy_to_word 1 cmd s
     | DOLLAR_DOLLAR \<Rightarrow> end_of_word ctx cmd s
     | DOLLAR_OTHER \<Rightarrow> copy_to_word 0 cmd s
     | DOLLAR_END \<Rightarrow> end_in_word s)"

text \<open>
  Every round moves the search position or leaves the initial state, which is never entered again
  with the position unchanged.
\<close>

definition rounds_left :: "u8 list \<Rightarrow> conv_state \<Rightarrow> nat" where
  "rounds_left cmd s = 2 * (Suc (length cmd) - search_p s) + (if current_state s = INITIAL then 1 else 0)"

lemma change_next_state_not_INITIAL [simp]: "change_next_state c s \<noteq> INITIAL"
  by (simp add: change_next_state_def)

lemma convert_step_progress:
  assumes "convert_step ctx cmd s = Returns (Some s')" "search_p s \<le> length cmd"
    "current_state s' \<noteq> END" "current_state s' \<noteq> DOLLAR_END"
  shows "rounds_left cmd (s'\<lparr>current_state := change_next_state c (current_state s')\<rparr>) < rounds_left cmd s"
  using assms
  by (cases "current_state s")
    (auto simp: convert_step_def copy_to_tmp_def copy_to_word_def end_of_word_def end_in_word_def rounds_left_def
      bindC_eq_Returns_iff Let_def convert_word_def split: if_splits)

function convert_loop :: "app_context \<Rightarrow> u8 list \<Rightarrow> conv_state \<Rightarrow> conv_state option c_result" where
  "convert_loop ctx cmd s =
    (if length cmd < search_p s then Returns (Some s) else
     case convert_step ctx cmd s of
       UB \<Rightarrow> UB
     | NoReturn \<Rightarrow> NoReturn
     | Returns None \<Rightarrow> Returns None
     | Returns (Some s') \<Rightarrow>
        if current_state s' = END \<or> current_state s' = DOLLAR_END then Returns (Some s')
        else case cmd_at cmd (search_p s') of
          Returns c \<Rightarrow> convert_loop ctx cmd (s'\<lparr>current_state := change_next_state c (current_state s')\<rparr>)
        | _ \<Rightarrow> UB)"
  by auto
termination
  by (relation "measure (\<lambda>(_, cmd, s). rounds_left cmd s)") (auto intro: convert_step_progress)

declare convert_loop.simps [simp del]

definition conv_start :: conv_state where
  "conv_start = \<lparr> search_p = 0, tmp_p = 0, word_p = 0, cv_tmp = replicate MAXSTR 0, cv_word = replicate MAXSTR 0,
    current_state = INITIAL \<rparr>"

definition convert_app_cmd :: "app_context \<Rightarrow> (int \<times> app_context) c_result" where
  "convert_app_cmd ctx =
    bindC (convert_loop ctx (app_cmd ctx) conv_start) (\<lambda>r.
    case r of
      None \<Rightarrow> Returns (- 1, ctx)
    | Some s \<Rightarrow>
        bindC (defined_or_UB (find_nul (cv_tmp s))) (\<lambda>t.
        if length t < MAXSTR then Returns (0, ctx\<lparr>app_cmd := t\<rparr>) else Returns (- 1, ctx)))"

end
