(* ===== verification/Launcher_Command_Props.thy ===== *)
theory Launcher_Command_Props
  imports Launcher_Command
begin

unbundle bit_operations_syntax

text \<open>
  The conversion of the application command refines a recursive expansion: as long as the
  expanded command leaves two bytes of the buffer free it stores exactly the expansion, and with
  one byte less it writes behind its buffer.
\<close>

section \<open>The reference expansion\<close>

function (sequential) expand :: "app_context \<Rightarrow> u8 list \<Rightarrow> u8 list"
  and expand_word :: "app_context \<Rightarrow> u8 list \<Rightarrow> u8 list \<Rightarrow> u8 list" where
  "expand ctx [] = []"
| "expand ctx (c # cs) =
    (if c = 92 then (case cs of [] \<Rightarrow> [] | d # cs \<Rightarrow> d # expand ctx cs)
     else if c = of_char CHR ''$'' then expand_word ctx [c] cs
     else c # expand ctx cs)"
| "expand_word ctx w [] = w"
| "expand_word ctx w (c # cs) =
    (if c = 92 then (case cs of [] \<Rightarrow> [] | d # cs \<Rightarrow> expand_word ctx (w @ [d]) cs)
     else if c = of_char CHR ''$'' then word_text ctx (w @ [c]) @ expand ctx cs
     else expand_word ctx (w @ [c]) cs)"
  by pat_completeness auto
termination
  by (relation "measure (case_sum (\<lambda>(_, cs). length cs) (\<lambda>(_, _, cs). length cs))") auto

text \<open>Every word is closed and no backslash ends the command.\<close>

fun well_quoted :: "bool \<Rightarrow> u8 list \<Rightarrow> bool" where
  "well_quoted inside [] \<longleftrightarrow> \<not> inside"
| "well_quoted inside (c # cs) \<longleftrightarrow>
    (if c = 92 then (case cs of [] \<Rightarrow> False | d # cs \<Rightarrow> well_quoted inside cs)
     else if c = of_char CHR ''$'' then well_quoted (\<not> inside) cs else well_quoted inside cs)"

section \<open>Buffers\<close>

definition text_in :: "u8 list \<Rightarrow> mem \<Rightarrow> bool" where
  "text_in t m \<longleftrightarrow> 0 \<notin> set t \<and> length t < MAXSTR \<and> m = t @ replicate (MAXSTR - length t) 0"

lemma text_in_find_nul: "text_in t m \<Longrightarrow> find_nul m = Some t"
  by (cases "MAXSTR - length t") (auto simp: text_in_def find_nul_exact)

lemma text_in_put:
  assumes "text_in t m" "length t + 1 < MAXSTR" "c \<noteq> 0"
  shows "\<exists>m'. put (length t) c m = Returns m' \<and> text_in (t @ [c]) m'"
proof -
  obtain k where k: "MAXSTR - length t = Suc k" using assms by (cases "MAXSTR - length t") auto
  then have "put (length t) c m = Returns ((t @ [c]) @ replicate k 0)"
    using assms wrn_append [of t "length t" "[0]" "[c]" "replicate k 0"]
    by (simp add: text_in_def put_def defined_or_UB_def)
  moreover have "MAXSTR - length (t @ [c]) = k" using k by simp
  ultimately show ?thesis using assms by (simp add: text_in_def)
qed

lemma text_in_strncpy:
  assumes "text_in t m" "length t + length s < MAXSTR" "0 \<notin> set s"
  shows "\<exists>m'. strncpy_at (length t) s (length s + 1) m = Returns m' \<and> text_in (t @ s) m'"
proof -
  obtain k where k: "MAXSTR - length t = (length s + 1) + k" using assms by (metis less_diff_conv add.commute less_iff_Suc_add add_Suc_right Suc_eq_plus1 add_Suc)
  have "take (length s + 1) (s @ replicate (length s + 1) 0) = s @ [0]" by simp
  moreover have "replicate (MAXSTR - length t) 0 = replicate (length s + 1) (0 :: u8) @ replicate k 0"
    by (simp only: k replicate_add)
  ultimately have "strncpy_at (length t) s (length s + 1) m = Returns (t @ (s @ [0]) @ replicate k 0)"
    using assms(1) wrn_append [of t "length t" "replicate (length s + 1) 0" "s @ [0]" "replicate k 0"]
    by (simp only: text_in_def strncpy_at_def defined_or_UB_def length_append length_replicate list.size option.case) simp
  moreover have "MAXSTR - length (t @ s) = Suc k" using k by simp
  ultimately show ?thesis using assms by (simp add: text_in_def)
qed

text \<open>The buffer of the words always ends with a zero; it keeps the rest of longer words.\<close>

definition word_in :: "u8 list \<Rightarrow> mem \<Rightarrow> bool" where
  "word_in w m \<longleftrightarrow> length m = MAXSTR \<and> last m = 0 \<and> take (length w) m = w"

lemma find_nul_some: "0 \<in> set m \<Longrightarrow> \<exists>t. find_nul m = Some t \<and> length t < length m"
  by (induction m) auto

lemma word_in_strlen:
  assumes "word_in w m"
  shows "\<exists>n. strlen m = Returns n \<and> n < MAXSTR"
proof -
  have "0 \<in> set m" using assms last_in_set [of m] by (cases "m = []") (auto simp: word_in_def MAXSTR_def INI_MAX_LINE_def)
  then obtain t where "find_nul m = Some t" "length t < length m" using find_nul_some by blast
  then show ?thesis using assms by (simp add: strlen_def defined_or_UB_def word_in_def)
qed

lemma word_in_put:
  assumes "word_in w m" "length w + 1 < MAXSTR"
  shows "\<exists>m'. put (length w) c m = Returns m' \<and> word_in (w @ [c]) m'"
proof -
  have l: "length m = MAXSTR" "take (length w) m = w" "last m = 0" using assms by (simp_all add: word_in_def)
  then have "put (length w) c m = Returns (w @ [c] @ drop (length w + 1) m)"
    using assms(2) by (simp add: put_def wrn_def defined_or_UB_def)
  moreover have "drop (length w + 1) m \<noteq> []" using l assms(2) by simp
  then have "word_in (w @ [c]) (w @ [c] @ drop (length w + 1) m)"
    using l assms(2) by (simp add: word_in_def last_drop)
  ultimately show ?thesis by blast
qed

lemma word_in_find:
  assumes "word_in w m" "length w < MAXSTR" "0 \<notin> set w"
  shows "\<exists>m'. put (length w) 0 m = Returns m' \<and> find_nul m' = Some w \<and> word_in [] m'"
proof -
  have l: "length m = MAXSTR" "take (length w) m = w" "last m = 0" using assms by (simp_all add: word_in_def)
  then have "put (length w) 0 m = Returns (w @ 0 # drop (length w + 1) m)"
    using assms(2) by (simp add: put_def wrn_def defined_or_UB_def)
  moreover have "word_in [] (w @ 0 # drop (length w + 1) m)"
    using l assms(2) by (cases "drop (length w + 1) m = []") (auto simp: word_in_def last_drop)
  ultimately show ?thesis using find_nul_exact [OF assms(3)] by blast
qed

section \<open>One round\<close>

definition next_char :: "u8 list \<Rightarrow> nat \<Rightarrow> u8" where
  "next_char cmd i = (if i < length cmd then cmd ! i else 0)"

lemma cmd_at_next [simp]: "i < MAXSTR \<Longrightarrow> cmd_at cmd i = Returns (next_char cmd i)"
  by (simp add: cmd_at_def next_char_def)

lemma loop_step:
  assumes "search_p s \<le> length cmd" "convert_step ctx cmd s = Returns (Some s')"
    "current_state s' \<noteq> END" "current_state s' \<noteq> DOLLAR_END" "search_p s' < MAXSTR"
  shows "convert_loop ctx cmd s =
    convert_loop ctx cmd (s'\<lparr>current_state := change_next_state (next_char cmd (search_p s')) (current_state s')\<rparr>)"
  using assms by (subst convert_loop.simps) simp

definition at_out :: "u8 list \<Rightarrow> u8 list \<Rightarrow> nat \<Rightarrow> conv_state \<Rightarrow> bool" where
  "at_out cmd out i s \<longleftrightarrow> search_p s = i \<and> i \<le> length cmd \<and> tmp_p s = length out \<and> text_in out (cv_tmp s) \<and>
    word_in [] (cv_word s) \<and> current_state s = change_next_state (next_char cmd i) INITIAL"

definition at_word :: "u8 list \<Rightarrow> u8 list \<Rightarrow> u8 list \<Rightarrow> nat \<Rightarrow> conv_state \<Rightarrow> bool" where
  "at_word cmd out w i s \<longleftrightarrow> search_p s = i \<and> i \<le> length cmd \<and> tmp_p s = length out \<and> text_in out (cv_tmp s) \<and>
    word_p s = length w \<and> word_in w (cv_word s) \<and> length w \<le> i \<and> 0 \<notin> set w \<and>
    current_state s = change_next_state (next_char cmd i) FIRST_DOLLAR"

lemma next_state_out: "s < FIRST_DOLLAR \<Longrightarrow> change_next_state c s = change_next_state c INITIAL"
  by (simp add: change_next_state_def less_states_def)

lemma next_state_in: "\<not> s < FIRST_DOLLAR \<Longrightarrow> change_next_state c s = change_next_state c FIRST_DOLLAR"
  by (simp add: change_next_state_def less_states_def)

lemma word_in_weaken: "word_in w m \<Longrightarrow> word_in [] m"
  by (simp add: word_in_def)

lemma text_in_strlen: "text_in t m \<Longrightarrow> strlen m = Returns (length t) \<and> length t < MAXSTR"
  by (simp add: strlen_def defined_or_UB_def text_in_find_nul) (simp add: text_in_def)

lemma copy_out:
  assumes "at_out cmd out i s" "i + k < length cmd" "0 \<notin> set cmd" "length cmd + 1 < MAXSTR" "length out + 1 < MAXSTR"
    "current_state s = (if k = 0 then OTHER else ESCAPE)" "k \<le> 1"
  shows "\<exists>s'. convert_loop ctx cmd s = convert_loop ctx cmd s' \<and> at_out cmd (out @ [cmd ! (i + k)]) (i + k + 1) s'"
proof -
  have c: "next_char cmd (i + k) = cmd ! (i + k)" "cmd ! (i + k) \<noteq> 0"
    using assms(2,3) nth_mem [of "i + k" cmd] by (simp add: next_char_def, metis)
  have t: "text_in out (cv_tmp s)" using assms(1) by (simp add: at_out_def)
  obtain m where m: "put (length out) (cmd ! (i + k)) (cv_tmp s) = Returns m" "text_in (out @ [cmd ! (i + k)]) m"
    using text_in_put [OF t assms(5) c(2)] by blast
  let ?s = "s\<lparr>cv_tmp := m, search_p := i + k + 1, tmp_p := length out + 1\<rparr>"
  have "copy_to_tmp k cmd s = Returns (Some ?s)"
    using assms(1,2,4) text_in_strlen [OF t] m c by (simp add: copy_to_tmp_def at_out_def)
  then have step: "convert_step ctx cmd s = Returns (Some ?s)"
    using assms(6,7) by (cases k) (auto simp: convert_step_def)
  have l: "current_state ?s < FIRST_DOLLAR" "current_state ?s \<noteq> END" "current_state ?s \<noteq> DOLLAR_END"
    using assms(6) by (simp_all add: less_states_def)
  have b: "search_p ?s < MAXSTR" "search_p s \<le> length cmd"
    using assms(1,2,4) by (simp_all add: at_out_def)
  have "convert_loop ctx cmd s =
      convert_loop ctx cmd (?s\<lparr>current_state := change_next_state (next_char cmd (i + k + 1)) INITIAL\<rparr>)"
    using loop_step [OF b(2) step l(2,3) b(1)] next_state_out [OF l(1)] by simp
  moreover have "at_out cmd (out @ [cmd ! (i + k)]) (i + k + 1)
      (?s\<lparr>current_state := change_next_state (next_char cmd (i + k + 1)) INITIAL\<rparr>)"
    using assms(1,2) m by (simp add: at_out_def)
  ultimately show ?thesis by blast
qed

lemma copy_in:
  assumes "at_word cmd out w i s" "i + k < length cmd" "0 \<notin> set cmd" "length cmd + 1 < MAXSTR"
    "current_state s = (if k = 0 then DOLLAR_OTHER else DOLLAR_ESCAPE)" "k \<le> 1"
  shows "\<exists>s'. convert_loop ctx cmd s = convert_loop ctx cmd s' \<and> at_word cmd out (w @ [cmd ! (i + k)]) (i + k + 1) s'"
proof -
  have c: "next_char cmd (i + k) = cmd ! (i + k)" "cmd ! (i + k) \<noteq> 0"
    using assms(2,3) nth_mem [of "i + k" cmd] by (simp add: next_char_def, metis)
  have w: "word_in w (cv_word s)" "length w + 1 < MAXSTR" using assms(1,2,4) by (simp_all add: at_word_def)
  obtain n where n: "strlen (cv_word s) = Returns n" "n < MAXSTR" using word_in_strlen [OF w(1)] by blast
  obtain m where m: "put (length w) (cmd ! (i + k)) (cv_word s) = Returns m" "word_in (w @ [cmd ! (i + k)]) m"
    using word_in_put [OF w] by blast
  let ?s = "s\<lparr>cv_word := m, search_p := i + k + 1, word_p := length w + 1\<rparr>"
  have "copy_to_word k cmd s = Returns (Some ?s)"
    using assms(1,2,4) n m c by (simp add: copy_to_word_def at_word_def)
  then have step: "convert_step ctx cmd s = Returns (Some ?s)"
    using assms(5,6) by (cases k) (auto simp: convert_step_def)
  have l: "\<not> current_state ?s < FIRST_DOLLAR" "current_state ?s \<noteq> END" "current_state ?s \<noteq> DOLLAR_END"
    using assms(5) by (simp_all add: less_states_def)
  have b: "search_p ?s < MAXSTR" "search_p s \<le> length cmd"
    using assms(1,2,4) by (simp_all add: at_word_def)
  have "convert_loop ctx cmd s =
      convert_loop ctx cmd (?s\<lparr>current_state := change_next_state (next_char cmd (i + k + 1)) FIRST_DOLLAR\<rparr>)"
    using loop_step [OF b(2) step l(2,3) b(1)] next_state_in [OF l(1)] by simp
  moreover have "at_word cmd out (w @ [cmd ! (i + k)]) (i + k + 1)
      (?s\<lparr>current_state := change_next_state (next_char cmd (i + k + 1)) FIRST_DOLLAR\<rparr>)"
    using assms(1,2) m c by (simp add: at_word_def)
  ultimately show ?thesis by blast
qed

lemma open_word:
  assumes "at_out cmd out i s" "i < length cmd" "length cmd + 1 < MAXSTR" "current_state s = FIRST_DOLLAR" "cmd ! i \<noteq> 0"
  shows "\<exists>s'. convert_loop ctx cmd s = convert_loop ctx cmd s' \<and> at_word cmd out [cmd ! i] (i + 1) s'"
proof -
  have w: "word_in [] (cv_word s)" "length ([] :: u8 list) + 1 < MAXSTR" using assms(1,2,3) by (simp_all add: at_out_def)
  obtain n where n: "strlen (cv_word s) = Returns n" "n < MAXSTR" using word_in_strlen [OF w(1)] by blast
  obtain m where m: "put 0 (cmd ! i) (cv_word s) = Returns m" "word_in [cmd ! i] m"
    using word_in_put [OF w, of "cmd ! i"] by auto
  let ?s = "s\<lparr>cv_word := m, search_p := i + 1, word_p := 1\<rparr>"
  have step: "convert_step ctx cmd s = Returns (Some ?s)"
    using assms n m by (simp add: convert_step_def copy_to_word_def at_out_def next_char_def)
  have l: "\<not> current_state ?s < FIRST_DOLLAR" using assms(4) by (simp add: less_states_def)
  have "convert_loop ctx cmd s =
      convert_loop ctx cmd (?s\<lparr>current_state := change_next_state (next_char cmd (i + 1)) FIRST_DOLLAR\<rparr>)"
    using loop_step [OF _ step] assms next_state_in [OF l] by (simp add: at_out_def)
  moreover have "at_word cmd out [cmd ! i] (i + 1)
      (?s\<lparr>current_state := change_next_state (next_char cmd (i + 1)) FIRST_DOLLAR\<rparr>)"
    using assms m by (simp add: at_out_def at_word_def)
  ultimately show ?thesis by blast
qed

lemma close_word:
  assumes "at_word cmd out w i s" "i < length cmd" "length cmd + 1 < MAXSTR" "current_state s = DOLLAR_DOLLAR"
    "cmd ! i \<noteq> 0" "0 \<notin> set (word_text ctx (w @ [cmd ! i]))" "length out + length (word_text ctx (w @ [cmd ! i])) < MAXSTR"
  shows "\<exists>s'. convert_loop ctx cmd s = convert_loop ctx cmd s' \<and>
    at_out cmd (out @ word_text ctx (w @ [cmd ! i])) (i + 1) s'"
proof -
  let ?t = "word_text ctx (w @ [cmd ! i])"
  have w: "word_in w (cv_word s)" "length w + 1 < MAXSTR" using assms(1,2,3) by (simp_all add: at_word_def)
  have t: "text_in out (cv_tmp s)" using assms(1) by (simp add: at_word_def)
  obtain n where n: "strlen (cv_word s) = Returns n" "n < MAXSTR" using word_in_strlen [OF w(1)] by blast
  obtain m where m: "put (length w) (cmd ! i) (cv_word s) = Returns m" "word_in (w @ [cmd ! i]) m"
    using word_in_put [OF w] by blast
  have z: "length (w @ [cmd ! i]) < MAXSTR" "0 \<notin> set (w @ [cmd ! i])" using assms(1,5) w by (simp_all add: at_word_def)
  obtain m' where m': "put (length (w @ [cmd ! i])) 0 m = Returns m'" "find_nul m' = Some (w @ [cmd ! i])" "word_in [] m'"
    using word_in_find [OF m(2) z] by blast
  obtain x where x: "strncpy_at (length out) ?t (length ?t + 1) (cv_tmp s) = Returns x" "text_in (out @ ?t) x"
    using text_in_strncpy [OF t assms(7,6)] by blast
  let ?s = "s\<lparr>cv_word := m', cv_tmp := x, tmp_p := length out + length ?t, search_p := i + 1, current_state := INITIAL\<rparr>"
  have step: "convert_step ctx cmd s = Returns (Some ?s)"
    using assms n m m' x text_in_strlen [OF t]
    by (simp add: convert_step_def end_of_word_def at_word_def next_char_def convert_word_def defined_or_UB_def Let_def)
  have "convert_loop ctx cmd s =
      convert_loop ctx cmd (?s\<lparr>current_state := change_next_state (next_char cmd (i + 1)) INITIAL\<rparr>)"
    using loop_step [OF _ step] assms by (simp add: at_word_def)
  moreover have "at_out cmd (out @ ?t) (i + 1)
      (?s\<lparr>current_state := change_next_state (next_char cmd (i + 1)) INITIAL\<rparr>)"
    using assms x m' by (simp add: at_out_def at_word_def)
  ultimately show ?thesis by blast
qed

lemma finish_out:
  assumes "at_out cmd out (length cmd) s"
  shows "if length out + 1 < MAXSTR
    then \<exists>s'. convert_loop ctx cmd s = Returns (Some s') \<and> find_nul (cv_tmp s') = Some out
    else convert_loop ctx cmd s = UB"
proof -
  have t: "text_in out (cv_tmp s)" and st: "current_state s = END" "search_p s = length cmd" "tmp_p s = length out"
    using assms by (simp_all add: at_out_def next_char_def change_next_state_def less_states_def)
  have l: "length (cv_tmp s) = MAXSTR" using t by (simp add: text_in_def)
  show ?thesis
  proof (cases "length out + 1 < MAXSTR")
    case True
    obtain k where k: "MAXSTR - length out = Suc (Suc k)" using True by (metis Suc_diff_Suc add_lessD1 Suc_eq_plus1)
    then have "put (length out + 1) 0 (cv_tmp s) = Returns (cv_tmp s)"
      using t wrn_append [of "out @ [0]" "length out + 1" "[0]" "[0]" "replicate k 0"]
      by (simp add: put_def text_in_def defined_or_UB_def)
    then have "convert_step ctx cmd s = Returns (Some s)"
      using st text_in_strlen [OF t] by (simp add: convert_step_def)
    then show ?thesis using True st text_in_find_nul [OF t] by (subst convert_loop.simps) simp
  next
    case False
    then have "put (length out + 1) 0 (cv_tmp s) = UB" using l by (simp add: put_def wrn_def defined_or_UB_def)
    then have "convert_step ctx cmd s = UB" using st text_in_strlen [OF t] by (simp add: convert_step_def)
    then show ?thesis using False st by (subst convert_loop.simps) simp
  qed
qed

section \<open>The conversion is the expansion\<close>

lemma printed_not_nul: "hex_digit c \<noteq> None \<Longrightarrow> c \<noteq> 0"
  by (auto simp: hex_digit_def)

lemma print_hex_no_nul: "0 \<notin> set (print_hex n v)"
  using print_hex_chars printed_not_nul by blast

lemma print_bytes_no_nul: "0 \<notin> set (print_bytes bs)"
  by (induction bs rule: print_bytes.induct) (simp_all add: ch_def print_hex_no_nul)

lemma print_u_no_nul: "0 \<notin> set (print_u v)"
  using set_digits [of 10 "uint v" 0] is_digit_hex printed_not_nul by (auto simp: print_u_def)

lemma no_nul_if: "0 \<notin> set a \<Longrightarrow> 0 \<notin> set b \<Longrightarrow> 0 \<notin> set (if c then a else b)"
  by simp

lemma word_text_no_nul: "0 \<notin> set w \<Longrightarrow> 0 \<notin> set (avdecc_entity ctx) \<Longrightarrow> 0 \<notin> set (word_text ctx w)"
  unfolding word_text_def by (intro no_nul_if print_bytes_no_nul print_u_no_nul) (simp_all add: ascii_def)

definition expands :: "app_context \<Rightarrow> u8 list \<Rightarrow> u8 list \<Rightarrow> conv_state \<Rightarrow> bool" where
  "expands ctx cmd out s \<longleftrightarrow>
    (if length out + 1 < MAXSTR
     then \<exists>s'. convert_loop ctx cmd s = Returns (Some s') \<and> find_nul (cv_tmp s') = Some out
     else convert_loop ctx cmd s = UB)"

lemma convert_loop_expands:
  assumes cmd: "0 \<notin> set cmd" "length cmd + 1 < MAXSTR" and e: "0 \<notin> set (avdecc_entity ctx)"
  shows "at_out cmd out i s \<Longrightarrow> well_quoted False (drop i cmd) \<Longrightarrow> length out + length (expand ctx (drop i cmd)) < MAXSTR \<Longrightarrow>
      expands ctx cmd (out @ expand ctx (drop i cmd)) s"
    and "at_word cmd out w i s \<Longrightarrow> well_quoted True (drop i cmd) \<Longrightarrow>
      length out + length (expand_word ctx w (drop i cmd)) < MAXSTR \<Longrightarrow>
      expands ctx cmd (out @ expand_word ctx w (drop i cmd)) s"
proof (induction "length cmd - i" arbitrary: i out w s rule: less_induct)
  case less
  have IH: "at_out cmd out j s \<Longrightarrow> well_quoted False (drop j cmd) \<Longrightarrow> length out + length (expand ctx (drop j cmd)) < MAXSTR \<Longrightarrow>
      expands ctx cmd (out @ expand ctx (drop j cmd)) s"
    "at_word cmd out w j s \<Longrightarrow> well_quoted True (drop j cmd) \<Longrightarrow>
      length out + length (expand_word ctx w (drop j cmd)) < MAXSTR \<Longrightarrow>
      expands ctx cmd (out @ expand_word ctx w (drop j cmd)) s" if "i < j" "i < length cmd" for j out w s
    using less.hyps(1) [of j out s] less.hyps(2) [of j out w s] that by (simp_all add: diff_less_mono2)
  have same: "convert_loop ctx cmd s = convert_loop ctx cmd s' \<Longrightarrow> expands ctx cmd o' s' \<Longrightarrow> expands ctx cmd o' s" for s s' o'
    by (simp add: expands_def)
  {
    case 1
    show ?case
    proof (cases "i < length cmd")
      case False
      then show ?thesis using 1 finish_out [of cmd out s ctx] by (simp add: at_out_def expands_def)
    next
      case True
      note d = Cons_nth_drop_Suc [OF True, symmetric]
      have st: "current_state s = change_next_state (cmd ! i) INITIAL" using 1(1) True by (simp add: at_out_def next_char_def)
      have nz: "cmd ! i \<noteq> 0" using cmd(1) True nth_mem by metis
      consider (esc) "cmd ! i = 92" | (word) "cmd ! i = of_char CHR ''$''" | (other) "cmd ! i \<noteq> 92" "cmd ! i \<noteq> of_char CHR ''$''"
        by blast
      then show ?thesis
      proof cases
        case esc
        then have k: "i + 1 < length cmd" using 1(2) d by (cases "drop (Suc i) cmd = []") (auto split: list.splits)
        then have d2: "drop (Suc i) cmd = cmd ! (i + 1) # drop (i + 1 + 1) cmd" by (simp add: Cons_nth_drop_Suc)
        have x: "expand ctx (drop i cmd) = cmd ! (i + 1) # expand ctx (drop (i + 1 + 1) cmd)"
          "well_quoted False (drop (i + 1 + 1) cmd)"
          using 1(2) d d2 esc by simp_all
        obtain s' where s': "convert_loop ctx cmd s = convert_loop ctx cmd s'" "at_out cmd (out @ [cmd ! (i + 1)]) (i + 1 + 1) s'"
          using copy_out [OF 1(1) k cmd, of ctx] 1(3) x st esc by (auto simp: change_next_state_def less_states_def)
        show ?thesis using same [OF s'(1) IH(1) [OF _ True s'(2)]] x 1(3) by simp
      next
        case word
        have x: "expand ctx (drop i cmd) = expand_word ctx [cmd ! i] (drop (i + 1) cmd)" "well_quoted True (drop (i + 1) cmd)"
          using 1(2) d word by simp_all
        have fd: "current_state s = FIRST_DOLLAR" using st word by (simp add: change_next_state_def less_states_def)
        obtain s' where s': "convert_loop ctx cmd s = convert_loop ctx cmd s'" "at_word cmd out [cmd ! i] (i + 1) s'"
          using open_word [OF 1(1) True cmd(2) fd nz] by blast
        show ?thesis using same [OF s'(1) IH(2) [OF _ True s'(2)]] x 1(3) by simp
      next
        case other
        have x: "expand ctx (drop i cmd) = cmd ! i # expand ctx (drop (i + 1) cmd)" "well_quoted False (drop (i + 1) cmd)"
          using 1(2) d other by simp_all
        have "current_state s = OTHER" using st other nz by (simp add: change_next_state_def less_states_def)
        then obtain s' where s': "convert_loop ctx cmd s = convert_loop ctx cmd s'" "at_out cmd (out @ [cmd ! i]) (i + 1) s'"
          using copy_out [of cmd out i s 0 ctx] 1(1,3) True cmd x by auto
        show ?thesis using same [OF s'(1) IH(1) [OF _ True s'(2)]] x 1(3) by simp
      qed
    qed
  next
    case 2
    show ?case
    proof (cases "i < length cmd")
      case False
      then show ?thesis using 2 by simp
    next
      case True
      note d = Cons_nth_drop_Suc [OF True, symmetric]
      have st: "current_state s = change_next_state (cmd ! i) FIRST_DOLLAR"
        using 2(1) True by (simp add: at_word_def next_char_def)
      have nz: "cmd ! i \<noteq> 0" using cmd(1) True nth_mem by metis
      have nw: "0 \<notin> set (w @ [cmd ! i])" using 2(1) nz by (simp add: at_word_def)
      consider (esc) "cmd ! i = 92" | (word) "cmd ! i = of_char CHR ''$''" | (other) "cmd ! i \<noteq> 92" "cmd ! i \<noteq> of_char CHR ''$''"
        by blast
      then show ?thesis
      proof cases
        case esc
        then have k: "i + 1 < length cmd" using 2(2) d by (cases "drop (Suc i) cmd = []") (auto split: list.splits)
        then have d2: "drop (Suc i) cmd = cmd ! (i + 1) # drop (i + 1 + 1) cmd" by (simp add: Cons_nth_drop_Suc)
        have x: "expand_word ctx w (drop i cmd) = expand_word ctx (w @ [cmd ! (i + 1)]) (drop (i + 1 + 1) cmd)"
          "well_quoted True (drop (i + 1 + 1) cmd)"
          using 2(2) d d2 esc by simp_all
        obtain s' where s': "convert_loop ctx cmd s = convert_loop ctx cmd s'" "at_word cmd out (w @ [cmd ! (i + 1)]) (i + 1 + 1) s'"
          using copy_in [OF 2(1) k cmd, of ctx] st esc by (auto simp: change_next_state_def less_states_def)
        show ?thesis using same [OF s'(1) IH(2) [OF _ True s'(2)]] x 2(3) by simp
      next
        case word
        let ?t = "word_text ctx (w @ [cmd ! i])"
        have x: "expand_word ctx w (drop i cmd) = ?t @ expand ctx (drop (i + 1) cmd)" "well_quoted False (drop (i + 1) cmd)"
          using 2(2) d word by simp_all
        have fd: "current_state s = DOLLAR_DOLLAR" using st word by (simp add: change_next_state_def less_states_def)
        have l: "length out + length ?t < MAXSTR" using 2(3) x(1) by simp
        obtain s' where s': "convert_loop ctx cmd s = convert_loop ctx cmd s'" "at_out cmd (out @ ?t) (i + 1) s'"
          using close_word [OF 2(1) True cmd(2) fd nz word_text_no_nul [OF nw e] l] by blast
        show ?thesis using same [OF s'(1) IH(1) [OF _ True s'(2)]] x 2(3) by simp
      next
        case other
        have x: "expand_word ctx w (drop i cmd) = expand_word ctx (w @ [cmd ! i]) (drop (i + 1) cmd)"
          "well_quoted True (drop (i + 1) cmd)"
          using 2(2) d other by simp_all
        have "current_state s = DOLLAR_OTHER" using st other nz by (simp add: change_next_state_def less_states_def)
        then obtain s' where s': "convert_loop ctx cmd s = convert_loop ctx cmd s'" "at_word cmd out (w @ [cmd ! i]) (i + 1) s'"
          using copy_in [of cmd out w i s 0 ctx] 2(1) True cmd by auto
        show ?thesis using same [OF s'(1) IH(2) [OF _ True s'(2)]] x 2(3) by simp
      qed
    qed
  }
qed

definition plain_command :: "app_context \<Rightarrow> bool" where
  "plain_command ctx \<longleftrightarrow> 0 \<notin> set (app_cmd ctx) \<and> 0 \<notin> set (avdecc_entity ctx) \<and>
    length (app_cmd ctx) + 1 < MAXSTR \<and> well_quoted False (app_cmd ctx)"

lemma convert_app_cmd_expands:
  assumes "plain_command ctx" "length (expand ctx (app_cmd ctx)) < MAXSTR"
  shows "convert_app_cmd ctx =
    (if length (expand ctx (app_cmd ctx)) + 1 < MAXSTR
     then Returns (0, ctx\<lparr>app_cmd := expand ctx (app_cmd ctx)\<rparr>) else UB)"
proof -
  let ?cmd = "app_cmd ctx"
  let ?s = "conv_start\<lparr>current_state := change_next_state (next_char ?cmd 0) INITIAL\<rparr>"
  have cmd: "0 \<notin> set ?cmd" "length ?cmd + 1 < MAXSTR" "0 \<notin> set (avdecc_entity ctx)" "well_quoted False (drop 0 ?cmd)"
    using assms(1) by (simp_all add: plain_command_def)
  have n: "0 < MAXSTR" by (simp add: MAXSTR_def INI_MAX_LINE_def)
  have start: "convert_loop ctx ?cmd conv_start = convert_loop ctx ?cmd ?s"
    using loop_step [of conv_start ?cmd ctx conv_start] n by (simp add: conv_start_def convert_step_def)
  have "at_out ?cmd [] 0 ?s" using n by (simp add: at_out_def conv_start_def text_in_def word_in_def)
  then have "expands ctx ?cmd (expand ctx ?cmd) ?s"
    using convert_loop_expands(1) [OF cmd(1-3) _ cmd(4)] assms(2) by fastforce
  then show ?thesis
    using start by (auto simp: convert_app_cmd_def expands_def defined_or_UB_def split: if_splits)
qed

lemma expand_settings:
  "(\<And>w. word_text a w = word_text b w) \<Longrightarrow> expand a cs = expand b cs"
  "(\<And>w. word_text a w = word_text b w) \<Longrightarrow> expand_word a w cs = expand_word b w cs"
  by (induction a cs and a w cs rule: expand_expand_word.induct) (auto split: list.splits)

text \<open>
  C30: The state machine that converts the application command stores exactly the recursive
  expansion of the command, with the words between dollar signs replaced by settings and escaped
  characters taken literally, as long as two bytes of the buffer stay free; when the expansion
  fills all but one byte it writes behind its buffer.
\<close>
theorem application_command_is_expanded:
  assumes "plain_command ctx" "length (expand ctx (app_cmd ctx)) < MAXSTR"
  shows "convert_app_cmd ctx =
    (if length (expand ctx (app_cmd ctx)) + 1 < MAXSTR
     then Returns (0, ctx\<lparr>app_cmd := expand ctx (app_cmd ctx)\<rparr>) else UB)"
  by (rule convert_app_cmd_expands [OF assms])

definition command_context :: "string \<Rightarrow> app_context" where
  "command_context s = context_zero\<lparr>ac_uid := 7, ac_streamid := [0, 1, 2, 3, 4, 5, 0, 10], app_cmd := ascii s\<rparr>"

lemma application_command_is_expanded_witness:
  "convert_app_cmd (command_context ''app -u $UNIQUE_ID$ $X$ $STREAM_ID$'') =
    Returns (0, (command_context ''app -u $UNIQUE_ID$ $X$ $STREAM_ID$'')\<lparr>
      app_cmd := ascii ''app -u 7 $X$ 00:01:02:03:04:05:00:0a''\<rparr>)"
proof -
  let ?c = "command_context ''app -u $UNIQUE_ID$ $X$ $STREAM_ID$''"
  have e: "expand ?c (app_cmd ?c) = ascii ''app -u 7 $X$ 00:01:02:03:04:05:00:0a''" by code_simp
  have "plain_command ?c" by code_simp
  then show ?thesis using application_command_is_expanded [of ?c] e by (simp add: MAXSTR_def INI_MAX_LINE_def)
qed

text \<open>
  An open word is measured with what longer words before it left in the buffer, wherever the word
  itself ends: the command is refused although its text may fit.
\<close>

lemma open_word_measured_with_old_word:
  assumes "find_nul (cv_word s) = Some old" "find_nul (cv_tmp s) = Some text" "MAXSTR \<le> length text + length old"
  shows "end_in_word (s\<lparr>word_p := n\<rparr>) = Returns None"
  using assms by (simp add: end_in_word_def strlen_def defined_or_UB_def)

end
