(* ===== verification/Launcher_Network.thy ===== *)
theory Launcher_Network
  imports Launcher_Command
begin

unbundle bit_operations_syntax

text \<open>
  Programs and networks of the launcher (\<open>avblauncher/avblauncher.c\<close>): how a command is
  executed and waited for, the list of the VLANs and SRP domains the contexts need, and the
  commands of the reservation program that join and leave them or hold a stream. The results of
  the system calls are arguments; what the launcher does is a list of events.
\<close>

section \<open>Commands\<close>

datatype launch_event =
  Executed "u8 list" int
| Waited int
| Signalled int
| Closed int
| Avdecc_Created
| Avdecc_Released

text \<open>
  Both pairs of a pipe's ends and the result of \<open>fork\<close>. The child replaces its image or exits,
  so it never returns from here. The parent keeps one end of each pipe, which it closes nowhere.
\<close>

record exe_calls =
  ec_pipe_in :: "(int \<times> int) option"
  ec_pipe_out :: "(int \<times> int) option"
  ec_fork :: int

definition exe_command :: "exe_calls \<Rightarrow> u8 list \<Rightarrow> (int \<times> int \<times> int \<times> launch_event list) c_result" where
  "exe_command C cmdline =
    (case ec_pipe_in C of None \<Rightarrow> Returns (- 1, - 1, - 1, [])
     | Some (inr, inw) \<Rightarrow>
        (case ec_pipe_out C of None \<Rightarrow> Returns (- 1, - 1, - 1, [Closed inr, Closed inw])
         | Some (outr, outw) \<Rightarrow>
            if ec_fork C < 0 then
              Returns (- 1, - 1, - 1, [Closed inr, Closed inw, Closed outr, Closed outw])
            else if ec_fork C = 0 then NoReturn
            else Returns (ec_fork C, inr, outw, [Executed cmdline (ec_fork C), Closed outr, Closed inw])))"

text \<open>The status of the child: an exit with a code, or another end.\<close>

datatype wait_status = Exited_With int | Ended_Otherwise

definition wait_child_process :: "wait_status option \<Rightarrow> int" where
  "wait_child_process r =
    (case r of None \<Rightarrow> - 1 | Some Ended_Otherwise \<Rightarrow> - 1 | Some (Exited_With c) \<Rightarrow> c)"

definition snprintf :: "u8 list \<Rightarrow> u8 list" where
  "snprintf t = take (MAXSTR - 1) t"

section \<open>VLANs and domains\<close>

record domain_info =
  di_class :: u32
  di_priority :: u32

record connect_info =
  ci_vid :: u32
  ci_domain :: "domain_info list"

text \<open>The flag says whether the allocation succeeds; a failed one yields no list.\<close>

definition add_domain_info :: "bool \<Rightarrow> u64 \<Rightarrow> u64 \<Rightarrow> domain_info list \<Rightarrow> domain_info list option" where
  "add_domain_info ok srclass srpriority l =
    (if ok then Some (l @ [\<lparr> di_class = ucast srclass, di_priority = ucast srpriority \<rparr>]) else None)"

definition add_connect_list ::
  "bool \<Rightarrow> bool \<Rightarrow> app_context \<Rightarrow> connect_info list \<Rightarrow> connect_info list option" where
  "add_connect_list ok domain_ok ctx c_info =
    (if ok then Some (c_info @ [\<lparr> ci_vid = ucast (ac_vid ctx), ci_domain =
       (case add_domain_info domain_ok (ac_srclass ctx) (ac_srpriority ctx) [] of None \<Rightarrow> [] | Some l \<Rightarrow> l) \<rparr>])
     else None)"

definition same_class :: "domain_info \<Rightarrow> app_context \<Rightarrow> bool" where
  "same_class d ctx \<longleftrightarrow> scast (di_class d) = ac_srclass ctx"

definition same_priority :: "domain_info \<Rightarrow> app_context \<Rightarrow> bool" where
  "same_priority d ctx \<longleftrightarrow> scast (di_priority d) = ac_srpriority ctx"

text \<open>
  The loop over the contexts, each with the outcomes of its two allocations. Only the first
  domain of the first VLAN is looked at, and a conflict ends the loop.
\<close>

fun add_contexts ::
  "(app_context \<times> bool \<times> bool) list \<Rightarrow> connect_info list \<Rightarrow> (app_context list \<times> connect_info list) c_result" where
  "add_contexts [] c_info = Returns ([], c_info)"
| "add_contexts ((ctx, ok, domain_ok) # cs) c_info =
    (if err_flag ctx \<or> \<not> use_srp ctx then
       bindC (add_contexts cs c_info) (\<lambda>(out, c_info). Returns (ctx # out, c_info))
     else case c_info of
       [] \<Rightarrow>
        bindC (add_contexts cs (case add_connect_list ok domain_ok ctx [] of None \<Rightarrow> [] | Some l \<Rightarrow> l))
          (\<lambda>(out, c_info). Returns (ctx # out, c_info))
     | c # rest \<Rightarrow>
        (case ci_domain c of
           [] \<Rightarrow> UB
         | d # _ \<Rightarrow>
            if same_class d ctx \<and> same_priority d ctx then
              bindC (add_contexts cs c_info) (\<lambda>(out, c_info). Returns (ctx # out, c_info))
            else if same_class d ctx then
              Returns (ctx\<lparr>err_flag := True\<rparr> # map fst cs, c_info)
            else
              let ds = (case add_domain_info domain_ok (ac_srclass ctx) (ac_srpriority ctx) (ci_domain c) of
                None \<Rightarrow> ci_domain c | Some ds \<Rightarrow> ds)
              in bindC (add_contexts cs (c\<lparr>ci_domain := ds\<rparr> # rest)) (\<lambda>(out, c_info). Returns (ctx # out, c_info))))"

definition vlan_cmd :: "string \<Rightarrow> u32 \<Rightarrow> u8 list" where
  "vlan_cmd mode vid = snprintf (ascii ''mrpdummy -m '' @ ascii mode @ ascii '' -V '' @ print_d vid @ ascii '' -v'')"

definition domain_cmd :: "string \<Rightarrow> u32 \<Rightarrow> domain_info \<Rightarrow> u8 list" where
  "domain_cmd mode vid d = snprintf (ascii ''mrpdummy -m '' @ ascii mode @ ascii '' -V '' @ print_d vid @
    ascii '' -c '' @ print_d (di_class d) @ ascii '' -p '' @ print_d (di_priority d) @ ascii '' -v'')"

text \<open>The domains are those of the first VLAN for every VLAN.\<close>

definition join_commands :: "connect_info list \<Rightarrow> u8 list list" where
  "join_commands c_info =
    concat (map (\<lambda>l. vlan_cmd ''2'' (ci_vid l) # map (domain_cmd ''4'' (ci_vid l)) (ci_domain (hd c_info))) c_info)"

definition leave_commands :: "connect_info list \<Rightarrow> u8 list list" where
  "leave_commands c_info =
    concat (map (\<lambda>l. map (domain_cmd ''5'' (ci_vid l)) (ci_domain (hd c_info))) c_info) @
    map (\<lambda>l. vlan_cmd ''3'' (ci_vid l)) c_info"

text \<open>Every command is executed and waited for, whatever its result.\<close>

fun run_commands :: "(nat \<Rightarrow> exe_calls) \<Rightarrow> nat \<Rightarrow> u8 list list \<Rightarrow> launch_event list c_result" where
  "run_commands C n [] = Returns []"
| "run_commands C n (cmd # cmds) =
    bindC (exe_command (C n) cmd) (\<lambda>(pid, _, _, t).
    bindC (run_commands C (Suc n) cmds) (\<lambda>t'. Returns (t @ Waited pid # t')))"

definition connect_avb_network ::
  "(nat \<Rightarrow> exe_calls) \<Rightarrow> (app_context \<times> bool \<times> bool) list \<Rightarrow> connect_info list \<Rightarrow>
    (app_context list \<times> connect_info list \<times> launch_event list) c_result" where
  "connect_avb_network C cs c_info =
    bindC (add_contexts cs c_info) (\<lambda>(out, c_info).
    bindC (run_commands C 0 (join_commands c_info)) (\<lambda>t. Returns (out, c_info, t)))"

text \<open>
  The domains of the first VLAN are freed for every VLAN, so a second VLAN would reach freed
  memory.
\<close>

definition disconnect_avb_network ::
  "(nat \<Rightarrow> exe_calls) \<Rightarrow> connect_info list \<Rightarrow> launch_event list c_result" where
  "disconnect_avb_network C c_info =
    (if 1 < length c_info \<and> ci_domain (hd c_info) \<noteq> [] then UB else run_commands C 0 (leave_commands c_info))"

section \<open>Streams\<close>

definition talker_stream_id :: "app_context \<Rightarrow> u64" where
  "talker_stream_id ctx =
    join_bytes (take 6 (ac_src_addr ctx) @ [ucast (drop_bit 8 (ac_uid ctx AND 0xff00)), ucast (ac_uid ctx AND 0x00ff)])"

definition talker_cmd :: "app_context \<Rightarrow> u8 list" where
  "talker_cmd ctx = snprintf (ascii ''mrpdummy -m 0 -S '' @ snprintf (print_hex 16 (talker_stream_id ctx)) @
    ascii '' -A '' @ snprintf (print_hex 12 (join_bytes (take 6 (ac_dest_addr ctx)))) @
    ascii '' -Z '' @ print_u (ac_maxframesize ctx) @ ascii '' -I '' @ print_u (ac_frameintervals ctx) @
    ascii '' -L '' @ print_u (ac_latency ctx) @ ascii '' -v'')"

definition listener_cmd :: "app_context \<Rightarrow> u8 list" where
  "listener_cmd ctx = snprintf (ascii ''mrpdummy -m 1 -S '' @ snprintf (print_hex 16 (join_bytes (take 8 (ac_streamid ctx)))) @
    ascii '' -v'')"

definition stream_reservation_for_talker ::
  "exe_calls \<Rightarrow> app_context \<Rightarrow> (int \<times> app_context \<times> int \<times> launch_event list) c_result" where
  "stream_reservation_for_talker C ctx =
    bindC (exe_command C (talker_cmd ctx)) (\<lambda>(pid, fd_r, _, t).
    Returns (if pid < 0 then - 1 else 0, ctx\<lparr>mrpdummy_pid := pid\<rparr>, fd_r, t))"

definition stream_reservation_for_listener ::
  "exe_calls \<Rightarrow> app_context \<Rightarrow> (int \<times> app_context \<times> int \<times> launch_event list) c_result" where
  "stream_reservation_for_listener C ctx =
    bindC (exe_command C (listener_cmd ctx)) (\<lambda>(pid, fd_r, _, t).
    Returns (if pid < 0 then - 1 else 0, ctx\<lparr>mrpdummy_pid := pid\<rparr>, fd_r, t))"

end
