(* ===== verification/Launcher_Network_Props.thy ===== *)
theory Launcher_Network_Props
  imports Launcher_Network Launcher_Config_Props Mrpdummy_Props
begin

unbundle bit_operations_syntax

text \<open>
  The launcher and the reservation program together: the commands of the launcher, split into
  words by the shell and parsed by the reservation program, declare what the context asks for;
  what is joined is left again; and every class a context needs is joined. The shell is a
  parameter that splits plain words at single blanks.
\<close>

section \<open>Words of a command\<close>

fun join_words :: "u8 list list \<Rightarrow> u8 list" where
  "join_words [] = []"
| "join_words [w] = w"
| "join_words (w # v # ws) = w @ 32 # join_words (v # ws)"

definition word_char :: "u8 \<Rightarrow> bool" where
  "word_char c \<longleftrightarrow> 48 \<le> c \<and> c \<le> 58 \<or> 97 \<le> c \<and> c \<le> 122 \<or> 65 \<le> c \<and> c \<le> 90 \<or> c = 45"

definition plain_word :: "u8 list \<Rightarrow> bool" where
  "plain_word w \<longleftrightarrow> w \<noteq> [] \<and> (\<forall>c\<in>set w. word_char c)"

definition shell_ok :: "(u8 list \<Rightarrow> u8 list list) \<Rightarrow> bool" where
  "shell_ok sh \<longleftrightarrow> (\<forall>ws. (\<forall>w\<in>set ws. plain_word w) \<longrightarrow> sh (join_words ws) = ws)"

fun split_words :: "u8 list \<Rightarrow> u8 list \<Rightarrow> u8 list list" where
  "split_words w [] = (if w = [] then [] else [w])"
| "split_words w (c # cs) =
    (if c = 32 then (if w = [] then split_words [] cs else w # split_words [] cs) else split_words (w @ [c]) cs)"

lemma split_words_word: "\<forall>c\<in>set v. word_char c \<Longrightarrow> split_words w (v @ cs) = split_words (w @ v) cs"
  by (induction v arbitrary: w) (auto simp: word_char_def)

lemma split_words_ok: "shell_ok (split_words [])"
proof -
  have "(\<forall>w\<in>set ws. plain_word w) \<Longrightarrow> split_words [] (join_words ws) = ws" for ws
  proof (induction ws rule: join_words.induct)
    case (2 w)
    then show ?case using split_words_word [of w "[]" "[]"] by (simp add: plain_word_def)
  next
    case (3 w v ws)
    then show ?case using split_words_word [of w "[]"] by (simp add: plain_word_def)
  qed simp
  then show ?thesis by (simp add: shell_ok_def)
qed

lemma hex_digit_word_char: "hex_digit c \<noteq> None \<Longrightarrow> word_char c"
  by (auto simp: hex_digit_def word_char_def split: if_splits) unat_arith+

lemma plain_wordI: "w \<noteq> [] \<Longrightarrow> (\<And>c. c \<in> set w \<Longrightarrow> hex_digit c \<noteq> None) \<Longrightarrow> plain_word w"
  using hex_digit_word_char unfolding plain_word_def by blast

lemma plain_print_hex: "plain_word (print_hex n v)"
  by (rule plain_wordI [OF _ print_hex_chars]) (simp add: print_hex_def)

lemma plain_print_u: "plain_word (print_u v)"
  unfolding print_u_def
  by (rule plain_wordI [OF digits_not_Nil is_digit_hex]) (use set_digits [of 10 "uint v"] in simp)

lemma plain_print_d: "0 \<le> sint v \<Longrightarrow> plain_word (print_d v)"
  using print_d_chars by (intro plain_wordI) (simp add: print_d_def, blast)

section \<open>Options of a command\<close>

text \<open>An option letter with its argument in the next word.\<close>

definition option_words :: "(char \<times> u8 list) list \<Rightarrow> u8 list list" where
  "option_words os = concat (map (\<lambda>(c, a). [[45, ch c], a]) os)"

lemma getopt_option_words:
  assumes "\<forall>(c, a)\<in>set os. spec (ch c) = Some True \<and> ch c \<noteq> 45"
  shows "getopt spec (option_words os @ ws) = (let (os', rest) = getopt spec ws in (map (\<lambda>(c, a). (ch c, a)) os @ os', rest))"
  using assms
proof (induction os)
  case Nil
  then show ?case by (simp add: option_words_def)
next
  case (Cons oa os)
  obtain c a where oa: "oa = (c, a)" by fastforce
  show ?case
    using Cons oa by (auto simp: option_words_def is_option_word_def ascii_def ch_def split: prod.splits)
qed

lemma join_words_Cons: "ws \<noteq> [] \<Longrightarrow> join_words (w # ws) = w @ 32 # join_words ws"
  by (cases ws) simp_all

lemma atoi_print_d: "0 \<le> sint v \<Longrightarrow> atoi (print_d v) = v"
  using convert_print_d [of "[]" v] by (simp add: atoi_def atol_def ends_number_def)

lemma atoi_print_u:
  assumes "uint (v :: u64) < 2 ^ 63"
  shows "atoi (print_u v) = ucast v"
  using strto_print_u [OF assms] by (auto simp: atoi_def atol_def strto_def print_u_def Let_def split: option.splits prod.splits)

lemma strto_print_hex: "strto ConvLX (print_hex n (v :: u64)) = (v, [], False)"
proof -
  let ?ds = "pad0 n (digits digit_char 16 (uint v))"
  have dig: "\<forall>c\<in>set ?ds. is_digit 16 c" using set_pad_digits [of 16 "uint v" _ n] by simp
  then have hex: "\<forall>c\<in>set ?ds. hex_digit c \<noteq> None" using is_digit_hex by blast
  have ne: "?ds \<noteq> []" by simp
  then obtain d ds' where d: "?ds = d # ds'" by (meson neq_Nil_conv)
  have "hex_digit (hd ?ds) \<noteq> None" using hex d by auto
  then have sp: "dropWhile is_space ?ds = ?ds" and sg: "split_sign ?ds = (False, ?ds)"
    using hex_digit_char_class d split_sign_digit by auto
  have sk: "skip_0x ?ds = ?ds" using skip_0x_digits [OF hex ne, of "[]"] by (simp add: ends_number_def)
  have tw: "takeWhile (is_digit 16) ?ds = ?ds" using takeWhile_digits [OF dig, of "[]"] by (simp add: ends_number_def)
  have c: "convert ConvLX ?ds = Some (v, [])"
    using convert_print_hex [of "[]" n v] by (simp add: ends_number_def print_hex_def)
  have "uint v < 2 ^ 64" using uint_lt2p [of v] by simp
  then show ?thesis by (simp add: strto_def print_hex_def conv_base_def c sp sg sk tw pad_digits_value)
qed

definition program_words :: "(char \<times> u8 list) list \<Rightarrow> u8 list list" where
  "program_words os = ascii ''mrpdummy'' # option_words os @ [ascii ''-v'']"

text \<open>What the reservation program makes of a command.\<close>

definition run_by_shell :: "(u8 list \<Rightarrow> u8 list list) \<Rightarrow> u8 list \<Rightarrow> (int \<times> mrp_property) parse_result" where
  "run_by_shell sh cmd = command_parse (fst (getopt dummy_spec (tl (sh cmd))))"

definition dummy_letter :: "char \<Rightarrow> bool" where
  "dummy_letter c \<longleftrightarrow> c \<in> set ''mSAVZIprcL''"

lemma run_by_shell_options:
  assumes "shell_ok sh" "\<forall>(c, a)\<in>set os. dummy_letter c \<and> plain_word a"
  shows "run_by_shell sh (join_words (program_words os)) = command_parse (map (\<lambda>(c, a). (ch c, a)) os @ [(ch CHR ''v'', [])])"
proof -
  have l: "dummy_spec (ch c) = Some True \<and> ch c \<noteq> 45 \<and> plain_word [45, ch c]" if "dummy_letter c" for c
    using that by (auto simp: dummy_letter_def dummy_spec_def option_spec_def ascii_def ch_def plain_word_def word_char_def)
  have "plain_word (ascii ''mrpdummy'')" "plain_word (ascii ''-v'')" by code_simp+
  then have "\<forall>w\<in>set (program_words os). plain_word w"
    using assms(2) l by (fastforce simp: program_words_def option_words_def)
  then have "sh (join_words (program_words os)) = program_words os" using assms(1) unfolding shell_ok_def by blast
  moreover have "getopt dummy_spec [ascii ''-v''] = ([(ch CHR ''v'', [])], [])" by code_simp
  moreover have "\<forall>(c, a)\<in>set os. dummy_spec (ch c) = Some True \<and> ch c \<noteq> 45" using assms(2) l by auto
  ultimately show ?thesis
    using getopt_option_words [of os dummy_spec "[ascii ''-v'']"] by (simp add: run_by_shell_def program_words_def)
qed

section \<open>Domains and VLANs\<close>

lemma join_words_append:
  "ws \<noteq> [] \<Longrightarrow> vs \<noteq> [] \<Longrightarrow> join_words (ws @ vs) = join_words ws @ 32 # join_words vs"
proof (induction ws)
  case (Cons w ws)
  then show ?case by (cases ws) (simp_all add: join_words_Cons)
qed simp

lemma snprintf_short: "length t < MAXSTR \<Longrightarrow> snprintf t = t"
  by (simp add: snprintf_def)

lemma vlan_cmd_words:
  assumes "length mode = 1"
  shows "vlan_cmd mode vid = join_words (program_words [(CHR ''m'', ascii mode), (CHR ''V'', print_d vid)])"
proof -
  have "vlan_cmd mode vid = ascii ''mrpdummy -m '' @ ascii mode @ ascii '' -V '' @ print_d vid @ ascii '' -v''"
    unfolding vlan_cmd_def using length_print_d32 [of vid] assms by (intro snprintf_short) (simp add: MAXSTR_def INI_MAX_LINE_def)
  then show ?thesis by (simp add: program_words_def option_words_def ascii_def ch_def)
qed

lemma domain_cmd_words:
  assumes "length mode = 1"
  shows "domain_cmd mode vid d = join_words (program_words [(CHR ''m'', ascii mode), (CHR ''V'', print_d vid),
    (CHR ''c'', print_d (di_class d)), (CHR ''p'', print_d (di_priority d))])"
proof -
  have "domain_cmd mode vid d = ascii ''mrpdummy -m '' @ ascii mode @ ascii '' -V '' @ print_d vid @
    ascii '' -c '' @ print_d (di_class d) @ ascii '' -p '' @ print_d (di_priority d) @ ascii '' -v''"
    unfolding domain_cmd_def
    using length_print_d32 [of vid] length_print_d32 [of "di_class d"] length_print_d32 [of "di_priority d"] assms
    by (intro snprintf_short) (simp add: MAXSTR_def INI_MAX_LINE_def)
  then show ?thesis by (simp add: program_words_def option_words_def ascii_def ch_def)
qed

text \<open>The class that is declared: the two options change each other.\<close>

definition declared_class :: "domain_info \<Rightarrow> u32" where
  "declared_class d =
    (if di_class d = 5 \<and> di_priority d = 3 then 6 else if di_class d = 6 \<and> di_priority d = 2 then 5 else di_class d)"

definition domain_property :: "u32 \<Rightarrow> domain_info \<Rightarrow> mrp_property" where
  "domain_property vid d = dummy_prop_init\<lparr>verbose := True, vlan := vid, sr_class := declared_class d,
    sr_priority := di_priority d\<rparr>"

definition valid_domain :: "u32 \<Rightarrow> domain_info \<Rightarrow> bool" where
  "valid_domain vid d \<longleftrightarrow> 1 \<le> sint vid \<and> sint vid \<le> 4094 \<and> 0 \<le> sint (di_class d) \<and> sint (di_class d) \<le> 7 \<and>
    0 \<le> sint (di_priority d) \<and> sint (di_priority d) \<le> 7"

lemma domain_command_parsed:
  assumes "shell_ok sh" "valid_domain vid d" "mode = ''4'' \<and> m = MODE_REGISTER_DOMAIN \<or> mode = ''5'' \<and> m = MODE_UNREGISTER_DOMAIN"
  shows "run_by_shell sh (domain_cmd mode vid d) = Parsed (m, domain_property vid d)"
proof -
  let ?os = "[(CHR ''m'', ascii mode), (CHR ''V'', print_d vid), (CHR ''c'', print_d (di_class d)), (CHR ''p'', print_d (di_priority d))]"
  have pos: "0 \<le> sint vid" "0 \<le> sint (di_class d)" "0 \<le> sint (di_priority d)" using assms(2) by (simp_all add: valid_domain_def)
  have "plain_word (ascii mode)" "length mode = 1" using assms(3) by (auto simp: plain_word_def ascii_def word_char_def)
  then have "run_by_shell sh (domain_cmd mode vid d) = command_parse (map (\<lambda>(c, a). (ch c, a)) ?os @ [(ch CHR ''v'', [])])"
    using run_by_shell_options [OF assms(1), of ?os] pos
    by (simp add: domain_cmd_words plain_print_d dummy_letter_def)
  moreover have "sint (atoi (ascii ''4'')) = 4" "sint (atoi (ascii ''5'')) = 5" by code_simp+
  then have "sint (atoi (ascii mode)) = m" using assms(3) by (auto simp: mode_defs)
  ultimately show ?thesis
    using assms(2,3) atoi_print_d [OF pos(1)] atoi_print_d [OF pos(2)] atoi_print_d [OF pos(3)]
    by (auto simp: command_parse_def dummy_option_def ch_def set_prop_def set_dummy_class_def set_dummy_priority_def
      check_dummy_options_def dummy_prop_init_def domain_property_def declared_class_def valid_domain_def mode_defs
      MSRP_SR_CLASS_A_def MSRP_SR_CLASS_B_def MSRP_SR_CLASS_A_PRIO_def MSRP_SR_CLASS_B_PRIO_def MSRP_RANK_def)
qed

lemma vlan_command_parsed:
  assumes "shell_ok sh" "1 \<le> sint vid" "sint vid \<le> 4094"
    "mode = ''2'' \<and> m = MODE_JOIN_VLAN \<or> mode = ''3'' \<and> m = MODE_LEAVE_VLAN"
  shows "run_by_shell sh (vlan_cmd mode vid) = Parsed (m, dummy_prop_init\<lparr>verbose := True, vlan := vid\<rparr>)"
proof -
  let ?os = "[(CHR ''m'', ascii mode), (CHR ''V'', print_d vid)]"
  have pos: "0 \<le> sint vid" using assms(2) by simp
  have "plain_word (ascii mode)" "length mode = 1" using assms(4) by (auto simp: plain_word_def ascii_def word_char_def)
  then have "run_by_shell sh (vlan_cmd mode vid) = command_parse (map (\<lambda>(c, a). (ch c, a)) ?os @ [(ch CHR ''v'', [])])"
    using run_by_shell_options [OF assms(1), of ?os] pos by (simp add: vlan_cmd_words plain_print_d dummy_letter_def)
  moreover have "sint (atoi (ascii ''2'')) = 2" "sint (atoi (ascii ''3'')) = 3" by code_simp+
  then have "sint (atoi (ascii mode)) = m" using assms(4) by (auto simp: mode_defs)
  ultimately show ?thesis
    using assms(2-4) atoi_print_d [OF pos]
    by (auto simp: command_parse_def dummy_option_def ch_def set_prop_def check_dummy_options_def dummy_prop_init_def
      mode_defs MSRP_SR_CLASS_A_def MSRP_SR_CLASS_A_PRIO_def MSRP_RANK_def)
qed

text \<open>
  C31: The commands by which the launcher joins and leaves a VLAN and an SRP domain, split into
  words by the shell, are parsed by the reservation program into exactly the declarations for
  that VLAN, class and priority, except that class 5 with priority 3 and class 6 with priority 2
  are declared with the other class.
\<close>
theorem launcher_commands_declare_its_domains:
  assumes "shell_ok sh" "valid_domain vid d"
  shows "run_by_shell sh (vlan_cmd ''2'' vid) = Parsed (MODE_JOIN_VLAN, dummy_prop_init\<lparr>verbose := True, vlan := vid\<rparr>) \<and>
    run_by_shell sh (domain_cmd ''4'' vid d) = Parsed (MODE_REGISTER_DOMAIN, domain_property vid d) \<and>
    run_by_shell sh (domain_cmd ''5'' vid d) = Parsed (MODE_UNREGISTER_DOMAIN, domain_property vid d) \<and>
    run_by_shell sh (vlan_cmd ''3'' vid) = Parsed (MODE_LEAVE_VLAN, dummy_prop_init\<lparr>verbose := True, vlan := vid\<rparr>) \<and>
    (sr_class (domain_property vid d) = di_class d \<longleftrightarrow>
      (di_class d, di_priority d) \<noteq> (5, 3) \<and> (di_class d, di_priority d) \<noteq> (6, 2))"
proof -
  have v: "1 \<le> sint vid" "sint vid \<le> 4094" using assms(2) by (simp_all add: valid_domain_def)
  show ?thesis
    by (intro conjI domain_command_parsed [OF assms] vlan_command_parsed [OF assms(1) v])
      (auto simp: domain_property_def declared_class_def)
qed

lemma launcher_commands_declare_its_domains_witness:
  "run_by_shell (split_words []) (domain_cmd ''4'' 2 \<lparr> di_class = 6, di_priority = 3 \<rparr>) =
    Parsed (4, domain_property 2 \<lparr> di_class = 6, di_priority = 3 \<rparr>) \<and>
   sr_class (domain_property 2 \<lparr> di_class = 6, di_priority = 3 \<rparr>) = 6 \<and>
   sr_class (domain_property 2 \<lparr> di_class = 5, di_priority = 3 \<rparr>) = 6"
  using launcher_commands_declare_its_domains [OF split_words_ok, of 2 "\<lparr> di_class = 6, di_priority = 3 \<rparr>"]
  by (simp add: valid_domain_def mode_defs domain_property_def declared_class_def)

section \<open>Streams\<close>

lemma uint_join_bytes:
  "length bs \<le> 8 \<Longrightarrow> uint (join_bytes bs) < 256 ^ length bs"
proof (induction bs rule: rev_induct)
  case (snoc b bs)
  let ?x = "join_bytes bs"
  have x: "uint ?x < 256 ^ length bs" using snoc by simp
  have b: "uint b \<le> 255" using uint_lt2p [of b] by simp
  have "256 ^ Suc (length bs) \<le> (256 :: int) ^ 8" using snoc.prems by (intro power_increasing) auto
  then have "256 * uint ?x + uint b < 2 ^ 64" "256 * uint ?x + uint b < 256 ^ Suc (length bs)"
    using x b by simp_all
  moreover have "uint (ucast b :: u64) = uint b" by (rule uint_up_ucast) (simp add: is_up)
  then have "uint (join_bytes (bs @ [b])) = (256 * uint ?x + uint b) mod 2 ^ 64"
    by (simp add: join_bytes_def push_bit_eq_mult uint_word_ariths mod_simps mult.commute)
  ultimately show ?case by simp
qed (simp add: join_bytes_def)

lemma talker_cmd_words:
  "talker_cmd ctx = join_words (program_words [(CHR ''m'', ascii ''0''), (CHR ''S'', print_hex 16 (talker_stream_id ctx)),
    (CHR ''A'', print_hex 12 (join_bytes (take 6 (ac_dest_addr ctx)))), (CHR ''Z'', print_u (ac_maxframesize ctx)),
    (CHR ''I'', print_u (ac_frameintervals ctx)), (CHR ''L'', print_u (ac_latency ctx))])"
proof -
  have s: "snprintf (print_hex n (v :: u64)) = print_hex n v \<and> length (print_hex n v) \<le> 16" if "n \<le> 16" for n v
    using length_print_hex64 [OF that, of v] by (simp add: snprintf_short MAXSTR_def INI_MAX_LINE_def)
  have "talker_cmd ctx = ascii ''mrpdummy -m 0 -S '' @ print_hex 16 (talker_stream_id ctx) @
    ascii '' -A '' @ print_hex 12 (join_bytes (take 6 (ac_dest_addr ctx))) @
    ascii '' -Z '' @ print_u (ac_maxframesize ctx) @ ascii '' -I '' @ print_u (ac_frameintervals ctx) @
    ascii '' -L '' @ print_u (ac_latency ctx) @ ascii '' -v''"
    unfolding talker_cmd_def
    using s [of 16 "talker_stream_id ctx"] s [of 12 "join_bytes (take 6 (ac_dest_addr ctx))"]
      length_print_u64 [of "ac_maxframesize ctx"] length_print_u64 [of "ac_frameintervals ctx"] length_print_u64 [of "ac_latency ctx"]
    by (simp add: snprintf_short MAXSTR_def INI_MAX_LINE_def)
  then show ?thesis by (simp add: program_words_def option_words_def ascii_def ch_def)
qed

lemma listener_cmd_words:
  "listener_cmd ctx = join_words (program_words [(CHR ''m'', ascii ''1''),
    (CHR ''S'', print_hex 16 (join_bytes (take 8 (ac_streamid ctx))))])"
proof -
  have "snprintf (print_hex 16 (v :: u64)) = print_hex 16 v \<and> length (print_hex 16 v) \<le> 16" for v
    using length_print_hex64 [of 16 v] by (simp add: snprintf_short MAXSTR_def INI_MAX_LINE_def)
  from this [of "join_bytes (take 8 (ac_streamid ctx))"]
  have "listener_cmd ctx = ascii ''mrpdummy -m 1 -S '' @ print_hex 16 (join_bytes (take 8 (ac_streamid ctx))) @ ascii '' -v''"
    unfolding listener_cmd_def by (simp add: snprintf_short MAXSTR_def INI_MAX_LINE_def)
  then show ?thesis by (simp add: program_words_def option_words_def ascii_def ch_def)
qed

text \<open>
  The reservation of a talker context and of a listener context. The VLAN, the class and the
  priority are the defaults of the reservation program, whatever the context says.
\<close>

definition talker_property :: "app_context \<Rightarrow> mrp_property" where
  "talker_property ctx = \<lparr> verbose = True, streamid = talker_stream_id ctx, destaddr = join_bytes (take 6 (ac_dest_addr ctx)),
    vlan = 2, MaxFrameSize = ucast (ac_maxframesize ctx), MaxIntervalFrames = ucast (ac_frameintervals ctx),
    sr_priority = 3, sr_rank = 1, latency = ucast (ac_latency ctx), sr_class = 6 \<rparr>"

lemma sint_small:
  assumes "uint (w :: 'a::len word) < 2 ^ (LENGTH('a) - 1)"
  shows "sint w = uint w"
proof -
  have "- (2 ^ (LENGTH('a) - 1)) \<le> uint w" by (rule order_trans [OF _ uint_ge_0]) simp
  then show ?thesis using assms by (simp add: sint_uint signed_take_bit_int_eq_self)
qed

lemma uint_ucast_small:
  assumes "uint (v :: u64) < 2 ^ 31"
  shows "sint (ucast v :: u32) = uint v" "uint (ucast v :: u32) = uint v"
proof -
  show u: "uint (ucast v :: u32) = uint v" using assms by (simp add: unsigned_ucast_eq take_bit_int_eq_self)
  show "sint (ucast v :: u32) = uint v"
    using assms u sint_small [of "ucast v :: u32"] by simp
qed

lemma talker_command_parsed:
  assumes "shell_ok sh" "valid_context ctx" "operating_mode ctx = TALKER_MODE"
  shows "run_by_shell sh (talker_cmd ctx) = Parsed (MODE_TALKER, talker_property ctx)"
proof -
  let ?os = "[(CHR ''m'', ascii ''0''), (CHR ''S'', print_hex 16 (talker_stream_id ctx)),
    (CHR ''A'', print_hex 12 (join_bytes (take 6 (ac_dest_addr ctx)))), (CHR ''Z'', print_u (ac_maxframesize ctx)),
    (CHR ''I'', print_u (ac_frameintervals ctx)), (CHR ''L'', print_u (ac_latency ctx))]"
  have "plain_word (ascii ''0'')" by code_simp
  then have run: "run_by_shell sh (talker_cmd ctx) = command_parse (map (\<lambda>(c, a). (ch c, a)) ?os @ [(ch CHR ''v'', [])])"
    using run_by_shell_options [OF assms(1), of ?os]
    by (simp add: talker_cmd_words plain_print_u plain_print_hex dummy_letter_def)
  have r: "46 \<le> uint (ac_maxframesize ctx)" "uint (ac_maxframesize ctx) \<le> 1500" "1 \<le> uint (ac_frameintervals ctx)"
    "uint (ac_frameintervals ctx) \<le> 65535" "uint (ac_latency ctx) \<le> 4294967295"
    using assms(2,3) by (simp_all add: valid_context_def word_le_def)
  have l: "sint (ac_latency ctx) = uint (ac_latency ctx)" using r(5) sint_small [of "ac_latency ctx"] by simp
  have at: "atoi (print_u (ac_maxframesize ctx)) = ucast (ac_maxframesize ctx)"
    "atoi (print_u (ac_frameintervals ctx)) = ucast (ac_frameintervals ctx)"
    "strto ConvD (print_u (ac_latency ctx)) = (ac_latency ctx, [], False)"
    using r by (simp_all add: atoi_print_u strto_print_u)
  have neg: "take 1 (print_hex n (v :: u64)) \<noteq> [45]" "take 1 (print_u (v :: u64)) \<noteq> [45]" for n v
    using plain_print_hex [of n v] plain_print_u [of v] print_hex_chars [of "hd (print_hex n v)" n v]
      set_digits [of 10 "uint v" "hd (print_u v)"] is_digit_hex [of 10 "hd (print_u v)"]
    by (cases "print_hex n v"; cases "print_u v"; auto simp: plain_word_def hex_digit_def print_u_def)+
  have d: "uint (join_bytes (take 6 (ac_dest_addr ctx))) < 256 ^ length (take 6 (ac_dest_addr ctx))"
    by (rule uint_join_bytes) simp
  have "(256 :: int) ^ length (take 6 (ac_dest_addr ctx)) \<le> 256 ^ 6" by (intro power_increasing) auto
  then have d: "\<not> 0xffffffffffff < join_bytes (take 6 (ac_dest_addr ctx))" using d by (simp add: word_less_def)
  have "sint (atoi (ascii ''0'')) = 0" by code_simp
  then show ?thesis
    unfolding run using at neg d r l uint_ucast_small
    by (simp add: command_parse_def dummy_option_def ch_def set_prop_def bad_number_def strto_print_hex
      check_dummy_options_def dummy_prop_init_def talker_property_def mode_defs
      MSRP_SR_CLASS_A_def MSRP_SR_CLASS_A_PRIO_def MSRP_RANK_def MSRP_SR_CLASS_VID_def)
qed

definition listener_property :: "app_context \<Rightarrow> mrp_property" where
  "listener_property ctx = dummy_prop_init\<lparr>verbose := True, streamid := join_bytes (take 8 (ac_streamid ctx))\<rparr>"

lemma listener_command_parsed:
  assumes "shell_ok sh"
  shows "run_by_shell sh (listener_cmd ctx) = Parsed (MODE_LISTENER, listener_property ctx)"
proof -
  let ?os = "[(CHR ''m'', ascii ''1''), (CHR ''S'', print_hex 16 (join_bytes (take 8 (ac_streamid ctx))))]"
  have "plain_word (ascii ''1'')" by code_simp
  then have run: "run_by_shell sh (listener_cmd ctx) = command_parse (map (\<lambda>(c, a). (ch c, a)) ?os @ [(ch CHR ''v'', [])])"
    using run_by_shell_options [OF assms(1), of ?os]
    by (simp add: listener_cmd_words plain_print_hex dummy_letter_def)
  have neg: "take 1 (print_hex n (v :: u64)) \<noteq> [45]" for n v
    using print_hex_chars [of "hd (print_hex n v)" n v]
    by (cases "print_hex n v") (auto simp: hex_digit_def)
  have "sint (atoi (ascii ''1'')) = 1" by code_simp
  then show ?thesis
    unfolding run using neg
    by (simp add: command_parse_def dummy_option_def ch_def set_prop_def bad_number_def strto_print_hex
      check_dummy_options_def dummy_prop_init_def listener_property_def mode_defs
      MSRP_SR_CLASS_A_def MSRP_SR_CLASS_A_PRIO_def MSRP_RANK_def MSRP_SR_CLASS_VID_def)
qed

text \<open>
  C32: The reservation command of an accepted context, split into words by the shell, is parsed
  by the reservation program into the stream identifier, destination, sizes and latency of the
  context; the VLAN, class and priority of a talker are always 2, 6 and 3.
\<close>
theorem reservation_commands_carry_the_stream:
  assumes "shell_ok sh" "valid_context ctx"
  shows "case operating_mode ctx of
      TALKER_MODE \<Rightarrow> run_by_shell sh (talker_cmd ctx) = Parsed (MODE_TALKER, talker_property ctx)
    | LISTENER_MODE \<Rightarrow> run_by_shell sh (listener_cmd ctx) = Parsed (MODE_LISTENER, listener_property ctx)"
  using talker_command_parsed [OF assms] listener_command_parsed [OF assms(1)] by (cases "operating_mode ctx") simp_all

definition reserving_context :: app_context where
  "reserving_context = sample_context\<lparr>ac_src_addr := [2, 0, 0, 0, 0, 1], ac_dest_addr := [0x91, 0xe0, 0xf0, 0, 0x0e, 0x80],
    ac_required := (\<lambda>_. True), ac_srclass := 5, ac_srpriority := 2, ac_vid := 3, ac_latency := 2000\<rparr>"

lemma reservation_commands_carry_the_stream_witness:
  "run_by_shell (split_words []) (talker_cmd reserving_context) = Parsed (0,
    \<lparr> verbose = True, streamid = 0x0200000000010001, destaddr = 0x91e0f0000e80, vlan = 2, MaxFrameSize = 84,
      MaxIntervalFrames = 1, sr_priority = 3, sr_rank = 1, latency = 2000, sr_class = 6 \<rparr>)"
proof -
  have v: "valid_context reserving_context" "operating_mode reserving_context = TALKER_MODE"
    by (simp_all add: valid_context_def reserving_context_def sample_context_def given_def)
  have "talker_stream_id reserving_context = 0x0200000000010001"
    "join_bytes (take 6 (ac_dest_addr reserving_context)) = 0x91e0f0000e80" by code_simp+
  then show ?thesis
    using reservation_commands_carry_the_stream [OF split_words_ok v(1)] v(2)
    by (simp add: talker_property_def mode_defs) (simp add: reserving_context_def sample_context_def)
qed

section \<open>Joining and leaving\<close>

fun executed :: "launch_event list \<Rightarrow> u8 list list" where
  "executed [] = []"
| "executed (e # es) = (case e of Executed cmd _ \<Rightarrow> cmd # executed es | _ \<Rightarrow> executed es)"

lemma executed_append [simp]: "executed (a @ b) = executed a @ executed b"
  by (induction a) (auto split: launch_event.splits)

definition starts :: "exe_calls \<Rightarrow> bool" where
  "starts C \<longleftrightarrow> ec_pipe_in C \<noteq> None \<and> ec_pipe_out C \<noteq> None \<and> 0 < ec_fork C"

lemma exe_command_starts:
  assumes "starts C"
  shows "\<exists>r w t. exe_command C cmd = Returns (ec_fork C, r, w, t) \<and> executed t = [cmd]"
proof -
  obtain a b c d where "ec_pipe_in C = Some (a, b)" "ec_pipe_out C = Some (c, d)" "0 < ec_fork C"
    using assms unfolding starts_def by fast
  then show ?thesis by (auto simp: exe_command_def)
qed

lemma run_commands_starts:
  assumes "\<forall>n. starts (C n)"
  shows "\<exists>t. run_commands C n cmds = Returns t \<and> executed t = cmds"
proof (induction cmds arbitrary: n)
  case (Cons cmd cmds)
  obtain r w t where "exe_command (C n) cmd = Returns (ec_fork (C n), r, w, t)" "executed t = [cmd]"
    using exe_command_starts assms by blast
  moreover obtain t' where "run_commands C (Suc n) cmds = Returns t'" "executed t' = cmds" using Cons.IH by blast
  ultimately show ?case by simp
qed simp

lemma add_contexts_one_vlan:
  "add_contexts cs c_info = Returns (out, c_info') \<Longrightarrow> length c_info \<le> 1 \<Longrightarrow> length c_info' \<le> 1"
proof (induction cs c_info arbitrary: out c_info' rule: add_contexts.induct)
  case (2 ctx ok domain_ok cs c_info)
  then show ?case
    by (auto simp: bindC_eq_Returns_iff add_connect_list_def Let_def split: if_splits list.splits option.splits)
qed simp

text \<open>
  The launcher leaves exactly what it joined: after the commands that join a VLAN and
  register its domains, the release runs, without touching freed memory, the commands that
  unregister the same domains and leave the same VLAN.
\<close>
theorem every_joined_network_is_left:
  assumes "connect_avb_network C cs [] = Returns (out, c_info, t)" "\<forall>n. starts (C n)" "\<forall>n. starts (C' n)"
  shows "\<exists>t'. disconnect_avb_network C' c_info = Returns t' \<and>
    (case c_info of [] \<Rightarrow> executed t = [] \<and> executed t' = []
     | l # ls \<Rightarrow> ls = [] \<and>
        executed t = vlan_cmd ''2'' (ci_vid l) # map (domain_cmd ''4'' (ci_vid l)) (ci_domain l) \<and>
        executed t' = map (domain_cmd ''5'' (ci_vid l)) (ci_domain l) @ [vlan_cmd ''3'' (ci_vid l)])"
proof -
  have c: "add_contexts cs [] = Returns (out, c_info)" "run_commands C 0 (join_commands c_info) = Returns t"
    using assms(1) by (auto simp: connect_avb_network_def bindC_eq_Returns_iff)
  have l: "length c_info \<le> 1" using add_contexts_one_vlan [OF c(1)] by simp
  have e: "executed t = join_commands c_info" using run_commands_starts [OF assms(2), of 0 "join_commands c_info"] c(2) by simp
  obtain t' where t': "run_commands C' 0 (leave_commands c_info) = Returns t'" "executed t' = leave_commands c_info"
    using run_commands_starts [OF assms(3)] by blast
  show ?thesis
    using l e t' by (cases c_info) (auto simp: disconnect_avb_network_def join_commands_def leave_commands_def)
qed

definition sample_exe :: "nat \<Rightarrow> exe_calls" where
  "sample_exe n = \<lparr> ec_pipe_in = Some (3, 4), ec_pipe_out = Some (5, 6), ec_fork = 100 + int n \<rparr>"

lemma sample_exe_starts: "\<forall>n. starts (sample_exe n)"
  by (simp add: sample_exe_def starts_def)

definition network_contexts :: "app_context list" where
  "network_contexts = [reserving_context, reserving_context\<lparr>use_srp := False\<rparr>,
    reserving_context\<lparr>ac_srclass := 6, ac_srpriority := 3, ac_vid := 4\<rparr>]"

definition network_info :: connect_info where
  "network_info = \<lparr> ci_vid = 3, ci_domain = [\<lparr> di_class = 5, di_priority = 2 \<rparr>, \<lparr> di_class = 6, di_priority = 3 \<rparr>] \<rparr>"

lemma network_contexts_added:
  "add_contexts (map (\<lambda>c. (c, True, True)) network_contexts) [] = Returns (network_contexts, [network_info])"
  by (simp add: network_contexts_def reserving_context_def sample_context_def context_zero_def add_connect_list_def
    add_domain_info_def same_class_def same_priority_def network_info_def)

lemma every_joined_network_is_left_witness:
  "\<exists>t'. disconnect_avb_network sample_exe [network_info] = Returns t' \<and>
    executed t' = map (domain_cmd ''5'' 3) (ci_domain network_info) @ [vlan_cmd ''3'' 3]"
proof -
  obtain t where "connect_avb_network sample_exe (map (\<lambda>c. (c, True, True)) network_contexts) [] =
      Returns (network_contexts, [network_info], t)"
    using network_contexts_added run_commands_starts [OF sample_exe_starts, of 0 "join_commands [network_info]"]
    by (auto simp: connect_avb_network_def)
  from every_joined_network_is_left [OF this sample_exe_starts sample_exe_starts]
  show ?thesis by (auto simp: network_info_def)
qed

text \<open>
  The domains of all contexts are registered in the VLAN of the first context, whatever VLAN the
  others name.
\<close>

definition domain_of :: "app_context \<Rightarrow> domain_info" where
  "domain_of ctx = \<lparr> di_class = ucast (ac_srclass ctx), di_priority = ucast (ac_srpriority ctx) \<rparr>"

definition needs_network :: "app_context \<Rightarrow> bool" where
  "needs_network ctx \<longleftrightarrow> \<not> err_flag ctx \<and> use_srp ctx"

lemma same_domain:
  assumes "same_class d ctx" "same_priority d ctx"
  shows "d = domain_of ctx"
proof -
  have "(ucast (scast (x :: u32) :: u64) :: u32) = x" for x by (rule bit_word_eqI) (simp add: bit_simps)
  then show ?thesis
    using assms unfolding domain_of_def same_class_def same_priority_def by (metis domain_info.surjective unit.exhaust)
qed

lemma add_contexts_result:
  assumes "c_info = [] \<or> (\<exists>l. c_info = [l] \<and> ci_domain l \<noteq> [])"
  shows "\<exists>out c_info'. add_contexts (map (\<lambda>c. (c, True, True)) cs) c_info = Returns (out, c_info') \<and>
    (out = cs \<longrightarrow> (\<forall>c\<in>set cs. needs_network c \<longrightarrow> (\<exists>l. c_info' = [l] \<and> domain_of c \<in> set (ci_domain l)))) \<and>
    (\<forall>l. c_info = [l] \<longrightarrow> (\<exists>l'. c_info' = [l'] \<and> ci_vid l' = ci_vid l \<and> set (ci_domain l) \<subseteq> set (ci_domain l')))"
  using assms
proof (induction cs arbitrary: c_info)
  case (Cons c cs)
  let ?z = "map (\<lambda>c. (c, True, True)) cs"
  have IH: "\<exists>out c_info''. add_contexts ?z c_info' = Returns (out, c_info'') \<and>
    (out = cs \<longrightarrow> (\<forall>c\<in>set cs. needs_network c \<longrightarrow> (\<exists>l. c_info'' = [l] \<and> domain_of c \<in> set (ci_domain l)))) \<and>
    (\<forall>l. c_info' = [l] \<longrightarrow> (\<exists>l'. c_info'' = [l'] \<and> ci_vid l' = ci_vid l \<and> set (ci_domain l) \<subseteq> set (ci_domain l')))"
    if "c_info' = [] \<or> (\<exists>l. c_info' = [l] \<and> ci_domain l \<noteq> [])" for c_info'
    using Cons.IH [of c_info'] that by simp
  show ?case
  proof (cases "needs_network c")
    case False
    then show ?thesis using IH [OF Cons.prems] by (auto simp: needs_network_def)
  next
    case True
    then have n: "\<not> err_flag c" "use_srp c" by (simp_all add: needs_network_def)
    consider (first) "c_info = []" | (more) l d ds where "c_info = [l]" "ci_domain l = d # ds"
      using Cons.prems by (auto simp: neq_Nil_conv)
    then show ?thesis
    proof cases
      case first
      let ?l = "\<lparr> ci_vid = ucast (ac_vid c), ci_domain = [domain_of c] \<rparr>"
      have "add_connect_list True True c [] = Some [?l]" by (simp add: add_connect_list_def add_domain_info_def domain_of_def)
      then show ?thesis using IH [of "[?l]"] n first by fastforce
    next
      case more
      let ?l = "l\<lparr>ci_domain := d # ds @ [domain_of c]\<rparr>"
      consider (same) "same_class d c" "same_priority d c" | (conflict) "same_class d c" "\<not> same_priority d c"
        | (other) "\<not> same_class d c" by blast
      then show ?thesis
      proof cases
        case same
        then have "d = domain_of c" using same_domain by simp
        then show ?thesis using IH [of "[l]"] n more same by fastforce
      next
        case conflict
        have "c\<lparr>err_flag := True\<rparr> \<noteq> c" using n(1) by (metis app_context.select_convs(19) app_context.update_convs(19) app_context.surjective)
        then show ?thesis using n more conflict by (auto simp: comp_def)
      next
        case other
        then show ?thesis using IH [of "[?l]"] n more by (fastforce simp: add_domain_info_def domain_of_def)
      qed
    qed
  qed
qed auto



end
