(* ===== verification/Launcher_Maap.thy ===== *)
theory Launcher_Maap
  imports Launcher_Network
begin

unbundle bit_operations_syntax

text \<open>
  The client of the MAAP daemon in the launcher (\<open>avblauncher/avblauncher.c\<close> with the message
  types of \<open>maap_daemon/maap_iface.h\<close>). A message is one record. What a receive call delivers is
  given in order; with nothing left the call waits for ever.
\<close>

section \<open>Messages\<close>

datatype Maap_Cmd_Tag =
  MAAP_CMD_INVALID | MAAP_CMD_INIT | MAAP_CMD_RESERVE | MAAP_CMD_RELEASE | MAAP_CMD_STATUS | MAAP_CMD_YIELD | MAAP_CMD_EXIT

datatype Maap_Notify_Tag =
  MAAP_NOTIFY_INVALID | MAAP_NOTIFY_INITIALIZED | MAAP_NOTIFY_ACQUIRING | MAAP_NOTIFY_ACQUIRED | MAAP_NOTIFY_RELEASED |
  MAAP_NOTIFY_STATUS | MAAP_NOTIFY_YIELDED

datatype Maap_Notify_Error =
  MAAP_NOTIFY_ERROR_NONE | MAAP_NOTIFY_ERROR_REQUIRES_INITIALIZATION | MAAP_NOTIFY_ERROR_ALREADY_INITIALIZED |
  MAAP_NOTIFY_ERROR_RESERVE_NOT_AVAILABLE | MAAP_NOTIFY_ERROR_RELEASE_INVALID_ID | MAAP_NOTIFY_ERROR_OUT_OF_MEMORY |
  MAAP_NOTIFY_ERROR_INTERNAL

record Maap_Cmd =
  cmd_kind :: Maap_Cmd_Tag
  cmd_id :: u32
  cmd_start :: u64
  cmd_count :: u32

record Maap_Notify =
  nt_kind :: Maap_Notify_Tag
  nt_id :: u32
  nt_start :: u64
  nt_count :: u32
  nt_result :: Maap_Notify_Error

text \<open>
  A failed receive leaves the record as it was, a short one overwrites a part of it; the record
  of a short receive is what the memory then holds.
\<close>

datatype maap_recv = Recv_Failed | Recv_Short "Maap_Notify \<Rightarrow> Maap_Notify" | Recv_Full Maap_Notify

record maap_io =
  io_sent :: "Maap_Cmd list"
  io_send_ok :: "bool list"
  io_recv :: "maap_recv list"

definition maap_daemon_send_cmd :: "Maap_Cmd_Tag \<Rightarrow> u32 \<Rightarrow> u64 \<Rightarrow> u32 \<Rightarrow> maap_io \<Rightarrow> int \<times> maap_io" where
  "maap_daemon_send_cmd kind ident start count io =
    (let cmd = \<lparr> cmd_kind = kind, cmd_id = ident, cmd_start = start, cmd_count = count \<rparr> in
     case io_send_ok io of
       False # oks \<Rightarrow> (- 1, io\<lparr>io_send_ok := oks\<rparr>)
     | oks \<Rightarrow> (0, io\<lparr>io_send_ok := tl oks, io_sent := io_sent io @ [cmd]\<rparr>))"

definition maap_daemon_wait_notify ::
  "Maap_Notify_Tag \<Rightarrow> Maap_Notify \<Rightarrow> maap_io \<Rightarrow> (int \<times> Maap_Notify \<times> maap_io) c_result" where
  "maap_daemon_wait_notify kind ntf io =
    (case io_recv io of
       [] \<Rightarrow> NoReturn
     | r # rs \<Rightarrow>
        let io = io\<lparr>io_recv := rs\<rparr> in
        (case r of
           Recv_Failed \<Rightarrow> Returns (- 1, ntf, io)
         | Recv_Short f \<Rightarrow> Returns (- 1, f ntf, io)
         | Recv_Full n \<Rightarrow> Returns (if nt_kind n \<noteq> kind then - 1 else 0, n, io)))"

section \<open>Commands\<close>

text \<open>The record on the stack is not initialised; its content is an argument.\<close>

definition maap_daemon_cmd_init :: "Maap_Notify \<Rightarrow> u64 \<Rightarrow> u32 \<Rightarrow> maap_io \<Rightarrow> (int \<times> maap_io) c_result" where
  "maap_daemon_cmd_init ntf start count io =
    (let (rc, io) = maap_daemon_send_cmd MAAP_CMD_INIT 0 start count io in
     if rc \<noteq> 0 then Returns (- 1, io) else
     bindC (maap_daemon_wait_notify MAAP_NOTIFY_INITIALIZED ntf io) (\<lambda>(rc, ntf, io).
     if rc \<noteq> 0 then Returns (- 1, io)
     else if \<not> (nt_result ntf = MAAP_NOTIFY_ERROR_NONE \<or> nt_result ntf = MAAP_NOTIFY_ERROR_ALREADY_INITIALIZED)
     then Returns (- 1, io) else Returns (0, io)))"

definition MAAP_DAEMON_RESERVE_RETRY_NUM :: nat where "MAAP_DAEMON_RESERVE_RETRY_NUM = 5"

text \<open>The daemon reports that it is still acquiring while it detects conflicts.\<close>

fun wait_acquired :: "nat \<Rightarrow> Maap_Notify \<Rightarrow> maap_io \<Rightarrow> (Maap_Notify \<times> maap_io) c_result" where
  "wait_acquired 0 ntf io = Returns (ntf, io)"
| "wait_acquired (Suc k) ntf io =
    bindC (maap_daemon_wait_notify MAAP_NOTIFY_ACQUIRED ntf io) (\<lambda>(rc, ntf, io).
    if rc \<noteq> 0 \<and> nt_kind ntf = MAAP_NOTIFY_ACQUIRING then wait_acquired k ntf io else Returns (ntf, io))"

definition maap_daemon_cmd_reserve ::
  "Maap_Notify \<Rightarrow> u32 \<Rightarrow> maap_io \<Rightarrow> (int \<times> u64 option \<times> maap_io) c_result" where
  "maap_daemon_cmd_reserve ntf count io =
    (let (rc, io) = maap_daemon_send_cmd MAAP_CMD_RESERVE 0 0 count io in
     if rc \<noteq> 0 then Returns (- 1, None, io) else
     bindC (maap_daemon_wait_notify MAAP_NOTIFY_ACQUIRING ntf io) (\<lambda>(rc, ntf, io).
     if rc \<noteq> 0 then Returns (- 1, None, io)
     else if nt_result ntf \<noteq> MAAP_NOTIFY_ERROR_NONE then Returns (- 1, None, io)
     else let maap_id = nt_id ntf in
       bindC (wait_acquired MAAP_DAEMON_RESERVE_RETRY_NUM ntf io) (\<lambda>(ntf, io).
       if nt_kind ntf \<noteq> MAAP_NOTIFY_ACQUIRED then
         Returns (- 1, None, snd (maap_daemon_send_cmd MAAP_CMD_RELEASE maap_id 0 0 io))
       else if nt_result ntf \<noteq> MAAP_NOTIFY_ERROR_NONE then
         Returns (- 1, None, snd (maap_daemon_send_cmd MAAP_CMD_RELEASE maap_id 0 0 io))
       else Returns (sint (nt_id ntf), Some (nt_start ntf), io))))"

definition maap_daemon_cmd_release :: "Maap_Notify \<Rightarrow> int \<Rightarrow> maap_io \<Rightarrow> (int \<times> maap_io) c_result" where
  "maap_daemon_cmd_release ntf ident io =
    (let (rc, io) = maap_daemon_send_cmd MAAP_CMD_RELEASE (word_of_int ident) 0 0 io in
     if rc \<noteq> 0 then Returns (- 1, io) else
     bindC (maap_daemon_wait_notify MAAP_NOTIFY_RELEASED ntf io) (\<lambda>(rc, ntf, io).
     if rc \<noteq> 0 then Returns (- 1, io)
     else if nt_result ntf \<noteq> MAAP_NOTIFY_ERROR_NONE then Returns (- 1, io) else Returns (0, io)))"

section \<open>Connection\<close>

text \<open>The addresses of the local host, each with the results of \<open>socket\<close> and \<open>connect\<close>.\<close>

fun connect_first :: "(int \<times> int) list \<Rightarrow> int option \<times> launch_event list" where
  "connect_first [] = (None, [])"
| "connect_first ((fd, rc) # as) =
    (if fd = - 1 then connect_first as
     else if rc = - 1 then (let (r, t) = connect_first as in (r, Closed fd # t))
     else (Some fd, []))"

definition maap_open_socket :: "int \<Rightarrow> (int \<times> int) list \<Rightarrow> int \<times> launch_event list" where
  "maap_open_socket getaddrinfo_rc as =
    (if getaddrinfo_rc \<noteq> 0 then (- 1, [])
     else case connect_first as of (None, t) \<Rightarrow> (- 1, t) | (Some fd, t) \<Rightarrow> (fd, t))"

section \<open>Addresses of the contexts\<close>

definition address_bytes :: "u64 \<Rightarrow> u8 list" where
  "address_bytes addr = [ucast (drop_bit 40 addr AND 0xff), ucast (drop_bit 32 addr AND 0xff),
    ucast (drop_bit 24 addr AND 0xff), ucast (drop_bit 16 addr AND 0xff), ucast (drop_bit 8 addr AND 0xff),
    ucast (addr AND 0xff)]"

fun assign_addresses :: "u64 \<Rightarrow> app_context list \<Rightarrow> app_context list" where
  "assign_addresses addr [] = []"
| "assign_addresses addr (ctx # cs) =
    (if use_maap ctx then ctx\<lparr>ac_dest_addr := address_bytes addr\<rparr> # assign_addresses (addr + 1) cs
     else ctx # assign_addresses addr cs)"

definition maap_update_address ::
  "Maap_Notify \<Rightarrow> app_context list \<Rightarrow> maap_io \<Rightarrow> (int \<times> app_context list \<times> maap_io) c_result" where
  "maap_update_address ntf ctx io =
    (let reserve_count = length (filter use_maap ctx) in
     if reserve_count = 0 then Returns (0, ctx, io) else
     bindC (maap_daemon_cmd_reserve ntf (of_nat reserve_count) io) (\<lambda>(maap_id, addr, io).
     if maap_id < 0 then Returns (- 1, ctx, io) else
     case addr of None \<Rightarrow> UB | Some a \<Rightarrow> Returns (maap_id, assign_addresses a ctx, io)))"

end
