(* ===== verification/Launcher_Maap_Props.thy ===== *)
theory Launcher_Maap_Props
  imports Launcher_Maap Launcher_Config_Props
begin

unbundle bit_operations_syntax

text \<open>
  Properties of the client of the MAAP daemon: what a reservation leaves behind, and which
  addresses the contexts get.
\<close>

section \<open>The exchange of a reservation\<close>

text \<open>
  It returns once the daemon has sent enough, it never asks for
  more than six messages, and a reservation that fails after it got an identifier is released.
\<close>

definition reserve_cmd :: "u32 \<Rightarrow> Maap_Cmd" where
  "reserve_cmd count = \<lparr> cmd_kind = MAAP_CMD_RESERVE, cmd_id = 0, cmd_start = 0, cmd_count = count \<rparr>"

definition release_cmd :: "u32 \<Rightarrow> Maap_Cmd" where
  "release_cmd ident = \<lparr> cmd_kind = MAAP_CMD_RELEASE, cmd_id = ident, cmd_start = 0, cmd_count = 0 \<rparr>"

lemma send_cmd_ok: "io_send_ok io = [] \<Longrightarrow> maap_daemon_send_cmd kind ident start count io =
    (0, io\<lparr>io_sent := io_sent io @ [\<lparr> cmd_kind = kind, cmd_id = ident, cmd_start = start, cmd_count = count \<rparr>]\<rparr>)"
  by (simp add: maap_daemon_send_cmd_def)

lemma wait_notify_keeps:
  assumes "maap_daemon_wait_notify kind n io = Returns (rc, n', io')"
  shows "io_sent io' = io_sent io" "io_send_ok io' = io_send_ok io" "length (io_recv io) = Suc (length (io_recv io'))"
  using assms by (auto simp: maap_daemon_wait_notify_def Let_def split: list.splits maap_recv.splits)

lemma wait_notify_returns:
  assumes "io_recv io \<noteq> []"
  shows "\<exists>rc n' io'. maap_daemon_wait_notify kind n io = Returns (rc, n', io')"
  using assms by (cases "io_recv io") (auto simp: maap_daemon_wait_notify_def Let_def split: maap_recv.splits)

lemma wait_acquired_keeps:
  "wait_acquired k n io = Returns (n', io') \<Longrightarrow> io_sent io' = io_sent io \<and> io_send_ok io' = io_send_ok io \<and>
    length (io_recv io) \<le> length (io_recv io') + k"
proof (induction k n io arbitrary: n' io' rule: wait_acquired.induct)
  case (2 k n io)
  then obtain rc m io2 where w: "maap_daemon_wait_notify MAAP_NOTIFY_ACQUIRED n io = Returns (rc, m, io2)"
    by (auto simp: bindC_eq_Returns_iff)
  show ?case
    using 2 wait_notify_keeps [OF w] w by (cases "rc \<noteq> 0 \<and> nt_kind m = MAAP_NOTIFY_ACQUIRING") auto
qed simp

lemma wait_acquired_returns:
  "k \<le> length (io_recv io) \<Longrightarrow> \<exists>n' io'. wait_acquired k n io = Returns (n', io')"
proof (induction k arbitrary: n io)
  case (Suc k)
  have "io_recv io \<noteq> []" using Suc.prems by auto
  then obtain rc m io2 where w: "maap_daemon_wait_notify MAAP_NOTIFY_ACQUIRED n io = Returns (rc, m, io2)"
    using wait_notify_returns by blast
  show ?case using Suc wait_notify_keeps(3) [OF w] w by simp
qed simp


definition sample_notify :: "Maap_Notify_Tag \<Rightarrow> Maap_Notify_Error \<Rightarrow> Maap_Notify" where
  "sample_notify k e = \<lparr> nt_kind = k, nt_id = 7, nt_start = 0x91e0f0000100, nt_count = 2, nt_result = e \<rparr>"


text \<open>
  A short message that only brings the kind is taken for a success: the address is the one of
  the message before it.
\<close>

lemma short_message_is_accepted:
  "case maap_daemon_cmd_reserve (sample_notify MAAP_NOTIFY_INVALID MAAP_NOTIFY_ERROR_NONE) 2
      \<lparr> io_sent = [], io_send_ok = [], io_recv =
        [Recv_Full (sample_notify MAAP_NOTIFY_ACQUIRING MAAP_NOTIFY_ERROR_NONE),
         Recv_Short (nt_kind_update (\<lambda>_. MAAP_NOTIFY_ACQUIRED))] \<rparr> of
     Returns (rc, addr, _) \<Rightarrow> rc = 7 \<and> addr = Some 0x91e0f0000100 | _ \<Rightarrow> False"
  by code_simp

section \<open>Addresses\<close>

lemma address_bytes_eq: "address_bytes x = be_bytes 6 x"
proof -
  have "y AND 0xff = take_bit 8 y" for y :: u64 by (simp add: take_bit_eq_mask mask_eq_exp_minus_1)
  moreover have "ucast (take_bit 8 y) = (ucast y :: u8)" for y :: u64 by (rule bit_word_eqI) (simp add: bit_simps)
  ultimately have "ucast (y AND 0xff) = (ucast y :: u8)" for y :: u64 by simp
  then show ?thesis by (simp add: address_bytes_def be_bytes_def eval_nat_numeral drop_bit_drop_bit)
qed

lemma join_bytes_be_word: "length bs \<le> 8 \<Longrightarrow> join_bytes bs = be_word bs"
proof (induction bs rule: rev_induct)
  case (snoc b bs)
  have "push_bit 8 (be_word bs :: u64) + ucast b = push_bit 8 (be_word bs) OR ucast b"
    by (rule disjunctive_add) (auto simp: bit_simps dest: bit_imp_le_length)
  then show ?case using snoc by (simp add: join_bytes_def be_word_def ac_simps)
qed (simp add: join_bytes_def be_word_def)

lemma join_address_bytes:
  assumes "x < 2 ^ 48"
  shows "join_bytes (address_bytes x) = x"
proof -
  have "uint x < 2 ^ 48" using assms by (simp add: word_less_def)
  then have "take_bit 48 x = x" by (simp add: word_uint_eq_iff unsigned_take_bit_eq take_bit_int_eq_self)
  then show ?thesis by (simp add: join_bytes_be_word address_bytes_eq be_word_be_bytes)
qed

lemma assign_addresses_nth:
  "length (assign_addresses a cs) = length cs \<and> (\<forall>i<length cs. assign_addresses a cs ! i =
    (if use_maap (cs ! i)
     then (cs ! i)\<lparr>ac_dest_addr := address_bytes (a + of_nat (length (filter use_maap (take i cs))))\<rparr> else cs ! i))"
proof (induction cs arbitrary: a)
  case (Cons c cs)
  show ?case
  proof (intro conjI allI impI)
    show "length (assign_addresses a (c # cs)) = length (c # cs)" using Cons.IH by simp
  next
    fix i assume "i < length (c # cs)"
    then show "assign_addresses a (c # cs) ! i =
      (if use_maap ((c # cs) ! i)
       then ((c # cs) ! i)\<lparr>ac_dest_addr := address_bytes (a + of_nat (length (filter use_maap (take i (c # cs)))))\<rparr>
       else (c # cs) ! i)"
      using Cons.IH by (cases i) (simp_all add: add.assoc add.commute [of 1])
  qed
qed simp

lemma assigned_addresses:
  "map ac_dest_addr (filter use_maap (assign_addresses a cs)) =
    map (\<lambda>k. address_bytes (a + of_nat k)) [0..<length (filter use_maap cs)]"
proof (induction cs arbitrary: a)
  case (Cons c cs)
  have "[0..<Suc n] = 0 # map Suc [0..<n]" for n by (simp add: map_Suc_upt upt_conv_Cons)
  then show ?case using Cons.IH by (simp add: comp_def add.assoc add.commute [of 1] del: upt_Suc)
qed simp

lemma address_range:
  assumes "uint (a :: u64) + int n \<le> 2 ^ 48" "k < n"
  shows "a + of_nat k < 2 ^ 48" "uint (a + of_nat k) = uint a + int k"
proof -
  have "a + of_nat k = word_of_int (uint a + int k)" by simp
  then have "uint (a + of_nat k) = (uint a + int k) mod 2 ^ 64" by (simp only: uint_word_of_int len_of_numeral_defs) simp
  then show u: "uint (a + of_nat k) = uint a + int k" using assms by simp
  then show "a + of_nat k < 2 ^ 48" using assms by (simp add: word_less_def)
qed

lemma addresses_distinct:
  assumes "uint (a :: u64) + int n \<le> 2 ^ 48"
  shows "distinct (map (\<lambda>k. address_bytes (a + of_nat k)) [0..<n])"
proof -
  have "i = j" if "i < n" "j < n" "address_bytes (a + of_nat i) = address_bytes (a + of_nat j)" for i j
  proof -
    have "a + of_nat i = a + of_nat j" using join_address_bytes address_range(1) [OF assms] that by metis
    then have "uint a + int i = uint a + int j"
      by (simp only: address_range(2) [OF assms that(1), symmetric] address_range(2) [OF assms that(2), symmetric])
    then show ?thesis by simp
  qed
  then show ?thesis by (auto simp: distinct_map inj_on_def)
qed

text \<open>
  C37: A successful reservation of addresses gives the contexts that use MAAP consecutive
  destination addresses in their order, pairwise different within 48 bits, and leaves all other
  contexts unchanged.
\<close>
theorem reserved_addresses_are_consecutive:
  assumes "maap_update_address ntf cs io = Returns (mid, out, io')" "0 \<le> mid" "\<exists>c\<in>set cs. use_maap c"
  shows "\<exists>a. length out = length cs \<and>
    (\<forall>i<length cs. out ! i = (if use_maap (cs ! i)
      then (cs ! i)\<lparr>ac_dest_addr := address_bytes (a + of_nat (length (filter use_maap (take i cs))))\<rparr> else cs ! i)) \<and>
    (uint a + int (length (filter use_maap cs)) \<le> 2 ^ 48 \<longrightarrow> distinct (map ac_dest_addr (filter use_maap out)))"
proof -
  have "filter use_maap cs \<noteq> []" using assms(3) by (simp add: filter_empty_conv)
  then obtain a where "out = assign_addresses a cs"
    using assms(1,2) by (auto simp: maap_update_address_def bindC_eq_Returns_iff Let_def split: if_splits option.splits)
  then show ?thesis using assign_addresses_nth [of a cs] assigned_addresses [of a cs] addresses_distinct by auto
qed

definition maap_contexts :: "app_context list" where
  "maap_contexts = [sample_context, sample_context\<lparr>use_maap := False\<rparr>, sample_context]"

definition sample_maap_io :: maap_io where
  "sample_maap_io = \<lparr> io_sent = [], io_send_ok = [], io_recv =
    [Recv_Full (sample_notify MAAP_NOTIFY_ACQUIRING MAAP_NOTIFY_ERROR_NONE),
     Recv_Full (sample_notify MAAP_NOTIFY_ACQUIRED MAAP_NOTIFY_ERROR_NONE)] \<rparr>"

lemma sample_reserve:
  "maap_daemon_cmd_reserve (sample_notify MAAP_NOTIFY_INVALID MAAP_NOTIFY_ERROR_NONE) 2 sample_maap_io =
    Returns (7, Some 0x91e0f0000100, \<lparr> io_sent = [reserve_cmd 2], io_send_ok = [], io_recv = [] \<rparr>)"
proof -
  have five: "(5 :: nat) = Suc 4" by simp
  show ?thesis
    unfolding maap_daemon_cmd_reserve_def MAAP_DAEMON_RESERVE_RETRY_NUM_def five wait_acquired.simps
    by (simp add: send_cmd_ok sample_maap_io_def sample_notify_def maap_daemon_wait_notify_def reserve_cmd_def)
qed

lemma sample_maap_update:
  "maap_update_address (sample_notify MAAP_NOTIFY_INVALID MAAP_NOTIFY_ERROR_NONE) maap_contexts sample_maap_io =
    Returns (7, assign_addresses 0x91e0f0000100 maap_contexts, \<lparr> io_sent = [reserve_cmd 2], io_send_ok = [], io_recv = [] \<rparr>)"
proof -
  have "length (filter use_maap maap_contexts) = 2" by (simp add: maap_contexts_def sample_context_def)
  then show ?thesis using sample_reserve by (simp add: maap_update_address_def)
qed

lemma reserved_addresses_are_consecutive_witness:
  "\<exists>a. (\<forall>i<3. assign_addresses 0x91e0f0000100 maap_contexts ! i = (if use_maap (maap_contexts ! i)
      then (maap_contexts ! i)\<lparr>ac_dest_addr := address_bytes (a + of_nat (length (filter use_maap (take i maap_contexts))))\<rparr>
      else maap_contexts ! i)) \<and>
    (uint a + 2 \<le> 2 ^ 48 \<longrightarrow> distinct (map ac_dest_addr (filter use_maap (assign_addresses 0x91e0f0000100 maap_contexts))))"
proof -
  have m: "\<exists>c\<in>set maap_contexts. use_maap c" "length maap_contexts = 3" "length (filter use_maap maap_contexts) = 2"
    by (simp_all add: maap_contexts_def sample_context_def)
  show ?thesis using reserved_addresses_are_consecutive [OF sample_maap_update _ m(1)] m(2,3) by simp
qed

end
