(* ===== verification/Launcher_Stream.thy ===== *)
theory Launcher_Stream
  imports Launcher_Network Avdecc
begin

unbundle bit_operations_syntax

text \<open>
  The thread that runs one context of the launcher (\<open>avblauncher/avblauncher.c\<close>): it starts the
  AVDECC entity, waits for the gPTP clock and for a connection, reserves the stream, runs the
  application and takes everything down again. The AVDECC entity is the one of \<open>lib/avdecc\<close>,
  whose own thread processes frames between the calls of the launcher.
\<close>

section \<open>The gPTP clock\<close>

text \<open>One look at the shared data: the results of the mutex calls and the data that are copied.\<close>

record gptp_read =
  gr_lock :: int
  gr_unlock :: int
  gr_asCapable :: bool
  gr_grandmaster_id :: "u8 list"

definition get_gptp_data :: "bool \<Rightarrow> gptp_read \<Rightarrow> gptp_read option c_result" where
  "get_gptp_data mapped r =
    (if \<not> mapped then UB else if gr_lock r \<noteq> 0 then Returns None
     else if gr_unlock r \<noteq> 0 then Returns None else Returns (Some r))"

definition get_gptp_grandmaster_id :: "app_context \<Rightarrow> gptp_read \<Rightarrow> u64 option c_result" where
  "get_gptp_grandmaster_id ctx r =
    bindC (get_gptp_data (gptp_shm_addr ctx) r) (\<lambda>d.
    case d of None \<Rightarrow> Returns None
    | Some d \<Rightarrow> Returns (Some (foldr (\<lambda>(k, b) v. push_bit k (ucast b) OR v)
        (zip [56, 48, 40, 32, 24, 16, 8, 0] (gr_grandmaster_id d)) 0)))"

text \<open>Each round of a loop is given by the signal flag and what is read; without rounds the loop goes on.\<close>

fun wait_ascapable :: "app_context \<Rightarrow> (bool \<times> gptp_read) list \<Rightarrow> int c_result" where
  "wait_ascapable ctx [] = NoReturn"
| "wait_ascapable ctx ((sigint, r) # rs) =
    (if sigint then Returns (- 1) else
     bindC (get_gptp_data (gptp_shm_addr ctx) r) (\<lambda>d.
     case d of None \<Rightarrow> Returns (- 1)
     | Some d \<Rightarrow> if gr_asCapable d then Returns 0 else wait_ascapable ctx rs))"

section \<open>The AVDECC entity\<close>

text \<open>
  The entity with its thread. The thread processes what it receives between two calls of the
  launcher; it waits when the lock is held by the launcher, and it has ended after an error. A
  handler that never returns keeps the lock, which is taken as the launcher waiting for ever.
\<close>

record entity =
  en_thread :: monitor_end
  en_ctx :: avdecc_ctx

record thread_rounds =
  tr_events :: "monitor_event list"
  tr_buf :: "u8 list"
  tr_frame :: frame

record avdecc_world =
  aw_endian :: endian
  aw_jdks :: jdks
  aw_aem :: jdks_aem
  aw_junk :: "u8 list"

definition thread_runs :: "avdecc_world \<Rightarrow> thread_rounds \<Rightarrow> entity \<Rightarrow> entity c_result" where
  "thread_runs W R e =
    (if en_thread e \<noteq> Running \<or> data_lock (en_ctx e) then Returns e else
     bindC (avdecc_monitor_loop (aw_endian W) (aw_jdks W) (aw_aem W) (aw_junk W) (tr_events R) (tr_buf R) (tr_frame R)
       (en_ctx e)) (\<lambda>(end, ctx). Returns \<lparr> en_thread = end, en_ctx = ctx \<rparr>))"

text \<open>The end of the thread after the halt flag is set; a thread that waits for the lock never ends.\<close>

definition thread_joined :: "avdecc_world \<Rightarrow> thread_rounds \<Rightarrow> monitor_end \<Rightarrow> avdecc_ctx \<Rightarrow> avdecc_ctx c_result" where
  "thread_joined W R end ctx =
    (if end \<noteq> Running then Returns ctx else if data_lock ctx then NoReturn else
     bindC (avdecc_monitor_loop (aw_endian W) (aw_jdks W) (aw_aem W) (aw_junk W) (tr_events R) (tr_buf R) (tr_frame R) ctx)
       (\<lambda>(end, ctx). if end = Running then NoReturn else Returns ctx))"

definition on_entity ::
  "(avdecc_ctx option \<Rightarrow> (int \<times> avdecc_ctx option) c_result) \<Rightarrow> entity \<Rightarrow> (int \<times> entity) c_result" where
  "on_entity f e = bindC (f (Some (en_ctx e)))
    (\<lambda>(rc, co). Returns (rc, case co of Some c \<Rightarrow> e\<lparr>en_ctx := c\<rparr> | None \<Rightarrow> e))"

definition start_avdecc_process ::
  "avdecc_world \<Rightarrow> init_calls \<Rightarrow> environment \<Rightarrow> app_context \<Rightarrow> (int \<times> entity option \<times> launch_event list) c_result" where
  "start_avdecc_process W ic ev ctx =
    (let r = (if operating_mode ctx = TALKER_MODE then ROLE_TALKER else ROLE_LISTENER) in
     bindC (avdecc_init (aw_jdks W) ic ev (Some (avdecc_entity ctx)) (Some (eth_interface ctx)) r) (\<lambda>(co, _, _).
     case co of None \<Rightarrow> Returns (- 1, None, [])
     | Some c \<Rightarrow> Returns (0, Some \<lparr> en_thread = Running, en_ctx = c \<rparr>, [Avdecc_Created])))"

record connection_round =
  cr_thread :: thread_rounds
  cr_gptp :: gptp_read
  cr_sigint :: bool

fun wait_avdecc_connection ::
  "avdecc_world \<Rightarrow> app_context \<Rightarrow> u16 \<Rightarrow> u16 \<Rightarrow> connection_round list \<Rightarrow> entity \<Rightarrow> (int \<times> entity) c_result" where
  "wait_avdecc_connection W ctx conf uid [] e = NoReturn"
| "wait_avdecc_connection W ctx conf uid (r # rs) e =
    bindC (thread_runs W (cr_thread r) e) (\<lambda>e.
    bindC (get_gptp_grandmaster_id ctx (cr_gptp r)) (\<lambda>g.
    case g of None \<Rightarrow> Returns (- 1, e)
    | Some gm \<Rightarrow>
        bindC (on_entity (\<lambda>co. Returns (avdecc_set_grandmaster_id (aw_jdks W) co gm)) e) (\<lambda>(rc, e).
        if rc < 0 then Returns (- 1, e) else
        let rc = (if operating_mode ctx = TALKER_MODE then avdecc_get_connection_count (Some (en_ctx e)) conf uid
            else avdecc_get_connected_from_listener_stream_info (Some (en_ctx e)) conf uid)
        in if 0 < rc then Returns (0, e) else if rc < 0 then Returns (- 1, e)
        else if cr_sigint r then Returns (- 1, e)
        else wait_avdecc_connection W ctx conf uid rs e)))"

record connection_calls =
  cc_before_setter :: thread_rounds
  cc_before_start :: thread_rounds
  cc_rounds :: "connection_round list"

definition set_talker_stream :: "avdecc_world \<Rightarrow> app_context \<Rightarrow> u16 \<Rightarrow> entity \<Rightarrow> (int \<times> entity) c_result" where
  "set_talker_stream W ctx conf e =
    (if operating_mode ctx = TALKER_MODE then
       on_entity (\<lambda>co. avdecc_set_talker_stream_info (aw_jdks W) co conf 0 (talker_stream_id ctx)
         (join_bytes (take 6 (ac_dest_addr ctx))) 2) e
     else Returns (0, e))"

definition start_avdecc_connection_management ::
  "avdecc_world \<Rightarrow> connection_calls \<Rightarrow> app_context \<Rightarrow> entity \<Rightarrow> (int \<times> app_context \<times> entity) c_result" where
  "start_avdecc_connection_management W C ctx e =
    bindC (thread_runs W (cc_before_setter C) e) (\<lambda>e.
    let conf = word_of_int (avdecc_get_current_configuration (Some (en_ctx e))) in
    bindC (set_talker_stream W ctx conf e) (\<lambda>(rc, e).
    if rc < 0 then Returns (- 1, ctx, e) else
    bindC (thread_runs W (cc_before_start C) e) (\<lambda>e.
    bindC (on_entity avdecc_acmp_process_start e) (\<lambda>(rc, e).
    if rc < 0 then Returns (- 1, ctx, e) else
    bindC (wait_avdecc_connection W ctx conf 0 (cc_rounds C) e) (\<lambda>(rc, e).
    if rc < 0 then Returns (- 1, ctx, e)
    else if operating_mode ctx = LISTENER_MODE then
      (case avdecc_get_stream_id_from_listener_stream_info (aw_jdks W) (Some (en_ctx e)) conf 0 (Some (ac_streamid ctx)) of
         (rc, Some s) \<Rightarrow> if rc < 0 then Returns (- 1, ctx, e) else Returns (0, ctx\<lparr>ac_streamid := s\<rparr>, e)
       | (rc, None) \<Rightarrow> UB)
    else Returns (0, ctx, e))))))"

definition stop_avdecc_process :: "avdecc_world \<Rightarrow> thread_rounds \<Rightarrow> entity \<Rightarrow> (int \<times> launch_event list) c_result" where
  "stop_avdecc_process W R e =
    bindC (avdecc_terminate (thread_joined W R (en_thread e)) (Some (en_ctx e))) (\<lambda>(rc, _).
    Returns (if rc < 0 then - 1 else 0, [Avdecc_Released]))"

section \<open>The reservation and the application\<close>

datatype read_result = Read_Failed | Read_Bytes "u8 list"

text \<open>
  The loop that reads what the reservation program prints into a buffer of 1024 bytes, which is
  not initialised and gets no terminator.
\<close>

fun wait_completion :: "(bool \<times> read_result) list \<Rightarrow> mem \<Rightarrow> bool c_result" where
  "wait_completion [] buffer = NoReturn"
| "wait_completion ((sigint, r) # rs) buffer =
    (if sigint then Returns False else
     case r of Read_Failed \<Rightarrow> Returns False
     | Read_Bytes bs \<Rightarrow>
        (case wrn 0 bs buffer of None \<Rightarrow> UB
         | Some buffer \<Rightarrow>
            (case strstr 0 (ascii ''reservation completion'') buffer of None \<Rightarrow> UB
             | Some (Some _) \<Rightarrow> Returns True
             | Some None \<Rightarrow> wait_completion rs buffer)))"

record reservation_calls =
  rc_exe :: exe_calls
  rc_reads :: "(bool \<times> read_result) list"
  rc_buffer :: mem
  rc_kill :: int

definition start_stream_reservation ::
  "reservation_calls \<Rightarrow> app_context \<Rightarrow> (int \<times> app_context \<times> launch_event list) c_result" where
  "start_stream_reservation C ctx =
    bindC (if operating_mode ctx = TALKER_MODE then stream_reservation_for_talker (rc_exe C) ctx
           else stream_reservation_for_listener (rc_exe C) ctx) (\<lambda>(rc, ctx, _, t).
    if rc < 0 then Returns (- 1, ctx, t) else
    bindC (wait_completion (rc_reads C) (rc_buffer C)) (\<lambda>ok.
    if ok then Returns (0, ctx, t)
    else Returns (- 1, ctx, t @ [Signalled (mrpdummy_pid ctx), Waited (mrpdummy_pid ctx)])))"

definition stop_stream_reservation :: "int \<Rightarrow> int \<Rightarrow> int \<times> launch_event list" where
  "stop_stream_reservation kill_rc pid =
    (if kill_rc < 0 then (- 1, [Signalled pid]) else (0, [Signalled pid, Waited pid]))"

definition start_application :: "exe_calls \<Rightarrow> app_context \<Rightarrow> (int \<times> app_context \<times> launch_event list) c_result" where
  "start_application C ctx =
    bindC (convert_app_cmd ctx) (\<lambda>(rc, ctx).
    if rc < 0 then Returns (- 1, ctx, []) else
    bindC (exe_command C (app_cmd ctx)) (\<lambda>(pid, _, _, t). Returns (pid, ctx, t)))"

section \<open>The thread\<close>

record stream_calls =
  sc_init :: init_calls
  sc_environment :: environment
  sc_ascapable :: "(bool \<times> gptp_read) list"
  sc_connection :: connection_calls
  sc_application :: exe_calls
  sc_reservation :: reservation_calls
  sc_end :: thread_rounds

type_synonym stream_result = "app_context \<times> entity option \<times> launch_event list"

text \<open>From the start of the application on; a failure leaves the entity as it is.\<close>

definition run_stream :: "stream_calls \<Rightarrow> app_context \<Rightarrow> (bool \<times> app_context \<times> launch_event list) c_result" where
  "run_stream C ctx =
    bindC (if operating_mode ctx \<noteq> TALKER_MODE
           then bindC (start_application (sc_application C) ctx) (\<lambda>(pid, ctx, t). Returns (ctx\<lparr>app_pid := pid\<rparr>, t))
           else Returns (ctx, [])) (\<lambda>(ctx, t1).
    if operating_mode ctx \<noteq> TALKER_MODE \<and> app_pid ctx < 0 then Returns (False, ctx, t1) else
    bindC (if use_srp ctx then start_stream_reservation (sc_reservation C) ctx else Returns (0, ctx, []))
      (\<lambda>(rc, ctx, t2).
    if rc < 0 then Returns (False, ctx, t1 @ t2) else
    bindC (if operating_mode ctx = TALKER_MODE
           then bindC (start_application (sc_application C) ctx) (\<lambda>(pid, ctx, t). Returns (ctx\<lparr>app_pid := pid\<rparr>, t))
           else Returns (ctx, [])) (\<lambda>(ctx, t3).
    let t4 = (if 0 < app_pid ctx then [Waited (app_pid ctx)] else []);
        t5 = (if use_srp ctx then snd (stop_stream_reservation (rc_kill (sc_reservation C)) (mrpdummy_pid ctx)) else [])
    in Returns (True, ctx, t1 @ t2 @ t3 @ t4 @ t5))))"

definition end_avdecc ::
  "avdecc_world \<Rightarrow> stream_calls \<Rightarrow> app_context \<Rightarrow> entity option \<Rightarrow> launch_event list \<Rightarrow> stream_result c_result" where
  "end_avdecc W C ctx eo t =
    (case eo of None \<Rightarrow> Returns (ctx, None, t)
     | Some e \<Rightarrow> bindC (stop_avdecc_process W (sc_end C) e) (\<lambda>(_, t'). Returns (ctx, None, t @ t')))"

definition stream_with_entity ::
  "avdecc_world \<Rightarrow> stream_calls \<Rightarrow> app_context \<Rightarrow> entity option \<Rightarrow> launch_event list \<Rightarrow> stream_result c_result" where
  "stream_with_entity W C ctx eo t =
    bindC (run_stream C ctx) (\<lambda>(ok, ctx, t').
    if ok then end_avdecc W C ctx eo (t @ t') else Returns (ctx, eo, t @ t'))"

definition streaming_thread :: "avdecc_world \<Rightarrow> stream_calls \<Rightarrow> app_context \<Rightarrow> stream_result c_result" where
  "streaming_thread W C ctx =
    bindC (if use_avdecc ctx then start_avdecc_process W (sc_init C) (sc_environment C) ctx else Returns (0, None, []))
      (\<lambda>(rc, eo, t).
    if rc < 0 then Returns (ctx, eo, t) else
    bindC (if use_gptp ctx then wait_ascapable ctx (sc_ascapable C) else Returns 0) (\<lambda>rc.
    if rc < 0 then Returns (ctx, eo, t) else
    case eo of
      None \<Rightarrow> stream_with_entity W C ctx None t
    | Some e \<Rightarrow>
        bindC (start_avdecc_connection_management W (sc_connection C) ctx e) (\<lambda>(rc, ctx, e).
        if rc < 0 then end_avdecc W C ctx (Some e) t else stream_with_entity W C ctx (Some e) t)))"

end
