(* ===== verification/Launcher_Stream_Props.thy ===== *)
theory Launcher_Stream_Props
  imports Launcher_Stream Launcher_Network_Props Launcher_Command_Props Avdecc_Props
begin

unbundle bit_operations_syntax

text \<open>
  Properties of the thread that runs a context: the order of the reservation and the
  application, and the ways in which the thread waits for ever.
\<close>

section \<open>The order of the processes\<close>

text \<open>What is left of a log without the descriptors and the entity.\<close>

fun processes :: "launch_event list \<Rightarrow> launch_event list" where
  "processes [] = []"
| "processes (e # es) = (case e of Closed _ \<Rightarrow> processes es | Avdecc_Created \<Rightarrow> processes es
     | Avdecc_Released \<Rightarrow> processes es | _ \<Rightarrow> e # processes es)"

lemma processes_append [simp]: "processes (a @ b) = processes a @ processes b"
  by (induction a) (auto split: launch_event.splits)

lemma exe_command_result:
  assumes "starts C"
  shows "\<exists>r w t. exe_command C cmd = Returns (ec_fork C, r, w, t) \<and> processes t = [Executed cmd (ec_fork C)]"
proof -
  obtain a b c d where "ec_pipe_in C = Some (a, b)" "ec_pipe_out C = Some (c, d)" "0 < ec_fork C"
    using assms unfolding starts_def by fast
  then show ?thesis by (auto simp: exe_command_def)
qed

definition short_command :: "app_context \<Rightarrow> bool" where
  "short_command ctx \<longleftrightarrow> plain_command ctx \<and> length (expand ctx (app_cmd ctx)) + 1 < MAXSTR"

lemma start_application_result:
  assumes "starts C" "short_command ctx"
  shows "\<exists>t. start_application C ctx = Returns (ec_fork C, ctx\<lparr>app_cmd := expand ctx (app_cmd ctx)\<rparr>, t) \<and>
    processes t = [Executed (expand ctx (app_cmd ctx)) (ec_fork C)]"
proof -
  have c: "convert_app_cmd ctx = Returns (0, ctx\<lparr>app_cmd := expand ctx (app_cmd ctx)\<rparr>)"
    using convert_app_cmd_expands [of ctx] assms(2) by (simp add: short_command_def)
  obtain r w t where "exe_command C (expand ctx (app_cmd ctx)) = Returns (ec_fork C, r, w, t)"
    "processes t = [Executed (expand ctx (app_cmd ctx)) (ec_fork C)]"
    using exe_command_result [OF assms(1)] by blast
  then show ?thesis using c by (simp add: start_application_def)
qed

definition reservation_cmd :: "app_context \<Rightarrow> u8 list" where
  "reservation_cmd ctx = (if operating_mode ctx = TALKER_MODE then talker_cmd ctx else listener_cmd ctx)"

lemma start_reservation_result:
  assumes "starts (rc_exe C)" "start_stream_reservation C ctx = Returns (rc, ctx', t)"
  shows "ctx' = ctx\<lparr>mrpdummy_pid := ec_fork (rc_exe C)\<rparr> \<and>
    processes t = Executed (reservation_cmd ctx) (ec_fork (rc_exe C)) #
      (if rc < 0 then [Signalled (ec_fork (rc_exe C)), Waited (ec_fork (rc_exe C))] else [])"
proof -
  have p: "0 < ec_fork (rc_exe C)" using assms(1) by (simp add: starts_def)
  obtain r w t0 where "exe_command (rc_exe C) (reservation_cmd ctx) = Returns (ec_fork (rc_exe C), r, w, t0)"
    "processes t0 = [Executed (reservation_cmd ctx) (ec_fork (rc_exe C))]"
    using exe_command_result [OF assms(1)] by blast
  then show ?thesis
    using assms(2) p
    by (auto simp: start_stream_reservation_def stream_reservation_for_talker_def stream_reservation_for_listener_def
      reservation_cmd_def bindC_eq_Returns_iff split: if_splits)
qed


section \<open>Waiting for ever\<close>

text \<open>
  Once the reservation program has ended without its report, every read returns nothing and the
  launcher reads on until a signal comes.
\<close>

lemma no_report_no_return:
  assumes "strstr 0 (ascii ''reservation completion'') buffer = Some None"
  shows "wait_completion (replicate n (False, Read_Bytes [])) buffer = NoReturn"
  using assms by (induction n) (auto simp: wrn_def)

text \<open>
  When the reservation program ends without its report, the launcher reads the end of the
  pipe again and again and never returns before a signal, for every number of reads.
\<close>
theorem ended_reservation_is_waited_for:
  assumes "starts (rc_exe R)" "rc_reads R = (False, Read_Bytes bs) # replicate n (False, Read_Bytes [])"
    "strstr 0 (ascii ''reservation completion'') (bs @ drop (length bs) (rc_buffer R)) = Some None"
    "length bs \<le> length (rc_buffer R)"
  shows "start_stream_reservation R ctx = NoReturn"
proof -
  obtain r w t0 where "exe_command (rc_exe R) (reservation_cmd ctx) = Returns (ec_fork (rc_exe R), r, w, t0)"
    using exe_command_result [OF assms(1)] by blast
  moreover have "0 < ec_fork (rc_exe R)" using assms(1) by (simp add: starts_def)
  ultimately show ?thesis
    using assms(2,3,4) no_report_no_return [OF assms(3)]
    by (cases "operating_mode ctx = TALKER_MODE")
      (simp_all add: start_stream_reservation_def stream_reservation_for_talker_def stream_reservation_for_listener_def
        reservation_cmd_def wrn_def)
qed

text \<open>
  A talker whose entity has no stream of identifier 0: setting its stream fails with the lock
  held, so the thread of the entity never ends and the launcher waits for it for ever.
\<close>

lemma setter_keeps_lock:
  assumes "\<not> data_lock ctx" "acmp_find_talker_stream_info (confs ctx) conf uid = None"
  shows "\<exists>ctx'. avdecc_set_talker_stream_info J (Some ctx) conf uid sid dest vl = Returns (- 1, Some ctx') \<and> data_lock ctx'"
  using assms
  by (auto simp: avdecc_set_talker_stream_info_def lock_def acmp_set_streamid_def update_talker_def set_confs_def)

text \<open>
  C35: When the entity of a talker context has no talker stream of identifier 0, the launcher
  thread never returns: setting the stream fails with the lock of the entity held, so the
  entity's thread never ends and the launcher waits for it for ever.
\<close>
theorem unknown_talker_stream_hangs_the_launcher:
  assumes "use_avdecc ctx" "operating_mode ctx = TALKER_MODE"
    "start_avdecc_process W (sc_init C) (sc_environment C) ctx = Returns (0, Some e, t)"
    "\<not> use_gptp ctx \<or> wait_ascapable ctx (sc_ascapable C) = Returns 0"
    "thread_runs W (cc_before_setter (sc_connection C)) e = Returns e'" "en_thread e' = Running" "\<not> data_lock (en_ctx e')"
    "acmp_find_talker_stream_info (confs (en_ctx e'))
      (word_of_int (avdecc_get_current_configuration (Some (en_ctx e')))) 0 = None"
  shows "streaming_thread W C ctx = NoReturn"
proof -
  let ?conf = "word_of_int (avdecc_get_current_configuration (Some (en_ctx e')))"
  obtain c where c: "avdecc_set_talker_stream_info (aw_jdks W) (Some (en_ctx e')) ?conf 0 (talker_stream_id ctx)
      (join_bytes (take 6 (ac_dest_addr ctx))) 2 = Returns (- 1, Some c)" "data_lock c"
    using setter_keeps_lock [OF assms(7,8)] by blast
  have "start_avdecc_connection_management W (sc_connection C) ctx e = Returns (- 1, ctx, e'\<lparr>en_ctx := c\<rparr>)"
    using assms(2,5) c(1) by (simp add: start_avdecc_connection_management_def set_talker_stream_def on_entity_def)
  moreover have "end_avdecc W C ctx (Some (e'\<lparr>en_ctx := c\<rparr>)) t = NoReturn"
    using assms(6) c(2) by (simp add: end_avdecc_def stop_avdecc_process_def avdecc_terminate_def thread_joined_def)
  ultimately show ?thesis using assms(1,3,4) by (auto simp: streaming_thread_def)
qed

text \<open>
  A context that uses AVDECC but not gPTP is accepted without shared clock data, which the wait
  for a connection reads nevertheless.
\<close>

lemma unmapped_clock_is_used:
  assumes "thread_runs W (cr_thread r) e = Returns e'" "\<not> gptp_shm_addr ctx"
  shows "wait_avdecc_connection W ctx conf uid (r # rs) e = UB"
  using assms by (simp add: get_gptp_grandmaster_id_def get_gptp_data_def)

lemma unmapped_clock_is_accepted:
  assumes "valid_context ctx" "\<not> err_flag ctx" "\<not> use_gptp ctx" "use_srp ctx \<longrightarrow> srp" "\<not> use_maap ctx"
  shows "\<exists>ctx'. check_and_update_ctx_data srp addr False maap ctx = (0, ctx') \<and> \<not> gptp_shm_addr ctx'"
proof -
  have "context_error_check (ctx\<lparr>err_flag := b\<rparr>) = 0" for b
  proof -
    have "valid_context (ctx\<lparr>err_flag := b\<rparr>) = valid_context ctx"
      by (cases "operating_mode ctx") (simp_all add: valid_context_def given_def)
    then show ?thesis using context_error_check_valid assms(1) by blast
  qed
  then show ?thesis
    using assms context_error_check_valid [of ctx] by (auto simp: check_and_update_ctx_data_def Let_def)
qed

section \<open>Examples\<close>

definition sample_stream_calls :: stream_calls where
  "sample_stream_calls = \<lparr> sc_init = sample_calls\<lparr>ic_entity := Some device_entity_zero\<rparr>,
     sc_environment = sample_environment, sc_ascapable = [],
     sc_connection = \<lparr> cc_before_setter = \<lparr> tr_events = [], tr_buf = [], tr_frame = sample_frame \<rparr>,
       cc_before_start = \<lparr> tr_events = [], tr_buf = [], tr_frame = sample_frame \<rparr>, cc_rounds = [] \<rparr>,
     sc_application = sample_exe 1,
     sc_reservation = \<lparr> rc_exe = sample_exe 0, rc_reads = [(False, Read_Bytes completion)], rc_buffer = replicate 1024 0,
       rc_kill = 0 \<rparr>,
     sc_end = \<lparr> tr_events = [], tr_buf = [], tr_frame = sample_frame \<rparr> \<rparr>"

definition sample_world :: avdecc_world where
  "sample_world = \<lparr> aw_endian = LE, aw_jdks = jdks_sample, aw_aem = aem_sample 0 0 sample_read, aw_junk = [] \<rparr>"

lemma unknown_talker_stream_hangs_the_launcher_witness:
  "streaming_thread sample_world sample_stream_calls (sample_context\<lparr>use_avdecc := True\<rparr>) = NoReturn"
proof -
  let ?ctx = "sample_context\<lparr>use_avdecc := True\<rparr>"
  let ?C = sample_stream_calls
  have ctx: "use_avdecc ?ctx" "operating_mode ?ctx = TALKER_MODE" "\<not> use_gptp ?ctx"
    by (simp_all add: sample_context_def context_zero_def)
  obtain c where c: "avdecc_init jdks_sample (sc_init ?C) (sc_environment ?C) (Some (avdecc_entity ?ctx))
      (Some (eth_interface ?ctx)) ROLE_TALKER = Returns (Some c, [], [])" "\<not> data_lock c" "confs c = []"
    by (simp add: avdecc_init_def sample_stream_calls_def sample_calls_def create_socket_def setup_entity_def
      adp_advertise_init_def read_linkup_def start_acmp_def acmp_ctx_init_def set_confs_def device_entity_zero_def
      sample_environment_def ctx_zero_def set_adp_def is_interface_linkup_def IFF_UP_def Let_def)
  let ?e = "\<lparr> en_thread = Running, en_ctx = c \<rparr>"
  have e: "start_avdecc_process sample_world (sc_init ?C) (sc_environment ?C) ?ctx = Returns (0, Some ?e, [Avdecc_Created])"
    using c(1) ctx(2) by (simp add: start_avdecc_process_def sample_world_def)
  have r: "thread_runs sample_world (cc_before_setter (sc_connection ?C)) ?e = Returns ?e"
    using c(2) by (simp add: thread_runs_def sample_stream_calls_def)
  have f: "acmp_find_talker_stream_info (confs (en_ctx ?e)) (word_of_int (avdecc_get_current_configuration (Some (en_ctx ?e)))) 0 = None"
    using c(3) by (simp add: acmp_find_talker_stream_info_def find_configuration_def)
  show ?thesis
    by (rule unknown_talker_stream_hangs_the_launcher [OF ctx(1,2) e _ r _ _ f]) (use ctx(3) c(2) in simp_all)
qed

lemma sample_short_command: "short_command sample_context"
proof -
  have "plain_command sample_context" "length (expand sample_context (app_cmd sample_context)) = 18" by code_simp+
  then show ?thesis by (simp add: short_command_def MAXSTR_def INI_MAX_LINE_def)
qed

lemma completion_seen: "wait_completion [(False, Read_Bytes completion)] (replicate 1024 0) = Returns True"
proof -
  have "wrn 0 completion (replicate 1024 0) = Some (completion @ replicate 1001 0)"
    by (simp add: wrn_def completion_def)
  moreover have "find_nul (completion @ 0 # replicate 1000 0) = Some completion"
    by (rule find_nul_exact) (simp add: completion_def ascii_def)
  moreover have "replicate 1001 (0 :: u8) = 0 # replicate 1000 0" by (metis Suc_numeral replicate_Suc semiring_norm(5) semiring_norm(8) add_One numeral_plus_one Suc_eq_plus1)
  moreover have "sub_index (ascii ''reservation completion'') completion = Some 0" by code_simp
  ultimately show ?thesis by (simp add: strstr_def cstr_def)
qed


lemma ended_reservation_is_waited_for_witness:
  "start_stream_reservation \<lparr> rc_exe = sample_exe 0,
     rc_reads = (False, Read_Bytes (ascii ''waiting listener.'')) # replicate 1000 (False, Read_Bytes []),
     rc_buffer = replicate 64 0, rc_kill = 0 \<rparr> sample_context = NoReturn"
proof -
  let ?R = "\<lparr> rc_exe = sample_exe 0,
     rc_reads = (False, Read_Bytes (ascii ''waiting listener.'')) # replicate 1000 (False, Read_Bytes []),
     rc_buffer = replicate 64 0, rc_kill = 0 \<rparr>"
  have "strstr 0 (ascii ''reservation completion'') (ascii ''waiting listener.'' @
      drop (length (ascii ''waiting listener.'')) (replicate 64 0)) = Some None" by code_simp
  then show ?thesis
    by (intro ended_reservation_is_waited_for [of ?R "ascii ''waiting listener.''" 1000]) (simp_all add: sample_exe_starts)
qed

end
