(* ===== verification/Launcher.thy ===== *)
theory Launcher
  imports Launcher_Maap Launcher_Stream Mrpdummy
begin

unbundle bit_operations_syntax

text \<open>
  The main program of the launcher (\<open>avblauncher/avblauncher.c\<close>): its options, the three daemons,
  the contexts of the configuration files, their addresses and networks, one thread for each
  accepted context, and the release of everything at the end. The answers of the system are
  arguments.
\<close>

section \<open>Daemons\<close>

datatype main_event =
  Launched launch_event
| Mapped_Clock int
| Unlinked_Clock
| Unmapped_Clock

definition GPTP_DAEMON_CMD :: "u8 list" where "GPTP_DAEMON_CMD = ascii ''daemon_cl''"
definition SRP_DAEMON_CMD :: "u8 list" where "SRP_DAEMON_CMD = ascii ''mrpd''"
definition MAAP_DAEMON_CMD :: "u8 list" where "MAAP_DAEMON_CMD = ascii ''maap_daemon''"
definition DAEMON_CL_MAX_RETRY_NUM :: nat where "DAEMON_CL_MAX_RETRY_NUM = 5"
definition MAAP_DAEMON_LOG :: "u8 list" where "MAAP_DAEMON_LOG = ascii ''/dev/null''"
definition MAAP_DAEMON_MAX_RETRY_NUM :: nat where "MAAP_DAEMON_MAX_RETRY_NUM = 5"
definition MAAP_DAEMON_START_ADDR :: u64 where "MAAP_DAEMON_START_ADDR = 0x91e0f0000000"
definition MAAP_DAEMON_ADDR_RANGE :: u32 where "MAAP_DAEMON_ADDR_RANGE = 0xfe00"

text \<open>\<open>sys\<close> is the result of \<open>system\<close> for the text of a command.\<close>

definition pidof :: "(u8 list \<Rightarrow> int) \<Rightarrow> u8 list \<Rightarrow> int" where
  "pidof sys name = sys (snprintf (ascii ''pidof '' @ name))"

definition start_daemon ::
  "(u8 list \<Rightarrow> int) \<Rightarrow> exe_calls \<Rightarrow> u8 list \<Rightarrow> u8 list \<Rightarrow> bool \<Rightarrow> (int \<times> launch_event list) c_result" where
  "start_daemon sys E cmd_name opt opt_flag =
    (if pidof sys cmd_name = 0 then Returns (0, [])
     else if \<not> opt_flag then Returns (- 1, [])
     else bindC (exe_command E (snprintf (cmd_name @ ascii '' '' @ opt))) (\<lambda>(pid, _, _, t).
       Returns (if pid < 0 then - 1 else 0, t)))"

text \<open>
  The shared memory of the clock daemon, given by the descriptor and whether it can be mapped. A
  failed mapping removes the name of the memory and keeps the descriptor.
\<close>

record shm_calls =
  shm_fd :: int
  shm_mapped :: bool

definition open_gptp_data :: "shm_calls \<Rightarrow> int \<times> int \<times> main_event list" where
  "open_gptp_data s =
    (if shm_fd s = - 1 then (- 1, - 1, [])
     else if \<not> shm_mapped s then (- 1, - 1, [Unlinked_Clock])
     else (0, shm_fd s, [Mapped_Clock (shm_fd s)]))"

definition close_gptp_data :: "int \<Rightarrow> bool \<Rightarrow> main_event list" where
  "close_gptp_data fd mapped =
    (if mapped then [Unmapped_Clock] else []) @ (if fd \<noteq> - 1 then [Launched (Closed fd)] else [])"

fun open_gptp_retries :: "nat \<Rightarrow> nat \<Rightarrow> (nat \<Rightarrow> shm_calls) \<Rightarrow> int option \<times> main_event list" where
  "open_gptp_retries 0 i S = (None, [])"
| "open_gptp_retries (Suc k) i S =
    (case open_gptp_data (S i) of (rc, fd, t) \<Rightarrow>
      if rc < 0 then (case open_gptp_retries k (Suc i) S of (r, t') \<Rightarrow> (r, t @ t')) else (Some fd, t))"

fun open_maap_retries ::
  "nat \<Rightarrow> nat \<Rightarrow> (nat \<Rightarrow> int \<times> (int \<times> int) list) \<Rightarrow> int option \<times> launch_event list" where
  "open_maap_retries 0 i A = (None, [])"
| "open_maap_retries (Suc k) i A =
    (case maap_open_socket (fst (A i)) (snd (A i)) of (fd, t) \<Rightarrow>
      if fd < 0 then (case open_maap_retries k (Suc i) A of (r, t') \<Rightarrow> (r, t @ t')) else (Some fd, t))"

section \<open>The state of the program\<close>

record launcher_options =
  lo_g :: bool
  lo_gptp_config_file :: "u8 list option"
  lo_m :: bool
  lo_a :: bool
  lo_iname :: "u8 list option"

definition launcher_option :: "cl_option \<Rightarrow> launcher_options \<Rightarrow> launcher_options parse_result" where
  "launcher_option opt s =
    (let (c, optarg) = opt in
     if c = ch CHR ''g'' then Parsed (s\<lparr>lo_g := True, lo_gptp_config_file := Some optarg\<rparr>)
     else if c = ch CHR ''m'' then Parsed (s\<lparr>lo_m := True\<rparr>)
     else if c = ch CHR ''a'' then Parsed (s\<lparr>lo_a := True\<rparr>)
     else if c = ch CHR ''i'' then Parsed (s\<lparr>lo_iname := Some optarg\<rparr>)
     else Exited)"

definition launcher_spec :: "u8 \<Rightarrow> bool option" where
  "launcher_spec = option_spec ''mha'' ''gi''"

text \<open>
  What the system answers: the interface, \<open>system\<close>, the processes of the daemons, the shared
  memory and the connection at each attempt, the content of the records on the stack, the
  allocations, the files, the processes that join and leave, and for every context whether its
  thread is created and what happens in it.
\<close>

record main_calls =
  mc_index :: nat
  mc_interfaces :: "u8 list list option"
  mc_socket :: int
  mc_ioctl :: int
  mc_hwaddr :: "u8 list"
  mc_system :: "u8 list \<Rightarrow> int"
  mc_daemon :: "u8 list \<Rightarrow> exe_calls"
  mc_shm :: "nat \<Rightarrow> shm_calls"
  mc_maap :: "nat \<Rightarrow> int \<times> (int \<times> int) list"
  mc_stack :: Maap_Notify
  mc_alloc :: bool
  mc_files :: "u8 list \<Rightarrow> u8 list option"
  mc_network_alloc :: "nat \<Rightarrow> bool \<times> bool"
  mc_join :: "nat \<Rightarrow> exe_calls"
  mc_leave :: "nat \<Rightarrow> exe_calls"
  mc_thread :: "nat \<Rightarrow> bool \<times> avdecc_world \<times> stream_calls"

type_synonym main_result = "int \<times> app_context list \<times> maap_io \<times> main_event list"

section \<open>The steps of the program\<close>

text \<open>
  The name is in an allocated copy of the option's argument, over which the name of another
  interface is copied when there is none of that name.
\<close>

definition find_interface :: "main_calls \<Rightarrow> u8 list \<Rightarrow> (int \<times> u8 list) c_result" where
  "find_interface C iname =
    (case netif_detect (mc_index C) (mc_interfaces C) iname of (rc, name) \<Rightarrow>
      if length iname < length name then UB else Returns (rc, name))"

definition start_gptp :: "main_calls \<Rightarrow> u8 list \<Rightarrow> u8 list \<Rightarrow> bool \<Rightarrow> (int option \<times> main_event list) c_result" where
  "start_gptp C iname config opt_g =
    bindC (start_daemon (mc_system C) (mc_daemon C GPTP_DAEMON_CMD) GPTP_DAEMON_CMD
        (snprintf (iname @ ascii '' -S -F '' @ config)) opt_g) (\<lambda>(rc, t).
    let t = map Launched t in
    if rc \<noteq> 0 then Returns (Some (- 1), t)
    else case open_gptp_retries DAEMON_CL_MAX_RETRY_NUM 0 (mc_shm C) of (r, t') \<Rightarrow> Returns (r, t @ t'))"

definition start_srp :: "main_calls \<Rightarrow> u8 list \<Rightarrow> bool \<Rightarrow> (bool \<times> main_event list) c_result" where
  "start_srp C iname opt_m =
    bindC (start_daemon (mc_system C) (mc_daemon C SRP_DAEMON_CMD) SRP_DAEMON_CMD
        (snprintf (ascii ''-i '' @ iname @ ascii '' -mvs'')) opt_m) (\<lambda>(rc, t).
    Returns (rc = 0, map Launched t))"

definition start_maap ::
  "main_calls \<Rightarrow> u8 list \<Rightarrow> bool \<Rightarrow> maap_io \<Rightarrow> (int option \<times> maap_io \<times> main_event list) c_result" where
  "start_maap C iname opt_a io =
    bindC (start_daemon (mc_system C) (mc_daemon C MAAP_DAEMON_CMD) MAAP_DAEMON_CMD
        (snprintf (ascii ''-i '' @ iname @ ascii '' -d '' @ MAAP_DAEMON_LOG)) opt_a) (\<lambda>(rc, t).
    let t = map Launched t in
    if rc \<noteq> 0 then Returns (Some 0, io, t)
    else case open_maap_retries MAAP_DAEMON_MAX_RETRY_NUM 0 (mc_maap C) of
      (None, t') \<Rightarrow> Returns (None, io, t @ map Launched t')
    | (Some fd, t') \<Rightarrow>
        bindC (maap_daemon_cmd_init (mc_stack C) MAAP_DAEMON_START_ADDR MAAP_DAEMON_ADDR_RANGE io) (\<lambda>(rc, io).
        Returns (if rc \<noteq> 0 then None else Some fd, io, t @ map Launched t')))"

definition prepare_contexts ::
  "main_calls \<Rightarrow> u8 list \<Rightarrow> u8 list \<Rightarrow> bool \<Rightarrow> bool \<Rightarrow> int \<Rightarrow> u8 list list \<Rightarrow> app_context list" where
  "prepare_contexts C iname src_addr srp_started mapped maap_socket names =
    map (\<lambda>ctx. snd (check_and_update_ctx_data srp_started src_addr mapped maap_socket (ctx\<lparr>eth_interface := iname\<rparr>)))
      (create_contexts (map (\<lambda>n. (n, mc_files C n)) names))"

text \<open>
  The threads of the contexts. They share nothing but the signal flag, so their events are listed
  one context after the other. A thread that could not be created is joined nevertheless.
\<close>

fun run_threads ::
  "(nat \<Rightarrow> bool \<times> avdecc_world \<times> stream_calls) \<Rightarrow> nat \<Rightarrow> app_context list \<Rightarrow>
    (app_context list \<times> launch_event list) c_result" where
  "run_threads T n [] = Returns ([], [])"
| "run_threads T n (ctx # cs) =
    (if err_flag ctx then bindC (run_threads T (Suc n) cs) (\<lambda>(out, t). Returns (ctx # out, t))
     else if \<not> fst (T n) then UB
     else case streaming_thread (fst (snd (T n))) (snd (snd (T n))) ctx of
       UB \<Rightarrow> UB
     | NoReturn \<Rightarrow> (case run_threads T (Suc n) cs of UB \<Rightarrow> UB | _ \<Rightarrow> NoReturn)
     | Returns (ctx, _, t) \<Rightarrow>
         bindC (run_threads T (Suc n) cs) (\<lambda>(out, t'). Returns (ctx # out, t @ t')))"

definition release_maap :: "main_calls \<Rightarrow> int \<Rightarrow> int \<Rightarrow> maap_io \<Rightarrow> (maap_io \<times> launch_event list) c_result" where
  "release_maap C maap_socket maap_id io =
    (if maap_socket = 0 then Returns (io, [])
     else bindC (if maap_id \<noteq> 0 then maap_daemon_cmd_release (mc_stack C) maap_id io else Returns (0, io)) (\<lambda>(_, io).
       Returns (io, [Closed maap_socket])))"

text \<open>From the contexts on: addresses, networks, threads, and the release of everything.\<close>

definition run_contexts ::
  "main_calls \<Rightarrow> int \<Rightarrow> bool \<Rightarrow> int \<Rightarrow> app_context list \<Rightarrow> maap_io \<Rightarrow> main_result c_result" where
  "run_contexts C shm_descr mapped maap_socket ctx io =
    bindC (maap_update_address (mc_stack C) ctx io) (\<lambda>(maap_id, ctx, io).
    if maap_id < 0 then Returns (- 1, ctx, io, []) else
    bindC (connect_avb_network (mc_join C) (zip ctx (map (mc_network_alloc C) [0..<length ctx])) []) (\<lambda>(ctx, c_info, t1).
    bindC (run_threads (mc_thread C) 0 ctx) (\<lambda>(ctx, t2).
    let t3 = (if shm_descr \<noteq> - 1 then close_gptp_data shm_descr mapped else []) in
    bindC (release_maap C maap_socket maap_id io) (\<lambda>(io, t4).
    bindC (disconnect_avb_network (mc_leave C) c_info) (\<lambda>t5.
    Returns (0, ctx, io, map Launched (t1 @ t2) @ t3 @ map Launched (t4 @ t5)))))))"

definition launcher_run ::
  "main_calls \<Rightarrow> launcher_options \<Rightarrow> u8 list list \<Rightarrow> maap_io \<Rightarrow> main_result c_result" where
  "launcher_run C s names io =
    (let iname = (case lo_iname s of None \<Rightarrow> ascii ''eth0'' | Some n \<Rightarrow> n);
         config = (case lo_gptp_config_file s of None \<Rightarrow> ascii ''gptp_cfg.ini'' | Some f \<Rightarrow> f)
     in bindC (find_interface C iname) (\<lambda>(rc, iname).
     if rc < 0 then Returns (- 1, [], io, []) else
     let (rc, src_addr, _) = netif_gethwaddr (mc_socket C) (mc_ioctl C) (mc_hwaddr C) [] in
     if rc < 0 then Returns (- 1, [], io, []) else
     bindC (start_gptp C iname config (lo_g s)) (\<lambda>(shm, t1).
     case shm of None \<Rightarrow> Returns (- 1, [], io, t1)
     | Some shm_descr \<Rightarrow>
        let mapped = (shm_descr \<noteq> - 1) in
        bindC (start_srp C iname (lo_m s)) (\<lambda>(srp_started, t2).
        bindC (start_maap C iname (lo_a s) io) (\<lambda>(maap, io, t3).
        case maap of None \<Rightarrow> Returns (- 1, [], io, t1 @ t2 @ t3)
        | Some maap_socket \<Rightarrow>
           if \<not> mc_alloc C then Returns (- 1, [], io, t1 @ t2 @ t3) else
           bindC (run_contexts C shm_descr mapped maap_socket
               (prepare_contexts C iname src_addr srp_started mapped maap_socket names) io)
             (\<lambda>(rc, ctx, io, t4). Returns (rc, ctx, io, t1 @ t2 @ t3 @ t4)))))))"

definition launcher_main :: "main_calls \<Rightarrow> u8 list list \<Rightarrow> maap_io \<Rightarrow> main_result c_result" where
  "launcher_main C words io =
    (let (opts, names) = getopt launcher_spec words in
     case fold_options launcher_option opts
         \<lparr> lo_g = False, lo_gptp_config_file = None, lo_m = False, lo_a = False, lo_iname = None \<rparr> of
       Parsed s \<Rightarrow> launcher_run C s names io
     | _ \<Rightarrow> Returns (1, [], io, []))"

end
