(* ===== verification/Launcher_Props.thy ===== *)
theory Launcher_Props
  imports Launcher Launcher_Stream_Props Launcher_Maap_Props Mrpdummy_Props
begin

unbundle bit_operations_syntax

text \<open>
  Properties of the main program of the launcher: what it has joined and mapped it gives back,
  around the threads of the accepted contexts, and what a missing daemon does to it.
\<close>

section \<open>The log of the program\<close>

fun launched :: "main_event list \<Rightarrow> launch_event list" where
  "launched [] = []"
| "launched (e # es) = (case e of Launched l \<Rightarrow> l # launched es | _ \<Rightarrow> launched es)"

lemma launched_append [simp]: "launched (a @ b) = launched a @ launched b"
  by (induction a) (auto split: main_event.splits)

lemma launched_map [simp]: "launched (map Launched t) = t"
  by (induction t) auto

lemma exe_command_one: "exe_command E cmd = Returns (pid, r, w, t) \<Longrightarrow> length (executed t) \<le> 1"
  by (auto simp: exe_command_def split: option.splits prod.splits if_splits)

lemma start_daemon_one: "start_daemon sys E name opt flag = Returns (rc, t) \<Longrightarrow> length (executed t) \<le> 1"
  by (auto simp: start_daemon_def bindC_eq_Returns_iff split: if_splits dest: exe_command_one)

lemma open_gptp_retries_log:
  "open_gptp_retries k i S = (r, t) \<Longrightarrow>
    executed (launched t) = [] \<and> (\<forall>fd. Mapped_Clock fd \<in> set t \<longrightarrow> r = Some fd \<and> fd \<noteq> - 1)"
proof (induction k arbitrary: i r t)
  case (Suc k)
  show ?case using Suc.prems Suc.IH [of "Suc i"]
    by (auto simp: open_gptp_data_def split: if_splits prod.splits)
qed simp

lemma start_gptp_log:
  assumes "start_gptp C iname config g = Returns (r, t)"
  shows "length (executed (launched t)) \<le> 1 \<and> (\<forall>fd. Mapped_Clock fd \<in> set t \<longrightarrow> r = Some fd \<and> fd \<noteq> - 1)"
proof -
  obtain rc t0 where d: "start_daemon (mc_system C) (mc_daemon C GPTP_DAEMON_CMD) GPTP_DAEMON_CMD
      (snprintf (iname @ ascii '' -S -F '' @ config)) g = Returns (rc, t0)"
    and s: "(if rc \<noteq> 0 then Returns (Some (- 1), map Launched t0)
      else case open_gptp_retries DAEMON_CL_MAX_RETRY_NUM 0 (mc_shm C) of (r, t') \<Rightarrow> Returns (r, map Launched t0 @ t')) =
      Returns (r, t)"
    using assms by (auto simp: start_gptp_def bindC_eq_Returns_iff Let_def)
  show ?thesis
    using s start_daemon_one [OF d] open_gptp_retries_log [of DAEMON_CL_MAX_RETRY_NUM 0 "mc_shm C"]
    by (auto split: if_splits prod.splits)
qed

lemma connect_first_log: "connect_first as = (r, t) \<Longrightarrow> executed t = []"
  by (induction as arbitrary: r t rule: connect_first.induct) (auto split: if_splits prod.splits)

lemma open_maap_retries_log: "open_maap_retries k i A = (r, t) \<Longrightarrow> executed t = []"
proof (induction k arbitrary: i r t)
  case (Suc k)
  show ?case using Suc.prems Suc.IH [of "Suc i"] connect_first_log [of "snd (A i)"]
    by (auto simp: maap_open_socket_def split: if_splits prod.splits option.splits)
qed simp

lemma start_maap_log:
  assumes "start_maap C iname a io = Returns (r, io', t)"
  shows "length (executed (launched t)) \<le> 1 \<and> (\<forall>fd. Mapped_Clock fd \<notin> set t)"
proof -
  obtain rc t0 where d: "start_daemon (mc_system C) (mc_daemon C MAAP_DAEMON_CMD) MAAP_DAEMON_CMD
      (snprintf (ascii ''-i '' @ iname @ ascii '' -d '' @ MAAP_DAEMON_LOG)) a = Returns (rc, t0)"
    using assms by (auto simp: start_maap_def bindC_eq_Returns_iff)
  have "\<exists>t'. t = map Launched t0 @ map Launched t' \<and> executed t' = []"
    using assms d open_maap_retries_log [of MAAP_DAEMON_MAX_RETRY_NUM 0 "mc_maap C"]
    by (auto simp: start_maap_def bindC_eq_Returns_iff Let_def split: if_splits prod.splits option.splits)
  then show ?thesis using start_daemon_one [OF d] by auto
qed

lemma start_srp_log:
  assumes "start_srp C iname m = Returns (r, t)"
  shows "length (executed (launched t)) \<le> 1 \<and> (\<forall>fd. Mapped_Clock fd \<notin> set t)"
  using assms by (auto simp: start_srp_def bindC_eq_Returns_iff dest: start_daemon_one)

section \<open>What is joined is left\<close>

text \<open>The commands of a run over the contexts: those of the threads between joining and leaving.\<close>

definition brackets_threads ::
  "main_calls \<Rightarrow> app_context list \<Rightarrow> connect_info list \<Rightarrow> app_context list \<Rightarrow> main_event list \<Rightarrow> bool" where
  "brackets_threads C accepted c_info ctx t \<longleftrightarrow> length c_info \<le> 1 \<and>
    (\<exists>threads. run_threads (mc_thread C) 0 accepted = Returns (ctx, threads) \<and>
      executed (launched t) = join_commands c_info @ executed threads @ leave_commands c_info)"

lemma run_contexts_log:
  assumes "\<forall>n. starts (mc_join C n)" "\<forall>n. starts (mc_leave C n)"
    "run_contexts C fd mapped sock ctx io = Returns (0, ctx', io', t)"
  shows "\<exists>accepted c_info. brackets_threads C accepted c_info ctx' t \<and>
    (fd \<noteq> - 1 \<longrightarrow> Launched (Closed fd) \<in> set t \<and> (mapped \<longrightarrow> Unmapped_Clock \<in> set t)) \<and>
    (\<forall>fd. Mapped_Clock fd \<notin> set t)"
proof -
  obtain mid ctx1 io1 ctx2 c_info t1 ctx3 t2 t4 t5 where
    j: "connect_avb_network (mc_join C) (zip ctx1 (map (mc_network_alloc C) [0..<length ctx1])) [] = Returns (ctx2, c_info, t1)" and
    r: "run_threads (mc_thread C) 0 ctx2 = Returns (ctx', t2)" and
    m: "release_maap C sock mid io1 = Returns (io', t4)" and
    l: "disconnect_avb_network (mc_leave C) c_info = Returns t5" and
    t: "t = map Launched (t1 @ t2) @ (if fd \<noteq> - 1 then close_gptp_data fd mapped else []) @ map Launched (t4 @ t5)"
    using assms(3) by (auto simp: run_contexts_def bindC_eq_Returns_iff Let_def split: if_splits)
  have one: "length c_info \<le> 1"
    using j add_contexts_one_vlan by (fastforce simp: connect_avb_network_def bindC_eq_Returns_iff)
  have e1: "executed t1 = join_commands c_info"
    using j run_commands_starts [OF assms(1), of 0 "join_commands c_info"]
    by (auto simp: connect_avb_network_def bindC_eq_Returns_iff)
  have e5: "executed t5 = leave_commands c_info"
    using l run_commands_starts [OF assms(2), of 0 "leave_commands c_info"]
    by (auto simp: disconnect_avb_network_def split: if_splits)
  have e4: "executed t4 = []" using m by (auto simp: release_maap_def bindC_eq_Returns_iff split: if_splits)
  have e3: "executed (launched (if fd \<noteq> - 1 then close_gptp_data fd mapped else [])) = []"
    by (simp add: close_gptp_data_def)
  have "brackets_threads C ctx2 c_info ctx' t"
    using one r e1 e3 e4 e5 by (simp add: brackets_threads_def t)
  moreover have "fd \<noteq> - 1 \<longrightarrow> Launched (Closed fd) \<in> set t \<and> (mapped \<longrightarrow> Unmapped_Clock \<in> set t)"
    "\<forall>fd. Mapped_Clock fd \<notin> set t"
    by (auto simp: t close_gptp_data_def)
  ultimately show ?thesis by blast
qed

lemma launcher_main_run:
  assumes "launcher_main C words io = Returns (0, ctx, io', t)"
  shows "\<exists>s names. launcher_run C s names io = Returns (0, ctx, io', t)"
  using assms by (auto simp: launcher_main_def split: prod.splits parse_result.splits)

lemma launcher_run_stages:
  assumes "launcher_run C s names io = Returns (0, ctx, io', t)"
  shows "\<exists>iname config fd r1 r2 sock io1 cs t1 t2 t3 t4.
    start_gptp C iname config (lo_g s) = Returns (Some fd, t1) \<and> start_srp C iname (lo_m s) = Returns (r1, t2) \<and>
    start_maap C iname (lo_a s) io = Returns (r2, io1, t3) \<and>
    run_contexts C fd (fd \<noteq> - 1) sock cs io1 = Returns (0, ctx, io', t4) \<and> t = t1 @ t2 @ t3 @ t4"
  using assms
  by (fastforce simp: launcher_run_def bindC_eq_Returns_iff Let_def split: if_splits prod.splits option.splits)


section \<open>A missing daemon\<close>

lemma assign_addresses_length [simp]: "length (assign_addresses a cs) = length cs"
  by (induction cs arbitrary: a) auto

lemma check_keeps_maap [simp]: "use_maap (snd (check_and_update_ctx_data srp addr mapped sock ctx)) = use_maap ctx"
  by (simp add: check_and_update_ctx_data_def Let_def)

lemma refused_reservation:
  assumes "ctx \<in> set cs" "use_maap ctx" "io_send_ok io = False # oks"
  shows "run_contexts C fd mapped sock cs io = Returns (- 1, cs, io\<lparr>io_send_ok := oks\<rparr>, [])"
proof -
  have "filter use_maap cs \<noteq> []" using assms(1,2) by (auto simp: filter_empty_conv)
  then have "maap_update_address (mc_stack C) cs io = Returns (- 1, cs, io\<lparr>io_send_ok := oks\<rparr>)"
    using assms(3) by (simp add: maap_update_address_def maap_daemon_cmd_reserve_def maap_daemon_send_cmd_def)
  then show ?thesis by (simp add: run_contexts_def)
qed


text \<open>
  A fallback interface whose name is longer than the name of the option is copied over the end of
  the allocation.
\<close>

lemma longer_fallback_overflows:
  assumes "mc_index C = 0" "mc_interfaces C = Some (name # names)" "take 15 name \<noteq> ascii ''lo''" "length iname < length name"
  shows "launcher_main C [ascii ''-i'', iname] io = UB"
proof -
  have "getopt launcher_spec [ascii ''-i'', iname] = ([(ch CHR ''i'', iname)], [])"
    by (simp add: launcher_spec_def option_spec_def ascii_def ch_def is_option_word_def)
  then show ?thesis
    using assms
    by (simp add: launcher_main_def launcher_option_def launcher_run_def find_interface_def netif_detect_def
      ch_def)
qed

section \<open>Examples\<close>

text \<open>
  No daemon runs; the clock daemon is started by the option \<open>-g\<close> and its shared memory can be
  mapped at the second attempt. The file of the first context is empty, so the context is marked;
  the second cannot be read.
\<close>

definition sample_main_calls :: "(nat \<Rightarrow> bool \<times> avdecc_world \<times> stream_calls) \<Rightarrow> main_calls" where
  "sample_main_calls T = \<lparr> mc_index = 2, mc_interfaces = None, mc_socket = 3, mc_ioctl = 0,
     mc_hwaddr = [2, 0, 0, 0, 0, 1, 0, 0], mc_system = (\<lambda>_. 256), mc_daemon = (\<lambda>_. sample_exe 0),
     mc_shm = (\<lambda>i. \<lparr> shm_fd = (if i = 0 then - 1 else 9), shm_mapped = True \<rparr>), mc_maap = (\<lambda>_. (0, [(7, 0)])),
     mc_stack = sample_notify MAAP_NOTIFY_INVALID MAAP_NOTIFY_ERROR_NONE, mc_alloc = True,
     mc_files = (\<lambda>n. if n = ascii ''a.ini'' then Some [] else None), mc_network_alloc = (\<lambda>_. (True, True)),
     mc_join = sample_exe, mc_leave = sample_exe,
     mc_thread = T \<rparr>"

definition sample_words :: "u8 list list" where
  "sample_words = [ascii ''-g'', ascii ''ptp.cfg'', ascii ''a.ini'', ascii ''b.ini'']"

definition sample_io :: maap_io where
  "sample_io = \<lparr> io_sent = [], io_send_ok = [False], io_recv = [] \<rparr>"

lemma sample_main:
  "case launcher_main (sample_main_calls T) sample_words sample_io of
     Returns (rc, cs, io, t) \<Rightarrow> rc = 0 \<and> map err_flag cs = [True] \<and> executed (launched t) = [ascii ''daemon_cl eth0 -S -F ptp.cfg''] \<and>
       Mapped_Clock 9 \<in> set t
   | _ \<Rightarrow> False"
  by code_simp


definition maap_file :: "u8 list" where
  "maap_file = ascii ''[avblauncher]'' @ [10] @ ascii ''DEST_ADDR = maap'' @ [10]"

lemma maap_file_uses_maap:
  "map use_maap (create_contexts (map (\<lambda>n. (n, Some maap_file)) [ascii ''a.ini''])) = [True]"
  by code_simp


end
