(* ===== verification/Entity_Tables.thy ===== *)
theory Entity_Tables
  imports Cstring
begin

text \<open>
  The tables of \<open>lib/avdecc/avdecc_entity.c\<close> that say how the keys of an entity file are stored:
  for every structure its members with the function that parses the value, and for every
  descriptor type its name with the table of its structure. The structures themselves and the
  numbers of the types belong to the package jdksavdecc-c.
\<close>

datatype parse_kind = PString | PEui48 | PEui64 | PUint32

type_synonym parse_table = "(parse_kind \<times> u8 list) list"

abbreviation (input) members :: "parse_kind \<Rightarrow> string list \<Rightarrow> parse_table" where
  "members k names \<equiv> map (\<lambda>n. (k, ascii n)) names"

section \<open>Members\<close>

definition parse_table_entity :: parse_table where
  "parse_table_entity =
    members PUint32 [''descriptor_type'', ''descriptor_index''] @
    members PEui64 [''entity_id'', ''entity_model_id''] @
    members PUint32 [''entity_capabilities'', ''talker_stream_sources'', ''talker_capabilities'', ''listener_stream_sinks'',
      ''listener_capabilities'', ''controller_capabilities'', ''available_index''] @
    members PEui64 [''association_id''] @
    members PString [''entity_name''] @
    members PUint32 [''vendor_name_string'', ''model_name_string''] @
    members PString [''firmware_version'', ''group_name'', ''serial_number''] @
    members PUint32 [''configurations_count'', ''current_configuration'']"

definition parse_table_configuration :: parse_table where
  "parse_table_configuration =
    members PUint32 [''descriptor_type'', ''descriptor_index''] @
    members PString [''object_name''] @
    members PUint32 [''localized_description'', ''descriptor_counts_count'', ''descriptor_counts_offset'']"

definition parse_table_audio_unit :: parse_table where
  "parse_table_audio_unit =
    members PUint32 [''descriptor_type'', ''descriptor_index''] @
    members PString [''object_name''] @
    members PUint32 [''localized_description'', ''clock_domain_index'', ''number_of_stream_input_ports'',
      ''base_stream_input_port'', ''number_of_stream_output_ports'', ''base_stream_output_port'',
      ''number_of_external_input_ports'', ''base_external_input_port'', ''number_of_external_output_ports'',
      ''base_external_output_port'', ''number_of_internal_input_ports'', ''base_internal_input_port'',
      ''number_of_internal_output_ports'', ''base_internal_output_port'', ''number_of_controls'',
      ''base_control'', ''number_of_signal_selectors'', ''base_signal_selector'', ''number_of_mixers'',
      ''base_mixer'', ''number_of_matrices'', ''base_matrix'', ''number_of_splitters'', ''base_splitter'',
      ''number_of_combiners'', ''base_combiner'', ''number_of_demultiplexers'', ''base_demultiplexer'',
      ''number_of_multiplexers'', ''base_multiplexer'', ''number_of_transcoders'', ''base_transcoder'',
      ''number_of_control_blocks'', ''base_control_block'', ''current_sampling_rate'',
      ''sampling_rates_offset'', ''sampling_rates_count'']"

definition parse_table_video_unit :: parse_table where
  "parse_table_video_unit =
    members PUint32 [''descriptor_type'', ''descriptor_index''] @
    members PString [''object_name''] @
    members PUint32 [''localized_description'', ''clock_domain_index'', ''number_of_stream_input_ports'',
      ''base_stream_input_port'', ''number_of_stream_output_ports'', ''base_stream_output_port'',
      ''number_of_external_input_ports'', ''base_external_input_port'', ''number_of_external_output_ports'',
      ''base_external_output_port'', ''number_of_internal_input_ports'', ''base_internal_input_port'',
      ''number_of_internal_output_ports'', ''base_internal_output_port'', ''number_of_controls'',
      ''base_control'', ''number_of_signal_selectors'', ''base_signal_selector'', ''number_of_mixers'',
      ''base_mixer'', ''number_of_matrices'', ''base_matrix'', ''number_of_splitters'', ''base_splitter'',
      ''number_of_combiners'', ''base_combiner'', ''number_of_demultiplexers'', ''base_demultiplexer'',
      ''number_of_multiplexers'', ''base_multiplexer'', ''number_of_transcoders'', ''base_transcoder'',
      ''number_of_control_blocks'', ''base_control_block'']"

definition parse_table_stream :: parse_table where
  "parse_table_stream =
    members PUint32 [''descriptor_type'', ''descriptor_index''] @
    members PString [''object_name''] @
    members PUint32 [''localized_description'', ''clock_domain_index'', ''stream_flags''] @
    members PEui64 [''current_format''] @
    members PUint32 [''formats_offset'', ''number_of_formats''] @
    members PEui64 [''backup_talker_entity_id_0''] @
    members PUint32 [''backup_talker_unique_id_0''] @
    members PEui64 [''backup_talker_entity_id_1''] @
    members PUint32 [''backup_talker_unique_id_1''] @
    members PEui64 [''backup_talker_entity_id_2''] @
    members PUint32 [''backup_talker_unique_id_2''] @
    members PEui64 [''backedup_talker_entity_id''] @
    members PUint32 [''backedup_talker_unique'', ''avb_interface_index'', ''buffer_length'']"

definition parse_table_jack :: parse_table where
  "parse_table_jack =
    members PUint32 [''descriptor_type'', ''descriptor_index''] @
    members PString [''object_name''] @
    members PUint32 [''localized_description'', ''jack_flags'', ''jack_type'', ''number_of_controls'', ''base_control'']"

definition parse_table_avb_interface :: parse_table where
  "parse_table_avb_interface =
    members PUint32 [''descriptor_type'', ''descriptor_index''] @
    members PString [''object_name''] @
    members PUint32 [''localized_description''] @
    members PEui48 [''mac_address''] @
    members PUint32 [''interface_flags''] @
    members PEui64 [''clock_identity''] @
    members PUint32 [''priority1'', ''clock_class'', ''offset_scaled_log_variance'', ''clock_accuracy'', ''priority2'',
      ''domain_number'', ''log_sync_interval'', ''log_announce_interval'', ''log_pdelay_interval'',
      ''port_number'']"

definition parse_table_clock_source :: parse_table where
  "parse_table_clock_source =
    members PUint32 [''descriptor_type'', ''descriptor_index''] @
    members PString [''object_name''] @
    members PUint32 [''localized_description'', ''clock_source_flags''] @
    members PEui64 [''clock_source_identifier''] @
    members PUint32 [''clock_source_location_type'', ''clock_source_location_index'']"

definition parse_table_locale :: parse_table where
  "parse_table_locale =
    members PUint32 [''descriptor_type'', ''descriptor_index''] @
    members PString [''locale_identifier''] @
    members PUint32 [''number_of_strings'', ''base_strings'']"

definition parse_table_strings :: parse_table where
  "parse_table_strings =
    members PUint32 [''descriptor_type'', ''descriptor_index''] @
    members PString [''string_0'', ''string_1'', ''string_2'', ''string_3'', ''string_4'', ''string_5'', ''string_6'']"

definition parse_table_stream_port :: parse_table where
  "parse_table_stream_port =
    members PUint32 [''descriptor_type'', ''descriptor_index'', ''clock_domain_index'', ''port_flags'',
      ''number_of_controls'', ''base_control'', ''number_of_clusters'', ''base_cluster'', ''number_of_maps'',
      ''base_map'']"

definition parse_table_audio_cluster :: parse_table where
  "parse_table_audio_cluster =
    members PUint32 [''descriptor_type'', ''descriptor_index''] @
    members PString [''object_name''] @
    members PUint32 [''localized_description'', ''signal_type'', ''signal_index'', ''signal_output'', ''path_latency'',
      ''block_latency'', ''channel_count'', ''format'']"

definition parse_table_video_cluster :: parse_table where
  "parse_table_video_cluster =
    members PUint32 [''descriptor_type'', ''descriptor_index''] @
    members PString [''object_name''] @
    members PUint32 [''localized_description'', ''signal_type'', ''signal_index'', ''signal_output'', ''path_latency'',
      ''block_latency'', ''format'', ''current_format_specific'', ''supported_format_specifics_offset'',
      ''supported_format_specifics_count'', ''current_sampling_rate'', ''supported_sampling_rates_offset'',
      ''supported_sampling_rates_count'', ''current_aspect_ratio'', ''supported_aspect_ratios_offset'',
      ''supported_aspect_ratios_count'', ''current_size'', ''supported_sizes_offset'',
      ''supported_sizes_count'', ''current_color_space'', ''supported_color_spaces_offset'',
      ''supported_color_spaces_count'']"

definition parse_table_audio_map :: parse_table where
  "parse_table_audio_map =
    members PUint32 [''descriptor_type'', ''descriptor_index'', ''mappings_offset'', ''number_of_mappings'']"

definition parse_table_video_map :: parse_table where
  "parse_table_video_map =
    members PUint32 [''descriptor_type'', ''descriptor_index'', ''mappings_offset'', ''number_of_mappings'']"

definition parse_table_clock_domain :: parse_table where
  "parse_table_clock_domain =
    members PUint32 [''descriptor_type'', ''descriptor_index''] @
    members PString [''object_name''] @
    members PUint32 [''localized_description'', ''clock_source_index'', ''clock_sources_offset'', ''clock_sources_count'']"

section \<open>Descriptor types\<close>

datatype descriptor_kind =
  KIND_ENTITY | KIND_CONFIGURATION | KIND_AUDIO_UNIT | KIND_VIDEO_UNIT | KIND_SENSOR_UNIT |
  KIND_STREAM_INPUT | KIND_STREAM_OUTPUT | KIND_JACK_INPUT | KIND_JACK_OUTPUT | KIND_AVB_INTERFACE |
  KIND_CLOCK_SOURCE | KIND_MEMORY_OBJECT | KIND_LOCALE | KIND_STRINGS | KIND_STREAM_PORT_INPUT |
  KIND_STREAM_PORT_OUTPUT | KIND_EXTERNAL_PORT_INPUT | KIND_EXTERNAL_PORT_OUTPUT |
  KIND_INTERNAL_PORT_INPUT | KIND_INTERNAL_PORT_OUTPUT | KIND_AUDIO_CLUSTER | KIND_VIDEO_CLUSTER |
  KIND_SENSOR_CLUSTER | KIND_AUDIO_MAP | KIND_VIDEO_MAP | KIND_SENSOR_MAP | KIND_CONTROL |
  KIND_SIGNAL_SELECTOR | KIND_MIXER | KIND_MATRIX | KIND_MATRIX_SIGNAL | KIND_SIGNAL_SPLITTER |
  KIND_SIGNAL_COMBINER | KIND_SIGNAL_DEMULTIPLEXER | KIND_SIGNAL_MULTIPLEXER | KIND_SIGNAL_TRANSCODER |
  KIND_CLOCK_DOMAIN | KIND_CONTROL_BLOCK

datatype entity_struct =
  S_Entity | S_Configuration | S_Audio_Unit | S_Video_Unit | S_Stream | S_Jack | S_Avb_Interface |
  S_Clock_Source | S_Locale | S_Strings | S_Stream_Port | S_Audio_Cluster | S_Video_Cluster |
  S_Audio_Map | S_Video_Map | S_Clock_Domain

definition d_table :: "descriptor_kind \<Rightarrow> u8 list \<times> (entity_struct \<times> parse_table) option" where
  "d_table k = (case k of
      KIND_ENTITY \<Rightarrow> (ascii ''entity'', Some (S_Entity, parse_table_entity))
    | KIND_CONFIGURATION \<Rightarrow> (ascii ''configuration'', Some (S_Configuration, parse_table_configuration))
    | KIND_AUDIO_UNIT \<Rightarrow> (ascii ''audio_unit'', Some (S_Audio_Unit, parse_table_audio_unit))
    | KIND_VIDEO_UNIT \<Rightarrow> (ascii ''video_unit'', Some (S_Video_Unit, parse_table_video_unit))
    | KIND_SENSOR_UNIT \<Rightarrow> (ascii ''sensor_unit'', None)
    | KIND_STREAM_INPUT \<Rightarrow> (ascii ''stream_input'', Some (S_Stream, parse_table_stream))
    | KIND_STREAM_OUTPUT \<Rightarrow> (ascii ''stream_output'', Some (S_Stream, parse_table_stream))
    | KIND_JACK_INPUT \<Rightarrow> (ascii ''jack_input'', Some (S_Jack, parse_table_jack))
    | KIND_JACK_OUTPUT \<Rightarrow> (ascii ''jack_output'', Some (S_Jack, parse_table_jack))
    | KIND_AVB_INTERFACE \<Rightarrow> (ascii ''avb_interface'', Some (S_Avb_Interface, parse_table_avb_interface))
    | KIND_CLOCK_SOURCE \<Rightarrow> (ascii ''clock_source'', Some (S_Clock_Source, parse_table_clock_source))
    | KIND_MEMORY_OBJECT \<Rightarrow> (ascii ''memory_object'', None)
    | KIND_LOCALE \<Rightarrow> (ascii ''locale'', Some (S_Locale, parse_table_locale))
    | KIND_STRINGS \<Rightarrow> (ascii ''strings'', Some (S_Strings, parse_table_strings))
    | KIND_STREAM_PORT_INPUT \<Rightarrow> (ascii ''stream_port_input'', Some (S_Stream_Port, parse_table_stream_port))
    | KIND_STREAM_PORT_OUTPUT \<Rightarrow> (ascii ''stream_port_output'', Some (S_Stream_Port, parse_table_stream_port))
    | KIND_EXTERNAL_PORT_INPUT \<Rightarrow> (ascii ''external_port_input'', None)
    | KIND_EXTERNAL_PORT_OUTPUT \<Rightarrow> (ascii ''external_port_output'', None)
    | KIND_INTERNAL_PORT_INPUT \<Rightarrow> (ascii ''internal_port_input'', None)
    | KIND_INTERNAL_PORT_OUTPUT \<Rightarrow> (ascii ''internal_port_output'', None)
    | KIND_AUDIO_CLUSTER \<Rightarrow> (ascii ''audio_cluster'', Some (S_Audio_Cluster, parse_table_audio_cluster))
    | KIND_VIDEO_CLUSTER \<Rightarrow> (ascii ''video_cluster'', Some (S_Video_Cluster, parse_table_video_cluster))
    | KIND_SENSOR_CLUSTER \<Rightarrow> (ascii ''sensor_cluster'', None)
    | KIND_AUDIO_MAP \<Rightarrow> (ascii ''audio_map'', Some (S_Audio_Map, parse_table_audio_map))
    | KIND_VIDEO_MAP \<Rightarrow> (ascii ''video_map'', Some (S_Video_Map, parse_table_video_map))
    | KIND_SENSOR_MAP \<Rightarrow> (ascii ''sensor_map'', None)
    | KIND_CONTROL \<Rightarrow> (ascii ''control'', None)
    | KIND_SIGNAL_SELECTOR \<Rightarrow> (ascii ''signal_selector'', None)
    | KIND_MIXER \<Rightarrow> (ascii ''mixer'', None)
    | KIND_MATRIX \<Rightarrow> (ascii ''matrix'', None)
    | KIND_MATRIX_SIGNAL \<Rightarrow> (ascii ''matrix_signal'', None)
    | KIND_SIGNAL_SPLITTER \<Rightarrow> (ascii ''signal_splitter'', None)
    | KIND_SIGNAL_COMBINER \<Rightarrow> (ascii ''signal_combiner'', None)
    | KIND_SIGNAL_DEMULTIPLEXER \<Rightarrow> (ascii ''signal_demultiplexer'', None)
    | KIND_SIGNAL_MULTIPLEXER \<Rightarrow> (ascii ''signal_multiplexer'', None)
    | KIND_SIGNAL_TRANSCODER \<Rightarrow> (ascii ''signal_transcoder'', None)
    | KIND_CLOCK_DOMAIN \<Rightarrow> (ascii ''clock_domain'', Some (S_Clock_Domain, parse_table_clock_domain))
    | KIND_CONTROL_BLOCK \<Rightarrow> (ascii ''control_block'', None))"

end
