(* ===== verification/Avdecc_Entity.thy ===== *)
theory Avdecc_Entity
  imports Entity_Tables
begin

unbundle bit_operations_syntax

text \<open>
  The configuration of an AVDECC entity (\<open>lib/avdecc/avdecc_entity.c\<close>): the reader that follows
  the tokens of a YAML file and stores the values of its keys in descriptors, and the numbering of
  the descriptors. A descriptor is the bytes of its union; where a member of a structure of
  jdksavdecc-c lies, how wide it is and how its strings and identifiers are stored are arguments,
  and so are the tokens of the YAML library. The arrays a descriptor points to are kept apart from
  its bytes.
\<close>

section \<open>Descriptors\<close>

record entity_package =
  ep_endian :: endian
  ep_kinds :: "descriptor_kind list"
  ep_offset :: "entity_struct \<Rightarrow> u8 list \<Rightarrow> nat"
  ep_width :: "entity_struct \<Rightarrow> u8 list \<Rightarrow> nat"
  ep_union_size :: nat
  ep_string :: "u8 list \<Rightarrow> u8 list"
  ep_eui48 :: "u8 list \<Rightarrow> u8 list option"
  ep_eui64 :: "u8 list \<Rightarrow> u8 list option"
  ep_audio_mapping_size :: nat
  ep_video_mapping_size :: nat
  ep_array_offset :: "entity_struct \<Rightarrow> u64"

text \<open>\<open>ep_kinds\<close> are the descriptor types in the order of their numbers.\<close>

definition number_of :: "entity_package \<Rightarrow> descriptor_kind \<Rightarrow> nat" where
  "number_of P k = (case find_index (\<lambda>j. j = k) (ep_kinds P) of Some i \<Rightarrow> i | None \<Rightarrow> length (ep_kinds P))"

definition kind_of :: "entity_package \<Rightarrow> nat \<Rightarrow> descriptor_kind option" where
  "kind_of P n = (if n < length (ep_kinds P) then Some (ep_kinds P ! n) else None)"

record desc_mem =
  dm_union :: mem
  dm_arrays :: "(u8 list \<times> u8 list) list"
  dm_counts :: "(u16 \<times> u16) list"

definition desc_zero :: "entity_package \<Rightarrow> desc_mem" where
  "desc_zero P = \<lparr> dm_union = replicate (ep_union_size P) 0, dm_arrays = [], dm_counts = [] \<rparr>"

definition store_bytes_at :: "entity_package \<Rightarrow> entity_struct \<Rightarrow> u8 list \<Rightarrow> u8 list \<Rightarrow> desc_mem \<Rightarrow> desc_mem c_result" where
  "store_bytes_at P s name bs d =
    (case wrn (ep_offset P s name) bs (dm_union d) of None \<Rightarrow> UB | Some u \<Rightarrow> Returns (d\<lparr>dm_union := u\<rparr>))"

definition read_member :: "entity_package \<Rightarrow> entity_struct \<Rightarrow> string \<Rightarrow> desc_mem \<Rightarrow> u64 c_result" where
  "read_member P s name d =
    (case rdn (ep_offset P s (ascii name)) (ep_width P s (ascii name)) (dm_union d) of
       None \<Rightarrow> UB | Some bs \<Rightarrow> Returns (host_word (ep_endian P) bs))"

definition write_member :: "entity_package \<Rightarrow> entity_struct \<Rightarrow> string \<Rightarrow> u64 \<Rightarrow> desc_mem \<Rightarrow> desc_mem c_result" where
  "write_member P s name v d =
    store_bytes_at P s (ascii name) (host_bytes (ep_endian P) (ep_width P s (ascii name)) v) d"

section \<open>Values\<close>

text \<open>\<open>strtol\<close> with base 0: the value and whether it was out of range; nothing without a number.\<close>

definition strtol0 :: "u8 list \<Rightarrow> (int \<times> bool) option" where
  "strtol0 s =
    (let (neg, s1) = split_sign (dropWhile is_space s);
         hex = (case skip_0x s1 of c # _ \<Rightarrow> skip_0x s1 \<noteq> s1 \<and> is_digit 16 c | [] \<Rightarrow> False);
         base = (if hex then 16 else case s1 of c # _ \<Rightarrow> if c = 48 then 8 else 10 | [] \<Rightarrow> 10);
         ds = takeWhile (is_digit base) (if hex then skip_0x s1 else s1);
         v = (if neg then - digits_value base ds else digits_value base ds);
         v' = max (- (2 ^ 63)) (min v (2 ^ 63 - 1))
     in if ds = [] then None else Some (v', v' \<noteq> v))"

text \<open>The value is stored before it is checked.\<close>

definition assigned_uint32_data :: "u8 list \<Rightarrow> int \<times> u32" where
  "assigned_uint32_data value =
    (case strtol0 value of None \<Rightarrow> (- 1, 0) | Some (v, outside) \<Rightarrow> (if outside then - 1 else 0, word_of_int v))"

text \<open>Two characters for every byte; a pair that is no number stores the byte before it again.\<close>

fun assigned_valiable_data :: "u32 \<Rightarrow> u8 list \<Rightarrow> u8 list" where
  "assigned_valiable_data x [] = []"
| "assigned_valiable_data x (c # cs) =
    (let x = (case convert (ConvX (Some 2)) (c # cs) of Some (v, _) \<Rightarrow> ucast v | None \<Rightarrow> x)
     in ucast x # (case cs of [] \<Rightarrow> [] | _ # ds \<Rightarrow> assigned_valiable_data x ds))"

definition entry_bytes :: "entity_package \<Rightarrow> parse_kind \<Rightarrow> u8 list \<Rightarrow> u8 list option" where
  "entry_bytes P k value =
    (case k of PString \<Rightarrow> Some (ep_string P value) | PEui48 \<Rightarrow> ep_eui48 P value | PEui64 \<Rightarrow> ep_eui64 P value
     | PUint32 \<Rightarrow> Some (host_bytes (ep_endian P) 4 (snd (assigned_uint32_data value))))"

text \<open>A key that is not in the table, and the result of the parse functions, are not looked at.\<close>

fun yaml_to_descriptor_entry ::
  "entity_package \<Rightarrow> entity_struct \<Rightarrow> parse_table \<Rightarrow> u8 list \<Rightarrow> u8 list \<Rightarrow> desc_mem \<Rightarrow> desc_mem c_result" where
  "yaml_to_descriptor_entry P s [] key value d = Returns d"
| "yaml_to_descriptor_entry P s ((k, name) # es) key value d =
    bindC (if key = name then
        (case entry_bytes P k value of None \<Rightarrow> Returns d | Some bs \<Rightarrow> store_bytes_at P s name bs d)
      else Returns d)
      (yaml_to_descriptor_entry P s es key value)"

text \<open>The arrays of a descriptor: key, member with the number of elements, size of an element, and whether no elements are an error.\<close>

definition array_specs :: "entity_package \<Rightarrow> descriptor_kind \<Rightarrow> (string \<times> string \<times> nat \<times> bool) list" where
  "array_specs P k = (case k of
      KIND_AUDIO_UNIT \<Rightarrow> [(''sampling_rates'', ''sampling_rates_count'', 4, True)]
    | KIND_STREAM_INPUT \<Rightarrow> [(''formats'', ''number_of_formats'', 8, True)]
    | KIND_STREAM_OUTPUT \<Rightarrow> [(''formats'', ''number_of_formats'', 8, True)]
    | KIND_VIDEO_CLUSTER \<Rightarrow>
       [(''supported_format_specifics'', ''supported_format_specifics_count'', 4, True),
        (''supported_sampling_rates'', ''supported_sampling_rates_count'', 4, False),
        (''supported_aspect_ratios'', ''supported_aspect_ratios_count'', 2, True),
        (''supported_sizes'', ''supported_sizes_count'', 4, True),
        (''supported_color_spaces'', ''supported_color_spaces_count'', 2, True)]
    | KIND_AUDIO_MAP \<Rightarrow> [(''mappings'', ''number_of_mappings'', ep_audio_mapping_size P, True)]
    | KIND_VIDEO_MAP \<Rightarrow> [(''mappings'', ''number_of_mappings'', ep_video_mapping_size P, True)]
    | KIND_CLOCK_DOMAIN \<Rightarrow> [(''clock_sources'', ''clock_sources_count'', 2, True)]
    | _ \<Rightarrow> [])"

definition store_array ::
  "entity_package \<Rightarrow> bool \<Rightarrow> entity_struct \<Rightarrow> string \<times> string \<times> nat \<times> bool \<Rightarrow> u8 list \<Rightarrow> desc_mem \<Rightarrow>
    (int \<times> desc_mem) c_result" where
  "store_array P ok s spec value d =
    (case spec of (key, count, elem, strict) \<Rightarrow>
      bindC (read_member P s count d) (\<lambda>n.
      if n = 0 then Returns (if strict then - 1 else 0, d) else
      let others = filter (\<lambda>(k, _). k \<noteq> ascii key) (dm_arrays d) in
      if \<not> ok then Returns (- 1, d\<lparr>dm_arrays := others\<rparr>) else
      let bs = assigned_valiable_data 0 value; room = unat n * elem in
      if room < length bs then UB
      else Returns (0, d\<lparr>dm_arrays := (ascii key, bs @ replicate (room - length bs) 0) # others\<rparr>)))"

definition yaml_to_descriptor ::
  "entity_package \<Rightarrow> bool \<Rightarrow> descriptor_kind \<Rightarrow> desc_mem \<Rightarrow> u8 list \<Rightarrow> u8 list \<Rightarrow> (int \<times> desc_mem) c_result" where
  "yaml_to_descriptor P ok k d key value =
    (case snd (d_table k) of None \<Rightarrow> Returns (- 1, d)
     | Some (s, table) \<Rightarrow>
        (case find (\<lambda>(name, _). key = ascii name) (array_specs P k) of
           Some spec \<Rightarrow> store_array P ok s spec value d
         | None \<Rightarrow> bindC (yaml_to_descriptor_entry P s table key value d) (\<lambda>d. Returns (0, d))))"

section \<open>The entity\<close>

record entity_conf =
  ef_conf :: desc_mem
  ef_descs :: "desc_mem list"

record entity_mem =
  em_entity :: desc_mem
  em_confs :: "entity_conf list"

definition add_new_descriptor ::
  "entity_package \<Rightarrow> bool \<Rightarrow> desc_mem list \<Rightarrow> descriptor_kind \<Rightarrow> desc_mem list option c_result" where
  "add_new_descriptor P ok head k =
    (if \<not> ok then Returns None
     else bindC (write_member P S_Entity ''descriptor_type'' (of_nat (number_of P k)) (desc_zero P)) (\<lambda>d.
       Returns (Some (head @ [d]))))"

definition add_new_configuration :: "entity_package \<Rightarrow> bool \<Rightarrow> entity_conf list \<Rightarrow> entity_conf list option" where
  "add_new_configuration P ok head =
    (if ok then Some (head @ [\<lparr> ef_conf = desc_zero P, ef_descs = [] \<rparr>]) else None)"

section \<open>The reader\<close>

text \<open>
  The tokens of the YAML library that the reader looks at; the others change nothing. After an
  error of the library every further token is \<open>NO_TOKEN\<close>.
\<close>

datatype yaml_token =
  NO_TOKEN | STREAM_START_TOKEN | STREAM_END_TOKEN | BLOCK_SEQUENCE_START_TOKEN | BLOCK_ENTRY_TOKEN |
  BLOCK_MAPPING_START_TOKEN | BLOCK_END_TOKEN | KEY_TOKEN | VALUE_TOKEN | SCALAR_TOKEN "u8 list" | OTHER_TOKEN

datatype parse_status =
  PARSE_IDLE | PARSE_START | PARSE_ENTITY_START | PARSE_ENTITY_FOUND | PARSE_ENTITY_SEQUENCE | PARSE_ENTITY |
  PARSE_CONFIGURATION_FOUND | PARSE_CONFIGURATION_SEQUENCE | PARSE_CONFIGURATION | PARSE_DESCRIPTORS_FOUND |
  PARSE_DESCRIPTORS_START | PARSE_DESCRIPTOR_FOUND | PARSE_DESCRIPTOR_SEQUENCE | PARSE_DESCRIPTOR

record reader =
  rs_status :: parse_status
  rs_value :: bool
  rs_flag :: descriptor_kind
  rs_key :: "u8 list"
  rs_dev :: entity_mem

text \<open>A step goes on or leaves the loop, with or without the error flag.\<close>

datatype reader_step = Go_On reader | Leave bool entity_mem

definition set_status :: "parse_status \<Rightarrow> reader \<Rightarrow> reader" where
  "set_status st r = r\<lparr>rs_status := st\<rparr>"

definition block_sequence_start :: "reader \<Rightarrow> reader" where
  "block_sequence_start r =
    (case rs_status r of
       PARSE_ENTITY_FOUND \<Rightarrow> r\<lparr>rs_status := PARSE_ENTITY_SEQUENCE, rs_flag := KIND_ENTITY\<rparr>
     | PARSE_CONFIGURATION_FOUND \<Rightarrow> r\<lparr>rs_status := PARSE_CONFIGURATION_SEQUENCE, rs_flag := KIND_CONFIGURATION\<rparr>
     | PARSE_DESCRIPTOR_FOUND \<Rightarrow> set_status PARSE_DESCRIPTOR_SEQUENCE r
     | _ \<Rightarrow> r)"

text \<open>The configuration and the descriptor that were added last are the last ones of their lists.\<close>

definition map_last :: "('a \<Rightarrow> 'a) \<Rightarrow> 'a list \<Rightarrow> 'a list" where
  "map_last f xs = (if xs = [] then [] else butlast xs @ [f (last xs)])"

definition block_mapping_start :: "entity_package \<Rightarrow> bool \<Rightarrow> reader \<Rightarrow> reader_step c_result" where
  "block_mapping_start P ok r =
    (let dev = rs_dev r in
     case rs_status r of
       PARSE_START \<Rightarrow> Returns (Go_On (set_status PARSE_ENTITY_START r))
     | PARSE_ENTITY_SEQUENCE \<Rightarrow> Returns (Go_On (set_status PARSE_ENTITY r))
     | PARSE_CONFIGURATION_SEQUENCE \<Rightarrow>
        (case add_new_configuration P ok (em_confs dev) of
           None \<Rightarrow> Returns (Leave False (dev\<lparr>em_confs := []\<rparr>))
         | Some cs \<Rightarrow> Returns (Go_On (r\<lparr>rs_status := PARSE_CONFIGURATION, rs_flag := KIND_CONFIGURATION,
             rs_dev := dev\<lparr>em_confs := cs\<rparr>\<rparr>)))
     | PARSE_DESCRIPTORS_FOUND \<Rightarrow> Returns (Go_On (set_status PARSE_DESCRIPTORS_START r))
     | PARSE_DESCRIPTOR_SEQUENCE \<Rightarrow>
        if em_confs dev = [] then Returns (Leave True dev) else
        bindC (add_new_descriptor P ok (ef_descs (last (em_confs dev))) (rs_flag r)) (\<lambda>ds.
        case ds of
          None \<Rightarrow> Returns (Leave False (dev\<lparr>em_confs := map_last (ef_descs_update (\<lambda>_. [])) (em_confs dev)\<rparr>))
        | Some ds \<Rightarrow> Returns (Go_On (r\<lparr>rs_status := PARSE_DESCRIPTOR,
            rs_dev := dev\<lparr>em_confs := map_last (ef_descs_update (\<lambda>_. ds)) (em_confs dev)\<rparr>\<rparr>)))
     | _ \<Rightarrow> Returns (Go_On r))"

definition block_end :: "reader \<Rightarrow> reader" where
  "block_end r =
    (case rs_status r of
       PARSE_DESCRIPTOR \<Rightarrow> set_status PARSE_DESCRIPTOR_SEQUENCE r
     | PARSE_DESCRIPTOR_SEQUENCE \<Rightarrow> set_status PARSE_DESCRIPTORS_START r
     | PARSE_DESCRIPTORS_START \<Rightarrow> set_status PARSE_CONFIGURATION r
     | PARSE_CONFIGURATION \<Rightarrow> set_status PARSE_CONFIGURATION_SEQUENCE r
     | PARSE_CONFIGURATION_SEQUENCE \<Rightarrow> set_status PARSE_ENTITY r
     | PARSE_ENTITY \<Rightarrow> set_status PARSE_ENTITY_SEQUENCE r
     | PARSE_ENTITY_SEQUENCE \<Rightarrow> set_status PARSE_ENTITY_START r
     | PARSE_ENTITY_START \<Rightarrow> set_status PARSE_START r
     | _ \<Rightarrow> r)"

text \<open>
  The value is stored in the entity, the configuration or the descriptor that is being read, by
  the table of the flag. A status without a descriptor keeps the result of the value before it,
  which was not negative.
\<close>

definition scalar_value :: "entity_package \<Rightarrow> bool \<Rightarrow> u8 list \<Rightarrow> reader \<Rightarrow> reader_step c_result" where
  "scalar_value P ok value r =
    (let dev = rs_dev r;
         finish = (\<lambda>rc dev. Returns (if rc < 0 then Leave True dev else Go_On (r\<lparr>rs_dev := dev\<rparr>))) in
     case rs_status r of
       PARSE_ENTITY \<Rightarrow>
        bindC (yaml_to_descriptor P ok (rs_flag r) (em_entity dev) (rs_key r) value) (\<lambda>(rc, d).
        finish rc (dev\<lparr>em_entity := d\<rparr>))
     | PARSE_CONFIGURATION \<Rightarrow>
        if em_confs dev = [] then UB else
        bindC (yaml_to_descriptor P ok (rs_flag r) (ef_conf (last (em_confs dev))) (rs_key r) value) (\<lambda>(rc, d).
        finish rc (dev\<lparr>em_confs := map_last (ef_conf_update (\<lambda>_. d)) (em_confs dev)\<rparr>))
     | PARSE_DESCRIPTOR \<Rightarrow>
        if em_confs dev = [] \<or> ef_descs (last (em_confs dev)) = [] then UB else
        bindC (yaml_to_descriptor P ok (rs_flag r) (last (ef_descs (last (em_confs dev)))) (rs_key r) value) (\<lambda>(rc, d).
        finish rc (dev\<lparr>em_confs := map_last (ef_descs_update (map_last (\<lambda>_. d))) (em_confs dev)\<rparr>))
     | _ \<Rightarrow> Returns (Go_On r))"

definition scalar_key :: "entity_package \<Rightarrow> u8 list \<Rightarrow> reader \<Rightarrow> reader_step" where
  "scalar_key P key r =
    (let r = r\<lparr>rs_key := key\<rparr> in
     case rs_status r of
       PARSE_ENTITY_START \<Rightarrow>
        Go_On (if strcasecmp_eq key (ascii ''entity'') then set_status PARSE_ENTITY_FOUND r else r)
     | PARSE_ENTITY \<Rightarrow>
        Go_On (if strcasecmp_eq key (ascii ''configurations'') then set_status PARSE_CONFIGURATION_FOUND r else r)
     | PARSE_CONFIGURATION \<Rightarrow>
        Go_On (if strcasecmp_eq key (ascii ''descriptors'') then set_status PARSE_DESCRIPTORS_FOUND r else r)
     | PARSE_DESCRIPTORS_START \<Rightarrow>
        (case find (\<lambda>k. strcasecmp_eq key (fst (d_table k))) (ep_kinds P) of
           Some k \<Rightarrow> Go_On (r\<lparr>rs_flag := k, rs_status := PARSE_DESCRIPTOR_FOUND\<rparr>)
         | None \<Rightarrow> Leave False (rs_dev r))
     | _ \<Rightarrow> Go_On r)"

text \<open>
  A scalar is copied into an array of 1024 bytes. A longer one is written over its end, and one of
  exactly this length leaves no terminator for what is read next.
\<close>

definition TK_SIZE :: nat where "TK_SIZE = 1024"

definition read_step :: "entity_package \<Rightarrow> bool \<Rightarrow> yaml_token \<Rightarrow> reader \<Rightarrow> reader_step c_result" where
  "read_step P ok t r =
    (case t of
       STREAM_START_TOKEN \<Rightarrow> Returns (Go_On (set_status PARSE_START r))
     | STREAM_END_TOKEN \<Rightarrow> Returns (Leave False (rs_dev r))
     | BLOCK_SEQUENCE_START_TOKEN \<Rightarrow> Returns (Go_On (block_sequence_start r))
     | BLOCK_MAPPING_START_TOKEN \<Rightarrow> block_mapping_start P ok r
     | BLOCK_END_TOKEN \<Rightarrow> Returns (Go_On (block_end r))
     | KEY_TOKEN \<Rightarrow> Returns (Go_On (r\<lparr>rs_value := False\<rparr>))
     | VALUE_TOKEN \<Rightarrow> Returns (Go_On (r\<lparr>rs_value := True\<rparr>))
     | SCALAR_TOKEN bs \<Rightarrow>
        if TK_SIZE \<le> length bs then UB
        else let s = takeWhile (\<lambda>c. c \<noteq> 0) bs in
          if rs_value r then scalar_value P ok s r else Returns (scalar_key P s r)
     | _ \<Rightarrow> Returns (Go_On r))"

text \<open>Every token comes with the outcome of the allocation it may need; without tokens the loop goes on.\<close>

fun read_tokens :: "entity_package \<Rightarrow> (yaml_token \<times> bool) list \<Rightarrow> reader \<Rightarrow> (bool \<times> entity_mem) c_result" where
  "read_tokens P [] r = NoReturn"
| "read_tokens P ((t, ok) # ts) r =
    bindC (read_step P ok t r) (\<lambda>s. case s of Go_On r \<Rightarrow> read_tokens P ts r | Leave err dev \<Rightarrow> Returns (err, dev))"

definition reader_start :: "entity_package \<Rightarrow> reader" where
  "reader_start P = \<lparr> rs_status = PARSE_IDLE, rs_value = False, rs_flag = hd (ep_kinds P), rs_key = [],
     rs_dev = \<lparr> em_entity = desc_zero P, em_confs = [] \<rparr> \<rparr>"

text \<open>The name of the file, whether it can be opened, and whether the entity and the parser are set up.\<close>

definition read_device_entity ::
  "entity_package \<Rightarrow> u8 list option \<Rightarrow> bool \<Rightarrow> bool \<Rightarrow> bool \<Rightarrow> (yaml_token \<times> bool) list \<Rightarrow> entity_mem option c_result" where
  "read_device_entity P filename opened allocated initialised ts =
    (if filename = None \<or> \<not> opened \<or> \<not> allocated \<or> \<not> initialised then Returns None
     else bindC (read_tokens P ts (reader_start P)) (\<lambda>(err, dev). Returns (if err then None else Some dev)))"

text \<open>What is freed: the number of nodes. The arrays of the descriptors are not freed.\<close>

definition release_descriptor_data :: "desc_mem list \<Rightarrow> int \<times> nat" where
  "release_descriptor_data head = (if head = [] then (- 1, 0) else (0, length head))"

definition release_configuration_list :: "entity_conf list \<Rightarrow> int \<times> nat" where
  "release_configuration_list head = (if head = [] then (- 1, 0) else (0, length head))"

definition release_device_entity :: "entity_mem option \<Rightarrow> int \<times> nat" where
  "release_device_entity dev =
    (case dev of None \<Rightarrow> (- 1, 0)
     | Some dev \<Rightarrow> (0, sum_list (map (\<lambda>c. snd (release_descriptor_data (ef_descs c))) (em_confs dev)) +
         snd (release_configuration_list (em_confs dev)) + 1))"

section \<open>Numbering\<close>

definition is_support_descriptor_type :: "entity_package \<Rightarrow> nat \<Rightarrow> bool" where
  "is_support_descriptor_type P n =
    (case kind_of P n of None \<Rightarrow> False
     | Some k \<Rightarrow> k \<in> {KIND_AUDIO_UNIT, KIND_VIDEO_UNIT, KIND_STREAM_INPUT, KIND_STREAM_OUTPUT, KIND_JACK_INPUT,
         KIND_JACK_OUTPUT, KIND_AVB_INTERFACE, KIND_CLOCK_SOURCE, KIND_LOCALE, KIND_STRINGS, KIND_STREAM_PORT_INPUT,
         KIND_STREAM_PORT_OUTPUT, KIND_AUDIO_CLUSTER, KIND_VIDEO_CLUSTER, KIND_AUDIO_MAP, KIND_VIDEO_MAP,
         KIND_CLOCK_DOMAIN})"

text \<open>The member with the position of the array in the answer to a read, for the types that have one.\<close>

definition offset_member :: "descriptor_kind \<Rightarrow> string option" where
  "offset_member k = (case k of
      KIND_AUDIO_UNIT \<Rightarrow> Some ''sampling_rates_offset''
    | KIND_STREAM_INPUT \<Rightarrow> Some ''formats_offset''
    | KIND_STREAM_OUTPUT \<Rightarrow> Some ''formats_offset''
    | KIND_AUDIO_MAP \<Rightarrow> Some ''mappings_offset''
    | KIND_VIDEO_MAP \<Rightarrow> Some ''mappings_offset''
    | KIND_CLOCK_DOMAIN \<Rightarrow> Some ''clock_sources_offset''
    | _ \<Rightarrow> None)"

text \<open>The structure whose members the numbering of a type sets.\<close>

definition numbered_struct :: "descriptor_kind \<Rightarrow> entity_struct option" where
  "numbered_struct k = (case k of
      KIND_AUDIO_UNIT \<Rightarrow> Some S_Audio_Unit
    | KIND_VIDEO_UNIT \<Rightarrow> Some S_Video_Unit
    | KIND_STREAM_INPUT \<Rightarrow> Some S_Stream
    | KIND_STREAM_OUTPUT \<Rightarrow> Some S_Stream
    | KIND_JACK_INPUT \<Rightarrow> Some S_Jack
    | KIND_JACK_OUTPUT \<Rightarrow> Some S_Jack
    | KIND_AVB_INTERFACE \<Rightarrow> Some S_Avb_Interface
    | KIND_CLOCK_SOURCE \<Rightarrow> Some S_Clock_Source
    | KIND_LOCALE \<Rightarrow> Some S_Locale
    | KIND_STRINGS \<Rightarrow> Some S_Strings
    | KIND_STREAM_PORT_INPUT \<Rightarrow> Some S_Stream_Port
    | KIND_STREAM_PORT_OUTPUT \<Rightarrow> Some S_Stream_Port
    | KIND_AUDIO_CLUSTER \<Rightarrow> Some S_Audio_Cluster
    | KIND_VIDEO_CLUSTER \<Rightarrow> Some S_Video_Cluster
    | KIND_AUDIO_MAP \<Rightarrow> Some S_Audio_Map
    | KIND_VIDEO_MAP \<Rightarrow> Some S_Video_Map
    | KIND_CLOCK_DOMAIN \<Rightarrow> Some S_Clock_Domain
    | _ \<Rightarrow> None)"

text \<open>A type without a structure is not changed.\<close>

definition number_descriptor ::
  "entity_package \<Rightarrow> u8 list \<Rightarrow> descriptor_kind \<Rightarrow> nat \<Rightarrow> desc_mem \<Rightarrow> desc_mem c_result" where
  "number_descriptor P mac k idx d =
    (case numbered_struct k of None \<Rightarrow> Returns d
     | Some s \<Rightarrow>
        bindC (write_member P s ''descriptor_index'' (ucast (of_nat idx :: u16)) d) (\<lambda>d.
        if k = KIND_AVB_INTERFACE then store_bytes_at P s (ascii ''mac_address'') (take 6 mac) d
        else case offset_member k of None \<Rightarrow> Returns d
          | Some name \<Rightarrow> write_member P s name (ep_array_offset P s) d))"

text \<open>A stream of a configuration whose index is the current one is counted in the entity.\<close>

definition count_stream ::
  "entity_package \<Rightarrow> desc_mem \<Rightarrow> string \<Rightarrow> desc_mem \<Rightarrow> desc_mem c_result" where
  "count_stream P conf name entity =
    bindC (read_member P S_Configuration ''descriptor_index'' conf) (\<lambda>i.
    bindC (read_member P S_Entity ''current_configuration'' entity) (\<lambda>cur.
    if i \<noteq> cur then Returns entity else
    bindC (read_member P S_Entity name entity) (\<lambda>n. write_member P S_Entity name (n + 1) entity)))"

definition count_kind ::
  "entity_package \<Rightarrow> desc_mem \<Rightarrow> descriptor_kind \<Rightarrow> desc_mem \<Rightarrow> desc_mem c_result" where
  "count_kind P conf k entity =
    (if k = KIND_STREAM_INPUT then count_stream P conf ''listener_stream_sinks'' entity
     else if k = KIND_STREAM_OUTPUT then count_stream P conf ''talker_stream_sources'' entity
     else Returns entity)"

text \<open>\<open>nums\<close> has the number of descriptors of every type so far.\<close>

fun number_descriptors ::
  "entity_package \<Rightarrow> u8 list \<Rightarrow> desc_mem \<Rightarrow> desc_mem list \<Rightarrow> nat list \<Rightarrow> desc_mem \<Rightarrow>
    (desc_mem list \<times> nat list \<times> desc_mem) c_result" where
  "number_descriptors P mac conf [] nums entity = Returns ([], nums, entity)"
| "number_descriptors P mac conf (d # ds) nums entity =
    bindC (read_member P S_Entity ''descriptor_type'' d) (\<lambda>t.
    let n = unat (ucast t :: u16) in
    case kind_of P n of
      None \<Rightarrow> bindC (number_descriptors P mac conf ds nums entity) (\<lambda>(ds, r). Returns (d # ds, r))
    | Some k \<Rightarrow>
       if \<not> is_support_descriptor_type P n then
         bindC (number_descriptors P mac conf ds nums entity) (\<lambda>(ds, r). Returns (d # ds, r))
       else
         bindC (count_kind P conf k entity) (\<lambda>entity.
         bindC (number_descriptor P mac k (nums ! n) d) (\<lambda>d.
         bindC (number_descriptors P mac conf ds (nums[n := nums ! n + 1]) entity) (\<lambda>(ds, r). Returns (d # ds, r)))))"

text \<open>
  The list has an element for every descriptor whose 16 bit index is 0; those that are not
  needed, for a type with more than 65536 descriptors, stay zero.
\<close>

definition descriptor_counts_of :: "nat list \<Rightarrow> (u16 \<times> u16) list" where
  "descriptor_counts_of nums =
    (let counted = sum_list (map (\<lambda>n. length (filter (\<lambda>i. (of_nat i :: u16) = 0) [0..<n])) nums);
         counts = map (\<lambda>(i, n). (of_nat i, of_nat n)) (filter (\<lambda>(i, n). n \<noteq> 0) (enumerate 0 nums))
     in counts @ replicate (counted - length counts) (0, 0))"

text \<open>Every locale gets the number of strings, which is raised by every locale.\<close>

fun number_strings :: "entity_package \<Rightarrow> nat \<Rightarrow> desc_mem list \<Rightarrow> desc_mem list c_result" where
  "number_strings P n [] = Returns []"
| "number_strings P n (d # ds) =
    bindC (read_member P S_Entity ''descriptor_type'' d) (\<lambda>t.
    if t = of_nat (number_of P KIND_LOCALE) then
      bindC (write_member P S_Locale ''number_of_strings'' (of_nat n) d) (\<lambda>d.
      bindC (number_strings P (n + 1) ds) (\<lambda>ds. Returns (d # ds)))
    else bindC (number_strings P n ds) (\<lambda>ds. Returns (d # ds)))"

definition setup_configuration ::
  "entity_package \<Rightarrow> nat \<Rightarrow> (u16 \<times> u16) list \<Rightarrow> desc_mem \<Rightarrow> desc_mem c_result" where
  "setup_configuration P i counts d =
    bindC (write_member P S_Configuration ''descriptor_type'' (of_nat (number_of P KIND_CONFIGURATION)) d) (\<lambda>d.
    bindC (write_member P S_Configuration ''descriptor_counts_offset'' (ep_array_offset P S_Configuration) d) (\<lambda>d.
    bindC (write_member P S_Configuration ''descriptor_index'' (of_nat i) d) (\<lambda>d.
    bindC (write_member P S_Configuration ''descriptor_counts_count'' (of_nat (length counts)) d) (\<lambda>d.
    Returns (d\<lparr>dm_counts := counts\<rparr>)))))"

text \<open>Every configuration comes with the outcome of the allocation of its counts.\<close>

fun setup_configurations ::
  "entity_package \<Rightarrow> u8 list \<Rightarrow> nat \<Rightarrow> (entity_conf \<times> bool) list \<Rightarrow> desc_mem \<Rightarrow>
    (int \<times> entity_conf list \<times> desc_mem) c_result" where
  "setup_configurations P mac i [] entity = Returns (0, [], entity)"
| "setup_configurations P mac i ((c, ok) # cs) entity =
    bindC (number_descriptors P mac (ef_conf c) (ef_descs c) (replicate (length (ep_kinds P)) 0) entity)
      (\<lambda>(ds, nums, entity).
    if \<not> ok then Returns (- 1, c\<lparr>ef_descs := ds\<rparr> # map fst cs, entity) else
    bindC (setup_configuration P i (descriptor_counts_of nums) (ef_conf c)) (\<lambda>conf.
    bindC (number_strings P (nums ! number_of P KIND_STRINGS) ds) (\<lambda>ds.
    bindC (setup_configurations P mac (Suc i) cs entity) (\<lambda>(rc, cs, entity).
    Returns (rc, \<lparr> ef_conf = conf, ef_descs = ds \<rparr> # cs, entity)))))"

definition setup_descriptor_data ::
  "entity_package \<Rightarrow> (nat \<Rightarrow> bool) \<Rightarrow> entity_mem option \<Rightarrow> u8 list option \<Rightarrow> (int \<times> entity_mem option) c_result" where
  "setup_descriptor_data P ok dev mac =
    (case dev of None \<Rightarrow> Returns (- 1, None)
     | Some dev \<Rightarrow>
        (case mac of None \<Rightarrow> Returns (- 1, Some dev)
         | Some mac \<Rightarrow>
            bindC (write_member P S_Entity ''descriptor_type'' 0 (em_entity dev)) (\<lambda>entity.
            bindC (write_member P S_Entity ''descriptor_index'' 0 entity) (\<lambda>entity.
            bindC (setup_configurations P mac 0 (zip (em_confs dev) (map ok [0..<length (em_confs dev)])) entity)
              (\<lambda>(rc, cs, entity).
            if rc < 0 then Returns (- 1, Some \<lparr> em_entity = entity, em_confs = cs \<rparr>) else
            bindC (write_member P S_Entity ''configurations_count'' (of_nat (length cs)) entity) (\<lambda>entity.
            Returns (0, Some \<lparr> em_entity = entity, em_confs = cs \<rparr>)))))))"

end
