(* ===== verification/Avdecc_Entity_Props.thy ===== *)
theory Avdecc_Entity_Props
  imports Avdecc_Entity
begin

unbundle bit_operations_syntax

text \<open>
  Properties of the entity configuration: what a well formed file is read into, what a file with
  an error does, and how the descriptors are numbered.
\<close>

section \<open>Well formed files\<close>

type_synonym pairs = "(u8 list \<times> u8 list) list"

text \<open>
  An abstract file: the settings of the entity, and for each configuration its settings and its
  descriptors in groups of one type.
\<close>

record file_conf =
  fd_pairs :: pairs
  fd_groups :: "(descriptor_kind \<times> pairs list) list"

definition pair_tokens :: "pairs \<Rightarrow> yaml_token list" where
  "pair_tokens ps = concat (map (\<lambda>(k, v). [KEY_TOKEN, SCALAR_TOKEN k, VALUE_TOKEN, SCALAR_TOKEN v]) ps)"

definition desc_tokens :: "pairs \<Rightarrow> yaml_token list" where
  "desc_tokens ps = [BLOCK_ENTRY_TOKEN, BLOCK_MAPPING_START_TOKEN] @ pair_tokens ps @ [BLOCK_END_TOKEN]"

definition group_tokens :: "descriptor_kind \<times> pairs list \<Rightarrow> yaml_token list" where
  "group_tokens g = [KEY_TOKEN, SCALAR_TOKEN (fst (d_table (fst g))), VALUE_TOKEN, BLOCK_SEQUENCE_START_TOKEN] @
    concat (map desc_tokens (snd g)) @ [BLOCK_END_TOKEN]"

definition conf_tokens :: "file_conf \<Rightarrow> yaml_token list" where
  "conf_tokens c = [BLOCK_ENTRY_TOKEN, BLOCK_MAPPING_START_TOKEN] @ pair_tokens (fd_pairs c) @
    [KEY_TOKEN, SCALAR_TOKEN (ascii ''descriptors''), VALUE_TOKEN, BLOCK_MAPPING_START_TOKEN] @
    concat (map group_tokens (fd_groups c)) @ [BLOCK_END_TOKEN, BLOCK_END_TOKEN]"

definition file_tokens :: "pairs \<Rightarrow> file_conf list \<Rightarrow> yaml_token list" where
  "file_tokens ps cs =
    [STREAM_START_TOKEN, OTHER_TOKEN, BLOCK_MAPPING_START_TOKEN, KEY_TOKEN, SCALAR_TOKEN (ascii ''entity''), VALUE_TOKEN,
     BLOCK_SEQUENCE_START_TOKEN, BLOCK_ENTRY_TOKEN, BLOCK_MAPPING_START_TOKEN] @ pair_tokens ps @
    [KEY_TOKEN, SCALAR_TOKEN (ascii ''configurations''), VALUE_TOKEN, BLOCK_SEQUENCE_START_TOKEN] @
    concat (map conf_tokens cs) @ [BLOCK_END_TOKEN, BLOCK_END_TOKEN, BLOCK_END_TOKEN, BLOCK_END_TOKEN, STREAM_END_TOKEN]"

text \<open>What the file says, by storing each setting in turn.\<close>

fun fill :: "entity_package \<Rightarrow> descriptor_kind \<Rightarrow> pairs \<Rightarrow> desc_mem \<Rightarrow> desc_mem option" where
  "fill P k [] d = Some d"
| "fill P k ((key, v) # ps) d =
    (case yaml_to_descriptor P True k d key v of
       Returns (rc, d) \<Rightarrow> if rc < 0 then None else fill P k ps d
     | _ \<Rightarrow> None)"

definition new_desc :: "entity_package \<Rightarrow> descriptor_kind \<Rightarrow> desc_mem option" where
  "new_desc P k = (case add_new_descriptor P True [] k of Returns (Some [d]) \<Rightarrow> Some d | _ \<Rightarrow> None)"

definition build_desc :: "entity_package \<Rightarrow> descriptor_kind \<Rightarrow> pairs \<Rightarrow> desc_mem option" where
  "build_desc P k ps = Option.bind (new_desc P k) (fill P k ps)"

definition build_conf :: "entity_package \<Rightarrow> file_conf \<Rightarrow> entity_conf option" where
  "build_conf P c =
    (case (fill P KIND_CONFIGURATION (fd_pairs c) (desc_zero P),
        those (concat (map (\<lambda>(k, dss). map (build_desc P k) dss) (fd_groups c)))) of
       (Some d, Some ds) \<Rightarrow> Some \<lparr> ef_conf = d, ef_descs = ds \<rparr> | _ \<Rightarrow> None)"

definition build_entity :: "entity_package \<Rightarrow> pairs \<Rightarrow> file_conf list \<Rightarrow> entity_mem option" where
  "build_entity P ps cs =
    (case (fill P KIND_ENTITY ps (desc_zero P), those (map (build_conf P) cs)) of
       (Some e, Some cs) \<Rightarrow> Some \<lparr> em_entity = e, em_confs = cs \<rparr> | _ \<Rightarrow> None)"

definition short_scalar :: "u8 list \<Rightarrow> bool" where
  "short_scalar s \<longleftrightarrow> length s < TK_SIZE \<and> 0 \<notin> set s"

definition pairs_ok :: "string list \<Rightarrow> pairs \<Rightarrow> bool" where
  "pairs_ok words ps \<longleftrightarrow> (\<forall>(k, v)\<in>set ps. short_scalar k \<and> short_scalar v \<and>
    (\<forall>w\<in>set words. \<not> strcasecmp_eq k (ascii w)))"

definition conf_ok :: "file_conf \<Rightarrow> bool" where
  "conf_ok c \<longleftrightarrow> pairs_ok [''descriptors''] (fd_pairs c) \<and> (\<forall>(k, dss)\<in>set (fd_groups c). \<forall>ps\<in>set dss. pairs_ok [] ps)"

section \<open>Reading\<close>

abbreviation (input) granted :: "yaml_token list \<Rightarrow> (yaml_token \<times> bool) list" where
  "granted ts \<equiv> map (\<lambda>t. (t, True)) ts"

lemma read_tokens_Go:
  "read_step P ok t r = Returns (Go_On r') \<Longrightarrow> read_tokens P ((t, ok) # ts) r = read_tokens P ts r'"
  by simp

lemma scalar_short [simp]:
  "short_scalar s \<Longrightarrow> read_step P ok (SCALAR_TOKEN s) r =
    (if rs_value r then scalar_value P ok s r else Returns (scalar_key P s r))"
proof -
  assume "short_scalar s"
  then have e: "takeWhile (\<lambda>c. c \<noteq> 0) s = s" "length s < TK_SIZE" by (auto simp: short_scalar_def takeWhile_eq_all_conv)
  show ?thesis by (simp add: read_step_def e(1)) (use e(2) in simp)
qed

text \<open>The place where a setting is stored in each of the three states.\<close>

definition place :: "reader \<Rightarrow> desc_mem option" where
  "place r = (case rs_status r of
      PARSE_ENTITY \<Rightarrow> Some (em_entity (rs_dev r))
    | PARSE_CONFIGURATION \<Rightarrow> if em_confs (rs_dev r) = [] then None else Some (ef_conf (last (em_confs (rs_dev r))))
    | PARSE_DESCRIPTOR \<Rightarrow> if em_confs (rs_dev r) = [] \<or> ef_descs (last (em_confs (rs_dev r))) = [] then None
        else Some (last (ef_descs (last (em_confs (rs_dev r)))))
    | _ \<Rightarrow> None)"

definition put :: "desc_mem \<Rightarrow> reader \<Rightarrow> reader" where
  "put d r = (let dev = rs_dev r in r\<lparr>rs_dev := (case rs_status r of
      PARSE_ENTITY \<Rightarrow> dev\<lparr>em_entity := d\<rparr>
    | PARSE_CONFIGURATION \<Rightarrow> dev\<lparr>em_confs := map_last (ef_conf_update (\<lambda>_. d)) (em_confs dev)\<rparr>
    | PARSE_DESCRIPTOR \<Rightarrow> dev\<lparr>em_confs := map_last (ef_descs_update (map_last (\<lambda>_. d))) (em_confs dev)\<rparr>
    | _ \<Rightarrow> dev)\<rparr>)"

lemma scalar_value_place:
  assumes "place r = Some d" "yaml_to_descriptor P ok (rs_flag r) d (rs_key r) v = Returns (rc, d')" "0 \<le> rc"
  shows "scalar_value P ok v r = Returns (Go_On (put d' r))"
  using assms
  by (auto simp: scalar_value_def place_def put_def Let_def split: parse_status.splits if_splits)

lemma map_last_last [simp]: "xs \<noteq> [] \<Longrightarrow> last (map_last f xs) = f (last xs)"
  by (simp add: map_last_def)

lemma map_last_Nil [simp]: "map_last f xs = [] \<longleftrightarrow> xs = []"
  by (simp add: map_last_def)

lemma map_last_map_last: "map_last f (map_last g xs) = map_last (\<lambda>x. f (g x)) xs"
  by (simp add: map_last_def)

lemma map_last_snoc [simp]: "map_last f (xs @ [x]) = xs @ [f x]"
  by (simp add: map_last_def)

lemma map_last_same: "xs \<noteq> [] \<Longrightarrow> f (last xs) = last xs \<Longrightarrow> map_last f xs = xs"
  by (simp add: map_last_def)

lemma place_put: "place r = Some d0 \<Longrightarrow> place (put d r) = Some d"
  by (auto simp: place_def put_def Let_def split: parse_status.splits if_splits)

lemma put_put: "put d' (put d r) = put d' r"
proof -
  have "map_last (\<lambda>_. d') \<circ> map_last (\<lambda>_. d) = map_last (\<lambda>_. d')" by (rule ext) (simp add: map_last_map_last)
  then show ?thesis by (cases "rs_status r") (simp_all add: put_def Let_def map_last_map_last)
qed

lemma put_place: "place r = Some d \<Longrightarrow> put d r = r"
  by (cases "rs_status r")
    (auto simp: put_def place_def Let_def map_last_same split: if_splits)

lemma put_other [simp]:
  "rs_status (put d r) = rs_status r" "rs_flag (put d r) = rs_flag r"
  "put d (r\<lparr>rs_key := k\<rparr>) = (put d r)\<lparr>rs_key := k\<rparr>" "put d (r\<lparr>rs_value := v\<rparr>) = (put d r)\<lparr>rs_value := v\<rparr>"
  "place (r\<lparr>rs_key := k\<rparr>) = place r" "place (r\<lparr>rs_value := v\<rparr>) = place r"
  by (simp_all add: put_def place_def Let_def split: parse_status.splits)

definition status_words :: "parse_status \<Rightarrow> string list" where
  "status_words st = (case st of PARSE_ENTITY \<Rightarrow> [''configurations''] | PARSE_CONFIGURATION \<Rightarrow> [''descriptors''] | _ \<Rightarrow> [])"

lemma scalar_key_place:
  assumes "place r = Some d" "\<forall>w\<in>set (status_words (rs_status r)). \<not> strcasecmp_eq k (ascii w)"
  shows "scalar_key P k r = Go_On (r\<lparr>rs_key := k\<rparr>)"
  using assms by (auto simp: scalar_key_def place_def status_words_def Let_def split: parse_status.splits)

lemma pairs_read:
  assumes "place r = Some d" "pairs_ok (status_words (rs_status r)) ps" "fill P (rs_flag r) ps d = Some d'"
  shows "\<exists>k v. read_tokens P (granted (pair_tokens ps) @ ts) r = read_tokens P ts ((put d' r)\<lparr>rs_key := k, rs_value := v\<rparr>)"
  using assms
proof (induction ps arbitrary: r d)
  case Nil
  have "r = r\<lparr>rs_key := rs_key r, rs_value := rs_value r\<rparr>" by simp
  moreover have "put d' r = r" using Nil put_place by simp
  ultimately show ?case by (metis append_Nil concat.simps(1) list.simps(8) pair_tokens_def)
next
  case (Cons p ps)
  obtain key v where p: "p = (key, v)" by (cases p)
  have ok: "short_scalar key" "short_scalar v" "\<forall>w\<in>set (status_words (rs_status r)). \<not> strcasecmp_eq key (ascii w)"
    "pairs_ok (status_words (rs_status r)) ps"
    using Cons.prems(2) p by (auto simp: pairs_ok_def)
  obtain rc d1 where y: "yaml_to_descriptor P True (rs_flag r) d key v = Returns (rc, d1)" "0 \<le> rc"
    "fill P (rs_flag r) ps d1 = Some d'"
    using Cons.prems(3) p by (auto split: c_result.splits prod.splits if_splits)
  let ?r = "r\<lparr>rs_value := False, rs_key := key, rs_value := True\<rparr>"
  have sk: "scalar_key P key (r\<lparr>rs_value := False\<rparr>) = Go_On (r\<lparr>rs_value := False, rs_key := key\<rparr>)"
    using scalar_key_place [of "r\<lparr>rs_value := False\<rparr>" d key] Cons.prems(1) ok(3) by simp
  have sv: "scalar_value P True v ?r = Returns (Go_On (put d1 ?r))"
    using scalar_value_place [of ?r d P True v rc d1] Cons.prems(1) y(1,2) by simp
  have step: "read_tokens P (granted (pair_tokens (p # ps)) @ ts) r = read_tokens P (granted (pair_tokens ps) @ ts) (put d1 ?r)"
    using sk sv ok(1,2) by (simp add: pair_tokens_def p read_step_def [of _ _ KEY_TOKEN] read_step_def [of _ _ VALUE_TOKEN])
  have "place (put d1 ?r) = Some d1" using place_put Cons.prems(1) by simp
  then obtain k' v' where "read_tokens P (granted (pair_tokens ps) @ ts) (put d1 ?r) =
      read_tokens P ts ((put d' (put d1 ?r))\<lparr>rs_key := k', rs_value := v'\<rparr>)"
    using Cons.IH [of "put d1 ?r" d1] ok(4) y(3) by auto
  then show ?case using step by (auto simp: put_put)
qed

text \<open>The descriptors that are read are appended to those of the last configuration.\<close>

definition add_descs :: "desc_mem list \<Rightarrow> entity_mem \<Rightarrow> entity_mem" where
  "add_descs ds dev = dev\<lparr>em_confs := map_last (ef_descs_update (\<lambda>xs. xs @ ds)) (em_confs dev)\<rparr>"

lemma add_descs_simps [simp]:
  "em_confs dev \<noteq> [] \<Longrightarrow> add_descs [] dev = dev" "em_confs (add_descs ds dev) = [] \<longleftrightarrow> em_confs dev = []"
  "add_descs ds' (add_descs ds dev) = add_descs (ds @ ds') dev"
  by (simp_all add: add_descs_def map_last_map_last map_last_same comp_def)

lemma new_desc_Some:
  assumes "new_desc P k = Some d"
  shows "add_new_descriptor P True ds k = Returns (Some (ds @ [d]))"
  using assms
  by (auto simp: new_desc_def add_new_descriptor_def bindC_eq_Returns_iff split: c_result.splits option.splits list.splits)

lemma simple_steps [simp]:
  "read_step P ok BLOCK_ENTRY_TOKEN r = Returns (Go_On r)" "read_step P ok OTHER_TOKEN r = Returns (Go_On r)"
  "read_step P ok KEY_TOKEN r = Returns (Go_On (r\<lparr>rs_value := False\<rparr>))"
  "read_step P ok VALUE_TOKEN r = Returns (Go_On (r\<lparr>rs_value := True\<rparr>))"
  "read_step P ok BLOCK_END_TOKEN r = Returns (Go_On (block_end r))"
  "read_step P ok BLOCK_MAPPING_START_TOKEN r = block_mapping_start P ok r"
  "read_step P ok BLOCK_SEQUENCE_START_TOKEN r = Returns (Go_On (block_sequence_start r))"
  "read_step P ok STREAM_START_TOKEN r = Returns (Go_On (set_status PARSE_START r))"
  "read_step P ok STREAM_END_TOKEN r = Returns (Leave False (rs_dev r))"
  "read_step P ok NO_TOKEN r = Returns (Go_On r)"
  by (simp_all add: read_step_def)

lemma desc_read:
  assumes "rs_status r = PARSE_DESCRIPTOR_SEQUENCE" "em_confs (rs_dev r) \<noteq> []" "build_desc P (rs_flag r) ps = Some d"
    "pairs_ok [] ps"
  shows "\<exists>k v. read_tokens P (granted (desc_tokens ps) @ ts) r =
    read_tokens P ts (r\<lparr>rs_dev := add_descs [d] (rs_dev r), rs_key := k, rs_value := v\<rparr>)"
proof -
  obtain d0 where d0: "new_desc P (rs_flag r) = Some d0" "fill P (rs_flag r) ps d0 = Some d"
    using assms(3) by (auto simp: build_desc_def bind_eq_Some_conv)
  let ?r1 = "r\<lparr>rs_status := PARSE_DESCRIPTOR, rs_dev := add_descs [d0] (rs_dev r)\<rparr>"
  have cs: "map_last (ef_descs_update (\<lambda>_. ef_descs (last (em_confs (rs_dev r))) @ [d0])) (em_confs (rs_dev r)) =
      map_last (ef_descs_update (\<lambda>xs. xs @ [d0])) (em_confs (rs_dev r))"
    using assms(2) by (simp add: map_last_def)
  have m: "block_mapping_start P True r = Returns (Go_On ?r1)"
    using assms(1,2) new_desc_Some [OF d0(1)] cs
    by (simp add: block_mapping_start_def add_descs_def Let_def)
  have "place ?r1 = Some d0" using assms(2) by (simp add: place_def add_descs_def)
  then obtain k v where p: "read_tokens P (granted (pair_tokens ps) @ granted [BLOCK_END_TOKEN] @ ts) ?r1 =
      read_tokens P (granted [BLOCK_END_TOKEN] @ ts) ((put d ?r1)\<lparr>rs_key := k, rs_value := v\<rparr>)"
    using pairs_read [of ?r1 d0 ps P d "granted [BLOCK_END_TOKEN] @ ts"] assms(4) d0(2)
    by (auto simp: status_words_def simp del: list.map)
  have put: "put d ?r1 = r\<lparr>rs_status := PARSE_DESCRIPTOR, rs_dev := add_descs [d] (rs_dev r)\<rparr>"
  proof -
    have "map_last (\<lambda>_. d) \<circ> (\<lambda>xs. xs @ [d0]) = (\<lambda>xs. xs @ [d])" by (rule ext) simp
    then show ?thesis by (simp add: put_def add_descs_def map_last_map_last)
  qed
  have "block_end ((put d ?r1)\<lparr>rs_key := k, rs_value := v\<rparr>) =
      r\<lparr>rs_dev := add_descs [d] (rs_dev r), rs_key := k, rs_value := v\<rparr>"
    using assms(1) unfolding put by (cases r) (simp add: block_end_def set_status_def)
  then show ?thesis using m p by (auto simp: desc_tokens_def)
qed

lemma descs_read:
  assumes "rs_status r = PARSE_DESCRIPTOR_SEQUENCE" "em_confs (rs_dev r) \<noteq> []"
    "those (map (build_desc P (rs_flag r)) dss) = Some ds" "\<forall>ps\<in>set dss. pairs_ok [] ps"
  shows "\<exists>k v. read_tokens P (granted (concat (map desc_tokens dss)) @ ts) r =
    read_tokens P ts (r\<lparr>rs_dev := add_descs ds (rs_dev r), rs_key := k, rs_value := v\<rparr>)"
  using assms
proof (induction dss arbitrary: r ds)
  case Nil
  then have "r = r\<lparr>rs_dev := add_descs ds (rs_dev r), rs_key := rs_key r, rs_value := rs_value r\<rparr>" by simp
  then show ?case by (metis append_Nil concat.simps(1) list.simps(8))
next
  case (Cons ps dss)
  obtain d ds' where b: "build_desc P (rs_flag r) ps = Some d" "those (map (build_desc P (rs_flag r)) dss) = Some ds'"
    "ds = d # ds'"
    using Cons.prems(3) by (auto split: option.splits)
  obtain k v where one: "read_tokens P (granted (desc_tokens ps) @ granted (concat (map desc_tokens dss)) @ ts) r =
      read_tokens P (granted (concat (map desc_tokens dss)) @ ts)
        (r\<lparr>rs_dev := add_descs [d] (rs_dev r), rs_key := k, rs_value := v\<rparr>)"
    using desc_read [OF Cons.prems(1,2) b(1)] Cons.prems(4) by fastforce
  show ?case
    using one Cons.IH [of "r\<lparr>rs_dev := add_descs [d] (rs_dev r), rs_key := k, rs_value := v\<rparr>" ds'] Cons.prems b
    by auto
qed

text \<open>The type of a group is found by its name; every name is that of one type.\<close>

definition all_kinds :: "descriptor_kind list" where
  "all_kinds = [
    KIND_ENTITY , KIND_CONFIGURATION , KIND_AUDIO_UNIT , KIND_VIDEO_UNIT , KIND_SENSOR_UNIT ,
    KIND_STREAM_INPUT , KIND_STREAM_OUTPUT , KIND_JACK_INPUT , KIND_JACK_OUTPUT , KIND_AVB_INTERFACE ,
    KIND_CLOCK_SOURCE , KIND_MEMORY_OBJECT , KIND_LOCALE , KIND_STRINGS , KIND_STREAM_PORT_INPUT ,
    KIND_STREAM_PORT_OUTPUT , KIND_EXTERNAL_PORT_INPUT , KIND_EXTERNAL_PORT_OUTPUT ,
    KIND_INTERNAL_PORT_INPUT , KIND_INTERNAL_PORT_OUTPUT , KIND_AUDIO_CLUSTER , KIND_VIDEO_CLUSTER ,
    KIND_SENSOR_CLUSTER , KIND_AUDIO_MAP , KIND_VIDEO_MAP , KIND_SENSOR_MAP , KIND_CONTROL ,
    KIND_SIGNAL_SELECTOR , KIND_MIXER , KIND_MATRIX , KIND_MATRIX_SIGNAL , KIND_SIGNAL_SPLITTER ,
    KIND_SIGNAL_COMBINER , KIND_SIGNAL_DEMULTIPLEXER , KIND_SIGNAL_MULTIPLEXER , KIND_SIGNAL_TRANSCODER ,
    KIND_CLOCK_DOMAIN , KIND_CONTROL_BLOCK]"

lemma all_kinds_set: "set all_kinds = UNIV"
proof -
  have "k \<in> set all_kinds" for k by (cases k) (simp_all add: all_kinds_def)
  then show ?thesis by blast
qed

lemma name_lower: "map to_lower (fst (d_table k)) = fst (d_table k)"
  by (cases k) (simp_all add: d_table_def ascii_def to_lower_def)

lemma names_distinct: "distinct (map (\<lambda>k. fst (d_table k)) all_kinds)"
  by (simp add: all_kinds_def d_table_def ascii_eq_iff)

lemma d_table_names: "strcasecmp_eq (fst (d_table k)) (fst (d_table j)) \<longleftrightarrow> j = k"
proof -
  have "inj (\<lambda>k. fst (d_table k))" using names_distinct by (simp add: distinct_map all_kinds_set)
  from inj_eq [OF this, of k j] show ?thesis by (auto simp: strcasecmp_eq_def name_lower)
qed

lemma find_kind:
  assumes "k \<in> set ks"
  shows "find (\<lambda>j. strcasecmp_eq (fst (d_table k)) (fst (d_table j))) ks = Some k"
  using assms by (induction ks) (auto simp: d_table_names)

lemma short_names [simp]: "short_scalar (fst (d_table k))"
  by (cases k) (simp_all add: d_table_def short_scalar_def ascii_def TK_SIZE_def)

lemma group_read:
  assumes "rs_status r = PARSE_DESCRIPTORS_START" "em_confs (rs_dev r) \<noteq> []" "k \<in> set (ep_kinds P)"
    "those (map (build_desc P k) dss) = Some ds" "\<forall>ps\<in>set dss. pairs_ok [] ps"
  shows "\<exists>f key v. read_tokens P (granted (group_tokens (k, dss)) @ ts) r =
    read_tokens P ts (r\<lparr>rs_dev := add_descs ds (rs_dev r), rs_flag := f, rs_key := key, rs_value := v\<rparr>)"
proof -
  let ?r0 = "r\<lparr>rs_status := PARSE_DESCRIPTOR_SEQUENCE, rs_flag := k, rs_key := fst (d_table k), rs_value := True\<rparr>"
  have "read_tokens P (granted (group_tokens (k, dss)) @ ts) r =
      read_tokens P (granted (concat (map desc_tokens dss)) @ granted [BLOCK_END_TOKEN] @ ts) ?r0"
    using assms(1,3)
    by (cases r) (simp add: group_tokens_def scalar_key_def find_kind block_sequence_start_def set_status_def Let_def)
  moreover obtain key v where "read_tokens P (granted (concat (map desc_tokens dss)) @ granted [BLOCK_END_TOKEN] @ ts) ?r0 =
      read_tokens P (granted [BLOCK_END_TOKEN] @ ts)
        (?r0\<lparr>rs_dev := add_descs ds (rs_dev r), rs_key := key, rs_value := v\<rparr>)"
    using descs_read [of ?r0 P dss ds "granted [BLOCK_END_TOKEN] @ ts"] assms(2,4,5) by (auto simp del: list.map)
  moreover have "block_end (?r0\<lparr>rs_dev := add_descs ds (rs_dev r), rs_key := key, rs_value := v\<rparr>) =
      r\<lparr>rs_dev := add_descs ds (rs_dev r), rs_flag := k, rs_key := key, rs_value := v\<rparr>"
    using assms(1) by (cases r) (simp add: block_end_def set_status_def)
  ultimately show ?thesis by auto
qed

lemma groups_read:
  assumes "rs_status r = PARSE_DESCRIPTORS_START" "em_confs (rs_dev r) \<noteq> []" "set (ep_kinds P) = UNIV"
    "those (concat (map (\<lambda>(k, dss). map (build_desc P k) dss) gs)) = Some ds"
    "\<forall>(k, dss)\<in>set gs. \<forall>ps\<in>set dss. pairs_ok [] ps"
  shows "\<exists>f key v. read_tokens P (granted (concat (map group_tokens gs)) @ ts) r =
    read_tokens P ts (r\<lparr>rs_dev := add_descs ds (rs_dev r), rs_flag := f, rs_key := key, rs_value := v\<rparr>)"
  using assms
proof (induction gs arbitrary: r ds)
  case Nil
  then have "r = r\<lparr>rs_dev := add_descs ds (rs_dev r), rs_flag := rs_flag r, rs_key := rs_key r, rs_value := rs_value r\<rparr>"
    by simp
  then show ?case by (metis append_Nil concat.simps(1) list.simps(8))
next
  case (Cons g gs)
  obtain k dss where g: "g = (k, dss)" by (cases g)
  have those_append: "those (xs @ ys) = Some zs \<Longrightarrow> \<exists>a b. those xs = Some a \<and> those ys = Some b \<and> zs = a @ b"
    for xs ys :: "desc_mem option list" and zs
    by (induction xs arbitrary: zs) (auto split: option.splits)
  obtain ds1 ds2 where b: "those (map (build_desc P k) dss) = Some ds1"
    "those (concat (map (\<lambda>(k, dss). map (build_desc P k) dss) gs)) = Some ds2" "ds = ds1 @ ds2"
    using those_append Cons.prems(4) g by fastforce
  obtain f key v where one: "read_tokens P (granted (group_tokens g) @ granted (concat (map group_tokens gs)) @ ts) r =
      read_tokens P (granted (concat (map group_tokens gs)) @ ts)
        (r\<lparr>rs_dev := add_descs ds1 (rs_dev r), rs_flag := f, rs_key := key, rs_value := v\<rparr>)"
    using group_read [of r k P dss ds1] Cons.prems g b(1) by fastforce
  show ?case
    using one b Cons.prems
      Cons.IH [of "r\<lparr>rs_dev := add_descs ds1 (rs_dev r), rs_flag := f, rs_key := key, rs_value := v\<rparr>" ds2]
    by auto
qed

lemma conf_read:
  assumes "rs_status r = PARSE_CONFIGURATION_SEQUENCE" "set (ep_kinds P) = UNIV" "build_conf P c = Some c'" "conf_ok c"
  shows "\<exists>f key v. read_tokens P (granted (conf_tokens c) @ ts) r =
    read_tokens P ts (r\<lparr>rs_dev := (rs_dev r)\<lparr>em_confs := em_confs (rs_dev r) @ [c']\<rparr>, rs_flag := f, rs_key := key, rs_value := v\<rparr>)"
proof -
  obtain d ds where b: "fill P KIND_CONFIGURATION (fd_pairs c) (desc_zero P) = Some d"
    "those (concat (map (\<lambda>(k, dss). map (build_desc P k) dss) (fd_groups c))) = Some ds"
    "c' = \<lparr> ef_conf = d, ef_descs = ds \<rparr>"
    using assms(3) by (auto simp: build_conf_def split: option.splits)
  define dev where "dev = rs_dev r"
  define with_conf where "with_conf = (\<lambda>c. dev\<lparr>em_confs := em_confs dev @ [c]\<rparr>)"
  let ?r1 = "r\<lparr>rs_status := PARSE_CONFIGURATION, rs_flag := KIND_CONFIGURATION,
    rs_dev := with_conf \<lparr> ef_conf = desc_zero P, ef_descs = [] \<rparr>\<rparr>"
  let ?r2 = "r\<lparr>rs_status := PARSE_CONFIGURATION, rs_flag := KIND_CONFIGURATION,
    rs_dev := with_conf \<lparr> ef_conf = d, ef_descs = [] \<rparr>\<rparr>"
  let ?ts2 = "granted (concat (map group_tokens (fd_groups c))) @ granted [BLOCK_END_TOKEN, BLOCK_END_TOKEN] @ ts"
  let ?ts1 = "granted [KEY_TOKEN, SCALAR_TOKEN (ascii ''descriptors''), VALUE_TOKEN, BLOCK_MAPPING_START_TOKEN] @ ?ts2"
  have start: "read_tokens P (granted (conf_tokens c) @ ts) r = read_tokens P (granted (pair_tokens (fd_pairs c)) @ ?ts1) ?r1"
    using assms(1)
    by (simp add: conf_tokens_def block_mapping_start_def add_new_configuration_def with_conf_def dev_def Let_def)
  have "place ?r1 = Some (desc_zero P)" by (simp add: place_def with_conf_def)
  then obtain key v where "read_tokens P (granted (pair_tokens (fd_pairs c)) @ ?ts1) ?r1 =
      read_tokens P ?ts1 ((put d ?r1)\<lparr>rs_key := key, rs_value := v\<rparr>)"
    using pairs_read [of ?r1 "desc_zero P" "fd_pairs c" P d ?ts1] assms(4) b(1)
    by (auto simp: status_words_def conf_ok_def simp del: list.map)
  moreover have "put d ?r1 = ?r2" by (simp add: put_def with_conf_def)
  moreover have short: "short_scalar (ascii ''descriptors'')" by (simp add: short_scalar_def ascii_def TK_SIZE_def)
  have "strcasecmp_eq (ascii ''descriptors'') (ascii ''descriptors'')" by (simp add: strcasecmp_eq_def)
  then have "read_tokens P ?ts1 (?r2\<lparr>rs_key := key, rs_value := v\<rparr>) =
      read_tokens P ?ts2 (?r2\<lparr>rs_status := PARSE_DESCRIPTORS_START, rs_key := ascii ''descriptors'', rs_value := True\<rparr>)"
    using short by (cases r) (simp add: scalar_key_def set_status_def block_mapping_start_def)
  moreover obtain f key' v' where "read_tokens P ?ts2
        (?r2\<lparr>rs_status := PARSE_DESCRIPTORS_START, rs_key := ascii ''descriptors'', rs_value := True\<rparr>) =
      read_tokens P (granted [BLOCK_END_TOKEN, BLOCK_END_TOKEN] @ ts)
        (?r2\<lparr>rs_status := PARSE_DESCRIPTORS_START, rs_dev := add_descs ds (with_conf \<lparr> ef_conf = d, ef_descs = [] \<rparr>),
          rs_flag := f, rs_key := key', rs_value := v'\<rparr>)"
    using groups_read [of "?r2\<lparr>rs_status := PARSE_DESCRIPTORS_START, rs_key := ascii ''descriptors'', rs_value := True\<rparr>"
      P "fd_groups c" ds "granted [BLOCK_END_TOKEN, BLOCK_END_TOKEN] @ ts"] assms(2,4) b(2)
    by (auto simp: conf_ok_def with_conf_def simp del: list.map)
  moreover have "add_descs ds (with_conf \<lparr> ef_conf = d, ef_descs = [] \<rparr>) = with_conf c'"
    by (simp add: add_descs_def with_conf_def b(3))
  ultimately show ?thesis
    using start assms(1) by (cases r) (auto simp: block_end_def set_status_def with_conf_def dev_def)
qed

lemma confs_read:
  assumes "rs_status r = PARSE_CONFIGURATION_SEQUENCE" "set (ep_kinds P) = UNIV" "those (map (build_conf P) cs) = Some cs'"
    "\<forall>c\<in>set cs. conf_ok c"
  shows "\<exists>f key v. read_tokens P (granted (concat (map conf_tokens cs)) @ ts) r =
    read_tokens P ts (r\<lparr>rs_dev := (rs_dev r)\<lparr>em_confs := em_confs (rs_dev r) @ cs'\<rparr>, rs_flag := f, rs_key := key, rs_value := v\<rparr>)"
  using assms
proof (induction cs arbitrary: r cs')
  case Nil
  then have "r = r\<lparr>rs_dev := (rs_dev r)\<lparr>em_confs := em_confs (rs_dev r) @ cs'\<rparr>, rs_flag := rs_flag r, rs_key := rs_key r,
    rs_value := rs_value r\<rparr>" by simp
  then show ?case by (metis append_Nil concat.simps(1) list.simps(8))
next
  case (Cons c cs)
  obtain c' cs2 where b: "build_conf P c = Some c'" "those (map (build_conf P) cs) = Some cs2" "cs' = c' # cs2"
    using Cons.prems(3) by (auto split: option.splits)
  obtain f key v where one: "read_tokens P (granted (conf_tokens c) @ granted (concat (map conf_tokens cs)) @ ts) r =
      read_tokens P (granted (concat (map conf_tokens cs)) @ ts)
        (r\<lparr>rs_dev := (rs_dev r)\<lparr>em_confs := em_confs (rs_dev r) @ [c']\<rparr>, rs_flag := f, rs_key := key, rs_value := v\<rparr>)"
    using conf_read [OF Cons.prems(1,2) b(1)] Cons.prems(4) by fastforce
  show ?case
    using one b Cons.prems Cons.IH [of "r\<lparr>rs_dev := (rs_dev r)\<lparr>em_confs := em_confs (rs_dev r) @ [c']\<rparr>, rs_flag := f,
      rs_key := key, rs_value := v\<rparr>" cs2]
    by auto
qed

text \<open>
  C10: Reading a well formed file gives exactly the entity the file describes: its settings, its
  configurations in order, and in each of them the descriptors of its groups in order, every one
  with exactly its own settings stored.
\<close>
theorem well_formed_file_is_read:
  assumes "set (ep_kinds P) = UNIV" "pairs_ok [''configurations''] ps" "\<forall>c\<in>set cs. conf_ok c"
    "build_entity P ps cs = Some dev"
  shows "read_device_entity P (Some name) True True True (map (\<lambda>t. (t, True)) (file_tokens ps cs)) = Returns (Some dev)"
proof -
  obtain e cs' where b: "fill P KIND_ENTITY ps (desc_zero P) = Some e" "those (map (build_conf P) cs) = Some cs'"
    "dev = \<lparr> em_entity = e, em_confs = cs' \<rparr>"
    using assms(4) by (auto simp: build_entity_def split: option.splits)
  let ?at = "\<lambda>st f dev key v. \<lparr> rs_status = st, rs_value = v, rs_flag = f, rs_key = key, rs_dev = dev \<rparr>"
  let ?ts3 = "granted [BLOCK_END_TOKEN, BLOCK_END_TOKEN, BLOCK_END_TOKEN, BLOCK_END_TOKEN, STREAM_END_TOKEN]"
  let ?ts2 = "granted (concat (map conf_tokens cs)) @ ?ts3"
  let ?ts1 = "granted [KEY_TOKEN, SCALAR_TOKEN (ascii ''configurations''), VALUE_TOKEN, BLOCK_SEQUENCE_START_TOKEN] @ ?ts2"
  let ?r1 = "?at PARSE_ENTITY KIND_ENTITY \<lparr> em_entity = desc_zero P, em_confs = [] \<rparr> (ascii ''entity'') True"
  have short: "short_scalar (ascii ''entity'')" "short_scalar (ascii ''configurations'')"
    by (simp_all add: short_scalar_def ascii_def TK_SIZE_def)
  have same: "strcasecmp_eq w w" for w by (simp add: strcasecmp_eq_def)
  have "read_tokens P (granted (file_tokens ps cs)) (reader_start P) = read_tokens P (granted (pair_tokens ps) @ ?ts1) ?r1"
    using short same by (simp add: file_tokens_def reader_start_def set_status_def block_mapping_start_def scalar_key_def
      block_sequence_start_def Let_def)
  moreover obtain key v where "read_tokens P (granted (pair_tokens ps) @ ?ts1) ?r1 =
      read_tokens P ?ts1 (?at PARSE_ENTITY KIND_ENTITY \<lparr> em_entity = e, em_confs = [] \<rparr> key v)"
    using pairs_read [of ?r1 "desc_zero P" ps P e ?ts1] assms(2) b(1)
    by (auto simp: status_words_def place_def put_def simp del: list.map)
  moreover have "read_tokens P ?ts1 (?at PARSE_ENTITY KIND_ENTITY \<lparr> em_entity = e, em_confs = [] \<rparr> key v) =
      read_tokens P ?ts2 (?at PARSE_CONFIGURATION_SEQUENCE KIND_CONFIGURATION \<lparr> em_entity = e, em_confs = [] \<rparr>
        (ascii ''configurations'') True)"
    using short same by (simp add: scalar_key_def set_status_def block_sequence_start_def Let_def)
  moreover obtain f key' v' where "read_tokens P ?ts2 (?at PARSE_CONFIGURATION_SEQUENCE KIND_CONFIGURATION
        \<lparr> em_entity = e, em_confs = [] \<rparr> (ascii ''configurations'') True) =
      read_tokens P ?ts3 (?at PARSE_CONFIGURATION_SEQUENCE f dev key' v')"
    using confs_read [of "?at PARSE_CONFIGURATION_SEQUENCE KIND_CONFIGURATION \<lparr> em_entity = e, em_confs = [] \<rparr>
        (ascii ''configurations'') True" P cs cs' ?ts3] assms(1,3) b(2,3)
    by (auto simp del: list.map)
  moreover have "read_tokens P ?ts3 (?at PARSE_CONFIGURATION_SEQUENCE f dev key' v') = Returns (False, dev)"
    by (simp add: block_end_def set_status_def)
  ultimately show ?thesis by (simp add: read_device_entity_def)
qed

section \<open>Errors\<close>

text \<open>The state after a list of tokens none of which ends the loop.\<close>

fun feed :: "entity_package \<Rightarrow> (yaml_token \<times> bool) list \<Rightarrow> reader \<Rightarrow> reader option" where
  "feed P [] r = Some r"
| "feed P ((t, ok) # ts) r = (case read_step P ok t r of Returns (Go_On r) \<Rightarrow> feed P ts r | _ \<Rightarrow> None)"

lemma feed_read: "feed P ts r = Some r' \<Longrightarrow> read_tokens P (ts @ ts') r = read_tokens P ts' r'"
  by (induction P ts r rule: feed.induct) (auto split: c_result.splits reader_step.splits)

lemma no_tokens: "read_tokens P (replicate n (NO_TOKEN, ok)) r = NoReturn"
  by (induction n) auto

text \<open>
  C12: A file with a syntax error is read for ever: when the YAML library meets the error before
  the loop has ended, it returns an empty token again and again, and the reader never returns,
  whatever was read before and for every number of further tokens.
\<close>
theorem malformed_file_is_read_for_ever:
  assumes "feed P ts (reader_start P) = Some r"
  shows "read_device_entity P (Some name) True True True (ts @ replicate n (NO_TOKEN, ok)) = NoReturn"
  using feed_read [OF assms] no_tokens by (simp add: read_device_entity_def)

section \<open>Numbering\<close>

text \<open>
  What the numbering needs of the structures: each starts with the type and the index of the
  descriptor in two bytes each, as IEEE 1722.1 has it, and all members lie inside the union.
\<close>

definition layout_ok :: "entity_package \<Rightarrow> bool" where
  "layout_ok P \<longleftrightarrow> set (ep_kinds P) = UNIV \<and>
    (\<forall>s. ep_offset P s (ascii ''descriptor_type'') = 0 \<and> ep_width P s (ascii ''descriptor_type'') = 2 \<and>
      ep_offset P s (ascii ''descriptor_index'') = 2 \<and> ep_width P s (ascii ''descriptor_index'') = 2) \<and>
    (\<forall>s m. m \<noteq> ascii ''descriptor_type'' \<and> m \<noteq> ascii ''descriptor_index'' \<longrightarrow> 4 \<le> ep_offset P s m) \<and>
    (\<forall>s m. ep_offset P s m + max 6 (ep_width P s m) \<le> ep_union_size P)"

definition sized :: "entity_package \<Rightarrow> desc_mem \<Rightarrow> bool" where
  "sized P d \<longleftrightarrow> length (dm_union d) = ep_union_size P"

definition head_of :: "desc_mem \<Rightarrow> u8 list" where
  "head_of d = take 4 (dm_union d)"

definition desc_type :: "entity_package \<Rightarrow> desc_mem \<Rightarrow> nat" where
  "desc_type P d = unat (ucast (host_word (ep_endian P) (take 2 (head_of d)) :: u64) :: u16)"

definition desc_index :: "entity_package \<Rightarrow> desc_mem \<Rightarrow> nat" where
  "desc_index P d = unat (host_word (ep_endian P) (drop 2 (head_of d)) :: u64)"

definition type_count :: "entity_package \<Rightarrow> desc_mem list \<Rightarrow> nat \<Rightarrow> nat" where
  "type_count P ds n = (if is_support_descriptor_type P n then length (filter (\<lambda>d. desc_type P d = n) ds) else 0)"

lemma store_other:
  assumes "layout_ok P" "sized P d" "name \<noteq> ascii ''descriptor_type''" "name \<noteq> ascii ''descriptor_index''"
    "length bs \<le> max 6 (ep_width P s name)"
  shows "\<exists>d'. store_bytes_at P s name bs d = Returns d' \<and> sized P d' \<and> head_of d' = head_of d \<and> dm_counts d' = dm_counts d"
proof -
  have o: "4 \<le> ep_offset P s name" "ep_offset P s name + length bs \<le> length (dm_union d)"
    using assms by (auto simp: layout_ok_def sized_def) (metis add_le_cancel_left dual_order.trans)
  then show ?thesis
    using assms(2) by (auto simp: store_bytes_at_def wrn_def sized_def head_of_def)
qed

lemma host_word_bytes: "host_word E (host_bytes E n w) = take_bit (8 * n) w"
  by (cases E) (simp_all add: host_word_def host_bytes_def le_word_le_bytes be_word_be_bytes)

lemma layout_inside: "layout_ok P \<Longrightarrow> ep_offset P s m + max 6 (ep_width P s m) \<le> ep_union_size P"
  by (simp add: layout_ok_def)

lemma read_inside:
  assumes "layout_ok P" "sized P d"
  shows "\<exists>v. read_member P s name d = Returns v"
  using layout_inside [OF assms(1), of s "ascii name"] assms(2) by (simp add: read_member_def rdn_def sized_def)

lemma write_other:
  assumes "layout_ok P" "sized P d" "name \<noteq> ''descriptor_type''" "name \<noteq> ''descriptor_index''"
  shows "\<exists>d'. write_member P s name v d = Returns d' \<and> sized P d' \<and> head_of d' = head_of d \<and> dm_counts d' = dm_counts d"
proof -
  have "ascii name \<noteq> ascii ''descriptor_type''" "ascii name \<noteq> ascii ''descriptor_index''"
    using assms(3,4) by (simp_all add: ascii_eq_iff)
  then show ?thesis using store_other assms(1,2) by (simp add: write_member_def)
qed

text \<open>The type as it is read, and the two members of the head after they are written.\<close>

lemma read_type:
  assumes "layout_ok P" "sized P d"
  shows "read_member P s ''descriptor_type'' d = Returns (host_word (ep_endian P) (take 2 (head_of d)))"
  using assms layout_inside [OF assms(1), of s "ascii ''descriptor_type''"]
  by (auto simp: read_member_def rdn_def layout_ok_def sized_def head_of_def)

lemma write_head:
  assumes "layout_ok P" "sized P d"
  shows "\<exists>d'. write_member P s ''descriptor_index'' v d = Returns d' \<and> sized P d' \<and> dm_counts d' = dm_counts d \<and>
      head_of d' = take 2 (head_of d) @ host_bytes (ep_endian P) 2 v"
    "\<exists>d'. write_member P s ''descriptor_type'' v d = Returns d' \<and> sized P d' \<and> dm_counts d' = dm_counts d \<and>
      head_of d' = host_bytes (ep_endian P) 2 v @ drop 2 (head_of d)"
proof -
  have "4 \<le> length (dm_union d)"
    using assms layout_inside [OF assms(1), of s "ascii ''descriptor_index''"] by (simp add: layout_ok_def sized_def)
  then have u: "wrn 2 bs (dm_union d) = Some (take 2 (dm_union d) @ bs @ drop 4 (dm_union d))"
    "wrn 0 bs (dm_union d) = Some (bs @ drop 2 (dm_union d))" if "length bs = 2" for bs
    using that by (simp_all add: wrn_def) (simp add: numeral_2_eq_2)
  have o: "ep_offset P s (ascii ''descriptor_type'') = 0" "ep_width P s (ascii ''descriptor_type'') = 2"
    "ep_offset P s (ascii ''descriptor_index'') = 2" "ep_width P s (ascii ''descriptor_index'') = 2"
    using assms(1) by (simp_all add: layout_ok_def)
  note l = \<open>4 \<le> length (dm_union d)\<close>
  show "\<exists>d'. write_member P s ''descriptor_index'' v d = Returns d' \<and> sized P d' \<and> dm_counts d' = dm_counts d \<and>
      head_of d' = take 2 (head_of d) @ host_bytes (ep_endian P) 2 v"
    using l assms(2) by (simp add: write_member_def store_bytes_at_def o u sized_def head_of_def min_def)
  show "\<exists>d'. write_member P s ''descriptor_type'' v d = Returns d' \<and> sized P d' \<and> dm_counts d' = dm_counts d \<and>
      head_of d' = host_bytes (ep_endian P) 2 v @ drop 2 (head_of d)"
    using l assms(2) by (simp add: write_member_def store_bytes_at_def o u sized_def head_of_def drop_take)
qed

lemma head_values:
  assumes "length (head_of d) = 4"
  shows "head_of d' = take 2 (head_of d) @ host_bytes (ep_endian P) 2 (v :: u64) \<Longrightarrow>
    desc_type P d' = desc_type P d \<and> desc_index P d' = unat (take_bit 16 v)"
  using assms by (simp add: desc_type_def desc_index_def host_word_bytes)

lemma head_of_length: "layout_ok P \<Longrightarrow> sized P d \<Longrightarrow> length (head_of d) = 4"
  using layout_inside [of P S_Entity "ascii ''descriptor_index''"] by (simp add: layout_ok_def sized_def head_of_def)

text \<open>Numbering one descriptor sets its index and keeps its type.\<close>

lemma number_descriptor_result:
  assumes "layout_ok P" "sized P d" "numbered_struct k \<noteq> None"
  shows "\<exists>d'. number_descriptor P mac k idx d = Returns d' \<and> sized P d' \<and>
    desc_type P d' = desc_type P d \<and> desc_index P d' = idx mod 2 ^ 16"
proof -
  obtain s where s: "numbered_struct k = Some s" using assms(3) by fast
  obtain d1 where d1: "write_member P s ''descriptor_index'' (ucast (of_nat idx :: u16)) d = Returns d1" "sized P d1"
    "head_of d1 = take 2 (head_of d) @ host_bytes (ep_endian P) 2 (ucast (of_nat idx :: u16) :: u64)"
    using write_head(1) [OF assms(1,2)] by blast
  have v: "unat (take_bit 16 (ucast (of_nat idx :: u16) :: u64)) = idx mod 2 ^ 16"
    by (simp add: take_bit_eq_mod unat_mod unat_of_nat unsigned_ucast_eq)
  have h: "desc_type P d1 = desc_type P d" "desc_index P d1 = idx mod 2 ^ 16"
    using head_values [OF head_of_length [OF assms(1,2)] d1(3)] v by simp_all
  have keeps: "desc_type P d2 = desc_type P d1 \<and> desc_index P d2 = desc_index P d1" if "head_of d2 = head_of d1" for d2
    using that by (simp add: desc_type_def desc_index_def)
  have "ascii ''mac_address'' \<noteq> ascii ''descriptor_type''" "ascii ''mac_address'' \<noteq> ascii ''descriptor_index''"
    by (simp_all add: ascii_def)
  then obtain d2 where mac: "store_bytes_at P s (ascii ''mac_address'') (take 6 mac) d1 = Returns d2" "sized P d2"
    "head_of d2 = head_of d1"
    using store_other [OF assms(1) d1(2), of "ascii ''mac_address''" "take 6 mac" s] by (auto simp: le_max_iff_disj)
  have off: "\<exists>d2. write_member P s name v d1 = Returns d2 \<and> sized P d2 \<and> head_of d2 = head_of d1"
    if "offset_member k = Some name" for name v
    using that write_other [OF assms(1) d1(2), of name s v]
    by (auto simp: offset_member_def split: descriptor_kind.splits)
  show ?thesis
  proof (cases "k = KIND_AVB_INTERFACE")
    case True
    then show ?thesis using s d1 h keeps [OF mac(3)] mac by (simp add: number_descriptor_def)
  next
    case False
    show ?thesis
    proof (cases "offset_member k")
      case None
      then show ?thesis using False s d1 h by (simp add: number_descriptor_def)
    next
      case (Some name)
      obtain d3 where "write_member P s name (ep_array_offset P s) d1 = Returns d3" "sized P d3" "head_of d3 = head_of d1"
        using off [OF Some] by blast
      then show ?thesis using False Some s d1 h keeps [of d3] by (simp add: number_descriptor_def)
    qed
  qed
qed

lemma supported_kind:
  assumes "is_support_descriptor_type P n"
  shows "\<exists>k. kind_of P n = Some k \<and> numbered_struct k \<noteq> None \<and> n < length (ep_kinds P)"
  using assms by (auto simp: is_support_descriptor_type_def kind_of_def numbered_struct_def split: if_splits)

lemma count_kind_returns:
  assumes "layout_ok P" "sized P conf" "sized P e"
  shows "\<exists>e'. count_kind P conf k e = Returns e' \<and> sized P e'"
proof -
  have "\<exists>e'. count_stream P conf name e = Returns e' \<and> sized P e'"
    if name: "name \<noteq> ''descriptor_type''" "name \<noteq> ''descriptor_index''" for name
  proof -
    obtain i cur n where "read_member P S_Configuration ''descriptor_index'' conf = Returns i"
      "read_member P S_Entity ''current_configuration'' e = Returns cur" "read_member P S_Entity name e = Returns n"
      using read_inside [OF assms(1)] assms(2,3) by meson
    moreover obtain e' where "write_member P S_Entity name (n + 1) e = Returns e'" "sized P e'"
      using write_other [OF assms(1,3) name] by blast
    ultimately show ?thesis using assms(3) by (simp add: count_stream_def)
  qed
  then show ?thesis using assms(3) by (simp add: count_kind_def)
qed

lemma number_descriptors_result:
  assumes "layout_ok P" "sized P conf" "sized P e" "\<forall>d\<in>set ds. sized P d" "length nums = length (ep_kinds P)"
  shows "\<exists>ds' nums' e'. number_descriptors P mac conf ds nums e = Returns (ds', nums', e') \<and> sized P e' \<and>
    (\<forall>d\<in>set ds'. sized P d) \<and> map (desc_type P) ds' = map (desc_type P) ds \<and> length nums' = length nums \<and>
    (\<forall>n<length nums. nums' ! n = nums ! n + type_count P ds n) \<and>
    (\<forall>j<length ds. is_support_descriptor_type P (desc_type P (ds ! j)) \<longrightarrow> desc_index P (ds' ! j) =
      (nums ! desc_type P (ds ! j) + type_count P (take j ds) (desc_type P (ds ! j))) mod 2 ^ 16)"
  using assms(3-5)
proof (induction ds arbitrary: nums e)
  case Nil
  then show ?case by (simp add: type_count_def)
next
  case (Cons d ds)
  let ?n = "desc_type P d"
  have sd: "sized P d" "\<forall>d\<in>set ds. sized P d" using Cons.prems(2) by auto
  note t = read_type [OF assms(1) sd(1), of S_Entity, folded desc_type_def]
  have n: "unat (ucast (host_word (ep_endian P) (take 2 (head_of d)) :: u64) :: u16) = ?n" by (simp add: desc_type_def)
  show ?case
  proof (cases "is_support_descriptor_type P ?n")
    case True
    then obtain k where k: "kind_of P ?n = Some k" "numbered_struct k \<noteq> None" "?n < length nums"
      using supported_kind Cons.prems(3) by metis
    obtain e1 where e1: "count_kind P conf k e = Returns e1" "sized P e1"
      using count_kind_returns [OF assms(1,2) Cons.prems(1)] by blast
    obtain d1 where d1: "number_descriptor P mac k (nums ! ?n) d = Returns d1" "sized P d1" "desc_type P d1 = ?n"
      "desc_index P d1 = (nums ! ?n) mod 2 ^ 16"
      using number_descriptor_result [OF assms(1) sd(1) k(2)] by metis
    have "length (nums[?n := nums ! ?n + 1]) = length (ep_kinds P)" using Cons.prems(3) by simp
    from Cons.IH [OF e1(2) sd(2) this] obtain ds' nums' e' where
      r: "number_descriptors P mac conf ds (nums[?n := nums ! ?n + 1]) e1 = Returns (ds', nums', e')" "sized P e'"
        "\<forall>d\<in>set ds'. sized P d" "map (desc_type P) ds' = map (desc_type P) ds" "length nums' = length nums" and
      c: "\<forall>m<length nums. nums' ! m = nums[?n := nums ! ?n + 1] ! m + type_count P ds m" and
      x: "\<forall>j<length ds. is_support_descriptor_type P (desc_type P (ds ! j)) \<longrightarrow> desc_index P (ds' ! j) =
        (nums[?n := nums ! ?n + 1] ! desc_type P (ds ! j) + type_count P (take j ds) (desc_type P (ds ! j))) mod 2 ^ 16"
      by (elim exE conjE) (rule that, simp_all)
    have "number_descriptors P mac conf (d # ds) nums e = Returns (d1 # ds', nums', e')"
      using t n k(1) True e1(1) d1(1) r(1) by simp
    moreover have "\<forall>m<length nums. nums' ! m = nums ! m + type_count P (d # ds) m"
      using c k(3) True by (auto simp: type_count_def nth_list_update)
    moreover have "\<forall>j<length (d # ds). is_support_descriptor_type P (desc_type P ((d # ds) ! j)) \<longrightarrow>
      desc_index P ((d1 # ds') ! j) = (nums ! desc_type P ((d # ds) ! j) +
        type_count P (take j (d # ds)) (desc_type P ((d # ds) ! j))) mod 2 ^ 16"
    proof (intro allI impI)
      fix j
      assume j: "j < length (d # ds)" "is_support_descriptor_type P (desc_type P ((d # ds) ! j))"
      show "desc_index P ((d1 # ds') ! j) = (nums ! desc_type P ((d # ds) ! j) +
        type_count P (take j (d # ds)) (desc_type P ((d # ds) ! j))) mod 2 ^ 16"
        using j x k(3) d1(4) by (cases j) (auto simp: type_count_def nth_list_update)
    qed
    ultimately show ?thesis using r d1 by (intro exI conjI) auto
  next
    case False
    obtain ds' nums' e' where r: "number_descriptors P mac conf ds nums e = Returns (ds', nums', e')" "sized P e'"
      "\<forall>d\<in>set ds'. sized P d" "map (desc_type P) ds' = map (desc_type P) ds" "length nums' = length nums"
      "\<forall>m<length nums. nums' ! m = nums ! m + type_count P ds m"
      "\<forall>j<length ds. is_support_descriptor_type P (desc_type P (ds ! j)) \<longrightarrow> desc_index P (ds' ! j) =
        (nums ! desc_type P (ds ! j) + type_count P (take j ds) (desc_type P (ds ! j))) mod 2 ^ 16"
      using Cons.IH [OF Cons.prems(1) sd(2) Cons.prems(3)] by metis
    have "number_descriptors P mac conf (d # ds) nums e = Returns (d # ds', nums', e')"
      using t n False r(1) by (auto simp: Let_def split: option.splits)
    moreover have "\<forall>m<length nums. nums' ! m = nums ! m + type_count P (d # ds) m"
      using r(6) False by (auto simp: type_count_def)
    moreover have "\<forall>j<length (d # ds). is_support_descriptor_type P (desc_type P ((d # ds) ! j)) \<longrightarrow>
      desc_index P ((d # ds') ! j) = (nums ! desc_type P ((d # ds) ! j) +
        type_count P (take j (d # ds)) (desc_type P ((d # ds) ! j))) mod 2 ^ 16"
    proof (intro allI impI)
      fix j
      assume j: "j < length (d # ds)" "is_support_descriptor_type P (desc_type P ((d # ds) ! j))"
      then show "desc_index P ((d # ds') ! j) = (nums ! desc_type P ((d # ds) ! j) +
        type_count P (take j (d # ds)) (desc_type P ((d # ds) ! j))) mod 2 ^ 16"
        using r(7) False by (cases j) (auto simp: type_count_def)
    qed
    ultimately show ?thesis using r sd by (intro exI conjI) auto
  qed
qed

text \<open>The numbers of strings are stored outside the heads.\<close>

lemma number_strings_result:
  assumes "layout_ok P" "\<forall>d\<in>set ds. sized P d"
  shows "\<exists>ds'. number_strings P n ds = Returns ds' \<and> map head_of ds' = map head_of ds"
  using assms(2)
proof (induction ds arbitrary: n)
  case (Cons d ds)
  have sd: "sized P d" using Cons.prems by simp
  obtain d' where d': "write_member P S_Locale ''number_of_strings'' (of_nat n) d = Returns d'" "head_of d' = head_of d"
    using write_other [OF assms(1) sd, of "''number_of_strings''" S_Locale "of_nat n"] by auto
  obtain ds1 ds2 where "number_strings P (n + 1) ds = Returns ds1" "map head_of ds1 = map head_of ds"
    "number_strings P n ds = Returns ds2" "map head_of ds2 = map head_of ds"
    using Cons.IH Cons.prems by (metis list.set_intros(2))
  then show ?case using d' read_type [OF assms(1) sd, of S_Entity] by simp
qed simp

lemma heads_type: "map head_of ds' = map head_of ds \<Longrightarrow> map (desc_type P) ds' = map (desc_type P) ds \<and>
    map (desc_index P) ds' = map (desc_index P) ds"
proof -
  assume h: "map head_of ds' = map head_of ds"
  have m: "map (desc_type P) xs = map (\<lambda>h. unat (ucast (host_word (ep_endian P) (take 2 h) :: u64) :: u16)) (map head_of xs)"
    "map (desc_index P) xs = map (\<lambda>h. unat (host_word (ep_endian P) (drop 2 h) :: u64)) (map head_of xs)" for xs
    by (simp_all add: desc_type_def desc_index_def)
  show ?thesis unfolding m h by (rule conjI refl)+
qed

lemma setup_configuration_result:
  assumes "layout_ok P" "sized P d"
  shows "\<exists>d'. setup_configuration P i counts d = Returns d' \<and> desc_index P d' = i mod 2 ^ 16 \<and> dm_counts d' = counts"
proof -
  obtain d1 where d1: "write_member P S_Configuration ''descriptor_type'' (of_nat (number_of P KIND_CONFIGURATION)) d = Returns d1"
    "sized P d1"
    using write_head(2) [OF assms] by blast
  obtain d2 where d2: "write_member P S_Configuration ''descriptor_counts_offset'' (ep_array_offset P S_Configuration) d1 =
      Returns d2" "sized P d2"
    using write_other [OF assms(1) d1(2), of "''descriptor_counts_offset''" S_Configuration "ep_array_offset P S_Configuration"]
    by auto
  obtain d3 where d3: "write_member P S_Configuration ''descriptor_index'' (of_nat i) d2 = Returns d3" "sized P d3"
    "head_of d3 = take 2 (head_of d2) @ host_bytes (ep_endian P) 2 (of_nat i :: u64)"
    using write_head(1) [OF assms(1) d2(2)] by blast
  obtain d4 where d4: "write_member P S_Configuration ''descriptor_counts_count'' (of_nat (length counts)) d3 = Returns d4"
    "head_of d4 = head_of d3"
    using write_other [OF assms(1) d3(2), of "''descriptor_counts_count''" S_Configuration "of_nat (length counts)"] by auto
  have "unat (take_bit 16 (of_nat i :: u64)) = i mod 2 ^ 16"
    by (simp add: take_bit_eq_mod unat_mod unat_of_nat mod_mod_cancel)
  then have "desc_index P d3 = i mod 2 ^ 16"
    using head_values [OF head_of_length [OF assms(1) d2(2)] d3(3)] by simp
  then have "desc_index P (d4\<lparr>dm_counts := counts\<rparr>) = i mod 2 ^ 16" using d4(2) by (simp add: desc_index_def head_of_def)
  then show ?thesis using d1(1) d2(1) d3(1) d4(1) by (simp add: setup_configuration_def)
qed

definition sized_conf :: "entity_package \<Rightarrow> entity_conf \<Rightarrow> bool" where
  "sized_conf P c \<longleftrightarrow> sized P (ef_conf c) \<and> (\<forall>d\<in>set (ef_descs c). sized P d)"

text \<open>A configuration before and after: its own index, its counts, and the types and indexes of its descriptors.\<close>

definition numbered :: "entity_package \<Rightarrow> nat \<Rightarrow> entity_conf \<Rightarrow> entity_conf \<Rightarrow> bool" where
  "numbered P i c c' \<longleftrightarrow> desc_index P (ef_conf c') = i mod 2 ^ 16 \<and>
    dm_counts (ef_conf c') = descriptor_counts_of (map (type_count P (ef_descs c)) [0..<length (ep_kinds P)]) \<and>
    map (desc_type P) (ef_descs c') = map (desc_type P) (ef_descs c) \<and>
    (\<forall>j<length (ef_descs c). let n = desc_type P (ef_descs c ! j) in is_support_descriptor_type P n \<longrightarrow>
      desc_index P (ef_descs c' ! j) = type_count P (take j (ef_descs c)) n mod 2 ^ 16)"

lemma setup_configurations_result:
  assumes "layout_ok P" "sized P e" "\<forall>(c, ok)\<in>set cs. sized_conf P c \<and> ok"
  shows "\<exists>cs' e'. setup_configurations P mac i cs e = Returns (0, cs', e') \<and> sized P e' \<and> length cs' = length cs \<and>
    (\<forall>k<length cs. numbered P (i + k) (fst (cs ! k)) (cs' ! k))"
  using assms(2,3)
proof (induction cs arbitrary: i e)
  case (Cons x cs)
  obtain c where x: "x = (c, True)" "sized P (ef_conf c)" "\<forall>d\<in>set (ef_descs c). sized P d"
    using Cons.prems(2) by (cases x) (auto simp: sized_conf_def)
  let ?z = "replicate (length (ep_kinds P)) (0 :: nat)"
  obtain ds nums e1 where n: "number_descriptors P mac (ef_conf c) (ef_descs c) ?z e = Returns (ds, nums, e1)" "sized P e1"
    "\<forall>d\<in>set ds. sized P d" "map (desc_type P) ds = map (desc_type P) (ef_descs c)" "length nums = length (ep_kinds P)"
    "\<forall>m<length (ep_kinds P). nums ! m = type_count P (ef_descs c) m"
    "\<forall>j<length (ef_descs c). is_support_descriptor_type P (desc_type P (ef_descs c ! j)) \<longrightarrow> desc_index P (ds ! j) =
      (?z ! desc_type P (ef_descs c ! j) + type_count P (take j (ef_descs c)) (desc_type P (ef_descs c ! j))) mod 2 ^ 16"
    using number_descriptors_result [OF assms(1) x(2) Cons.prems(1) x(3), of ?z mac] by auto
  have nums: "nums = map (type_count P (ef_descs c)) [0..<length (ep_kinds P)]"
    using n(5,6) by (intro nth_equalityI) auto
  obtain conf where conf: "setup_configuration P i (descriptor_counts_of nums) (ef_conf c) = Returns conf"
    "desc_index P conf = i mod 2 ^ 16" "dm_counts conf = descriptor_counts_of nums"
    using setup_configuration_result [OF assms(1) x(2)] by blast
  obtain ds' where ds': "number_strings P (nums ! number_of P KIND_STRINGS) ds = Returns ds'" "map head_of ds' = map head_of ds"
    using number_strings_result [OF assms(1) n(3)] by blast
  obtain cs' e' where r: "setup_configurations P mac (Suc i) cs e1 = Returns (0, cs', e')" "sized P e'" "length cs' = length cs"
    "\<forall>k<length cs. numbered P (Suc i + k) (fst (cs ! k)) (cs' ! k)"
    using Cons.IH [OF n(2), of "Suc i"] Cons.prems(2) by auto
  let ?c' = "\<lparr> ef_conf = conf, ef_descs = ds' \<rparr>"
  have run: "setup_configurations P mac i (x # cs) e = Returns (0, ?c' # cs', e')"
    using x(1) n(1) conf(1) ds'(1) r(1) by simp
  have len: "length ds' = length (ef_descs c)" "length ds = length (ef_descs c)"
    using ds'(2) n(4) by (metis length_map)+
  have "numbered P i c ?c'"
    unfolding numbered_def Let_def
  proof (intro conjI allI impI)
    fix j
    assume j: "j < length (ef_descs c)" "is_support_descriptor_type P (desc_type P (ef_descs c ! j))"
    have "desc_index P (ds' ! j) = desc_index P (ds ! j)"
      using heads_type [OF ds'(2), of P] j(1) len by (metis nth_map)
    moreover have "?z ! desc_type P (ef_descs c ! j) = 0" using supported_kind [OF j(2)] by auto
    ultimately show "desc_index P (ef_descs ?c' ! j) = type_count P (take j (ef_descs c)) (desc_type P (ef_descs c ! j)) mod 2 ^ 16"
      using n(7) j by simp
  qed (use conf nums heads_type [OF ds'(2), of P] n(4) in simp_all)
  moreover have "\<forall>k<length (x # cs). numbered P (i + k) (fst ((x # cs) ! k)) ((?c' # cs') ! k)"
    using r(4) \<open>numbered P i c ?c'\<close> x(1) by (auto simp: less_Suc_eq_0_disj)
  ultimately show ?case using run r(2,3) by (intro exI conjI) auto
qed simp

text \<open>
  C11: The numbering of an entity succeeds when its memory is granted: configuration after
  configuration gets its position as its index and a list with the number of its descriptors of
  every type, and each descriptor of a supported type gets as its index the number of
  descriptors of its type before it; no type is changed.
\<close>
theorem descriptors_are_numbered:
  assumes "layout_ok P" "sized P (em_entity dev)" "\<forall>c\<in>set (em_confs dev). sized_conf P c" "\<forall>i. ok i"
  shows "\<exists>dev'. setup_descriptor_data P ok (Some dev) (Some mac) = Returns (0, Some dev') \<and>
    length (em_confs dev') = length (em_confs dev) \<and>
    (\<forall>i<length (em_confs dev). numbered P i (em_confs dev ! i) (em_confs dev' ! i))"
proof -
  obtain e1 where e1: "write_member P S_Entity ''descriptor_type'' 0 (em_entity dev) = Returns e1" "sized P e1"
    using write_head(2) [OF assms(1,2)] by blast
  obtain e2 where e2: "write_member P S_Entity ''descriptor_index'' 0 e1 = Returns e2" "sized P e2"
    using write_head(1) [OF assms(1) e1(2)] by blast
  let ?cs = "zip (em_confs dev) (map ok [0..<length (em_confs dev)])"
  have "\<forall>(c, ok)\<in>set ?cs. sized_conf P c \<and> ok" using assms(3,4) by (auto dest: set_zip_leftD set_zip_rightD)
  from setup_configurations_result [OF assms(1) e2(2) this, of mac 0] obtain cs' e3 where
    c: "setup_configurations P mac 0 ?cs e2 = Returns (0, cs', e3)" "sized P e3" "length cs' = length ?cs"
    "\<forall>k<length ?cs. numbered P (0 + k) (fst (?cs ! k)) (cs' ! k)" by blast
  then have r: "setup_configurations P mac 0 ?cs e2 = Returns (0, cs', e3)" "sized P e3" "length cs' = length (em_confs dev)"
    "\<forall>k<length (em_confs dev). numbered P k (em_confs dev ! k) (cs' ! k)" by simp_all
  obtain e4 where "write_member P S_Entity ''configurations_count'' (of_nat (length cs')) e3 = Returns e4"
    using write_other [OF assms(1) r(2), of "''configurations_count''" S_Entity "of_nat (length cs')"] by auto
  then show ?thesis using e1(1) e2(1) r by (simp add: setup_descriptor_data_def)
qed

end
