(* ===== verification/Avdecc_Entity_Examples.thy ===== *)
theory Avdecc_Entity_Examples
  imports Avdecc_Entity_Props
begin

text \<open>
  The reader and the numbering of entities on a layout given in full: the properties at concrete
  files, and what happens to files with mistakes.
\<close>

section \<open>Examples\<close>

text \<open>
  A small layout: the members that the examples look at lie apart, all others share the last
  eight bytes of the union.
\<close>

definition sample_offset :: "u8 list \<Rightarrow> nat" where
  "sample_offset m =
    (if m = ascii ''descriptor_type'' then 0 else if m = ascii ''descriptor_index'' then 2
     else if m \<in> set [ascii ''current_configuration'', ascii ''number_of_strings'', ascii ''number_of_formats''] then 4
     else if m = ascii ''listener_stream_sinks'' then 8 else 12)"

definition sample_package :: entity_package where
  "sample_package = \<lparr> ep_endian = LE, ep_kinds = all_kinds, ep_offset = (\<lambda>_. sample_offset),
     ep_width = (\<lambda>_ m. if m = ascii ''descriptor_type'' \<or> m = ascii ''descriptor_index'' then 2 else 4),
     ep_union_size = 20, ep_string = (\<lambda>v. take 8 (v @ replicate 8 0)),
     ep_eui48 = (\<lambda>v. Some (take 6 (v @ replicate 6 0))), ep_eui64 = (\<lambda>v. Some (take 8 (v @ replicate 8 0))),
     ep_audio_mapping_size = 8, ep_video_mapping_size = 8, ep_array_offset = (\<lambda>_. 132) \<rparr>"

lemma sample_layout: "layout_ok sample_package"
  by (simp add: layout_ok_def sample_package_def all_kinds_set sample_offset_def ascii_eq_iff)

definition sample_settings :: pairs where
  "sample_settings = [(ascii ''current_configuration'', ascii ''1'')]"

definition sample_confs :: "file_conf list" where
  "sample_confs = [\<lparr> fd_pairs = [], fd_groups = [(KIND_STREAM_INPUT, [[]])] \<rparr>,
     \<lparr> fd_pairs = [], fd_groups =
        [(KIND_LOCALE, [[(ascii ''locale_identifier'', ascii ''en'')], []]), (KIND_STRINGS, [[]])] \<rparr>]"

lemma sample_file_ok: "pairs_ok [''configurations''] sample_settings" "\<forall>c\<in>set sample_confs. conf_ok c"
  by code_simp+

lemma sample_built: "case build_entity sample_package sample_settings sample_confs of Some _ \<Rightarrow> True | None \<Rightarrow> False"
  by code_simp

lemma well_formed_file_is_read_witness:
  "\<exists>dev. build_entity sample_package sample_settings sample_confs = Some dev \<and>
    read_device_entity sample_package (Some (ascii ''entity.yaml'')) True True True
      (map (\<lambda>t. (t, True)) (file_tokens sample_settings sample_confs)) = Returns (Some dev)"
proof -
  obtain dev where d: "build_entity sample_package sample_settings sample_confs = Some dev"
    using sample_built by (auto split: option.splits)
  have "set (ep_kinds sample_package) = UNIV" by (simp add: sample_package_def all_kinds_set)
  from well_formed_file_is_read [OF this sample_file_ok d] show ?thesis using d by blast
qed

lemma malformed_file_is_read_for_ever_witness:
  "read_device_entity sample_package (Some (ascii ''entity.yaml'')) True True True
    (map (\<lambda>t. (t, True)) [STREAM_START_TOKEN, OTHER_TOKEN, BLOCK_MAPPING_START_TOKEN, KEY_TOKEN,
       SCALAR_TOKEN (ascii ''entity'')] @ replicate 1000 (NO_TOKEN, True)) = NoReturn"
proof -
  let ?ts = "map (\<lambda>t. (t, True)) [STREAM_START_TOKEN, OTHER_TOKEN, BLOCK_MAPPING_START_TOKEN, KEY_TOKEN,
    SCALAR_TOKEN (ascii ''entity'')]"
  have "case feed sample_package ?ts (reader_start sample_package) of Some _ \<Rightarrow> True | None \<Rightarrow> False" by code_simp
  then obtain r where "feed sample_package ?ts (reader_start sample_package) = Some r" by (auto split: option.splits)
  then show ?thesis by (rule malformed_file_is_read_for_ever)
qed

lemma descriptors_are_numbered_witness:
  "\<exists>dev dev'. build_entity sample_package sample_settings sample_confs = Some dev \<and>
    setup_descriptor_data sample_package (\<lambda>_. True) (Some dev) (Some [2, 0, 0, 0, 0, 1]) = Returns (0, Some dev') \<and>
    numbered sample_package 1 (em_confs dev ! 1) (em_confs dev' ! 1)"
proof -
  have "case build_entity sample_package sample_settings sample_confs of None \<Rightarrow> False
    | Some dev \<Rightarrow> sized sample_package (em_entity dev) \<and> (\<forall>c\<in>set (em_confs dev). sized_conf sample_package c) \<and>
        length (em_confs dev) = 2" by code_simp
  then obtain dev where d: "build_entity sample_package sample_settings sample_confs = Some dev"
    "sized sample_package (em_entity dev)" "\<forall>c\<in>set (em_confs dev). sized_conf sample_package c" "length (em_confs dev) = 2"
    by (auto split: option.splits)
  show ?thesis
    using descriptors_are_numbered [OF sample_layout d(2,3), of "\<lambda>_. True" "[2, 0, 0, 0, 0, 1]"] d(1,4) by fastforce
qed

section \<open>What the reader and the numbering get wrong\<close>

text \<open>A value that is no number is stored as 0, and the result of the parse is dropped.\<close>

lemma no_number_is_accepted:
  "case yaml_to_descriptor sample_package True KIND_ENTITY (desc_zero sample_package) (ascii ''entity_capabilities'')
      (ascii ''none'') of Returns (rc, d) \<Rightarrow> rc = 0 \<and> dm_union d = replicate 20 0 | _ \<Rightarrow> False"
  by code_simp

text \<open>An array with more bytes than its count says is written over the end of its allocation.\<close>

lemma long_array_overflows:
  "case fill sample_package KIND_STREAM_INPUT [(ascii ''number_of_formats'', ascii ''1'')] (desc_zero sample_package) of
     Some d \<Rightarrow> (case yaml_to_descriptor sample_package True KIND_STREAM_INPUT d (ascii ''formats'')
         (ascii ''00a002024000020000a0020240000201'') of UB \<Rightarrow> True | _ \<Rightarrow> False)
   | None \<Rightarrow> False"
  by code_simp

text \<open>The key of the delivered configuration file is not a member of the table of streams.\<close>

lemma delivered_key_is_unknown:
  "ascii ''backedup_talker_unique_id'' \<notin> snd ` set parse_table_stream"
  by code_simp

text \<open>A setting of the entity behind its configurations is looked up in the table of configurations.\<close>

definition late_tokens :: "yaml_token list" where
  "late_tokens = (let ts = file_tokens [] [\<lparr> fd_pairs = [], fd_groups = [] \<rparr>]; n = length ts - 4
    in take n ts @ pair_tokens [(ascii ''entity_name'', ascii ''R-Car'')] @ drop n ts)"

lemma late_settings_are_lost:
  "case read_device_entity sample_package (Some []) True True True (map (\<lambda>t. (t, True)) late_tokens) of
     Returns (Some dev) \<Rightarrow> dm_union (em_entity dev) = replicate 20 0 | _ \<Rightarrow> False"
  by code_simp

text \<open>A descriptor type without a table name ends the reading, and what follows is missing without an error.\<close>

lemma unknown_type_ends_the_file:
  assumes "\<forall>k. \<not> strcasecmp_eq key (fst (d_table k))" "short_scalar key" "rs_status r = PARSE_DESCRIPTORS_START" "\<not> rs_value r"
  shows "read_tokens P ((SCALAR_TOKEN key, ok) # ts) r = Returns (False, rs_dev r)"
proof -
  have "find (\<lambda>k. strcasecmp_eq key (fst (d_table k))) (ep_kinds P) = None" using assms(1) by (simp add: find_None_iff)
  then show ?thesis using assms(2-4) by (simp add: scalar_key_def Let_def)
qed

text \<open>
  The streams of a configuration are counted by the index that was in the file, which is not set
  yet: with configuration 1 as the current one, the streams of configuration 0 and of
  configuration 1 are not counted, and with configuration 0 those of both are.
\<close>

definition typed_desc :: "descriptor_kind \<Rightarrow> desc_mem" where
  "typed_desc k = (case new_desc sample_package k of Some d \<Rightarrow> d | None \<Rightarrow> desc_zero sample_package)"

definition member_of :: "entity_struct \<Rightarrow> string \<Rightarrow> desc_mem \<Rightarrow> u64" where
  "member_of s name d = (case read_member sample_package s name d of Returns v \<Rightarrow> v | _ \<Rightarrow> 0)"

definition counted_sinks :: "u64 \<Rightarrow> u64" where
  "counted_sinks current =
    (let conf = \<lparr> ef_conf = desc_zero sample_package, ef_descs = [typed_desc KIND_STREAM_INPUT] \<rparr> in
     case write_member sample_package S_Entity ''current_configuration'' current (desc_zero sample_package) of
       Returns e \<Rightarrow>
        (case setup_configurations sample_package [] 0 [(conf, True), (conf, True)] e of
           Returns (rc, _, e) \<Rightarrow> member_of S_Entity ''listener_stream_sinks'' e | _ \<Rightarrow> 99)
     | _ \<Rightarrow> 99)"

lemma wrong_sinks: "counted_sinks 1 = 0" "counted_sinks 0 = 2"
  by code_simp+

text \<open>The second of two locales gets one string more than there are.\<close>

lemma wrong_strings:
  "case number_strings sample_package 1 [typed_desc KIND_LOCALE, typed_desc KIND_LOCALE] of
     Returns ds \<Rightarrow> map (member_of S_Locale ''number_of_strings'') ds = [1, 2] | _ \<Rightarrow> False"
  by code_simp

end
