(* ===== verification/Avbtool.thy ===== *)
theory Avbtool
  imports Launcher_Config
begin

unbundle bit_operations_syntax

text \<open>
  The configuration tool of the streaming driver (\<open>avbtool/avbtool.c\<close>): the table of commands,
  the search for a command, and the commands, each a few requests to the driver and a text. The
  driver is an argument, its requests are functions on its own state; so are the outcomes of
  \<open>open\<close> and \<open>calloc\<close> and the constants of the driver's header. The messages of \<open>perror\<close> and of
  refused arguments are left out.
\<close>

section \<open>The driver\<close>

text \<open>The member that the tool looks at, and the other bytes, which it hands back unchanged.\<close>

record rxparam =
  rx_streamid :: "u8 list"
  rx_other :: "u8 list"

record ringparam =
  rp_rx_max :: u32
  rp_rx_mini_max :: u32
  rp_rx_jumbo_max :: u32
  rp_tx_max :: u32
  rp_rx :: u32
  rp_rx_mini :: u32
  rp_rx_jumbo :: u32
  rp_tx :: u32

record drvinfo =
  di_texts :: "u8 list list"
  di_n_stats :: u32
  di_testinfo_len :: u32
  di_eedump_len :: u32
  di_regdump_len :: u32
  di_n_priv_flags :: u32

record channels =
  max_rx :: u32
  max_tx :: u32
  max_other :: u32
  max_combined :: u32
  rx_count :: u32
  tx_count :: u32
  other_count :: u32
  combined_count :: u32

text \<open>
  A request fails or is answered. \<open>di_texts\<close> are driver, version, firmware version and bus. The
  string set is asked by its mask and answered by a mask and the first count; the bytes of strings
  and statistics are what the driver stores in the buffer it is given.
\<close>

record 's driver =
  drv_getrxparam :: "'s \<Rightarrow> rxparam option \<times> 's"
  drv_setrxparam :: "rxparam \<Rightarrow> 's \<Rightarrow> bool \<times> 's"
  drv_gringparam :: "'s \<Rightarrow> ringparam option \<times> 's"
  drv_gdrvinfo :: "'s \<Rightarrow> drvinfo option \<times> 's"
  drv_gsset_info :: "u32 \<Rightarrow> 's \<Rightarrow> (u32 \<times> u32) option \<times> 's"
  drv_gstrings :: "nat \<Rightarrow> u32 \<Rightarrow> 's \<Rightarrow> u8 list option \<times> 's"
  drv_gstats :: "u32 \<Rightarrow> 's \<Rightarrow> u8 list option \<times> 's"
  drv_gchannels :: "'s \<Rightarrow> channels option \<times> 's"

record tool =
  tl_endian :: endian
  tl_string_len :: nat
  tl_stats_id :: nat
  tl_stats_size :: u64

text \<open>\<open>EAVB_GSTRING_LEN\<close>, \<open>EAVB_SS_STATS\<close> and the size of the head of the statistics. A command returns its result and what it prints.\<close>

type_synonym 's outcome = "int \<times> u8 list \<times> 's"

definition newline :: "u8 list" where "newline = [10]"

section \<open>Commands\<close>

definition show_rxparams :: "'s driver \<Rightarrow> 's \<Rightarrow> 's outcome" where
  "show_rxparams D s =
    (case drv_getrxparam D s of (None, s) \<Rightarrow> (- 1, [], s)
     | (Some p, s) \<Rightarrow>
        (0, ascii ''show_rxparams'' @ newline @ ascii ''  streamid '' @ print_bytes (rx_streamid p) @ newline, s))"

text \<open>The eight numbers of at most two digits; a shorter list of values is refused.\<close>

definition streamid_format :: "directive list" where
  "streamid_format =
    Conv (ConvX (Some 2)) # concat (replicate 7 [Lit (ch CHR '':''), Conv (ConvX (Some 2))])"

definition do_rxparams :: "'s driver \<Rightarrow> u8 list list \<Rightarrow> 's \<Rightarrow> 's outcome" where
  "do_rxparams D args s =
    (case args of
       [] \<Rightarrow> show_rxparams D s
     | [name, value] \<Rightarrow>
        (case drv_getrxparam D s of (None, s) \<Rightarrow> (- 1, [], s)
         | (Some p, s) \<Rightarrow>
            if name = ascii ''streamid'' then
              (let vs = sscanf streamid_format value in
               if length vs \<noteq> 8 then (- 1, [], s) else
               case drv_setrxparam D (p\<lparr>rx_streamid := map ucast vs\<rparr>) s of
                 (ok, s) \<Rightarrow> if ok then show_rxparams D s else (- 1, [], s))
            else show_rxparams D s)
     | _ \<Rightarrow> (- 1, [], s))"

definition number_line :: "string \<Rightarrow> u32 \<Rightarrow> u8 list" where
  "number_line label v = ascii label @ print_u v @ newline"

definition do_ringparams :: "'s driver \<Rightarrow> u8 list \<Rightarrow> 's \<Rightarrow> 's outcome" where
  "do_ringparams D devname s =
    (case drv_gringparam D s of (None, s) \<Rightarrow> (- 1, [], s)
     | (Some p, s) \<Rightarrow>
        (0, ascii ''Ring parameters for '' @ devname @ ascii '':'' @ newline @
          ascii ''Pre-set maximums:'' @ newline @
          number_line ''RX:             '' (rp_rx_max p) @ number_line ''RX Mini:        '' (rp_rx_mini_max p) @
          number_line ''RX Jumbo:       '' (rp_rx_jumbo_max p) @ number_line ''TX:             '' (rp_tx_max p) @
          ascii ''Current hardware settings:'' @ newline @
          number_line ''RX:             '' (rp_rx p) @ number_line ''RX Mini:        '' (rp_rx_mini p) @
          number_line ''RX Jumbo:       '' (rp_rx_jumbo p) @ number_line ''TX:             '' (rp_tx p) @ newline, s))"

definition yes_no_line :: "string \<Rightarrow> u32 \<Rightarrow> u8 list" where
  "yes_no_line label v = ascii label @ ascii (if v \<noteq> 0 then ''yes'' else ''no'') @ newline"

definition do_getdrv :: "'s driver \<Rightarrow> 's \<Rightarrow> 's outcome" where
  "do_getdrv D s =
    (case drv_gdrvinfo D s of (None, s) \<Rightarrow> (- 1, [], s)
     | (Some i, s) \<Rightarrow>
        (0, concat (map2 (\<lambda>label t. ascii label @ t @ newline)
            [''driver: '', ''version: '', ''firmware-version: '', ''bus-info: ''] (di_texts i)) @
          yes_no_line ''supports-statistics: '' (di_n_stats i) @ yes_no_line ''supports-test: '' (di_testinfo_len i) @
          yes_no_line ''supports-eeprom-access: '' (di_eedump_len i) @
          yes_no_line ''supports-register-dump: '' (di_regdump_len i) @
          yes_no_line ''supports-priv-flags: '' (di_n_priv_flags i), s))"

text \<open>The size of the strings is a product of 32 bits. \<open>al\<close> has the outcomes of the allocations.\<close>

definition get_stringset ::
  "tool \<Rightarrow> (nat \<Rightarrow> bool) \<Rightarrow> 's driver \<Rightarrow> nat \<Rightarrow> 's \<Rightarrow> ((u32 \<times> mem) option \<times> 's) c_result" where
  "get_stringset T al D set_id s =
    (if \<not> al 0 then Returns (None, s) else
     case drv_gsset_info D (push_bit set_id 1) s of (None, s) \<Rightarrow> Returns (None, s)
     | (Some (sset_mask, n), s) \<Rightarrow>
        let len = (if sset_mask \<noteq> 0 then n else 0); room = unat (len * of_nat (tl_string_len T)) in
        if \<not> al 1 then Returns (None, s) else
        if len = 0 then Returns (Some (len, replicate room 0), s) else
        (case drv_gstrings D set_id len s of (None, s) \<Rightarrow> Returns (None, s)
         | (Some bs, s) \<Rightarrow>
            (case wrn 0 bs (replicate room 0) of None \<Rightarrow> UB
             | Some strings \<Rightarrow> Returns (Some (len, strings), s))))"

text \<open>At most \<open>n\<close> bytes are printed, and fewer when they are terminated before.\<close>

definition bounded_text :: "nat \<Rightarrow> mem \<Rightarrow> u8 list option" where
  "bounded_text n m =
    (case find_nul (take n m) of Some t \<Rightarrow> Some t | None \<Rightarrow> if n \<le> length m then Some (take n m) else None)"

fun print_stats :: "tool \<Rightarrow> mem \<Rightarrow> mem \<Rightarrow> nat \<Rightarrow> nat \<Rightarrow> u8 list c_result" where
  "print_stats T strings stats i 0 = Returns []"
| "print_stats T strings stats i (Suc n) =
    bindC (c_int (int i * int (tl_string_len T))) (\<lambda>off.
    case (bounded_text (tl_string_len T) (drop (nat off) strings), rdn (8 * i) 8 stats) of
      (Some name, Some bs) \<Rightarrow>
        bindC (print_stats T strings stats (Suc i) n) (\<lambda>rest.
        Returns (ascii ''     '' @ name @ ascii '': '' @ print_u (host_word (tl_endian T) bs :: u64) @ newline @ rest))
    | _ \<Rightarrow> UB)"

text \<open>
  The number of statistics and the size of their buffer are an int; the size is extended again
  when the buffer is allocated.
\<close>

definition stats_room :: "tool \<Rightarrow> u32 \<Rightarrow> nat c_result" where
  "stats_room T len =
    (let sz_stats = ucast ((scast len :: u64) * 8) :: u32; size = scast sz_stats + tl_stats_size T in
     if size < tl_stats_size T then UB else Returns (unat (size - tl_stats_size T)))"

definition do_getstats :: "tool \<Rightarrow> (nat \<Rightarrow> bool) \<Rightarrow> 's driver \<Rightarrow> 's \<Rightarrow> 's outcome c_result" where
  "do_getstats T al D s =
    bindC (get_stringset T al D (tl_stats_id T) s) (\<lambda>(strings, s).
    case strings of None \<Rightarrow> Returns (- 1, [], s)
    | Some (len, strings) \<Rightarrow>
       if \<not> al 2 then Returns (- 1, [], s) else
       bindC (stats_room T len) (\<lambda>room.
       case drv_gstats D len s of (None, s) \<Rightarrow> Returns (- 1, [], s)
       | (Some bs, s) \<Rightarrow>
          (case wrn 0 bs (replicate room 0) of None \<Rightarrow> UB
           | Some stats \<Rightarrow>
              bindC (print_stats T strings stats 0 (nat (sint len))) (\<lambda>t.
              Returns (0, ascii ''NIC statistics:'' @ newline @ t, s)))))"

definition do_channels :: "'s driver \<Rightarrow> u8 list \<Rightarrow> 's \<Rightarrow> 's outcome" where
  "do_channels D devname s =
    (case drv_gchannels D s of (None, s) \<Rightarrow> (- 1, [], s)
     | (Some c, s) \<Rightarrow>
        (0, ascii ''Channel parameters for '' @ devname @ ascii '':'' @ newline @
          ascii ''Pre-set maximums:'' @ newline @
          number_line ''RX:             '' (max_rx c) @ number_line ''TX:             '' (max_tx c) @
          number_line ''Other:          '' (max_other c) @ number_line ''Combined:       '' (max_combined c) @
          ascii ''Current hardware settings:'' @ newline @
          number_line ''RX:             '' (rx_count c) @ number_line ''TX:             '' (tx_count c) @
          number_line ''Other:          '' (other_count c) @ number_line ''Combined:       '' (combined_count c) @
          newline, s))"

section \<open>The table and the main program\<close>

datatype command =
  CMD_RXPARAMS | CMD_RINGPARAMS | CMD_GETDRV | CMD_GETSTATS | CMD_CHANNELS | CMD_VERSION | CMD_USAGE

record tool_option =
  op_opts :: string
  op_want_device :: bool
  op_func :: command
  op_help :: string
  op_opthelp :: "string option"

definition option_table :: "tool_option list" where
  "option_table =
    [\<lparr> op_opts = ''-r|--rxparams'', op_want_device = True, op_func = CMD_RXPARAMS, op_help = ''Set/Show Rx parameters'',
       op_opthelp = Some ''            [ streamid %x:%x:%x:%x:%x:%x:%x:%x ]'' \<rparr>,
     \<lparr> op_opts = ''-g|--show-ring'', op_want_device = True, op_func = CMD_RINGPARAMS, op_help = ''Query RX/TX ring parameters'',
       op_opthelp = None \<rparr>,
     \<lparr> op_opts = ''-i|--driver'', op_want_device = True, op_func = CMD_GETDRV, op_help = ''Show driver information'',
       op_opthelp = None \<rparr>,
     \<lparr> op_opts = ''-S|--statistics'', op_want_device = True, op_func = CMD_GETSTATS, op_help = ''Show statistics'',
       op_opthelp = None \<rparr>,
     \<lparr> op_opts = ''-l|--show-channels'', op_want_device = True, op_func = CMD_CHANNELS, op_help = ''Query channels'',
       op_opthelp = None \<rparr>,
     \<lparr> op_opts = ''--version'', op_want_device = False, op_func = CMD_VERSION, op_help = ''Show version number'',
       op_opthelp = None \<rparr>,
     \<lparr> op_opts = ''-h|--help'', op_want_device = False, op_func = CMD_USAGE, op_help = ''Show this help'',
       op_opthelp = None \<rparr>]"

text \<open>Usage and version are printed as messages.\<close>

definition version_text :: "u8 list" where
  "version_text = ascii ''avbtool version 0.2.2'' @ newline"

definition usage_line :: "tool_option \<Rightarrow> u8 list" where
  "usage_line o1 = ascii ''    avbtool '' @ ascii (op_opts o1) @ ascii '' '' @
     ascii (if op_want_device o1 then ''DEVNAME'' else '''') @ ascii '' '' @ ascii (op_help o1) @ newline @
     (case op_opthelp o1 of None \<Rightarrow> [] | Some t \<Rightarrow> ascii t @ newline)"

definition usage_text :: "u8 list" where
  "usage_text = version_text @ ascii ''Usage:'' @ newline @ concat (map usage_line option_table)"

text \<open>The names of an entry are compared one after the other.\<close>

function matches_option :: "u8 list \<Rightarrow> u8 list \<Rightarrow> bool" where
  "matches_option arg opt =
    (let len = length (takeWhile (\<lambda>c. c \<noteq> ch CHR ''|'') opt) in
     if arg = take len opt then True
     else if drop len opt = [] then False
     else matches_option arg (drop (len + 1) opt))"
  by pat_completeness auto
termination by (relation "measure (length \<circ> snd)") auto

declare matches_option.simps [simp del]

definition run_command ::
  "tool \<Rightarrow> (nat \<Rightarrow> bool) \<Rightarrow> 's driver \<Rightarrow> command \<Rightarrow> u8 list \<Rightarrow> u8 list list \<Rightarrow> 's \<Rightarrow> 's outcome c_result" where
  "run_command T al D cmd devname args s =
    (case cmd of
       CMD_RXPARAMS \<Rightarrow> Returns (do_rxparams D args s)
     | CMD_RINGPARAMS \<Rightarrow> Returns (do_ringparams D devname s)
     | CMD_GETDRV \<Rightarrow> Returns (do_getdrv D s)
     | CMD_GETSTATS \<Rightarrow> do_getstats T al D s
     | CMD_CHANNELS \<Rightarrow> Returns (do_channels D devname s)
     | CMD_VERSION \<Rightarrow> Returns (0, version_text, s)
     | CMD_USAGE \<Rightarrow> Returns (0, usage_text, s))"

text \<open>
  The arguments behind the name of the program. The entry of the usage is the last one, which is
  also taken when no name matches; without a device name \<open>open\<close> is called with no name and fails.
\<close>

definition avbtool_main ::
  "tool \<Rightarrow> (nat \<Rightarrow> bool) \<Rightarrow> 's driver \<Rightarrow> (u8 list \<Rightarrow> bool) \<Rightarrow> u8 list list \<Rightarrow> 's \<Rightarrow> 's outcome c_result" where
  "avbtool_main T al D opened args s =
    (case args of
       [] \<Rightarrow> run_command T al D CMD_USAGE [] [] s
     | arg # args1 \<Rightarrow>
        let (entry, args2) = (case find (\<lambda>e. matches_option arg (ascii (op_opts e))) option_table of
            Some e \<Rightarrow> (e, args1) | None \<Rightarrow> (last option_table, arg # args1)) in
        if \<not> op_want_device entry then run_command T al D (op_func entry) [] args2 s
        else (case args2 of [] \<Rightarrow> Returns (- 1, [], s)
          | devname # args3 \<Rightarrow>
             if opened devname then run_command T al D (op_func entry) devname args3 s else Returns (- 1, [], s)))"

end
