(* ===== verification/Avbtool_Props.thy ===== *)
theory Avbtool_Props
  imports Avbtool Launcher_Command Launcher_Config_Props
begin

text \<open>
  The configuration tool: which arguments run which command, the stream identifier that the
  launcher passes on and the tool stores, the listing of the statistics, and the arguments that are
  accepted without effect.
\<close>

section \<open>Commands are found by all their names\<close>

definition command_of :: "u8 list \<Rightarrow> command" where
  "command_of arg = (case find (\<lambda>e. matches_option arg (ascii (op_opts e))) option_table of
     Some e \<Rightarrow> op_func e | None \<Rightarrow> CMD_USAGE)"

lemma every_name_is_found:
  "map (command_of \<circ> ascii) [''-r'', ''--rxparams'', ''-g'', ''--show-ring'', ''-i'', ''--driver'', ''-S'', ''--statistics'',
     ''-l'', ''--show-channels'', ''--version'', ''-h'', ''--help''] =
   [CMD_RXPARAMS, CMD_RXPARAMS, CMD_RINGPARAMS, CMD_RINGPARAMS, CMD_GETDRV, CMD_GETDRV, CMD_GETSTATS, CMD_GETSTATS,
     CMD_CHANNELS, CMD_CHANNELS, CMD_VERSION, CMD_USAGE, CMD_USAGE]"
  by code_simp

text \<open>The names of an entry are exactly the words between its bars.\<close>

lemma no_bar:
  assumes "CHR ''|'' \<notin> set w"
  shows "takeWhile (\<lambda>c. c \<noteq> ch CHR ''|'') (ascii w) = ascii w"
proof -
  have "c \<noteq> ch CHR ''|''" if "c \<in> set (ascii w)" for c
  proof -
    obtain x where "x \<in> set w" "c = of_char x" using \<open>c \<in> set (ascii w)\<close> by (auto simp: ascii_def)
    then show ?thesis using assms by (metis ch_def of_char_u8_eq_iff)
  qed
  then show ?thesis by (simp add: takeWhile_eq_all_conv)
qed

lemma matches_last:
  assumes "CHR ''|'' \<notin> set w"
  shows "matches_option arg (ascii w) \<longleftrightarrow> arg = ascii w"
  by (subst matches_option.simps) (simp add: Let_def no_bar [OF assms])

lemma matches_first:
  assumes "CHR ''|'' \<notin> set w"
  shows "matches_option arg (ascii (w @ CHR ''|'' # v)) \<longleftrightarrow> arg = ascii w \<or> matches_option arg (ascii v)"
proof -
  have bar: "ascii (w @ CHR ''|'' # v) = ascii w @ ch CHR ''|'' # ascii v" by (simp add: ascii_def ch_def)
  have "takeWhile (\<lambda>c. c \<noteq> ch CHR ''|'') (ascii w @ ch CHR ''|'' # ascii v) = ascii w"
    using no_bar [OF assms] by (simp add: takeWhile_append takeWhile_eq_all_conv)
  then show ?thesis unfolding bar by (subst matches_option.simps) (simp add: Let_def)
qed

section \<open>The stream identifier\<close>

lemma convert_two_digits:
  assumes "ends_number rest"
  shows "convert (ConvX (Some 2)) (print_hex 2 (b :: u8) @ rest) = Some (ucast b, rest)"
proof -
  let ?ds = "pad0 2 (digits digit_char 16 (uint b))"
  have len: "length ?ds = 2" using length_print_byte [of b] by (simp add: print_hex_def pad0_def)
  then have "convert (ConvX (Some 2)) (?ds @ rest) = Some (clamp_long (ConvX (Some 2)) False (digits_value 16 ?ds), rest)"
    using convert_digits [of ?ds "ConvX (Some 2)" rest "[]"] set_pad_digits [of 16 "uint b" _ 2]
    by (simp add: conv_base_def conv_input_def ends_number_def)
  moreover have "uint b < 256" using uint_lt2p [of b] by simp
  ultimately show ?thesis by (simp add: print_hex_def pad_digits_value clamp_long_def)
qed

lemma scan_two_digits:
  "bs \<noteq> [] \<Longrightarrow> sscanf (Conv (ConvX (Some 2)) # concat (replicate (length bs - 1) [Lit (ch CHR '':''), Conv (ConvX (Some 2))]))
    (print_bytes bs) = map ucast bs"
proof (induction bs rule: print_bytes.induct)
  case (2 b)
  then show ?case using convert_two_digits [of "[]" b] by (simp add: ends_number_def)
next
  case (3 b c bs)
  then show ?case using convert_two_digits [OF ends_number_colon] by simp
qed simp

lemma streamid_scanned: "length bs = 8 \<Longrightarrow> sscanf streamid_format (print_bytes bs) = map ucast bs"
  using scan_two_digits [of bs] by (cases bs) (simp_all add: streamid_format_def)

lemma ucast_bytes: "map ucast (map ucast (bs :: u8 list) :: u64 list) = bs"
proof -
  have "(ucast :: u64 \<Rightarrow> u8) \<circ> (ucast :: u8 \<Rightarrow> u64) = id"
    by (rule ext, rule bit_word_eqI) (simp add: bit_simps)
  then show ?thesis by simp
qed

lemma rxparams_found:
  "find (\<lambda>e. matches_option (ascii ''-r'') (ascii (op_opts e))) option_table = Some (hd option_table)"
  "find (\<lambda>e. matches_option (ascii ''--rxparams'') (ascii (op_opts e))) option_table = Some (hd option_table)"
  by code_simp+

text \<open>
  C33: The application scripts pass the stream identifier that the launcher printed for them to
  the tool: whatever the identifier of the context, the tool stores exactly its eight bytes in
  the driver, changes nothing else of the parameters, and shows the identifier the way it was
  given.
\<close>
theorem printed_stream_id_is_set:
  assumes "name \<in> {ascii ''-r'', ascii ''--rxparams''}" "opened dev" "length (ac_streamid ctx) = 8"
    "drv_getrxparam D s = (Some p, s1)"
    "drv_setrxparam D (p\<lparr>rx_streamid := ac_streamid ctx\<rparr>) s1 = (True, s2)"
    "drv_getrxparam D s2 = (Some (p\<lparr>rx_streamid := ac_streamid ctx\<rparr>), s3)"
  shows "avbtool_main T al D opened [name, dev, ascii ''streamid'', word_text ctx (ascii ''$STREAM_ID$'')] s =
    Returns (0, ascii ''show_rxparams'' @ newline @ ascii ''  streamid '' @ print_bytes (ac_streamid ctx) @ newline, s3)"
proof -
  have found: "find (\<lambda>e. matches_option name (ascii (op_opts e))) option_table = Some (hd option_table)"
    using assms(1) rxparams_found by auto
  have entry: "op_want_device (hd option_table)" "op_func (hd option_table) = CMD_RXPARAMS" by (simp_all add: option_table_def)
  have word: "word_text ctx (ascii ''$STREAM_ID$'') = print_bytes (ac_streamid ctx)"
    by (simp add: word_text_def ascii_eq_iff)
  have "do_rxparams D [ascii ''streamid'', print_bytes (ac_streamid ctx)] s = show_rxparams D s2"
    using assms(3-5) by (simp add: do_rxparams_def streamid_scanned ucast_bytes del: map_map)
  then show ?thesis
    using assms(2,6) by (simp add: avbtool_main_def found entry run_command_def word show_rxparams_def)
qed

text \<open>A driver that keeps one structure of parameters.\<close>

definition plain_driver :: "rxparam driver" where
  "plain_driver = \<lparr> drv_getrxparam = (\<lambda>s. (Some s, s)), drv_setrxparam = (\<lambda>p s. (True, p)),
     drv_gringparam = (\<lambda>s. (None, s)), drv_gdrvinfo = (\<lambda>s. (None, s)),
     drv_gsset_info = (\<lambda>m s. (Some (m, 2), s)),
     drv_gstrings = (\<lambda>_ _ s. (Some (ascii ''rx'' @ replicate 6 0 @ ascii ''tx_bytes''), s)),
     drv_gstats = (\<lambda>_ s. (Some (le_bytes 8 (7 :: u64) @ le_bytes 8 (300 :: u64)), s)),
     drv_gchannels = (\<lambda>s. (None, s)) \<rparr>"

definition plain_param :: rxparam where
  "plain_param = \<lparr> rx_streamid = replicate 8 0, rx_other = [1, 2] \<rparr>"

definition plain_tool :: tool where
  "plain_tool = \<lparr> tl_endian = LE, tl_string_len = 8, tl_stats_id = 1, tl_stats_size = 8 \<rparr>"

lemma printed_stream_id_is_set_witness:
  "avbtool_main plain_tool (\<lambda>_. True) plain_driver (\<lambda>_. True)
     [ascii ''-r'', ascii ''/dev/avb_rx0'', ascii ''streamid'',
      word_text (context_zero\<lparr>ac_streamid := [0x76, 0xd2, 0, 0x11, 0xab, 0xcd, 0, 1]\<rparr>) (ascii ''$STREAM_ID$'')] plain_param =
   Returns (0, ascii ''show_rxparams'' @ newline @ ascii ''  streamid '' @
     print_bytes [0x76, 0xd2, 0, 0x11, 0xab, 0xcd, 0, 1] @ newline,
     plain_param\<lparr>rx_streamid := [0x76, 0xd2, 0, 0x11, 0xab, 0xcd, 0, 1]\<rparr>)"
  using printed_stream_id_is_set [of "ascii ''-r''" "\<lambda>_. True" "ascii ''/dev/avb_rx0''"
      "context_zero\<lparr>ac_streamid := [0x76, 0xd2, 0, 0x11, 0xab, 0xcd, 0, 1]\<rparr>" plain_driver plain_param plain_param plain_param]
  by (simp add: plain_driver_def)

text \<open>A name other than \<open>streamid\<close> is accepted without effect; a missing byte is refused, and a tail behind the eighth is not looked at.\<close>

lemma other_parameter_changes_nothing:
  "name \<noteq> ascii ''streamid'' \<Longrightarrow> do_rxparams D [name, value] s =
     (case drv_getrxparam D s of (None, s) \<Rightarrow> (- 1, [], s) | (Some _, s) \<Rightarrow> show_rxparams D s)"
  by (auto simp: do_rxparams_def split: option.splits prod.splits)

lemma malformed_stream_ids:
  "do_rxparams plain_driver [ascii ''streamid'', ascii ''1:2:3:4:5:6:7''] plain_param = (- 1, [], plain_param)"
  "snd (snd (do_rxparams plain_driver [ascii ''streamid'', ascii ''1:2:3:4:5:6:7:8:9''] plain_param)) =
    plain_param\<lparr>rx_streamid := [1, 2, 3, 4, 5, 6, 7, 8]\<rparr>"
  by code_simp+

section \<open>Statistics\<close>

definition stat_line :: "u8 list \<Rightarrow> u64 \<Rightarrow> u8 list" where
  "stat_line name v = ascii ''     '' @ name @ ascii '': '' @ print_u v @ newline"

text \<open>The names of a string set: each in a field of its own, filled with zero bytes.\<close>

definition name_field :: "nat \<Rightarrow> u8 list \<Rightarrow> mem" where
  "name_field n name = name @ replicate (n - length name) 0"

lemma find_nul_free: "0 \<notin> set name \<Longrightarrow> find_nul name = None"
  by (induction name) auto

lemma bounded_field:
  assumes "0 \<notin> set name" "length name \<le> n"
  shows "bounded_text n (name_field n name @ rest) = Some name"
proof (cases "length name = n")
  case True
  moreover have "find_nul name = None" using assms(1) by (rule find_nul_free)
  ultimately show ?thesis using True by (simp add: bounded_text_def name_field_def)
next
  case False
  then obtain k where "n - length name = Suc k" using assms(2) by (cases "n - length name") auto
  then have "name_field n name = name @ 0 # replicate k 0" by (simp add: name_field_def)
  then have "find_nul (name_field n name) = Some name" using find_nul_exact [OF assms(1)] by simp
  moreover have "take n (name_field n name @ rest) = name_field n name" using assms(2) by (simp add: name_field_def)
  ultimately show ?thesis by (simp add: bounded_text_def)
qed

lemma stats_printed:
  assumes "length vs = length names" "\<forall>m\<in>set names. 0 \<notin> set m \<and> length m \<le> tl_string_len T"
    "length sa = i * tl_string_len T" "length da = 8 * i" "int (i + length names) * int (tl_string_len T) \<le> INT_MAX"
  shows "print_stats T (sa @ concat (map (name_field (tl_string_len T)) names))
      (da @ concat (map (host_bytes (tl_endian T) 8) (vs :: u64 list))) i (length names) = Returns (concat (map2 stat_line names vs))"
  using assms
proof (induction names arbitrary: vs sa da i)
  case Nil
  then show ?case by simp
next
  case (Cons m names)
  let ?n = "tl_string_len T"
  obtain v vs' where vs: "vs = v # vs'" using Cons.prems(1) by (cases vs) auto
  have "int i * int ?n \<le> int (i + length (m # names)) * int ?n" by (intro mult_right_mono) auto
  then have off: "c_int (int i * int ?n) = Returns (int i * int ?n)"
    using Cons.prems(5) by (intro c_int_ok) (auto simp: INT_MAX_def intro: order_trans [of _ 0])
  have "nat (int i * int ?n) = length sa" using Cons.prems(3) by (simp add: nat_mult_distrib)
  then have name: "bounded_text ?n (drop (nat (int i * int ?n)) (sa @ concat (map (name_field ?n) (m # names)))) = Some m"
    using bounded_field [of m ?n] Cons.prems(2) by simp
  have stat: "rdn (8 * i) 8 (da @ concat (map (host_bytes (tl_endian T) 8) (v # vs'))) = Some (host_bytes (tl_endian T) 8 v)"
    using Cons.prems(4) by (simp add: rdn_def)
  have "print_stats T ((sa @ name_field ?n m) @ concat (map (name_field ?n) names))
      ((da @ host_bytes (tl_endian T) 8 v) @ concat (map (host_bytes (tl_endian T) 8) vs')) (Suc i) (length names) =
    Returns (concat (map2 stat_line names vs'))"
    using Cons.prems vs by (intro Cons.IH) (auto simp: name_field_def algebra_simps)
  then show ?case
    using off name stat by (simp add: vs stat_line_def host_word_host_bytes del: of_nat_mult nat_mult_distrib)
qed

lemma statistics_of_plain_driver:
  "do_getstats plain_tool (\<lambda>_. True) plain_driver plain_param =
    Returns (0, ascii ''NIC statistics:'' @ newline @ stat_line (ascii ''rx'') 7 @ stat_line (ascii ''tx_bytes'') 300, plain_param)"
  by code_simp

text \<open>The size of the strings is computed in 32 bits: for 2 to the 29 strings of 8 bytes it is 0, and what the driver stores leaves the buffer.\<close>

lemma many_strings_overflow:
  "get_stringset plain_tool (\<lambda>_. True) (plain_driver\<lparr>drv_gsset_info := (\<lambda>m s. (Some (m, 0x20000000), s))\<rparr>) 1 plain_param = UB"
  by code_simp

end
