(* ===== verification/Spec2Isabelle.thy ===== *)
theory Spec2Isabelle
  imports Avtp Msrp Acmp_Props Acmp_Talker Acmp_Invariant Acmp_Init Adp_Props Aecp_Props Avdecc_Props Listener_Props Talker_Frames Mrpdummy_Props Launcher_Config_Props Launcher_Command_Props Launcher_Network_Props Launcher_Maap_Props Launcher_Stream_Props Launcher_Props Avdecc_Entity_Examples Avbtool_Props
begin

text \<open>
  A verification library for the AVB applications of the R-Car platform: the programs and
  libraries under \<open>src/avb-demoapps\<close> and the driver tool under \<open>src/avbtool\<close>. File names below are
  relative to \<open>src/avb-demoapps\<close>.

  \<^bold>\<open>The program\<close>

  The launcher (\<open>avblauncher\<close>) reads one configuration file for every stream, checks it, starts the
  daemons for time, reservation and addresses, joins the networks, reserves multicast addresses,
  and runs a thread for every context. A thread waits for the clock, creates the AVDECC entity
  (\<open>lib/avdecc\<close>) when one is asked for, starts the application with the words of its command
  replaced, holds the reservation of the stream with the program \<open>mrpdummy\<close>, and takes everything
  down in the end. The applications are the simple talker and the simple listener (\<open>demo/simple\<close>):
  they move frames (\<open>lib/avtp\<close>) between a file and the queue of the Ethernet AVB driver (\<open>lib/eavb\<close>,
  \<open>demo/common\<close>) and reserve the stream through the SRP client (\<open>lib/msrp\<close>). The AVDECC entity is
  one thread around one lock, which answers discovery (\<open>adp.c\<close>), connection (\<open>acmp.c\<close>) and
  enumeration (\<open>aecp.c\<close>) frames; its descriptors come from a YAML file (\<open>avdecc_entity.c\<close>). The
  tool \<open>avbtool\<close> sets and shows the parameters of the driver; the application scripts call it with
  the stream identifier that the launcher printed.

  \<^bold>\<open>Theories and sources\<close>

  \<^item> \<open>Avb_Prelude\<close>: machine integers as words, the byte order of the host, memory as a list of
    bytes with checked access, and the result of C code: \<open>Returns\<close> a value, \<open>UB\<close> for undefined
    behaviour, \<open>NoReturn\<close>. \<open>Cstring\<close>: the C library calls on strings and numbers that the text
    protocols use. \<open>Byte_Field\<close>: the locale of a field in memory, with getter and setter laws.
  \<^item> \<open>Avtp\<close>: \<open>lib/avtp/avtp.h\<close>, \<open>avtp.c\<close>, \<open>demo/simple/packet.c\<close>. Every accessor of a header is an
    interpretation of \<open>byte_field\<close>, pairs of accessors are interpretations of \<open>disjoint_fields\<close>.
  \<^item> \<open>Mrpdhelper\<close>, \<open>Msrp\<close>: \<open>lib/msrp/mrpdhelper.c\<close> (notifications parsed into a union of bytes),
    \<open>mrpdclient.c\<close> and \<open>msrp.c\<close>. The context is a record with the device table; \<open>msg_process\<close> is one
    datagram, \<open>monitor_loop\<close> the thread. The table is an interpretation of \<open>counted_registry\<close>.
  \<^item> \<open>Jdks\<close>, \<open>Jdks_Aem\<close>: what is used of the jdksavdecc-c package, as records of functions.
    \<open>Avdecc_Common\<close>: \<open>avdecc_internal.h\<close> and \<open>common.c\<close>; the context with the entity, its tables of
    streams, the in-flight commands and a heap for the linked lists of listeners.
  \<^item> \<open>Adp\<close>, \<open>Acmp\<close>, \<open>Acmp_Init\<close>, \<open>Aecp\<close>: one function for every handler of \<open>adp.c\<close>, \<open>acmp.c\<close>,
    \<open>aecp.c\<close>, on the context and the frames to send. \<open>Avdecc\<close>: \<open>avdecc.c\<close>, the thread, its lock, the
    creation and release of a context and the setters of the applications.
  \<^item> \<open>Entity_Tables\<close>, \<open>Avdecc_Entity\<close>: \<open>avdecc_entity.c\<close>. The tables of keys, the reader as a function
    over the tokens of the YAML library, the values, and the numbering of the descriptors. Here a
    descriptor is the bytes of its union; the theories of the protocols see its decoded fields.
  \<^item> \<open>Eavb\<close>, \<open>Eavb_Device\<close>, \<open>Eavb_Ring\<close>: \<open>lib/eavb/eavb.c\<close>, \<open>demo/common/eavb_device.c\<close>. The entries of a
    device as a ring, copied to the write buffer and from the read buffer in at most two parts; the locale \<open>entry_ring\<close> states the
    contract of push and take as a queue and is interpreted on the device.
  \<^item> \<open>Stream_Utils\<close>, \<open>Stream_App\<close>, \<open>Simple_Talker\<close>, \<open>Simple_Listener\<close>: \<open>demo/common/clock.c\<close>,
    \<open>stats.c\<close>, \<open>netif_util.c\<close>, \<open>demo/simple/simple_talker.c\<close>, \<open>simple_listener.c\<close>.
  \<^item> \<open>Mrpdummy\<close>: \<open>mrpdummy/mrpdummy.c\<close>. \<open>Inih\<close>: \<open>avblauncher/inih/ini.c\<close>.
  \<^item> \<open>Launcher_Config\<close>, \<open>Launcher_Command\<close>, \<open>Launcher_Network\<close>, \<open>Launcher_Maap\<close>, \<open>Launcher_Stream\<close>,
    \<open>Launcher\<close>: \<open>avblauncher/avblauncher.c\<close> in the order settings and checks, the application
    command, processes with VLANs and domains, the client of the MAAP daemon, the thread of a
    context, the main program.
  \<^item> \<open>Avbtool\<close>: \<open>avbtool/avbtool.c\<close>.

  A theory \<open>X_Props\<close> (and \<open>Acmp_Talker\<close>, \<open>Acmp_Invariant\<close>, \<open>Talker_Frames\<close>, \<open>Avdecc_Entity_Examples\<close>) holds
  the properties of the component \<open>X\<close>; the shared properties of \<open>Avtp\<close> and \<open>Msrp\<close> stand with them.

  \<^bold>\<open>What the theorems show\<close>

  \<^item> Frames: fields of a header do not disturb each other, a built header has the layout of the
    standard, the frames a talker counts carry the bytes it read, and a listener writes exactly the
    payloads of the frames it took. The ring with the queue of the driver is one queue of pages.
  \<^item> Reservation: for every datagram the parsers stay inside their buffers; the announcement of a
    listener is parsed to what was announced; the count of listeners is right in every reachable
    state; what is declared fits its buffer and is withdrawn on every way out.
  \<^item> AVDECC: in every reachable state the in-flight table and the stream tables keep their shape; a
    connection is made, retried and reported as the standard says; the linked list of listeners
    refines an abstract list; announcements are sent exactly when they are due; the lock is free
    after success and kept after a failure, which is why the launcher can hang.
  \<^item> Entity: a well formed file is read into exactly the entity it describes; every descriptor gets
    its number; a file with a syntax error is read for ever.
  \<^item> Launcher: accepted contexts are valid; a written configuration is read back; the application
    command is the expansion of its words; the command lines of the launcher are parsed by the
    reservation program to what the launcher meant; what was joined, reserved and mapped is given
    back; a context without its daemon stops the launcher.
  \<^item> Where the code differs from what it means to do, a lemma states the behaviour it has, such as
    \<open>disconnect_of_tail_leaves_dangling_link\<close>, \<open>indexed_connection_query_never_returns\<close>,
    \<open>longer_fallback_overflows\<close>, \<open>wrong_strings\<close>.

  \<^bold>\<open>Bounds, loops and parameters\<close>

  Loops over data are structural recursions over it. Loops that retry have the bound of the code
  (five attempts of the MAAP client and of the clock) or a measure (\<open>convert_loop\<close>: the characters
  left). The walks over linked lists take one more than the number of cells ever allocated as fuel:
  a longer walk has met a cell twice and is \<open>NoReturn\<close>; the walk that the code never ends has a
  theorem for every fuel. Loops that wait for the world run over the list of the
  events that come (datagrams, frames, rounds of the driver, tokens); when the list ends before the
  loop does, the result is that the program still waits, \<open>NoReturn\<close> where nothing else can be said,
  and the theorems that a loop ends say so for every list that has the ending event.

  Parameters, with what is asked of them as named hypotheses: the answers of the driver and of system
  calls, the time, the formats and layouts of jdksavdecc-c (an empty submodule of the
  repository), the tokens of the YAML library, and the shell that splits a command. Every property
  with such a hypothesis has a witness with the parameter given in full.

  \<^bold>\<open>Not modelled\<close>

  Debug output, usage and version texts of the applications, the installation of signal handlers
  (the flag they set is an event), and the options of \<open>getopt_long\<close>, which come as a list; the texts
  that \<open>stats_report\<close> prints, which are rounded floating point numbers; the names of tokens for
  debugging (\<open>yaml_token_type_to_string\<close>); the declarations of the daemons' headers that no code here
  reads (\<open>mrpd.h\<close>, \<open>ipcdef.hpp\<close>, \<open>ptptypes.hpp\<close>); the daemons themselves and jdksavdecc-c, whose
  sources are not in the repository. Threads are interleaved where they meet at the lock of the
  AVDECC context; the table of listeners, which \<open>msrp.c\<close> shares between two threads without a lock,
  is taken as changed between two looks and never during one.
\<close>

end
